(* ===== verification/Js_Prelude.thy ===== *)
theory Js_Prelude
  imports Complex_Main
begin

text \<open>
  What the components share: the JavaScript values that reach the error classifiers and the
  response sanitizer (\<open>jsval\<close>), property reads, truthiness, \<open>||\<close> and \<open>??\<close>, class membership of
  thrown objects, the string helpers the sources call (\<open>startsWith\<close>, \<open>endsWith\<close>, \<open>includes\<close>,
  \<open>split\<close>, \<open>trim\<close>, \<open>toLowerCase\<close>), and the generic lemmas on association lists, first-match
  searches and de-duplication.

  A JavaScript string is a list of UTF-16 code units; here it is a HOL \<open>string\<close>, so a code unit
  is a \<open>char\<close> (0 to 255) and \<open>toLowerCase\<close> and \<open>trim\<close> are the ECMAScript functions on that range.
  The theories on download metadata and on locales use code-unit lists of type \<open>nat list\<close> instead,
  because there the units above 255 matter.

  A JavaScript number is a rational or one of the three non-finite values. An object carries the
  class it was constructed with, since the sources test \<open>instanceof\<close>, and its own enumerable
  properties in insertion order.
\<close>

section \<open>Fact collections\<close>

named_theorems js_simps
named_theorems scope_simps
named_theorems lifecycle_simps
named_theorems turn_simps

section \<open>JavaScript values\<close>

datatype jsnum = Fin rat | NaN | PosInf | NegInf

datatype jsclass =
    PlainObject
  | ErrorClass
  | TypeErrorClass
  | DOMExceptionClass
  | SessionDeletionErrorClass
  | RequestAbortedErrorClass
  | RequestDeadlineErrorClass
  | ClientContractErrorClass
  | PermissionRequiredErrorClass
  | AuditDownloadErrorClass
  | RoleSaveErrorClass

datatype jsval =
    JUndefined
  | JNull
  | JBool bool
  | JNum jsnum
  | JStr string
  | JArr "jsval list"
  | JObj jsclass "(string \<times> jsval) list"

type_synonym 'a outcome = "jsval + 'a"
  \<comment> \<open>\<open>Inl v\<close>: the code threw \<open>v\<close> (a rejected promise); \<open>Inr r\<close>: it returned \<open>r\<close>.\<close>

abbreviation jint :: "int \<Rightarrow> jsval" where
  "jint i \<equiv> JNum (Fin (of_int i))"

abbreviation plain :: "(string \<times> jsval) list \<Rightarrow> jsval" where
  "plain fs \<equiv> JObj PlainObject fs"

fun truthy :: "jsval \<Rightarrow> bool" where
  "truthy JUndefined = False"
| "truthy JNull = False"
| "truthy (JBool b) = b"
| "truthy (JNum (Fin r)) = (r \<noteq> 0)"
| "truthy (JNum NaN) = False"
| "truthy (JNum PosInf) = True"
| "truthy (JNum NegInf) = True"
| "truthy (JStr s) = (s \<noteq> [])"
| "truthy (JArr xs) = True"
| "truthy (JObj c fs) = True"

fun nullish :: "jsval \<Rightarrow> bool" where
  "nullish JUndefined = True"
| "nullish JNull = True"
| "nullish v = False"

text \<open>\<open>typeof v === 'object'\<close> (which holds of \<open>null\<close> and of arrays).\<close>

fun typeof_object :: "jsval \<Rightarrow> bool" where
  "typeof_object JNull = True"
| "typeof_object (JArr xs) = True"
| "typeof_object (JObj c fs) = True"
| "typeof_object v = False"

fun typeof_string :: "jsval \<Rightarrow> bool" where
  "typeof_string (JStr s) = True"
| "typeof_string v = False"

text \<open>
  Property read \<open>v.k\<close> for the keys the sources read. Reading a property of a primitive, or of an
  array, gives \<open>undefined\<close> for those keys. The sources read properties of \<open>null\<close> and \<open>undefined\<close>
  through \<open>?.\<close> only, or after a guard, and \<open>?.\<close> gives \<open>undefined\<close> there.
\<close>

fun js_get :: "jsval \<Rightarrow> string \<Rightarrow> jsval" where
  "js_get (JObj c fs) k = (case map_of fs k of Some v \<Rightarrow> v | None \<Rightarrow> JUndefined)"
| "js_get v k = JUndefined"

text \<open>\<open>k in v\<close> for an object \<open>v\<close>.\<close>

fun js_has :: "jsval \<Rightarrow> string \<Rightarrow> bool" where
  "js_has (JObj c fs) k = (k \<in> set (map fst fs))"
| "js_has v k = False"

definition js_or :: "jsval \<Rightarrow> jsval \<Rightarrow> jsval" where
  "js_or a b = (if truthy a then a else b)"

definition js_nullish :: "jsval \<Rightarrow> jsval \<Rightarrow> jsval" where
  "js_nullish a b = (if nullish a then b else a)"

fun js_class :: "jsval \<Rightarrow> jsclass option" where
  "js_class (JObj c fs) = Some c"
| "js_class v = None"

text \<open>
  \<open>v instanceof C\<close>. Every class of the sources extends \<open>Error\<close> directly, and so do \<open>TypeError\<close> and
  \<open>DOMException\<close>.
\<close>

definition js_instanceof :: "jsval \<Rightarrow> jsclass \<Rightarrow> bool" where
  "js_instanceof v c =
     (case js_class v of
        None \<Rightarrow> False
      | Some d \<Rightarrow> (if c = ErrorClass then d \<noteq> PlainObject
                   else if c = PlainObject then True else d = c))"

text \<open>\<open>new Error(message)\<close> and its subclasses: \<open>message\<close> and \<open>name\<close> are what the sources read.\<close>

definition new_error :: "jsclass \<Rightarrow> string \<Rightarrow> string \<Rightarrow> jsval" where
  "new_error c name message = JObj c [(''name'', JStr name), (''message'', JStr message)]"

lemma js_instanceof_simps [simp]:
  "js_instanceof (JObj d fs) c =
     (if c = ErrorClass then d \<noteq> PlainObject else c = PlainObject \<or> d = c)"
  "\<not> js_instanceof JUndefined c" "\<not> js_instanceof JNull c" "\<not> js_instanceof (JBool b) c"
  "\<not> js_instanceof (JNum n) c" "\<not> js_instanceof (JStr s) c" "\<not> js_instanceof (JArr xs) c"
  by (auto simp: js_instanceof_def)

lemmas js_value_defs [js_simps] = js_or_def js_nullish_def new_error_def

section \<open>Strings\<close>

definition starts_with :: "'a list \<Rightarrow> 'a list \<Rightarrow> bool" where
  "starts_with s p = (take (length p) s = p)"

definition ends_with :: "'a list \<Rightarrow> 'a list \<Rightarrow> bool" where
  "ends_with s p = (length p \<le> length s \<and> drop (length s - length p) s = p)"

fun str_includes :: "'a list \<Rightarrow> 'a list \<Rightarrow> bool" where
  "str_includes [] p = (p = [])"
| "str_includes (c # s) p = (starts_with (c # s) p \<or> str_includes s p)"

text \<open>\<open>s.split(d)\<close> for a one-unit separator \<open>d\<close>.\<close>

fun split_on :: "'a \<Rightarrow> 'a list \<Rightarrow> 'a list list" where
  "split_on d [] = [[]]"
| "split_on d (c # s) =
     (if c = d then [] # split_on d s
      else (case split_on d s of [] \<Rightarrow> [[c]] | w # ws \<Rightarrow> (c # w) # ws))"

fun join_with :: "'a list \<Rightarrow> 'a list list \<Rightarrow> 'a list" where
  "join_with d [] = []"
| "join_with d [w] = w"
| "join_with d (w # v # ws) = w @ d @ join_with d (v # ws)"

text \<open>\<open>String(n)\<close> for a natural number.\<close>

fun nat_to_string :: "nat \<Rightarrow> string" where
  "nat_to_string n =
     (if n < 10 then [char_of (48 + n)]
      else nat_to_string (n div 10) @ [char_of (48 + n mod 10)])"

declare nat_to_string.simps [simp del]

lemma digit_char: "d < 10 \<Longrightarrow> char_of (48 + d) \<in> set ''0123456789'' \<and> of_char (char_of (48 + d) :: char) = 48 + (d :: nat)"
proof -
  assume "d < 10"
  then have "d = 0 \<or> d = 1 \<or> d = 2 \<or> d = 3 \<or> d = 4 \<or> d = 5 \<or> d = 6 \<or> d = 7 \<or> d = 8 \<or> d = 9" by arith
  then show ?thesis by (elim disjE; simp add: char_of_def bit_simps)
qed

lemma nat_to_string_digits: "set (nat_to_string n) \<subseteq> set ''0123456789''"
proof (induction n rule: nat_to_string.induct)
  case (1 n)
  then show ?case
    using digit_char [of n] digit_char [of "n mod 10"] by (subst nat_to_string.simps) (simp split: if_splits)
qed

lemma nat_to_string_nonempty [simp]: "nat_to_string n \<noteq> []"
  by (subst nat_to_string.simps) simp

definition digits_value :: "string \<Rightarrow> nat" where
  "digits_value s = foldl (\<lambda>n c. n * 10 + (of_char c - 48)) 0 s"

lemma digits_value_nat_to_string: "digits_value (nat_to_string n) = n"
proof (induction n rule: nat_to_string.induct)
  case (1 n)
  then show ?case
    using digit_char [of n] digit_char [of "n mod 10"]
    by (subst nat_to_string.simps) (auto simp: digits_value_def)
qed

lemma nat_to_string_inject [simp]: "nat_to_string m = nat_to_string n \<longleftrightarrow> m = n"
  by (metis digits_value_nat_to_string)


definition latin1_space :: "char \<Rightarrow> bool" where
  "latin1_space c = (of_char c \<in> {9, 10, 11, 12, 13, 32, 160 :: nat})"

definition js_trim :: "string \<Rightarrow> string" where
  "js_trim s = rev (dropWhile latin1_space (rev (dropWhile latin1_space s)))"

definition latin1_lower :: "char \<Rightarrow> char" where
  "latin1_lower c =
     (let n = of_char c :: nat in
      if 65 \<le> n \<and> n \<le> 90 then char_of (n + 32)
      else if 192 \<le> n \<and> n \<le> 222 \<and> n \<noteq> 215 then char_of (n + 32) else c)"

definition js_lower :: "string \<Rightarrow> string" where
  "js_lower s = map latin1_lower s"

lemma split_on_not_Nil [simp]: "split_on d s \<noteq> []"
  by (cases s) (auto split: list.splits)

lemma split_on_no_sep:
  "w \<in> set (split_on d s) \<Longrightarrow> d \<notin> set w"
  by (induction s arbitrary: w) (auto split: list.splits if_splits)

lemma join_split_on: "join_with [d] (split_on d s) = s"
proof (induction s)
  case Nil
  show ?case by simp
next
  case (Cons c s)
  obtain w ws where sp: "split_on d s = w # ws"
    by (cases "split_on d s") auto
  from Cons sp show ?case
    by (cases ws) auto
qed

lemma split_on_free: "d \<notin> set w \<Longrightarrow> split_on d w = [w]"
  by (induction w) auto

lemma split_on_sep: "d \<notin> set w \<Longrightarrow> split_on d (w @ d # x) = w # split_on d x"
  by (induction w) auto

lemma split_join_on:
  "ws \<noteq> [] \<Longrightarrow> (\<And>w. w \<in> set ws \<Longrightarrow> d \<notin> set w) \<Longrightarrow> split_on d (join_with [d] ws) = ws"
proof (induction "[d]" ws rule: join_with.induct)
  case (3 w v ws)
  then show ?case by (simp add: split_on_sep)
qed (auto simp: split_on_free)

lemma first_sep_unique:
  assumes "d \<notin> set w" and "d \<notin> set v" and "w @ d # x = v @ d # y"
  shows "w = v \<and> x = y"
proof -
  from assms have "w # split_on d x = v # split_on d y" by (metis split_on_sep)
  then have "w = v" by simp
  with assms(3) show ?thesis by simp
qed

lemma last_sep_unique:
  assumes "d \<notin> set x" and "d \<notin> set y" and "w @ d # x = v @ d # y"
  shows "w = v \<and> x = y"
proof -
  from assms(3) have "rev x @ d # rev w = rev y @ d # rev v"
    by (metis append_Cons append_Nil append_assoc rev.simps(2) rev_append)
  with assms(1,2) first_sep_unique [of d "rev x" "rev y" "rev w" "rev v"] show ?thesis by simp
qed

lemma ends_with_append [simp]: "ends_with (a @ b) b"
  by (simp add: ends_with_def)

lemma starts_with_append [simp]: "starts_with (a @ b) a"
  by (simp add: starts_with_def)

section \<open>Searches and de-duplication\<close>

text \<open>\<open>xs.find(p)\<close>.\<close>

fun find_first :: "('a \<Rightarrow> bool) \<Rightarrow> 'a list \<Rightarrow> 'a option" where
  "find_first p [] = None"
| "find_first p (x # xs) = (if p x then Some x else find_first p xs)"

lemma find_first_Some: "find_first p xs = Some x \<Longrightarrow> x \<in> set xs \<and> p x"
  by (induction xs) (auto split: if_splits)

lemma find_first_None: "find_first p xs = None \<longleftrightarrow> (\<forall>x \<in> set xs. \<not> p x)"
  by (induction xs) auto

text \<open>The first elements of their key, in order: the reference for the two de-duplicating loops.\<close>

definition firsts_by :: "('a \<Rightarrow> 'k) \<Rightarrow> 'a list \<Rightarrow> 'a list" where
  "firsts_by key xs = rev (foldl (\<lambda>acc x. if key x \<in> key ` set acc then acc else x # acc) [] xs)"

lemma firsts_by_snoc:
  "firsts_by key (xs @ [x]) =
     firsts_by key xs @ (if key x \<in> key ` set (firsts_by key xs) then [] else [x])"
  by (simp add: firsts_by_def)

lemma firsts_by_Nil [simp]: "firsts_by key [] = []"
  by (simp add: firsts_by_def)

lemma firsts_by_keys: "key ` set (firsts_by key xs) = key ` set xs"
  by (induction xs rule: rev_induct) (auto simp: firsts_by_snoc)

lemma firsts_by_subset: "set (firsts_by key xs) \<subseteq> set xs"
  by (induction xs rule: rev_induct) (auto simp: firsts_by_snoc)

lemma firsts_by_distinct: "distinct (map key (firsts_by key xs))"
  by (induction xs rule: rev_induct) (auto simp: firsts_by_snoc)

lemma find_first_append:
  "find_first p (xs @ ys) = (case find_first p xs of None \<Rightarrow> find_first p ys | Some x \<Rightarrow> Some x)"
  by (induction xs) auto

lemma firsts_by_find:
  "find_first (\<lambda>x. key x = k) (firsts_by key xs) = find_first (\<lambda>x. key x = k) xs"
proof (induction xs rule: rev_induct)
  case Nil
  show ?case by simp
next
  case (snoc x xs)
  show ?case
  proof (cases "key x \<in> key ` set (firsts_by key xs)")
    case True
    then show ?thesis
      using snoc firsts_by_keys [of key xs] find_first_None [of "\<lambda>x. key x = k" xs]
      by (auto simp: firsts_by_snoc find_first_append split: option.splits)
  next
    case False
    then show ?thesis
      using snoc by (simp add: firsts_by_snoc find_first_append)
  qed
qed

section \<open>Association lists\<close>

lemma map_of_map_filter_keys:
  "map_of (filter (\<lambda>(k, v). P k) fs) k = (if P k then map_of fs k else None)"
  by (induction fs) auto

lemma map_of_None_iff_keys: "map_of fs k = None \<longleftrightarrow> k \<notin> set (map fst fs)"
  by (simp add: map_of_eq_None_iff)

end
