(* ===== verification/Permissions.thy ===== *)
theory Permissions
  imports Js_Prelude "HOL-Library.Multiset"
begin

text \<open>
  Permissions, protected routes and the authorization signals of \<open>frontend/src/auth\<close>, with the
  route guards of \<open>App.tsx\<close> and \<open>PermissionGuard.tsx\<close> and the permission gate of
  \<open>hooks/usePermission.ts\<close>. The signed-in user is an option (\<open>null\<close> and \<open>undefined\<close> behave alike
  under \<open>?.\<close>), and so is its permission list.
\<close>

section \<open>Permissions and the route catalog (permissions.ts)\<close>

datatype Permission =
    QUERY_SUBMIT
  | QUERY_HISTORY_VIEW
  | ADMIN_CONNECTIONS_MANAGE
  | ADMIN_ROLES_MANAGE
  | ADMIN_SSO_MANAGE
  | ADMIN_AUDIT_VERIFY
  | ADMIN_QUOTAS_MANAGE
  | ADMIN_SECURITY_MANAGE

fun PERMISSIONS :: "Permission \<Rightarrow> string" where
  "PERMISSIONS QUERY_SUBMIT = ''query.submit''"
| "PERMISSIONS QUERY_HISTORY_VIEW = ''query.history.view''"
| "PERMISSIONS ADMIN_CONNECTIONS_MANAGE = ''admin.connections.manage''"
| "PERMISSIONS ADMIN_ROLES_MANAGE = ''admin.roles.manage''"
| "PERMISSIONS ADMIN_SSO_MANAGE = ''admin.sso.manage''"
| "PERMISSIONS ADMIN_AUDIT_VERIFY = ''admin.audit.verify''"
| "PERMISSIONS ADMIN_QUOTAS_MANAGE = ''admin.quotas.manage''"
| "PERMISSIONS ADMIN_SECURITY_MANAGE = ''admin.security.manage''"

datatype ProtectedRoutePath =
    RootPath
  | HistoryPath
  | SettingsPath
  | AdminConnectionsPath
  | AdminRolesPath
  | AdminSsoPath
  | AdminAuditPath
  | AdminQuotasPath
  | AdminDetectionPath

fun route_path_string :: "ProtectedRoutePath \<Rightarrow> string" where
  "route_path_string RootPath = ''/''"
| "route_path_string HistoryPath = ''/history''"
| "route_path_string SettingsPath = ''/settings''"
| "route_path_string AdminConnectionsPath = ''/admin/connections''"
| "route_path_string AdminRolesPath = ''/admin/roles''"
| "route_path_string AdminSsoPath = ''/admin/sso''"
| "route_path_string AdminAuditPath = ''/admin/audit''"
| "route_path_string AdminQuotasPath = ''/admin/quotas''"
| "route_path_string AdminDetectionPath = ''/admin/detection''"

record RouteNavigation =
  nav_id :: string
  nav_labelKey :: string

record PermissionRouteDefinition =
  path :: ProtectedRoutePath
  landingOrder :: "nat option"
  navigation :: "RouteNavigation option"

record PermissionCatalogEntry =
  entry_permission :: Permission
  labelKey :: string
  descriptionKey :: string
  routes :: "PermissionRouteDefinition list"

definition PERMISSION_CATALOG :: "PermissionCatalogEntry list" where
  "PERMISSION_CATALOG =
    [\<lparr>entry_permission = QUERY_SUBMIT,
      labelKey = ''admin.roles.permissions.query.submit'',
      descriptionKey = ''admin.roles.permissions.query.submit.desc'',
      routes = [\<lparr>path = RootPath, landingOrder = Some 0,
                 navigation = Some \<lparr>nav_id = ''new-chat'', nav_labelKey = ''sidebar.newChat''\<rparr>\<rparr>]\<rparr>,
     \<lparr>entry_permission = QUERY_HISTORY_VIEW,
      labelKey = ''admin.roles.permissions.query.history.view'',
      descriptionKey = ''admin.roles.permissions.query.history.view.desc'',
      routes = [\<lparr>path = HistoryPath, landingOrder = Some 1,
                 navigation = Some \<lparr>nav_id = ''history'', nav_labelKey = ''nav.history''\<rparr>\<rparr>]\<rparr>,
     \<lparr>entry_permission = ADMIN_CONNECTIONS_MANAGE,
      labelKey = ''admin.roles.permissions.admin.connections.manage'',
      descriptionKey = ''admin.roles.permissions.admin.connections.manage.desc'',
      routes = [\<lparr>path = SettingsPath, landingOrder = None,
                 navigation = Some \<lparr>nav_id = ''settings'', nav_labelKey = ''nav.settings''\<rparr>\<rparr>,
                \<lparr>path = AdminConnectionsPath, landingOrder = Some 2,
                 navigation = Some \<lparr>nav_id = ''connections'', nav_labelKey = ''nav.adminConnections''\<rparr>\<rparr>]\<rparr>,
     \<lparr>entry_permission = ADMIN_ROLES_MANAGE,
      labelKey = ''admin.roles.permissions.admin.roles.manage'',
      descriptionKey = ''admin.roles.permissions.admin.roles.manage.desc'',
      routes = [\<lparr>path = AdminRolesPath, landingOrder = Some 3,
                 navigation = Some \<lparr>nav_id = ''roles'', nav_labelKey = ''nav.adminRoles''\<rparr>\<rparr>]\<rparr>,
     \<lparr>entry_permission = ADMIN_SSO_MANAGE,
      labelKey = ''admin.roles.permissions.admin.sso.manage'',
      descriptionKey = ''admin.roles.permissions.admin.sso.manage.desc'',
      routes = [\<lparr>path = AdminSsoPath, landingOrder = Some 4,
                 navigation = Some \<lparr>nav_id = ''sso'', nav_labelKey = ''nav.adminSso''\<rparr>\<rparr>]\<rparr>,
     \<lparr>entry_permission = ADMIN_AUDIT_VERIFY,
      labelKey = ''admin.roles.permissions.admin.audit.verify'',
      descriptionKey = ''admin.roles.permissions.admin.audit.verify.desc'',
      routes = [\<lparr>path = AdminAuditPath, landingOrder = Some 5,
                 navigation = Some \<lparr>nav_id = ''audit'', nav_labelKey = ''nav.adminAudit''\<rparr>\<rparr>]\<rparr>,
     \<lparr>entry_permission = ADMIN_QUOTAS_MANAGE,
      labelKey = ''admin.roles.permissions.admin.quotas.manage'',
      descriptionKey = ''admin.roles.permissions.admin.quotas.manage.desc'',
      routes = [\<lparr>path = AdminQuotasPath, landingOrder = Some 6,
                 navigation = Some \<lparr>nav_id = ''quotas'', nav_labelKey = ''nav.adminQuotas''\<rparr>\<rparr>]\<rparr>,
     \<lparr>entry_permission = ADMIN_SECURITY_MANAGE,
      labelKey = ''admin.roles.permissions.admin.security.manage'',
      descriptionKey = ''admin.roles.permissions.admin.security.manage.desc'',
      routes = [\<lparr>path = AdminDetectionPath, landingOrder = Some 7,
                 navigation = Some \<lparr>nav_id = ''detection'', nav_labelKey = ''detection.page_title''\<rparr>\<rparr>]\<rparr>]"

text \<open>\<open>{ ...route, permission }\<close>.\<close>

record ProtectedRoute = PermissionRouteDefinition +
  permission :: Permission

definition with_permission :: "Permission \<Rightarrow> PermissionRouteDefinition \<Rightarrow> ProtectedRoute" where
  "with_permission p r = PermissionRouteDefinition.extend r \<lparr>permission = p\<rparr>"

definition PROTECTED_ROUTE_CATALOG :: "ProtectedRoute list" where
  "PROTECTED_ROUTE_CATALOG =
     concat (map (\<lambda>e. map (with_permission (entry_permission e)) (routes e)) PERMISSION_CATALOG)"

definition NAVIGATION_CATALOG :: "ProtectedRoute list" where
  "NAVIGATION_CATALOG = filter (\<lambda>route. navigation route \<noteq> None) PROTECTED_ROUTE_CATALOG"

record PermissionBearingUser =
  permissions :: "string list option"

definition hasPermission :: "PermissionBearingUser option \<Rightarrow> Permission \<Rightarrow> bool" where
  "hasPermission user p =
     (case user of
        None \<Rightarrow> False
      | Some u \<Rightarrow> (case permissions u of None \<Rightarrow> False | Some ps \<Rightarrow> PERMISSIONS p \<in> set ps))"

definition knownPermissions :: "string list" where
  "knownPermissions = map (PERMISSIONS \<circ> entry_permission) PERMISSION_CATALOG"

definition isKnownPermission :: "string \<Rightarrow> bool" where
  "isKnownPermission p = (p \<in> set knownPermissions)"

text \<open>
  \<open>Array.prototype.sort\<close> is stable and so is \<open>sort_key\<close>; the comparator is the difference of the
  landing orders, which the filter before it guarantees to be present.
\<close>

definition landingRoutes :: "PermissionBearingUser option \<Rightarrow> ProtectedRoute list" where
  "landingRoutes user =
     sort_key (\<lambda>r. the (landingOrder r))
       (filter (\<lambda>route. landingOrder route \<noteq> None \<and> hasPermission user (permission route))
          PROTECTED_ROUTE_CATALOG)"

definition firstPermittedRoute :: "PermissionBearingUser option \<Rightarrow> ProtectedRoutePath option" where
  "firstPermittedRoute user =
     (case landingRoutes user of [] \<Rightarrow> None | r # _ \<Rightarrow> Some (path r))"

section \<open>The permission gate of the hooks (usePermission.ts)\<close>

text \<open>
  \<open>usePermission\<close> reads the exposed current-user response, whose data may be absent.
\<close>

definition usePermission :: "PermissionBearingUser option \<Rightarrow> Permission \<Rightarrow> bool" where
  "usePermission data p = hasPermission data p"

definition useAnyPermission :: "PermissionBearingUser option \<Rightarrow> Permission list \<Rightarrow> bool" where
  "useAnyPermission data ps = list_ex (\<lambda>p. hasPermission data p) ps"

definition PermissionRequiredError :: "Permission \<Rightarrow> jsval" where
  "PermissionRequiredError p =
     JObj PermissionRequiredErrorClass
       [(''name'', JStr ''PermissionRequiredError''),
        (''message'', JStr (''Permission required: '' @ PERMISSIONS p)),
        (''code'', JStr ''permission_required''),
        (''permission'', JStr (PERMISSIONS p))]"

definition requirePermission :: "bool \<Rightarrow> Permission \<Rightarrow> unit outcome" where
  "requirePermission granted p = (if \<not> granted then Inl (PermissionRequiredError p) else Inr ())"

section \<open>Session expiry (sessionExpiry.ts)\<close>

definition http_status :: "jsval \<Rightarrow> int \<Rightarrow> bool" where
  "http_status v n = (v = jint n)"

definition isSessionExpiryError :: "jsval \<Rightarrow> bool" where
  "isSessionExpiryError err =
     (let isUnauthorizedPayload =
            js_get err ''error'' = JStr ''unauthorized'' \<and>
            js_get err ''message_key'' = JStr ''error.unauthorized''
      in http_status (js_get err ''status'') 401 \<or>
         http_status (js_get (js_get err ''response'') ''status'') 401 \<or>
         isUnauthorizedPayload)"

definition isPermissionDeniedError :: "jsval \<Rightarrow> bool" where
  "isPermissionDeniedError err =
     (http_status (js_get err ''status'') 403 \<or>
      http_status (js_get (js_get err ''response'') ''status'') 403)"

text \<open>
  The browser's location: its path and its query parameters in order. The two effects of
  \<open>handleSessionExpiry\<close>, \<open>history.replaceState\<close> and the \<open>popstate\<close> event that makes the router
  read it, are the new location.
\<close>

record browser_location =
  loc_pathname :: string
  loc_search :: "(string \<times> string) list"

definition handleSessionExpiry :: "jsval \<Rightarrow> string \<Rightarrow> browser_location \<Rightarrow> browser_location" where
  "handleSessionExpiry err sourcePath loc =
     (if \<not> isSessionExpiryError err \<or> sourcePath = ''/sign-in'' then loc
      else \<lparr>loc_pathname = ''/sign-in'', loc_search = [(''error'', ''session_expired'')]\<rparr>)"

definition sessionAwareSignInPath :: "browser_location \<Rightarrow> string" where
  "sessionAwareSignInPath loc =
     (if loc_pathname loc = ''/sign-in'' \<and> map_of (loc_search loc) ''error'' = Some ''session_expired''
      then ''/sign-in?error=session_expired'' else ''/sign-in'')"

section \<open>Authorization events (authorizationEvents.ts)\<close>

text \<open>
  The two module-level listener sets. A \<open>Set\<close> keeps insertion order and \<open>forEach\<close> visits its
  members in that order; a listener is its identity \<open>'l\<close>, and notifying gives the listeners called.
\<close>

record 'l authorization_listeners =
  sessionExpiryListeners :: "'l list"
  permissionDeniedListeners :: "'l list"

definition set_add :: "'l \<Rightarrow> 'l list \<Rightarrow> 'l list" where
  "set_add l ls = (if l \<in> set ls then ls else ls @ [l])"

definition notifySessionExpiry :: "'l authorization_listeners \<Rightarrow> 'l list" where
  "notifySessionExpiry s = sessionExpiryListeners s"

definition subscribeToSessionExpiry ::
    "'l \<Rightarrow> 'l authorization_listeners \<Rightarrow> 'l authorization_listeners" where
  "subscribeToSessionExpiry l s =
     s\<lparr>sessionExpiryListeners := set_add l (sessionExpiryListeners s)\<rparr>"

definition unsubscribeFromSessionExpiry ::
    "'l \<Rightarrow> 'l authorization_listeners \<Rightarrow> 'l authorization_listeners" where
  "unsubscribeFromSessionExpiry l s =
     s\<lparr>sessionExpiryListeners := removeAll l (sessionExpiryListeners s)\<rparr>"

definition notifyPermissionDenied :: "'l authorization_listeners \<Rightarrow> 'l list" where
  "notifyPermissionDenied s = permissionDeniedListeners s"

definition subscribeToPermissionDenied ::
    "'l \<Rightarrow> 'l authorization_listeners \<Rightarrow> 'l authorization_listeners" where
  "subscribeToPermissionDenied l s =
     s\<lparr>permissionDeniedListeners := set_add l (permissionDeniedListeners s)\<rparr>"

definition unsubscribeFromPermissionDenied ::
    "'l \<Rightarrow> 'l authorization_listeners \<Rightarrow> 'l authorization_listeners" where
  "unsubscribeFromPermissionDenied l s =
     s\<lparr>permissionDeniedListeners := removeAll l (permissionDeniedListeners s)\<rparr>"

section \<open>Route guards (App.tsx, PermissionGuard.tsx, SignInPage.tsx)\<close>

datatype page =
    WorkspacePage
  | HistoryPage
  | SettingsPage
  | AdminConnectionsPage
  | AdminRolesPage
  | AdminSsoPage
  | AdminAuditPage
  | AdminQuotasPage
  | AdminDetectionPage
  | AccessDeniedPage
  | SignInFormPage

text \<open>
  What a guard renders: the spinner, a redirect (with the \<open>verifiedAuthorizationKey\<close> it carries in
  the router state, if any) or a page.
\<close>

datatype view = Spinner | Navigate string "string option" | Render page

record current_user_view =
  isLoading :: bool
  user_data :: "PermissionBearingUser option"

record router_location =
  location_key :: string
  location_pathname :: string
  verifiedAuthorizationKey :: "string option"

definition AuthGuard :: "current_user_view \<Rightarrow> browser_location \<Rightarrow> view \<Rightarrow> view" where
  "AuthGuard cu bl children =
     (if isLoading cu then Spinner
      else if user_data cu = None then Navigate (sessionAwareSignInPath bl) None
      else children)"

definition PermissionGuard ::
    "current_user_view \<Rightarrow> browser_location \<Rightarrow> router_location \<Rightarrow> Permission \<Rightarrow> view \<Rightarrow> view" where
  "PermissionGuard cu bl rl p children =
     (if isLoading cu then Spinner
      else if user_data cu = None then Navigate (sessionAwareSignInPath bl) None
      else if \<not> hasPermission (user_data cu) p
      then Navigate ''/access-denied'' (Some (location_key rl @ '':'' @ location_pathname rl))
      else children)"

definition landing_target :: "PermissionBearingUser option \<Rightarrow> string" where
  "landing_target user =
     (case firstPermittedRoute user of Some p \<Rightarrow> route_path_string p | None \<Rightarrow> ''/access-denied'')"

definition RootRedirect :: "current_user_view \<Rightarrow> browser_location \<Rightarrow> view" where
  "RootRedirect cu bl =
     (if isLoading cu then Spinner
      else if user_data cu \<noteq> None then Navigate (landing_target (user_data cu)) None
      else Navigate (sessionAwareSignInPath bl) None)"

definition SignInPage :: "current_user_view \<Rightarrow> view" where
  "SignInPage cu =
     (if isLoading cu then Spinner
      else if user_data cu \<noteq> None then Navigate (landing_target (user_data cu)) None
      else Render SignInFormPage)"

fun protectedPageByPath :: "ProtectedRoutePath \<Rightarrow> page" where
  "protectedPageByPath RootPath = WorkspacePage"
| "protectedPageByPath HistoryPath = HistoryPage"
| "protectedPageByPath SettingsPath = SettingsPage"
| "protectedPageByPath AdminConnectionsPath = AdminConnectionsPage"
| "protectedPageByPath AdminRolesPath = AdminRolesPage"
| "protectedPageByPath AdminSsoPath = AdminSsoPage"
| "protectedPageByPath AdminAuditPath = AdminAuditPage"
| "protectedPageByPath AdminQuotasPath = AdminQuotasPage"
| "protectedPageByPath AdminDetectionPath = AdminDetectionPage"

text \<open>\<open>ProtectedLayout\<close> adds the shell and the error boundary around the children it is given.\<close>

definition ProtectedLayout ::
    "current_user_view \<Rightarrow> browser_location \<Rightarrow> router_location \<Rightarrow> Permission \<Rightarrow> view \<Rightarrow> view" where
  "ProtectedLayout cu bl rl p children = PermissionGuard cu bl rl p children"

definition authorizationKey :: "router_location \<Rightarrow> string" where
  "authorizationKey rl =
     (case verifiedAuthorizationKey rl of
        Some k \<Rightarrow> k
      | None \<Rightarrow> location_key rl @ '':'' @ location_pathname rl)"

text \<open>The route table, in the order of the \<open>Route\<close> elements, with what each element renders.\<close>

definition ApplicationRoutes ::
    "current_user_view \<Rightarrow> browser_location \<Rightarrow> router_location \<Rightarrow> (string \<times> view) list" where
  "ApplicationRoutes cu bl rl =
     [(''/sign-in'', SignInPage cu)] @
     map (\<lambda>r. (route_path_string (path r),
               ProtectedLayout cu bl rl (permission r) (Render (protectedPageByPath (path r)))))
       PROTECTED_ROUTE_CATALOG @
     [(''/access-denied'', AuthGuard cu bl (Render AccessDeniedPage)),
      (''*'', RootRedirect cu bl)]"

section \<open>Lemmas\<close>

lemma protected_routes_simps [simp]:
  "path (with_permission p r) = path r"
  "landingOrder (with_permission p r) = landingOrder r"
  "navigation (with_permission p r) = navigation r"
  "permission (with_permission p r) = p"
  by (simp_all add: with_permission_def PermissionRouteDefinition.defs ProtectedRoute.defs)

lemma PROTECTED_ROUTE_CATALOG_unfold:
  "map (\<lambda>r. (path r, landingOrder r, permission r)) PROTECTED_ROUTE_CATALOG =
    [(RootPath, Some 0, QUERY_SUBMIT), (HistoryPath, Some 1, QUERY_HISTORY_VIEW),
     (SettingsPath, None, ADMIN_CONNECTIONS_MANAGE),
     (AdminConnectionsPath, Some 2, ADMIN_CONNECTIONS_MANAGE),
     (AdminRolesPath, Some 3, ADMIN_ROLES_MANAGE), (AdminSsoPath, Some 4, ADMIN_SSO_MANAGE),
     (AdminAuditPath, Some 5, ADMIN_AUDIT_VERIFY), (AdminQuotasPath, Some 6, ADMIN_QUOTAS_MANAGE),
     (AdminDetectionPath, Some 7, ADMIN_SECURITY_MANAGE)]"
  by (simp add: PROTECTED_ROUTE_CATALOG_def PERMISSION_CATALOG_def)

lemma catalog_landing_route:
  "\<exists>r \<in> set PROTECTED_ROUTE_CATALOG. permission r = p \<and> landingOrder r \<noteq> None"
  by (cases p) (simp_all add: PROTECTED_ROUTE_CATALOG_def PERMISSION_CATALOG_def)

lemma set_landingRoutes:
  "r \<in> set (landingRoutes user) \<longleftrightarrow>
   r \<in> set PROTECTED_ROUTE_CATALOG \<and> landingOrder r \<noteq> None \<and> hasPermission user (permission r)"
  by (auto simp: landingRoutes_def)

lemma landingRoutes_sorted: "sorted (map (\<lambda>r. the (landingOrder r)) (landingRoutes user))"
  by (simp add: landingRoutes_def)

lemma protectedPageByPath_inj: "protectedPageByPath p = protectedPageByPath q \<Longrightarrow> p = q"
  by (cases p; cases q) simp_all

lemma protectedPageByPath_other [simp]:
  "protectedPageByPath p \<noteq> AccessDeniedPage" "protectedPageByPath p \<noteq> SignInFormPage"
  "AccessDeniedPage \<noteq> protectedPageByPath p" "SignInFormPage \<noteq> protectedPageByPath p"
  by (cases p; simp)+

lemma PermissionGuard_Render:
  "PermissionGuard cu bl rl p (Render pg) = Render pg' \<longleftrightarrow>
   \<not> isLoading cu \<and> hasPermission (user_data cu) p \<and> pg' = pg"
  by (auto simp: PermissionGuard_def hasPermission_def)

lemma SignInPage_Render: "SignInPage cu = Render pg \<Longrightarrow> pg = SignInFormPage"
  by (simp add: SignInPage_def split: if_splits)

lemma AuthGuard_Render: "AuthGuard cu bl (Render pg') = Render pg \<Longrightarrow> pg = pg'"
  by (simp add: AuthGuard_def split: if_splits)

lemma RootRedirect_Render: "RootRedirect cu bl \<noteq> Render pg"
  by (simp add: RootRedirect_def)

lemma ApplicationRoutes_Render:
  assumes "(pattern, Render pg) \<in> set (ApplicationRoutes cu bl rl)"
  shows "pg = SignInFormPage \<or> pg = AccessDeniedPage \<or>
    (\<exists>s \<in> set PROTECTED_ROUTE_CATALOG.
       PermissionGuard cu bl rl (permission s) (Render (protectedPageByPath (path s))) = Render pg)"
proof -
  from assms consider "SignInPage cu = Render pg"
    | "AuthGuard cu bl (Render AccessDeniedPage) = Render pg"
    | "RootRedirect cu bl = Render pg"
    | s where "s \<in> set PROTECTED_ROUTE_CATALOG"
        "PermissionGuard cu bl rl (permission s) (Render (protectedPageByPath (path s))) = Render pg"
    unfolding ApplicationRoutes_def ProtectedLayout_def
    by (simp only: set_append set_map set_simps Un_iff insert_iff empty_iff image_iff prod.inject)
       metis
  then show ?thesis
  proof cases
    case 1
    then show ?thesis by (simp add: SignInPage_Render)
  next
    case 2
    then show ?thesis by (simp add: AuthGuard_Render)
  next
    case 3
    then show ?thesis by (simp add: RootRedirect_Render)
  next
    case (4 s)
    then show ?thesis by blast
  qed
qed

lemma catalog_path_permission:
  "r \<in> set PROTECTED_ROUTE_CATALOG \<Longrightarrow> s \<in> set PROTECTED_ROUTE_CATALOG \<Longrightarrow>
   path r = path s \<Longrightarrow> permission r = permission s"
  by (auto simp: PROTECTED_ROUTE_CATALOG_def PERMISSION_CATALOG_def)

section \<open>Properties\<close>

text \<open>
  C7. The route table renders the page of a protected route exactly when the current user has been
  loaded and holds the permission the catalog names for that route; in every other state the element
  of the route is the spinner or a redirect.
\<close>

theorem protected_page_needs_permission:
  assumes "r \<in> set PROTECTED_ROUTE_CATALOG"
  shows "(\<exists>pattern. (pattern, Render (protectedPageByPath (path r))) \<in> set (ApplicationRoutes cu bl rl)) \<longleftrightarrow>
    \<not> isLoading cu \<and> hasPermission (user_data cu) (permission r)"
proof
  assume "\<exists>pattern. (pattern, Render (protectedPageByPath (path r))) \<in> set (ApplicationRoutes cu bl rl)"
  then obtain s where s: "s \<in> set PROTECTED_ROUTE_CATALOG"
    and eq: "PermissionGuard cu bl rl (permission s) (Render (protectedPageByPath (path s))) =
             Render (protectedPageByPath (path r))"
    using ApplicationRoutes_Render protectedPageByPath_other by blast
  from eq have "path s = path r"
    by (metis PermissionGuard_Render protectedPageByPath_inj)
  with s assms have "permission s = permission r" by (rule catalog_path_permission)
  with eq show "\<not> isLoading cu \<and> hasPermission (user_data cu) (permission r)"
    by (simp add: PermissionGuard_Render)
next
  assume "\<not> isLoading cu \<and> hasPermission (user_data cu) (permission r)"
  then have "ProtectedLayout cu bl rl (permission r) (Render (protectedPageByPath (path r))) =
      Render (protectedPageByPath (path r))"
    by (simp add: ProtectedLayout_def PermissionGuard_Render)
  with assms show "\<exists>pattern. (pattern, Render (protectedPageByPath (path r))) \<in> set (ApplicationRoutes cu bl rl)"
    by (intro exI [of _ "route_path_string (path r)"])
       (auto simp: ApplicationRoutes_def image_iff intro!: bexI [of _ r])
qed

theorem protected_page_needs_permission_witness:
  "hd PROTECTED_ROUTE_CATALOG \<in> set PROTECTED_ROUTE_CATALOG \<and>
   ((\<exists>pattern. (pattern, Render WorkspacePage) \<in> set (ApplicationRoutes
       \<lparr>isLoading = False, user_data = Some \<lparr>permissions = Some [''query.submit'']\<rparr>\<rparr>
       \<lparr>loc_pathname = ''/'', loc_search = []\<rparr>
       \<lparr>location_key = ''k'', location_pathname = ''/'', verifiedAuthorizationKey = None\<rparr>)) \<longleftrightarrow> True)"
proof -
  have h: "hd PROTECTED_ROUTE_CATALOG \<in> set PROTECTED_ROUTE_CATALOG"
    by (simp add: PROTECTED_ROUTE_CATALOG_def PERMISSION_CATALOG_def)
  show ?thesis
    using h protected_page_needs_permission [OF h,
        of "\<lparr>isLoading = False, user_data = Some \<lparr>permissions = Some [''query.submit'']\<rparr>\<rparr>"
           "\<lparr>loc_pathname = ''/'', loc_search = []\<rparr>"
           "\<lparr>location_key = ''k'', location_pathname = ''/'', verifiedAuthorizationKey = None\<rparr>"]
    by (simp add: PROTECTED_ROUTE_CATALOG_def PERMISSION_CATALOG_def hasPermission_def)
qed

lemma firstPermittedRoute_None:
  "firstPermittedRoute user = None \<longleftrightarrow> (\<forall>p. \<not> hasPermission user p)"
proof
  assume "firstPermittedRoute user = None"
  then have empty: "landingRoutes user = []"
    by (simp add: firstPermittedRoute_def split: list.splits)
  show "\<forall>p. \<not> hasPermission user p"
  proof
    fix p
    obtain r where "r \<in> set PROTECTED_ROUTE_CATALOG" "permission r = p" "landingOrder r \<noteq> None"
      using catalog_landing_route by blast
    with empty set_landingRoutes [of r user] show "\<not> hasPermission user p" by auto
  qed
next
  assume "\<forall>p. \<not> hasPermission user p"
  then show "firstPermittedRoute user = None"
    by (simp add: firstPermittedRoute_def landingRoutes_def)
qed

lemma firstPermittedRoute_SomeD:
  assumes "firstPermittedRoute user = Some q"
  shows "\<exists>r \<in> set PROTECTED_ROUTE_CATALOG. path r = q \<and> hasPermission user (permission r) \<and>
    (\<forall>s \<in> set (landingRoutes user). the (landingOrder r) \<le> the (landingOrder s))"
proof -
  from assms obtain r rs where lr: "landingRoutes user = r # rs" and q: "path r = q"
    by (auto simp: firstPermittedRoute_def split: list.splits)
  have "\<forall>s \<in> set (landingRoutes user). the (landingOrder r) \<le> the (landingOrder s)"
    using landingRoutes_sorted [of user] lr by auto
  moreover have "r \<in> set PROTECTED_ROUTE_CATALOG" "hasPermission user (permission r)"
    using lr set_landingRoutes [of r user] by auto
  ultimately show ?thesis using q by blast
qed

text \<open>
  Landing: a user with no known permission, and nobody else, is sent to the access-denied page;
  every other user is sent to a route of the catalog whose guard renders its page, and no permitted
  landing route comes before it in the landing order. So the root redirect never bounces.
\<close>

lemma landing_is_permitted_and_first:
  "(firstPermittedRoute user = None \<longleftrightarrow> (\<forall>p. \<not> hasPermission user p)) \<and>
   (\<forall>q. firstPermittedRoute user = Some q \<longrightarrow>
      (\<exists>r \<in> set PROTECTED_ROUTE_CATALOG. path r = q \<and>
        PermissionGuard \<lparr>isLoading = False, user_data = user\<rparr> bl rl (permission r)
          (Render (protectedPageByPath q)) = Render (protectedPageByPath q) \<and>
        (\<forall>s \<in> set PROTECTED_ROUTE_CATALOG. landingOrder s \<noteq> None \<longrightarrow>
           hasPermission user (permission s) \<longrightarrow>
           the (landingOrder r) \<le> the (landingOrder s))))"
proof (intro conjI allI impI)
  show "firstPermittedRoute user = None \<longleftrightarrow> (\<forall>p. \<not> hasPermission user p)"
    by (rule firstPermittedRoute_None)
next
  fix q
  assume "firstPermittedRoute user = Some q"
  then obtain r where "r \<in> set PROTECTED_ROUTE_CATALOG" "path r = q"
      "hasPermission user (permission r)"
      "\<forall>s \<in> set (landingRoutes user). the (landingOrder r) \<le> the (landingOrder s)"
    using firstPermittedRoute_SomeD by blast
  then show "\<exists>r \<in> set PROTECTED_ROUTE_CATALOG. path r = q \<and>
      PermissionGuard \<lparr>isLoading = False, user_data = user\<rparr> bl rl (permission r)
        (Render (protectedPageByPath q)) = Render (protectedPageByPath q) \<and>
      (\<forall>s \<in> set PROTECTED_ROUTE_CATALOG. landingOrder s \<noteq> None \<longrightarrow>
         hasPermission user (permission s) \<longrightarrow> the (landingOrder r) \<le> the (landingOrder s))"
    by (intro bexI [of _ r]) (simp_all add: set_landingRoutes PermissionGuard_Render)
qed

end
