(* ===== verification/Request_Scope.thy ===== *)
theory Request_Scope
  imports Js_Prelude
begin

text \<open>
  The request scope of \<open>frontend/src/api/requestScope.ts\<close>: one abort controller joined with an
  optional parent signal and an optional deadline. The record holds the object's private fields and,
  next to them, what the environment holds for it: whether the timer it started is still pending and
  whether its listener is still registered at the parent signal. The environment moves by firing the
  pending timer or aborting the parent; the object's own methods are \<open>abort\<close> and \<open>dispose\<close>. Every
  call of the \<open>onAbort\<close> callback is logged.
\<close>

section \<open>Constants, errors and classifiers\<close>

definition ORDINARY_REQUEST_TIMEOUT_MS :: int where
  "ORDINARY_REQUEST_TIMEOUT_MS = 15000"

definition AUDIT_EXPORT_TIMEOUT_MS :: int where
  "AUDIT_EXPORT_TIMEOUT_MS = 60000"

datatype RequestAbortReason = Caller | Deadline | Parent

definition RequestAbortedError :: jsval where
  "RequestAbortedError = new_error RequestAbortedErrorClass ''RequestAbortedError'' ''request_aborted''"

definition RequestDeadlineError :: jsval where
  "RequestDeadlineError =
     new_error RequestDeadlineErrorClass ''RequestDeadlineError'' ''request_deadline_exceeded''"

definition ABORT_ERROR_NAMES :: "jsval list" where
  "ABORT_ERROR_NAMES = [JStr ''AbortError'', JStr ''TimeoutError'']"

definition isAbortFailure :: "jsval \<Rightarrow> bool" where
  "isAbortFailure err =
     (if js_instanceof err RequestAbortedErrorClass \<or> js_instanceof err RequestDeadlineErrorClass
      then True
      else js_instanceof err ErrorClass \<and> js_get err ''name'' \<in> set ABORT_ERROR_NAMES)"

definition isClientDeadlineError :: "jsval \<Rightarrow> bool" where
  "isClientDeadlineError err = js_instanceof err RequestDeadlineErrorClass"

definition isRequestAbortedError :: "jsval \<Rightarrow> bool" where
  "isRequestAbortedError err = (isAbortFailure err \<and> \<not> isClientDeadlineError err)"

section \<open>The scope object\<close>

text \<open>The parent signal an option object passes, with its state when the scope is constructed.\<close>

datatype parent_option = NoParent | ParentSignal bool

record request_scope =
  signal_aborted :: bool
  timer :: "rat option"
  parentListener :: bool
  parentSignal :: bool
  scope_reason :: "RequestAbortReason option"
  notified :: bool
  disposed :: bool
  timer_pending :: bool
  parent_registered :: bool
  onAbort_calls :: "RequestAbortReason list"

definition clear_timer :: "request_scope \<Rightarrow> request_scope" where
  "clear_timer s = (if timer s \<noteq> None then s\<lparr>timer := None, timer_pending := False\<rparr> else s)"

definition fireAbort :: "RequestAbortReason \<Rightarrow> request_scope \<Rightarrow> request_scope" where
  "fireAbort r s =
     (if scope_reason s \<noteq> None then s
      else
        (let s1 = s\<lparr>scope_reason := Some r\<rparr>;
             s2 = clear_timer s1;
             s3 = s2\<lparr>signal_aborted := True\<rparr>
         in if \<not> notified s3
            then s3\<lparr>notified := True, onAbort_calls := onAbort_calls s3 @ [r]\<rparr>
            else s3))"

definition aborted :: "request_scope \<Rightarrow> bool" where
  "aborted s = signal_aborted s"

definition abort :: "request_scope \<Rightarrow> request_scope" where
  "abort s = fireAbort Caller s"

definition fresh_scope :: request_scope where
  "fresh_scope =
     \<lparr>signal_aborted = False, timer = None, parentListener = False, parentSignal = False,
      scope_reason = None, notified = False, disposed = False,
      timer_pending = False, parent_registered = False, onAbort_calls = []\<rparr>"

definition new_RequestScope :: "parent_option \<Rightarrow> jsnum option \<Rightarrow> request_scope" where
  "new_RequestScope parent timeoutMs =
     (let s1 = (case parent of
                  NoParent \<Rightarrow> fresh_scope
                | ParentSignal True \<Rightarrow> fireAbort Parent fresh_scope
                | ParentSignal False \<Rightarrow>
                    fresh_scope\<lparr>parentSignal := True, parentListener := True,
                                parent_registered := True\<rparr>)
      in (case timeoutMs of
            Some (Fin ms) \<Rightarrow>
              if scope_reason s1 = None \<and> \<not> aborted s1 \<and> ms \<ge> 0
              then s1\<lparr>timer := Some ms, timer_pending := True\<rparr> else s1
          | _ \<Rightarrow> s1))"

definition throwIfAborted :: "request_scope \<Rightarrow> jsval option" where
  "throwIfAborted s =
     (if \<not> aborted s then None
      else if scope_reason s = Some Deadline then Some RequestDeadlineError
      else Some RequestAbortedError)"

definition dispose :: "request_scope \<Rightarrow> request_scope" where
  "dispose s =
     (if disposed s then s
      else
        (let s1 = clear_timer (s\<lparr>disposed := True\<rparr>)
         in if parentSignal s1 \<and> parentListener s1
            then s1\<lparr>parentListener := False, parentSignal := False, parent_registered := False\<rparr>
            else s1))"

text \<open>
  The environment: the pending timer fires (its callback first forgets the timer), or the parent
  aborts, which calls the registered listener and, since it was added with \<open>once\<close>, drops it.
\<close>

definition timer_fires :: "request_scope \<Rightarrow> request_scope" where
  "timer_fires s =
     (if timer_pending s
      then fireAbort Deadline (s\<lparr>timer := None, timer_pending := False\<rparr>) else s)"

definition parent_aborts :: "request_scope \<Rightarrow> request_scope" where
  "parent_aborts s =
     (if parent_registered s
      then fireAbort Parent (s\<lparr>parent_registered := False\<rparr>) else s)"

datatype scope_event = CallAbort | CallDispose | TimerFires | ParentAborts

fun scope_step :: "scope_event \<Rightarrow> request_scope \<Rightarrow> request_scope" where
  "scope_step CallAbort s = abort s"
| "scope_step CallDispose s = dispose s"
| "scope_step TimerFires s = timer_fires s"
| "scope_step ParentAborts s = parent_aborts s"

fun scope_run :: "scope_event list \<Rightarrow> request_scope \<Rightarrow> request_scope" where
  "scope_run [] s = s"
| "scope_run (e # es) s = scope_run es (scope_step e s)"

text \<open>
  \<open>withRequestDeadline\<close>: while \<open>run\<close> is awaited the scope sees the events \<open>es\<close>; \<open>run\<close> settles with a
  result that may depend on the state its signal reached. The outcome and the disposed scope.
\<close>

definition withRequestDeadline ::
    "(request_scope \<Rightarrow> 'a outcome) \<Rightarrow> parent_option \<Rightarrow> jsnum option \<Rightarrow> scope_event list \<Rightarrow>
     'a outcome \<times> request_scope" where
  "withRequestDeadline run parent timeoutMs es =
     (let ms = (case timeoutMs of None \<Rightarrow> Some (Fin (of_int ORDINARY_REQUEST_TIMEOUT_MS)) | t \<Rightarrow> t);
          scope = scope_run es (new_RequestScope parent ms);
          result = (case run scope of
                      Inr v \<Rightarrow> Inr v
                    | Inl err \<Rightarrow>
                        if scope_reason scope = Some Deadline then Inl RequestDeadlineError
                        else Inl err)
      in (result, dispose scope))"

section \<open>The invariant of a scope\<close>

definition scope_inv :: "request_scope \<Rightarrow> bool" where
  "scope_inv s \<longleftrightarrow>
     (signal_aborted s \<longleftrightarrow> scope_reason s \<noteq> None) \<and>
     (notified s \<longleftrightarrow> scope_reason s \<noteq> None) \<and>
     onAbort_calls s = (case scope_reason s of None \<Rightarrow> [] | Some r \<Rightarrow> [r]) \<and>
     (timer_pending s \<longleftrightarrow> timer s \<noteq> None) \<and>
     (timer_pending s \<longrightarrow> scope_reason s = None \<and> \<not> disposed s) \<and>
     (parent_registered s \<longrightarrow> parentSignal s \<and> parentListener s \<and> \<not> disposed s)"

text \<open>A scope as the hooks make it, in any state its own methods bring it to.\<close>

definition caller_scope :: "request_scope \<Rightarrow> bool" where
  "caller_scope s \<longleftrightarrow> scope_inv s \<and> \<not> timer_pending s \<and> \<not> parent_registered s \<and>
     scope_reason s \<in> {None, Some Caller}"

lemma abort_error_classified [simp]:
  "isAbortFailure RequestAbortedError" "isAbortFailure RequestDeadlineError"
  "\<not> isClientDeadlineError RequestAbortedError" "isClientDeadlineError RequestDeadlineError"
  "isRequestAbortedError RequestAbortedError" "\<not> isRequestAbortedError RequestDeadlineError"
  by (simp_all add: isAbortFailure_def isClientDeadlineError_def isRequestAbortedError_def
      RequestAbortedError_def RequestDeadlineError_def js_simps)

lemmas scope_defs [scope_simps] =
  clear_timer_def fireAbort_def aborted_def abort_def dispose_def timer_fires_def
  parent_aborts_def throwIfAborted_def Let_def

lemma scope_inv_fresh [simp]: "scope_inv fresh_scope"
  by (simp add: scope_inv_def fresh_scope_def)

lemma scope_inv_fireAbort: "scope_inv s \<Longrightarrow> scope_inv (fireAbort r s)"
  by (auto simp: scope_inv_def scope_simps)

lemma scope_inv_new: "scope_inv (new_RequestScope parent t)"
proof -
  have "scope_inv (fireAbort Parent fresh_scope)"
    by (rule scope_inv_fireAbort) simp
  then show ?thesis
    by (auto simp: new_RequestScope_def scope_inv_def scope_simps fresh_scope_def
        split: parent_option.splits option.splits jsnum.splits bool.splits)
qed

lemma scope_inv_step: "scope_inv s \<Longrightarrow> scope_inv (scope_step e s)"
  by (cases e) (auto simp: scope_inv_def scope_simps)

lemma scope_inv_run: "scope_inv s \<Longrightarrow> scope_inv (scope_run es s)"
  by (induction es arbitrary: s) (auto intro: scope_inv_step)

lemma scope_run_append: "scope_run (es @ fs) s = scope_run fs (scope_run es s)"
  by (induction es arbitrary: s) auto

lemma scope_reason_step: "scope_reason s = Some r \<Longrightarrow> scope_reason (scope_step e s) = Some r"
  by (cases e) (auto simp: scope_simps)

lemma scope_reason_run: "scope_reason s = Some r \<Longrightarrow> scope_reason (scope_run es s) = Some r"
  by (induction es arbitrary: s) (auto intro: scope_reason_step)

lemma aborted_iff_reason: "scope_inv s \<Longrightarrow> aborted s \<longleftrightarrow> scope_reason s \<noteq> None"
  by (simp add: scope_inv_def aborted_def)

lemma disposed_step: "disposed s \<Longrightarrow> disposed (scope_step e s)"
  by (cases e) (auto simp: scope_simps)

lemma dispose_disposed [simp]: "disposed (dispose s)"
  by (simp add: scope_simps)

lemma dispose_reason [simp]: "scope_reason (dispose s) = scope_reason s"
  by (simp add: scope_simps)

lemma disposed_env_step:
  "scope_inv s \<Longrightarrow> disposed s \<Longrightarrow> e \<noteq> CallAbort \<Longrightarrow> scope_step e s = s"
  by (cases e) (auto simp: scope_inv_def scope_simps)

lemma disposed_env_run:
  "scope_inv s \<Longrightarrow> disposed s \<Longrightarrow> CallAbort \<notin> set es \<Longrightarrow> scope_run es s = s"
  by (induction es arbitrary: s) (auto simp: disposed_env_step)

section \<open>What a client relies on\<close>

text \<open>
  The interface the hooks use: a scope made without a parent and without a deadline. Its signal is
  clear at first, only \<open>abort\<close> sets it, nothing clears it, and \<open>throwIfAborted\<close> names an error exactly
  when it is set, the abort error (never the deadline's).
\<close>

locale owned_scope =
  fixes new :: "'s" and abrt :: "'s \<Rightarrow> 's" and disp :: "'s \<Rightarrow> 's"
    and is_aborted :: "'s \<Rightarrow> bool" and thrown :: "'s \<Rightarrow> jsval option" and owned :: "'s \<Rightarrow> bool"
  assumes owned_new: "owned new"
    and owned_abrt: "owned s \<Longrightarrow> owned (abrt s)"
    and owned_disp: "owned s \<Longrightarrow> owned (disp s)"
    and new_clear: "\<not> is_aborted new"
    and abrt_sets: "owned s \<Longrightarrow> is_aborted (abrt s)"
    and disp_keeps: "owned s \<Longrightarrow> is_aborted (disp s) = is_aborted s"
    and thrown_iff: "owned s \<Longrightarrow> thrown s = (if is_aborted s then Some RequestAbortedError else None)"
begin

lemma abrt_thrown: "owned s \<Longrightarrow> thrown (abrt s) = Some RequestAbortedError"
  by (simp add: thrown_iff owned_abrt abrt_sets)

lemma abrt_disp_aborted: "owned s \<Longrightarrow> is_aborted (disp (abrt s))"
  by (simp add: disp_keeps owned_abrt abrt_sets)

lemma thrown_is_abort_failure: "owned s \<Longrightarrow> thrown s = Some e \<Longrightarrow> isRequestAbortedError e"
  by (auto simp: thrown_iff split: if_splits)

end

interpretation qscope: owned_scope "new_RequestScope NoParent None" abort dispose aborted
    throwIfAborted caller_scope
proof unfold_locales
  show "caller_scope (new_RequestScope NoParent None)"
    using scope_inv_new [of NoParent None]
    by (simp add: caller_scope_def new_RequestScope_def fresh_scope_def)
next
  fix s
  assume s: "caller_scope s"
  show "caller_scope (abort s)"
    using s scope_inv_fireAbort [of s Caller]
    by (auto simp: caller_scope_def scope_simps)
  show "caller_scope (dispose s)"
    using s scope_inv_step [of s CallDispose]
    by (auto simp: caller_scope_def scope_simps)
  show "aborted (abort s)"
    using s by (auto simp: caller_scope_def scope_inv_def scope_simps)
  show "aborted (dispose s) = aborted s"
    by (simp add: scope_simps)
  show "throwIfAborted s = (if aborted s then Some RequestAbortedError else None)"
    using s by (auto simp: caller_scope_def throwIfAborted_def)
qed (simp add: new_RequestScope_def fresh_scope_def aborted_def)

section \<open>Properties\<close>

text \<open>
  C10. Whatever the order of caller aborts, disposals, timer and parent events, a scope aborts for one
  reason only, the first that reached it: the signal is set exactly when a reason is recorded, the
  \<open>onAbort\<close> callback has been called exactly once, with that reason, and never before; a recorded
  reason is never replaced.
\<close>

theorem scope_aborts_exactly_once:
  "onAbort_calls (scope_run (es @ fs) (new_RequestScope parent t)) =
     (case scope_reason (scope_run es (new_RequestScope parent t)) of
        Some r \<Rightarrow> [r]
      | None \<Rightarrow> (case scope_reason (scope_run (es @ fs) (new_RequestScope parent t)) of
                   Some r \<Rightarrow> [r] | None \<Rightarrow> [])) \<and>
   (aborted (scope_run es (new_RequestScope parent t)) \<longleftrightarrow>
      scope_reason (scope_run es (new_RequestScope parent t)) \<noteq> None)"
proof -
  let ?s = "scope_run es (new_RequestScope parent t)"
  have inv: "scope_inv ?s" by (intro scope_inv_run scope_inv_new)
  then have "scope_inv (scope_run fs ?s)" by (rule scope_inv_run)
  then show ?thesis
    using inv scope_reason_run [of ?s _ fs]
    by (auto simp: scope_run_append scope_inv_def aborted_def split: option.splits)
qed

text \<open>
  No timer and no listener outlives a scope: after \<open>dispose\<close> the timer it started is cleared and
  its listener at the parent is removed, and no later timer or parent event changes anything; the same
  holds of the timer as soon as the scope has aborted.
\<close>

lemma dispose_releases_everything:
  assumes "CallAbort \<notin> set fs"
  shows "scope_run fs (dispose (scope_run es (new_RequestScope parent t))) =
      dispose (scope_run es (new_RequestScope parent t)) \<and>
    \<not> timer_pending (dispose (scope_run es (new_RequestScope parent t))) \<and>
    \<not> parent_registered (dispose (scope_run es (new_RequestScope parent t))) \<and>
    (aborted (scope_run es (new_RequestScope parent t)) \<longrightarrow>
       \<not> timer_pending (scope_run es (new_RequestScope parent t)))"
proof -
  let ?s = "scope_run es (new_RequestScope parent t)"
  have inv: "scope_inv ?s" by (intro scope_inv_run scope_inv_new)
  then have inv': "scope_inv (dispose ?s)" using scope_inv_step [of ?s CallDispose] by simp
  have "scope_run fs (dispose ?s) = dispose ?s"
    using inv' assms by (intro disposed_env_run) simp_all
  moreover have "\<not> timer_pending (dispose ?s)" "\<not> parent_registered (dispose ?s)"
    using inv' dispose_disposed [of ?s] by (auto simp: scope_inv_def)
  ultimately show ?thesis using inv by (auto simp: scope_inv_def aborted_def)
qed

text \<open>
  \<open>withRequestDeadline\<close> reports the client's own deadline, and only that, as the deadline error: a
  failure of \<open>run\<close> becomes \<open>RequestDeadlineError\<close> exactly when the deadline was the first thing to
  abort the scope, any other failure (a parent cancellation included) is passed on unchanged, a
  result is returned as it is, and the scope is disposed on every path.
\<close>

lemma withRequestDeadline_classifies:
  "fst (withRequestDeadline run parent t es) =
     (let scope = scope_run es (new_RequestScope parent
            (if t = None then Some (Fin (of_int ORDINARY_REQUEST_TIMEOUT_MS)) else t))
      in case run scope of
           Inr v \<Rightarrow> Inr v
         | Inl err \<Rightarrow> if onAbort_calls scope = [Deadline] then Inl RequestDeadlineError else Inl err) \<and>
   disposed (snd (withRequestDeadline run parent t es)) \<and>
   \<not> timer_pending (snd (withRequestDeadline run parent t es)) \<and>
   \<not> parent_registered (snd (withRequestDeadline run parent t es))"
proof -
  let ?t = "if t = None then Some (Fin (of_int ORDINARY_REQUEST_TIMEOUT_MS)) else t"
  let ?s = "scope_run es (new_RequestScope parent ?t)"
  have t: "(case t of None \<Rightarrow> Some (Fin (of_int ORDINARY_REQUEST_TIMEOUT_MS)) | Some x \<Rightarrow> Some x) = ?t"
    by (cases t) simp_all
  have inv: "scope_inv ?s" by (intro scope_inv_run scope_inv_new)
  then have calls: "scope_reason ?s = Some Deadline \<longleftrightarrow> onAbort_calls ?s = [Deadline]"
    by (auto simp: scope_inv_def split: option.splits)
  have inv': "scope_inv (dispose ?s)" using scope_inv_step [OF inv, of CallDispose] by simp
  then have "\<not> timer_pending (dispose ?s)" "\<not> parent_registered (dispose ?s)"
    using dispose_disposed [of ?s] by (auto simp: scope_inv_def)
  then show ?thesis
    unfolding withRequestDeadline_def Let_def t fst_conv snd_conv calls by simp
qed

end
