(* ===== verification/Session_Deletion.thy ===== *)
theory Session_Deletion
  imports Js_Prelude
begin

text \<open>
  The session deletion lifecycle of \<open>frontend/src/sessionDeletionLifecycle.ts\<close>: a module-level map of
  deletion versions, the set of sessions that are unavailable while a deletion is pending or done, and
  the listeners to notify. Every operation takes the module state and returns it updated; beginning a
  deletion also returns the listeners it called, in order. The readers of the hooks take a snapshot of
  the version before they await and compare it afterwards, which is the contract of the locale
  \<open>deletion_tracker\<close>.
\<close>

section \<open>State and operations\<close>

record 'l deletion_lifecycle =
  deletionVersions :: "string \<rightharpoonup> nat"
  unavailableSessions :: "string set"
  deletionListeners :: "'l list"

definition SessionDeletionError :: jsval where
  "SessionDeletionError =
     new_error SessionDeletionErrorClass ''SessionDeletionError'' ''session_deleted''"

definition subscribeToSessionDeletion :: "'l \<Rightarrow> 'l deletion_lifecycle \<Rightarrow> 'l deletion_lifecycle" where
  "subscribeToSessionDeletion l s =
     (if l \<in> set (deletionListeners s) then s
      else s\<lparr>deletionListeners := deletionListeners s @ [l]\<rparr>)"

definition unsubscribeFromSessionDeletion ::
    "'l \<Rightarrow> 'l deletion_lifecycle \<Rightarrow> 'l deletion_lifecycle" where
  "unsubscribeFromSessionDeletion l s =
     s\<lparr>deletionListeners := removeAll l (deletionListeners s)\<rparr>"

definition getSessionDeletionVersion :: "string \<Rightarrow> 'l deletion_lifecycle \<Rightarrow> nat" where
  "getSessionDeletionVersion sid s = (case deletionVersions s sid of Some v \<Rightarrow> v | None \<Rightarrow> 0)"

definition isSessionUnavailable :: "string \<Rightarrow> 'l deletion_lifecycle \<Rightarrow> bool" where
  "isSessionUnavailable sid s = (sid \<in> unavailableSessions s)"

definition beginSessionDeletion ::
    "string \<Rightarrow> 'l deletion_lifecycle \<Rightarrow> 'l deletion_lifecycle \<times> 'l list" where
  "beginSessionDeletion sid s =
     (if isSessionUnavailable sid s then (s, [])
      else (s\<lparr>deletionVersions := (deletionVersions s)(sid \<mapsto> getSessionDeletionVersion sid s + 1),
              unavailableSessions := insert sid (unavailableSessions s)\<rparr>,
            deletionListeners s))"

definition rollbackSessionDeletion :: "string \<Rightarrow> 'l deletion_lifecycle \<Rightarrow> 'l deletion_lifecycle" where
  "rollbackSessionDeletion sid s = s\<lparr>unavailableSessions := unavailableSessions s - {sid}\<rparr>"

definition didSessionDeletionStart :: "string \<Rightarrow> nat \<Rightarrow> 'l deletion_lifecycle \<Rightarrow> bool" where
  "didSessionDeletionStart sid version s = (getSessionDeletionVersion sid s \<noteq> version)"

definition isSessionDeletionError :: "jsval \<Rightarrow> bool" where
  "isSessionDeletionError err = js_instanceof err SessionDeletionErrorClass"

definition resetSessionDeletionLifecycle :: "'l deletion_lifecycle \<Rightarrow> 'l deletion_lifecycle" where
  "resetSessionDeletionLifecycle s =
     s\<lparr>deletionVersions := Map.empty, unavailableSessions := {}, deletionListeners := []\<rparr>"

definition empty_lifecycle :: "'l deletion_lifecycle" where
  "empty_lifecycle =
     \<lparr>deletionVersions = Map.empty, unavailableSessions = {}, deletionListeners = []\<rparr>"

text \<open>
  What other code can do to the module state while a reader awaits: every exported operation that
  changes it. \<open>ResetLifecycle\<close> is the identity reset of \<open>QueryProvider.tsx\<close>.
\<close>

datatype 'l lifecycle_event =
    BeginDeletion string
  | RollbackDeletion string
  | SubscribeDeletion 'l
  | UnsubscribeDeletion 'l
  | ResetLifecycle

fun lifecycle_step :: "'l lifecycle_event \<Rightarrow> 'l deletion_lifecycle \<Rightarrow> 'l deletion_lifecycle" where
  "lifecycle_step (BeginDeletion sid) s = fst (beginSessionDeletion sid s)"
| "lifecycle_step (RollbackDeletion sid) s = rollbackSessionDeletion sid s"
| "lifecycle_step (SubscribeDeletion l) s = subscribeToSessionDeletion l s"
| "lifecycle_step (UnsubscribeDeletion l) s = unsubscribeFromSessionDeletion l s"
| "lifecycle_step ResetLifecycle s = resetSessionDeletionLifecycle s"

fun lifecycle_run :: "'l lifecycle_event list \<Rightarrow> 'l deletion_lifecycle \<Rightarrow> 'l deletion_lifecycle" where
  "lifecycle_run [] s = s"
| "lifecycle_run (e # es) s = lifecycle_run es (lifecycle_step e s)"

text \<open>The operations of one identity: everything but the reset.\<close>

fun keeps_identity :: "'l lifecycle_event \<Rightarrow> bool" where
  "keeps_identity ResetLifecycle = False"
| "keeps_identity e = True"

text \<open>How many deletions of a session began, while it was available, in a run.\<close>

fun deletions_begun :: "string \<Rightarrow> 'l lifecycle_event list \<Rightarrow> 'l deletion_lifecycle \<Rightarrow> nat" where
  "deletions_begun sid [] s = 0"
| "deletions_begun sid (e # es) s =
     (case e of
        BeginDeletion sid' \<Rightarrow> of_bool (sid' = sid \<and> \<not> isSessionUnavailable sid s)
      | _ \<Rightarrow> 0) + deletions_begun sid es (lifecycle_step e s)"

text \<open>The guard the hooks put after an await: available, and no deletion since the snapshot.\<close>

definition session_current :: "string \<Rightarrow> nat \<Rightarrow> 'l deletion_lifecycle \<Rightarrow> bool" where
  "session_current sid version s =
     (\<not> isSessionUnavailable sid s \<and> \<not> didSessionDeletionStart sid version s)"

section \<open>The contract of the readers\<close>

lemmas lifecycle_defs [lifecycle_simps] =
  subscribeToSessionDeletion_def unsubscribeFromSessionDeletion_def getSessionDeletionVersion_def
  isSessionUnavailable_def beginSessionDeletion_def rollbackSessionDeletion_def
  didSessionDeletionStart_def resetSessionDeletionLifecycle_def session_current_def

lemma SessionDeletionError_classified [simp]: "isSessionDeletionError SessionDeletionError"
  by (simp add: isSessionDeletionError_def SessionDeletionError_def js_simps)

text \<open>
  What the readers rely on, for any state with steps of which some are ordinary: an ordinary step never
  decreases a version, and one that makes a session unavailable increases its version.
\<close>

locale deletion_tracker =
  fixes step :: "'e \<Rightarrow> 's \<Rightarrow> 's" and ordinary :: "'e \<Rightarrow> bool" and version :: "string \<Rightarrow> 's \<Rightarrow> nat"
    and gone :: "string \<Rightarrow> 's \<Rightarrow> bool"
  assumes version_mono: "ordinary e \<Longrightarrow> version sid s \<le> version sid (step e s)"
    and gone_bumps: "ordinary e \<Longrightarrow> \<not> gone sid s \<Longrightarrow> gone sid (step e s) \<Longrightarrow>
      version sid s < version sid (step e s)"
begin

lemma run_version_mono: "list_all ordinary es \<Longrightarrow> version sid s \<le> version sid (fold step es s)"
proof (induction es arbitrary: s)
  case (Cons e es)
  then have "version sid s \<le> version sid (step e s)" by (simp add: version_mono)
  also have "\<dots> \<le> version sid (fold step es (step e s))" using Cons by simp
  finally show ?case by simp
qed simp

lemma run_gone_bumps:
  "list_all ordinary es \<Longrightarrow> \<not> gone sid s \<Longrightarrow> gone sid (fold step es s) \<Longrightarrow>
   version sid s < version sid (fold step es s)"
proof (induction es rule: rev_induct)
  case (snoc e es)
  let ?t = "fold step es s"
  from snoc.prems have o: "list_all ordinary es" "ordinary e" by simp_all
  show ?case
  proof (cases "gone sid ?t")
    case True
    with snoc o have "version sid s < version sid ?t" by simp
    also have "\<dots> \<le> version sid (step e ?t)" using o by (simp add: version_mono)
    finally show ?thesis by simp
  next
    case False
    with snoc.prems o have "version sid ?t < version sid (step e ?t)"
      by (intro gone_bumps) simp_all
    with run_version_mono [OF o(1), of sid s] show ?thesis by simp
  qed
qed simp

lemma unchanged_version_never_gone:
  assumes "list_all ordinary (es @ fs)" and "\<not> gone sid s"
    and "version sid (fold step (es @ fs) s) = version sid s"
  shows "\<not> gone sid (fold step es s)"
proof
  assume "gone sid (fold step es s)"
  with assms have "version sid s < version sid (fold step es s)" by (intro run_gone_bumps) simp_all
  also have "\<dots> \<le> version sid (fold step fs (fold step es s))" using assms(1) by (intro run_version_mono) simp
  finally show False using assms(3) by simp
qed

end

lemma lifecycle_run_fold: "lifecycle_run es s = fold lifecycle_step es s"
  by (induction es arbitrary: s) auto

lemma lifecycle_version_mono:
  "keeps_identity e \<Longrightarrow>
   getSessionDeletionVersion sid s \<le> getSessionDeletionVersion sid (lifecycle_step e s)"
  by (cases e) (auto simp: lifecycle_simps)

interpretation lifecycle: deletion_tracker lifecycle_step keeps_identity getSessionDeletionVersion
  isSessionUnavailable
proof unfold_locales
  fix sid and s :: "'a deletion_lifecycle" and e :: "'a lifecycle_event"
  assume e: "keeps_identity e"
  then show "getSessionDeletionVersion sid s \<le> getSessionDeletionVersion sid (lifecycle_step e s)"
    by (rule lifecycle_version_mono)
  assume "\<not> isSessionUnavailable sid s" "isSessionUnavailable sid (lifecycle_step e s)"
  then show "getSessionDeletionVersion sid s < getSessionDeletionVersion sid (lifecycle_step e s)"
    using e by (cases e) (auto simp: lifecycle_simps split: if_splits)
qed

section \<open>Lemmas\<close>

lemma begin_unavailable [simp]: "isSessionUnavailable sid (fst (beginSessionDeletion sid s))"
  by (simp add: lifecycle_simps)

lemma begin_other [simp]:
  "sid' \<noteq> sid \<Longrightarrow> isSessionUnavailable sid' (fst (beginSessionDeletion sid s)) = isSessionUnavailable sid' s"
  "sid' \<noteq> sid \<Longrightarrow>
   getSessionDeletionVersion sid' (fst (beginSessionDeletion sid s)) = getSessionDeletionVersion sid' s"
  by (simp_all add: lifecycle_simps)

lemma rollback_available [simp]: "\<not> isSessionUnavailable sid (rollbackSessionDeletion sid s)"
  by (simp add: lifecycle_simps)

lemma rollback_version [simp]:
  "getSessionDeletionVersion sid (rollbackSessionDeletion sid' s) = getSessionDeletionVersion sid s"
  by (simp add: lifecycle_simps)

lemma begin_effective_version:
  "\<not> isSessionUnavailable sid s \<Longrightarrow>
   getSessionDeletionVersion sid (fst (beginSessionDeletion sid s)) = getSessionDeletionVersion sid s + 1"
  by (simp add: lifecycle_simps)

lemma version_step:
  "keeps_identity e \<Longrightarrow>
   getSessionDeletionVersion sid (lifecycle_step e s) =
     getSessionDeletionVersion sid s + deletions_begun sid [e] s"
  by (cases e) (auto simp: lifecycle_simps)

lemma version_run:
  "list_all keeps_identity es \<Longrightarrow>
   getSessionDeletionVersion sid (lifecycle_run es s) =
     getSessionDeletionVersion sid s + deletions_begun sid es s"
proof (induction es arbitrary: s)
  case (Cons e es)
  then show ?case using version_step [of e sid s] by simp
qed simp

lemma version_step_bump:
  "keeps_identity e \<Longrightarrow>
   getSessionDeletionVersion sid (lifecycle_step e s) \<noteq> getSessionDeletionVersion sid s \<Longrightarrow>
   e = BeginDeletion sid \<and> \<not> isSessionUnavailable sid s"
  by (cases e) (auto simp: lifecycle_simps split: if_splits)

lemma deletions_begun_append:
  "deletions_begun sid (es @ fs) s = deletions_begun sid es s + deletions_begun sid fs (lifecycle_run es s)"
  by (induction es arbitrary: s) simp_all

lemma deletions_begun_positive:
  "deletions_begun sid es s \<noteq> 0 \<longleftrightarrow>
   (\<exists>es1 es2. es = es1 @ BeginDeletion sid # es2 \<and> \<not> isSessionUnavailable sid (lifecycle_run es1 s))"
proof
  assume "deletions_begun sid es s \<noteq> 0"
  then show "\<exists>es1 es2. es = es1 @ BeginDeletion sid # es2 \<and>
      \<not> isSessionUnavailable sid (lifecycle_run es1 s)"
  proof (induction es arbitrary: s)
    case (Cons e es)
    show ?case
    proof (cases "deletions_begun sid es (lifecycle_step e s) = 0")
      case True
      with Cons.prems have "e = BeginDeletion sid \<and> \<not> isSessionUnavailable sid s"
        by (simp split: lifecycle_event.splits)
      then show ?thesis by (intro exI [of _ "[]"] exI [of _ es]) simp
    next
      case False
      with Cons.IH obtain es1 es2 where "es = es1 @ BeginDeletion sid # es2"
          "\<not> isSessionUnavailable sid (lifecycle_run es1 (lifecycle_step e s))"
        by blast
      then show ?thesis by (intro exI [of _ "e # es1"] exI [of _ es2]) simp
    qed
  qed simp
qed (auto simp: deletions_begun_append)

lemma reset_empty: "resetSessionDeletionLifecycle s = empty_lifecycle"
  by (cases s) (simp add: resetSessionDeletionLifecycle_def empty_lifecycle_def)

lemma version_empty [simp]: "getSessionDeletionVersion sid empty_lifecycle = 0"
  by (simp add: getSessionDeletionVersion_def empty_lifecycle_def)

lemma available_empty [simp]: "\<not> isSessionUnavailable sid empty_lifecycle"
  by (simp add: isSessionUnavailable_def empty_lifecycle_def)

lemma run_after_reset:
  "lifecycle_run (es @ ResetLifecycle # fs) s = lifecycle_run fs empty_lifecycle"
  by (simp add: lifecycle_run_fold reset_empty)

section \<open>Properties\<close>

text \<open>
  C6. What a version snapshot detects, over every interleaving of the operations that change the module.
  Within one identity (no reset since the snapshot) \<open>didSessionDeletionStart\<close> answers true exactly when
  a deletion of that session began, while it was available, after the snapshot was taken, even one
  that has been rolled back since. An identity reset forgets everything before it: afterwards the
  answer is true exactly when the number of deletions begun since the last reset differs from the
  number the snapshot holds, so that a deletion before the reset is not detected by a snapshot of a
  session that had never been deleted.
\<close>

theorem snapshot_detects_every_deletion:
  assumes "list_all keeps_identity fs"
  shows "(didSessionDeletionStart sid (getSessionDeletionVersion sid s) (lifecycle_run fs s) \<longleftrightarrow>
      (\<exists>es1 es2. fs = es1 @ BeginDeletion sid # es2 \<and> \<not> isSessionUnavailable sid (lifecycle_run es1 s))) \<and>
    (didSessionDeletionStart sid (getSessionDeletionVersion sid s)
        (lifecycle_run (es @ ResetLifecycle # fs) s) \<longleftrightarrow>
      deletions_begun sid fs empty_lifecycle \<noteq> getSessionDeletionVersion sid s)"
proof
  show "didSessionDeletionStart sid (getSessionDeletionVersion sid s) (lifecycle_run fs s) \<longleftrightarrow>
      (\<exists>es1 es2. fs = es1 @ BeginDeletion sid # es2 \<and> \<not> isSessionUnavailable sid (lifecycle_run es1 s))"
    using version_run [OF assms, of sid s] deletions_begun_positive [of sid fs s]
    by (simp add: didSessionDeletionStart_def)
  show "didSessionDeletionStart sid (getSessionDeletionVersion sid s)
        (lifecycle_run (es @ ResetLifecycle # fs) s) \<longleftrightarrow>
      deletions_begun sid fs empty_lifecycle \<noteq> getSessionDeletionVersion sid s"
    using version_run [OF assms, of sid empty_lifecycle]
    by (simp add: didSessionDeletionStart_def run_after_reset)
qed

text \<open>A rolled back deletion is detected within an identity, and lost by a reset.\<close>

theorem snapshot_detects_every_deletion_witness:
  "didSessionDeletionStart ''s'' 0
     (lifecycle_run [BeginDeletion ''s'', RollbackDeletion ''s''] (empty_lifecycle :: nat deletion_lifecycle)) \<and>
   \<not> didSessionDeletionStart ''s'' 0
     (lifecycle_run ([BeginDeletion ''s''] @ ResetLifecycle # []) (empty_lifecycle :: nat deletion_lifecycle))"
proof
  let ?e = "empty_lifecycle :: nat deletion_lifecycle"
  have "\<exists>es1 es2. [BeginDeletion ''s'', RollbackDeletion ''s''] = es1 @ BeginDeletion ''s'' # es2 \<and>
      \<not> isSessionUnavailable ''s'' (lifecycle_run es1 ?e)"
    by (intro exI [of _ "[]"] exI [of _ "[RollbackDeletion ''s'']"]) simp
  then show "didSessionDeletionStart ''s'' 0
     (lifecycle_run [BeginDeletion ''s'', RollbackDeletion ''s''] ?e)"
    using snapshot_detects_every_deletion
      [of "[BeginDeletion ''s'', RollbackDeletion ''s'']" "''s''" ?e "[]"] by simp
  show "\<not> didSessionDeletionStart ''s'' 0 (lifecycle_run ([BeginDeletion ''s''] @ ResetLifecycle # []) ?e)"
    using snapshot_detects_every_deletion [of "[]" "''s''" ?e "[BeginDeletion ''s'']"] by simp
qed

text \<open>
  The guard the hooks evaluate after an await is sound within one identity: if the session was
  available when the snapshot was taken and the guard passes after any interleaving, then the session
  was available at every moment in between.
\<close>

lemma passing_guard_means_never_deleted:
  assumes "list_all keeps_identity (es @ fs)" and "\<not> isSessionUnavailable sid s"
    and "session_current sid (getSessionDeletionVersion sid s) (lifecycle_run (es @ fs) s)"
  shows "\<not> isSessionUnavailable sid (lifecycle_run es s)"
proof -
  from assms(3) have "getSessionDeletionVersion sid (fold lifecycle_step (es @ fs) s) =
      getSessionDeletionVersion sid s"
    by (simp add: session_current_def didSessionDeletionStart_def lifecycle_run_fold)
  with assms(1,2) show ?thesis
    unfolding lifecycle_run_fold by (rule lifecycle.unchanged_version_never_gone)
qed

end
