(* ===== verification/Query_Submit.thy ===== *)
theory Query_Submit
  imports Permissions Request_Scope Session_Deletion
begin

text \<open>
  The query submission hook of \<open>frontend/src/hooks/useQuerySubmit.ts\<close>. Its state is a record of the
  React state variables and refs, next to what it shares with other code: the session deletion
  lifecycle, the active session of the UI store and the query keys it asked to invalidate. Each
  operation is one asynchronous call: a start (everything up to the \<open>await\<close>) and a settlement (the
  rest, \<open>catch\<close> and \<open>finally\<close> included), with the locals it keeps across the await in a record. Between
  the two the component may unmount or mount, sessions may be deleted and restored, the store may
  change and other operations may be attempted; the step relation has one rule for each.

  Scopes live in a store indexed by numbers, since the active-request ref and a pending call share
  them. A setter of an unmounted component has no effect on the screen; the model still records it.
\<close>

section \<open>State\<close>

datatype ErrorKind =
    Concurrent | LlmUnavailable | AttemptInvalid | Network | ConnectionRequired
  | QuotaExceeded | ServiceUnavailable | HostileInputBlocked

record query_error =
  kind :: ErrorKind
  resetAt :: jsval

record ActiveRequest =
  active_scope :: nat
  active_session :: "string option"

datatype operation =
    SubmitQuestion string "string option" string
  | RejectQuery string
  | RegenerateQuery string
  | AcceptQuery string "string option"

record inflight =
  call :: operation
  call_session :: "string option"
  call_version :: nat
  call_scope :: nat

record query_hook =
  isSubmitting :: bool
  result :: "jsval option"
  refinePrompt :: "jsval option"
  evaluatorRejection :: "jsval option"
  timeout :: bool
  error :: "query_error option"
  submittingRef :: bool
  activeRequestRef :: "ActiveRequest option"
  mountedRef :: bool
  scopes :: "nat \<Rightarrow> request_scope"
  next_scope :: nat
  pending :: "inflight list"
  lifecycle :: "unit deletion_lifecycle"
  activeSessionId :: "string option"
  invalidated :: "string list list"

definition init_hook :: query_hook where
  "init_hook =
     \<lparr>isSubmitting = False, result = None, refinePrompt = None, evaluatorRejection = None,
      timeout = False, error = None, submittingRef = False, activeRequestRef = None,
      mountedRef = True, scopes = (\<lambda>_. new_RequestScope NoParent None), next_scope = 0, pending = [],
      lifecycle = subscribeToSessionDeletion () empty_lifecycle, activeSessionId = None,
      invalidated = []\<rparr>"

section \<open>The helpers of the hook\<close>

definition isApiError :: "jsval \<Rightarrow> bool" where
  "isApiError err = (err \<noteq> JNull \<and> typeof_object err)"

definition clearStates :: "query_hook \<Rightarrow> query_hook" where
  "clearStates h =
     h\<lparr>result := None, refinePrompt := None, evaluatorRejection := None, timeout := False,
       error := None\<rparr>"

definition resetError :: "query_hook \<Rightarrow> query_hook" where
  "resetError h = h\<lparr>error := None, evaluatorRejection := None, timeout := False\<rparr>"

definition setError :: "ErrorKind \<Rightarrow> jsval \<Rightarrow> query_hook \<Rightarrow> query_hook" where
  "setError k r h = h\<lparr>error := Some \<lparr>kind = k, resetAt = r\<rparr>\<rparr>"

definition handleError :: "jsval \<Rightarrow> query_hook \<Rightarrow> query_hook" where
  "handleError err h =
     (if \<not> isApiError err then setError Network JUndefined h
      else if js_has err ''violations'' then h\<lparr>evaluatorRejection := Some err\<rparr>
      else if js_has err ''kind'' \<and> js_get err ''kind'' = JStr ''refine''
      then h\<lparr>refinePrompt := Some err\<rparr>
      else
        (let messageKey = js_or (js_get err ''message_key'') (js_get (js_get err ''detail'') ''message_key'');
             errCode = js_or (js_get err ''error'') (js_get (js_get err ''detail'') ''error'')
         in if messageKey = JStr ''error.hostile_input_blocked'' \<or> errCode = JStr ''hostile_input_blocked''
            then setError HostileInputBlocked JUndefined h
            else if messageKey = JStr ''error.quota_exceeded'' \<or> errCode = JStr ''quota_exceeded''
            then setError QuotaExceeded
                   (js_or (js_get err ''reset_at'') (js_get (js_get err ''detail'') ''reset_at'')) h
            else if messageKey = JStr ''error.service_unavailable'' \<or> errCode = JStr ''service_unavailable''
            then setError ServiceUnavailable JUndefined h
            else
              (let code = js_get err ''error''
               in if code = JStr ''concurrent'' then setError Concurrent JUndefined h
                  else if code = JStr ''llm_unavailable'' then setError LlmUnavailable JUndefined h
                  else if code = JStr ''attempt_invalid'' then setError AttemptInvalid JUndefined h
                  else if code = JStr ''timeout'' then h\<lparr>timeout := True\<rparr>
                  else setError Network JUndefined h)))"

definition beginRequest :: "string option \<Rightarrow> query_hook \<Rightarrow> query_hook outcome" where
  "beginRequest sid h =
     (if submittingRef h then Inl (new_error ErrorClass ''Error'' ''submit_in_progress'')
      else
        (let h1 = clearStates (h\<lparr>submittingRef := True, isSubmitting := True\<rparr>);
             i = next_scope h1
         in Inr (h1\<lparr>scopes := (scopes h1)(i := new_RequestScope NoParent None),
                    next_scope := Suc i,
                    activeRequestRef := Some \<lparr>active_scope = i, active_session = sid\<rparr>\<rparr>)))"

definition update_scope :: "nat \<Rightarrow> (request_scope \<Rightarrow> request_scope) \<Rightarrow> query_hook \<Rightarrow> query_hook" where
  "update_scope i f h = h\<lparr>scopes := (scopes h)(i := f (scopes h i))\<rparr>"

definition endRequest :: "query_hook \<Rightarrow> query_hook" where
  "endRequest h =
     (let h1 = (case activeRequestRef h of
                  None \<Rightarrow> h
                | Some a \<Rightarrow> update_scope (active_scope a) dispose h)
      in h1\<lparr>activeRequestRef := None, submittingRef := False, isSubmitting := False\<rparr>)"

text \<open>The error \<open>classifyFailure\<close> rethrows and the state it leaves; the call sites pass a scope.\<close>

definition classifyFailure :: "jsval \<Rightarrow> request_scope \<Rightarrow> query_hook \<Rightarrow> jsval \<times> query_hook" where
  "classifyFailure err scope h =
     (if aborted scope
      then ((case throwIfAborted scope of Some e \<Rightarrow> e | None \<Rightarrow> RequestAbortedError), h)
      else if isAbortFailure err then (RequestAbortedError, h)
      else (err, handleError err h))"

datatype suppression = NoSuppression | SuppressAborted | SuppressDeleted

definition session_truthy :: "string option \<Rightarrow> bool" where
  "session_truthy sid = (case sid of None \<Rightarrow> False | Some s \<Rightarrow> s \<noteq> [])"

definition deletion_seen :: "string option \<Rightarrow> nat \<Rightarrow> query_hook \<Rightarrow> bool" where
  "deletion_seen sid v h =
     (session_truthy sid \<and>
      (isSessionUnavailable (the sid) (lifecycle h) \<or>
       didSessionDeletionStart (the sid) v (lifecycle h)))"

definition classifySuppression ::
    "string option \<Rightarrow> nat \<Rightarrow> request_scope \<Rightarrow> query_hook \<Rightarrow> suppression" where
  "classifySuppression sid v scope h =
     (if deletion_seen sid v h then SuppressDeleted
      else if \<not> mountedRef h \<or> aborted scope then SuppressAborted
      else NoSuppression)"

section \<open>The operations: starts\<close>

definition add_pending :: "operation \<Rightarrow> string option \<Rightarrow> nat \<Rightarrow> query_hook \<Rightarrow> query_hook" where
  "add_pending op sid v h =
     (case activeRequestRef h of
        None \<Rightarrow> h
      | Some a \<Rightarrow>
          h\<lparr>pending := pending h @
              [\<lparr>call = op, call_session = sid, call_version = v, call_scope = active_scope a\<rparr>]\<rparr>)"

definition start_request ::
    "operation \<Rightarrow> string option \<Rightarrow> nat \<Rightarrow> query_hook \<Rightarrow> jsval option \<times> query_hook" where
  "start_request op sid v h =
     (case beginRequest sid h of
        Inl e \<Rightarrow> (Some e, h)
      | Inr h1 \<Rightarrow> (None, add_pending op sid v h1))"

text \<open>
  What the caller sees at once: \<open>Some e\<close> when the call is rejected before any request is made.
\<close>

definition submitQuestion_start ::
    "bool \<Rightarrow> string \<Rightarrow> string option \<Rightarrow> string option \<Rightarrow> query_hook \<Rightarrow> jsval option \<times> query_hook" where
  "submitQuestion_start canSubmitQuery q sid connectionId h =
     (case requirePermission canSubmitQuery QUERY_SUBMIT of
        Inl e \<Rightarrow> (Some e, h)
      | Inr _ \<Rightarrow>
          if \<not> session_truthy connectionId
          then (Some (new_error ErrorClass ''Error'' ''connection_required''),
                setError ConnectionRequired JUndefined h)
          else if session_truthy sid \<and> isSessionUnavailable (the sid) (lifecycle h)
          then (Some SessionDeletionError, h)
          else
            (let deletionVersion =
                   (if session_truthy sid then getSessionDeletionVersion (the sid) (lifecycle h) else 0)
             in start_request (SubmitQuestion q sid (the connectionId)) sid deletionVersion h))"

definition rejectQuery_start :: "bool \<Rightarrow> string \<Rightarrow> query_hook \<Rightarrow> jsval option \<times> query_hook" where
  "rejectQuery_start canSubmitQuery attemptId h =
     (case requirePermission canSubmitQuery QUERY_SUBMIT of
        Inl e \<Rightarrow> (Some e, h)
      | Inr _ \<Rightarrow> start_request (RejectQuery attemptId) None 0 h)"

definition regenerateQuery_start :: "bool \<Rightarrow> string \<Rightarrow> query_hook \<Rightarrow> jsval option \<times> query_hook" where
  "regenerateQuery_start canSubmitQuery attemptId h =
     (case requirePermission canSubmitQuery QUERY_SUBMIT of
        Inl e \<Rightarrow> (Some e, h)
      | Inr _ \<Rightarrow> start_request (RegenerateQuery attemptId) None 0 h)"

definition acceptQuery_start ::
    "bool \<Rightarrow> string \<Rightarrow> string option \<Rightarrow> query_hook \<Rightarrow> jsval option \<times> query_hook" where
  "acceptQuery_start canSubmitQuery attemptId sid h =
     (case requirePermission canSubmitQuery QUERY_SUBMIT of
        Inl e \<Rightarrow> (Some e, h)
      | Inr _ \<Rightarrow> start_request (AcceptQuery attemptId sid) sid 0 h)"

section \<open>The operations: settlements\<close>

definition is_kind :: "string \<Rightarrow> jsval \<Rightarrow> bool" where
  "is_kind k d = (truthy d \<and> typeof_object d \<and> js_has d ''kind'' \<and> js_get d ''kind'' = JStr k)"

text \<open>The part of \<open>submitQuestion\<close> between the await and the \<open>catch\<close>: what it throws or returns.\<close>

definition submit_body :: "inflight \<Rightarrow> jsval \<Rightarrow> query_hook \<Rightarrow> jsval outcome \<times> query_hook" where
  "submit_body c data h =
     (let scope = scopes h (call_scope c)
      in case classifySuppression (call_session c) (call_version c) scope h of
           SuppressAborted \<Rightarrow>
             (Inl (case throwIfAborted scope of Some e \<Rightarrow> e | None \<Rightarrow> RequestAbortedError), clearStates h)
         | SuppressDeleted \<Rightarrow> (Inl SessionDeletionError, clearStates h)
         | NoSuppression \<Rightarrow>
             (Inr data,
              if is_kind ''result'' data
              then (let h1 = h\<lparr>result := Some data\<rparr>;
                        sess = js_get data ''session_id''
                    in case sess of
                         JStr s \<Rightarrow>
                           if s \<noteq> [] \<and> call_session c \<noteq> Some s
                           then h1\<lparr>activeSessionId := Some s,
                                   invalidated := invalidated h1 @ [[''sessions'']]\<rparr>
                           else h1
                       | _ \<Rightarrow> h1)
              else h))"

definition submit_catch :: "inflight \<Rightarrow> jsval \<Rightarrow> query_hook \<Rightarrow> jsval \<times> query_hook" where
  "submit_catch c err h =
     (if isSessionDeletionError err \<or> deletion_seen (call_session c) (call_version c) h
      then ((if isSessionDeletionError err then err else SessionDeletionError), clearStates h)
      else classifyFailure err (scopes h (call_scope c)) h)"

text \<open>
  The body shared by \<open>rejectQuery\<close> and \<open>regenerateQuery\<close> (and, without the data, \<open>acceptQuery\<close>):
  \<open>throw scope.throwIfAborted()!\<close> throws \<open>null\<close> when the scope is not aborted.
\<close>

definition attempt_body :: "inflight \<Rightarrow> jsval \<Rightarrow> query_hook \<Rightarrow> jsval outcome \<times> query_hook" where
  "attempt_body c data h =
     (let scope = scopes h (call_scope c)
      in if classifySuppression None 0 scope h = SuppressAborted
         then (Inl (case throwIfAborted scope of Some e \<Rightarrow> e | None \<Rightarrow> JNull), clearStates h)
         else (Inr data,
               if is_kind ''result'' data then h\<lparr>result := Some data\<rparr>
               else if is_kind ''refine'' data then h\<lparr>refinePrompt := Some data\<rparr>
               else h))"

definition accept_body :: "inflight \<Rightarrow> query_hook \<Rightarrow> jsval outcome \<times> query_hook" where
  "accept_body c h =
     (let scope = scopes h (call_scope c)
      in if classifySuppression (call_session c) 0 scope h = SuppressAborted
         then (Inl (case throwIfAborted scope of Some e \<Rightarrow> e | None \<Rightarrow> JNull), clearStates h)
         else (Inr JUndefined, h))"

definition body :: "inflight \<Rightarrow> jsval \<Rightarrow> query_hook \<Rightarrow> jsval outcome \<times> query_hook" where
  "body c data h =
     (case call c of
        SubmitQuestion q sid con \<Rightarrow> submit_body c data h
      | RejectQuery a \<Rightarrow>
          (case attempt_body c data h of (Inr _, h1) \<Rightarrow> (Inr JUndefined, h1) | r \<Rightarrow> r)
      | RegenerateQuery a \<Rightarrow> attempt_body c data h
      | AcceptQuery a sid \<Rightarrow> accept_body c h)"

definition catch :: "inflight \<Rightarrow> jsval \<Rightarrow> query_hook \<Rightarrow> jsval \<times> query_hook" where
  "catch c err h =
     (case call c of
        SubmitQuestion q sid con \<Rightarrow> submit_catch c err h
      | _ \<Rightarrow> classifyFailure err (scopes h (call_scope c)) h)"

text \<open>
  A call settles: the SDK promise resolved with \<open>data\<close> (\<open>Inr\<close>) or rejected with \<open>err\<close> (\<open>Inl\<close>); what
  the caller's promise becomes, and the state after \<open>finally\<close>.
\<close>

definition settle :: "inflight \<Rightarrow> jsval outcome \<Rightarrow> query_hook \<Rightarrow> jsval outcome \<times> query_hook" where
  "settle c response h =
     (let h0 = h\<lparr>pending := removeAll c (pending h)\<rparr>;
          tried = (case response of Inr data \<Rightarrow> body c data h0 | Inl e \<Rightarrow> (Inl e, h0));
          caught = (case tried of
                      (Inr v, h1) \<Rightarrow> (Inr v, h1)
                    | (Inl e, h1) \<Rightarrow> (case catch c e h1 of (e', h2) \<Rightarrow> (Inl e', h2)))
      in (fst caught, endRequest (snd caught)))"

section \<open>The other events\<close>

definition unmount :: "query_hook \<Rightarrow> query_hook" where
  "unmount h =
     (let h1 = h\<lparr>mountedRef := False\<rparr>;
          h2 = (case activeRequestRef h1 of
                  None \<Rightarrow> h1
                | Some a \<Rightarrow> update_scope (active_scope a) (dispose \<circ> abort) h1)
      in h2\<lparr>activeRequestRef := None,
            lifecycle := unsubscribeFromSessionDeletion () (lifecycle h2)\<rparr>)"

definition mount :: "query_hook \<Rightarrow> query_hook" where
  "mount h = h\<lparr>mountedRef := True, lifecycle := subscribeToSessionDeletion () (lifecycle h)\<rparr>"

definition on_session_deletion :: "string \<Rightarrow> query_hook \<Rightarrow> query_hook" where
  "on_session_deletion sid h =
     (case activeRequestRef h of
        None \<Rightarrow> h
      | Some a \<Rightarrow> if active_session a = Some sid then update_scope (active_scope a) abort h else h)"

definition session_deletion_begins :: "string \<Rightarrow> query_hook \<Rightarrow> query_hook" where
  "session_deletion_begins sid h =
     (case beginSessionDeletion sid (lifecycle h) of
        (l, called) \<Rightarrow> (if () \<in> set called then on_session_deletion sid (h\<lparr>lifecycle := l\<rparr>)
                        else h\<lparr>lifecycle := l\<rparr>))"

text \<open>
  The steps of the hook in its environment. The component calls its operations while it is mounted;
  every other event can happen at any time. \<open>hook_move\<close> has what happens within one identity; a
  \<open>hook_step\<close> is such a move or the reset of the deletion lifecycle by the identity boundary.
\<close>

inductive hook_move :: "query_hook \<Rightarrow> query_hook \<Rightarrow> bool" where
  submit: "mountedRef h \<Longrightarrow> hook_move h (snd (submitQuestion_start granted q sid con h))"
| reject: "mountedRef h \<Longrightarrow> hook_move h (snd (rejectQuery_start granted a h))"
| regenerate: "mountedRef h \<Longrightarrow> hook_move h (snd (regenerateQuery_start granted a h))"
| accept: "mountedRef h \<Longrightarrow> hook_move h (snd (acceptQuery_start granted a sid h))"
| settled: "c \<in> set (pending h) \<Longrightarrow> hook_move h (snd (settle c response h))"
| unmounted: "hook_move h (unmount h)"
| mounted: "hook_move h (mount h)"
| deletion: "hook_move h (session_deletion_begins sid h)"
| rollback: "hook_move h (h\<lparr>lifecycle := rollbackSessionDeletion sid (lifecycle h)\<rparr>)"
| store: "hook_move h (h\<lparr>activeSessionId := sid\<rparr>)"
| error_reset: "hook_move h (resetError h)"
| states_reset: "hook_move h (clearStates h)"

inductive hook_step :: "query_hook \<Rightarrow> query_hook \<Rightarrow> bool" where
  move: "hook_move h h' \<Longrightarrow> hook_step h h'"
| lifecycle_reset: "hook_step h (h\<lparr>lifecycle := resetSessionDeletionLifecycle (lifecycle h)\<rparr>)"

text \<open>Any sequence of moves within one identity.\<close>

inductive hook_moves :: "query_hook \<Rightarrow> query_hook \<Rightarrow> bool" where
  none: "hook_moves h h"
| one_more: "hook_moves h h1 \<Longrightarrow> hook_move h1 h2 \<Longrightarrow> hook_moves h h2"

inductive hook_reachable :: "query_hook \<Rightarrow> bool" where
  start: "hook_reachable init_hook"
| step: "hook_reachable h \<Longrightarrow> hook_step h h' \<Longrightarrow> hook_reachable h'"

text \<open>
  The invariant: at most one call is pending, exactly while the hook says it is submitting; the active
  request ref names the scope and session of that call, and once the ref has been dropped by an
  unmount the scope of the call is aborted and disposed; a hook that is not mounted has no active
  request; and no answer is on display while a call is pending.
\<close>

definition pending_consistent :: "query_hook \<Rightarrow> bool" where
  "pending_consistent h =
     (case pending h of
        [] \<Rightarrow> \<not> submittingRef h \<and> activeRequestRef h = None
      | [c] \<Rightarrow> submittingRef h \<and>
          (case activeRequestRef h of
             None \<Rightarrow> aborted (scopes h (call_scope c)) \<and> disposed (scopes h (call_scope c))
           | Some a \<Rightarrow> active_scope a = call_scope c \<and> active_session a = call_session c)
      | _ \<Rightarrow> False)"

text \<open>No answer is on display while a call is pending.\<close>

definition states_clean :: "query_hook \<Rightarrow> bool" where
  "states_clean h = (result h = None \<and> refinePrompt h = None \<and> evaluatorRejection h = None \<and>
     \<not> timeout h)"

definition hook_inv :: "query_hook \<Rightarrow> bool" where
  "hook_inv h \<longleftrightarrow>
     (\<forall>i. caller_scope (scopes h i)) \<and>
     (isSubmitting h \<longleftrightarrow> submittingRef h) \<and>
     pending_consistent h \<and>
     (\<not> mountedRef h \<longrightarrow> activeRequestRef h = None) \<and>
     (pending h \<noteq> [] \<longrightarrow> states_clean h)"

section \<open>Frame lemmas\<close>

lemma clearStates_frame [simp]:
  "isSubmitting (clearStates h) = isSubmitting h" "submittingRef (clearStates h) = submittingRef h"
  "activeRequestRef (clearStates h) = activeRequestRef h" "mountedRef (clearStates h) = mountedRef h"
  "scopes (clearStates h) = scopes h" "next_scope (clearStates h) = next_scope h"
  "pending (clearStates h) = pending h" "lifecycle (clearStates h) = lifecycle h"
  "activeSessionId (clearStates h) = activeSessionId h" "invalidated (clearStates h) = invalidated h"
  by (simp_all add: clearStates_def)

lemma clearStates_cleared [simp]:
  "result (clearStates h) = None" "refinePrompt (clearStates h) = None"
  "evaluatorRejection (clearStates h) = None" "timeout (clearStates h) = False"
  "error (clearStates h) = None"
  by (simp_all add: clearStates_def)

lemma resetError_frame [simp]:
  "isSubmitting (resetError h) = isSubmitting h" "submittingRef (resetError h) = submittingRef h"
  "activeRequestRef (resetError h) = activeRequestRef h" "mountedRef (resetError h) = mountedRef h"
  "scopes (resetError h) = scopes h" "pending (resetError h) = pending h"
  "states_clean h \<Longrightarrow> states_clean (resetError h)"
  by (simp_all add: resetError_def states_clean_def)

lemma setError_frame [simp]:
  "isSubmitting (setError k r h) = isSubmitting h" "submittingRef (setError k r h) = submittingRef h"
  "activeRequestRef (setError k r h) = activeRequestRef h" "mountedRef (setError k r h) = mountedRef h"
  "scopes (setError k r h) = scopes h" "pending (setError k r h) = pending h"
  "lifecycle (setError k r h) = lifecycle h" "activeSessionId (setError k r h) = activeSessionId h"
  "result (setError k r h) = result h" "invalidated (setError k r h) = invalidated h"
  by (simp_all add: setError_def)

lemma handleError_frame [simp]:
  "isSubmitting (handleError e h) = isSubmitting h" "submittingRef (handleError e h) = submittingRef h"
  "activeRequestRef (handleError e h) = activeRequestRef h" "mountedRef (handleError e h) = mountedRef h"
  "scopes (handleError e h) = scopes h" "pending (handleError e h) = pending h"
  "lifecycle (handleError e h) = lifecycle h" "activeSessionId (handleError e h) = activeSessionId h"
  "result (handleError e h) = result h" "invalidated (handleError e h) = invalidated h"
  by (simp_all add: handleError_def Let_def)

lemma classifyFailure_frame [simp]:
  "isSubmitting (snd (classifyFailure e s h)) = isSubmitting h"
  "submittingRef (snd (classifyFailure e s h)) = submittingRef h"
  "activeRequestRef (snd (classifyFailure e s h)) = activeRequestRef h"
  "mountedRef (snd (classifyFailure e s h)) = mountedRef h"
  "scopes (snd (classifyFailure e s h)) = scopes h" "pending (snd (classifyFailure e s h)) = pending h"
  "lifecycle (snd (classifyFailure e s h)) = lifecycle h"
  "activeSessionId (snd (classifyFailure e s h)) = activeSessionId h"
  "result (snd (classifyFailure e s h)) = result h"
  by (simp_all add: classifyFailure_def)

lemma catch_frame [simp]:
  "isSubmitting (snd (catch c e h)) = isSubmitting h" "submittingRef (snd (catch c e h)) = submittingRef h"
  "activeRequestRef (snd (catch c e h)) = activeRequestRef h" "mountedRef (snd (catch c e h)) = mountedRef h"
  "scopes (snd (catch c e h)) = scopes h" "pending (snd (catch c e h)) = pending h"
  "lifecycle (snd (catch c e h)) = lifecycle h"
  "activeSessionId (snd (catch c e h)) = activeSessionId h"
  by (simp_all add: catch_def submit_catch_def split: operation.splits)

lemma submit_body_frame [simp]:
  "isSubmitting (snd (submit_body c d h)) = isSubmitting h"
  "submittingRef (snd (submit_body c d h)) = submittingRef h"
  "activeRequestRef (snd (submit_body c d h)) = activeRequestRef h"
  "mountedRef (snd (submit_body c d h)) = mountedRef h"
  "scopes (snd (submit_body c d h)) = scopes h" "pending (snd (submit_body c d h)) = pending h"
  "lifecycle (snd (submit_body c d h)) = lifecycle h"
  by (simp_all add: submit_body_def Let_def split: suppression.splits jsval.splits)

lemma body_frame [simp]:
  "isSubmitting (snd (body c d h)) = isSubmitting h" "submittingRef (snd (body c d h)) = submittingRef h"
  "activeRequestRef (snd (body c d h)) = activeRequestRef h" "mountedRef (snd (body c d h)) = mountedRef h"
  "scopes (snd (body c d h)) = scopes h" "pending (snd (body c d h)) = pending h"
  "lifecycle (snd (body c d h)) = lifecycle h"
  by (simp_all add: body_def attempt_body_def accept_body_def Let_def split: operation.splits)

lemma endRequest_frame [simp]:
  "\<not> isSubmitting (endRequest h)" "\<not> submittingRef (endRequest h)" "activeRequestRef (endRequest h) = None"
  "mountedRef (endRequest h) = mountedRef h" "pending (endRequest h) = pending h"
  "lifecycle (endRequest h) = lifecycle h" "activeSessionId (endRequest h) = activeSessionId h"
  "result (endRequest h) = result h" "refinePrompt (endRequest h) = refinePrompt h"
  "evaluatorRejection (endRequest h) = evaluatorRejection h" "error (endRequest h) = error h"
  "timeout (endRequest h) = timeout h" "invalidated (endRequest h) = invalidated h"
  by (simp_all add: endRequest_def update_scope_def Let_def split: option.splits)

lemma endRequest_scopes:
  "scopes (endRequest h) =
     (case activeRequestRef h of
        None \<Rightarrow> scopes h
      | Some a \<Rightarrow> (scopes h)(active_scope a := dispose (scopes h (active_scope a))))"
  by (simp add: endRequest_def update_scope_def Let_def split: option.splits)

text \<open>The state just before \<open>finally\<close>, whatever the response.\<close>

lemma settle_as_endRequest:
  "\<exists>h1. snd (settle c response h) = endRequest h1 \<and>
     activeRequestRef h1 = activeRequestRef h \<and> mountedRef h1 = mountedRef h \<and> scopes h1 = scopes h \<and>
     pending h1 = removeAll c (pending h) \<and> lifecycle h1 = lifecycle h"
proof (cases response)
  case (Inl e)
  let ?h1 = "snd (catch c e (h\<lparr>pending := removeAll c (pending h)\<rparr>))"
  have "snd (settle c response h) = endRequest ?h1"
    using Inl by (simp add: settle_def Let_def split: prod.splits)
  then show ?thesis by (intro exI [of _ ?h1]) simp
next
  case (Inr d)
  let ?h0 = "h\<lparr>pending := removeAll c (pending h)\<rparr>"
  obtain r h1 where b: "body c d ?h0 = (r, h1)" by (cases "body c d ?h0")
  let ?h2 = "case r of Inr v \<Rightarrow> h1 | Inl e \<Rightarrow> snd (catch c e h1)"
  have "snd (settle c response h) = endRequest ?h2"
    using Inr b by (simp add: settle_def Let_def split: prod.splits sum.splits)
  moreover have "activeRequestRef ?h2 = activeRequestRef h" "mountedRef ?h2 = mountedRef h"
      "scopes ?h2 = scopes h" "pending ?h2 = removeAll c (pending h)" "lifecycle ?h2 = lifecycle h"
    using body_frame [of c d ?h0] by (simp_all add: b split: sum.splits)
  ultimately show ?thesis by blast
qed

section \<open>The invariant is kept\<close>

lemma caller_scope_new [simp]: "caller_scope (new_RequestScope NoParent None)"
  by (rule qscope.owned_new)

lemma hook_inv_init: "hook_inv init_hook"
  by (simp add: hook_inv_def pending_consistent_def init_hook_def)

lemma hook_inv_start_request:
  assumes "hook_inv h" and "mountedRef h"
  shows "hook_inv (snd (start_request op sid v h))"
proof (cases "submittingRef h")
  case True
  with assms(1) show ?thesis by (simp add: start_request_def beginRequest_def)
next
  case False
  with assms(1) have "pending h = []"
    by (auto simp: hook_inv_def pending_consistent_def split: list.splits)
  with False assms show ?thesis
    by (simp add: start_request_def beginRequest_def Let_def add_pending_def hook_inv_def
        pending_consistent_def states_clean_def)
qed

lemma hook_inv_frame:
  assumes "hook_inv h" "isSubmitting h' = isSubmitting h" "submittingRef h' = submittingRef h"
    "activeRequestRef h' = activeRequestRef h" "mountedRef h' = mountedRef h" "scopes h' = scopes h"
    "pending h' = pending h" "states_clean h \<Longrightarrow> states_clean h'"
  shows "hook_inv h'"
  using assms(1,8) unfolding hook_inv_def pending_consistent_def assms(2-7) by blast

lemma hook_inv_starts:
  assumes "hook_inv h" and "mountedRef h"
  shows "hook_inv (snd (submitQuestion_start granted q sid con h))"
    and "hook_inv (snd (rejectQuery_start granted a h))"
    and "hook_inv (snd (regenerateQuery_start granted a h))"
    and "hook_inv (snd (acceptQuery_start granted a sid h))"
proof -
  have "hook_inv (setError ConnectionRequired JUndefined h)"
    by (rule hook_inv_frame [OF assms(1)]) (simp_all add: states_clean_def setError_def)
  then show "hook_inv (snd (submitQuestion_start granted q sid con h))"
    using assms by (simp add: submitQuestion_start_def Let_def hook_inv_start_request split: sum.splits)
qed (use assms in \<open>simp_all add: rejectQuery_start_def regenerateQuery_start_def
      acceptQuery_start_def hook_inv_start_request split: sum.splits\<close>)

lemma hook_inv_settle:
  assumes "hook_inv h" and "c \<in> set (pending h)"
  shows "hook_inv (snd (settle c response h))"
proof -
  obtain h1 where h1: "snd (settle c response h) = endRequest h1"
      "activeRequestRef h1 = activeRequestRef h" "mountedRef h1 = mountedRef h" "scopes h1 = scopes h"
      "pending h1 = removeAll c (pending h)"
    using settle_as_endRequest by blast
  from assms have "pending h = [c]"
    by (auto simp: hook_inv_def pending_consistent_def split: list.splits)
  moreover have "caller_scope (scopes (endRequest h1) i)" for i
    using assms(1) h1 by (auto simp: endRequest_scopes hook_inv_def qscope.owned_disp split: option.splits)
  ultimately show ?thesis
    using h1 by (simp add: hook_inv_def pending_consistent_def)
qed

lemma hook_inv_unmount: "hook_inv h \<Longrightarrow> hook_inv (unmount h)"
  by (auto simp: hook_inv_def pending_consistent_def unmount_def update_scope_def Let_def states_clean_def
      qscope.owned_abrt qscope.owned_disp qscope.abrt_disp_aborted split: list.splits option.splits)

lemma hook_inv_mount: "hook_inv h \<Longrightarrow> hook_inv (mount h)"
  by (auto simp: hook_inv_def pending_consistent_def mount_def states_clean_def split: list.splits option.splits)

lemma hook_inv_deletion: "hook_inv h \<Longrightarrow> hook_inv (session_deletion_begins sid h)"
  by (auto simp: hook_inv_def pending_consistent_def session_deletion_begins_def on_session_deletion_def
      update_scope_def states_clean_def qscope.owned_abrt qscope.abrt_sets split: prod.splits list.splits option.splits)

lemma hook_inv_move: "hook_move h h' \<Longrightarrow> hook_inv h \<Longrightarrow> hook_inv h'"
proof (induction rule: hook_move.induct)
  case (rollback h sid)
  then show ?case by (rule hook_inv_frame) (simp_all add: states_clean_def)
next
  case (store h sid)
  then show ?case by (rule hook_inv_frame) (simp_all add: states_clean_def)
next
  case (error_reset h)
  then show ?case by (rule hook_inv_frame) simp_all
next
  case (states_reset h)
  then show ?case by (rule hook_inv_frame) (simp_all add: states_clean_def)
qed (auto intro: hook_inv_starts hook_inv_settle hook_inv_unmount hook_inv_mount hook_inv_deletion)

lemma hook_inv_step: "hook_step h h' \<Longrightarrow> hook_inv h \<Longrightarrow> hook_inv h'"
proof (induction rule: hook_step.induct)
  case (lifecycle_reset h)
  then show ?case by (rule hook_inv_frame) (simp_all add: states_clean_def)
qed (rule hook_inv_move)

lemma hook_inv_reachable: "hook_reachable h \<Longrightarrow> hook_inv h"
  by (induction rule: hook_reachable.induct) (auto intro: hook_inv_init hook_inv_step)

lemma reachable_move: "hook_reachable h \<Longrightarrow> hook_move h h' \<Longrightarrow> hook_reachable h'"
  by (rule hook_reachable.step [OF _ hook_step.move])

section \<open>The deletion lifecycle over the moves\<close>

lemma start_request_lifecycle [simp]: "lifecycle (snd (start_request op sid v h)) = lifecycle h"
  by (simp add: start_request_def beginRequest_def add_pending_def Let_def)

lemma starts_lifecycle [simp]:
  "lifecycle (snd (submitQuestion_start granted q sid con h)) = lifecycle h"
  "lifecycle (snd (rejectQuery_start granted a h)) = lifecycle h"
  "lifecycle (snd (regenerateQuery_start granted a h)) = lifecycle h"
  "lifecycle (snd (acceptQuery_start granted a sid h)) = lifecycle h"
  by (simp_all add: submitQuestion_start_def rejectQuery_start_def regenerateQuery_start_def
      acceptQuery_start_def Let_def split: sum.splits)

lemma settle_lifecycle [simp]: "lifecycle (snd (settle c response h)) = lifecycle h"
  using settle_as_endRequest [of c response h] by auto

lemma deletion_begins_lifecycle [simp]:
  "lifecycle (session_deletion_begins sid h) = fst (beginSessionDeletion sid (lifecycle h))"
  by (simp add: session_deletion_begins_def on_session_deletion_def update_scope_def
      split: prod.splits option.splits)

lemma mount_lifecycle [simp]:
  "lifecycle (mount h) = subscribeToSessionDeletion () (lifecycle h)"
  "lifecycle (unmount h) = unsubscribeFromSessionDeletion () (lifecycle h)"
  "lifecycle (resetError h) = lifecycle h"
  by (simp_all add: mount_def unmount_def resetError_def update_scope_def Let_def split: option.splits)

text \<open>A move within one identity does at most one operation of the deletion lifecycle, never a reset.\<close>

lemma hook_move_lifecycle:
  "hook_move h h' \<Longrightarrow>
   \<exists>es. list_all keeps_identity es \<and> lifecycle h' = lifecycle_run es (lifecycle h)"
proof (induction rule: hook_move.induct)
  case (unmounted h)
  show ?case by (intro exI [of _ "[UnsubscribeDeletion ()]"]) simp
next
  case (mounted h)
  show ?case by (intro exI [of _ "[SubscribeDeletion ()]"]) simp
next
  case (deletion h sid)
  show ?case by (intro exI [of _ "[BeginDeletion sid]"]) simp
next
  case (rollback h sid)
  show ?case by (intro exI [of _ "[RollbackDeletion sid]"]) simp
qed (auto intro: exI [of _ "[]"])

lemma lifecycle_run_append: "lifecycle_run (es @ fs) s = lifecycle_run fs (lifecycle_run es s)"
  by (simp add: lifecycle_run_fold)

lemma hook_moves_lifecycle:
  "hook_moves h h' \<Longrightarrow>
   \<exists>es. list_all keeps_identity es \<and> lifecycle h' = lifecycle_run es (lifecycle h)"
proof (induction rule: hook_moves.induct)
  case (none h)
  show ?case by (intro exI [of _ "[]"]) simp
next
  case (one_more h h1 h2)
  from one_more.IH obtain es where es: "list_all keeps_identity es"
      "lifecycle h1 = lifecycle_run es (lifecycle h)" by blast
  from hook_move_lifecycle [OF one_more.hyps(2)] obtain fs where fs: "list_all keeps_identity fs"
      "lifecycle h2 = lifecycle_run fs (lifecycle h1)" by blast
  show ?case using es fs by (intro exI [of _ "es @ fs"]) (simp add: lifecycle_run_append)
qed

text \<open>
  The snapshot of an older state differs from the version after a deletion that began while the session
  was available, whatever was done within the identity before and after it.
\<close>

lemma moves_around_deletion:
  assumes "hook_moves h1 h2" and "\<not> isSessionUnavailable sid (lifecycle h2)"
    and "hook_moves (session_deletion_begins sid h2) h"
  shows "didSessionDeletionStart sid (getSessionDeletionVersion sid (lifecycle h1)) (lifecycle h)"
proof -
  from hook_moves_lifecycle [OF assms(1)] obtain es where es: "list_all keeps_identity es"
      "lifecycle h2 = lifecycle_run es (lifecycle h1)" by blast
  from hook_moves_lifecycle [OF assms(3)] obtain fs where fs: "list_all keeps_identity fs"
      "lifecycle h = lifecycle_run fs (lifecycle (session_deletion_begins sid h2))" by blast
  let ?es = "es @ BeginDeletion sid # fs"
  have "lifecycle h = lifecycle_run ?es (lifecycle h1)"
    using es fs by (simp add: lifecycle_run_append)
  moreover have "deletions_begun sid ?es (lifecycle h1) \<noteq> 0"
    using assms(2) es(2) by (simp add: deletions_begun_append)
  ultimately show ?thesis
    using version_run [of ?es sid "lifecycle h1"] es fs by (simp add: didSessionDeletionStart_def)
qed

text \<open>What a submission that starts puts in flight: the call with the deletion version of that moment.\<close>

lemma submission_in_flight:
  assumes "submitQuestion_start granted q (Some sid) con h0 = (None, h1)" and "sid \<noteq> []"
  shows "pending h1 = pending h0 @
     [\<lparr>call = SubmitQuestion q (Some sid) (the con), call_session = Some sid,
       call_version = getSessionDeletionVersion sid (lifecycle h0), call_scope = next_scope h0\<rparr>]"
  using assms
  by (auto simp: submitQuestion_start_def start_request_def beginRequest_def add_pending_def Let_def
      session_truthy_def split: sum.splits if_splits)

section \<open>Settlement lemmas\<close>

lemma reachable_pending_single:
  assumes "hook_reachable h" and "c \<in> set (pending h)"
  shows "pending h = [c]"
  using hook_inv_reachable [OF assms(1)] assms(2)
  by (auto simp: hook_inv_def pending_consistent_def split: list.splits)

lemma reachable_caller_scope: "hook_reachable h \<Longrightarrow> caller_scope (scopes h i)"
  using hook_inv_reachable by (simp add: hook_inv_def)

lemma settle_failure:
  "settle c (Inl e) h =
     (let r = catch c e (h\<lparr>pending := removeAll c (pending h)\<rparr>) in (Inl (fst r), endRequest (snd r)))"
  by (simp add: settle_def Let_def split: prod.splits)

lemma settle_success:
  "settle c (Inr d) h =
     (let r = body c d (h\<lparr>pending := removeAll c (pending h)\<rparr>)
      in case fst r of
           Inr v \<Rightarrow> (Inr v, endRequest (snd r))
         | Inl e \<Rightarrow> (Inl (fst (catch c e (snd r))), endRequest (snd (catch c e (snd r)))))"
  by (simp add: settle_def Let_def split: prod.splits sum.splits)

lemma deletion_seen_frame [simp]:
  "deletion_seen sid v (h\<lparr>pending := p\<rparr>) = deletion_seen sid v h"
  "deletion_seen sid v (clearStates h) = deletion_seen sid v h"
  by (simp_all add: deletion_seen_def)

lemma states_clean_clearStates [simp]: "states_clean (clearStates h)"
  by (simp add: states_clean_def)

lemma states_clean_endRequest [simp]: "states_clean (endRequest h) = states_clean h"
  by (simp add: states_clean_def)

text \<open>A failure of an aborted scope is the silent abort, and leaves the state as it is.\<close>

lemma classifyFailure_aborted:
  "caller_scope s \<Longrightarrow> aborted s \<Longrightarrow> classifyFailure e s h = (RequestAbortedError, h)"
  by (simp add: classifyFailure_def qscope.thrown_iff)

definition indicators :: "query_hook \<Rightarrow> nat" where
  "indicators h = of_bool (result h \<noteq> None) + of_bool (refinePrompt h \<noteq> None) +
     of_bool (evaluatorRejection h \<noteq> None) + of_bool (timeout h) + of_bool (error h \<noteq> None)"

lemma indicators_clean: "states_clean h \<Longrightarrow> indicators h = of_bool (error h \<noteq> None)"
  by (simp add: states_clean_def indicators_def)

lemma indicators_endRequest [simp]: "indicators (endRequest h) = indicators h"
  by (simp add: indicators_def)

lemma handleError_one_indicator:
  "states_clean h \<Longrightarrow> error h = None \<Longrightarrow> indicators (handleError e h) = 1"
  by (simp add: handleError_def Let_def indicators_def states_clean_def setError_def)

lemma reachable_suppressed_scope:
  assumes "hook_reachable h" and "c \<in> set (pending h)"
    and "\<not> mountedRef h \<or> aborted (scopes h (call_scope c))"
  shows "aborted (scopes h (call_scope c))"
  using hook_inv_reachable [OF assms(1)] reachable_pending_single [OF assms(1,2)] assms(3)
  by (auto simp: hook_inv_def pending_consistent_def)

lemma reachable_pending_clean:
  "hook_reachable h \<Longrightarrow> c \<in> set (pending h) \<Longrightarrow> states_clean (h\<lparr>pending := p\<rparr>)"
  using hook_inv_reachable [of h] by (auto simp: hook_inv_def states_clean_def)

lemma catch_deletion:
  assumes "call c = SubmitQuestion q sid con" and "deletion_seen (call_session c) (call_version c) h"
  shows "catch c e h = (if isSessionDeletionError e then e else SessionDeletionError, clearStates h)"
  using assms by (simp add: catch_def submit_catch_def)

lemma catch_aborted:
  assumes "caller_scope (scopes h (call_scope c))" and "aborted (scopes h (call_scope c))"
    and "\<not> isSessionDeletionError e"
  shows "catch c e h =
     (if (\<exists>q sid con. call c = SubmitQuestion q sid con) \<and> deletion_seen (call_session c) (call_version c) h
      then (SessionDeletionError, clearStates h) else (RequestAbortedError, h))"
  using assms by (auto simp: catch_def submit_catch_def classifyFailure_aborted split: operation.splits)

lemma body_deletion:
  assumes "call c = SubmitQuestion q sid con" and "deletion_seen (call_session c) (call_version c) h"
  shows "body c d h = (Inl SessionDeletionError, clearStates h)"
  using assms by (simp add: body_def submit_body_def classifySuppression_def)

lemma deletion_seen_None [simp]: "\<not> deletion_seen None v h"
  by (simp add: deletion_seen_def session_truthy_def)

lemma body_aborted:
  assumes "aborted (scopes h (call_scope c))" and "caller_scope (scopes h (call_scope c))"
    and "\<forall>a sid. call c \<noteq> AcceptQuery a sid"
  shows "body c d h =
     (if (\<exists>q sid con. call c = SubmitQuestion q sid con) \<and> deletion_seen (call_session c) (call_version c) h
      then (Inl SessionDeletionError, clearStates h) else (Inl RequestAbortedError, clearStates h))"
  using assms
  by (cases "call c") (simp_all add: body_def submit_body_def attempt_body_def classifySuppression_def
      qscope.thrown_iff)

section \<open>Sample states\<close>

text \<open>A question is asked in session \<open>s\<close>; then its deletion begins; a rejected attempt; an accept.\<close>

definition sample_asked :: query_hook where
  "sample_asked = snd (submitQuestion_start True ''q'' (Some ''s'') (Some ''c'') init_hook)"

definition sample_deleted :: query_hook where
  "sample_deleted = session_deletion_begins ''s'' sample_asked"

definition sample_rejecting :: query_hook where
  "sample_rejecting = unmount (snd (rejectQuery_start True ''a'' init_hook))"

definition sample_call :: "operation \<Rightarrow> string option \<Rightarrow> inflight" where
  "sample_call op sid = \<lparr>call = op, call_session = sid, call_version = 0, call_scope = 0\<rparr>"

definition sample_accepting :: query_hook where
  "sample_accepting =
     unmount (snd (acceptQuery_start True ''a'' (Some ''s'')
       (let h = session_deletion_begins ''s'' init_hook
        in h\<lparr>lifecycle := rollbackSessionDeletion ''s'' (lifecycle h)\<rparr>)))"

lemma sample_reachable:
  "hook_reachable sample_asked" "hook_reachable sample_deleted" "hook_reachable sample_rejecting"
proof -
  have m: "mountedRef init_hook" by (simp add: init_hook_def)
  show a: "hook_reachable sample_asked"
    unfolding sample_asked_def by (rule reachable_move [OF hook_reachable.start hook_move.submit [OF m]])
  show "hook_reachable sample_deleted"
    unfolding sample_deleted_def by (rule reachable_move [OF a hook_move.deletion])
  show "hook_reachable sample_rejecting"
    unfolding sample_rejecting_def
    by (rule reachable_move [OF reachable_move [OF hook_reachable.start hook_move.reject [OF m]]
          hook_move.unmounted])
qed

lemmas sample_defs =
  sample_asked_def sample_deleted_def sample_rejecting_def sample_call_def init_hook_def
  submitQuestion_start_def rejectQuery_start_def start_request_def beginRequest_def add_pending_def
  session_deletion_begins_def on_session_deletion_def update_scope_def unmount_def
  requirePermission_def session_truthy_def deletion_seen_def Let_def
  empty_lifecycle_def lifecycle_simps

lemma sample_pending:
  "pending sample_asked = [sample_call (SubmitQuestion ''q'' (Some ''s'') ''c'') (Some ''s'')]"
  "pending sample_deleted = [sample_call (SubmitQuestion ''q'' (Some ''s'') ''c'') (Some ''s'')]"
  "pending sample_rejecting = [sample_call (RejectQuery ''a'') None]"
  by (simp_all add: sample_defs)

lemma sample_accepting_reachable: "hook_reachable sample_accepting"
  unfolding sample_accepting_def Let_def
  by (intro reachable_move [OF _ hook_move.unmounted] reachable_move [OF _ hook_move.accept]
      reachable_move [OF _ hook_move.rollback] reachable_move [OF _ hook_move.deletion]
      hook_reachable.start) (simp add: sample_defs)

section \<open>Properties\<close>

text \<open>
  C4. Single flight: in every reachable state at most one call is pending, the screen says it is
  submitting exactly while one is, and a further call of any operation is then rejected without
  changing anything (\<open>submit_in_progress\<close> once the permission, the connection and the session have
  passed their checks).
\<close>

theorem one_request_at_a_time:
  assumes "hook_reachable h"
  shows "length (pending h) \<le> 1 \<and> (isSubmitting h \<longleftrightarrow> pending h \<noteq> []) \<and>
    (pending h \<noteq> [] \<longrightarrow>
       rejectQuery_start True a h = (Some (new_error ErrorClass ''Error'' ''submit_in_progress''), h) \<and>
       regenerateQuery_start True a h = (Some (new_error ErrorClass ''Error'' ''submit_in_progress''), h) \<and>
       acceptQuery_start True a sid h = (Some (new_error ErrorClass ''Error'' ''submit_in_progress''), h) \<and>
       (session_truthy con \<longrightarrow> \<not> (session_truthy sid \<and> isSessionUnavailable (the sid) (lifecycle h)) \<longrightarrow>
          submitQuestion_start True q sid con h =
            (Some (new_error ErrorClass ''Error'' ''submit_in_progress''), h)))"
proof -
  from hook_inv_reachable [OF assms] have
    len: "length (pending h) \<le> 1" and sub: "submittingRef h \<longleftrightarrow> pending h \<noteq> []"
      and iss: "isSubmitting h = submittingRef h"
    by (auto simp: hook_inv_def pending_consistent_def split: list.splits)
  show ?thesis
    using len sub iss
    by (simp add: rejectQuery_start_def regenerateQuery_start_def acceptQuery_start_def
        submitQuestion_start_def start_request_def beginRequest_def requirePermission_def Let_def)
qed

theorem one_request_at_a_time_witness:
  "rejectQuery_start True ''a'' sample_asked =
     (Some (new_error ErrorClass ''Error'' ''submit_in_progress''), sample_asked)"
  using one_request_at_a_time [OF sample_reachable(1)] by (simp add: sample_pending)

text \<open>
  C5. An answer to a deleted session never reaches the screen. A question is asked in a session; some
  time later, after any moves of the hook and its environment, a deletion of that session begins; any
  further moves follow, which may roll the deletion back, unmount and remount the hook or begin other
  deletions. If the call is still pending then, it ends in the session deletion error whatever the
  server says, every indicator is cleared, and neither the active session nor the session list is
  touched. The moves are those of one identity: \<open>resetSessionDeletionLifecycle\<close>, which the identity
  boundary calls when the identity changes, forgets the deletion and is not among them.
\<close>

theorem deleted_session_answer_suppressed:
  assumes "submitQuestion_start granted q (Some sid) con h0 = (None, h1)" and "sid \<noteq> []"
    and "pending h1 = [c]"
    and "hook_moves h1 h2" and "\<not> isSessionUnavailable sid (lifecycle h2)"
    and "hook_moves (session_deletion_begins sid h2) h" and "c \<in> set (pending h)"
  shows "(\<exists>e. fst (settle c response h) = Inl e \<and> isSessionDeletionError e) \<and>
    indicators (snd (settle c response h)) = 0 \<and>
    activeSessionId (snd (settle c response h)) = activeSessionId h \<and>
    invalidated (snd (settle c response h)) = invalidated h"
proof -
  have ind: "indicators (clearStates k) = 0" for k by (simp add: indicators_def)
  have lc: "lifecycle h1 = lifecycle h0" using starts_lifecycle(1) assms(1) by (metis snd_conv)
  have c: "call c = SubmitQuestion q (Some sid) (the con)" "call_session c = Some sid"
      "call_version c = getSessionDeletionVersion sid (lifecycle h1)"
    using submission_in_flight [OF assms(1,2)] assms(3) by (auto simp: lc)
  have "didSessionDeletionStart sid (getSessionDeletionVersion sid (lifecycle h1)) (lifecycle h)"
    using assms(4-6) by (rule moves_around_deletion)
  then have seen: "deletion_seen (call_session c) (call_version c) h"
    using assms(2) by (simp add: deletion_seen_def session_truthy_def c)
  show ?thesis
  proof (cases response)
    case (Inl e)
    with c(1) seen show ?thesis by (simp add: settle_failure catch_deletion Let_def ind)
  next
    case (Inr d)
    with c(1) seen show ?thesis by (simp add: settle_success body_deletion catch_deletion Let_def ind)
  qed
qed

text \<open>The question of the sample, whose session's deletion began and was rolled back again.\<close>

theorem deleted_session_answer_suppressed_witness:
  "indicators (snd (settle (sample_call (SubmitQuestion ''q'' (Some ''s'') ''c'') (Some ''s''))
     (Inr (plain [(''kind'', JStr ''result'')]))
     (sample_deleted\<lparr>lifecycle := rollbackSessionDeletion ''s'' (lifecycle sample_deleted)\<rparr>))) = 0"
proof -
  let ?c = "sample_call (SubmitQuestion ''q'' (Some ''s'') ''c'') (Some ''s'')"
  have "submitQuestion_start True ''q'' (Some ''s'') (Some ''c'') init_hook = (None, sample_asked)"
    by (simp add: sample_defs)
  moreover have "\<not> isSessionUnavailable ''s'' (lifecycle sample_asked)" by (simp add: sample_defs)
  moreover have "hook_moves (session_deletion_begins ''s'' sample_asked)
      (sample_deleted\<lparr>lifecycle := rollbackSessionDeletion ''s'' (lifecycle sample_deleted)\<rparr>)"
    unfolding sample_deleted_def
    by (rule hook_moves.one_more [OF hook_moves.none hook_move.rollback])
  ultimately show ?thesis
    using deleted_session_answer_suppressed [of True "''q''" "''s''" "Some ''c''" init_hook sample_asked ?c
        sample_asked, OF _ _ _ hook_moves.none]
    by (simp add: sample_pending)
qed

text \<open>
  C8. A cancelled question, rejection or regeneration is silent: once the hook is unmounted or the
  scope aborted, the call is rejected with an abort or a deletion error and nothing else (never with
  \<open>null\<close>, although \<open>throw scope.throwIfAborted()!\<close> could), it shows no answer, and it does not switch
  the active session.
\<close>

theorem cancelled_call_is_silent:
  assumes "hook_reachable h" and "c \<in> set (pending h)" and "\<forall>a sid. call c \<noteq> AcceptQuery a sid"
    and "\<not> mountedRef h \<or> aborted (scopes h (call_scope c))"
    and "case response of Inl e \<Rightarrow> \<not> isSessionDeletionError e | Inr d \<Rightarrow> True"
  shows "fst (settle c response h) \<in> {Inl RequestAbortedError, Inl SessionDeletionError} \<and>
    states_clean (snd (settle c response h)) \<and>
    activeSessionId (snd (settle c response h)) = activeSessionId h"
proof -
  let ?h0 = "h\<lparr>pending := removeAll c (pending h)\<rparr>"
  have ab: "aborted (scopes h (call_scope c))"
    using assms(1,2,4) by (rule reachable_suppressed_scope)
  have cs: "caller_scope (scopes h (call_scope c))" by (rule reachable_caller_scope [OF assms(1)])
  have clean: "states_clean ?h0" using assms(1,2) by (rule reachable_pending_clean)
  have nodel: "\<not> isSessionDeletionError RequestAbortedError"
    by (simp add: isSessionDeletionError_def RequestAbortedError_def js_simps)
  show ?thesis
  proof (cases response)
    case (Inl e)
    with assms(5) ab cs clean catch_aborted [of ?h0 c e] show ?thesis
      by (simp add: settle_failure Let_def)
  next
    case (Inr d)
    have "body c d ?h0 =
        (if (\<exists>q sid con. call c = SubmitQuestion q sid con) \<and> deletion_seen (call_session c) (call_version c) h
         then (Inl SessionDeletionError, clearStates ?h0) else (Inl RequestAbortedError, clearStates ?h0))"
      using ab cs assms(3) body_aborted [of ?h0 c d] by simp
    moreover have "catch c RequestAbortedError (clearStates ?h0) =
        (if (\<exists>q sid con. call c = SubmitQuestion q sid con) \<and> deletion_seen (call_session c) (call_version c) h
         then (SessionDeletionError, clearStates (clearStates ?h0))
         else (RequestAbortedError, clearStates ?h0))"
      using ab cs nodel catch_aborted [of "clearStates ?h0" c RequestAbortedError] by simp
    ultimately show ?thesis
      by (auto simp: Inr settle_success Let_def catch_deletion)
  qed
qed

theorem cancelled_call_is_silent_witness:
  "states_clean (snd (settle (sample_call (RejectQuery ''a'') None)
     (Inr (plain [(''kind'', JStr ''result'')])) sample_rejecting))"
proof -
  let ?c = "sample_call (RejectQuery ''a'') None"
  have "?c \<in> set (pending sample_rejecting)" by (simp add: sample_pending)
  moreover have "\<forall>a sid. call ?c \<noteq> AcceptQuery a sid" by (simp add: sample_call_def)
  moreover have "\<not> mountedRef sample_rejecting" by (simp add: sample_defs)
  ultimately show ?thesis
    using cancelled_call_is_silent [OF sample_reachable(3), of ?c "Inr (plain [(''kind'', JStr ''result'')])"]
    by simp
qed

text \<open>
  C9. Every settlement releases the hook, whatever the response and whatever happened meanwhile: no
  call is pending, the submitting flags are down, the scope of the call is disposed, and when the hook
  is mounted the next rejection, regeneration or acceptance is let through.
\<close>

theorem settlement_releases_hook:
  assumes "hook_reachable h" and "c \<in> set (pending h)"
  shows "pending (snd (settle c response h)) = [] \<and> \<not> isSubmitting (snd (settle c response h)) \<and>
    activeRequestRef (snd (settle c response h)) = None \<and>
    disposed (scopes (snd (settle c response h)) (call_scope c)) \<and>
    fst (rejectQuery_start True a (snd (settle c response h))) = None \<and>
    fst (acceptQuery_start True a sid (snd (settle c response h))) = None"
proof -
  obtain h1 where h1: "snd (settle c response h) = endRequest h1"
      "activeRequestRef h1 = activeRequestRef h" "scopes h1 = scopes h"
      "pending h1 = removeAll c (pending h)"
    using settle_as_endRequest by blast
  have p: "pending h = [c]" using assms by (rule reachable_pending_single)
  have "disposed (scopes (endRequest h1) (call_scope c))"
    using hook_inv_reachable [OF assms(1)] p h1(2,3)
    by (auto simp: hook_inv_def pending_consistent_def endRequest_scopes split: option.splits)
  then show ?thesis
    unfolding h1(1)
    by (simp add: h1(4) p rejectQuery_start_def acceptQuery_start_def start_request_def beginRequest_def
        requirePermission_def Let_def)
qed

theorem settlement_releases_hook_witness:
  "fst (rejectQuery_start True ''a'' (snd (settle (sample_call (SubmitQuestion ''q'' (Some ''s'') ''c'') (Some ''s''))
     (Inl JNull) sample_asked))) = None"
proof -
  let ?c = "sample_call (SubmitQuestion ''q'' (Some ''s'') ''c'') (Some ''s'')"
  have "?c \<in> set (pending sample_asked)" by (simp add: sample_pending)
  then show ?thesis using settlement_releases_hook [OF sample_reachable(1)] by blast
qed

text \<open>
  A failure the server reports is shown exactly once: when nothing is on display, a failed call
  that was neither cancelled nor deleted rejects with the server's own error and sets exactly one of
  the result, refine prompt, evaluator rejection, timeout and error indicators.
\<close>

lemma server_failure_shown_once:
  assumes "hook_reachable h" and "c \<in> set (pending h)" and "error h = None"
    and "\<not> aborted (scopes h (call_scope c))" and "\<not> isAbortFailure e"
    and "\<not> isSessionDeletionError e" and "\<not> deletion_seen (call_session c) (call_version c) h"
  shows "fst (settle c (Inl e) h) = Inl e \<and> indicators (snd (settle c (Inl e) h)) = 1"
proof -
  let ?h0 = "h\<lparr>pending := removeAll c (pending h)\<rparr>"
  have clean: "states_clean ?h0" using assms(1,2) by (rule reachable_pending_clean)
  have "catch c e ?h0 = (e, handleError e ?h0)"
    using assms(4-7) by (simp add: catch_def submit_catch_def classifyFailure_def split: operation.splits)
  then show ?thesis
    using clean assms(3) by (simp add: settle_failure Let_def handleError_one_indicator)
qed

text \<open>
  When \<open>acceptQuery\<close> fulfils although it was cancelled: the acceptance is compared with deletion
  version 0 and not with a snapshot, so a cancelled acceptance the server confirmed is rejected as
  aborted exactly when its session was never deleted; for a session whose deletion has been rolled back
  it fulfils instead, as it does for one that is being deleted.
\<close>

lemma cancelled_accept_outcome:
  assumes "hook_reachable h" and "c \<in> set (pending h)" and "call c = AcceptQuery a sid"
    and "\<not> mountedRef h \<or> aborted (scopes h (call_scope c))"
  shows "fst (settle c (Inr d) h) =
     (if session_truthy (call_session c) \<and>
         (isSessionUnavailable (the (call_session c)) (lifecycle h) \<or>
          getSessionDeletionVersion (the (call_session c)) (lifecycle h) \<noteq> 0)
      then Inr JUndefined else Inl RequestAbortedError)"
proof -
  have ab: "aborted (scopes h (call_scope c))"
    using assms(1,2,4) by (rule reachable_suppressed_scope)
  have cs: "caller_scope (scopes h (call_scope c))" by (rule reachable_caller_scope [OF assms(1)])
  show ?thesis
    using ab cs assms(3)
    by (simp add: settle_success Let_def body_def accept_body_def classifySuppression_def deletion_seen_def
        didSessionDeletionStart_def qscope.thrown_iff catch_def classifyFailure_aborted)
qed

end
