(* ===== verification/Response_Manifest.thy ===== *)
theory Response_Manifest
  imports Js_Prelude
begin

text \<open>
  The response manifest the client ships, \<open>frontend/src/api/generated/responseManifest.gen.ts\<close>, and the
  two tables at the end of \<open>responseValidators.gen.ts\<close> that say which compiled validator checks which
  response and which alternative of a union. One definition per operation and per component schema, in
  the order of the file; of a schema every keyword is kept but the annotations \<open>title\<close>,
  \<open>description\<close> and \<open>default\<close>, which no code reads. The compiled validators themselves are generated by a
  third-party compiler; here a validator is its number, and the theory of response validation takes
  their meaning as an argument.
\<close>

section \<open>The shape of the manifest\<close>

record response_contract =
  contentType :: string
  response_schema :: jsval
  response_status :: string

record ManifestOperation =
  classification :: string
  op_method :: string
  operationId :: string
  op_path :: string
  responses :: "response_contract list"
  unusedReason :: jsval

definition ref_to :: "string \<Rightarrow> jsval" where
  "ref_to name = plain [(''$ref'', JStr (''#/components/schemas/'' @ name))]"

definition json_response :: "string \<Rightarrow> jsval \<Rightarrow> response_contract" where
  "json_response s schema =
     \<lparr>contentType = ''application/json'', response_schema = schema, response_status = s\<rparr>"

section \<open>Component schemas\<close>

definition schema_AcceptedQueryDetail :: jsval where
  "schema_AcceptedQueryDetail =
     plain [
       (''properties'', plain [
         (''accepted_at'', plain [(''type'', JStr ''string'')]),
         (''database_connection_id'', plain [
           (''anyOf'', JArr [plain [(''type'', JStr ''string'')], plain [(''type'', JStr ''null'')]]),
           (''x-querycraft-union-validator'', JStr ''union_0037'')]),
         (''database_connection_name'', plain [
           (''anyOf'', JArr [plain [(''type'', JStr ''string'')], plain [(''type'', JStr ''null'')]]),
           (''x-querycraft-union-validator'', JStr ''union_0038'')]),
         (''database_type'', plain [
           (''anyOf'', JArr [plain [(''type'', JStr ''string'')], plain [(''type'', JStr ''null'')]]),
           (''x-querycraft-union-validator'', JStr ''union_0039'')]),
         (''generated_sql'', plain [(''type'', JStr ''string'')]),
         (''id'', plain [(''type'', JStr ''string'')]),
         (''llm_provider'', plain [(''type'', JStr ''string'')]),
         (''question_text'', plain [(''type'', JStr ''string'')]),
         (''result_columns'', plain [
           (''anyOf'', JArr [
             plain [(''items'', plain []), (''type'', JStr ''array'')],
             plain [(''type'', JStr ''null'')]]),
           (''x-querycraft-union-validator'', JStr ''union_0040'')]),
         (''result_row_count'', plain [
           (''anyOf'', JArr [plain [(''type'', JStr ''integer'')], plain [(''type'', JStr ''null'')]]),
           (''x-querycraft-union-validator'', JStr ''union_0041'')]),
         (''result_rows'', plain [
           (''anyOf'', JArr [
             plain [(''items'', plain []), (''type'', JStr ''array'')],
             plain [(''type'', JStr ''null'')]]),
           (''x-querycraft-union-validator'', JStr ''union_0042'')])]),
       (''required'', JArr [
         JStr ''id'',
         JStr ''question_text'',
         JStr ''generated_sql'',
         JStr ''llm_provider'',
         JStr ''accepted_at'']),
       (''type'', JStr ''object'')]"

definition schema_AcceptedQuerySummary :: jsval where
  "schema_AcceptedQuerySummary =
     plain [
       (''properties'', plain [
         (''accepted_at'', plain [(''type'', JStr ''string'')]),
         (''database_connection_id'', plain [
           (''anyOf'', JArr [plain [(''type'', JStr ''string'')], plain [(''type'', JStr ''null'')]]),
           (''x-querycraft-union-validator'', JStr ''union_0043'')]),
         (''database_connection_name'', plain [
           (''anyOf'', JArr [plain [(''type'', JStr ''string'')], plain [(''type'', JStr ''null'')]]),
           (''x-querycraft-union-validator'', JStr ''union_0044'')]),
         (''database_type'', plain [
           (''anyOf'', JArr [plain [(''type'', JStr ''string'')], plain [(''type'', JStr ''null'')]]),
           (''x-querycraft-union-validator'', JStr ''union_0045'')]),
         (''generated_sql'', plain [(''type'', JStr ''string'')]),
         (''id'', plain [(''type'', JStr ''string'')]),
         (''question_text'', plain [(''type'', JStr ''string'')])]),
       (''required'', JArr [JStr ''id'', JStr ''question_text'', JStr ''generated_sql'', JStr ''accepted_at'']),
       (''type'', JStr ''object'')]"

definition schema_AdminSettingsResponse :: jsval where
  "schema_AdminSettingsResponse =
     plain [
       (''properties'', plain [
         (''llm_context_cap'', plain [(''type'', JStr ''integer'')]),
         (''max_regenerate_attempts'', plain [(''type'', JStr ''integer'')])]),
       (''required'', JArr [JStr ''llm_context_cap'', JStr ''max_regenerate_attempts'']),
       (''type'', JStr ''object'')]"

definition schema_AttemptSummary :: jsval where
  "schema_AttemptSummary =
     plain [
       (''properties'', plain [
         (''accepted_at'', plain [(''type'', JStr ''string'')]),
         (''database_connection_id'', plain [
           (''anyOf'', JArr [plain [(''type'', JStr ''string'')], plain [(''type'', JStr ''null'')]]),
           (''x-querycraft-union-validator'', JStr ''union_0046'')]),
         (''database_connection_name'', plain [
           (''anyOf'', JArr [plain [(''type'', JStr ''string'')], plain [(''type'', JStr ''null'')]]),
           (''x-querycraft-union-validator'', JStr ''union_0047'')]),
         (''database_type'', plain [
           (''anyOf'', JArr [plain [(''type'', JStr ''string'')], plain [(''type'', JStr ''null'')]]),
           (''x-querycraft-union-validator'', JStr ''union_0048'')]),
         (''feedback'', plain [
           (''anyOf'', JArr [plain [(''type'', JStr ''integer'')], plain [(''type'', JStr ''null'')]]),
           (''x-querycraft-union-validator'', JStr ''union_0049'')]),
         (''generated_sql'', plain [(''type'', JStr ''string'')]),
         (''id'', plain [(''type'', JStr ''string'')]),
         (''question_text'', plain [(''type'', JStr ''string'')]),
         (''result_columns'', plain [
           (''anyOf'', JArr [
             plain [(''items'', plain []), (''type'', JStr ''array'')],
             plain [(''type'', JStr ''null'')]]),
           (''x-querycraft-union-validator'', JStr ''union_0050'')]),
         (''result_row_count'', plain [
           (''anyOf'', JArr [plain [(''type'', JStr ''integer'')], plain [(''type'', JStr ''null'')]]),
           (''x-querycraft-union-validator'', JStr ''union_0051'')]),
         (''result_rows'', plain [
           (''anyOf'', JArr [
             plain [(''items'', plain []), (''type'', JStr ''array'')],
             plain [(''type'', JStr ''null'')]]),
           (''x-querycraft-union-validator'', JStr ''union_0052'')]),
         (''saved'', plain [(''type'', JStr ''boolean'')])]),
       (''required'', JArr [
         JStr ''id'',
         JStr ''question_text'',
         JStr ''generated_sql'',
         JStr ''accepted_at'',
         JStr ''saved'']),
       (''type'', JStr ''object'')]"

definition schema_AuditEntryRead :: jsval where
  "schema_AuditEntryRead =
     plain [
       (''properties'', plain [
         (''action_type'', plain [(''type'', JStr ''string'')]),
         (''actor_identity'', plain [
           (''anyOf'', JArr [plain [(''type'', JStr ''string'')], plain [(''type'', JStr ''null'')]]),
           (''x-querycraft-union-validator'', JStr ''union_0053'')]),
         (''context'', plain [(''additionalProperties'', JBool True), (''type'', JStr ''object'')]),
         (''outcome'', plain [(''type'', JStr ''string'')]),
         (''resource_id'', plain [
           (''anyOf'', JArr [plain [(''type'', JStr ''string'')], plain [(''type'', JStr ''null'')]]),
           (''x-querycraft-union-validator'', JStr ''union_0054'')]),
         (''resource_type'', plain [
           (''anyOf'', JArr [plain [(''type'', JStr ''string'')], plain [(''type'', JStr ''null'')]]),
           (''x-querycraft-union-validator'', JStr ''union_0055'')]),
         (''sequence_number'', plain [(''type'', JStr ''integer'')]),
         (''timestamp'', plain [(''format'', JStr ''date-time''), (''type'', JStr ''string'')])]),
       (''required'', JArr [
         JStr ''sequence_number'',
         JStr ''timestamp'',
         JStr ''action_type'',
         JStr ''outcome'',
         JStr ''context'']),
       (''type'', JStr ''object'')]"

definition schema_AuditFilterContextResponse :: jsval where
  "schema_AuditFilterContextResponse =
     plain [
       (''properties'', plain [
         (''applied_fields'', plain [
           (''items'', plain [
             (''enum'', JArr [
               JStr ''start_date'',
               JStr ''end_date'',
               JStr ''action_type'',
               JStr ''actor_identity'',
               JStr ''outcome'',
               JStr ''resource_type'']),
             (''type'', JStr ''string'')]),
           (''type'', JStr ''array'')]),
         (''expires_at'', plain [(''format'', JStr ''date-time''), (''type'', JStr ''string'')]),
         (''filter_context'', plain [(''type'', JStr ''string'')])]),
       (''required'', JArr [JStr ''filter_context'', JStr ''applied_fields'', JStr ''expires_at'']),
       (''type'', JStr ''object'')]"

definition schema_AuditRetentionResponse :: jsval where
  "schema_AuditRetentionResponse =
     plain [
       (''properties'', plain [
         (''last_purge_at'', plain [
           (''anyOf'', JArr [plain [(''type'', JStr ''string'')], plain [(''type'', JStr ''null'')]]),
           (''x-querycraft-union-validator'', JStr ''union_0056'')]),
         (''purged_count'', plain [
           (''anyOf'', JArr [plain [(''type'', JStr ''integer'')], plain [(''type'', JStr ''null'')]]),
           (''x-querycraft-union-validator'', JStr ''union_0057'')]),
         (''retention_months'', plain [(''type'', JStr ''integer'')])]),
       (''required'', JArr [JStr ''retention_months'']),
       (''type'', JStr ''object'')]"

definition schema_AuditSearchPagination :: jsval where
  "schema_AuditSearchPagination =
     plain [
       (''properties'', plain [
         (''page'', plain [(''type'', JStr ''integer'')]),
         (''page_size'', plain [(''type'', JStr ''integer'')]),
         (''total_entries'', plain [(''type'', JStr ''integer'')]),
         (''total_pages'', plain [(''type'', JStr ''integer'')])]),
       (''required'', JArr [JStr ''page'', JStr ''page_size'', JStr ''total_entries'', JStr ''total_pages'']),
       (''type'', JStr ''object'')]"

definition schema_AuditSearchResponse :: jsval where
  "schema_AuditSearchResponse =
     plain [
       (''properties'', plain [
         (''entries'', plain [(''items'', ref_to ''AuditEntryRead''), (''type'', JStr ''array'')]),
         (''pagination'', ref_to ''AuditSearchPagination'')]),
       (''required'', JArr [JStr ''entries'', JStr ''pagination'']),
       (''type'', JStr ''object'')]"

definition schema_AuditStatusResponse :: jsval where
  "schema_AuditStatusResponse =
     plain [
       (''properties'', plain [
         (''last_verification'', plain [
           (''anyOf'', JArr [
             plain [(''additionalProperties'', JBool True), (''type'', JStr ''object'')],
             plain [(''type'', JStr ''null'')]]),
           (''x-querycraft-union-validator'', JStr ''union_0058'')]),
         (''total_entries'', plain [(''type'', JStr ''integer'')])]),
       (''required'', JArr [JStr ''total_entries'']),
       (''type'', JStr ''object'')]"

definition schema_AuditVerifyResponse :: jsval where
  "schema_AuditVerifyResponse =
     plain [
       (''properties'', plain [
         (''entries_checked'', plain [(''type'', JStr ''integer'')]),
         (''first_break_at'', plain [
           (''anyOf'', JArr [plain [(''type'', JStr ''integer'')], plain [(''type'', JStr ''null'')]]),
           (''x-querycraft-union-validator'', JStr ''union_0059'')]),
         (''verified'', plain [(''type'', JStr ''boolean'')]),
         (''verified_at'', plain [(''type'', JStr ''string'')])]),
       (''required'', JArr [JStr ''verified'', JStr ''entries_checked'', JStr ''verified_at'']),
       (''type'', JStr ''object'')]"

definition schema_ColumnMeta :: jsval where
  "schema_ColumnMeta =
     plain [
       (''properties'', plain [
         (''masked'', plain [(''type'', JStr ''boolean'')]),
         (''name'', plain [(''type'', JStr ''string'')]),
         (''type'', plain [(''type'', JStr ''string'')])]),
       (''required'', JArr [JStr ''name'', JStr ''type'']),
       (''type'', JStr ''object'')]"

definition schema_ConnectionPolicyResponse :: jsval where
  "schema_ConnectionPolicyResponse =
     plain [
       (''properties'', plain [
         (''allowed_tables'', plain [(''items'', ref_to ''TableColumnPolicy''), (''type'', JStr ''array'')]),
         (''column_masks'', plain [(''items'', ref_to ''TableColumnPolicy''), (''type'', JStr ''array'')]),
         (''connection_id'', plain [(''type'', JStr ''string'')]),
         (''id'', plain [(''type'', JStr ''string'')]),
         (''row_filters'', plain [(''items'', ref_to ''RowFilterPolicy''), (''type'', JStr ''array'')])]),
       (''required'', JArr [JStr ''id'', JStr ''connection_id'']),
       (''type'', JStr ''object'')]"

definition schema_ConnectionResponse :: jsval where
  "schema_ConnectionResponse =
     plain [
       (''properties'', plain [
         (''created_at'', plain [(''format'', JStr ''date-time''), (''type'', JStr ''string'')]),
         (''database_name'', plain [(''type'', JStr ''string'')]),
         (''database_type'', ref_to ''DatabaseType''),
         (''display_name'', plain [(''type'', JStr ''string'')]),
         (''health_error_category'', plain [
           (''anyOf'', JArr [plain [(''type'', JStr ''string'')], plain [(''type'', JStr ''null'')]]),
           (''x-querycraft-union-validator'', JStr ''union_0060'')]),
         (''health_status'', ref_to ''HealthStatus''),
         (''id'', plain [(''format'', JStr ''uuid''), (''type'', JStr ''string'')]),
         (''last_health_check_at'', plain [
           (''anyOf'', JArr [
             plain [(''format'', JStr ''date-time''), (''type'', JStr ''string'')],
             plain [(''type'', JStr ''null'')]]),
           (''x-querycraft-union-validator'', JStr ''union_0061'')]),
         (''lifecycle_state'', ref_to ''LifecycleState''),
         (''port'', plain [(''type'', JStr ''integer'')]),
         (''schema_introspection_status'', ref_to ''SchemaIntrospectionStatus''),
         (''schema_last_refreshed_at'', plain [
           (''anyOf'', JArr [
             plain [(''format'', JStr ''date-time''), (''type'', JStr ''string'')],
             plain [(''type'', JStr ''null'')]]),
           (''x-querycraft-union-validator'', JStr ''union_0062'')]),
         (''ssl_mode'', plain [(''type'', JStr ''string'')]),
         (''updated_at'', plain [(''format'', JStr ''date-time''), (''type'', JStr ''string'')])]),
       (''required'', JArr [
         JStr ''id'',
         JStr ''display_name'',
         JStr ''database_type'',
         JStr ''port'',
         JStr ''database_name'',
         JStr ''ssl_mode'',
         JStr ''lifecycle_state'',
         JStr ''health_status'',
         JStr ''last_health_check_at'',
         JStr ''health_error_category'',
         JStr ''schema_introspection_status'',
         JStr ''schema_last_refreshed_at'',
         JStr ''created_at'',
         JStr ''updated_at'']),
       (''type'', JStr ''object'')]"

definition schema_ConnectionSchemaColumn :: jsval where
  "schema_ConnectionSchemaColumn =
     plain [
       (''properties'', plain [
         (''column_name'', plain [(''type'', JStr ''string'')]),
         (''data_type'', plain [(''type'', JStr ''string'')]),
         (''foreign_key'', plain [
           (''anyOf'', JArr [ref_to ''ConnectionSchemaForeignKey'', plain [(''type'', JStr ''null'')]]),
           (''x-querycraft-union-validator'', JStr ''union_0063'')]),
         (''is_primary_key'', plain [(''type'', JStr ''boolean'')])]),
       (''required'', JArr [JStr ''column_name'', JStr ''data_type'', JStr ''is_primary_key'']),
       (''type'', JStr ''object'')]"

definition schema_ConnectionSchemaForeignKey :: jsval where
  "schema_ConnectionSchemaForeignKey =
     plain [
       (''properties'', plain [
         (''column'', plain [(''type'', JStr ''string'')]),
         (''table'', plain [(''type'', JStr ''string'')])]),
       (''required'', JArr [JStr ''table'', JStr ''column'']),
       (''type'', JStr ''object'')]"

definition schema_ConnectionSchemaResponse :: jsval where
  "schema_ConnectionSchemaResponse =
     plain [
       (''properties'', plain [
         (''connection_id'', plain [(''format'', JStr ''uuid''), (''type'', JStr ''string'')]),
         (''introspected_at'', plain [
           (''anyOf'', JArr [
             plain [(''format'', JStr ''date-time''), (''type'', JStr ''string'')],
             plain [(''type'', JStr ''null'')]]),
           (''x-querycraft-union-validator'', JStr ''union_0064'')]),
         (''tables'', plain [(''items'', ref_to ''ConnectionSchemaTable''), (''type'', JStr ''array'')])]),
       (''required'', JArr [JStr ''connection_id'', JStr ''tables'']),
       (''type'', JStr ''object'')]"

definition schema_ConnectionSchemaTable :: jsval where
  "schema_ConnectionSchemaTable =
     plain [
       (''properties'', plain [
         (''column_count'', plain [(''type'', JStr ''integer'')]),
         (''columns'', plain [(''items'', ref_to ''ConnectionSchemaColumn''), (''type'', JStr ''array'')]),
         (''table_name'', plain [(''type'', JStr ''string'')])]),
       (''required'', JArr [JStr ''table_name'', JStr ''column_count'', JStr ''columns'']),
       (''type'', JStr ''object'')]"

definition schema_ConnectionTestResult :: jsval where
  "schema_ConnectionTestResult =
     plain [
       (''properties'', plain [
         (''error_category'', plain [
           (''anyOf'', JArr [plain [(''type'', JStr ''string'')], plain [(''type'', JStr ''null'')]]),
           (''x-querycraft-union-validator'', JStr ''union_0065'')]),
         (''latency_ms'', plain [
           (''anyOf'', JArr [plain [(''type'', JStr ''number'')], plain [(''type'', JStr ''null'')]]),
           (''x-querycraft-union-validator'', JStr ''union_0066'')]),
         (''message_key'', plain [
           (''anyOf'', JArr [plain [(''type'', JStr ''string'')], plain [(''type'', JStr ''null'')]]),
           (''x-querycraft-union-validator'', JStr ''union_0067'')]),
         (''status'', plain [(''type'', JStr ''string'')]),
         (''tested_at'', plain [(''format'', JStr ''date-time''), (''type'', JStr ''string'')])]),
       (''required'', JArr [JStr ''status'', JStr ''tested_at'']),
       (''type'', JStr ''object'')]"

definition schema_CreateSessionResponse :: jsval where
  "schema_CreateSessionResponse =
     plain [
       (''properties'', plain [
         (''created_at'', plain [(''type'', JStr ''string'')]),
         (''id'', plain [(''type'', JStr ''string'')]),
         (''preview_text'', plain [(''type'', JStr ''string'')])]),
       (''required'', JArr [JStr ''id'', JStr ''preview_text'', JStr ''created_at'']),
       (''type'', JStr ''object'')]"

definition schema_DatabaseType :: jsval where
  "schema_DatabaseType =
     plain [
       (''enum'', JArr [JStr ''postgresql'', JStr ''mysql'', JStr ''mssql'']),
       (''type'', JStr ''string'')]"

definition schema_DetectionThresholdRead :: jsval where
  "schema_DetectionThresholdRead =
     plain [
       (''properties'', plain [
         (''block_confidence'', plain [(''type'', JStr ''number'')]),
         (''flag_confidence'', plain [(''type'', JStr ''number'')]),
         (''updated_at'', plain [(''format'', JStr ''date-time''), (''type'', JStr ''string'')])]),
       (''required'', JArr [JStr ''block_confidence'', JStr ''flag_confidence'', JStr ''updated_at'']),
       (''type'', JStr ''object'')]"

definition schema_ErrorResponse :: jsval where
  "schema_ErrorResponse =
     plain [
       (''properties'', plain [
         (''error'', plain [(''type'', JStr ''string'')]),
         (''field'', plain [
           (''anyOf'', JArr [plain [(''type'', JStr ''string'')], plain [(''type'', JStr ''null'')]]),
           (''x-querycraft-union-validator'', JStr ''union_0068'')]),
         (''message_key'', plain [(''type'', JStr ''string'')]),
         (''message_params'', plain [
           (''anyOf'', JArr [
             plain [(''additionalProperties'', JBool True), (''type'', JStr ''object'')],
             plain [(''type'', JStr ''null'')]]),
           (''x-querycraft-union-validator'', JStr ''union_0069'')])]),
       (''required'', JArr [JStr ''error'', JStr ''message_key'']),
       (''type'', JStr ''object'')]"

definition schema_EvaluatorRejection :: jsval where
  "schema_EvaluatorRejection =
     plain [
       (''properties'', plain [
         (''message_key'', plain [(''type'', JStr ''string'')]),
         (''message_params'', plain [
           (''anyOf'', JArr [
             plain [(''additionalProperties'', JBool True), (''type'', JStr ''object'')],
             plain [(''type'', JStr ''null'')]]),
           (''x-querycraft-union-validator'', JStr ''union_0070'')]),
         (''violations'', plain [(''items'', ref_to ''Violation''), (''type'', JStr ''array'')])]),
       (''required'', JArr [JStr ''message_key'', JStr ''violations'']),
       (''type'', JStr ''object'')]"

definition schema_FeedbackResponse :: jsval where
  "schema_FeedbackResponse =
     plain [
       (''properties'', plain [
         (''feedback'', plain [(''type'', JStr ''integer'')]),
         (''id'', plain [(''type'', JStr ''string'')]),
         (''saved'', plain [(''type'', JStr ''boolean'')])]),
       (''required'', JArr [JStr ''id'', JStr ''feedback'', JStr ''saved'']),
       (''type'', JStr ''object'')]"

definition schema_GroupMappingListResponse :: jsval where
  "schema_GroupMappingListResponse =
     plain [
       (''properties'', plain [
         (''mappings'', plain [(''items'', ref_to ''GroupMappingResponse''), (''type'', JStr ''array'')])]),
       (''required'', JArr [JStr ''mappings'']),
       (''type'', JStr ''object'')]"

definition schema_GroupMappingResponse :: jsval where
  "schema_GroupMappingResponse =
     plain [
       (''properties'', plain [
         (''created_at'', plain [(''type'', JStr ''string'')]),
         (''id'', plain [(''type'', JStr ''string'')]),
         (''role_id'', plain [(''type'', JStr ''string'')]),
         (''role_name'', plain [(''type'', JStr ''string'')]),
         (''sso_group_value'', plain [(''type'', JStr ''string'')])]),
       (''required'', JArr [
         JStr ''id'',
         JStr ''sso_group_value'',
         JStr ''role_id'',
         JStr ''role_name'',
         JStr ''created_at'']),
       (''type'', JStr ''object'')]"

definition schema_HealthStatus :: jsval where
  "schema_HealthStatus =
     plain [
       (''enum'', JArr [JStr ''untested'', JStr ''healthy'', JStr ''unhealthy'']),
       (''type'', JStr ''string'')]"

definition schema_HistoryListResponse :: jsval where
  "schema_HistoryListResponse =
     plain [
       (''properties'', plain [
         (''items'', plain [(''items'', ref_to ''AcceptedQuerySummary''), (''type'', JStr ''array'')]),
         (''next_cursor'', plain [
           (''anyOf'', JArr [plain [(''type'', JStr ''string'')], plain [(''type'', JStr ''null'')]]),
           (''x-querycraft-union-validator'', JStr ''union_0071'')]),
         (''total'', plain [
           (''anyOf'', JArr [plain [(''type'', JStr ''integer'')], plain [(''type'', JStr ''null'')]]),
           (''x-querycraft-union-validator'', JStr ''union_0072'')])]),
       (''required'', JArr [JStr ''items'']),
       (''type'', JStr ''object'')]"

definition schema_LifecycleState :: jsval where
  "schema_LifecycleState =
     plain [
       (''enum'', JArr [JStr ''active'', JStr ''disabled'']),
       (''type'', JStr ''string'')]"

definition schema_LivenessResponse :: jsval where
  "schema_LivenessResponse =
     plain [
       (''properties'', plain [(''status'', plain [(''const'', JStr ''live''), (''type'', JStr ''string'')])]),
       (''type'', JStr ''object'')]"

definition schema_NotReadyResponse :: jsval where
  "schema_NotReadyResponse =
     plain [
       (''properties'', plain [
         (''status'', plain [(''const'', JStr ''not_ready''), (''type'', JStr ''string'')])]),
       (''type'', JStr ''object'')]"

definition schema_PolicyTestResponse :: jsval where
  "schema_PolicyTestResponse =
     plain [
       (''properties'', plain [
         (''accessible_columns'', plain [
           (''additionalProperties'', plain [(''items'', plain [(''type'', JStr ''string'')]), (''type'', JStr ''array'')]),
           (''type'', JStr ''object'')]),
         (''accessible_tables'', plain [(''items'', plain [(''type'', JStr ''string'')]), (''type'', JStr ''array'')]),
         (''applicable_row_filters'', plain [
           (''items'', plain [(''additionalProperties'', JBool True), (''type'', JStr ''object'')]),
           (''type'', JStr ''array'')]),
         (''blocked_tables'', plain [(''items'', plain [(''type'', JStr ''string'')]), (''type'', JStr ''array'')]),
         (''masked_columns'', plain [
           (''additionalProperties'', plain [(''items'', plain [(''type'', JStr ''string'')]), (''type'', JStr ''array'')]),
           (''type'', JStr ''object'')]),
         (''message_key'', plain [
           (''anyOf'', JArr [plain [(''type'', JStr ''string'')], plain [(''type'', JStr ''null'')]]),
           (''x-querycraft-union-validator'', JStr ''union_0073'')]),
         (''would_be_allowed'', plain [(''type'', JStr ''boolean'')])]),
       (''type'', JStr ''object'')]"

definition schema_QueryLimitsResponse :: jsval where
  "schema_QueryLimitsResponse =
     plain [
       (''properties'', plain [
         (''max_question_length'', plain [(''exclusiveMinimum'', jint 0), (''type'', JStr ''integer'')])]),
       (''required'', JArr [JStr ''max_question_length'']),
       (''type'', JStr ''object'')]"

definition schema_QueryResult :: jsval where
  "schema_QueryResult =
     plain [
       (''properties'', plain [
         (''accepted_query_id'', plain [
           (''anyOf'', JArr [plain [(''type'', JStr ''string'')], plain [(''type'', JStr ''null'')]]),
           (''x-querycraft-union-validator'', JStr ''union_0074'')]),
         (''attempt_id'', plain [(''type'', JStr ''string'')]),
         (''attempt_number'', plain [(''type'', JStr ''integer'')]),
         (''columns'', plain [(''items'', ref_to ''ColumnMeta''), (''type'', JStr ''array'')]),
         (''generated_sql'', plain [(''type'', JStr ''string'')]),
         (''is_last_auto_retry'', plain [(''type'', JStr ''boolean'')]),
         (''kind'', plain [(''pattern'', JStr ''^result$''), (''type'', JStr ''string'')]),
         (''question'', plain [(''type'', JStr ''string'')]),
         (''row_count'', plain [(''type'', JStr ''integer'')]),
         (''rows'', plain [
           (''items'', plain [(''items'', plain []), (''type'', JStr ''array'')]),
           (''type'', JStr ''array'')]),
         (''session_id'', plain [
           (''anyOf'', JArr [plain [(''type'', JStr ''string'')], plain [(''type'', JStr ''null'')]]),
           (''x-querycraft-union-validator'', JStr ''union_0075'')])]),
       (''required'', JArr [
         JStr ''attempt_id'',
         JStr ''question'',
         JStr ''generated_sql'',
         JStr ''columns'',
         JStr ''rows'',
         JStr ''row_count'',
         JStr ''attempt_number'',
         JStr ''is_last_auto_retry'']),
       (''type'', JStr ''object'')]"

definition schema_QuotaDimensionStatus :: jsval where
  "schema_QuotaDimensionStatus =
     plain [
       (''properties'', plain [
         (''limit'', plain [
           (''anyOf'', JArr [plain [(''type'', JStr ''integer'')], plain [(''type'', JStr ''null'')]]),
           (''x-querycraft-union-validator'', JStr ''union_0076'')]),
         (''remaining'', plain [
           (''anyOf'', JArr [plain [(''type'', JStr ''integer'')], plain [(''type'', JStr ''null'')]]),
           (''x-querycraft-union-validator'', JStr ''union_0077'')]),
         (''used'', plain [(''type'', JStr ''integer'')])]),
       (''required'', JArr [JStr ''used'']),
       (''type'', JStr ''object'')]"

definition schema_QuotaExceededErrorResponse :: jsval where
  "schema_QuotaExceededErrorResponse =
     plain [
       (''properties'', plain [
         (''error'', plain [(''const'', JStr ''quota_exceeded''), (''type'', JStr ''string'')]),
         (''message_key'', plain [(''type'', JStr ''string'')]),
         (''reset_at'', plain [(''type'', JStr ''string'')])]),
       (''required'', JArr [JStr ''error'', JStr ''message_key'', JStr ''reset_at'']),
       (''type'', JStr ''object'')]"

definition schema_QuotaListResponse :: jsval where
  "schema_QuotaListResponse =
     plain [
       (''properties'', plain [
         (''quotas'', plain [(''items'', ref_to ''RoleQuotaConfig''), (''type'', JStr ''array'')])]),
       (''required'', JArr [JStr ''quotas'']),
       (''type'', JStr ''object'')]"

definition schema_QuotaStatusResponse :: jsval where
  "schema_QuotaStatusResponse =
     plain [
       (''properties'', plain [
         (''next_cursor'', plain [
           (''anyOf'', JArr [plain [(''type'', JStr ''string'')], plain [(''type'', JStr ''null'')]]),
           (''x-querycraft-union-validator'', JStr ''union_0078'')]),
         (''status'', plain [(''items'', ref_to ''RoleQuotaStatus''), (''type'', JStr ''array'')]),
         (''total'', plain [(''type'', JStr ''integer'')])]),
       (''required'', JArr [JStr ''status'', JStr ''total'', JStr ''next_cursor'']),
       (''type'', JStr ''object'')]"

definition schema_QuotaSyncPendingErrorResponse :: jsval where
  "schema_QuotaSyncPendingErrorResponse =
     plain [
       (''properties'', plain [
         (''error'', plain [(''const'', JStr ''quota_sync_pending''), (''type'', JStr ''string'')]),
         (''message_key'', plain [(''type'', JStr ''string'')]),
         (''mutation_applied'', plain [(''const'', JBool True), (''type'', JStr ''boolean'')])]),
       (''required'', JArr [JStr ''error'', JStr ''message_key'', JStr ''mutation_applied'']),
       (''type'', JStr ''object'')]"

definition schema_ReadinessResponse :: jsval where
  "schema_ReadinessResponse =
     plain [
       (''properties'', plain [(''status'', plain [(''const'', JStr ''ready''), (''type'', JStr ''string'')])]),
       (''type'', JStr ''object'')]"

definition schema_RefinePrompt :: jsval where
  "schema_RefinePrompt =
     plain [
       (''properties'', plain [
         (''kind'', plain [(''pattern'', JStr ''^refine$''), (''type'', JStr ''string'')]),
         (''message_key'', plain [(''type'', JStr ''string'')]),
         (''message_params'', plain [
           (''anyOf'', JArr [
             plain [(''additionalProperties'', JBool True), (''type'', JStr ''object'')],
             plain [(''type'', JStr ''null'')]]),
           (''x-querycraft-union-validator'', JStr ''union_0079'')]),
         (''should_refine'', plain [(''type'', JStr ''boolean'')])]),
       (''required'', JArr [JStr ''message_key'', JStr ''should_refine'']),
       (''type'', JStr ''object'')]"

definition schema_RoleDetailResponse :: jsval where
  "schema_RoleDetailResponse =
     plain [
       (''properties'', plain [
         (''connection_policies'', plain [(''items'', ref_to ''ConnectionPolicyResponse''), (''type'', JStr ''array'')]),
         (''created_at'', plain [(''type'', JStr ''string'')]),
         (''description'', plain [
           (''anyOf'', JArr [plain [(''type'', JStr ''string'')], plain [(''type'', JStr ''null'')]]),
           (''x-querycraft-union-validator'', JStr ''union_0080'')]),
         (''group_mappings'', plain [(''items'', ref_to ''RoleGroupMappingSummary''), (''type'', JStr ''array'')]),
         (''id'', plain [(''type'', JStr ''string'')]),
         (''is_builtin'', plain [(''type'', JStr ''boolean'')]),
         (''name'', plain [(''type'', JStr ''string'')]),
         (''permissions'', plain [(''items'', plain [(''type'', JStr ''string'')]), (''type'', JStr ''array'')]),
         (''priority'', plain [(''type'', JStr ''integer'')]),
         (''updated_at'', plain [(''type'', JStr ''string'')])]),
       (''required'', JArr [
         JStr ''id'',
         JStr ''name'',
         JStr ''priority'',
         JStr ''created_at'',
         JStr ''updated_at'']),
       (''type'', JStr ''object'')]"

definition schema_RoleGroupMappingSummary :: jsval where
  "schema_RoleGroupMappingSummary =
     plain [
       (''properties'', plain [
         (''id'', plain [(''type'', JStr ''string'')]),
         (''sso_group_value'', plain [(''type'', JStr ''string'')])]),
       (''required'', JArr [JStr ''id'', JStr ''sso_group_value'']),
       (''type'', JStr ''object'')]"

definition schema_RoleListResponse :: jsval where
  "schema_RoleListResponse =
     plain [
       (''properties'', plain [
         (''roles'', plain [(''items'', ref_to ''RoleResponse''), (''type'', JStr ''array'')])]),
       (''required'', JArr [JStr ''roles'']),
       (''type'', JStr ''object'')]"

definition schema_RoleQuotaConfig :: jsval where
  "schema_RoleQuotaConfig =
     plain [
       (''properties'', plain [
         (''created_at'', plain [(''format'', JStr ''date-time''), (''type'', JStr ''string'')]),
         (''daily_execution_limit'', plain [
           (''anyOf'', JArr [plain [(''type'', JStr ''integer'')], plain [(''type'', JStr ''null'')]]),
           (''x-querycraft-union-validator'', JStr ''union_0081'')]),
         (''daily_export_limit'', plain [
           (''anyOf'', JArr [plain [(''type'', JStr ''integer'')], plain [(''type'', JStr ''null'')]]),
           (''x-querycraft-union-validator'', JStr ''union_0082'')]),
         (''daily_query_limit'', plain [
           (''anyOf'', JArr [plain [(''type'', JStr ''integer'')], plain [(''type'', JStr ''null'')]]),
           (''x-querycraft-union-validator'', JStr ''union_0083'')]),
         (''role_id'', plain [(''format'', JStr ''uuid''), (''type'', JStr ''string'')]),
         (''role_name'', plain [(''type'', JStr ''string'')]),
         (''updated_at'', plain [(''format'', JStr ''date-time''), (''type'', JStr ''string'')])]),
       (''required'', JArr [JStr ''role_id'', JStr ''role_name'', JStr ''created_at'', JStr ''updated_at'']),
       (''type'', JStr ''object'')]"

definition schema_RoleQuotaStatus :: jsval where
  "schema_RoleQuotaStatus =
     plain [
       (''properties'', plain [
         (''dimensions'', plain [
           (''additionalProperties'', ref_to ''QuotaDimensionStatus''),
           (''type'', JStr ''object'')]),
         (''reset_at'', plain [(''format'', JStr ''date-time''), (''type'', JStr ''string'')]),
         (''role_id'', plain [(''format'', JStr ''uuid''), (''type'', JStr ''string'')]),
         (''role_name'', plain [(''type'', JStr ''string'')])]),
       (''required'', JArr [JStr ''role_id'', JStr ''role_name'', JStr ''dimensions'', JStr ''reset_at'']),
       (''type'', JStr ''object'')]"

definition schema_RoleResponse :: jsval where
  "schema_RoleResponse =
     plain [
       (''properties'', plain [
         (''connection_policy_count'', plain [(''type'', JStr ''integer'')]),
         (''created_at'', plain [(''type'', JStr ''string'')]),
         (''description'', plain [
           (''anyOf'', JArr [plain [(''type'', JStr ''string'')], plain [(''type'', JStr ''null'')]]),
           (''x-querycraft-union-validator'', JStr ''union_0084'')]),
         (''group_mappings'', plain [(''items'', ref_to ''RoleGroupMappingSummary''), (''type'', JStr ''array'')]),
         (''id'', plain [(''type'', JStr ''string'')]),
         (''is_builtin'', plain [(''type'', JStr ''boolean'')]),
         (''name'', plain [(''type'', JStr ''string'')]),
         (''permissions'', plain [(''items'', plain [(''type'', JStr ''string'')]), (''type'', JStr ''array'')]),
         (''priority'', plain [(''type'', JStr ''integer'')]),
         (''updated_at'', plain [(''type'', JStr ''string'')])]),
       (''required'', JArr [
         JStr ''id'',
         JStr ''name'',
         JStr ''priority'',
         JStr ''created_at'',
         JStr ''updated_at'']),
       (''type'', JStr ''object'')]"

definition schema_RowFilterPolicy :: jsval where
  "schema_RowFilterPolicy =
     plain [
       (''properties'', plain [
         (''filter'', plain [(''type'', JStr ''string'')]),
         (''table'', plain [(''type'', JStr ''string'')])]),
       (''required'', JArr [JStr ''table'', JStr ''filter'']),
       (''type'', JStr ''object'')]"

definition schema_SchemaIntrospectionStatus :: jsval where
  "schema_SchemaIntrospectionStatus =
     plain [
       (''enum'', JArr [JStr ''none'', JStr ''success'', JStr ''failed'', JStr ''stale'']),
       (''type'', JStr ''string'')]"

definition schema_SchemaRefreshResponse :: jsval where
  "schema_SchemaRefreshResponse =
     plain [
       (''properties'', plain [
         (''approximate_tokens'', plain [
           (''anyOf'', JArr [plain [(''type'', JStr ''integer'')], plain [(''type'', JStr ''null'')]]),
           (''x-querycraft-union-validator'', JStr ''union_0085'')]),
         (''columns_count'', plain [(''type'', JStr ''integer'')]),
         (''refreshed_at'', plain [(''format'', JStr ''date-time''), (''type'', JStr ''string'')]),
         (''tables_count'', plain [(''type'', JStr ''integer'')])]),
       (''required'', JArr [JStr ''tables_count'', JStr ''columns_count'', JStr ''refreshed_at'']),
       (''type'', JStr ''object'')]"

definition schema_SessionConnectionResponse :: jsval where
  "schema_SessionConnectionResponse =
     plain [
       (''properties'', plain [
         (''connection_id'', plain [
           (''anyOf'', JArr [plain [(''type'', JStr ''string'')], plain [(''type'', JStr ''null'')]]),
           (''x-querycraft-union-validator'', JStr ''union_0086'')]),
         (''created_at'', plain [(''type'', JStr ''string'')]),
         (''id'', plain [(''type'', JStr ''string'')]),
         (''last_activity_at'', plain [(''type'', JStr ''string'')]),
         (''preview_text'', plain [(''type'', JStr ''string'')])]),
       (''required'', JArr [JStr ''id'', JStr ''preview_text'', JStr ''created_at'', JStr ''last_activity_at'']),
       (''type'', JStr ''object'')]"

definition schema_SessionDetail :: jsval where
  "schema_SessionDetail =
     plain [
       (''properties'', plain [
         (''attempts'', plain [(''items'', ref_to ''AttemptSummary''), (''type'', JStr ''array'')]),
         (''attempts_next_cursor'', plain [
           (''anyOf'', JArr [plain [(''type'', JStr ''string'')], plain [(''type'', JStr ''null'')]]),
           (''x-querycraft-union-validator'', JStr ''union_0087'')]),
         (''attempts_total'', plain [(''type'', JStr ''integer'')]),
         (''connection_id'', plain [
           (''anyOf'', JArr [plain [(''type'', JStr ''string'')], plain [(''type'', JStr ''null'')]]),
           (''x-querycraft-union-validator'', JStr ''union_0088'')]),
         (''created_at'', plain [(''type'', JStr ''string'')]),
         (''id'', plain [(''type'', JStr ''string'')]),
         (''last_activity_at'', plain [(''type'', JStr ''string'')]),
         (''preview_text'', plain [(''type'', JStr ''string'')])]),
       (''required'', JArr [
         JStr ''id'',
         JStr ''preview_text'',
         JStr ''created_at'',
         JStr ''last_activity_at'',
         JStr ''attempts'',
         JStr ''attempts_total'',
         JStr ''attempts_next_cursor'']),
       (''type'', JStr ''object'')]"

definition schema_SessionListResponse :: jsval where
  "schema_SessionListResponse =
     plain [
       (''properties'', plain [
         (''items'', plain [(''items'', ref_to ''SessionSummary''), (''type'', JStr ''array'')]),
         (''next_cursor'', plain [
           (''anyOf'', JArr [plain [(''type'', JStr ''string'')], plain [(''type'', JStr ''null'')]]),
           (''x-querycraft-union-validator'', JStr ''union_0089'')]),
         (''total'', plain [(''type'', JStr ''integer'')])]),
       (''required'', JArr [JStr ''items'', JStr ''total'', JStr ''next_cursor'']),
       (''type'', JStr ''object'')]"

definition schema_SessionSummary :: jsval where
  "schema_SessionSummary =
     plain [
       (''properties'', plain [
         (''created_at'', plain [(''type'', JStr ''string'')]),
         (''id'', plain [(''type'', JStr ''string'')]),
         (''last_activity_at'', plain [(''type'', JStr ''string'')]),
         (''preview_text'', plain [(''type'', JStr ''string'')])]),
       (''required'', JArr [JStr ''id'', JStr ''preview_text'', JStr ''created_at'', JStr ''last_activity_at'']),
       (''type'', JStr ''object'')]"

definition schema_SsoProviderListResponse :: jsval where
  "schema_SsoProviderListResponse =
     plain [
       (''properties'', plain [
         (''providers'', plain [(''items'', ref_to ''SsoProviderResponse''), (''type'', JStr ''array'')])]),
       (''required'', JArr [JStr ''providers'']),
       (''type'', JStr ''object'')]"

definition schema_SsoProviderPublic :: jsval where
  "schema_SsoProviderPublic =
     plain [
       (''properties'', plain [
         (''display_name'', plain [(''type'', JStr ''string'')]),
         (''login_url'', plain [(''type'', JStr ''string'')]),
         (''protocol'', plain [(''type'', JStr ''string'')])]),
       (''required'', JArr [JStr ''protocol'', JStr ''display_name'', JStr ''login_url'']),
       (''type'', JStr ''object'')]"

definition schema_SsoProviderPublicListResponse :: jsval where
  "schema_SsoProviderPublicListResponse =
     plain [
       (''properties'', plain [
         (''providers'', plain [(''items'', ref_to ''SsoProviderPublic''), (''type'', JStr ''array'')])]),
       (''required'', JArr [JStr ''providers'']),
       (''type'', JStr ''object'')]"

definition schema_SsoProviderResponse :: jsval where
  "schema_SsoProviderResponse =
     plain [
       (''properties'', plain [
         (''client_id'', plain [
           (''anyOf'', JArr [plain [(''type'', JStr ''string'')], plain [(''type'', JStr ''null'')]]),
           (''x-querycraft-union-validator'', JStr ''union_0090'')]),
         (''client_secret_masked'', plain [(''type'', JStr ''string'')]),
         (''created_at'', plain [(''type'', JStr ''string'')]),
         (''display_name'', plain [(''type'', JStr ''string'')]),
         (''group_claim_name'', plain [(''type'', JStr ''string'')]),
         (''id'', plain [(''type'', JStr ''string'')]),
         (''is_active'', plain [(''type'', JStr ''boolean'')]),
         (''issuer_url'', plain [
           (''anyOf'', JArr [plain [(''type'', JStr ''string'')], plain [(''type'', JStr ''null'')]]),
           (''x-querycraft-union-validator'', JStr ''union_0091'')]),
         (''protocol'', plain [(''type'', JStr ''string'')]),
         (''redirect_uri'', plain [
           (''anyOf'', JArr [plain [(''type'', JStr ''string'')], plain [(''type'', JStr ''null'')]]),
           (''x-querycraft-union-validator'', JStr ''union_0092'')]),
         (''saml_certificate_masked'', plain [(''type'', JStr ''string'')]),
         (''saml_entity_id'', plain [
           (''anyOf'', JArr [plain [(''type'', JStr ''string'')], plain [(''type'', JStr ''null'')]]),
           (''x-querycraft-union-validator'', JStr ''union_0093'')]),
         (''saml_metadata_url'', plain [
           (''anyOf'', JArr [plain [(''type'', JStr ''string'')], plain [(''type'', JStr ''null'')]]),
           (''x-querycraft-union-validator'', JStr ''union_0094'')]),
         (''saml_metadata_xml_masked'', plain [(''type'', JStr ''string'')]),
         (''scopes'', plain [(''type'', JStr ''string'')]),
         (''updated_at'', plain [(''type'', JStr ''string'')])]),
       (''required'', JArr [
         JStr ''id'',
         JStr ''protocol'',
         JStr ''display_name'',
         JStr ''created_at'',
         JStr ''updated_at'']),
       (''type'', JStr ''object'')]"

definition schema_TableColumnPolicy :: jsval where
  "schema_TableColumnPolicy =
     plain [
       (''properties'', plain [
         (''columns'', plain [(''items'', plain [(''type'', JStr ''string'')]), (''type'', JStr ''array'')]),
         (''table'', plain [(''type'', JStr ''string'')])]),
       (''required'', JArr [JStr ''table'', JStr ''columns'']),
       (''type'', JStr ''object'')]"

definition schema_UpdateAdminSettingsResponse :: jsval where
  "schema_UpdateAdminSettingsResponse =
     plain [
       (''properties'', plain [
         (''llm_context_cap'', plain [(''type'', JStr ''integer'')]),
         (''max_regenerate_attempts'', plain [(''type'', JStr ''integer'')]),
         (''updated_at'', plain [(''type'', JStr ''string'')])]),
       (''required'', JArr [JStr ''llm_context_cap'', JStr ''max_regenerate_attempts'', JStr ''updated_at'']),
       (''type'', JStr ''object'')]"

definition schema_UserConnectionListResponse :: jsval where
  "schema_UserConnectionListResponse =
     plain [
       (''properties'', plain [
         (''connections'', plain [(''items'', ref_to ''UserConnectionResponse''), (''type'', JStr ''array'')])]),
       (''required'', JArr [JStr ''connections'']),
       (''type'', JStr ''object'')]"

definition schema_UserConnectionResponse :: jsval where
  "schema_UserConnectionResponse =
     plain [
       (''properties'', plain [
         (''database_type'', ref_to ''DatabaseType''),
         (''display_name'', plain [(''type'', JStr ''string'')]),
         (''id'', plain [(''format'', JStr ''uuid''), (''type'', JStr ''string'')])]),
       (''required'', JArr [JStr ''id'', JStr ''display_name'', JStr ''database_type'']),
       (''type'', JStr ''object'')]"

definition schema_UserProfile :: jsval where
  "schema_UserProfile =
     plain [
       (''properties'', plain [
         (''auth_provider'', plain [(''type'', JStr ''string'')]),
         (''display_name'', plain [(''type'', JStr ''string'')]),
         (''id'', plain [(''type'', JStr ''string'')]),
         (''permissions'', plain [(''items'', plain [(''type'', JStr ''string'')]), (''type'', JStr ''array'')]),
         (''role'', plain [(''type'', JStr ''string'')]),
         (''role_id'', plain [
           (''anyOf'', JArr [plain [(''type'', JStr ''string'')], plain [(''type'', JStr ''null'')]]),
           (''x-querycraft-union-validator'', JStr ''union_0095'')]),
         (''role_name'', plain [
           (''anyOf'', JArr [plain [(''type'', JStr ''string'')], plain [(''type'', JStr ''null'')]]),
           (''x-querycraft-union-validator'', JStr ''union_0096'')]),
         (''username'', plain [(''type'', JStr ''string'')])]),
       (''required'', JArr [JStr ''id'', JStr ''username'', JStr ''display_name'', JStr ''role'']),
       (''type'', JStr ''object'')]"

definition schema_ValidationErrorDetail :: jsval where
  "schema_ValidationErrorDetail =
     plain [
       (''properties'', plain [
         (''field'', plain [(''type'', JStr ''string'')]),
         (''message_key'', plain [(''type'', JStr ''string'')]),
         (''message_params'', plain [
           (''anyOf'', JArr [
             plain [(''additionalProperties'', JBool True), (''type'', JStr ''object'')],
             plain [(''type'', JStr ''null'')]]),
           (''x-querycraft-union-validator'', JStr ''union_0097'')])]),
       (''required'', JArr [JStr ''field'', JStr ''message_key'']),
       (''type'', JStr ''object'')]"

definition schema_ValidationErrorResponse :: jsval where
  "schema_ValidationErrorResponse =
     plain [
       (''properties'', plain [
         (''details'', plain [(''items'', ref_to ''ValidationErrorDetail''), (''type'', JStr ''array'')]),
         (''error'', plain [(''const'', JStr ''validation''), (''type'', JStr ''string'')]),
         (''message_key'', plain [(''type'', JStr ''string'')])]),
       (''required'', JArr [JStr ''error'', JStr ''message_key'', JStr ''details'']),
       (''type'', JStr ''object'')]"

definition schema_Violation :: jsval where
  "schema_Violation =
     plain [
       (''properties'', plain [
         (''message_key'', plain [(''type'', JStr ''string'')]),
         (''message_params'', plain [
           (''anyOf'', JArr [
             plain [(''additionalProperties'', JBool True), (''type'', JStr ''object'')],
             plain [(''type'', JStr ''null'')]]),
           (''x-querycraft-union-validator'', JStr ''union_0098'')]),
         (''rule'', plain [(''type'', JStr ''string'')])]),
       (''required'', JArr [JStr ''rule'', JStr ''message_key'']),
       (''type'', JStr ''object'')]"

definition responseComponentSchemas :: "(string \<times> jsval) list" where
  "responseComponentSchemas =
     [(''AcceptedQueryDetail'', schema_AcceptedQueryDetail),
      (''AcceptedQuerySummary'', schema_AcceptedQuerySummary),
      (''AdminSettingsResponse'', schema_AdminSettingsResponse),
      (''AttemptSummary'', schema_AttemptSummary),
      (''AuditEntryRead'', schema_AuditEntryRead),
      (''AuditFilterContextResponse'', schema_AuditFilterContextResponse),
      (''AuditRetentionResponse'', schema_AuditRetentionResponse),
      (''AuditSearchPagination'', schema_AuditSearchPagination),
      (''AuditSearchResponse'', schema_AuditSearchResponse),
      (''AuditStatusResponse'', schema_AuditStatusResponse),
      (''AuditVerifyResponse'', schema_AuditVerifyResponse),
      (''ColumnMeta'', schema_ColumnMeta),
      (''ConnectionPolicyResponse'', schema_ConnectionPolicyResponse),
      (''ConnectionResponse'', schema_ConnectionResponse),
      (''ConnectionSchemaColumn'', schema_ConnectionSchemaColumn),
      (''ConnectionSchemaForeignKey'', schema_ConnectionSchemaForeignKey),
      (''ConnectionSchemaResponse'', schema_ConnectionSchemaResponse),
      (''ConnectionSchemaTable'', schema_ConnectionSchemaTable),
      (''ConnectionTestResult'', schema_ConnectionTestResult),
      (''CreateSessionResponse'', schema_CreateSessionResponse),
      (''DatabaseType'', schema_DatabaseType),
      (''DetectionThresholdRead'', schema_DetectionThresholdRead),
      (''ErrorResponse'', schema_ErrorResponse),
      (''EvaluatorRejection'', schema_EvaluatorRejection),
      (''FeedbackResponse'', schema_FeedbackResponse),
      (''GroupMappingListResponse'', schema_GroupMappingListResponse),
      (''GroupMappingResponse'', schema_GroupMappingResponse),
      (''HealthStatus'', schema_HealthStatus),
      (''HistoryListResponse'', schema_HistoryListResponse),
      (''LifecycleState'', schema_LifecycleState),
      (''LivenessResponse'', schema_LivenessResponse),
      (''NotReadyResponse'', schema_NotReadyResponse),
      (''PolicyTestResponse'', schema_PolicyTestResponse),
      (''QueryLimitsResponse'', schema_QueryLimitsResponse),
      (''QueryResult'', schema_QueryResult),
      (''QuotaDimensionStatus'', schema_QuotaDimensionStatus),
      (''QuotaExceededErrorResponse'', schema_QuotaExceededErrorResponse),
      (''QuotaListResponse'', schema_QuotaListResponse),
      (''QuotaStatusResponse'', schema_QuotaStatusResponse),
      (''QuotaSyncPendingErrorResponse'', schema_QuotaSyncPendingErrorResponse),
      (''ReadinessResponse'', schema_ReadinessResponse),
      (''RefinePrompt'', schema_RefinePrompt),
      (''RoleDetailResponse'', schema_RoleDetailResponse),
      (''RoleGroupMappingSummary'', schema_RoleGroupMappingSummary),
      (''RoleListResponse'', schema_RoleListResponse),
      (''RoleQuotaConfig'', schema_RoleQuotaConfig),
      (''RoleQuotaStatus'', schema_RoleQuotaStatus),
      (''RoleResponse'', schema_RoleResponse),
      (''RowFilterPolicy'', schema_RowFilterPolicy),
      (''SchemaIntrospectionStatus'', schema_SchemaIntrospectionStatus),
      (''SchemaRefreshResponse'', schema_SchemaRefreshResponse),
      (''SessionConnectionResponse'', schema_SessionConnectionResponse),
      (''SessionDetail'', schema_SessionDetail),
      (''SessionListResponse'', schema_SessionListResponse),
      (''SessionSummary'', schema_SessionSummary),
      (''SsoProviderListResponse'', schema_SsoProviderListResponse),
      (''SsoProviderPublic'', schema_SsoProviderPublic),
      (''SsoProviderPublicListResponse'', schema_SsoProviderPublicListResponse),
      (''SsoProviderResponse'', schema_SsoProviderResponse),
      (''TableColumnPolicy'', schema_TableColumnPolicy),
      (''UpdateAdminSettingsResponse'', schema_UpdateAdminSettingsResponse),
      (''UserConnectionListResponse'', schema_UserConnectionListResponse),
      (''UserConnectionResponse'', schema_UserConnectionResponse),
      (''UserProfile'', schema_UserProfile),
      (''ValidationErrorDetail'', schema_ValidationErrorDetail),
      (''ValidationErrorResponse'', schema_ValidationErrorResponse),
      (''Violation'', schema_Violation)]"

section \<open>Operations\<close>

definition op_acceptQuery :: ManifestOperation where
  "op_acceptQuery =
     \<lparr>classification = ''consumed_json'', op_method = ''POST'',
      operationId = ''acceptQuery'', op_path = ''/api/v1/query/accept'',
      responses = [
        json_response ''201'' (ref_to ''AcceptedQuerySummary''),
        json_response ''400'' (plain [
            (''anyOf'', JArr [ref_to ''ErrorResponse'', ref_to ''ValidationErrorResponse'']),
            (''x-querycraft-union-validator'', JStr ''union_0000'')]),
        json_response ''401'' (ref_to ''ErrorResponse''),
        json_response ''403'' (ref_to ''ErrorResponse''),
        json_response ''409'' (ref_to ''ErrorResponse''),
        json_response ''422'' (ref_to ''ErrorResponse''),
        json_response ''500'' (ref_to ''ErrorResponse''),
        json_response ''503'' (ref_to ''ErrorResponse'')],
      unusedReason = JNull\<rparr>"

definition op_createAdminConnection :: ManifestOperation where
  "op_createAdminConnection =
     \<lparr>classification = ''consumed_json'', op_method = ''POST'',
      operationId = ''createAdminConnection'', op_path = ''/api/v1/admin/connections'',
      responses = [
        json_response ''201'' (ref_to ''ConnectionResponse''),
        json_response ''401'' (ref_to ''ErrorResponse''),
        json_response ''403'' (ref_to ''ErrorResponse''),
        json_response ''422'' (plain [
            (''anyOf'', JArr [ref_to ''ErrorResponse'', ref_to ''ValidationErrorResponse'']),
            (''x-querycraft-union-validator'', JStr ''union_0001'')]),
        json_response ''500'' (ref_to ''ErrorResponse'')],
      unusedReason = JNull\<rparr>"

definition op_createAuditFilterContext :: ManifestOperation where
  "op_createAuditFilterContext =
     \<lparr>classification = ''consumed_json'', op_method = ''POST'',
      operationId = ''createAuditFilterContext'', op_path = ''/api/v1/admin/audit/filter-context'',
      responses = [
        json_response ''200'' (ref_to ''AuditFilterContextResponse''),
        json_response ''401'' (ref_to ''ErrorResponse''),
        json_response ''403'' (ref_to ''ErrorResponse''),
        json_response ''422'' (plain [
            (''anyOf'', JArr [ref_to ''ErrorResponse'', ref_to ''ValidationErrorResponse'']),
            (''x-querycraft-union-validator'', JStr ''union_0002'')]),
        json_response ''500'' (ref_to ''ErrorResponse'')],
      unusedReason = JNull\<rparr>"

definition op_createGroupMapping :: ManifestOperation where
  "op_createGroupMapping =
     \<lparr>classification = ''unused'', op_method = ''POST'',
      operationId = ''createGroupMapping'', op_path = ''/api/v1/admin/sso/group-mappings'',
      responses = [
        json_response ''201'' (ref_to ''GroupMappingResponse''),
        json_response ''401'' (ref_to ''ErrorResponse''),
        json_response ''403'' (ref_to ''ErrorResponse''),
        json_response ''404'' (ref_to ''ErrorResponse''),
        json_response ''409'' (ref_to ''ErrorResponse''),
        json_response ''422'' (plain [
            (''anyOf'', JArr [ref_to ''ErrorResponse'', ref_to ''ValidationErrorResponse'']),
            (''x-querycraft-union-validator'', JStr ''union_0003'')]),
        json_response ''500'' (ref_to ''ErrorResponse'')],
      unusedReason = JStr ''Composite role saves own mapping changes; the standalone generated operation remains for API compatibility.''\<rparr>"

definition op_createRole :: ManifestOperation where
  "op_createRole =
     \<lparr>classification = ''consumed_json'', op_method = ''POST'',
      operationId = ''createRole'', op_path = ''/api/v1/admin/roles'',
      responses = [
        json_response ''201'' (ref_to ''RoleDetailResponse''),
        json_response ''401'' (ref_to ''ErrorResponse''),
        json_response ''403'' (ref_to ''ErrorResponse''),
        json_response ''404'' (ref_to ''ErrorResponse''),
        json_response ''409'' (ref_to ''ErrorResponse''),
        json_response ''422'' (plain [
            (''anyOf'', JArr [ref_to ''ErrorResponse'', ref_to ''ValidationErrorResponse'']),
            (''x-querycraft-union-validator'', JStr ''union_0004'')]),
        json_response ''500'' (ref_to ''ErrorResponse'')],
      unusedReason = JNull\<rparr>"

definition op_createSession :: ManifestOperation where
  "op_createSession =
     \<lparr>classification = ''unused'', op_method = ''POST'',
      operationId = ''createSession'', op_path = ''/api/v1/sessions'',
      responses = [
        json_response ''201'' (ref_to ''CreateSessionResponse''),
        json_response ''401'' (ref_to ''ErrorResponse'')],
      unusedReason = JStr ''The first query submission creates the current workspace session.''\<rparr>"

definition op_createSsoProvider :: ManifestOperation where
  "op_createSsoProvider =
     \<lparr>classification = ''consumed_json'', op_method = ''POST'',
      operationId = ''createSsoProvider'', op_path = ''/api/v1/admin/sso/providers'',
      responses = [
        json_response ''201'' (ref_to ''SsoProviderResponse''),
        json_response ''401'' (ref_to ''ErrorResponse''),
        json_response ''403'' (ref_to ''ErrorResponse''),
        json_response ''409'' (ref_to ''ErrorResponse''),
        json_response ''422'' (plain [
            (''anyOf'', JArr [ref_to ''ErrorResponse'', ref_to ''ValidationErrorResponse'']),
            (''x-querycraft-union-validator'', JStr ''union_0005'')]),
        json_response ''500'' (ref_to ''ErrorResponse'')],
      unusedReason = JNull\<rparr>"

definition op_deleteAdminConnection :: ManifestOperation where
  "op_deleteAdminConnection =
     \<lparr>classification = ''no_body'', op_method = ''DELETE'',
      operationId = ''deleteAdminConnection'', op_path = ''/api/v1/admin/connections/{connection_id}'',
      responses = [
        json_response ''401'' (ref_to ''ErrorResponse''),
        json_response ''403'' (ref_to ''ErrorResponse''),
        json_response ''404'' (ref_to ''ErrorResponse''),
        json_response ''409'' (ref_to ''ErrorResponse''),
        json_response ''422'' (plain [
            (''anyOf'', JArr [ref_to ''ErrorResponse'', ref_to ''ValidationErrorResponse'']),
            (''x-querycraft-union-validator'', JStr ''union_0006'')]),
        json_response ''500'' (ref_to ''ErrorResponse'')],
      unusedReason = JNull\<rparr>"

definition op_deleteGroupMapping :: ManifestOperation where
  "op_deleteGroupMapping =
     \<lparr>classification = ''no_body'', op_method = ''DELETE'',
      operationId = ''deleteGroupMapping'', op_path = ''/api/v1/admin/sso/group-mappings/{mapping_id}'',
      responses = [
        json_response ''401'' (ref_to ''ErrorResponse''),
        json_response ''403'' (ref_to ''ErrorResponse''),
        json_response ''404'' (ref_to ''ErrorResponse''),
        json_response ''422'' (ref_to ''ValidationErrorResponse''),
        json_response ''500'' (ref_to ''ErrorResponse'')],
      unusedReason = JNull\<rparr>"

definition op_deleteHistoryEntry :: ManifestOperation where
  "op_deleteHistoryEntry =
     \<lparr>classification = ''no_body'', op_method = ''DELETE'',
      operationId = ''deleteHistoryEntry'', op_path = ''/api/v1/history/{query_id}'',
      responses = [
        json_response ''401'' (ref_to ''ErrorResponse''),
        json_response ''403'' (ref_to ''ErrorResponse''),
        json_response ''404'' (ref_to ''ErrorResponse''),
        json_response ''422'' (ref_to ''ValidationErrorResponse''),
        json_response ''503'' (ref_to ''ErrorResponse'')],
      unusedReason = JNull\<rparr>"

definition op_deleteQuota :: ManifestOperation where
  "op_deleteQuota =
     \<lparr>classification = ''no_body'', op_method = ''DELETE'',
      operationId = ''deleteQuota'', op_path = ''/api/v1/admin/quotas/{role_id}'',
      responses = [
        json_response ''400'' (ref_to ''ErrorResponse''),
        json_response ''401'' (ref_to ''ErrorResponse''),
        json_response ''403'' (ref_to ''ErrorResponse''),
        json_response ''404'' (ref_to ''ErrorResponse''),
        json_response ''422'' (ref_to ''ValidationErrorResponse''),
        json_response ''503'' (plain [
            (''anyOf'', JArr [ref_to ''ErrorResponse'', ref_to ''QuotaSyncPendingErrorResponse'']),
            (''x-querycraft-union-validator'', JStr ''union_0007'')])],
      unusedReason = JNull\<rparr>"

definition op_deleteRole :: ManifestOperation where
  "op_deleteRole =
     \<lparr>classification = ''no_body'', op_method = ''DELETE'',
      operationId = ''deleteRole'', op_path = ''/api/v1/admin/roles/{role_id}'',
      responses = [
        json_response ''401'' (ref_to ''ErrorResponse''),
        json_response ''403'' (ref_to ''ErrorResponse''),
        json_response ''404'' (ref_to ''ErrorResponse''),
        json_response ''422'' (plain [
            (''anyOf'', JArr [ref_to ''ErrorResponse'', ref_to ''ValidationErrorResponse'']),
            (''x-querycraft-union-validator'', JStr ''union_0008'')]),
        json_response ''500'' (ref_to ''ErrorResponse'')],
      unusedReason = JNull\<rparr>"

definition op_deleteSession :: ManifestOperation where
  "op_deleteSession =
     \<lparr>classification = ''no_body'', op_method = ''DELETE'',
      operationId = ''deleteSession'', op_path = ''/api/v1/sessions/{session_id}'',
      responses = [
        json_response ''401'' (ref_to ''ErrorResponse''),
        json_response ''404'' (ref_to ''ErrorResponse''),
        json_response ''422'' (plain [
            (''anyOf'', JArr [ref_to ''ErrorResponse'', ref_to ''ValidationErrorResponse'']),
            (''x-querycraft-union-validator'', JStr ''union_0009'')]),
        json_response ''503'' (ref_to ''ErrorResponse'')],
      unusedReason = JNull\<rparr>"

definition op_deleteSsoProvider :: ManifestOperation where
  "op_deleteSsoProvider =
     \<lparr>classification = ''no_body'', op_method = ''DELETE'',
      operationId = ''deleteSsoProvider'', op_path = ''/api/v1/admin/sso/providers/{provider_id}'',
      responses = [
        json_response ''401'' (ref_to ''ErrorResponse''),
        json_response ''403'' (ref_to ''ErrorResponse''),
        json_response ''404'' (ref_to ''ErrorResponse''),
        json_response ''422'' (ref_to ''ValidationErrorResponse''),
        json_response ''500'' (ref_to ''ErrorResponse''),
        json_response ''503'' (ref_to ''ErrorResponse'')],
      unusedReason = JNull\<rparr>"

definition op_disableAdminConnection :: ManifestOperation where
  "op_disableAdminConnection =
     \<lparr>classification = ''consumed_json'', op_method = ''POST'',
      operationId = ''disableAdminConnection'', op_path = ''/api/v1/admin/connections/{connection_id}/disable'',
      responses = [
        json_response ''200'' (ref_to ''ConnectionResponse''),
        json_response ''401'' (ref_to ''ErrorResponse''),
        json_response ''403'' (ref_to ''ErrorResponse''),
        json_response ''404'' (ref_to ''ErrorResponse''),
        json_response ''409'' (ref_to ''ErrorResponse''),
        json_response ''422'' (plain [
            (''anyOf'', JArr [ref_to ''ErrorResponse'', ref_to ''ValidationErrorResponse'']),
            (''x-querycraft-union-validator'', JStr ''union_0010'')]),
        json_response ''500'' (ref_to ''ErrorResponse'')],
      unusedReason = JNull\<rparr>"

definition op_enableAdminConnection :: ManifestOperation where
  "op_enableAdminConnection =
     \<lparr>classification = ''consumed_json'', op_method = ''POST'',
      operationId = ''enableAdminConnection'', op_path = ''/api/v1/admin/connections/{connection_id}/enable'',
      responses = [
        json_response ''200'' (ref_to ''ConnectionResponse''),
        json_response ''401'' (ref_to ''ErrorResponse''),
        json_response ''403'' (ref_to ''ErrorResponse''),
        json_response ''404'' (ref_to ''ErrorResponse''),
        json_response ''409'' (ref_to ''ErrorResponse''),
        json_response ''422'' (plain [
            (''anyOf'', JArr [ref_to ''ErrorResponse'', ref_to ''ValidationErrorResponse'']),
            (''x-querycraft-union-validator'', JStr ''union_0011'')]),
        json_response ''500'' (ref_to ''ErrorResponse'')],
      unusedReason = JNull\<rparr>"

definition op_exportAuditEntries :: ManifestOperation where
  "op_exportAuditEntries =
     \<lparr>classification = ''blob_download'', op_method = ''POST'',
      operationId = ''exportAuditEntries'', op_path = ''/api/v1/admin/audit/export'',
      responses = [
        json_response ''200'' (plain [(''format'', JStr ''binary''), (''type'', JStr ''string'')]),
        json_response ''401'' (ref_to ''ErrorResponse''),
        json_response ''403'' (ref_to ''ErrorResponse''),
        json_response ''422'' (plain [
            (''anyOf'', JArr [ref_to ''ErrorResponse'', ref_to ''ValidationErrorResponse'']),
            (''x-querycraft-union-validator'', JStr ''union_0012'')]),
        json_response ''429'' (ref_to ''QuotaExceededErrorResponse''),
        json_response ''500'' (ref_to ''ErrorResponse''),
        json_response ''503'' (ref_to ''ErrorResponse'')],
      unusedReason = JNull\<rparr>"

definition op_getAdminConnection :: ManifestOperation where
  "op_getAdminConnection =
     \<lparr>classification = ''unused'', op_method = ''GET'',
      operationId = ''getAdminConnection'', op_path = ''/api/v1/admin/connections/{connection_id}'',
      responses = [
        json_response ''200'' (ref_to ''ConnectionResponse''),
        json_response ''401'' (ref_to ''ErrorResponse''),
        json_response ''403'' (ref_to ''ErrorResponse''),
        json_response ''404'' (ref_to ''ErrorResponse''),
        json_response ''422'' (plain [
            (''anyOf'', JArr [ref_to ''ErrorResponse'', ref_to ''ValidationErrorResponse'']),
            (''x-querycraft-union-validator'', JStr ''union_0013'')]),
        json_response ''500'' (ref_to ''ErrorResponse'')],
      unusedReason = JStr ''Safe list rows provide the editable non-secret connection fields.''\<rparr>"

definition op_getAdminConnectionSchema :: ManifestOperation where
  "op_getAdminConnectionSchema =
     \<lparr>classification = ''consumed_json'', op_method = ''GET'',
      operationId = ''getAdminConnectionSchema'', op_path = ''/api/v1/admin/connections/{connection_id}/schema'',
      responses = [
        json_response ''200'' (ref_to ''ConnectionSchemaResponse''),
        json_response ''401'' (ref_to ''ErrorResponse''),
        json_response ''403'' (ref_to ''ErrorResponse''),
        json_response ''404'' (ref_to ''ErrorResponse''),
        json_response ''422'' (plain [
            (''anyOf'', JArr [ref_to ''ErrorResponse'', ref_to ''ValidationErrorResponse'']),
            (''x-querycraft-union-validator'', JStr ''union_0014'')]),
        json_response ''500'' (ref_to ''ErrorResponse'')],
      unusedReason = JNull\<rparr>"

definition op_getAdminSettings :: ManifestOperation where
  "op_getAdminSettings =
     \<lparr>classification = ''consumed_json'', op_method = ''GET'',
      operationId = ''getAdminSettings'', op_path = ''/api/v1/admin/settings'',
      responses = [
        json_response ''200'' (ref_to ''AdminSettingsResponse''),
        json_response ''401'' (ref_to ''ErrorResponse''),
        json_response ''403'' (ref_to ''ErrorResponse'')],
      unusedReason = JNull\<rparr>"

definition op_getAuditRetention :: ManifestOperation where
  "op_getAuditRetention =
     \<lparr>classification = ''consumed_json'', op_method = ''GET'',
      operationId = ''getAuditRetention'', op_path = ''/api/v1/admin/audit/retention'',
      responses = [
        json_response ''200'' (ref_to ''AuditRetentionResponse''),
        json_response ''401'' (ref_to ''ErrorResponse''),
        json_response ''403'' (ref_to ''ErrorResponse'')],
      unusedReason = JNull\<rparr>"

definition op_getAuditStatus :: ManifestOperation where
  "op_getAuditStatus =
     \<lparr>classification = ''consumed_json'', op_method = ''GET'',
      operationId = ''getAuditStatus'', op_path = ''/api/v1/admin/audit/status'',
      responses = [
        json_response ''200'' (ref_to ''AuditStatusResponse''),
        json_response ''401'' (ref_to ''ErrorResponse''),
        json_response ''403'' (ref_to ''ErrorResponse'')],
      unusedReason = JNull\<rparr>"

definition op_getDetectionConfig :: ManifestOperation where
  "op_getDetectionConfig =
     \<lparr>classification = ''consumed_json'', op_method = ''GET'',
      operationId = ''getDetectionConfig'', op_path = ''/api/v1/admin/detection/config'',
      responses = [
        json_response ''200'' (ref_to ''DetectionThresholdRead''),
        json_response ''401'' (ref_to ''ErrorResponse''),
        json_response ''403'' (ref_to ''ErrorResponse''),
        json_response ''503'' (ref_to ''ErrorResponse'')],
      unusedReason = JNull\<rparr>"

definition op_getHealth :: ManifestOperation where
  "op_getHealth =
     \<lparr>classification = ''unused'', op_method = ''GET'',
      operationId = ''getHealth'', op_path = ''/health'',
      responses = [
        json_response ''200'' (ref_to ''LivenessResponse'')],
      unusedReason = JStr ''Deployment probes call the public liveness route outside the React application.''\<rparr>"

definition op_getHistoryEntry :: ManifestOperation where
  "op_getHistoryEntry =
     \<lparr>classification = ''consumed_json'', op_method = ''GET'',
      operationId = ''getHistoryEntry'', op_path = ''/api/v1/history/{query_id}'',
      responses = [
        json_response ''200'' (ref_to ''AcceptedQueryDetail''),
        json_response ''401'' (ref_to ''ErrorResponse''),
        json_response ''403'' (ref_to ''ErrorResponse''),
        json_response ''404'' (ref_to ''ErrorResponse''),
        json_response ''422'' (ref_to ''ValidationErrorResponse''),
        json_response ''503'' (ref_to ''ErrorResponse'')],
      unusedReason = JNull\<rparr>"

definition op_getMe :: ManifestOperation where
  "op_getMe =
     \<lparr>classification = ''consumed_json'', op_method = ''GET'',
      operationId = ''getMe'', op_path = ''/api/v1/auth/me'',
      responses = [
        json_response ''200'' (ref_to ''UserProfile''),
        json_response ''401'' (ref_to ''ErrorResponse''),
        json_response ''503'' (ref_to ''ErrorResponse'')],
      unusedReason = JNull\<rparr>"

definition op_getQueryLimits :: ManifestOperation where
  "op_getQueryLimits =
     \<lparr>classification = ''consumed_json'', op_method = ''GET'',
      operationId = ''getQueryLimits'', op_path = ''/api/v1/query/limits'',
      responses = [
        json_response ''200'' (ref_to ''QueryLimitsResponse''),
        json_response ''401'' (ref_to ''ErrorResponse''),
        json_response ''403'' (ref_to ''ErrorResponse''),
        json_response ''503'' (ref_to ''ErrorResponse'')],
      unusedReason = JNull\<rparr>"

definition op_getQuota :: ManifestOperation where
  "op_getQuota =
     \<lparr>classification = ''unused'', op_method = ''GET'',
      operationId = ''getQuota'', op_path = ''/api/v1/admin/quotas/{role_id}'',
      responses = [
        json_response ''200'' (ref_to ''RoleQuotaConfig''),
        json_response ''400'' (ref_to ''ErrorResponse''),
        json_response ''401'' (ref_to ''ErrorResponse''),
        json_response ''403'' (ref_to ''ErrorResponse''),
        json_response ''404'' (ref_to ''ErrorResponse''),
        json_response ''422'' (ref_to ''ValidationErrorResponse'')],
      unusedReason = JStr ''The quota page consumes the bounded list and status operations.''\<rparr>"

definition op_getQuotaStatus :: ManifestOperation where
  "op_getQuotaStatus =
     \<lparr>classification = ''consumed_json'', op_method = ''GET'',
      operationId = ''getQuotaStatus'', op_path = ''/api/v1/admin/quotas/status'',
      responses = [
        json_response ''200'' (ref_to ''QuotaStatusResponse''),
        json_response ''400'' (ref_to ''ErrorResponse''),
        json_response ''401'' (ref_to ''ErrorResponse''),
        json_response ''403'' (ref_to ''ErrorResponse''),
        json_response ''422'' (plain [
            (''anyOf'', JArr [ref_to ''ErrorResponse'', ref_to ''ValidationErrorResponse'']),
            (''x-querycraft-union-validator'', JStr ''union_0015'')]),
        json_response ''503'' (ref_to ''ErrorResponse'')],
      unusedReason = JNull\<rparr>"

definition op_getReadiness :: ManifestOperation where
  "op_getReadiness =
     \<lparr>classification = ''unused'', op_method = ''GET'',
      operationId = ''getReadiness'', op_path = ''/ready'',
      responses = [
        json_response ''200'' (ref_to ''ReadinessResponse''),
        json_response ''503'' (ref_to ''NotReadyResponse'')],
      unusedReason = JStr ''Deployment probes call readiness outside the React application.''\<rparr>"

definition op_getRole :: ManifestOperation where
  "op_getRole =
     \<lparr>classification = ''consumed_json'', op_method = ''GET'',
      operationId = ''getRole'', op_path = ''/api/v1/admin/roles/{role_id}'',
      responses = [
        json_response ''200'' (ref_to ''RoleDetailResponse''),
        json_response ''401'' (ref_to ''ErrorResponse''),
        json_response ''403'' (ref_to ''ErrorResponse''),
        json_response ''404'' (ref_to ''ErrorResponse''),
        json_response ''422'' (ref_to ''ValidationErrorResponse''),
        json_response ''500'' (ref_to ''ErrorResponse'')],
      unusedReason = JNull\<rparr>"

definition op_getSession :: ManifestOperation where
  "op_getSession =
     \<lparr>classification = ''consumed_json'', op_method = ''GET'',
      operationId = ''getSession'', op_path = ''/api/v1/sessions/{session_id}'',
      responses = [
        json_response ''200'' (ref_to ''SessionDetail''),
        json_response ''400'' (ref_to ''ErrorResponse''),
        json_response ''401'' (ref_to ''ErrorResponse''),
        json_response ''404'' (ref_to ''ErrorResponse''),
        json_response ''422'' (plain [
            (''anyOf'', JArr [ref_to ''ErrorResponse'', ref_to ''ValidationErrorResponse'']),
            (''x-querycraft-union-validator'', JStr ''union_0016'')]),
        json_response ''503'' (ref_to ''ErrorResponse'')],
      unusedReason = JNull\<rparr>"

definition op_getSessions :: ManifestOperation where
  "op_getSessions =
     \<lparr>classification = ''consumed_json'', op_method = ''GET'',
      operationId = ''getSessions'', op_path = ''/api/v1/sessions'',
      responses = [
        json_response ''200'' (ref_to ''SessionListResponse''),
        json_response ''400'' (ref_to ''ErrorResponse''),
        json_response ''401'' (ref_to ''ErrorResponse''),
        json_response ''422'' (plain [
            (''anyOf'', JArr [ref_to ''ErrorResponse'', ref_to ''ValidationErrorResponse'']),
            (''x-querycraft-union-validator'', JStr ''union_0017'')]),
        json_response ''503'' (ref_to ''ErrorResponse'')],
      unusedReason = JNull\<rparr>"

definition op_listAdminConnections :: ManifestOperation where
  "op_listAdminConnections =
     \<lparr>classification = ''consumed_json'', op_method = ''GET'',
      operationId = ''listAdminConnections'', op_path = ''/api/v1/admin/connections'',
      responses = [
        json_response ''200'' (plain [(''items'', ref_to ''ConnectionResponse''), (''type'', JStr ''array'')]),
        json_response ''401'' (ref_to ''ErrorResponse''),
        json_response ''403'' (ref_to ''ErrorResponse''),
        json_response ''500'' (ref_to ''ErrorResponse'')],
      unusedReason = JNull\<rparr>"

definition op_listAdminSsoProviders :: ManifestOperation where
  "op_listAdminSsoProviders =
     \<lparr>classification = ''consumed_json'', op_method = ''GET'',
      operationId = ''listAdminSsoProviders'', op_path = ''/api/v1/admin/sso/providers'',
      responses = [
        json_response ''200'' (ref_to ''SsoProviderListResponse''),
        json_response ''401'' (ref_to ''ErrorResponse''),
        json_response ''403'' (ref_to ''ErrorResponse''),
        json_response ''500'' (ref_to ''ErrorResponse''),
        json_response ''503'' (ref_to ''ErrorResponse'')],
      unusedReason = JNull\<rparr>"

definition op_listGroupMappings :: ManifestOperation where
  "op_listGroupMappings =
     \<lparr>classification = ''unused'', op_method = ''GET'',
      operationId = ''listGroupMappings'', op_path = ''/api/v1/admin/sso/group-mappings'',
      responses = [
        json_response ''200'' (ref_to ''GroupMappingListResponse''),
        json_response ''401'' (ref_to ''ErrorResponse''),
        json_response ''403'' (ref_to ''ErrorResponse''),
        json_response ''500'' (ref_to ''ErrorResponse'')],
      unusedReason = JStr ''Authoritative role detail embeds the mappings used by the role editor.''\<rparr>"

definition op_listHistory :: ManifestOperation where
  "op_listHistory =
     \<lparr>classification = ''consumed_json'', op_method = ''GET'',
      operationId = ''listHistory'', op_path = ''/api/v1/history'',
      responses = [
        json_response ''200'' (ref_to ''HistoryListResponse''),
        json_response ''400'' (ref_to ''ErrorResponse''),
        json_response ''401'' (ref_to ''ErrorResponse''),
        json_response ''403'' (ref_to ''ErrorResponse''),
        json_response ''422'' (ref_to ''ValidationErrorResponse''),
        json_response ''503'' (ref_to ''ErrorResponse'')],
      unusedReason = JNull\<rparr>"

definition op_listQuotas :: ManifestOperation where
  "op_listQuotas =
     \<lparr>classification = ''consumed_json'', op_method = ''GET'',
      operationId = ''listQuotas'', op_path = ''/api/v1/admin/quotas'',
      responses = [
        json_response ''200'' (ref_to ''QuotaListResponse''),
        json_response ''401'' (ref_to ''ErrorResponse''),
        json_response ''403'' (ref_to ''ErrorResponse'')],
      unusedReason = JNull\<rparr>"

definition op_listRoles :: ManifestOperation where
  "op_listRoles =
     \<lparr>classification = ''consumed_json'', op_method = ''GET'',
      operationId = ''listRoles'', op_path = ''/api/v1/admin/roles'',
      responses = [
        json_response ''200'' (ref_to ''RoleListResponse''),
        json_response ''401'' (ref_to ''ErrorResponse''),
        json_response ''403'' (ref_to ''ErrorResponse''),
        json_response ''500'' (ref_to ''ErrorResponse'')],
      unusedReason = JNull\<rparr>"

definition op_listSsoProviders :: ManifestOperation where
  "op_listSsoProviders =
     \<lparr>classification = ''consumed_json'', op_method = ''GET'',
      operationId = ''listSsoProviders'', op_path = ''/api/v1/auth/sso/providers'',
      responses = [
        json_response ''200'' (ref_to ''SsoProviderPublicListResponse''),
        json_response ''503'' (ref_to ''ErrorResponse'')],
      unusedReason = JNull\<rparr>"

definition op_listUserConnections :: ManifestOperation where
  "op_listUserConnections =
     \<lparr>classification = ''consumed_json'', op_method = ''GET'',
      operationId = ''listUserConnections'', op_path = ''/api/v1/connections'',
      responses = [
        json_response ''200'' (ref_to ''UserConnectionListResponse''),
        json_response ''401'' (ref_to ''ErrorResponse''),
        json_response ''503'' (ref_to ''ErrorResponse'')],
      unusedReason = JNull\<rparr>"

definition op_oidcCallback :: ManifestOperation where
  "op_oidcCallback =
     \<lparr>classification = ''browser_redirect'', op_method = ''GET'',
      operationId = ''oidcCallback'', op_path = ''/api/v1/auth/sso/oidc/callback'',
      responses = [
        json_response ''422'' (plain [
            (''anyOf'', JArr [ref_to ''ErrorResponse'', ref_to ''ValidationErrorResponse'']),
            (''x-querycraft-union-validator'', JStr ''union_0018'')]),
        json_response ''503'' (ref_to ''ErrorResponse'')],
      unusedReason = JNull\<rparr>"

definition op_oidcLogin :: ManifestOperation where
  "op_oidcLogin =
     \<lparr>classification = ''browser_redirect'', op_method = ''GET'',
      operationId = ''oidcLogin'', op_path = ''/api/v1/auth/sso/oidc/login'',
      responses = [],
      unusedReason = JNull\<rparr>"

definition op_refreshAdminConnectionSchema :: ManifestOperation where
  "op_refreshAdminConnectionSchema =
     \<lparr>classification = ''consumed_json'', op_method = ''POST'',
      operationId = ''refreshAdminConnectionSchema'', op_path = ''/api/v1/admin/connections/{connection_id}/refresh-schema'',
      responses = [
        json_response ''200'' (ref_to ''SchemaRefreshResponse''),
        json_response ''401'' (ref_to ''ErrorResponse''),
        json_response ''403'' (ref_to ''ErrorResponse''),
        json_response ''404'' (ref_to ''ErrorResponse''),
        json_response ''422'' (plain [
            (''anyOf'', JArr [ref_to ''ErrorResponse'', ref_to ''ValidationErrorResponse'']),
            (''x-querycraft-union-validator'', JStr ''union_0019'')]),
        json_response ''500'' (ref_to ''ErrorResponse''),
        json_response ''502'' (ref_to ''ErrorResponse'')],
      unusedReason = JNull\<rparr>"

definition op_refreshSchema :: ManifestOperation where
  "op_refreshSchema =
     \<lparr>classification = ''unused'', op_method = ''POST'',
      operationId = ''refreshSchema'', op_path = ''/api/v1/admin/refresh-schema'',
      responses = [
        json_response ''200'' (ref_to ''SchemaRefreshResponse''),
        json_response ''401'' (ref_to ''ErrorResponse''),
        json_response ''422'' (ref_to ''ValidationErrorResponse'')],
      unusedReason = JStr ''The UI uses the per-connection schema refresh operation.''\<rparr>"

definition op_regenerateQuery :: ManifestOperation where
  "op_regenerateQuery =
     \<lparr>classification = ''consumed_json'', op_method = ''POST'',
      operationId = ''regenerateQuery'', op_path = ''/api/v1/query/regenerate'',
      responses = [
        json_response ''200'' (plain [
            (''anyOf'', JArr [ref_to ''QueryResult'', ref_to ''RefinePrompt'']),
            (''x-querycraft-union-validator'', JStr ''union_0020'')]),
        json_response ''400'' (plain [
            (''anyOf'', JArr [ref_to ''ErrorResponse'', ref_to ''ValidationErrorResponse'']),
            (''x-querycraft-union-validator'', JStr ''union_0021'')]),
        json_response ''401'' (ref_to ''ErrorResponse''),
        json_response ''403'' (ref_to ''ErrorResponse''),
        json_response ''404'' (ref_to ''ErrorResponse''),
        json_response ''409'' (ref_to ''ErrorResponse''),
        json_response ''422'' (ref_to ''ErrorResponse''),
        json_response ''429'' (ref_to ''QuotaExceededErrorResponse''),
        json_response ''500'' (ref_to ''ErrorResponse''),
        json_response ''502'' (ref_to ''ErrorResponse''),
        json_response ''503'' (ref_to ''ErrorResponse''),
        json_response ''504'' (ref_to ''ErrorResponse'')],
      unusedReason = JNull\<rparr>"

definition op_rejectQuery :: ManifestOperation where
  "op_rejectQuery =
     \<lparr>classification = ''consumed_json'', op_method = ''POST'',
      operationId = ''rejectQuery'', op_path = ''/api/v1/query/reject'',
      responses = [
        json_response ''200'' (plain [
            (''anyOf'', JArr [ref_to ''QueryResult'', ref_to ''RefinePrompt'']),
            (''x-querycraft-union-validator'', JStr ''union_0022'')]),
        json_response ''400'' (plain [
            (''anyOf'', JArr [ref_to ''ErrorResponse'', ref_to ''ValidationErrorResponse'']),
            (''x-querycraft-union-validator'', JStr ''union_0023'')]),
        json_response ''401'' (ref_to ''ErrorResponse''),
        json_response ''403'' (ref_to ''ErrorResponse''),
        json_response ''404'' (ref_to ''ErrorResponse''),
        json_response ''409'' (ref_to ''ErrorResponse''),
        json_response ''422'' (ref_to ''ErrorResponse''),
        json_response ''429'' (ref_to ''QuotaExceededErrorResponse''),
        json_response ''500'' (ref_to ''ErrorResponse''),
        json_response ''502'' (ref_to ''ErrorResponse''),
        json_response ''503'' (ref_to ''ErrorResponse''),
        json_response ''504'' (ref_to ''ErrorResponse'')],
      unusedReason = JNull\<rparr>"

definition op_samlCallback :: ManifestOperation where
  "op_samlCallback =
     \<lparr>classification = ''browser_redirect'', op_method = ''POST'',
      operationId = ''samlCallback'', op_path = ''/api/v1/auth/sso/saml/callback'',
      responses = [
        json_response ''422'' (ref_to ''ValidationErrorResponse'')],
      unusedReason = JNull\<rparr>"

definition op_samlLogin :: ManifestOperation where
  "op_samlLogin =
     \<lparr>classification = ''browser_redirect'', op_method = ''GET'',
      operationId = ''samlLogin'', op_path = ''/api/v1/auth/sso/saml/login'',
      responses = [],
      unusedReason = JNull\<rparr>"

definition op_searchAuditEntries :: ManifestOperation where
  "op_searchAuditEntries =
     \<lparr>classification = ''consumed_json'', op_method = ''GET'',
      operationId = ''searchAuditEntries'', op_path = ''/api/v1/admin/audit/entries'',
      responses = [
        json_response ''200'' (ref_to ''AuditSearchResponse''),
        json_response ''401'' (ref_to ''ErrorResponse''),
        json_response ''403'' (ref_to ''ErrorResponse''),
        json_response ''422'' (plain [
            (''anyOf'', JArr [ref_to ''ErrorResponse'', ref_to ''ValidationErrorResponse'']),
            (''x-querycraft-union-validator'', JStr ''union_0024'')]),
        json_response ''500'' (ref_to ''ErrorResponse'')],
      unusedReason = JNull\<rparr>"

definition op_signIn :: ManifestOperation where
  "op_signIn =
     \<lparr>classification = ''consumed_json'', op_method = ''POST'',
      operationId = ''signIn'', op_path = ''/api/v1/auth/sign-in'',
      responses = [
        json_response ''200'' (ref_to ''UserProfile''),
        json_response ''401'' (ref_to ''ErrorResponse''),
        json_response ''422'' (ref_to ''ValidationErrorResponse''),
        json_response ''503'' (ref_to ''ErrorResponse'')],
      unusedReason = JNull\<rparr>"

definition op_signOut :: ManifestOperation where
  "op_signOut =
     \<lparr>classification = ''no_body'', op_method = ''POST'',
      operationId = ''signOut'', op_path = ''/api/v1/auth/sign-out'',
      responses = [
        json_response ''401'' (ref_to ''ErrorResponse''),
        json_response ''503'' (ref_to ''ErrorResponse'')],
      unusedReason = JNull\<rparr>"

definition op_submitQuestion :: ManifestOperation where
  "op_submitQuestion =
     \<lparr>classification = ''consumed_json'', op_method = ''POST'',
      operationId = ''submitQuestion'', op_path = ''/api/v1/query/submit'',
      responses = [
        json_response ''200'' (ref_to ''QueryResult''),
        json_response ''400'' (plain [
            (''anyOf'', JArr [ref_to ''ErrorResponse'', ref_to ''ValidationErrorResponse'']),
            (''x-querycraft-union-validator'', JStr ''union_0025'')]),
        json_response ''401'' (ref_to ''ErrorResponse''),
        json_response ''403'' (ref_to ''ErrorResponse''),
        json_response ''404'' (ref_to ''ErrorResponse''),
        json_response ''409'' (ref_to ''ErrorResponse''),
        json_response ''422'' (ref_to ''EvaluatorRejection''),
        json_response ''429'' (ref_to ''QuotaExceededErrorResponse''),
        json_response ''500'' (ref_to ''ErrorResponse''),
        json_response ''502'' (ref_to ''ErrorResponse''),
        json_response ''503'' (ref_to ''ErrorResponse''),
        json_response ''504'' (ref_to ''ErrorResponse'')],
      unusedReason = JNull\<rparr>"

definition op_testAdminConnection :: ManifestOperation where
  "op_testAdminConnection =
     \<lparr>classification = ''consumed_json'', op_method = ''POST'',
      operationId = ''testAdminConnection'', op_path = ''/api/v1/admin/connections/{connection_id}/test'',
      responses = [
        json_response ''200'' (ref_to ''ConnectionTestResult''),
        json_response ''401'' (ref_to ''ErrorResponse''),
        json_response ''403'' (ref_to ''ErrorResponse''),
        json_response ''404'' (ref_to ''ErrorResponse''),
        json_response ''422'' (plain [
            (''anyOf'', JArr [ref_to ''ErrorResponse'', ref_to ''ValidationErrorResponse'']),
            (''x-querycraft-union-validator'', JStr ''union_0026'')]),
        json_response ''500'' (ref_to ''ErrorResponse'')],
      unusedReason = JNull\<rparr>"

definition op_testDraftRolePolicy :: ManifestOperation where
  "op_testDraftRolePolicy =
     \<lparr>classification = ''consumed_json'', op_method = ''POST'',
      operationId = ''testDraftRolePolicy'', op_path = ''/api/v1/admin/roles/test-policy'',
      responses = [
        json_response ''200'' (ref_to ''PolicyTestResponse''),
        json_response ''400'' (ref_to ''ErrorResponse''),
        json_response ''401'' (ref_to ''ErrorResponse''),
        json_response ''403'' (ref_to ''ErrorResponse''),
        json_response ''422'' (plain [
            (''anyOf'', JArr [ref_to ''ErrorResponse'', ref_to ''ValidationErrorResponse'']),
            (''x-querycraft-union-validator'', JStr ''union_0027'')]),
        json_response ''500'' (ref_to ''ErrorResponse'')],
      unusedReason = JNull\<rparr>"

definition op_testRolePolicy :: ManifestOperation where
  "op_testRolePolicy =
     \<lparr>classification = ''unused'', op_method = ''POST'',
      operationId = ''testRolePolicy'', op_path = ''/api/v1/admin/roles/{role_id}/test-policy'',
      responses = [
        json_response ''200'' (ref_to ''PolicyTestResponse''),
        json_response ''400'' (ref_to ''ErrorResponse''),
        json_response ''401'' (ref_to ''ErrorResponse''),
        json_response ''403'' (ref_to ''ErrorResponse''),
        json_response ''404'' (ref_to ''ErrorResponse''),
        json_response ''422'' (plain [
            (''anyOf'', JArr [ref_to ''ErrorResponse'', ref_to ''ValidationErrorResponse'']),
            (''x-querycraft-union-validator'', JStr ''union_0028'')]),
        json_response ''500'' (ref_to ''ErrorResponse'')],
      unusedReason = JStr ''The editor validates unsaved policy drafts with testDraftRolePolicy.''\<rparr>"

definition op_updateAdminConnection :: ManifestOperation where
  "op_updateAdminConnection =
     \<lparr>classification = ''consumed_json'', op_method = ''PUT'',
      operationId = ''updateAdminConnection'', op_path = ''/api/v1/admin/connections/{connection_id}'',
      responses = [
        json_response ''200'' (ref_to ''ConnectionResponse''),
        json_response ''401'' (ref_to ''ErrorResponse''),
        json_response ''403'' (ref_to ''ErrorResponse''),
        json_response ''404'' (ref_to ''ErrorResponse''),
        json_response ''422'' (plain [
            (''anyOf'', JArr [ref_to ''ErrorResponse'', ref_to ''ValidationErrorResponse'']),
            (''x-querycraft-union-validator'', JStr ''union_0029'')]),
        json_response ''500'' (ref_to ''ErrorResponse'')],
      unusedReason = JNull\<rparr>"

definition op_updateAdminSettings :: ManifestOperation where
  "op_updateAdminSettings =
     \<lparr>classification = ''consumed_json'', op_method = ''PATCH'',
      operationId = ''updateAdminSettings'', op_path = ''/api/v1/admin/settings'',
      responses = [
        json_response ''200'' (ref_to ''UpdateAdminSettingsResponse''),
        json_response ''401'' (ref_to ''ErrorResponse''),
        json_response ''403'' (ref_to ''ErrorResponse''),
        json_response ''422'' (plain [
            (''anyOf'', JArr [ref_to ''ErrorResponse'', ref_to ''ValidationErrorResponse'']),
            (''x-querycraft-union-validator'', JStr ''union_0030'')])],
      unusedReason = JNull\<rparr>"

definition op_updateDetectionConfig :: ManifestOperation where
  "op_updateDetectionConfig =
     \<lparr>classification = ''consumed_json'', op_method = ''PUT'',
      operationId = ''updateDetectionConfig'', op_path = ''/api/v1/admin/detection/config'',
      responses = [
        json_response ''200'' (ref_to ''DetectionThresholdRead''),
        json_response ''401'' (ref_to ''ErrorResponse''),
        json_response ''403'' (ref_to ''ErrorResponse''),
        json_response ''422'' (plain [
            (''anyOf'', JArr [ref_to ''ErrorResponse'', ref_to ''ValidationErrorResponse'']),
            (''x-querycraft-union-validator'', JStr ''union_0031'')]),
        json_response ''503'' (ref_to ''ErrorResponse'')],
      unusedReason = JNull\<rparr>"

definition op_updateFeedback :: ManifestOperation where
  "op_updateFeedback =
     \<lparr>classification = ''unused'', op_method = ''PATCH'',
      operationId = ''updateFeedback'', op_path = ''/api/v1/feedback/{attempt_id}'',
      responses = [
        json_response ''200'' (ref_to ''FeedbackResponse''),
        json_response ''401'' (ref_to ''ErrorResponse''),
        json_response ''404'' (ref_to ''ErrorResponse''),
        json_response ''422'' (plain [
            (''anyOf'', JArr [ref_to ''ErrorResponse'', ref_to ''ValidationErrorResponse'']),
            (''x-querycraft-union-validator'', JStr ''union_0032'')]),
        json_response ''503'' (ref_to ''ErrorResponse'')],
      unusedReason = JStr ''The current auto-save workspace does not render the legacy feedback control.''\<rparr>"

definition op_updateRole :: ManifestOperation where
  "op_updateRole =
     \<lparr>classification = ''consumed_json'', op_method = ''PUT'',
      operationId = ''updateRole'', op_path = ''/api/v1/admin/roles/{role_id}'',
      responses = [
        json_response ''200'' (ref_to ''RoleDetailResponse''),
        json_response ''401'' (ref_to ''ErrorResponse''),
        json_response ''403'' (ref_to ''ErrorResponse''),
        json_response ''404'' (ref_to ''ErrorResponse''),
        json_response ''409'' (ref_to ''ErrorResponse''),
        json_response ''422'' (plain [
            (''anyOf'', JArr [ref_to ''ErrorResponse'', ref_to ''ValidationErrorResponse'']),
            (''x-querycraft-union-validator'', JStr ''union_0033'')]),
        json_response ''500'' (ref_to ''ErrorResponse'')],
      unusedReason = JNull\<rparr>"

definition op_updateSessionConnection :: ManifestOperation where
  "op_updateSessionConnection =
     \<lparr>classification = ''consumed_json'', op_method = ''PATCH'',
      operationId = ''updateSessionConnection'', op_path = ''/api/v1/sessions/{session_id}/connection'',
      responses = [
        json_response ''200'' (ref_to ''SessionConnectionResponse''),
        json_response ''400'' (ref_to ''ErrorResponse''),
        json_response ''401'' (ref_to ''ErrorResponse''),
        json_response ''404'' (ref_to ''ErrorResponse''),
        json_response ''422'' (plain [
            (''anyOf'', JArr [ref_to ''ErrorResponse'', ref_to ''ValidationErrorResponse'']),
            (''x-querycraft-union-validator'', JStr ''union_0034'')]),
        json_response ''503'' (ref_to ''ErrorResponse'')],
      unusedReason = JNull\<rparr>"

definition op_updateSsoProvider :: ManifestOperation where
  "op_updateSsoProvider =
     \<lparr>classification = ''consumed_json'', op_method = ''PUT'',
      operationId = ''updateSsoProvider'', op_path = ''/api/v1/admin/sso/providers/{provider_id}'',
      responses = [
        json_response ''200'' (ref_to ''SsoProviderResponse''),
        json_response ''401'' (ref_to ''ErrorResponse''),
        json_response ''403'' (ref_to ''ErrorResponse''),
        json_response ''404'' (ref_to ''ErrorResponse''),
        json_response ''422'' (plain [
            (''anyOf'', JArr [ref_to ''ErrorResponse'', ref_to ''ValidationErrorResponse'']),
            (''x-querycraft-union-validator'', JStr ''union_0035'')]),
        json_response ''500'' (ref_to ''ErrorResponse''),
        json_response ''503'' (ref_to ''ErrorResponse'')],
      unusedReason = JNull\<rparr>"

definition op_upsertQuota :: ManifestOperation where
  "op_upsertQuota =
     \<lparr>classification = ''consumed_json'', op_method = ''PUT'',
      operationId = ''upsertQuota'', op_path = ''/api/v1/admin/quotas/{role_id}'',
      responses = [
        json_response ''200'' (ref_to ''RoleQuotaConfig''),
        json_response ''400'' (ref_to ''ErrorResponse''),
        json_response ''401'' (ref_to ''ErrorResponse''),
        json_response ''403'' (ref_to ''ErrorResponse''),
        json_response ''404'' (ref_to ''ErrorResponse''),
        json_response ''422'' (ref_to ''ValidationErrorResponse''),
        json_response ''503'' (plain [
            (''anyOf'', JArr [ref_to ''ErrorResponse'', ref_to ''QuotaSyncPendingErrorResponse'']),
            (''x-querycraft-union-validator'', JStr ''union_0036'')])],
      unusedReason = JNull\<rparr>"

definition op_verifyAuditChain :: ManifestOperation where
  "op_verifyAuditChain =
     \<lparr>classification = ''consumed_json'', op_method = ''POST'',
      operationId = ''verifyAuditChain'', op_path = ''/api/v1/admin/audit/verify'',
      responses = [
        json_response ''200'' (ref_to ''AuditVerifyResponse''),
        json_response ''401'' (ref_to ''ErrorResponse''),
        json_response ''403'' (ref_to ''ErrorResponse''),
        json_response ''500'' (ref_to ''ErrorResponse'')],
      unusedReason = JNull\<rparr>"

definition responseOperationManifest :: "ManifestOperation list" where
  "responseOperationManifest =
     [op_acceptQuery,
      op_createAdminConnection,
      op_createAuditFilterContext,
      op_createGroupMapping,
      op_createRole,
      op_createSession,
      op_createSsoProvider,
      op_deleteAdminConnection,
      op_deleteGroupMapping,
      op_deleteHistoryEntry,
      op_deleteQuota,
      op_deleteRole,
      op_deleteSession,
      op_deleteSsoProvider,
      op_disableAdminConnection,
      op_enableAdminConnection,
      op_exportAuditEntries,
      op_getAdminConnection,
      op_getAdminConnectionSchema,
      op_getAdminSettings,
      op_getAuditRetention,
      op_getAuditStatus,
      op_getDetectionConfig,
      op_getHealth,
      op_getHistoryEntry,
      op_getMe,
      op_getQueryLimits,
      op_getQuota,
      op_getQuotaStatus,
      op_getReadiness,
      op_getRole,
      op_getSession,
      op_getSessions,
      op_listAdminConnections,
      op_listAdminSsoProviders,
      op_listGroupMappings,
      op_listHistory,
      op_listQuotas,
      op_listRoles,
      op_listSsoProviders,
      op_listUserConnections,
      op_oidcCallback,
      op_oidcLogin,
      op_refreshAdminConnectionSchema,
      op_refreshSchema,
      op_regenerateQuery,
      op_rejectQuery,
      op_samlCallback,
      op_samlLogin,
      op_searchAuditEntries,
      op_signIn,
      op_signOut,
      op_submitQuestion,
      op_testAdminConnection,
      op_testDraftRolePolicy,
      op_testRolePolicy,
      op_updateAdminConnection,
      op_updateAdminSettings,
      op_updateDetectionConfig,
      op_updateFeedback,
      op_updateRole,
      op_updateSessionConnection,
      op_updateSsoProvider,
      op_upsertQuota,
      op_verifyAuditChain]"

section \<open>Validator tables\<close>

definition validator_table_0 :: "(string \<times> nat) list" where
  "validator_table_0 =
     [(''acceptQuery:201'', 0),
      (''acceptQuery:400'', 1),
      (''acceptQuery:401'', 2),
      (''acceptQuery:403'', 2),
      (''acceptQuery:409'', 2),
      (''acceptQuery:422'', 2),
      (''acceptQuery:500'', 2),
      (''acceptQuery:503'', 2),
      (''createAdminConnection:201'', 3),
      (''createAdminConnection:401'', 2),
      (''createAdminConnection:403'', 2),
      (''createAdminConnection:422'', 1),
      (''createAdminConnection:500'', 2),
      (''createAuditFilterContext:200'', 4),
      (''createAuditFilterContext:401'', 2),
      (''createAuditFilterContext:403'', 2),
      (''createAuditFilterContext:422'', 1),
      (''createAuditFilterContext:500'', 2),
      (''createGroupMapping:201'', 5),
      (''createGroupMapping:401'', 2),
      (''createGroupMapping:403'', 2),
      (''createGroupMapping:404'', 2),
      (''createGroupMapping:409'', 2),
      (''createGroupMapping:422'', 1),
      (''createGroupMapping:500'', 2),
      (''createRole:201'', 6),
      (''createRole:401'', 2),
      (''createRole:403'', 2),
      (''createRole:404'', 2),
      (''createRole:409'', 2),
      (''createRole:422'', 1),
      (''createRole:500'', 2),
      (''createSession:201'', 7),
      (''createSession:401'', 2),
      (''createSsoProvider:201'', 8),
      (''createSsoProvider:401'', 2),
      (''createSsoProvider:403'', 2),
      (''createSsoProvider:409'', 2),
      (''createSsoProvider:422'', 1),
      (''createSsoProvider:500'', 2),
      (''deleteAdminConnection:401'', 2),
      (''deleteAdminConnection:403'', 2),
      (''deleteAdminConnection:404'', 2),
      (''deleteAdminConnection:409'', 2),
      (''deleteAdminConnection:422'', 1),
      (''deleteAdminConnection:500'', 2),
      (''deleteGroupMapping:401'', 2),
      (''deleteGroupMapping:403'', 2),
      (''deleteGroupMapping:404'', 2),
      (''deleteGroupMapping:422'', 9),
      (''deleteGroupMapping:500'', 2),
      (''deleteHistoryEntry:401'', 2),
      (''deleteHistoryEntry:403'', 2),
      (''deleteHistoryEntry:404'', 2),
      (''deleteHistoryEntry:422'', 9),
      (''deleteHistoryEntry:503'', 2),
      (''deleteQuota:400'', 2),
      (''deleteQuota:401'', 2),
      (''deleteQuota:403'', 2),
      (''deleteQuota:404'', 2),
      (''deleteQuota:422'', 9),
      (''deleteQuota:503'', 10),
      (''deleteRole:401'', 2),
      (''deleteRole:403'', 2),
      (''deleteRole:404'', 2),
      (''deleteRole:422'', 1),
      (''deleteRole:500'', 2),
      (''deleteSession:401'', 2),
      (''deleteSession:404'', 2),
      (''deleteSession:422'', 1),
      (''deleteSession:503'', 2),
      (''deleteSsoProvider:401'', 2),
      (''deleteSsoProvider:403'', 2),
      (''deleteSsoProvider:404'', 2),
      (''deleteSsoProvider:422'', 9),
      (''deleteSsoProvider:500'', 2),
      (''deleteSsoProvider:503'', 2),
      (''disableAdminConnection:200'', 3),
      (''disableAdminConnection:401'', 2),
      (''disableAdminConnection:403'', 2),
      (''disableAdminConnection:404'', 2),
      (''disableAdminConnection:409'', 2),
      (''disableAdminConnection:422'', 1),
      (''disableAdminConnection:500'', 2),
      (''enableAdminConnection:200'', 3),
      (''enableAdminConnection:401'', 2),
      (''enableAdminConnection:403'', 2),
      (''enableAdminConnection:404'', 2),
      (''enableAdminConnection:409'', 2),
      (''enableAdminConnection:422'', 1),
      (''enableAdminConnection:500'', 2),
      (''exportAuditEntries:200'', 11),
      (''exportAuditEntries:401'', 2),
      (''exportAuditEntries:403'', 2),
      (''exportAuditEntries:422'', 1),
      (''exportAuditEntries:429'', 12),
      (''exportAuditEntries:500'', 2),
      (''exportAuditEntries:503'', 2),
      (''getAdminConnection:200'', 3),
      (''getAdminConnection:401'', 2),
      (''getAdminConnection:403'', 2),
      (''getAdminConnection:404'', 2),
      (''getAdminConnection:422'', 1),
      (''getAdminConnection:500'', 2),
      (''getAdminConnectionSchema:200'', 13),
      (''getAdminConnectionSchema:401'', 2),
      (''getAdminConnectionSchema:403'', 2),
      (''getAdminConnectionSchema:404'', 2),
      (''getAdminConnectionSchema:422'', 1),
      (''getAdminConnectionSchema:500'', 2)]"

definition validator_table_1 :: "(string \<times> nat) list" where
  "validator_table_1 =
     [(''getAdminSettings:200'', 14),
      (''getAdminSettings:401'', 2),
      (''getAdminSettings:403'', 2),
      (''getAuditRetention:200'', 15),
      (''getAuditRetention:401'', 2),
      (''getAuditRetention:403'', 2),
      (''getAuditStatus:200'', 16),
      (''getAuditStatus:401'', 2),
      (''getAuditStatus:403'', 2),
      (''getDetectionConfig:200'', 17),
      (''getDetectionConfig:401'', 2),
      (''getDetectionConfig:403'', 2),
      (''getDetectionConfig:503'', 2),
      (''getHealth:200'', 18),
      (''getHistoryEntry:200'', 19),
      (''getHistoryEntry:401'', 2),
      (''getHistoryEntry:403'', 2),
      (''getHistoryEntry:404'', 2),
      (''getHistoryEntry:422'', 9),
      (''getHistoryEntry:503'', 2),
      (''getMe:200'', 20),
      (''getMe:401'', 2),
      (''getMe:503'', 2),
      (''getQueryLimits:200'', 21),
      (''getQueryLimits:401'', 2),
      (''getQueryLimits:403'', 2),
      (''getQueryLimits:503'', 2),
      (''getQuota:200'', 22),
      (''getQuota:400'', 2),
      (''getQuota:401'', 2),
      (''getQuota:403'', 2),
      (''getQuota:404'', 2),
      (''getQuota:422'', 9),
      (''getQuotaStatus:200'', 23),
      (''getQuotaStatus:400'', 2),
      (''getQuotaStatus:401'', 2),
      (''getQuotaStatus:403'', 2),
      (''getQuotaStatus:422'', 1),
      (''getQuotaStatus:503'', 2),
      (''getReadiness:200'', 24),
      (''getReadiness:503'', 25),
      (''getRole:200'', 6),
      (''getRole:401'', 2),
      (''getRole:403'', 2),
      (''getRole:404'', 2),
      (''getRole:422'', 9),
      (''getRole:500'', 2),
      (''getSession:200'', 26),
      (''getSession:400'', 2),
      (''getSession:401'', 2),
      (''getSession:404'', 2),
      (''getSession:422'', 1),
      (''getSession:503'', 2),
      (''getSessions:200'', 27),
      (''getSessions:400'', 2),
      (''getSessions:401'', 2),
      (''getSessions:422'', 1),
      (''getSessions:503'', 2),
      (''listAdminConnections:200'', 28),
      (''listAdminConnections:401'', 2),
      (''listAdminConnections:403'', 2),
      (''listAdminConnections:500'', 2),
      (''listAdminSsoProviders:200'', 29),
      (''listAdminSsoProviders:401'', 2),
      (''listAdminSsoProviders:403'', 2),
      (''listAdminSsoProviders:500'', 2),
      (''listAdminSsoProviders:503'', 2),
      (''listGroupMappings:200'', 30),
      (''listGroupMappings:401'', 2),
      (''listGroupMappings:403'', 2),
      (''listGroupMappings:500'', 2),
      (''listHistory:200'', 31),
      (''listHistory:400'', 2),
      (''listHistory:401'', 2),
      (''listHistory:403'', 2),
      (''listHistory:422'', 9),
      (''listHistory:503'', 2),
      (''listQuotas:200'', 32),
      (''listQuotas:401'', 2),
      (''listQuotas:403'', 2),
      (''listRoles:200'', 33),
      (''listRoles:401'', 2),
      (''listRoles:403'', 2),
      (''listRoles:500'', 2),
      (''listSsoProviders:200'', 34),
      (''listSsoProviders:503'', 2),
      (''listUserConnections:200'', 35),
      (''listUserConnections:401'', 2),
      (''listUserConnections:503'', 2),
      (''oidcCallback:422'', 1),
      (''oidcCallback:503'', 2),
      (''refreshAdminConnectionSchema:200'', 36),
      (''refreshAdminConnectionSchema:401'', 2),
      (''refreshAdminConnectionSchema:403'', 2),
      (''refreshAdminConnectionSchema:404'', 2),
      (''refreshAdminConnectionSchema:422'', 1),
      (''refreshAdminConnectionSchema:500'', 2),
      (''refreshAdminConnectionSchema:502'', 2),
      (''refreshSchema:200'', 36),
      (''refreshSchema:401'', 2),
      (''refreshSchema:422'', 9),
      (''regenerateQuery:200'', 37),
      (''regenerateQuery:400'', 1),
      (''regenerateQuery:401'', 2),
      (''regenerateQuery:403'', 2),
      (''regenerateQuery:404'', 2),
      (''regenerateQuery:409'', 2),
      (''regenerateQuery:422'', 2),
      (''regenerateQuery:429'', 12),
      (''regenerateQuery:500'', 2)]"

definition validator_table_2 :: "(string \<times> nat) list" where
  "validator_table_2 =
     [(''regenerateQuery:502'', 2),
      (''regenerateQuery:503'', 2),
      (''regenerateQuery:504'', 2),
      (''rejectQuery:200'', 37),
      (''rejectQuery:400'', 1),
      (''rejectQuery:401'', 2),
      (''rejectQuery:403'', 2),
      (''rejectQuery:404'', 2),
      (''rejectQuery:409'', 2),
      (''rejectQuery:422'', 2),
      (''rejectQuery:429'', 12),
      (''rejectQuery:500'', 2),
      (''rejectQuery:502'', 2),
      (''rejectQuery:503'', 2),
      (''rejectQuery:504'', 2),
      (''samlCallback:422'', 9),
      (''searchAuditEntries:200'', 38),
      (''searchAuditEntries:401'', 2),
      (''searchAuditEntries:403'', 2),
      (''searchAuditEntries:422'', 1),
      (''searchAuditEntries:500'', 2),
      (''signIn:200'', 20),
      (''signIn:401'', 2),
      (''signIn:422'', 9),
      (''signIn:503'', 2),
      (''signOut:401'', 2),
      (''signOut:503'', 2),
      (''submitQuestion:200'', 39),
      (''submitQuestion:400'', 1),
      (''submitQuestion:401'', 2),
      (''submitQuestion:403'', 2),
      (''submitQuestion:404'', 2),
      (''submitQuestion:409'', 2),
      (''submitQuestion:422'', 40),
      (''submitQuestion:429'', 12),
      (''submitQuestion:500'', 2),
      (''submitQuestion:502'', 2),
      (''submitQuestion:503'', 2),
      (''submitQuestion:504'', 2),
      (''testAdminConnection:200'', 41),
      (''testAdminConnection:401'', 2),
      (''testAdminConnection:403'', 2),
      (''testAdminConnection:404'', 2),
      (''testAdminConnection:422'', 1),
      (''testAdminConnection:500'', 2),
      (''testDraftRolePolicy:200'', 42),
      (''testDraftRolePolicy:400'', 2),
      (''testDraftRolePolicy:401'', 2),
      (''testDraftRolePolicy:403'', 2),
      (''testDraftRolePolicy:422'', 1),
      (''testDraftRolePolicy:500'', 2),
      (''testRolePolicy:200'', 42),
      (''testRolePolicy:400'', 2),
      (''testRolePolicy:401'', 2),
      (''testRolePolicy:403'', 2),
      (''testRolePolicy:404'', 2),
      (''testRolePolicy:422'', 1),
      (''testRolePolicy:500'', 2),
      (''updateAdminConnection:200'', 3),
      (''updateAdminConnection:401'', 2),
      (''updateAdminConnection:403'', 2),
      (''updateAdminConnection:404'', 2),
      (''updateAdminConnection:422'', 1),
      (''updateAdminConnection:500'', 2),
      (''updateAdminSettings:200'', 43),
      (''updateAdminSettings:401'', 2),
      (''updateAdminSettings:403'', 2),
      (''updateAdminSettings:422'', 1),
      (''updateDetectionConfig:200'', 17),
      (''updateDetectionConfig:401'', 2),
      (''updateDetectionConfig:403'', 2),
      (''updateDetectionConfig:422'', 1),
      (''updateDetectionConfig:503'', 2),
      (''updateFeedback:200'', 44),
      (''updateFeedback:401'', 2),
      (''updateFeedback:404'', 2),
      (''updateFeedback:422'', 1),
      (''updateFeedback:503'', 2),
      (''updateRole:200'', 6),
      (''updateRole:401'', 2),
      (''updateRole:403'', 2),
      (''updateRole:404'', 2),
      (''updateRole:409'', 2),
      (''updateRole:422'', 1),
      (''updateRole:500'', 2),
      (''updateSessionConnection:200'', 45),
      (''updateSessionConnection:400'', 2),
      (''updateSessionConnection:401'', 2),
      (''updateSessionConnection:404'', 2),
      (''updateSessionConnection:422'', 1),
      (''updateSessionConnection:503'', 2),
      (''updateSsoProvider:200'', 8),
      (''updateSsoProvider:401'', 2),
      (''updateSsoProvider:403'', 2),
      (''updateSsoProvider:404'', 2),
      (''updateSsoProvider:422'', 1),
      (''updateSsoProvider:500'', 2),
      (''updateSsoProvider:503'', 2),
      (''upsertQuota:200'', 22),
      (''upsertQuota:400'', 2),
      (''upsertQuota:401'', 2),
      (''upsertQuota:403'', 2),
      (''upsertQuota:404'', 2),
      (''upsertQuota:422'', 9),
      (''upsertQuota:503'', 10),
      (''verifyAuditChain:200'', 46),
      (''verifyAuditChain:401'', 2),
      (''verifyAuditChain:403'', 2),
      (''verifyAuditChain:500'', 2)]"

definition responseValidatorByOperationStatus :: "(string \<times> nat) list" where
  "responseValidatorByOperationStatus =
     validator_table_0 @ validator_table_1 @ validator_table_2"

definition unionAlternativeValidatorsById :: "(string \<times> nat list) list" where
  "unionAlternativeValidatorsById =
     [(''union_0000'', [2, 9]),
      (''union_0001'', [2, 9]),
      (''union_0002'', [2, 9]),
      (''union_0003'', [2, 9]),
      (''union_0004'', [2, 9]),
      (''union_0005'', [2, 9]),
      (''union_0006'', [2, 9]),
      (''union_0007'', [2, 47]),
      (''union_0008'', [2, 9]),
      (''union_0009'', [2, 9]),
      (''union_0010'', [2, 9]),
      (''union_0011'', [2, 9]),
      (''union_0012'', [2, 9]),
      (''union_0013'', [2, 9]),
      (''union_0014'', [2, 9]),
      (''union_0015'', [2, 9]),
      (''union_0016'', [2, 9]),
      (''union_0017'', [2, 9]),
      (''union_0018'', [2, 9]),
      (''union_0019'', [2, 9]),
      (''union_0020'', [39, 48]),
      (''union_0021'', [2, 9]),
      (''union_0022'', [39, 48]),
      (''union_0023'', [2, 9]),
      (''union_0024'', [2, 9]),
      (''union_0025'', [2, 9]),
      (''union_0026'', [2, 9]),
      (''union_0027'', [2, 9]),
      (''union_0028'', [2, 9]),
      (''union_0029'', [2, 9]),
      (''union_0030'', [2, 9]),
      (''union_0031'', [2, 9]),
      (''union_0032'', [2, 9]),
      (''union_0033'', [2, 9]),
      (''union_0034'', [2, 9]),
      (''union_0035'', [2, 9]),
      (''union_0036'', [2, 47]),
      (''union_0037'', [49, 50]),
      (''union_0038'', [49, 50]),
      (''union_0039'', [49, 50]),
      (''union_0040'', [51, 50]),
      (''union_0041'', [52, 50]),
      (''union_0042'', [51, 50]),
      (''union_0043'', [49, 50]),
      (''union_0044'', [49, 50]),
      (''union_0045'', [49, 50]),
      (''union_0046'', [49, 50]),
      (''union_0047'', [49, 50]),
      (''union_0048'', [49, 50]),
      (''union_0049'', [52, 50]),
      (''union_0050'', [51, 50]),
      (''union_0051'', [52, 50]),
      (''union_0052'', [51, 50]),
      (''union_0053'', [49, 50]),
      (''union_0054'', [49, 50]),
      (''union_0055'', [49, 50]),
      (''union_0056'', [49, 50]),
      (''union_0057'', [52, 50]),
      (''union_0058'', [53, 50]),
      (''union_0059'', [52, 50]),
      (''union_0060'', [49, 50]),
      (''union_0061'', [54, 50]),
      (''union_0062'', [54, 50]),
      (''union_0063'', [55, 50]),
      (''union_0064'', [54, 50]),
      (''union_0065'', [49, 50]),
      (''union_0066'', [56, 50]),
      (''union_0067'', [49, 50]),
      (''union_0068'', [49, 50]),
      (''union_0069'', [53, 50]),
      (''union_0070'', [53, 50]),
      (''union_0071'', [49, 50]),
      (''union_0072'', [52, 50]),
      (''union_0073'', [49, 50]),
      (''union_0074'', [49, 50]),
      (''union_0075'', [49, 50]),
      (''union_0076'', [52, 50]),
      (''union_0077'', [52, 50]),
      (''union_0078'', [49, 50]),
      (''union_0079'', [53, 50]),
      (''union_0080'', [49, 50]),
      (''union_0081'', [52, 50]),
      (''union_0082'', [52, 50]),
      (''union_0083'', [52, 50]),
      (''union_0084'', [49, 50]),
      (''union_0085'', [52, 50]),
      (''union_0086'', [49, 50]),
      (''union_0087'', [49, 50]),
      (''union_0088'', [49, 50]),
      (''union_0089'', [49, 50]),
      (''union_0090'', [49, 50]),
      (''union_0091'', [49, 50]),
      (''union_0092'', [49, 50]),
      (''union_0093'', [49, 50]),
      (''union_0094'', [49, 50]),
      (''union_0095'', [49, 50]),
      (''union_0096'', [49, 50]),
      (''union_0097'', [53, 50]),
      (''union_0098'', [53, 50])]"

end
