(* ===== verification/Response_Validation.thy ===== *)
theory Response_Validation
  imports Response_Manifest
begin

text \<open>
  The response boundary of \<open>frontend/src/api/responseValidation.ts\<close>: every answer of the API is matched
  with an operation of the manifest, checked by the compiled validator of its status, stripped of what
  its schema does not declare, checked against the semantic contract of the operation and only then
  handed on.

  Two things are arguments of the model. \<open>V\<close> gives the compiled validators: \<open>V k v\<close> says whether
  validator number \<open>k\<close> accepts \<open>v\<close>. \<open>dp\<close> is \<open>Date.parse\<close>, which is implementation-defined outside the ISO
  format. The sanitizer follows \<open>$ref\<close>s and unions, so it could run forever on a cyclic schema; it takes
  fuel, and \<open>None\<close> means it has not finished. For the shipped manifest enough fuel is proved to exist.
  An object of a parsed body is a list of properties with different keys.
\<close>

section \<open>Errors and runs\<close>

definition CLIENT_CONTRACT_ERROR_CODE :: string where
  "CLIENT_CONTRACT_ERROR_CODE = ''client_contract_invalid_response''"

definition ClientContractError :: jsval where
  "ClientContractError =
     JObj ClientContractErrorClass
       [(''name'', JStr ''ClientContractError''), (''message'', JStr CLIENT_CONTRACT_ERROR_CODE),
        (''code'', JStr CLIENT_CONTRACT_ERROR_CODE)]"

definition isClientContractError :: "jsval \<Rightarrow> bool" where
  "isClientContractError err =
     (js_instanceof err ClientContractErrorClass \<or>
      (typeof_object err \<and> err \<noteq> JNull \<and> js_get err ''code'' = JStr CLIENT_CONTRACT_ERROR_CODE))"

definition failContract :: "'a outcome" where
  "failContract = Inl ClientContractError"

type_synonym 'a run = "'a outcome option"

definition fail_if :: "bool \<Rightarrow> unit outcome" where
  "fail_if b = (if b then failContract else Inr ())"

definition and_then :: "unit outcome \<Rightarrow> unit outcome \<Rightarrow> unit outcome" where
  "and_then a b = (case a of Inl e \<Rightarrow> Inl e | Inr _ \<Rightarrow> b)"

definition run_bind :: "'a run \<Rightarrow> ('a \<Rightarrow> 'b run) \<Rightarrow> 'b run" where
  "run_bind m f = (case m of None \<Rightarrow> None | Some (Inl e) \<Rightarrow> Some (Inl e) | Some (Inr v) \<Rightarrow> f v)"

section \<open>Numbers, arrays and timestamps\<close>

text \<open>
  What a comparison makes of a value. The schema has been checked when the semantic contract runs, so
  the values compared are numbers, \<open>null\<close> or absent; other values count as \<open>NaN\<close>.
\<close>

fun js_number :: "jsval \<Rightarrow> jsnum" where
  "js_number (JNum n) = n"
| "js_number JNull = Fin 0"
| "js_number (JBool b) = Fin (of_bool b)"
| "js_number v = NaN"

fun js_less :: "jsnum \<Rightarrow> jsnum \<Rightarrow> bool" where
  "js_less NaN m = False"
| "js_less n NaN = False"
| "js_less (Fin a) (Fin b) = (a < b)"
| "js_less NegInf m = (m \<noteq> NegInf)"
| "js_less (Fin a) m = (m = PosInf)"
| "js_less PosInf m = False"

definition js_le :: "jsnum \<Rightarrow> jsnum \<Rightarrow> bool" where
  "js_le a b = (a \<noteq> NaN \<and> b \<noteq> NaN \<and> (a = b \<or> js_less a b))"

definition below :: "jsval \<Rightarrow> rat \<Rightarrow> bool" where
  "below v r = js_less (js_number v) (Fin r)"

fun is_finite :: "jsval \<Rightarrow> bool" where
  "is_finite (JNum (Fin r)) = True"
| "is_finite v = False"

fun js_elems :: "jsval \<Rightarrow> jsval list" where
  "js_elems (JArr xs) = xs"
| "js_elems v = []"

fun obj_entries :: "jsval \<Rightarrow> (string \<times> jsval) list" where
  "obj_entries (JObj c fs) = fs"
| "obj_entries v = []"

definition js_length :: "jsval \<Rightarrow> jsval" where
  "js_length v = (case v of JArr xs \<Rightarrow> jint (int (length xs)) | _ \<Rightarrow> JUndefined)"

definition is_digit :: "char \<Rightarrow> bool" where
  "is_digit c = (of_char c \<in> {48 .. 57 :: nat})"

text \<open>\<open>/(?:Z|[+-]\d{2}:\d{2})$/\<close> and \<open>Date.parse\<close>.\<close>

definition timestampPattern :: "string \<Rightarrow> bool" where
  "timestampPattern s =
     (case rev s of
        CHR ''Z'' # _ \<Rightarrow> True
      | d4 # d3 # c # d2 # d1 # sign # _ \<Rightarrow>
          is_digit d4 \<and> is_digit d3 \<and> c = CHR '':'' \<and> is_digit d2 \<and> is_digit d1 \<and>
          sign \<in> {CHR ''+'', CHR ''-''}
      | _ \<Rightarrow> False)"

definition isValidTimestamp :: "(string \<Rightarrow> jsnum) \<Rightarrow> jsval \<Rightarrow> bool" where
  "isValidTimestamp dp v =
     (case v of JStr s \<Rightarrow> timestampPattern s \<and> dp s \<noteq> NaN | _ \<Rightarrow> False)"

definition requireTimestamps :: "(string \<Rightarrow> jsnum) \<Rightarrow> jsval list \<Rightarrow> unit outcome" where
  "requireTimestamps dp ts = fail_if (list_ex (\<lambda>t. \<not> isValidTimestamp dp t) ts)"

definition requireOptionalCursor :: "jsval \<Rightarrow> unit outcome" where
  "requireOptionalCursor cursor = fail_if (cursor = JStr [])"

fun all_checks :: "unit outcome list \<Rightarrow> unit outcome" where
  "all_checks [] = Inr ()"
| "all_checks (c # cs) = and_then c (all_checks cs)"

section \<open>Semantic contracts\<close>

definition validateSessionList :: "(string \<Rightarrow> jsnum) \<Rightarrow> jsval \<Rightarrow> unit outcome" where
  "validateSessionList dp r =
     all_checks
       ([fail_if (below (js_get r ''total'') 0), requireOptionalCursor (js_get r ''next_cursor'')] @
        map (\<lambda>s. requireTimestamps dp [js_get s ''created_at'', js_get s ''last_activity_at''])
          (js_elems (js_get r ''items'')))"

definition validateSessionDetail :: "(string \<Rightarrow> jsnum) \<Rightarrow> jsval \<Rightarrow> unit outcome" where
  "validateSessionDetail dp r =
     all_checks
       [fail_if (below (js_get r ''attempts_total'') 0),
        requireOptionalCursor (js_get r ''attempts_next_cursor''),
        requireTimestamps dp [js_get r ''created_at'', js_get r ''last_activity_at''],
        requireTimestamps dp (map (\<lambda>a. js_get a ''accepted_at'') (js_elems (js_get r ''attempts'')))]"

definition validateSessionSummary :: "(string \<Rightarrow> jsnum) \<Rightarrow> jsval \<Rightarrow> unit outcome" where
  "validateSessionSummary dp r = requireTimestamps dp [js_get r ''created_at'', js_get r ''last_activity_at'']"

definition validateHistoryList :: "(string \<Rightarrow> jsnum) \<Rightarrow> jsval \<Rightarrow> unit outcome" where
  "validateHistoryList dp r =
     all_checks
       [fail_if (\<not> nullish (js_get r ''total'') \<and> below (js_get r ''total'') 0),
        requireOptionalCursor (js_get r ''next_cursor''),
        requireTimestamps dp (map (\<lambda>e. js_get e ''accepted_at'') (js_elems (js_get r ''items'')))]"

definition validateAcceptedQuery :: "(string \<Rightarrow> jsnum) \<Rightarrow> jsval \<Rightarrow> unit outcome" where
  "validateAcceptedQuery dp r = requireTimestamps dp [js_get r ''accepted_at'']"

definition validateQueryResult :: "jsval \<Rightarrow> unit outcome" where
  "validateQueryResult r =
     all_checks
       [fail_if (below (js_get r ''attempt_number'') 1 \<or>
                 js_get r ''row_count'' \<noteq> js_length (js_get r ''rows'')),
        fail_if (list_ex (\<lambda>row. js_length row \<noteq> js_length (js_get r ''columns''))
                   (js_elems (js_get r ''rows'')))]"

definition validateQuotaStatus :: "jsval \<Rightarrow> unit outcome" where
  "validateQuotaStatus r =
     all_checks
       ([fail_if (below (js_get r ''total'') 0), requireOptionalCursor (js_get r ''next_cursor'')] @
        concat (map (\<lambda>roleStatus.
          concat (map (\<lambda>(k, d).
            [fail_if (below (js_get d ''used'') 0 \<or>
                      (\<not> nullish (js_get d ''limit'') \<and> below (js_get d ''limit'') 0)),
             fail_if (\<not> nullish (js_get d ''remaining'') \<and> below (js_get d ''remaining'') 0)])
            (obj_entries (js_get roleStatus ''dimensions''))))
          (js_elems (js_get r ''status''))))"

definition validateAuditPagination :: "jsval \<Rightarrow> unit outcome" where
  "validateAuditPagination r =
     (let p = js_get r ''pagination''
      in fail_if (below (js_get p ''page'') 1 \<or> below (js_get p ''page_size'') 1 \<or>
                  below (js_get p ''total_entries'') 0 \<or> below (js_get p ''total_pages'') 0))"

definition validateAuditRetention :: "(string \<Rightarrow> jsnum) \<Rightarrow> jsval \<Rightarrow> unit outcome" where
  "validateAuditRetention dp r =
     all_checks
       [fail_if (below (js_get r ''retention_months'') 0),
        fail_if (truthy (js_get r ''last_purge_at'') \<and> \<not> isValidTimestamp dp (js_get r ''last_purge_at'')),
        fail_if (\<not> nullish (js_get r ''purged_count'') \<and> below (js_get r ''purged_count'') 0)]"

definition validateDetectionThresholds :: "jsval \<Rightarrow> unit outcome" where
  "validateDetectionThresholds r =
     (let block = js_get r ''block_confidence''; flag = js_get r ''flag_confidence''
      in all_checks
           [fail_if (\<not> is_finite block \<or> \<not> is_finite flag),
            fail_if (below block 0 \<or> js_less (Fin 1) (js_number block) \<or> below flag 0 \<or>
                     js_less (Fin 1) (js_number flag) \<or> js_le (js_number block) (js_number flag))])"

definition validateSessionOperation :: "(string \<Rightarrow> jsnum) \<Rightarrow> string \<Rightarrow> jsval \<Rightarrow> unit outcome" where
  "validateSessionOperation dp oid r =
     all_checks
       [if oid = ''getSessions'' then validateSessionList dp r else Inr (),
        if oid = ''getSession'' then validateSessionDetail dp r else Inr (),
        if oid \<in> set [''createSession'', ''updateSessionConnection''] then validateSessionSummary dp r
        else Inr ()]"

definition validateQueryOperation :: "(string \<Rightarrow> jsnum) \<Rightarrow> string \<Rightarrow> jsval \<Rightarrow> unit outcome" where
  "validateQueryOperation dp oid r =
     all_checks
       [if oid = ''listHistory'' then validateHistoryList dp r else Inr (),
        if oid \<in> set [''acceptQuery'', ''getHistoryEntry''] then validateAcceptedQuery dp r else Inr (),
        if oid \<in> set [''submitQuestion'', ''rejectQuery'', ''regenerateQuery''] \<and>
           js_get r ''kind'' \<noteq> JStr ''refine''
        then validateQueryResult r else Inr ()]"

definition validateSemanticContract ::
    "(string \<Rightarrow> jsnum) \<Rightarrow> string \<Rightarrow> nat \<Rightarrow> jsval \<Rightarrow> unit outcome" where
  "validateSemanticContract dp oid status r =
     (if 400 \<le> status then Inr ()
      else all_checks
       [validateSessionOperation dp oid r,
        validateQueryOperation dp oid r,
        if oid = ''getQuotaStatus'' then validateQuotaStatus r else Inr (),
        if oid = ''searchAuditEntries'' then validateAuditPagination r else Inr (),
        if oid = ''getAuditRetention'' then validateAuditRetention dp r else Inr (),
        if oid \<in> set [''getDetectionConfig'', ''updateDetectionConfig'']
        then validateDetectionThresholds r else Inr ()])"

section \<open>The sanitizer\<close>

definition UNION_VALIDATOR_ID :: string where
  "UNION_VALIDATOR_ID = ''x-querycraft-union-validator''"

definition component_of :: "string \<Rightarrow> jsval option" where
  "component_of reference =
     (let componentName = last (split_on (CHR ''/'') reference)
      in if componentName = [] then None else map_of responseComponentSchemas componentName)"

primrec resolvedSchema :: "nat \<Rightarrow> jsval \<Rightarrow> jsval option" where
  "resolvedSchema 0 schema = None"
| "resolvedSchema (Suc n) schema =
     (case js_get schema ''$ref'' of
        JStr reference \<Rightarrow>
          (case component_of reference of
             Some componentSchema \<Rightarrow> resolvedSchema n componentSchema
           | None \<Rightarrow> Some schema)
      | _ \<Rightarrow> Some schema)"

definition matchingProperties :: "jsval \<Rightarrow> jsval \<Rightarrow> nat" where
  "matchingProperties resolved body =
     length (filter (\<lambda>k. k \<in> set (map fst (obj_entries body)))
       (map fst (obj_entries (js_get resolved ''properties''))))"

fun resolve_all :: "nat \<Rightarrow> jsval list \<Rightarrow> (jsval \<times> jsval) list option" where
  "resolve_all n [] = Some []"
| "resolve_all n (a # as) =
     (case resolvedSchema n a of
        None \<Rightarrow> None
      | Some r \<Rightarrow> map_option (Cons (a, r)) (resolve_all n as))"

definition union_alternatives :: "jsval \<Rightarrow> jsval" where
  "union_alternatives schema = js_nullish (js_get schema ''anyOf'') (js_get schema ''oneOf'')"

text \<open>The comparison function of the sort is called, and alternatives resolved, from two on.\<close>

definition best_match :: "nat \<Rightarrow> jsval list \<Rightarrow> jsval \<Rightarrow> jsval option run" where
  "best_match n matching body =
     (case matching of
        [] \<Rightarrow> Some (Inr None)
      | [a] \<Rightarrow> Some (Inr (Some a))
      | _ \<Rightarrow>
          (case resolve_all n matching of
             None \<Rightarrow> None
           | Some ars \<Rightarrow>
               Some (Inr (Some (fst (hd (sort_key (\<lambda>(a, r). - int (matchingProperties r body)) ars)))))))"

definition matchingUnionSchema ::
    "nat \<Rightarrow> (nat \<Rightarrow> jsval \<Rightarrow> bool) \<Rightarrow> jsval \<Rightarrow> jsval \<Rightarrow> jsval option run" where
  "matchingUnionSchema n V schema body =
     (case union_alternatives schema of
        JArr alternatives \<Rightarrow>
          (case js_get schema UNION_VALIDATOR_ID of
             JStr unionId \<Rightarrow>
               (case map_of unionAlternativeValidatorsById unionId of
                  None \<Rightarrow> Some failContract
                | Some validators \<Rightarrow>
                    if length validators \<noteq> length alternatives then Some failContract
                    else best_match n
                           (map fst (filter (\<lambda>(a, k). V k body) (zip alternatives validators))) body)
           | _ \<Rightarrow> Some failContract)
      | _ \<Rightarrow> Some (Inr None))"

text \<open>
  \<open>sanitized[key] = v\<close> on an object literal: an assignment to \<open>__proto__\<close> makes no own property.
\<close>

definition assign :: "(string \<times> jsval) list \<Rightarrow> string \<Rightarrow> jsval \<Rightarrow> (string \<times> jsval) list" where
  "assign fs k v =
     (if k = ''__proto__'' then fs
      else if k \<in> fst ` set fs then map (\<lambda>(l, w). if l = k then (l, v) else (l, w)) fs
      else fs @ [(k, v)])"

fun sanitize_list :: "(jsval \<Rightarrow> jsval \<Rightarrow> jsval run) \<Rightarrow> jsval \<Rightarrow> jsval list \<Rightarrow> jsval list run" where
  "sanitize_list f s [] = Some (Inr [])"
| "sanitize_list f s (x # xs) =
     run_bind (f s x) (\<lambda>y. run_bind (sanitize_list f s xs) (\<lambda>ys. Some (Inr (y # ys))))"

fun sanitize_entries ::
    "(jsval \<Rightarrow> jsval \<Rightarrow> jsval run) \<Rightarrow> (string \<times> jsval \<times> jsval) list \<Rightarrow> (string \<times> jsval) list \<Rightarrow>
     (string \<times> jsval) list run" where
  "sanitize_entries f [] acc = Some (Inr acc)"
| "sanitize_entries f ((k, s, v) # es) acc =
     run_bind (f s v) (\<lambda>w. sanitize_entries f es (assign acc k w))"

definition sanitizeArray :: "(jsval \<Rightarrow> jsval \<Rightarrow> jsval run) \<Rightarrow> jsval \<Rightarrow> jsval list \<Rightarrow> jsval run" where
  "sanitizeArray f schema xs =
     (let items = js_get schema ''items''
      in if \<not> truthy items \<or> \<not> typeof_object items then Some (Inr (JArr xs))
         else run_bind (sanitize_list f items xs) (\<lambda>ys. Some (Inr (JArr ys))))"

definition declared_entries :: "jsval \<Rightarrow> (string \<times> jsval) list \<Rightarrow> (string \<times> jsval \<times> jsval) list" where
  "declared_entries properties fs =
     concat (map (\<lambda>(k, s). case map_of fs k of None \<Rightarrow> [] | Some v \<Rightarrow> [(k, s, v)]) (obj_entries properties))"

definition additional_entries ::
    "jsval \<Rightarrow> jsval \<Rightarrow> (string \<times> jsval) list \<Rightarrow> (string \<times> jsval \<times> jsval) list" where
  "additional_entries properties additional fs =
     map (\<lambda>(k, v). (k, additional, v)) (filter (\<lambda>(k, v). k \<notin> fst ` set (obj_entries properties)) fs)"

definition spread_over :: "(string \<times> jsval) list \<Rightarrow> (string \<times> jsval) list \<Rightarrow> (string \<times> jsval) list" where
  "spread_over fs gs =
     map (\<lambda>(k, v). (k, case map_of gs k of Some w \<Rightarrow> w | None \<Rightarrow> v)) fs @
     filter (\<lambda>(k, v). k \<notin> fst ` set fs) gs"

definition sanitizeObject ::
    "(jsval \<Rightarrow> jsval \<Rightarrow> jsval run) \<Rightarrow> jsval \<Rightarrow> jsclass \<Rightarrow> (string \<times> jsval) list \<Rightarrow> jsval run" where
  "sanitizeObject f schema c fs =
     (let properties = js_get schema ''properties''
      in if \<not> truthy properties \<or> \<not> typeof_object properties then Some (Inr (JObj c fs))
         else
           run_bind (sanitize_entries f (declared_entries properties fs) [])
             (\<lambda>sanitized.
                let additional = js_get schema ''additionalProperties''
                in if additional = JBool True then Some (Inr (plain (spread_over fs sanitized)))
                   else if truthy additional \<and> typeof_object additional
                   then run_bind (sanitize_entries f (additional_entries properties additional fs) sanitized)
                          (\<lambda>gs. Some (Inr (plain gs)))
                   else Some (Inr (plain sanitized))))"

primrec sanitizeResponse ::
    "nat \<Rightarrow> (nat \<Rightarrow> jsval \<Rightarrow> bool) \<Rightarrow> jsval \<Rightarrow> jsval \<Rightarrow> jsval run" where
  "sanitizeResponse 0 V schema body = None"
| "sanitizeResponse (Suc n) V schema body =
     (case resolvedSchema (Suc n) schema of
        None \<Rightarrow> None
      | Some resolved \<Rightarrow>
          run_bind (matchingUnionSchema (Suc n) V resolved body)
            (\<lambda>unionSchema.
               case unionSchema of
                 Some u \<Rightarrow> sanitizeResponse n V u body
               | None \<Rightarrow>
                   (case body of
                      JArr xs \<Rightarrow> sanitizeArray (sanitizeResponse n V) resolved xs
                    | JObj c fs \<Rightarrow> sanitizeObject (sanitizeResponse n V) resolved c fs
                    | _ \<Rightarrow> Some (Inr body))))"

section \<open>Operations\<close>

definition manifestById :: "string \<Rightarrow> ManifestOperation option" where
  "manifestById oid = map_of (rev (map (\<lambda>mop. (operationId mop, mop)) responseOperationManifest)) oid"

definition responseContract :: "ManifestOperation \<Rightarrow> nat \<Rightarrow> response_contract option" where
  "responseContract op status =
     find_first (\<lambda>r. response_status r = nat_to_string status) (responses op)"

definition operationValidator :: "ManifestOperation \<Rightarrow> nat \<Rightarrow> nat outcome" where
  "operationValidator op status =
     (case map_of responseValidatorByOperationStatus (operationId op @ '':'' @ nat_to_string status) of
        None \<Rightarrow> failContract
      | Some k \<Rightarrow> Inr k)"

definition validateOperationResponse ::
    "nat \<Rightarrow> (nat \<Rightarrow> jsval \<Rightarrow> bool) \<Rightarrow> (string \<Rightarrow> jsnum) \<Rightarrow> string \<Rightarrow> nat \<Rightarrow> jsval \<Rightarrow> jsval run" where
  "validateOperationResponse n V dp oid status body =
     (case manifestById oid of
        None \<Rightarrow> Some failContract
      | Some op \<Rightarrow>
          (case operationValidator op status of
             Inl e \<Rightarrow> Some (Inl e)
           | Inr k \<Rightarrow>
               if \<not> V k body then Some failContract
               else (case responseContract op status of
                       None \<Rightarrow> Some failContract
                     | Some contract \<Rightarrow>
                         if \<not> truthy (response_schema contract) then Some failContract
                         else run_bind (sanitizeResponse n V (response_schema contract) body)
                                (\<lambda>validated.
                                   case validateSemanticContract dp oid status validated of
                                     Inl e \<Rightarrow> Some (Inl e)
                                   | Inr _ \<Rightarrow> Some (Inr validated)))))"

section \<open>The fetch boundary\<close>

record http_request =
  req_method :: string
  req_pathname :: string

text \<open>The body of a response is what \<open>json()\<close> makes of its text; \<open>None\<close> when that is not JSON.\<close>

record http_response =
  res_status :: nat
  res_statusText :: string
  res_headers :: "(string \<times> string) list"
  res_body :: "jsval option"

definition pathMatches :: "string \<Rightarrow> string \<Rightarrow> bool" where
  "pathMatches template pathname =
     (let expected = split_on (CHR ''/'') template; actual = split_on (CHR ''/'') pathname
      in length expected = length actual \<and>
         list_all2 (\<lambda>segment a. (starts_with segment ''{'' \<and> ends_with segment ''}'') \<or> segment = a)
           expected actual)"

definition path_parameters :: "string \<Rightarrow> nat" where
  "path_parameters template =
     length (filter (\<lambda>segment. starts_with segment ''{'') (split_on (CHR ''/'') template))"

definition requestOperation :: "http_request \<Rightarrow> ManifestOperation option" where
  "requestOperation req =
     (case sort_key (\<lambda>mop. path_parameters (op_path mop))
             (filter (\<lambda>mop. op_method mop = req_method req \<and> pathMatches (op_path mop) (req_pathname req))
                responseOperationManifest) of
        [] \<Rightarrow> None
      | mop # _ \<Rightarrow> Some mop)"

definition response_ok :: "http_response \<Rightarrow> bool" where
  "response_ok r = (200 \<le> res_status r \<and> res_status r \<le> 299)"

definition shouldValidateResponse :: "ManifestOperation \<Rightarrow> http_response \<Rightarrow> bool" where
  "shouldValidateResponse op r =
     (if classification op = ''consumed_json'' then True
      else \<not> response_ok r \<and> classification op \<noteq> ''browser_redirect'')"

definition sanitizedJsonResponse :: "http_response \<Rightarrow> jsval \<Rightarrow> http_response" where
  "sanitizedJsonResponse r validated =
     \<lparr>res_status = res_status r, res_statusText = res_statusText r,
      res_headers = filter (\<lambda>(k, v). k \<notin> set [''content-encoding'', ''content-length'', ''transfer-encoding''])
                      (res_headers r),
      res_body = Some validated\<rparr>"

definition has_json_content_type :: "http_response \<Rightarrow> bool" where
  "has_json_content_type r =
     (case map_of (res_headers r) ''content-type'' of
        None \<Rightarrow> False
      | Some t \<Rightarrow> str_includes t ''application/json'')"

definition validateFetchResponse ::
    "nat \<Rightarrow> (nat \<Rightarrow> jsval \<Rightarrow> bool) \<Rightarrow> (string \<Rightarrow> jsnum) \<Rightarrow> http_request \<Rightarrow> http_response \<Rightarrow>
     http_response run" where
  "validateFetchResponse n V dp req r =
     (case requestOperation req of
        None \<Rightarrow> Some (Inr r)
      | Some op \<Rightarrow>
          if \<not> shouldValidateResponse op r then Some (Inr r)
          else if responseContract op (res_status r) = None \<or> \<not> has_json_content_type r
          then Some failContract
          else (case res_body r of
                  None \<Rightarrow> Some failContract
                | Some body \<Rightarrow>
                    run_bind (validateOperationResponse n V dp (operationId op) (res_status r) body)
                      (\<lambda>validated. Some (Inr (sanitizedJsonResponse r validated)))))"

definition validatedApiFetch ::
    "nat \<Rightarrow> (nat \<Rightarrow> jsval \<Rightarrow> bool) \<Rightarrow> (string \<Rightarrow> jsnum) \<Rightarrow> http_request \<Rightarrow> http_response outcome \<Rightarrow>
     http_response run" where
  "validatedApiFetch n V dp req fetched =
     (case fetched of Inl e \<Rightarrow> Some (Inl e) | Inr r \<Rightarrow> validateFetchResponse n V dp req r)"

section \<open>What the manifest promises\<close>

text \<open>
  A check of every node of every schema: a component is neither a reference nor a union; a union names
  its validators, has as many of them as alternatives, has no properties or items of its own, and no
  alternative of it is again a union; properties have different names, none of them \<open>__proto__\<close>.
\<close>

definition is_ref :: "jsval \<Rightarrow> bool" where
  "is_ref s = typeof_string (js_get s ''$ref'')"

fun is_array :: "jsval \<Rightarrow> bool" where
  "is_array (JArr xs) = True"
| "is_array v = False"

definition is_union :: "jsval \<Rightarrow> bool" where
  "is_union s = is_array (union_alternatives s)"

definition direct_schema :: "jsval \<Rightarrow> bool" where
  "direct_schema s = (\<not> is_ref s \<and> \<not> is_union s)"

definition union_entry :: "jsval \<Rightarrow> jsval \<times> nat" where
  "union_entry s = (js_get s UNION_VALIDATOR_ID, length (js_elems (union_alternatives s)))"

definition union_ok :: "jsval \<Rightarrow> bool" where
  "union_ok s =
     (\<not> is_ref s \<and> list_all (\<lambda>a. \<not> is_union a) (js_elems (union_alternatives s)) \<and>
      js_get s ''properties'' = JUndefined \<and> js_get s ''items'' = JUndefined)"

definition union_known :: "jsval \<Rightarrow> bool" where
  "union_known s =
     (union_entry s \<in> set (map (\<lambda>(i, ks). (JStr i, length ks)) unionAlternativeValidatorsById))"

definition props_ok :: "jsval \<Rightarrow> bool" where
  "props_ok s =
     (case js_get s ''properties'' of
        JObj c fs \<Rightarrow> distinct (map fst fs) \<and> ''__proto__'' \<notin> set (map fst fs)
      | _ \<Rightarrow> True)"

definition node_ok :: "jsval \<Rightarrow> bool" where
  "node_ok s = ((is_union s \<longrightarrow> union_ok s \<and> union_known s) \<and> props_ok s)"

fun all_nodes :: "(jsval \<Rightarrow> bool) \<Rightarrow> jsval \<Rightarrow> bool" where
  "all_nodes P (JArr xs) = (P (JArr xs) \<and> list_all (all_nodes P) xs)"
| "all_nodes P (JObj c fs) = (P (JObj c fs) \<and> list_all (\<lambda>f. all_nodes P (snd f)) fs)"
| "all_nodes P v = P v"

fun union_nodes :: "jsval \<Rightarrow> jsval list" where
  "union_nodes (JArr xs) = concat (map union_nodes xs)"
| "union_nodes (JObj c fs) =
     (if is_union (JObj c fs) then [JObj c fs] else []) @ concat (map (\<lambda>f. union_nodes (snd f)) fs)"
| "union_nodes v = []"

definition manifest_schemas :: "jsval list" where
  "manifest_schemas =
     concat (map (\<lambda>mop. map response_schema (responses mop)) responseOperationManifest) @
     map snd responseComponentSchemas"

lemma components_direct: "list_all (\<lambda>s. direct_schema (snd s)) responseComponentSchemas"
  by code_simp

lemma union_table_distinct: "distinct (map fst unionAlternativeValidatorsById)"
  by code_simp

lemma manifest_unions:
  "map union_entry (concat (map union_nodes manifest_schemas)) =
     map (\<lambda>(i, ks). (JStr i, length ks)) unionAlternativeValidatorsById"
  by code_simp

lemma manifest_union_ok: "list_all union_ok (concat (map union_nodes manifest_schemas))"
  by code_simp

lemma component_props_ok: "list_all (all_nodes props_ok) (map snd responseComponentSchemas)"
  by code_simp

lemma operation_props_ok:
  "list_all (\<lambda>mop. list_all (\<lambda>r. all_nodes props_ok (response_schema r)) (responses mop))
     responseOperationManifest"
  by code_simp

lemma validator_keys:
  "concat (map (\<lambda>mop. map (\<lambda>r. operationId mop @ '':'' @ response_status r) (responses mop))
     responseOperationManifest) = map fst responseValidatorByOperationStatus"
  by code_simp

lemma operation_ids_distinct: "distinct (map operationId responseOperationManifest)"
  by code_simp

lemma all_nodes_here: "all_nodes P v \<Longrightarrow> P v"
  by (cases v) auto

lemma all_nodes_conj: "all_nodes (\<lambda>v. P v \<and> Q v) v \<longleftrightarrow> all_nodes P v \<and> all_nodes Q v"
  by (induction P v rule: all_nodes.induct) (auto simp: list_all_iff)

lemma not_union_simps [simp]:
  "\<not> is_union (JArr xs)" "\<not> is_union JUndefined" "\<not> is_union JNull" "\<not> is_union (JBool b)"
  "\<not> is_union (JNum m)" "\<not> is_union (JStr t)"
  by (simp_all add: is_union_def union_alternatives_def js_nullish_def)

lemma all_nodes_unions: "all_nodes (\<lambda>v. is_union v \<longrightarrow> Q v) v \<longleftrightarrow> (\<forall>u \<in> set (union_nodes v). Q u)"
  by (induction v rule: union_nodes.induct) (auto simp: list_all_iff)

lemma manifest_node_ok: "list_all (all_nodes node_ok) manifest_schemas"
proof -
  have "\<forall>s \<in> set manifest_schemas. \<forall>u \<in> set (union_nodes s). union_ok u \<and> union_known u"
  proof (intro ballI conjI)
    fix s u
    assume "s \<in> set manifest_schemas" "u \<in> set (union_nodes s)"
    then have u: "u \<in> set (concat (map union_nodes manifest_schemas))" by auto
    then show "union_ok u" using manifest_union_ok by (simp only: list_all_iff)
    from u have "union_entry u \<in> set (map union_entry (concat (map union_nodes manifest_schemas)))"
      by simp
    then show "union_known u" unfolding manifest_unions union_known_def .
  qed
  moreover have "\<forall>s \<in> set manifest_schemas. all_nodes props_ok s"
    using component_props_ok operation_props_ok
    by (auto simp: manifest_schemas_def list_all_iff)
  moreover have eq: "node_ok = (\<lambda>s. (is_union s \<longrightarrow> union_ok s \<and> union_known s) \<and> props_ok s)"
    by (rule ext) (simp add: node_ok_def)
  ultimately show ?thesis
    unfolding eq list_all_iff all_nodes_conj all_nodes_unions by blast
qed

lemma component_node_ok:
  assumes "component_of r = Some c"
  shows "all_nodes node_ok c \<and> direct_schema c"
proof -
  from assms obtain k where k: "(k, c) \<in> set responseComponentSchemas"
    by (auto simp: component_of_def Let_def split: if_splits dest!: map_of_SomeD)
  then have "c \<in> set manifest_schemas" by (force simp: manifest_schemas_def)
  with manifest_node_ok have "all_nodes node_ok c" by (simp add: list_all_iff)
  moreover have "direct_schema c" using components_direct k by (auto simp: list_all_iff)
  ultimately show ?thesis ..
qed

section \<open>The sanitizer terminates\<close>

definition resolve_step :: "jsval \<Rightarrow> jsval" where
  "resolve_step s =
     (case js_get s ''$ref'' of
        JStr r \<Rightarrow> (case component_of r of Some c \<Rightarrow> c | None \<Rightarrow> s)
      | _ \<Rightarrow> s)"

lemma resolved_direct: "\<not> is_ref c \<Longrightarrow> resolvedSchema (Suc n) c = Some c"
  by (auto simp: is_ref_def split: jsval.splits)

lemma resolvedSchema_step: "resolvedSchema (Suc (Suc n)) s = Some (resolve_step s)"
proof (cases "js_get s ''$ref''")
  case (JStr r)
  show ?thesis
  proof (cases "component_of r")
    case (Some c)
    with component_node_ok [OF Some] have "resolvedSchema (Suc n) c = Some c"
      by (intro resolved_direct) (simp add: direct_schema_def)
    with JStr Some show ?thesis by (simp add: resolve_step_def)
  qed (use JStr in \<open>simp add: resolve_step_def\<close>)
qed (simp_all add: resolve_step_def)

lemma resolvedSchema_enough:
  assumes "2 \<le> n"
  shows "resolvedSchema n s = Some (resolve_step s)"
proof -
  from assms obtain m where "n = Suc (Suc m)" by (metis Suc_le_D numeral_2_eq_2 Suc_le_mono)
  then show ?thesis using resolvedSchema_step by simp
qed

lemma resolve_step_ok: "all_nodes node_ok s \<Longrightarrow> all_nodes node_ok (resolve_step s)"
  by (auto simp: resolve_step_def dest: component_node_ok split: jsval.splits option.splits)

lemma resolve_step_union: "\<not> is_union s \<Longrightarrow> \<not> is_union (resolve_step s)"
  by (auto simp: resolve_step_def direct_schema_def dest: component_node_ok split: jsval.splits option.splits)

lemma resolve_all_enough: "2 \<le> n \<Longrightarrow> resolve_all n as = Some (map (\<lambda>a. (a, resolve_step a)) as)"
  by (induction as) (simp_all add: resolvedSchema_enough)

lemma all_nodes_get:
  assumes "all_nodes node_ok s"
  shows "all_nodes node_ok (js_get s k)"
proof -
  have u: "node_ok JUndefined" by (simp add: node_ok_def props_ok_def)
  show ?thesis
    using assms u by (cases s) (auto simp: list_all_iff dest!: map_of_SomeD split: option.splits)
qed

lemma all_nodes_elems: "all_nodes P s \<Longrightarrow> x \<in> set (js_elems s) \<Longrightarrow> all_nodes P x"
  by (cases s) (auto simp: list_all_iff)

lemma all_nodes_entries: "all_nodes P s \<Longrightarrow> (k, x) \<in> set (obj_entries s) \<Longrightarrow> all_nodes P x"
  by (cases s) (auto simp: list_all_iff)

lemma union_alternatives_ok: "all_nodes node_ok s \<Longrightarrow> all_nodes node_ok (union_alternatives s)"
  by (simp add: union_alternatives_def js_nullish_def all_nodes_get)

lemma best_match_enough:
  assumes "2 \<le> n"
  shows "\<exists>r. best_match n as body = Some (Inr r) \<and> (r = None \<longleftrightarrow> as = []) \<and> (\<forall>u. r = Some u \<longrightarrow> u \<in> set as)"
proof (cases as rule: remdups_adj.cases)
  case (3 x y zs)
  let ?l = "sort_key (\<lambda>(a, r). - int (matchingProperties r body)) (map (\<lambda>a. (a, resolve_step a)) as)"
  have "?l \<noteq> []" using 3 by (metis length_0_conv length_map length_sort list.distinct(1))
  then have "hd ?l \<in> set ?l" by (rule hd_in_set)
  then have "fst (hd ?l) \<in> set as" by auto
  moreover have "best_match n as body = Some (Inr (Some (fst (hd ?l))))"
    using resolve_all_enough [OF assms, of as] 3
    by (simp add: best_match_def del: resolve_all.simps sort_key_simps)
  ultimately show ?thesis using 3 by blast
qed (simp_all add: best_match_def)

lemma matching_enough:
  assumes "2 \<le> n" and "node_ok s"
  shows "\<exists>r. matchingUnionSchema n V s body = Some (Inr r) \<and>
    (\<forall>u. r = Some u \<longrightarrow> is_union s \<and> u \<in> set (js_elems (union_alternatives s))) \<and>
    (r = None \<longrightarrow> is_union s \<longrightarrow>
       (\<exists>i ks. js_get s UNION_VALIDATOR_ID = JStr i \<and> map_of unionAlternativeValidatorsById i = Some ks \<and>
          (\<forall>k \<in> set ks. \<not> V k body)))"
proof (cases "union_alternatives s")
  case (JArr as)
  then have u: "is_union s" by (simp add: is_union_def)
  with assms(2) have "union_known s" by (simp add: node_ok_def)
  with JArr obtain i ks where i: "js_get s UNION_VALIDATOR_ID = JStr i" and len: "length ks = length as"
      and "(i, ks) \<in> set unionAlternativeValidatorsById"
    by (auto simp: union_known_def union_entry_def)
  then have ks: "map_of unionAlternativeValidatorsById i = Some ks"
    using union_table_distinct by simp
  let ?m = "map fst (filter (\<lambda>(a, k). V k body) (zip as ks))"
  obtain r where r: "best_match n ?m body = Some (Inr r)" "r = None \<longleftrightarrow> ?m = []"
      "\<forall>u. r = Some u \<longrightarrow> u \<in> set ?m"
    using best_match_enough [OF assms(1), of ?m body] by blast
  have none: "\<not> V k body" if "?m = []" "k \<in> set ks" for k
  proof -
    from that(2) len obtain j where "j < length as" "ks ! j = k" by (auto simp: in_set_conv_nth)
    then have "(as ! j, k) \<in> set (zip as ks)" using len by (auto simp: set_zip)
    with that(1) show ?thesis by (auto simp: filter_empty_conv)
  qed
  have sub: "set ?m \<subseteq> set as" by (auto dest: set_zip_leftD)
  have res: "matchingUnionSchema n V s body = Some (Inr r)"
    using r(1) by (simp add: matchingUnionSchema_def JArr i ks len)
  show ?thesis
  proof (cases r)
    case None
    with r(2) none have "\<forall>k \<in> set ks. \<not> V k body" by blast
    with None res i ks show ?thesis by auto
  next
    case (Some v)
    with r(3) sub have "v \<in> set as" by blast
    with Some res u JArr show ?thesis by simp
  qed
qed (simp_all add: matchingUnionSchema_def is_union_def)

lemma sanitize_list_total:
  assumes "\<And>x. x \<in> set xs \<Longrightarrow> \<exists>w. f s x = Some (Inr w)"
  shows "\<exists>ys. sanitize_list f s xs = Some (Inr ys)"
  using assms
proof (induction xs)
  case (Cons x xs)
  then obtain w ys where "f s x = Some (Inr w)" "sanitize_list f s xs = Some (Inr ys)"
    by (metis list.set_intros(1,2))
  then show ?case by (simp add: run_bind_def)
qed simp

lemma sanitize_entries_total:
  assumes "\<And>k s v. (k, s, v) \<in> set es \<Longrightarrow> \<exists>w. f s v = Some (Inr w)"
  shows "\<exists>gs. sanitize_entries f es acc = Some (Inr gs)"
  using assms
proof (induction es arbitrary: acc)
  case (Cons e es)
  obtain k s v where e: "e = (k, s, v)" by (cases e)
  with Cons.prems [of k s v] obtain w where "f s v = Some (Inr w)" by auto
  moreover have "\<exists>gs. sanitize_entries f es (assign acc k w) = Some (Inr gs)"
    by (rule Cons.IH) (use Cons.prems in auto)
  ultimately show ?case by (auto simp: e run_bind_def)
qed simp

lemma elem_size: "x \<in> set xs \<Longrightarrow> size x < size (JArr xs)"
  by (induction xs) auto

lemma field_size: "(k, v) \<in> set fs \<Longrightarrow> size v < size (JObj c fs)"
  by (induction fs) auto

lemma declared_entries_in:
  "(k, s, v) \<in> set (declared_entries p fs) \<Longrightarrow> (k, s) \<in> set (obj_entries p) \<and> (k, v) \<in> set fs"
  by (auto simp: declared_entries_def split: option.splits dest: map_of_SomeD map_of_SomeD [OF sym])

lemma additional_entries_in:
  "(k, s, v) \<in> set (additional_entries p a fs) \<Longrightarrow>
     s = a \<and> (k, v) \<in> set fs \<and> k \<notin> fst ` set (obj_entries p)"
  by (auto simp: additional_entries_def)

lemma sanitizeArray_total:
  assumes "\<And>x. x \<in> set xs \<Longrightarrow> \<exists>w. f (js_get r ''items'') x = Some (Inr w)"
  shows "\<exists>w. sanitizeArray f r xs = Some (Inr w)"
  using sanitize_list_total [of xs f "js_get r ''items''", OF assms]
  by (auto simp: sanitizeArray_def Let_def run_bind_def)

lemma sanitizeObject_total:
  assumes "\<And>k s v. (k, s) \<in> set (obj_entries (js_get r ''properties'')) \<Longrightarrow> (k, v) \<in> set fs \<Longrightarrow>
      \<exists>w. f s v = Some (Inr w)"
    and "\<And>k v. (k, v) \<in> set fs \<Longrightarrow> \<exists>w. f (js_get r ''additionalProperties'') v = Some (Inr w)"
  shows "\<exists>w. sanitizeObject f r c fs = Some (Inr w)"
proof -
  let ?p = "js_get r ''properties''" and ?a = "js_get r ''additionalProperties''"
  obtain gs where gs: "sanitize_entries f (declared_entries ?p fs) [] = Some (Inr gs)"
    using sanitize_entries_total [of "declared_entries ?p fs" f "[]"] assms(1)
    by (metis declared_entries_in)
  obtain hs where hs: "sanitize_entries f (additional_entries ?p ?a fs) gs = Some (Inr hs)"
    using sanitize_entries_total [of "additional_entries ?p ?a fs" f gs] assms(2)
    by (metis additional_entries_in)
  show ?thesis using gs hs by (auto simp: sanitizeObject_def Let_def run_bind_def)
qed

text \<open>Two levels of fuel per level of the body are enough: one for a union, one for its alternative.\<close>

definition fuel_needed :: "jsval \<Rightarrow> jsval \<Rightarrow> nat" where
  "fuel_needed s body = 2 * size body + (if is_union (resolve_step s) then 3 else 2)"

lemma sanitize_total:
  "all_nodes node_ok s \<Longrightarrow> fuel_needed s body \<le> n \<Longrightarrow> \<exists>w. sanitizeResponse n V s body = Some (Inr w)"
proof (induction n arbitrary: s body)
  case 0
  then show ?case by (simp add: fuel_needed_def split: if_splits)
next
  case (Suc n)
  let ?r = "resolve_step s"
  have n2: "2 \<le> Suc n" using Suc.prems(2) by (auto simp: fuel_needed_def split: if_splits)
  have ok: "all_nodes node_ok ?r" using Suc.prems(1) by (rule resolve_step_ok)
  obtain u where u: "matchingUnionSchema (Suc n) V ?r body = Some (Inr u)"
      "\<forall>v. u = Some v \<longrightarrow> is_union ?r \<and> v \<in> set (js_elems (union_alternatives ?r))"
    using matching_enough [OF n2 all_nodes_here [OF ok], of V body] by blast
  have small: "\<exists>w. sanitizeResponse n V t x = Some (Inr w)"
    if "size x < size body" "all_nodes node_ok t" for t x
    using Suc.IH [of t x] that Suc.prems(2) by (auto simp: fuel_needed_def split: if_splits)
  show ?case
  proof (cases u)
    case (Some v)
    with u(2) have un: "is_union ?r" and v: "v \<in> set (js_elems (union_alternatives ?r))" by auto
    from all_nodes_here [OF ok] un v have "\<not> is_union v"
      by (auto simp: node_ok_def union_ok_def list_all_iff)
    then have "fuel_needed v body \<le> n"
      using resolve_step_union [of v] un Suc.prems(2) by (simp add: fuel_needed_def)
    moreover have "all_nodes node_ok v"
      using union_alternatives_ok [OF ok] v by (rule all_nodes_elems)
    ultimately have "\<exists>w. sanitizeResponse n V v body = Some (Inr w)" by (intro Suc.IH)
    with Some u(1) show ?thesis
      by (simp add: resolvedSchema_enough [OF n2] run_bind_def del: resolvedSchema.simps)
  next
    case None
    have "\<exists>w. sanitizeArray (sanitizeResponse n V) ?r xs = Some (Inr w)" if "body = JArr xs" for xs
      by (rule sanitizeArray_total) (use that elem_size small all_nodes_get [OF ok] in blast)
    moreover have "\<exists>w. sanitizeObject (sanitizeResponse n V) ?r c fs = Some (Inr w)"
      if b: "body = JObj c fs" for c fs
    proof (rule sanitizeObject_total)
      fix k t v
      assume "(k, v) \<in> set fs"
      then have sz: "size v < size body" using field_size b by blast
      show "\<exists>w. sanitizeResponse n V (js_get ?r ''additionalProperties'') v = Some (Inr w)"
        using small sz all_nodes_get [OF ok] by blast
      assume "(k, t) \<in> set (obj_entries (js_get ?r ''properties''))"
      then show "\<exists>w. sanitizeResponse n V t v = Some (Inr w)"
        using small sz all_nodes_entries [OF all_nodes_get [OF ok]] by blast
    qed
    ultimately show ?thesis
      using None u(1) by (simp add: resolvedSchema_enough [OF n2] run_bind_def del: resolvedSchema.simps
          split: jsval.split)
  qed
qed

end
