(* ===== verification/Response_Stripping.thy ===== *)
theory Response_Stripping
  imports Response_Validation
begin

text \<open>
  What reaches a caller of the response boundary: the specification of stripping, the proof that the
  sanitizer meets it on the shipped manifest, and the properties of the boundary as a whole.
\<close>

section \<open>What is left is declared\<close>

text \<open>
  The specification of stripping, to any depth \<open>k\<close>: an object has only the keys its schema declares as
  properties, or keys the schema lets through as additional ones; elements and values obey their
  schemas; and a value of a union obeys one alternative of it. Two kinds of value are exempt, and they
  are named: an object whose schema has no properties at all (\<open>free_form\<close>: a map, even one whose
  \<open>additionalProperties\<close> is a schema of its own), and a value of a union that none of the union's
  validators accepts (\<open>union_rejects\<close>).
\<close>

definition free_form :: "jsval \<Rightarrow> bool" where
  "free_form r = (\<not> truthy (js_get r ''properties'') \<or> \<not> typeof_object (js_get r ''properties''))"

definition obey_object :: "(jsval \<Rightarrow> jsval \<Rightarrow> bool) \<Rightarrow> jsval \<Rightarrow> (string \<times> jsval) list \<Rightarrow> bool" where
  "obey_object ok r fs =
     (let p = js_get r ''properties''; a = js_get r ''additionalProperties''
      in free_form r \<or>
         list_all (\<lambda>(key, v). case map_of (obj_entries p) key of
                     Some s \<Rightarrow> ok s v
                   | None \<Rightarrow> a = JBool True \<or> (truthy a \<and> typeof_object a \<and> ok a v)) fs)"

definition obey_array :: "(jsval \<Rightarrow> jsval \<Rightarrow> bool) \<Rightarrow> jsval \<Rightarrow> jsval list \<Rightarrow> bool" where
  "obey_array ok r xs =
     (truthy (js_get r ''items'') \<and> typeof_object (js_get r ''items'') \<longrightarrow>
        list_all (ok (js_get r ''items'')) xs)"

definition union_rejects :: "(nat \<Rightarrow> jsval \<Rightarrow> bool) \<Rightarrow> jsval \<Rightarrow> jsval \<Rightarrow> bool" where
  "union_rejects V r v =
     (case js_get r UNION_VALIDATOR_ID of
        JStr i \<Rightarrow> (case map_of unionAlternativeValidatorsById i of
                      Some ks \<Rightarrow> list_all (\<lambda>k. \<not> V k v) ks | None \<Rightarrow> False)
      | _ \<Rightarrow> False)"

primrec only_declared :: "nat \<Rightarrow> (nat \<Rightarrow> jsval \<Rightarrow> bool) \<Rightarrow> jsval \<Rightarrow> jsval \<Rightarrow> bool" where
  "only_declared 0 V s v = True"
| "only_declared (Suc k) V s v =
     (let r = resolve_step s
      in if is_union r
         then union_rejects V r v \<or> list_ex (\<lambda>a. only_declared k V a v) (js_elems (union_alternatives r))
         else (case v of
                 JArr xs \<Rightarrow> obey_array (only_declared k V) r xs
               | JObj c fs \<Rightarrow> obey_object (only_declared k V) r fs
               | _ \<Rightarrow> True))"

lemma sanitize_list_result:
  "sanitize_list f s xs = Some (Inr ys) \<Longrightarrow> list_all2 (\<lambda>x y. f s x = Some (Inr y)) xs ys"
  by (induction xs arbitrary: ys) (auto simp: run_bind_def split: option.splits sum.splits)

lemma assign_in: "(k, w) \<in> set (assign fs l v) \<Longrightarrow> (k, w) \<in> set fs \<or> (k = l \<and> w = v \<and> l \<noteq> ''__proto__'')"
  by (auto simp: assign_def split: if_splits)

lemma assign_keys: "l \<noteq> ''__proto__'' \<Longrightarrow> fst ` set (assign fs l v) = insert l (fst ` set fs)"
  by (force simp: assign_def image_iff split: if_splits)

lemma sanitize_entries_result:
  assumes "sanitize_entries f es acc = Some (Inr gs)" and "(k, w) \<in> set gs"
  shows "(k, w) \<in> set acc \<or> (\<exists>s v. (k, s, v) \<in> set es \<and> f s v = Some (Inr w))"
  using assms
proof (induction es arbitrary: acc)
  case (Cons e es)
  obtain l s v where e: "e = (l, s, v)" by (cases e)
  from Cons.prems(1) obtain x where x: "f s v = Some (Inr x)"
      "sanitize_entries f es (assign acc l x) = Some (Inr gs)"
    by (auto simp: e run_bind_def split: option.splits sum.splits)
  from Cons.IH [OF x(2) Cons.prems(2)] show ?case using x(1) e by (auto dest: assign_in)
qed simp

lemma sanitize_entries_keys:
  assumes "sanitize_entries f es acc = Some (Inr gs)" and "''__proto__'' \<notin> fst ` set es"
  shows "fst ` set gs = fst ` set acc \<union> fst ` set es"
  using assms
proof (induction es arbitrary: acc)
  case (Cons e es)
  obtain l s v where e: "e = (l, s, v)" by (cases e)
  from Cons.prems(1) obtain x where "sanitize_entries f es (assign acc l x) = Some (Inr gs)"
    by (auto simp: e run_bind_def split: option.splits sum.splits)
  from Cons.IH [OF this] Cons.prems(2) have "fst ` set gs = fst ` set (assign acc l x) \<union> fst ` set es"
    by (simp add: e)
  moreover have "fst ` set (assign acc l x) = insert l (fst ` set acc)"
    using Cons.prems(2) e by (intro assign_keys) auto
  ultimately show ?case by (simp add: e)
qed simp

lemma sanitizeArray_obeys:
  assumes "sanitizeArray f r xs = Some (Inr w)"
    and "\<And>x y. f (js_get r ''items'') x = Some (Inr y) \<Longrightarrow> ok (js_get r ''items'') y"
  shows "\<exists>ys. w = JArr ys \<and> obey_array ok r ys"
proof (cases "truthy (js_get r ''items'') \<and> typeof_object (js_get r ''items'')")
  case True
  with assms(1) obtain ys where ys: "sanitize_list f (js_get r ''items'') xs = Some (Inr ys)" "w = JArr ys"
    by (auto simp: sanitizeArray_def Let_def run_bind_def split: option.splits sum.splits)
  then have "list_all (ok (js_get r ''items'')) ys"
    using sanitize_list_result [OF ys(1)] assms(2) by (auto simp: list_all2_conv_all_nth list_all_length)
  with ys(2) show ?thesis by (simp add: obey_array_def)
next
  case False
  with assms(1) show ?thesis by (auto simp: sanitizeArray_def Let_def obey_array_def)
qed

lemma declared_result:
  assumes "sanitize_entries f (declared_entries p fs) [] = Some (Inr gs)"
    and "distinct (map fst (obj_entries p))" and "(key, v) \<in> set gs"
  shows "\<exists>s x. map_of (obj_entries p) key = Some s \<and> f s x = Some (Inr v)"
proof -
  from sanitize_entries_result [OF assms(1,3)] obtain s x where
    sx: "(key, s, x) \<in> set (declared_entries p fs)" "f s x = Some (Inr v)" by auto
  from declared_entries_in [OF sx(1)] have "(key, s) \<in> set (obj_entries p)" by blast
  with assms(2) sx(2) show ?thesis by (intro exI [of _ s] exI [of _ x]) simp
qed

lemma spread_declared:
  assumes "sanitize_entries f (declared_entries p fs) [] = Some (Inr gs)"
    and "''__proto__'' \<notin> fst ` set (obj_entries p)"
    and "(key, v) \<in> set (spread_over fs gs)" and "map_of (obj_entries p) key = Some s"
  shows "(key, v) \<in> set gs"
proof (cases "map_of gs key")
  case (Some v')
  with assms(3) show ?thesis by (auto simp: spread_over_def dest: map_of_SomeD)
next
  case None
  then have k: "key \<notin> fst ` set gs" by (simp add: map_of_eq_None_iff)
  with assms(3) have "key \<in> fst ` set fs" by (force simp: spread_over_def)
  then obtain x where x: "map_of fs key = Some x" by (metis map_of_eq_None_iff option.exhaust)
  have "(key, s) \<in> set (obj_entries p)" using assms(4) by (rule map_of_SomeD)
  with x have "(key, s, x) \<in> set (declared_entries p fs)" by (force simp: declared_entries_def)
  moreover have "''__proto__'' \<notin> fst ` set (declared_entries p fs)"
    using assms(2) declared_entries_in by (force simp: image_iff)
  ultimately have "key \<in> fst ` set gs"
    using sanitize_entries_keys [OF assms(1)] by force
  with k show ?thesis by simp
qed

lemma obey_objectI:
  assumes "\<And>key v s. (key, v) \<in> set gs \<Longrightarrow> map_of (obj_entries (js_get r ''properties'')) key = Some s \<Longrightarrow> ok s v"
    and "\<And>key v. (key, v) \<in> set gs \<Longrightarrow> map_of (obj_entries (js_get r ''properties'')) key = None \<Longrightarrow>
      js_get r ''additionalProperties'' = JBool True \<or>
      (truthy (js_get r ''additionalProperties'') \<and> typeof_object (js_get r ''additionalProperties'') \<and>
       ok (js_get r ''additionalProperties'') v)"
  shows "obey_object ok r gs"
  using assms by (auto simp: obey_object_def Let_def list_all_iff split: option.splits)

text \<open>What the exemption of a free-form schema means: the object is handed on as the server sent it.\<close>

lemma free_form_unchanged: "free_form r \<Longrightarrow> sanitizeObject f r c fs = Some (Inr (JObj c fs))"
  by (simp add: free_form_def sanitizeObject_def Let_def)

lemma sanitizeObject_obeys:
  assumes "sanitizeObject f r c fs = Some (Inr w)" and "props_ok r"
    and ok: "\<And>s x y. f s x = Some (Inr y) \<Longrightarrow>
      s \<in> insert (js_get r ''additionalProperties'') (snd ` set (obj_entries (js_get r ''properties''))) \<Longrightarrow> ok s y"
  shows "\<exists>d gs. w = JObj d gs \<and> obey_object ok r gs"
proof (cases "truthy (js_get r ''properties'') \<and> typeof_object (js_get r ''properties'')")
  case False
  then have "free_form r" by (auto simp: free_form_def)
  with assms(1) show ?thesis by (auto simp: free_form_unchanged obey_object_def)
next
  case True
  let ?p = "js_get r ''properties''" and ?a = "js_get r ''additionalProperties''"
  from True assms(1) obtain gs where gs: "sanitize_entries f (declared_entries ?p fs) [] = Some (Inr gs)"
    by (auto simp: sanitizeObject_def Let_def run_bind_def split: option.splits sum.splits)
  have dist: "distinct (map fst (obj_entries ?p))" and np: "''__proto__'' \<notin> fst ` set (obj_entries ?p)"
    using assms(2) by (auto simp: props_ok_def split: jsval.splits)
  have decl: "ok s v" if "(key, v) \<in> set gs" "map_of (obj_entries ?p) key = Some s" for key v s
  proof -
    from declared_result [OF gs dist that(1)] that(2) obtain x where "f s x = Some (Inr v)" by auto
    moreover have "s \<in> snd ` set (obj_entries ?p)" using that(2) by (force dest: map_of_SomeD)
    ultimately show ?thesis using ok by blast
  qed
  have known: "map_of (obj_entries ?p) key \<noteq> None" if "(key, v) \<in> set gs" for key v
    using declared_result [OF gs dist that] by auto
  consider "?a = JBool True" | "?a \<noteq> JBool True" "truthy ?a \<and> typeof_object ?a"
    | "?a \<noteq> JBool True" "\<not> (truthy ?a \<and> typeof_object ?a)" by blast
  then show ?thesis
  proof cases
    case 1
    with True assms(1) gs have w: "w = plain (spread_over fs gs)"
      by (simp add: sanitizeObject_def Let_def run_bind_def)
    have "obey_object ok r (spread_over fs gs)"
      by (rule obey_objectI) (use 1 decl spread_declared [OF gs np] in blast)+
    with w show ?thesis by blast
  next
    case 2
    with True assms(1) gs obtain hs where
      hs: "sanitize_entries f (additional_entries ?p ?a fs) gs = Some (Inr hs)" and w: "w = plain hs"
      by (auto simp: sanitizeObject_def Let_def run_bind_def split: option.splits sum.splits)
    have "(key, v) \<in> set gs \<or> (map_of (obj_entries ?p) key = None \<and> ok ?a v)" if "(key, v) \<in> set hs" for key v
      using sanitize_entries_result [OF hs that] ok additional_entries_in
      by (metis insertI1 map_of_eq_None_iff)
    then have "obey_object ok r hs"
      by (intro obey_objectI) (use 2 decl known in fastforce)+
    with w show ?thesis by blast
  next
    case 3
    with True assms(1) gs have "w = plain gs"
      by (auto simp: sanitizeObject_def Let_def run_bind_def)
    moreover have "obey_object ok r gs" by (rule obey_objectI) (use decl known in blast)+
    ultimately show ?thesis by blast
  qed
qed

lemma resolvedSchema_result:
  assumes "resolvedSchema n s = Some r"
  shows "r = resolve_step s"
proof (cases "2 \<le> n")
  case True
  with assms show ?thesis using resolvedSchema_enough by simp
next
  case False
  then consider "n = 0" | "n = Suc 0" by linarith
  then show ?thesis
    using assms by cases (auto simp: resolve_step_def split: jsval.splits option.splits)
qed

lemma resolve_all_fst: "resolve_all n as = Some ars \<Longrightarrow> map fst ars = as"
  by (induction as arbitrary: ars) (auto split: option.splits)

lemma best_match_result:
  assumes "best_match n as body = Some (Inr r)"
  shows "(r = None \<longleftrightarrow> as = []) \<and> (\<forall>u. r = Some u \<longrightarrow> u \<in> set as)"
proof (cases as rule: remdups_adj.cases)
  case (3 x y zs)
  with assms obtain ars where ars: "resolve_all n as = Some ars"
      "r = Some (fst (hd (sort_key (\<lambda>(a, r). - int (matchingProperties r body)) ars)))"
    by (auto simp: best_match_def simp del: resolve_all.simps split: option.splits)
  let ?l = "sort_key (\<lambda>(a, r). - int (matchingProperties r body)) ars"
  have fst: "map fst ars = as" using ars(1) by (rule resolve_all_fst)
  then have "?l \<noteq> []" using 3 by (metis length_0_conv length_map length_sort list.distinct(1))
  then have "hd ?l \<in> set ars" using hd_in_set [of ?l] by simp
  then have "fst (hd ?l) \<in> set as" using fst by force
  with ars(2) 3 show ?thesis by simp
qed (use assms in \<open>auto simp: best_match_def\<close>)

lemma matching_result:
  assumes "matchingUnionSchema n V s body = Some (Inr r)"
  shows "(\<forall>u. r = Some u \<longrightarrow> is_union s \<and> u \<in> set (js_elems (union_alternatives s))) \<and>
    (r = None \<longrightarrow> is_union s \<longrightarrow> union_rejects V s body)"
proof (cases "union_alternatives s")
  case (JArr as)
  with assms obtain i ks where i: "js_get s UNION_VALIDATOR_ID = JStr i"
      and ks: "map_of unionAlternativeValidatorsById i = Some ks" and len: "length ks = length as"
      and bm: "best_match n (map fst (filter (\<lambda>(a, k). V k body) (zip as ks))) body = Some (Inr r)"
    by (auto simp: matchingUnionSchema_def failContract_def split: jsval.splits option.splits if_splits)
  from JArr have un: "is_union s" by (simp add: is_union_def)
  show ?thesis
  proof (cases r)
    case None
    with best_match_result [OF bm] have "filter (\<lambda>(a, k). V k body) (zip as ks) = []" by simp
    then have "\<not> V k body" if "k \<in> set ks" for k
      using that len by (metis (no_types, lifting) case_prodI filter_empty_conv in_set_impl_in_set_zip2)
    with None i ks show ?thesis by (simp add: union_rejects_def list_all_iff)
  next
    case (Some u)
    with best_match_result [OF bm] have "u \<in> set (map fst (filter (\<lambda>(a, k). V k body) (zip as ks)))" by blast
    then have "u \<in> set as" by (auto dest: set_zip_leftD)
    with Some un JArr show ?thesis by simp
  qed
qed (use assms in \<open>auto simp: matchingUnionSchema_def is_union_def\<close>)

lemma union_no_structure:
  assumes "node_ok r" and "is_union r"
  shows "sanitizeArray f r xs = Some (Inr (JArr xs))" "sanitizeObject f r c fs = Some (Inr (JObj c fs))"
  using assms by (simp_all add: node_ok_def union_ok_def sanitizeArray_def sanitizeObject_def)

lemma sanitize_obeys:
  "all_nodes node_ok s \<Longrightarrow> sanitizeResponse n V s body = Some (Inr w) \<Longrightarrow> only_declared k V s w"
proof (induction n arbitrary: s body w k)
  case (Suc n)
  show ?case
  proof (cases k)
    case k: (Suc l)
    let ?r = "resolve_step s"
    have ok: "all_nodes node_ok ?r" using Suc.prems(1) by (rule resolve_step_ok)
    from Suc.prems(2) obtain u where
      u: "matchingUnionSchema (Suc n) V ?r body = Some (Inr u)" and
      rest: "(case u of Some v \<Rightarrow> sanitizeResponse n V v body
              | None \<Rightarrow> (case body of JArr xs \<Rightarrow> sanitizeArray (sanitizeResponse n V) ?r xs
                  | JObj c fs \<Rightarrow> sanitizeObject (sanitizeResponse n V) ?r c fs
                  | _ \<Rightarrow> Some (Inr body))) = Some (Inr w)"
      by (auto simp: run_bind_def simp del: resolvedSchema.simps dest!: resolvedSchema_result
          split: option.splits sum.splits)
    note m = matching_result [OF u]
    have below: "only_declared l V t y" if "sanitizeResponse n V t x = Some (Inr y)" "all_nodes node_ok t"
      for t x y using Suc.IH that by blast
    show ?thesis
    proof (cases u)
      case (Some v)
      with m have un: "is_union ?r" and v: "v \<in> set (js_elems (union_alternatives ?r))" by auto
      have "only_declared l V v w"
        using rest Some below all_nodes_elems [OF union_alternatives_ok [OF ok] v] by simp
      with un v k show ?thesis by (auto simp: list_ex_iff Let_def)
    next
      case None
      show ?thesis
      proof (cases "is_union ?r")
        case True
        then have "w = body"
          using rest None union_no_structure [OF all_nodes_here [OF ok]] by (simp split: jsval.splits)
        with True m None k show ?thesis by simp
      next
        case nu: False
        have arr: "\<exists>ys. w = JArr ys \<and> obey_array (only_declared l V) ?r ys" if "body = JArr xs" for xs
          by (rule sanitizeArray_obeys [of "sanitizeResponse n V" _ xs])
            (use rest None that below all_nodes_get [OF ok] in auto)
        have obj: "\<exists>d gs. w = JObj d gs \<and> obey_object (only_declared l V) ?r gs" if "body = JObj c fs" for c fs
          by (rule sanitizeObject_obeys [of "sanitizeResponse n V" _ c fs])
            (use rest None that below all_nodes_get [OF ok] all_nodes_entries [OF all_nodes_get [OF ok]]
               all_nodes_here [OF ok] in \<open>auto simp: node_ok_def\<close>)
        show ?thesis
          using nu k rest None arr obj by (cases body) (auto split: jsval.splits)
      qed
    qed
  qed simp
qed simp

section \<open>The entries of maps\<close>

lemma assign_lookup: "map_of (assign fs l v) k = (if k = l \<and> l \<noteq> ''__proto__'' then Some v else map_of fs k)"
proof (cases "l \<in> fst ` set fs")
  case True
  have "map_of (map (\<lambda>(k', w). if k' = l then (k', v) else (k', w)) fs) k =
      (if k = l \<and> k \<in> fst ` set fs then Some v else map_of fs k)"
    by (induction fs) force+
  with True show ?thesis by (cases "k = l") (simp_all add: assign_def)
next
  case False
  then have "map_of fs l = None" by (simp add: map_of_eq_None_iff)
  with False show ?thesis by (auto simp: assign_def map_add_def split: option.splits)
qed

lemma sanitize_entries_other:
  "sanitize_entries f es acc = Some (Inr gs) \<Longrightarrow> k \<notin> fst ` set es \<Longrightarrow> map_of gs k = map_of acc k"
proof (induction es arbitrary: acc)
  case (Cons e es)
  obtain l s v where e: "e = (l, s, v)" by (cases e)
  with Cons show ?case
    by (auto simp: run_bind_def assign_lookup split: option.splits sum.splits)
qed simp

lemma declared_entries_head:
  assumes "obj_entries p = (k, t) # rest" and "k \<notin> fst ` set rest" and "map_of fs k = Some x"
  shows "\<exists>es. declared_entries p fs = (k, t, x) # es \<and> k \<notin> fst ` set es"
proof -
  let ?es = "concat (map (\<lambda>(k, s). case map_of fs k of None \<Rightarrow> [] | Some v \<Rightarrow> [(k, s, v)]) rest)"
  have "declared_entries p fs = (k, t, x) # ?es" using assms(1,3) by (simp add: declared_entries_def)
  moreover have "fst ` set ?es \<subseteq> fst ` set rest" by (force split: option.splits)
  ultimately show ?thesis using assms(2) by blast
qed

text \<open>A reference to a component that is an object without alternatives is sanitized by its properties.\<close>

lemma sanitize_component:
  assumes "sanitizeResponse n V s (JObj c fs) = Some (Inr w)" and "\<not> is_union (resolve_step s)"
  shows "\<exists>m. sanitizeObject (sanitizeResponse m V) (resolve_step s) c fs = Some (Inr w)"
proof (cases n)
  case (Suc m)
  with assms obtain u where u: "matchingUnionSchema (Suc m) V (resolve_step s) (JObj c fs) = Some (Inr u)"
      and rest: "(case u of Some t \<Rightarrow> sanitizeResponse m V t (JObj c fs)
              | None \<Rightarrow> sanitizeObject (sanitizeResponse m V) (resolve_step s) c fs) = Some (Inr w)"
    by (auto simp: run_bind_def simp del: resolvedSchema.simps dest!: resolvedSchema_result
        split: option.splits sum.splits)
  from matching_result [OF u] assms(2) have "u = None" by (cases u) auto
  with rest show ?thesis by auto
qed (use assms in simp)

lemma quota_components:
  "resolve_step (ref_to ''RoleQuotaStatus'') = schema_RoleQuotaStatus"
  "resolve_step (ref_to ''QuotaDimensionStatus'') = schema_QuotaDimensionStatus"
  "\<not> is_union schema_RoleQuotaStatus" "\<not> is_union schema_QuotaDimensionStatus"
  by code_simp+

abbreviation dimensions_schema :: jsval where
  "dimensions_schema \<equiv>
     plain [(''additionalProperties'', ref_to ''QuotaDimensionStatus''), (''type'', JStr ''object'')]"

lemma dimensions_schema_open: "resolve_step dimensions_schema = dimensions_schema"
  "\<not> is_union dimensions_schema" "free_form dimensions_schema"
  by code_simp+

lemma quota_dimensions_unchanged:
  assumes "sanitizeResponse n V (ref_to ''RoleQuotaStatus'') (JObj c fs) = Some (Inr w)"
    and "map_of fs ''dimensions'' = Some (JObj d ds)"
  shows "js_get w ''dimensions'' = JObj d ds"
proof -
  let ?p = "js_get schema_RoleQuotaStatus ''properties''"
  from sanitize_component [OF assms(1)] obtain m where
    "sanitizeObject (sanitizeResponse m V) schema_RoleQuotaStatus c fs = Some (Inr w)"
    using quota_components by auto
  then obtain gs where gs: "sanitize_entries (sanitizeResponse m V) (declared_entries ?p fs) [] = Some (Inr gs)"
      and w: "w = plain gs"
    by (auto simp: sanitizeObject_def schema_RoleQuotaStatus_def run_bind_def
        split: option.splits sum.splits)
  obtain es where es: "declared_entries ?p fs = (''dimensions'', dimensions_schema, JObj d ds) # es"
      "''dimensions'' \<notin> fst ` set es"
    using declared_entries_head [OF _ _ assms(2), of ?p] by (auto simp: schema_RoleQuotaStatus_def)
  from gs es(1) obtain y where y: "sanitizeResponse m V dimensions_schema (JObj d ds) = Some (Inr y)"
      and rest: "sanitize_entries (sanitizeResponse m V) es (assign [] ''dimensions'' y) = Some (Inr gs)"
    by (auto simp: run_bind_def split: option.splits sum.splits)
  from sanitize_component [OF y] have "y = JObj d ds"
    using dimensions_schema_open by (auto simp: free_form_unchanged)
  with sanitize_entries_other [OF rest es(2)] have "map_of gs ''dimensions'' = Some (JObj d ds)"
    by (simp add: assign_lookup)
  then show ?thesis by (simp add: w)
qed

lemma dimension_status_stripped:
  assumes "sanitizeResponse n V (ref_to ''QuotaDimensionStatus'') (JObj c fs) = Some (Inr w)"
  shows "\<exists>gs. w = plain gs \<and> fst ` set gs \<subseteq> {''limit'', ''remaining'', ''used''}"
proof -
  let ?p = "js_get schema_QuotaDimensionStatus ''properties''"
  from sanitize_component [OF assms] obtain m where
    "sanitizeObject (sanitizeResponse m V) schema_QuotaDimensionStatus c fs = Some (Inr w)"
    using quota_components by auto
  then obtain gs where gs: "sanitize_entries (sanitizeResponse m V) (declared_entries ?p fs) [] = Some (Inr gs)"
      and w: "w = plain gs"
    by (auto simp: sanitizeObject_def schema_QuotaDimensionStatus_def run_bind_def
        split: option.splits sum.splits)
  have "distinct (map fst (obj_entries ?p))" by (simp add: schema_QuotaDimensionStatus_def)
  from declared_result [OF gs this] have "fst ` set gs \<subseteq> fst ` set (obj_entries ?p)"
    by (metis (no_types, lifting) image_subsetI map_of_eq_None_iff option.distinct(1) prod.collapse)
  also have "\<dots> = {''limit'', ''remaining'', ''used''}" by (simp add: schema_QuotaDimensionStatus_def)
  finally show ?thesis using w by blast
qed

section \<open>The boundary as a whole\<close>

lemma manifest_schema_truthy:
  "list_all (\<lambda>mop. list_all (\<lambda>r. truthy (response_schema r)) (responses mop)) responseOperationManifest"
  by code_simp

lemma manifestById_Some: "manifestById oid = Some op \<longleftrightarrow> op \<in> set responseOperationManifest \<and> operationId op = oid"
proof -
  have "distinct (map fst (rev (map (\<lambda>mop. (operationId mop, mop)) responseOperationManifest)))"
    using operation_ids_distinct by (simp add: rev_map [symmetric] comp_def)
  then show ?thesis by (auto simp: manifestById_def)
qed

lemma responseContract_Some:
  "responseContract op status = Some c \<Longrightarrow> c \<in> set (responses op) \<and> response_status c = nat_to_string status"
  using find_first_Some by (fastforce simp: responseContract_def)

lemma contract_schema_ok:
  assumes "op \<in> set responseOperationManifest" and "c \<in> set (responses op)"
  shows "all_nodes node_ok (response_schema c)" "truthy (response_schema c)"
proof -
  from assms have "response_schema c \<in> set manifest_schemas" by (auto simp: manifest_schemas_def)
  then show "all_nodes node_ok (response_schema c)" using manifest_node_ok by (simp add: list_all_iff)
  show "truthy (response_schema c)" using manifest_schema_truthy assms by (simp add: list_all_iff)
qed

lemma contract_has_validator:
  assumes "op \<in> set responseOperationManifest" and "responseContract op status = Some c"
  shows "\<exists>j. operationValidator op status = Inr j"
proof -
  note c = responseContract_Some [OF assms(2)]
  then have "operationId op @ '':'' @ nat_to_string status \<in> set (map fst responseValidatorByOperationStatus)"
    unfolding validator_keys [symmetric] using assms(1) by force
  then have "map_of responseValidatorByOperationStatus (operationId op @ '':'' @ nat_to_string status) \<noteq> None"
    by (simp only: map_of_eq_None_iff set_map not_not)
  then show ?thesis by (auto simp: operationValidator_def)
qed

lemma fuel_needed_bound: "fuel_needed s body \<le> 2 * size body + 3"
  by (simp add: fuel_needed_def)

lemma validated_result:
  assumes "validateOperationResponse n V dp oid status body = Some (Inr w)"
  shows "\<exists>op c j. op \<in> set responseOperationManifest \<and> operationId op = oid \<and>
    responseContract op status = Some c \<and> operationValidator op status = Inr j \<and> V j body \<and>
    sanitizeResponse n V (response_schema c) body = Some (Inr w) \<and>
    validateSemanticContract dp oid status w = Inr ()"
  using assms
  by (auto simp: validateOperationResponse_def run_bind_def failContract_def manifestById_Some
      split: option.splits sum.splits if_splits)

lemma declared_response_judged:
  assumes "op \<in> set responseOperationManifest" and "responseContract op status = Some c"
    and "2 * size body + 3 \<le> n"
  shows "\<exists>j w. operationValidator op status = Inr j \<and>
    sanitizeResponse n V (response_schema c) body = Some (Inr w) \<and>
    validateOperationResponse n V dp (operationId op) status body =
      Some (if V j body
            then (case validateSemanticContract dp (operationId op) status w of Inl e \<Rightarrow> Inl e | Inr _ \<Rightarrow> Inr w)
            else failContract)"
proof -
  obtain j where j: "operationValidator op status = Inr j"
    using contract_has_validator [OF assms(1,2)] by blast
  note ok = contract_schema_ok [OF assms(1)] responseContract_Some [OF assms(2)]
  obtain w where w: "sanitizeResponse n V (response_schema c) body = Some (Inr w)"
    using sanitize_total [of "response_schema c" body n V] ok fuel_needed_bound [of "response_schema c" body]
      assms(3) by (meson le_trans)
  have "manifestById (operationId op) = Some op" using assms(1) by (simp add: manifestById_Some)
  then show ?thesis
    using j w ok assms(2)
    by (auto simp: validateOperationResponse_def run_bind_def split: sum.splits)
qed

lemma validateOperationResponse_total:
  assumes "2 * size body + 3 \<le> n"
  shows "validateOperationResponse n V dp oid status body \<noteq> None"
proof (cases "manifestById oid")
  case (Some op)
  then have op: "op \<in> set responseOperationManifest" "operationId op = oid" by (simp_all add: manifestById_Some)
  show ?thesis
  proof (cases "responseContract op status")
    case None
    with Some show ?thesis by (auto simp: validateOperationResponse_def split: sum.splits)
  next
    case c: (Some c)
    from declared_response_judged [OF op(1) c assms] op(2) show ?thesis by blast
  qed
qed (simp add: validateOperationResponse_def)

lemma requestOperation_Some:
  assumes "requestOperation req = Some op"
  shows "op \<in> set responseOperationManifest \<and> op_method op = req_method req \<and>
    pathMatches (op_path op) (req_pathname req)"
proof -
  let ?m = "filter (\<lambda>mop. op_method mop = req_method req \<and> pathMatches (op_path mop) (req_pathname req))
      responseOperationManifest"
  let ?l = "sort_key (\<lambda>mop. path_parameters (op_path mop)) ?m"
  from assms have "op \<in> set ?l" by (cases ?l) (auto simp: requestOperation_def)
  then have "op \<in> set ?m" by (simp only: set_sort)
  then show ?thesis by simp
qed

section \<open>Properties\<close>

definition sample_limits :: http_response where
  "sample_limits =
     \<lparr>res_status = 200, res_statusText = ''OK'',
      res_headers = [(''content-type'', ''application/json''), (''content-length'', ''60'')],
      res_body = Some (plain [(''max_question_length'', jint 2000), (''dsn'', JStr ''db'')])\<rparr>"

definition sample_limits_request :: http_request where
  "sample_limits_request = \<lparr>req_method = ''GET'', req_pathname = ''/api/v1/query/limits''\<rparr>"

lemma sample_limits_operation: "requestOperation sample_limits_request = Some op_getQueryLimits"
  by code_simp

definition sample_result :: jsval where
  "sample_result =
     plain [(''attempt_number'', jint 1), (''columns'', JArr [plain [(''name'', JStr ''n'')]]),
       (''kind'', JStr ''result''), (''row_count'', jint 1), (''rows'', JArr [JArr [jint 7]])]"

lemma sample_result_accepted:
  "validateOperationResponse 60 (\<lambda>k v. True) (\<lambda>s. Fin 0) ''submitQuestion'' 200 sample_result = Some (Inr sample_result)"
  by code_simp

lemma sample_limits_validated:
  "validateFetchResponse 20 (\<lambda>k v. True) (\<lambda>s. Fin 0) sample_limits_request sample_limits =
     Some (Inr \<lparr>res_status = 200, res_statusText = ''OK'', res_headers = [(''content-type'', ''application/json'')],
       res_body = Some (plain [(''max_question_length'', jint 2000)])\<rparr>)"
  by code_simp

text \<open>
  C1. What the fetch boundary hands on for an operation it validates: the compiled validator of exactly
  that operation and status accepted the body; wherever a schema declares properties, at any depth,
  the body handed on carries only keys that schema declares or lets through as additional ones; it
  satisfies the semantic contract, the status is kept and the headers that described the old body are
  gone. Not stripped are objects below a schema without properties (\<open>free_form\<close>), which are handed on as
  sent, and a value of a union that no validator of the union accepts (\<open>union_rejects\<close>).
\<close>

theorem boundary_passes_only_declared:
  assumes "validateFetchResponse n V dp req r = Some (Inr r')"
    and "requestOperation req = Some op" and "shouldValidateResponse op r"
  shows "\<exists>contract j body w. responseContract op (res_status r) = Some contract \<and>
    operationValidator op (res_status r) = Inr j \<and> res_body r = Some body \<and> V j body \<and>
    res_body r' = Some w \<and> (\<forall>k. only_declared k V (response_schema contract) w) \<and>
    validateSemanticContract dp (operationId op) (res_status r) w = Inr () \<and>
    res_status r' = res_status r \<and>
    set (map fst (res_headers r')) \<inter> {''content-encoding'', ''content-length'', ''transfer-encoding''} = {}"
proof -
  from assms obtain body w where b: "res_body r = Some body"
      and w: "validateOperationResponse n V dp (operationId op) (res_status r) body = Some (Inr w)"
      and r': "r' = sanitizedJsonResponse r w"
    by (auto simp: validateFetchResponse_def failContract_def run_bind_def
        split: option.splits sum.splits if_splits)
  have op: "op \<in> set responseOperationManifest" using requestOperation_Some [OF assms(2)] by simp
  from validated_result [OF w] obtain op' c j where v: "op' \<in> set responseOperationManifest"
      "operationId op' = operationId op" "responseContract op' (res_status r) = Some c"
      "operationValidator op' (res_status r) = Inr j" "V j body"
      "sanitizeResponse n V (response_schema c) body = Some (Inr w)"
      "validateSemanticContract dp (operationId op) (res_status r) w = Inr ()"
    by blast
  have "op' = op" using v(1,2) op operation_ids_distinct by (metis distinct_map inj_onD)
  moreover have "\<forall>k. only_declared k V (response_schema c) w"
    using sanitize_obeys [OF contract_schema_ok(1) [OF v(1)] v(6)] responseContract_Some [OF v(3)] by blast
  ultimately show ?thesis
    using v b by (auto simp: r' sanitizedJsonResponse_def)
qed

theorem boundary_passes_only_declared_witness:
  "\<exists>contract. responseContract op_getQueryLimits 200 = Some contract \<and>
     only_declared 9 (\<lambda>k v. True) (response_schema contract) (plain [(''max_question_length'', jint 2000)])"
proof -
  have "shouldValidateResponse op_getQueryLimits sample_limits" by code_simp
  from boundary_passes_only_declared [OF sample_limits_validated sample_limits_operation this]
  show ?thesis by (auto simp: sample_limits_def)
qed

text \<open>
  C15. The entries of a map are not stripped. The quota status declares \<open>dimensions\<close> as a map whose values
  are \<open>QuotaDimensionStatus\<close>; because that schema has no properties of its own, \<open>sanitizeObject\<close> returns
  before it looks at \<open>additionalProperties\<close>, and whatever the server sent as \<open>dimensions\<close> is handed on
  unchanged, undeclared keys of its entries included. The same value below the schema
  \<open>QuotaDimensionStatus\<close> itself loses every key but the three that schema declares.
\<close>

theorem map_entries_pass_unstripped:
  assumes "sanitizeResponse n V (ref_to ''RoleQuotaStatus'') (JObj c fs) = Some (Inr w)"
    and "map_of fs ''dimensions'' = Some (JObj d ds)"
    and "sanitizeResponse n V (ref_to ''QuotaDimensionStatus'') (JObj e es) = Some (Inr v)"
  shows "js_get w ''dimensions'' = JObj d ds \<and>
    (\<exists>gs. v = plain gs \<and> fst ` set gs \<subseteq> {''limit'', ''remaining'', ''used''})"
  using quota_dimensions_unchanged [OF assms(1,2)] dimension_status_stripped [OF assms(3)] by blast

theorem map_entries_pass_unstripped_witness:
  "\<exists>w. sanitizeResponse 4 (\<lambda>k v. True) (ref_to ''RoleQuotaStatus'')
       (plain [(''dimensions'', plain [(''queries'', plain [(''used'', jint 1), (''dsn'', JStr ''db'')])])]) =
       Some (Inr w) \<and>
     js_get w ''dimensions'' = plain [(''queries'', plain [(''used'', jint 1), (''dsn'', JStr ''db'')])]"
proof -
  let ?d = "[(''queries'', plain [(''used'', jint 1), (''dsn'', JStr ''db'')])]"
  have w: "sanitizeResponse 4 (\<lambda>k v. True) (ref_to ''RoleQuotaStatus'') (plain [(''dimensions'', plain ?d)]) =
      Some (Inr (plain [(''dimensions'', plain ?d)]))"
    by code_simp
  have v: "sanitizeResponse 4 (\<lambda>k v. True) (ref_to ''QuotaDimensionStatus'')
      (plain [(''used'', jint 1), (''dsn'', JStr ''db'')]) = Some (Inr (plain [(''used'', jint 1)]))"
    by code_simp
  show ?thesis
    using map_entries_pass_unstripped [OF w _ v] w by simp
qed

text \<open>
  C2. The boundary always answers: with fuel linear in the size of the body every response of the server
  is judged, whatever the validators say. A response the manifest declares always has its validator and
  its sanitizer never fails, so only the validator and the semantic contract decide about it.
\<close>

theorem boundary_always_answers:
  assumes "case res_body r of None \<Rightarrow> True | Some body \<Rightarrow> 2 * size body + 3 \<le> n"
  shows "validateFetchResponse n V dp req r \<noteq> None \<and>
    (\<forall>op contract body. op \<in> set responseOperationManifest \<longrightarrow>
       responseContract op (res_status r) = Some contract \<longrightarrow> res_body r = Some body \<longrightarrow>
       (\<exists>j w. operationValidator op (res_status r) = Inr j \<and>
          sanitizeResponse n V (response_schema contract) body = Some (Inr w) \<and>
          validateOperationResponse n V dp (operationId op) (res_status r) body =
            Some (if V j body
                  then (case validateSemanticContract dp (operationId op) (res_status r) w of
                          Inl e \<Rightarrow> Inl e | Inr _ \<Rightarrow> Inr w)
                  else failContract)))"
proof
  show "validateFetchResponse n V dp req r \<noteq> None"
  proof (cases "res_body r")
    case (Some body)
    with assms have "\<forall>oid. validateOperationResponse n V dp oid (res_status r) body \<noteq> None"
      by (simp add: validateOperationResponse_total del: not_None_eq)
    with Some show ?thesis
      by (auto simp: validateFetchResponse_def run_bind_def simp del: not_None_eq
          split: option.split sum.split)
  qed (auto simp: validateFetchResponse_def split: option.split)
qed (intro allI impI declared_response_judged, use assms in simp_all)

theorem boundary_always_answers_witness:
  "validateFetchResponse 20 (\<lambda>k v. k = 3) (\<lambda>s. NaN) sample_limits_request sample_limits \<noteq> None"
  by (rule boundary_always_answers [THEN conjunct1]) (simp add: sample_limits_def)

text \<open>
  The operation a request is taken for is one of the manifest with its method and path, and none of
  the matching operations has fewer path parameters, so a literal route wins over a parametrised one;
  no operation is found only when none matches.
\<close>

lemma request_operation_most_specific:
  "case requestOperation req of
     None \<Rightarrow> \<forall>op \<in> set responseOperationManifest.
       \<not> (op_method op = req_method req \<and> pathMatches (op_path op) (req_pathname req))
   | Some op \<Rightarrow> op \<in> set responseOperationManifest \<and> op_method op = req_method req \<and>
       pathMatches (op_path op) (req_pathname req) \<and>
       (\<forall>op' \<in> set responseOperationManifest. op_method op' = req_method req \<longrightarrow>
          pathMatches (op_path op') (req_pathname req) \<longrightarrow>
          path_parameters (op_path op) \<le> path_parameters (op_path op'))"
proof -
  let ?m = "filter (\<lambda>mop. op_method mop = req_method req \<and> pathMatches (op_path mop) (req_pathname req))
      responseOperationManifest"
  let ?l = "sort_key (\<lambda>mop. path_parameters (op_path mop)) ?m"
  have set: "set ?l = set ?m" by simp
  have sorted: "sorted (map (\<lambda>mop. path_parameters (op_path mop)) ?l)" by (rule sorted_sort_key)
  show ?thesis
  proof (cases ?l)
    case Nil
    with set have "?m = []" by simp
    then show ?thesis by (simp add: requestOperation_def Nil filter_empty_conv)
  next
    case (Cons op ops)
    have "op \<in> set ?m" using set Cons by auto
    moreover have "path_parameters (op_path op) \<le> path_parameters (op_path op')" if "op' \<in> set ?m" for op'
    proof -
      from that set have "op' \<in> set (op # ops)" by (simp only: Cons)
      with sorted show ?thesis by (auto simp: Cons)
    qed
    ultimately show ?thesis by (simp add: requestOperation_def Cons)
  qed
qed

text \<open>
  C3. A query result that passes the boundary is a rectangle: its row count is the number of rows, every
  row has one cell per column, and the attempt number is not below one.
\<close>

theorem accepted_result_is_rectangular:
  assumes "validateOperationResponse n V dp oid status body = Some (Inr w)"
    and "oid \<in> {''submitQuestion'', ''rejectQuery'', ''regenerateQuery''}" and "status < 400"
    and "js_get w ''kind'' \<noteq> JStr ''refine''"
    and "js_get w ''rows'' = JArr rows" and "js_get w ''columns'' = JArr columns"
  shows "js_get w ''row_count'' = jint (int (length rows)) \<and>
    (\<forall>row \<in> set rows. \<exists>cells. row = JArr cells \<and> length cells = length columns) \<and>
    \<not> below (js_get w ''attempt_number'') 1"
proof -
  from validated_result [OF assms(1)] have "validateSemanticContract dp oid status w = Inr ()" by blast
  then have "validateQueryOperation dp oid w = Inr ()"
    using assms(3) by (auto simp: validateSemanticContract_def and_then_def split: sum.splits)
  then have "validateQueryResult w = Inr ()"
    using assms(2,4) by (auto simp: validateQueryOperation_def and_then_def split: sum.splits)
  then have q: "\<not> below (js_get w ''attempt_number'') 1" "js_get w ''row_count'' = js_length (JArr rows)"
      "\<forall>row \<in> set rows. js_length row = js_length (JArr columns)"
    using assms(5,6)
    by (auto simp: validateQueryResult_def and_then_def fail_if_def failContract_def list_ex_iff
        split: sum.splits if_splits)
  have "\<exists>cells. row = JArr cells \<and> length cells = length columns" if "row \<in> set rows" for row
    using q(3) that by (cases row) (auto simp: js_length_def)
  with q show ?thesis by (simp add: js_length_def)
qed

theorem accepted_result_is_rectangular_witness:
  "js_get sample_result ''row_count'' = jint 1"
proof -
  have "js_get sample_result ''row_count'' = jint (int (length [JArr [jint 7]]))"
    using accepted_result_is_rectangular [OF sample_result_accepted, of "[JArr [jint 7]]" "[plain [(''name'', JStr ''n'')]]"]
    by (simp add: sample_result_def)
  then show ?thesis by simp
qed

end
