(* ===== verification/Sessions.thy ===== *)
theory Sessions
  imports Permissions Session_Deletion
begin

text \<open>
  The session hooks of \<open>frontend/src/hooks/useSessions.ts\<close>: the paginated session list and session
  detail, flattened and de-duplicated, and the delete mutation with its optimistic bookkeeping. The
  query cache belongs to a library: a handler takes what it reads from the cache as an argument and
  returns the cache commands it issues, in order. A detail fetch is a start and a settlement, because
  sessions may be deleted while it waits.
\<close>

section \<open>Data\<close>

record SessionSummary =
  summary_id :: string
  summary_created_at :: string
  summary_last_activity_at :: string
  summary_preview_text :: string

record SessionListResponse =
  list_items :: "SessionSummary list"
  list_total :: int
  list_next_cursor :: "string option"

record AttemptSummary =
  attempt_id :: string
  attempt_accepted_at :: string
  database_connection_id :: "string option"
  database_connection_name :: "string option"
  database_type :: "string option"
  feedback :: "int option"
  generated_sql :: string
  question_text :: string
  result_columns :: "jsval list option"
  result_row_count :: "int option"
  result_rows :: "jsval list option"
  saved :: bool

record SessionDetail =
  attempts :: "AttemptSummary list"
  attempts_next_cursor :: "string option"
  attempts_total :: int
  detail_connection_id :: "string option"
  detail_created_at :: string
  detail_id :: string
  detail_last_activity_at :: string
  detail_preview_text :: string

record 'p InfiniteData =
  data_pages :: "'p list"
  pageParams :: "string option list"

section \<open>Flattening\<close>

fun unique_items :: "('a \<Rightarrow> string) \<Rightarrow> 'a list \<Rightarrow> string set \<times> 'a list \<Rightarrow> string set \<times> 'a list" where
  "unique_items key [] acc = acc"
| "unique_items key (item # grp) (seenIds, uniqueItems) =
     (if key item \<in> seenIds then unique_items key grp (seenIds, uniqueItems)
      else unique_items key grp (insert (key item) seenIds, uniqueItems @ [item]))"

fun unique_groups :: "('a \<Rightarrow> string) \<Rightarrow> 'a list list \<Rightarrow> string set \<times> 'a list \<Rightarrow> string set \<times> 'a list" where
  "unique_groups key [] acc = acc"
| "unique_groups key (grp # groups) acc = unique_groups key groups (unique_items key grp acc)"

definition uniqueById :: "('a \<Rightarrow> string) \<Rightarrow> 'a list list \<Rightarrow> 'a list" where
  "uniqueById key groups = snd (unique_groups key groups ({}, []))"

definition flattenedSessionList ::
    "SessionListResponse InfiniteData option \<Rightarrow> SessionListResponse option" where
  "flattenedSessionList pages =
     (case pages of
        None \<Rightarrow> None
      | Some p \<Rightarrow>
          (if data_pages p = [] then None
           else Some \<lparr>list_items = uniqueById summary_id (map list_items (data_pages p)),
                      list_total = list_total (hd (data_pages p)),
                      list_next_cursor = list_next_cursor (last (data_pages p))\<rparr>))"

definition flattenedSessionDetail :: "SessionDetail InfiniteData option \<Rightarrow> SessionDetail option" where
  "flattenedSessionDetail pages =
     (case pages of
        None \<Rightarrow> None
      | Some p \<Rightarrow>
          (if data_pages p = [] then None
           else (let firstPage = hd (data_pages p)
                 in Some (firstPage\<lparr>attempts := uniqueById attempt_id (map attempts (data_pages p)),
                            attempts_total := attempts_total firstPage,
                            attempts_next_cursor := attempts_next_cursor (last (data_pages p))\<rparr>))))"

definition list_getNextPageParam :: "SessionListResponse \<Rightarrow> string option" where
  "list_getNextPageParam lastPage = list_next_cursor lastPage"

definition detail_getNextPageParam :: "SessionDetail \<Rightarrow> string option" where
  "detail_getNextPageParam lastPage = attempts_next_cursor lastPage"

definition sessionsList_enabled :: "bool \<Rightarrow> bool \<Rightarrow> bool" where
  "sessionsList_enabled enabled canSubmitQuery = (enabled \<and> canSubmitQuery)"

definition sessionDetail_enabled :: "string \<Rightarrow> bool \<Rightarrow> 'l deletion_lifecycle \<Rightarrow> bool" where
  "sessionDetail_enabled sid canSubmitQuery s =
     (sid \<noteq> [] \<and> canSubmitQuery \<and> \<not> isSessionUnavailable sid s)"

section \<open>The detail fetch\<close>

text \<open>The version kept across the await, or the error thrown before the request is made.\<close>

definition sessionDetail_start :: "string \<Rightarrow> 'l deletion_lifecycle \<Rightarrow> nat outcome" where
  "sessionDetail_start sid s =
     (let deletionVersion = getSessionDeletionVersion sid s
      in if isSessionUnavailable sid s then Inl SessionDeletionError else Inr deletionVersion)"

definition sessionDetail_settle ::
    "string \<Rightarrow> nat \<Rightarrow> SessionDetail outcome \<Rightarrow> 'l deletion_lifecycle \<Rightarrow> SessionDetail outcome" where
  "sessionDetail_settle sid deletionVersion response s =
     (case response of
        Inl e \<Rightarrow> Inl e
      | Inr d \<Rightarrow> if didSessionDeletionStart sid deletionVersion s then Inl SessionDeletionError else Inr d)"

section \<open>The mutations\<close>

datatype cache_command =
    CancelQueries "string list" bool
  | RemoveQueries "string list" bool
  | InvalidateQueries "string list" bool
  | SetSessionList "SessionListResponse InfiniteData option"
  | SetSessionDetail string "SessionDetail InfiniteData"

datatype session_request = CreateSession | DeleteSession string

definition createSession_mutationFn :: "bool \<Rightarrow> session_request outcome" where
  "createSession_mutationFn canSubmitQuery =
     (case requirePermission canSubmitQuery QUERY_SUBMIT of Inl e \<Rightarrow> Inl e | Inr _ \<Rightarrow> Inr CreateSession)"

definition createSession_onSuccess :: "cache_command list" where
  "createSession_onSuccess = [InvalidateQueries [''sessions''] False]"

definition deleteSession_mutationFn :: "bool \<Rightarrow> string \<Rightarrow> session_request outcome" where
  "deleteSession_mutationFn canSubmitQuery sid =
     (case requirePermission canSubmitQuery QUERY_SUBMIT of Inl e \<Rightarrow> Inl e | Inr _ \<Rightarrow> Inr (DeleteSession sid))"

definition deleteSession_onMutate ::
    "bool \<Rightarrow> string \<Rightarrow> SessionDetail InfiniteData option \<Rightarrow> 'l deletion_lifecycle \<Rightarrow>
     (SessionDetail InfiniteData option \<times> cache_command list) outcome \<times> 'l deletion_lifecycle" where
  "deleteSession_onMutate canSubmitQuery sid cachedDetail s =
     (case requirePermission canSubmitQuery QUERY_SUBMIT of
        Inl e \<Rightarrow> (Inl e, s)
      | Inr _ \<Rightarrow>
          (let s1 = fst (beginSessionDeletion sid s);
               previousDetail = cachedDetail
           in (Inr (previousDetail,
                    [CancelQueries [''sessions'', sid] True, RemoveQueries [''sessions'', sid] True]), s1)))"

definition remove_from_page :: "string \<Rightarrow> SessionListResponse \<Rightarrow> SessionListResponse" where
  "remove_from_page sid page =
     page\<lparr>list_items := filter (\<lambda>session. summary_id session \<noteq> sid) (list_items page),
          list_total := max 0 (list_total page - 1)\<rparr>"

definition removeSession_updater ::
    "string \<Rightarrow> SessionListResponse InfiniteData option \<Rightarrow> SessionListResponse InfiniteData option" where
  "removeSession_updater sid current =
     (case current of
        None \<Rightarrow> None
      | Some p \<Rightarrow>
          (if \<not> list_ex (\<lambda>page. list_ex (\<lambda>session. summary_id session = sid) (list_items page)) (data_pages p)
           then Some p
           else Some (p\<lparr>data_pages := map (remove_from_page sid) (data_pages p)\<rparr>)))"

definition deleteSession_onSuccess ::
    "string \<Rightarrow> SessionListResponse InfiniteData option \<Rightarrow> cache_command list" where
  "deleteSession_onSuccess sid cachedList =
     [SetSessionList (removeSession_updater sid cachedList),
      RemoveQueries [''sessions'', sid] True,
      InvalidateQueries [''sessions''] True,
      InvalidateQueries [''history''] False]"

definition deleteSession_onError ::
    "string \<Rightarrow> SessionDetail InfiniteData option option \<Rightarrow> 'l deletion_lifecycle \<Rightarrow>
     cache_command list \<times> 'l deletion_lifecycle" where
  "deleteSession_onError sid context s =
     ((case context of Some (Some previousDetail) \<Rightarrow> [SetSessionDetail sid previousDetail] | _ \<Rightarrow> []) @
      [InvalidateQueries [''sessions''] True,
       InvalidateQueries [''sessions'', sid] True,
       InvalidateQueries [''history''] False],
      rollbackSessionDeletion sid s)"

definition sample_detail :: SessionDetail where
  "sample_detail =
     \<lparr>attempts = [], attempts_next_cursor = None, attempts_total = 0, detail_connection_id = None,
      detail_created_at = ''t'', detail_id = ''a'', detail_last_activity_at = ''t'', detail_preview_text = []\<rparr>"

section \<open>Lemmas\<close>

lemma unique_items_firsts:
  assumes "fst acc = key ` set (snd acc)"
  shows "fst (unique_items key grp acc) = key ` set (snd (unique_items key grp acc)) \<and>
    rev (snd (unique_items key grp acc)) =
      foldl (\<lambda>us x. if key x \<in> key ` set us then us else x # us) (rev (snd acc)) grp"
  using assms by (induction key grp acc rule: unique_items.induct) auto

lemma unique_groups_firsts:
  assumes "fst acc = key ` set (snd acc)"
  shows "rev (snd (unique_groups key groups acc)) =
      foldl (\<lambda>us x. if key x \<in> key ` set us then us else x # us) (rev (snd acc)) (concat groups)"
  using assms
proof (induction groups arbitrary: acc)
  case (Cons grp groups)
  from Cons.IH [of "unique_items key grp acc"] unique_items_firsts [OF Cons.prems, of grp]
  show ?case by (simp add: foldl_append)
qed simp

lemma uniqueById_firsts: "uniqueById key groups = firsts_by key (concat groups)"
proof -
  have "rev (uniqueById key groups) = rev (firsts_by key (concat groups))"
    using unique_groups_firsts [of "({}, [])" key groups] by (simp add: uniqueById_def firsts_by_def)
  then show ?thesis by simp
qed

lemma firsts_by_filter:
  assumes "\<And>x y. key x = key y \<Longrightarrow> P x = P y"
  shows "firsts_by key (filter P xs) = filter P (firsts_by key xs)"
proof (induction xs rule: rev_induct)
  case (snoc x xs)
  have "key x \<in> key ` set (filter P (firsts_by key xs))" if "P x" "key x \<in> key ` set (firsts_by key xs)"
  proof -
    from that(2) obtain y where y: "y \<in> set (firsts_by key xs)" "key x = key y" by blast
    with assms [of x y] that(1) show ?thesis by (intro image_eqI [of _ _ y]) simp_all
  qed
  with snoc show ?case by (auto simp: firsts_by_snoc)
qed simp

lemma flattened_items: "flattenedSessionList pages = Some l \<Longrightarrow> \<exists>p. pages = Some p \<and> data_pages p \<noteq> [] \<and>
    list_items l = firsts_by summary_id (concat (map list_items (data_pages p)))"
  by (auto simp: flattenedSessionList_def uniqueById_firsts split: option.splits if_splits)

lemma filter_concat_pages:
  "concat (map (\<lambda>page. list_items (remove_from_page sid page)) ps) =
     filter (\<lambda>x. summary_id x \<noteq> sid) (concat (map list_items ps))"
  by (induction ps) (simp_all add: remove_from_page_def)

section \<open>Properties\<close>

text \<open>
  Pagination: the flattened session list shows every session of every loaded page exactly once, at
  its first occurrence and as first loaded, with the total of the first page and the cursor of the last.
\<close>

lemma session_list_has_every_session_once:
  assumes "data_pages p \<noteq> []"
  shows "\<exists>l. flattenedSessionList (Some p) = Some l \<and>
    distinct (map summary_id (list_items l)) \<and>
    summary_id ` set (list_items l) = (\<Union>page \<in> set (data_pages p). summary_id ` set (list_items page)) \<and>
    (\<forall>sid. find_first (\<lambda>x. summary_id x = sid) (list_items l) =
       find_first (\<lambda>x. summary_id x = sid) (concat (map list_items (data_pages p)))) \<and>
    list_total l = list_total (hd (data_pages p)) \<and> list_next_cursor l = list_next_cursor (last (data_pages p))"
proof -
  let ?xs = "concat (map list_items (data_pages p))"
  have "summary_id ` set (firsts_by summary_id ?xs) = (\<Union>page \<in> set (data_pages p). summary_id ` set (list_items page))"
    by (simp add: firsts_by_keys image_UN)
  then show ?thesis
    using assms by (simp add: flattenedSessionList_def uniqueById_firsts firsts_by_distinct firsts_by_find)
qed

text \<open>
  Deleting a session removes it, and nothing else, from what is shown: what the list shows after
  the cache update of a successful deletion is what it showed before without that session, with the
  total one lower (never below zero) when the session was on a loaded page and unchanged otherwise.
\<close>

lemma deletion_commutes_with_flattening:
  "flattenedSessionList (removeSession_updater sid pages) =
     map_option
       (\<lambda>l. l\<lparr>list_items := filter (\<lambda>session. summary_id session \<noteq> sid) (list_items l),
              list_total := (if sid \<in> summary_id ` set (list_items l) then max 0 (list_total l - 1)
                             else list_total l)\<rparr>)
       (flattenedSessionList pages)"
proof (cases "flattenedSessionList pages")
  case None
  then show ?thesis
    by (auto simp: flattenedSessionList_def removeSession_updater_def split: option.splits if_splits)
next
  case (Some l)
  from flattened_items [OF Some] obtain p where p: "pages = Some p" "data_pages p \<noteq> []"
    and items: "list_items l = firsts_by summary_id (concat (map list_items (data_pages p)))" by blast
  let ?has = "list_ex (\<lambda>page. list_ex (\<lambda>session. summary_id session = sid) (list_items page)) (data_pages p)"
  have has: "?has \<longleftrightarrow> sid \<in> summary_id ` set (list_items l)"
    by (auto simp: items firsts_by_keys list_ex_iff)
  have filt: "firsts_by summary_id (filter (\<lambda>x. summary_id x \<noteq> sid) (concat (map list_items (data_pages p)))) =
      filter (\<lambda>x. summary_id x \<noteq> sid) (list_items l)"
    unfolding items by (rule firsts_by_filter) simp
  have keep: "filter (\<lambda>x. summary_id x \<noteq> sid) (list_items l) = list_items l" if "\<not> ?has"
    using that unfolding has by (auto intro!: filter_True)
  show ?thesis
  proof (cases ?has)
    case True
    with Some p has filt show ?thesis
      by (simp add: flattenedSessionList_def removeSession_updater_def uniqueById_firsts hd_map last_map
          comp_def filter_concat_pages) (auto simp: remove_from_page_def)
  next
    case False
    with Some p has keep show ?thesis by (simp add: removeSession_updater_def)
  qed
qed

text \<open>
  A session detail is never shown for a session that was deleted while it loaded: a detail fetch
  that began delivers its data only if the session was available at every moment until it settled, and
  it delivers whenever no deletion began meanwhile (within one identity: no lifecycle reset).
\<close>

lemma fetched_detail_of_living_session:
  assumes "sessionDetail_start sid s = Inr v" and "list_all keeps_identity (es @ fs)"
  shows "(\<forall>d. sessionDetail_settle sid v (Inr d) (lifecycle_run (es @ fs) s) = Inr d \<longrightarrow>
       \<not> isSessionUnavailable sid (lifecycle_run es s)) \<and>
    (BeginDeletion sid \<notin> set es \<longrightarrow> sessionDetail_settle sid v (Inr d) (lifecycle_run es s) = Inr d)"
proof (intro conjI allI impI)
  from assms(1) have v: "v = getSessionDeletionVersion sid s" and av: "\<not> isSessionUnavailable sid s"
    by (auto simp: sessionDetail_start_def Let_def split: if_splits)
  {
    fix d
    assume "sessionDetail_settle sid v (Inr d) (lifecycle_run (es @ fs) s) = Inr d"
    then have "getSessionDeletionVersion sid (fold lifecycle_step (es @ fs) s) = getSessionDeletionVersion sid s"
      by (simp add: sessionDetail_settle_def didSessionDeletionStart_def v lifecycle_run_fold split: if_splits)
    with assms(2) av show "\<not> isSessionUnavailable sid (lifecycle_run es s)"
      unfolding lifecycle_run_fold by (rule lifecycle.unchanged_version_never_gone)
  }
  assume "BeginDeletion sid \<notin> set es"
  with assms(2) have "getSessionDeletionVersion sid (lifecycle_run es s) = getSessionDeletionVersion sid s"
  proof (induction es rule: rev_induct)
    case (snoc e es)
    then show ?case using version_step_bump [of e sid "lifecycle_run es s"] by (auto simp: lifecycle_run_fold)
  qed simp
  then show "sessionDetail_settle sid v (Inr d) (lifecycle_run es s) = Inr d"
    by (simp add: sessionDetail_settle_def didSessionDeletionStart_def v)
qed

end
