(* ===== verification/Ui_Store.thy ===== *)
theory Ui_Store
  imports Js_Prelude
begin

text \<open>
  The UI store of \<open>frontend/src/stores/uiStore.ts\<close>: one function per action of the store, what is
  persisted, and the state a reload starts from.
\<close>

record UIState =
  sidebarCollapsed :: bool
  ui_activeSessionId :: "string option"
  hoveredSessionId :: "string option"
  promptDraft :: string

definition init_ui :: UIState where
  "init_ui = \<lparr>sidebarCollapsed = False, ui_activeSessionId = None, hoveredSessionId = None, promptDraft = []\<rparr>"

definition toggleSidebar :: "UIState \<Rightarrow> UIState" where
  "toggleSidebar s = s\<lparr>sidebarCollapsed := \<not> sidebarCollapsed s\<rparr>"

definition collapseSidebar :: "UIState \<Rightarrow> UIState" where
  "collapseSidebar s = s\<lparr>sidebarCollapsed := True\<rparr>"

definition setActiveSessionId :: "string option \<Rightarrow> UIState \<Rightarrow> UIState" where
  "setActiveSessionId i s = s\<lparr>ui_activeSessionId := i\<rparr>"

definition setHoveredSessionId :: "string option \<Rightarrow> UIState \<Rightarrow> UIState" where
  "setHoveredSessionId i s = s\<lparr>hoveredSessionId := i\<rparr>"

definition setPromptDraft :: "string \<Rightarrow> UIState \<Rightarrow> UIState" where
  "setPromptDraft draft s = s\<lparr>promptDraft := draft\<rparr>"

definition ui_resetIdentityState :: "UIState \<Rightarrow> UIState" where
  "ui_resetIdentityState s = s\<lparr>ui_activeSessionId := None, hoveredSessionId := None, promptDraft := []\<rparr>"

text \<open>What is persisted, and the state a reload starts from.\<close>

definition partialize :: "UIState \<Rightarrow> bool" where
  "partialize s = sidebarCollapsed s"

definition rehydrate :: "bool \<Rightarrow> UIState" where
  "rehydrate persisted = init_ui\<lparr>sidebarCollapsed := persisted\<rparr>"

end
