(* ===== verification/Identity_Boundary.thy ===== *)
theory Identity_Boundary
  imports Permissions Session_Deletion Response_Validation Ui_Store
    "HOL-Library.Char_ord" "HOL-Library.List_Lexorder"
begin

text \<open>
  The identity boundary of \<open>frontend/src/providers/QueryProvider.tsx\<close>, with the UI store it resets.
  The state is a record of the component's state variables and
  refs, the current-user query as the query library reports it, and what the boundary does to its
  surroundings: the feature clients it cleared, the identity-scoped part of the UI store and the
  session deletion lifecycle. A feature client is created together with a generation and is named by
  it. Each handler, layout effect and \<open>finally\<close> callback is one step; React applies the state updates
  of a handler before the next event, so a step reads the state the last one left. The query library
  may report any query state at any time.
\<close>

section \<open>Identities\<close>

record UserProfile = PermissionBearingUser +
  user_id :: string
  role_id :: "string option"
  role_name :: "string option"

type_synonym CurrentUserResponse = "UserProfile option"

definition identityFingerprint :: "CurrentUserResponse option \<Rightarrow> string" where
  "identityFingerprint response =
     (case response of
        Some (Some user) \<Rightarrow>
          (let perms = join_with '','' (sort (case permissions user of None \<Rightarrow> [] | Some ps \<Rightarrow> ps));
               or_empty = (\<lambda>v. case v of None \<Rightarrow> [] | Some s \<Rightarrow> s)
           in join_with ''|'' [user_id user, or_empty (role_id user), or_empty (role_name user), perms])
      | _ \<Rightarrow> ''anonymous'')"

definition failClosedAuthorizationSnapshot :: "CurrentUserResponse option \<Rightarrow> CurrentUserResponse option" where
  "failClosedAuthorizationSnapshot response =
     (case response of
        Some (Some user) \<Rightarrow> Some (Some (user\<lparr>permissions := Some []\<rparr>))
      | _ \<Rightarrow> response)"

definition featureQueryRetry :: "nat \<Rightarrow> jsval \<Rightarrow> bool" where
  "featureQueryRetry failureCount err = (\<not> isClientContractError err \<and> failureCount < 1)"

section \<open>State\<close>

record currentUserQuery =
  q_data :: "CurrentUserResponse option"
  q_isLoading :: bool
  q_isFetching :: bool
  q_isError :: bool
  q_isSuccess :: bool
  q_error :: jsval

record featureSession =
  fingerprint :: string
  generation :: nat

record boundary =
  isExplicitlySignedOut :: bool
  sessionExpired :: bool
  authGeneration :: nat
  authorizationRefresh :: bool
  authorizationKeyInFlight :: "string option"
  authorizationRefreshSequence :: nat
  lastDeniedFingerprint :: "string option"
  user_query :: currentUserQuery
  feature :: featureSession
  isAuthTransitionPending :: bool
  isAuthorizationRefreshPending :: bool
  verifiedAuthorizationKey :: "string option"
  b_authorizationKey :: "string option"
  cleared_clients :: "nat list"
  ui :: UIState
  deletions :: "unit deletion_lifecycle"

definition init_boundary :: "string option \<Rightarrow> UIState \<Rightarrow> boundary" where
  "init_boundary key u =
     \<lparr>isExplicitlySignedOut = False, sessionExpired = False, authGeneration = 0,
      authorizationRefresh = False, authorizationKeyInFlight = None, authorizationRefreshSequence = 0,
      lastDeniedFingerprint = None,
      user_query = \<lparr>q_data = None, q_isLoading = True, q_isFetching = True, q_isError = False,
                     q_isSuccess = False, q_error = JNull\<rparr>,
      feature = \<lparr>fingerprint = ''pending'', generation = 0\<rparr>,
      isAuthTransitionPending = False, isAuthorizationRefreshPending = False,
      verifiedAuthorizationKey = key, b_authorizationKey = key, cleared_clients = [], ui = u,
      deletions = empty_lifecycle\<rparr>"

section \<open>What the boundary exposes\<close>

definition sessionSnapshotExpired :: "boundary \<Rightarrow> bool" where
  "sessionSnapshotExpired b = (q_isError (user_query b) \<and> isSessionExpiryError (q_error (user_query b)))"

definition exposedCurrentUserQuery :: "boundary \<Rightarrow> currentUserQuery" where
  "exposedCurrentUserQuery b =
     (if isExplicitlySignedOut b \<or> sessionSnapshotExpired b
      then (user_query b)\<lparr>q_data := None, q_isLoading := False, q_isFetching := False,
             q_isError := False, q_isSuccess := False, q_error := JNull\<rparr>
      else if q_isError (user_query b)
      then (user_query b)\<lparr>q_data := failClosedAuthorizationSnapshot (q_data (user_query b))\<rparr>
      else user_query b)"

definition observedFingerprint :: "boundary \<Rightarrow> string option" where
  "observedFingerprint b =
     (if q_isFetching (exposedCurrentUserQuery b) then None
      else Some (identityFingerprint (q_data (exposedCurrentUserQuery b))))"

definition needsIdentityReset :: "boundary \<Rightarrow> bool" where
  "needsIdentityReset b =
     (case observedFingerprint b of None \<Rightarrow> False | Some f \<Rightarrow> f \<noteq> fingerprint (feature b))"

definition needsLocationAuthorizationRefresh :: "boundary \<Rightarrow> bool" where
  "needsLocationAuthorizationRefresh b =
     (b_authorizationKey b \<noteq> None \<and> b_authorizationKey b \<noteq> verifiedAuthorizationKey b)"

text \<open>What is on the screen: the spinner, or the children over the feature client of a generation.\<close>

datatype boundary_view = BoundarySpinner | Children nat

definition boundary_render :: "boundary \<Rightarrow> boundary_view" where
  "boundary_render b =
     (if q_isFetching (exposedCurrentUserQuery b) \<or> needsIdentityReset b \<or> isAuthTransitionPending b \<or>
         isAuthorizationRefreshPending b \<or> needsLocationAuthorizationRefresh b
      then BoundarySpinner
      else Children (generation (feature b)))"

section \<open>Handlers and effects\<close>

definition resetIdentityState :: "boundary \<Rightarrow> boundary" where
  "resetIdentityState b =
     b\<lparr>ui := ui_resetIdentityState (ui b), deletions := resetSessionDeletionLifecycle (deletions b)\<rparr>"

text \<open>
  Clearing the feature client, resetting the identity state and installing a new client with the next
  generation: the sequence the four call sites share.
\<close>

definition rotate_client :: "string \<Rightarrow> boundary \<Rightarrow> boundary" where
  "rotate_client f b =
     (let b1 = resetIdentityState (b\<lparr>cleared_clients := cleared_clients b @ [generation (feature b)]\<rparr>)
      in b1\<lparr>feature := \<lparr>fingerprint = f, generation = generation (feature b1) + 1\<rparr>\<rparr>)"

definition on_session_expiry :: "boundary \<Rightarrow> boundary" where
  "on_session_expiry b =
     (if sessionExpired b then b
      else rotate_client ''anonymous''
             (b\<lparr>sessionExpired := True, authGeneration := authGeneration b + 1,
                isExplicitlySignedOut := True\<rparr>))"

definition on_permission_denied :: "boundary \<Rightarrow> boundary" where
  "on_permission_denied b =
     (if observedFingerprint b = None \<or> authorizationRefresh b \<or>
         lastDeniedFingerprint b = observedFingerprint b
      then b
      else rotate_client (fingerprint (feature b))
             (b\<lparr>authorizationRefresh := True, lastDeniedFingerprint := observedFingerprint b,
                isAuthorizationRefreshPending := True\<rparr>))"

definition denied_refetch_finally :: "boundary \<Rightarrow> boundary" where
  "denied_refetch_finally b = b\<lparr>authorizationRefresh := False, isAuthorizationRefreshPending := False\<rparr>"

definition location_refresh_effect :: "boundary \<Rightarrow> boundary" where
  "location_refresh_effect b =
     (if \<not> needsLocationAuthorizationRefresh b \<or> b_authorizationKey b = None \<or>
         authorizationKeyInFlight b = b_authorizationKey b
      then b
      else b\<lparr>authorizationRefreshSequence := authorizationRefreshSequence b + 1,
             authorizationKeyInFlight := b_authorizationKey b,
             authorizationRefresh := True, isAuthorizationRefreshPending := True\<rparr>)"

definition location_refetch_finally :: "nat \<Rightarrow> string \<Rightarrow> boundary \<Rightarrow> boundary" where
  "location_refetch_finally sequence key b =
     (if authorizationRefreshSequence b \<noteq> sequence then b
      else b\<lparr>authorizationKeyInFlight := None, authorizationRefresh := False,
             lastDeniedFingerprint := None, verifiedAuthorizationKey := Some key,
             isAuthorizationRefreshPending := False\<rparr>)"

definition beginAuthTransition :: "boundary \<Rightarrow> boundary" where
  "beginAuthTransition b =
     rotate_client (fingerprint (feature b))
       (b\<lparr>authGeneration := authGeneration b + 1, isAuthTransitionPending := True\<rparr>)"

definition auth_onError :: "boundary \<Rightarrow> boundary" where
  "auth_onError b = b\<lparr>isAuthTransitionPending := False\<rparr>"

definition signIn_onSuccess :: "CurrentUserResponse \<Rightarrow> boundary \<Rightarrow> boundary" where
  "signIn_onSuccess response b =
     b\<lparr>sessionExpired := False, lastDeniedFingerprint := None,
       user_query := (user_query b)\<lparr>q_data := Some response, q_isError := False, q_isSuccess := True,
                       q_error := JNull\<rparr>,
       isExplicitlySignedOut := False, isAuthTransitionPending := False\<rparr>"

definition signOut_onSuccess :: "boundary \<Rightarrow> boundary" where
  "signOut_onSuccess b =
     b\<lparr>sessionExpired := True, isExplicitlySignedOut := True, isAuthTransitionPending := False\<rparr>"

definition identity_reset_effect :: "boundary \<Rightarrow> boundary" where
  "identity_reset_effect b =
     (if \<not> needsIdentityReset b then b
      else (case observedFingerprint b of None \<Rightarrow> b | Some f \<Rightarrow> rotate_client f b))"

section \<open>Requests\<close>

text \<open>
  \<open>publishSessionExpiry\<close> and the two places that report errors: whether the expiry or the denial
  listeners are called. The location is what \<open>handleSessionExpiry\<close> makes of it.
\<close>

datatype notification = NoNotification | SessionExpiryNotification | PermissionDeniedNotification

definition publishSessionExpiry :: "jsval \<Rightarrow> string \<Rightarrow> browser_location \<Rightarrow> bool \<times> browser_location" where
  "publishSessionExpiry err sourcePath loc =
     (if \<not> isSessionExpiryError err then (False, loc) else (True, handleSessionExpiry err sourcePath loc))"

definition handleFeatureError :: "jsval \<Rightarrow> browser_location \<Rightarrow> notification \<times> browser_location" where
  "handleFeatureError err loc =
     (case publishSessionExpiry err (loc_pathname loc) loc of
        (True, loc') \<Rightarrow> (SessionExpiryNotification, loc')
      | (False, loc') \<Rightarrow>
          ((if isPermissionDeniedError err then PermissionDeniedNotification else NoNotification), loc'))"

definition response_interceptor :: "string \<Rightarrow> nat \<Rightarrow> notification" where
  "response_interceptor pathname status =
     (if str_includes pathname ''/auth/'' then NoNotification
      else if status = 401 then SessionExpiryNotification
      else if status = 403 then PermissionDeniedNotification
      else NoNotification)"

definition SupersededError :: jsval where
  "SupersededError = new_error DOMExceptionClass ''AbortError'' ''Superseded authentication request''"

text \<open>The current-user request: its outcome, and whether it reports an expired session.\<close>

definition getMe_settle :: "nat \<Rightarrow> CurrentUserResponse outcome \<Rightarrow> boundary \<Rightarrow> CurrentUserResponse outcome \<times> bool" where
  "getMe_settle requestGeneration response b =
     (let tried = (case response of
                     Inl e \<Rightarrow> Inl e
                   | Inr r \<Rightarrow> if requestGeneration \<noteq> authGeneration b then Inl SupersededError else Inr r)
      in (tried, case tried of Inl e \<Rightarrow> isSessionExpiryError e | Inr _ \<Rightarrow> False))"

section \<open>Events\<close>

datatype boundary_event =
    QueryReports currentUserQuery
  | KeyChanges "string option"
  | UiChanges UIState
  | DeletionsChange "unit deletion_lifecycle"
  | SessionExpires
  | PermissionDenied
  | DeniedRefetched
  | LocationEffect
  | LocationRefetched nat string
  | TransitionBegins
  | TransitionFails
  | SignedIn CurrentUserResponse
  | SignedOut
  | IdentityEffect

fun boundary_step :: "boundary_event \<Rightarrow> boundary \<Rightarrow> boundary" where
  "boundary_step (QueryReports q) b = b\<lparr>user_query := q\<rparr>"
| "boundary_step (KeyChanges key) b = b\<lparr>b_authorizationKey := key\<rparr>"
| "boundary_step (UiChanges u) b = b\<lparr>ui := u\<rparr>"
| "boundary_step (DeletionsChange d) b = b\<lparr>deletions := d\<rparr>"
| "boundary_step SessionExpires b = on_session_expiry b"
| "boundary_step PermissionDenied b = on_permission_denied b"
| "boundary_step DeniedRefetched b = denied_refetch_finally b"
| "boundary_step LocationEffect b = location_refresh_effect b"
| "boundary_step (LocationRefetched n key) b = location_refetch_finally n key b"
| "boundary_step TransitionBegins b = beginAuthTransition b"
| "boundary_step TransitionFails b = auth_onError b"
| "boundary_step (SignedIn r) b = signIn_onSuccess r b"
| "boundary_step SignedOut b = signOut_onSuccess b"
| "boundary_step IdentityEffect b = identity_reset_effect b"

definition boundary_run :: "boundary_event list \<Rightarrow> boundary \<Rightarrow> boundary" where
  "boundary_run es b = fold boundary_step es b"

section \<open>Lemmas\<close>

lemmas boundary_defs =
  on_session_expiry_def on_permission_denied_def denied_refetch_finally_def location_refresh_effect_def
  location_refetch_finally_def beginAuthTransition_def auth_onError_def signIn_onSuccess_def
  signOut_onSuccess_def identity_reset_effect_def rotate_client_def resetIdentityState_def Let_def

text \<open>A step keeps the feature session, or clears its client and starts the next generation.\<close>

lemma feature_step:
  "(feature (boundary_step e b) = feature b \<and> cleared_clients (boundary_step e b) = cleared_clients b) \<or>
   (generation (feature (boundary_step e b)) = Suc (generation (feature b)) \<and>
    cleared_clients (boundary_step e b) = cleared_clients b @ [generation (feature b)] \<and>
    ui (boundary_step e b) = ui_resetIdentityState (ui b) \<and>
    deletions (boundary_step e b) = resetSessionDeletionLifecycle (deletions b))"
  by (cases e) (auto simp: boundary_defs split: option.splits)

lemma generation_run: "generation (feature b) \<le> generation (feature (boundary_run es b))"
proof (induction es rule: rev_induct)
  case (snoc e es)
  then show ?case using feature_step [of e "boundary_run es b"] by (auto simp: boundary_run_def)
qed (simp add: boundary_run_def)

lemma same_generation_same_feature:
  "generation (feature (boundary_run es b)) = generation (feature b) \<Longrightarrow> feature (boundary_run es b) = feature b"
proof (induction es rule: rev_induct)
  case (snoc e es)
  have "generation (feature b) \<le> generation (feature (boundary_run es b))" by (rule generation_run)
  with snoc feature_step [of e "boundary_run es b"] show ?case by (auto simp: boundary_run_def)
qed (simp add: boundary_run_def)

lemma children_fingerprint:
  "boundary_render b = Children g \<Longrightarrow>
     generation (feature b) = g \<and> identityFingerprint (q_data (exposedCurrentUserQuery b)) = fingerprint (feature b)"
  by (auto simp: boundary_render_def needsIdentityReset_def observedFingerprint_def split: if_splits)

lemma signed_out_step:
  "isExplicitlySignedOut b \<Longrightarrow> (\<And>r. e \<noteq> SignedIn r) \<Longrightarrow> isExplicitlySignedOut (boundary_step e b)"
  by (cases e) (auto simp: boundary_defs split: option.splits)

lemma signed_out_run:
  "isExplicitlySignedOut b \<Longrightarrow> \<forall>r. SignedIn r \<notin> set es \<Longrightarrow> isExplicitlySignedOut (boundary_run es b)"
proof (induction es rule: rev_induct)
  case (snoc e es)
  then have "isExplicitlySignedOut (boundary_run es b)" by auto
  moreover have "\<And>r. e \<noteq> SignedIn r" using snoc.prems(2) by auto
  ultimately show ?case using signed_out_step by (simp add: boundary_run_def)
qed (simp add: boundary_run_def)

text \<open>An expired session is a signed-out one, as long as only the handlers touch the two flags.\<close>

lemma expired_signed_out_run:
  "(sessionExpired b \<longrightarrow> isExplicitlySignedOut b) \<Longrightarrow>
   sessionExpired (boundary_run es b) \<longrightarrow> isExplicitlySignedOut (boundary_run es b)"
proof (induction es rule: rev_induct)
  case (snoc e es)
  then show ?case
    by (cases e) (auto simp: boundary_run_def boundary_defs split: option.splits if_splits)
qed (simp add: boundary_run_def)

section \<open>Fingerprints\<close>

definition or_empty :: "string option \<Rightarrow> string" where
  "or_empty v = (case v of None \<Rightarrow> [] | Some s \<Rightarrow> s)"

definition user_permissions :: "UserProfile \<Rightarrow> string list" where
  "user_permissions u = (case permissions u of None \<Rightarrow> [] | Some ps \<Rightarrow> ps)"

text \<open>Identifiers have no separators in them; the role name, free text, may have any.\<close>

definition plain_identity :: "UserProfile \<Rightarrow> bool" where
  "plain_identity u =
     (CHR ''|'' \<notin> set (user_id u) \<and> CHR ''|'' \<notin> set (or_empty (role_id u)) \<and>
      list_all (\<lambda>p. p \<noteq> [] \<and> CHR ''|'' \<notin> set p \<and> CHR '','' \<notin> set p) (user_permissions u))"

lemma join_set: "set (join_with d ws) \<subseteq> set d \<union> \<Union> (set ` set ws)"
  by (induction d ws rule: join_with.induct) auto

lemma fingerprint_shape:
  "identityFingerprint (Some (Some u)) =
     user_id u @ CHR ''|'' # or_empty (role_id u) @ CHR ''|'' # or_empty (role_name u) @ CHR ''|'' #
       join_with '','' (sort (user_permissions u))"
  by (simp add: identityFingerprint_def Let_def or_empty_def user_permissions_def)

lemma join_comma_permissions:
  assumes "join_with '','' (sort ps) = join_with '','' (sort qs)"
    and "list_all (\<lambda>p. p \<noteq> [] \<and> CHR '','' \<notin> set p) ps" and "list_all (\<lambda>p. p \<noteq> [] \<and> CHR '','' \<notin> set p) qs"
  shows "set ps = set qs"
proof -
  have empty: "ps = []" if "join_with '','' (sort ps) = []" "list_all (\<lambda>p. p \<noteq> [] \<and> CHR '','' \<notin> set p) ps"
    for ps :: "string list"
  proof (cases "sort ps" rule: remdups_adj.cases)
    case (2 x)
    then have "x \<in> set ps" by (metis list.set_intros(1) set_sort)
    with that 2 show ?thesis by (auto simp: list_all_iff)
  qed (use that in \<open>auto dest: arg_cong [of _ _ length]\<close>)
  show ?thesis
  proof (cases "ps = [] \<or> qs = []")
    case True
    with assms empty [of ps] empty [of qs] show ?thesis by auto
  next
    case False
    then have "sort ps \<noteq> []" "sort qs \<noteq> []" by (metis length_0_conv length_sort)+
    with assms(2,3) have sp: "split_on (CHR '','') (join_with '','' (sort ps)) = sort ps"
        "split_on (CHR '','') (join_with '','' (sort qs)) = sort qs"
      by (auto intro!: split_join_on simp: list_all_iff)
    have "sort ps = sort qs" using sp(1) unfolding assms(1) sp(2) by (rule sym)
    then show ?thesis by (metis set_sort)
  qed
qed

section \<open>Properties\<close>

text \<open>
  C11. A feature client serves one identity: if the children are on the screen over the same client at two
  moments, whatever happened in between, they were shown for the same identity fingerprint; and the
  clients of all earlier generations have been cleared.
\<close>

theorem client_serves_one_identity:
  assumes "b = boundary_run es (init_boundary key u)"
    and "boundary_render b = Children g" and "boundary_render (boundary_run fs b) = Children g"
  shows "identityFingerprint (q_data (exposedCurrentUserQuery (boundary_run fs b))) =
      identityFingerprint (q_data (exposedCurrentUserQuery b)) \<and>
    cleared_clients b = [0..<g]"
proof -
  note f1 = children_fingerprint [OF assms(2)] and f2 = children_fingerprint [OF assms(3)]
  then have "feature (boundary_run fs b) = feature b" by (intro same_generation_same_feature) simp
  moreover have "cleared_clients (boundary_run es (init_boundary key u)) =
      [0..<generation (feature (boundary_run es (init_boundary key u)))]"
  proof (induction es rule: rev_induct)
    case (snoc e es)
    then show ?case
      using feature_step [of e "boundary_run es (init_boundary key u)"] by (auto simp: boundary_run_def)
  qed (simp add: boundary_run_def init_boundary_def)
  ultimately show ?thesis using f1 f2 assms(1) by simp
qed

definition signed_in_query :: "UserProfile \<Rightarrow> currentUserQuery" where
  "signed_in_query u =
     \<lparr>q_data = Some (Some u), q_isLoading = False, q_isFetching = False, q_isError = False,
      q_isSuccess = True, q_error = JNull\<rparr>"

definition sample_user :: UserProfile where
  "sample_user =
     \<lparr>permissions = Some [''query.submit''], user_id = ''u'', role_id = Some ''r'', role_name = Some ''A|B''\<rparr>"

definition sample_boundary :: boundary where
  "sample_boundary =
     boundary_run [QueryReports (signed_in_query sample_user), IdentityEffect] (init_boundary (Some ''/'') init_ui)"

lemma sample_boundary_shown: "boundary_render sample_boundary = Children 1" by code_simp

theorem client_serves_one_identity_witness:
  "cleared_clients sample_boundary = [0..<1]"
  using client_serves_one_identity [of sample_boundary "[QueryReports (signed_in_query sample_user), IdentityEffect]"
      "Some ''/''" init_ui 1 "[]"] sample_boundary_shown
  by (simp add: sample_boundary_def boundary_run_def)

text \<open>
  C12. Once the session has expired or the user has signed out, nobody is exposed until a sign-in succeeds:
  no user data is published, no permission is granted, and on expiry the identity-scoped state was
  reset and the feature client replaced by a fresh one for the anonymous identity.
\<close>

theorem expired_session_exposes_nobody:
  assumes "b = boundary_run es (init_boundary key u)" and "\<forall>r. SignedIn r \<notin> set fs"
    and "e = SessionExpires \<or> e = SignedOut"
  shows "q_data (exposedCurrentUserQuery (boundary_run (e # fs) b)) = None \<and>
    (\<not> sessionExpired b \<and> e = SessionExpires \<longrightarrow>
       feature (boundary_step e b) = \<lparr>fingerprint = ''anonymous'', generation = generation (feature b) + 1\<rparr> \<and>
       ui (boundary_step e b) = ui_resetIdentityState (ui b) \<and>
       unavailableSessions (deletions (boundary_step e b)) = {})"
proof
  have "sessionExpired b \<longrightarrow> isExplicitlySignedOut b"
    unfolding assms(1) by (rule expired_signed_out_run) (simp add: init_boundary_def)
  then have "isExplicitlySignedOut (boundary_step e b)"
    using assms(3) by (auto simp: boundary_defs)
  with assms(2) have "isExplicitlySignedOut (boundary_run fs (boundary_step e b))" by (intro signed_out_run)
  then show "q_data (exposedCurrentUserQuery (boundary_run (e # fs) b)) = None"
    by (simp add: boundary_run_def exposedCurrentUserQuery_def)
qed (auto simp: boundary_defs resetSessionDeletionLifecycle_def)

theorem expired_session_exposes_nobody_witness:
  "q_data (exposedCurrentUserQuery (boundary_run [SessionExpires, QueryReports (signed_in_query sample_user)]
     sample_boundary)) = None"
  using expired_session_exposes_nobody [of sample_boundary
      "[QueryReports (signed_in_query sample_user), IdentityEffect]" "Some ''/''" init_ui
      "[QueryReports (signed_in_query sample_user)]" SessionExpires]
  by (simp add: sample_boundary_def)

text \<open>
  Authorization fails closed: while the current-user query is in error, whatever stale data it still
  carries, no permission is granted, so no protected route renders its page and the landing route is
  the access-denied page.
\<close>

lemma failed_authorization_grants_nothing:
  assumes "q_isError (user_query b)"
    and "user = map_option PermissionBearingUser.truncate (Option.bind (q_data (exposedCurrentUserQuery b)) (\<lambda>d. d))"
  shows "(\<forall>p. \<not> hasPermission user p) \<and> firstPermittedRoute user = None"
proof
  show all: "\<forall>p. \<not> hasPermission user p"
  proof (cases "isExplicitlySignedOut b \<or> sessionSnapshotExpired b")
    case True
    then show ?thesis by (simp add: assms(2) exposedCurrentUserQuery_def hasPermission_def)
  next
    case False
    with assms show ?thesis
      by (auto simp: exposedCurrentUserQuery_def failClosedAuthorizationSnapshot_def hasPermission_def
          PermissionBearingUser.truncate_def split: option.splits)
  qed
  show "firstPermittedRoute user = None"
    using all by (simp add: firstPermittedRoute_def landingRoutes_def)
qed

text \<open>
  The identity fingerprint separates identities: for users whose identifiers carry no separators
  (the role name may carry any character) equal fingerprints mean the same user, role and role name
  and the same granted permissions; and no user has the fingerprint of the anonymous identity.
\<close>

lemma fingerprint_separates_identities:
  assumes "plain_identity a" and "plain_identity c"
    and "identityFingerprint (Some (Some a)) = identityFingerprint (Some (Some c))"
  shows "user_id a = user_id c \<and> or_empty (role_id a) = or_empty (role_id c) \<and>
    or_empty (role_name a) = or_empty (role_name c) \<and> set (user_permissions a) = set (user_permissions c) \<and>
    identityFingerprint (Some (Some a)) \<noteq> identityFingerprint None"
proof -
  have nobar: "CHR ''|'' \<notin> set (join_with '','' (sort (user_permissions w)))" if "plain_identity w" for w
  proof
    assume "CHR ''|'' \<in> set (join_with '','' (sort (user_permissions w)))"
    with join_set [of "'',''" "sort (user_permissions w)"] obtain p where
      "p \<in> set (user_permissions w)" "CHR ''|'' \<in> set p" by fastforce
    with that show False by (auto simp: plain_identity_def list_all_iff)
  qed
  have a: "CHR ''|'' \<notin> set (user_id a)" "CHR ''|'' \<notin> set (or_empty (role_id a))"
    and c: "CHR ''|'' \<notin> set (user_id c)" "CHR ''|'' \<notin> set (or_empty (role_id c))"
    using assms(1,2) by (simp_all add: plain_identity_def)
  note f1 = first_sep_unique [OF a(1) c(1) assms(3) [unfolded fingerprint_shape]]
  note f2 = first_sep_unique [OF a(2) c(2) conjunct2 [OF f1]]
  note f3 = last_sep_unique [OF nobar [OF assms(1)] nobar [OF assms(2)] conjunct2 [OF f2]]
  have "set (user_permissions a) = set (user_permissions c)"
    by (rule join_comma_permissions [OF conjunct2 [OF f3]]) (use assms(1,2) in \<open>auto simp: plain_identity_def list_all_iff\<close>)
  moreover have "CHR ''|'' \<in> set (identityFingerprint (Some (Some a)))" unfolding fingerprint_shape by simp
  then have "identityFingerprint (Some (Some a)) \<noteq> identityFingerprint None"
    by (auto simp: identityFingerprint_def)
  ultimately show ?thesis
    using conjunct1 [OF f1] conjunct1 [OF f2] conjunct1 [OF f3] by (intro conjI)
qed

end
