(* ===== verification/Workspace.thy ===== *)
theory Workspace
  imports Sessions Request_Scope Response_Validation
begin

text \<open>
  The conversation of \<open>frontend/src/pages/WorkspacePage.tsx\<close>: its turns, what it makes of the saved
  attempts of the session and its own local turns, and its asynchronous handlers (submit, delete,
  regenerate, connection retry) with the session-switch effect. The state is a record of the state
  variables and refs, with the active session of the store, the deletion lifecycle and the query keys
  it invalidates. An asynchronous handler is a start and one settlement per await; the locals it keeps
  across them are arguments or a record. Values of the server (results, refine prompts, rejections)
  stay JavaScript values. The query-limit and prefill effects, the scroll restoration and the markup
  are not modelled.
\<close>

section \<open>Turns\<close>

datatype TurnRecoveryKind = DeleteFailed | DeleteUncertain | RegenerateFailed | RegenerateTerminal

datatype ConnectionErrorKind =
    NoConnections | Disabled | Unhealthy | NoSchema | QueryExecutionFailed | ConnectionTimeout

record UserConnectionResponse =
  conn_id :: string
  conn_display_name :: string
  conn_database_type :: string

text \<open>\<open>sourceSessionId\<close> may be absent, \<open>null\<close> or an id.\<close>

record ConversationTurn =
  turn_id :: string
  turn_question :: string
  turn_sql :: "string option"
  turn_result :: "jsval option"
  turn_refinePrompt :: "jsval option"
  turn_evaluatorRejection :: "jsval option"
  turn_isLoading :: bool
  savedQueryId :: "string option"
  attemptId :: "string option"
  connectionName :: "string option"
  databaseType :: "string option"
  connectionError :: "ConnectionErrorKind option"
  quotaExceeded :: "jsval option"
  hostileInputBlocked :: bool
  sourceSessionId :: "string option option"
  immutableConnectionId :: "string option"
  isRegenerating :: bool
  isConnectionRetrying :: bool
  recovery :: "TurnRecoveryKind option"

definition new_turn :: "string \<Rightarrow> string \<Rightarrow> ConversationTurn" where
  "new_turn i q =
     \<lparr>turn_id = i, turn_question = q, turn_sql = None, turn_result = None, turn_refinePrompt = None,
      turn_evaluatorRejection = None, turn_isLoading = False, savedQueryId = None, attemptId = None,
      connectionName = None, databaseType = None, connectionError = None, quotaExceeded = None,
      hostileInputBlocked = False, sourceSessionId = None, immutableConnectionId = None,
      isRegenerating = False, isConnectionRetrying = False, recovery = None\<rparr>"

definition filled :: "string option \<Rightarrow> bool" where
  "filled s = (case s of None \<Rightarrow> False | Some t \<Rightarrow> t \<noteq> [])"

definition js_str :: "jsval \<Rightarrow> string option" where
  "js_str v = (case v of JStr s \<Rightarrow> Some s | _ \<Rightarrow> None)"

section \<open>Error codes\<close>

definition getApiErrorCode :: "jsval \<Rightarrow> jsval" where
  "getApiErrorCode err =
     (if \<not> truthy err \<or> \<not> typeof_object err then JUndefined
      else (let detail = js_get err ''detail''
            in js_nullish (js_get err ''error'')
                 (if truthy detail \<and> typeof_object detail then js_get detail ''error'' else JUndefined)))"

definition isDefiniteServerFailure :: "jsval \<Rightarrow> bool" where
  "isDefiniteServerFailure err = (\<not> isClientContractError err \<and> getApiErrorCode err \<noteq> JUndefined)"

definition isTerminalAttemptError :: "jsval \<Rightarrow> bool" where
  "isTerminalAttemptError err =
     (let code = getApiErrorCode err in code = JStr ''attempt_invalid'' \<or> code = JStr ''attempt_expired'')"

definition mapApiErrorToConnectionErrorKind :: "jsval \<Rightarrow> ConnectionErrorKind option" where
  "mapApiErrorToConnectionErrorKind err =
     (let code = js_or (js_get err ''error'') (js_get (js_get err ''detail'') ''error'')
      in if \<not> truthy code then None
         else if code = JStr ''connection_disabled'' then Some Disabled
         else if code = JStr ''connection_unhealthy'' then Some Unhealthy
         else if code = JStr ''connection_no_schema'' then Some NoSchema
         else if code = JStr ''no_database_available'' then Some NoConnections
         else if code = JStr ''query_execution_failed'' then Some QueryExecutionFailed
         else if code = JStr ''timeout'' then Some ConnectionTimeout
         else None)"

definition rejection_types :: "(string \<times> string) list" where
  "rejection_types =
     [(''read_only'', ''read_only''), (''ReadOnly'', ''read_only''),
      (''single_statement'', ''single_statement''), (''SingleStatement'', ''single_statement''),
      (''schema_validation'', ''schema_validation''), (''SchemaValidation'', ''schema_validation''),
      (''unsafe_pattern'', ''unsafe_pattern''), (''UnsafePattern'', ''unsafe_pattern'')]"

definition mapEvaluatorRejection :: "jsval \<Rightarrow> (string \<times> jsval) list" where
  "mapEvaluatorRejection rejection =
     map (\<lambda>v.
        let rule = (case js_get v ''rule'' of JStr s \<Rightarrow> s | _ \<Rightarrow> []);
            type = (case map_of rejection_types rule of Some t \<Rightarrow> t | None \<Rightarrow> rule);
            params = js_get v ''message_params'';
            detail = (if type = ''schema_validation''
                      then js_or (js_or (js_get params ''table'') (js_get params ''column''))
                             (js_get params ''identifier'')
                      else if type = ''unsafe_pattern''
                      then js_or (js_get params ''pattern'') (js_get params ''name'')
                      else if type = ''syntax''
                      then js_or (js_get params ''details'') (js_get params ''error'')
                      else JUndefined)
        in (type, detail))
       (js_elems (js_get rejection ''violations''))"

section \<open>History turns\<close>

definition getConnectionMeta ::
    "string option \<Rightarrow> UserConnectionResponse list \<Rightarrow> string option \<times> string option" where
  "getConnectionMeta connectionId connections =
     (if \<not> filled connectionId then (None, None)
      else (case find_first (\<lambda>c. conn_id c = the connectionId) connections of
              None \<Rightarrow> (None, None)
            | Some conn \<Rightarrow> (Some (conn_display_name conn), Some (conn_database_type conn))))"

definition history_result :: "AttemptSummary \<Rightarrow> jsval list \<Rightarrow> jsval list \<Rightarrow> jsval" where
  "history_result a columns rows =
     plain [(''kind'', JStr ''result''), (''attempt_id'', JStr (attempt_id a)), (''session_id'', JUndefined),
       (''question'', JStr (question_text a)), (''generated_sql'', JStr (generated_sql a)),
       (''columns'', JArr columns), (''rows'', JArr rows),
       (''row_count'', jint (case result_row_count a of Some n \<Rightarrow> n | None \<Rightarrow> 0)),
       (''attempt_number'', jint 1), (''is_last_auto_retry'', JBool False),
       (''accepted_query_id'', JStr (attempt_id a))]"

definition buildHistoryTurn :: "AttemptSummary \<Rightarrow> UserConnectionResponse list \<Rightarrow> ConversationTurn" where
  "buildHistoryTurn a connections =
     (let turn = (new_turn (attempt_id a) (question_text a))
                   \<lparr>turn_sql := Some (generated_sql a), savedQueryId := Some (attempt_id a)\<rparr>;
          turn1 = (if filled (database_connection_name a) \<and> filled (database_type a)
                   then turn\<lparr>connectionName := database_connection_name a, databaseType := database_type a\<rparr>
                   else if filled (database_connection_id a)
                   then (let meta = getConnectionMeta (database_connection_id a) connections
                         in turn\<lparr>connectionName := fst meta, databaseType := snd meta\<rparr>)
                   else turn)
      in (case (result_columns a, result_rows a) of
            (Some columns, Some rows) \<Rightarrow> turn1\<lparr>turn_result := Some (history_result a columns rows)\<rparr>
          | _ \<Rightarrow> turn1))"

section \<open>State\<close>

record workspace =
  localTurns :: "ConversationTurn list"
  deletedSavedIds :: "string set"
  savedTurnRecoveries :: "string \<rightharpoonup> TurnRecoveryKind"
  renderedSessionId :: "string option"
  prevSessionId :: "string option"
  pendingSubmit :: bool
  pendingDeleteIds :: "string set"
  pendingRegenerateIds :: "string set"
  pendingConnectionRetryIds :: "string set"
  ws_activeSessionId :: "string option"
  ws_lifecycle :: "unit deletion_lifecycle"
  ws_invalidated :: "string list list"
  ws_alert :: "string option"

definition init_workspace :: "string option \<Rightarrow> workspace" where
  "init_workspace sid =
     \<lparr>localTurns = [], deletedSavedIds = {}, savedTurnRecoveries = Map.empty, renderedSessionId = sid,
      prevSessionId = sid, pendingSubmit = False, pendingDeleteIds = {}, pendingRegenerateIds = {},
      pendingConnectionRetryIds = {}, ws_activeSessionId = sid, ws_lifecycle = empty_lifecycle,
      ws_invalidated = [], ws_alert = None\<rparr>"

text \<open>
  The effect that runs when the active session changes while the page stays mounted, as it does when
  the answer to a first question creates the session. Selecting a session in the sidebar also
  navigates, which remounts the page: it starts again from \<open>init_workspace\<close>.
\<close>

definition session_switch_effect :: "workspace \<Rightarrow> workspace" where
  "session_switch_effect w =
     (let prevId = prevSessionId w;
          w1 = w\<lparr>prevSessionId := ws_activeSessionId w\<rparr>
      in if renderedSessionId w1 = ws_activeSessionId w1 then w1
         else if prevId = None \<and> ws_activeSessionId w1 \<noteq> None \<and> pendingSubmit w1
         then w1\<lparr>pendingSubmit := False, renderedSessionId := ws_activeSessionId w1\<rparr>
         else w1\<lparr>renderedSessionId := ws_activeSessionId w1, localTurns := [], deletedSavedIds := {},
                 savedTurnRecoveries := Map.empty\<rparr>)"

section \<open>What is shown\<close>

definition localSavedIdsWithActiveAttempt :: "workspace \<Rightarrow> string set" where
  "localSavedIdsWithActiveAttempt w =
     set (map (\<lambda>t. the (savedQueryId t))
       (filter (\<lambda>t. filled (savedQueryId t) \<and> filled (attemptId t) \<and> the (savedQueryId t) \<notin> deletedSavedIds w)
          (localTurns w)))"

definition historyAttempts :: "AttemptSummary list \<Rightarrow> workspace \<Rightarrow> AttemptSummary list" where
  "historyAttempts as w =
     filter (\<lambda>a. attempt_id a \<notin> deletedSavedIds w \<and> attempt_id a \<notin> localSavedIdsWithActiveAttempt w) as"

definition dedupedLocalTurns :: "AttemptSummary list \<Rightarrow> workspace \<Rightarrow> ConversationTurn list" where
  "dedupedLocalTurns as w =
     (let historyAttemptIds = set (map attempt_id (historyAttempts as w))
      in filter (\<lambda>t. \<not> (filled (savedQueryId t) \<and> the (savedQueryId t) \<in> historyAttemptIds) \<and>
                     \<not> (filled (savedQueryId t) \<and> the (savedQueryId t) \<in> deletedSavedIds w))
           (localTurns w))"

definition with_recovery :: "workspace \<Rightarrow> ConversationTurn \<Rightarrow> ConversationTurn" where
  "with_recovery w turn =
     (case (if filled (savedQueryId turn) then savedTurnRecoveries w (the (savedQueryId turn)) else None) of
        Some k \<Rightarrow> turn\<lparr>recovery := Some k\<rparr>
      | None \<Rightarrow> turn)"

definition allTurns ::
    "AttemptSummary list \<Rightarrow> UserConnectionResponse list \<Rightarrow> workspace \<Rightarrow> ConversationTurn list" where
  "allTurns as connections w =
     map (with_recovery w)
       (map (\<lambda>a. buildHistoryTurn a connections) (rev (historyAttempts as w)) @ dedupedLocalTurns as w)"

section \<open>Shared helpers\<close>

definition isCurrentSessionContext :: "string option \<Rightarrow> nat \<Rightarrow> workspace \<Rightarrow> bool" where
  "isCurrentSessionContext sid deletionVersion w =
     (if ws_activeSessionId w \<noteq> sid then False
      else \<not> filled sid \<or>
           (\<not> isSessionUnavailable (the sid) (ws_lifecycle w) \<and>
            \<not> didSessionDeletionStart (the sid) deletionVersion (ws_lifecycle w)))"

definition isCurrentRetryContext :: "string option \<Rightarrow> nat \<Rightarrow> string option \<Rightarrow> workspace \<Rightarrow> bool" where
  "isCurrentRetryContext sid deletionVersion resultSessionId w =
     (if filled sid then isCurrentSessionContext sid deletionVersion w
      else if filled resultSessionId then ws_activeSessionId w = resultSessionId
      else ws_activeSessionId w = None)"

definition snapshot_version :: "string option \<Rightarrow> workspace \<Rightarrow> nat" where
  "snapshot_version sid w = (if filled sid then getSessionDeletionVersion (the sid) (ws_lifecycle w) else 0)"

definition updateTurn :: "string \<Rightarrow> (ConversationTurn \<Rightarrow> ConversationTurn) \<Rightarrow> workspace \<Rightarrow> workspace" where
  "updateTurn matchKey patch w =
     w\<lparr>localTurns := map (\<lambda>t. let tKey = (if filled (attemptId t) then the (attemptId t) else turn_id t)
                              in if tKey = matchKey then patch t else t) (localTurns w)\<rparr>"

definition invalidateWorkspaceHistory :: "string option \<Rightarrow> workspace \<Rightarrow> workspace" where
  "invalidateWorkspaceHistory sid w =
     w\<lparr>ws_invalidated := ws_invalidated w @ [[''history'']] @
         (if filled sid then [[''sessions'', the sid]] else [])\<rparr>"

section \<open>Delete\<close>

record DeleteSnapshot =
  snap_turn :: ConversationTurn
  localIndex :: "nat option"
  wasDeleted :: bool
  snap_sessionId :: "string option"

fun find_index :: "('a \<Rightarrow> bool) \<Rightarrow> 'a list \<Rightarrow> nat option" where
  "find_index p [] = None"
| "find_index p (x # xs) = (if p x then Some 0 else map_option Suc (find_index p xs))"

definition restoreDeletedTurn :: "DeleteSnapshot \<Rightarrow> TurnRecoveryKind \<Rightarrow> workspace \<Rightarrow> workspace" where
  "restoreDeletedTurn snapshot kind w =
     (let sid = the (savedQueryId (snap_turn snapshot));
          w1 = (if wasDeleted snapshot then w else w\<lparr>deletedSavedIds := deletedSavedIds w - {sid}\<rparr>);
          w2 = (case localIndex snapshot of
                  None \<Rightarrow> w1
                | Some i \<Rightarrow>
                    if list_ex (\<lambda>t. savedQueryId t = savedQueryId (snap_turn snapshot)) (localTurns w1) then w1
                    else w1\<lparr>localTurns := take i (localTurns w1) @ [snap_turn snapshot] @ drop i (localTurns w1)\<rparr>)
      in w2\<lparr>savedTurnRecoveries := (savedTurnRecoveries w2)(sid \<mapsto> kind)\<rparr>)"

text \<open>The start of \<open>handleDelete\<close>: an error, nothing to do, or the locals kept across the await.\<close>

definition handleDelete_start ::
    "bool \<Rightarrow> AttemptSummary list \<Rightarrow> UserConnectionResponse list \<Rightarrow> string \<Rightarrow> workspace \<Rightarrow>
     (DeleteSnapshot \<times> nat) option outcome \<times> workspace" where
  "handleDelete_start canViewHistory as connections sid w =
     (case requirePermission canViewHistory QUERY_HISTORY_VIEW of
        Inl e \<Rightarrow> (Inl e, w)
      | Inr _ \<Rightarrow>
          if sid \<in> pendingDeleteIds w then (Inr None, w)
          else
            (case find_first (\<lambda>t. savedQueryId t = Some sid) (allTurns as connections w) of
               None \<Rightarrow> (Inr None, w)
             | Some turn \<Rightarrow>
                 (let snapshot = \<lparr>snap_turn = turn,
                        localIndex = find_index (\<lambda>t. savedQueryId t = Some sid) (localTurns w),
                        wasDeleted = sid \<in> deletedSavedIds w, snap_sessionId = ws_activeSessionId w\<rparr>
                  in (Inr (Some (snapshot, snapshot_version (ws_activeSessionId w) w)),
                      w\<lparr>pendingDeleteIds := insert sid (pendingDeleteIds w),
                        savedTurnRecoveries := (savedTurnRecoveries w)(sid := None),
                        deletedSavedIds := insert sid (deletedSavedIds w)\<rparr>))))"

definition delete_finally :: "string \<Rightarrow> workspace \<Rightarrow> workspace" where
  "delete_finally sid w = w\<lparr>pendingDeleteIds := pendingDeleteIds w - {sid}\<rparr>"

text \<open>
  The delete request settles; the flag says that the outcome is uncertain and the entry is read back
  before \<open>finally\<close> runs.
\<close>

definition handleDelete_settle ::
    "string \<Rightarrow> DeleteSnapshot \<Rightarrow> nat \<Rightarrow> unit outcome \<Rightarrow> workspace \<Rightarrow> bool \<times> workspace" where
  "handleDelete_settle sid snapshot version response w =
     (let sess = snap_sessionId snapshot
      in case response of
           Inr _ \<Rightarrow>
             (False, delete_finally sid
                (if \<not> isCurrentSessionContext sess version w then w else invalidateWorkspaceHistory sess w))
         | Inl err \<Rightarrow>
             if \<not> isCurrentSessionContext sess version w then (False, delete_finally sid w)
             else if getApiErrorCode err = JStr ''not_found''
             then (False, delete_finally sid (invalidateWorkspaceHistory sess w))
             else if isDefiniteServerFailure err
             then (False, delete_finally sid (restoreDeletedTurn snapshot DeleteFailed w))
             else (True, w))"

definition handleDelete_reconcile ::
    "string \<Rightarrow> DeleteSnapshot \<Rightarrow> nat \<Rightarrow> unit outcome \<Rightarrow> workspace \<Rightarrow> workspace" where
  "handleDelete_reconcile sid snapshot version response w =
     (let sess = snap_sessionId snapshot
      in delete_finally sid
           (if \<not> isCurrentSessionContext sess version w then w
            else (case response of
                    Inr _ \<Rightarrow> restoreDeletedTurn snapshot DeleteFailed w
                  | Inl err \<Rightarrow>
                      if getApiErrorCode err = JStr ''not_found'' then invalidateWorkspaceHistory sess w
                      else restoreDeletedTurn snapshot DeleteUncertain w)))"

section \<open>Regenerate\<close>

definition handleRegenerate_start ::
    "AttemptSummary list \<Rightarrow> UserConnectionResponse list \<Rightarrow> string \<Rightarrow> workspace \<Rightarrow>
     (string option \<times> nat) option \<times> workspace" where
  "handleRegenerate_start as connections aid w =
     (if aid \<in> pendingRegenerateIds w then (None, w)
      else
        (case find_first (\<lambda>t. attemptId t = Some aid) (allTurns as connections w) of
           None \<Rightarrow> (None, w)
         | Some turn \<Rightarrow>
             (let sid = (case sourceSessionId turn of Some (Some s) \<Rightarrow> Some s | _ \<Rightarrow> ws_activeSessionId w)
              in (Some (sid, snapshot_version sid w),
                  updateTurn aid (\<lambda>t. t\<lparr>isRegenerating := True, recovery := None\<rparr>)
                    (w\<lparr>pendingRegenerateIds := insert aid (pendingRegenerateIds w)\<rparr>)))))"

definition regenerate_finally :: "string \<Rightarrow> workspace \<Rightarrow> workspace" where
  "regenerate_finally aid w = w\<lparr>pendingRegenerateIds := pendingRegenerateIds w - {aid}\<rparr>"

definition result_session :: "jsval \<Rightarrow> string option \<Rightarrow> string option" where
  "result_session result sid = (case js_str (js_get result ''session_id'') of Some s \<Rightarrow> Some s | None \<Rightarrow> sid)"

definition has_kind :: "jsval \<Rightarrow> bool" where
  "has_kind data = (truthy data \<and> typeof_object data \<and> js_has data ''kind'')"

text \<open>The flag says that the session is refetched before the terminal notice is shown.\<close>

definition handleRegenerate_settle ::
    "string \<Rightarrow> string option \<Rightarrow> nat \<Rightarrow> jsval outcome \<Rightarrow> workspace \<Rightarrow> bool \<times> workspace" where
  "handleRegenerate_settle aid sid version response w =
     (case response of
        Inr data \<Rightarrow>
          (False, regenerate_finally aid
             (if \<not> isCurrentSessionContext sid version w then w
              else if has_kind data then
                (if js_get data ''kind'' = JStr ''result'' then
                   invalidateWorkspaceHistory sid
                     (updateTurn aid
                        (\<lambda>t. t\<lparr>isRegenerating := False, recovery := None, turn_result := Some data,
                               turn_sql := js_str (js_get data ''generated_sql''),
                               attemptId := js_str (js_get data ''attempt_id''),
                               savedQueryId := js_str (js_get data ''accepted_query_id''),
                               turn_refinePrompt := None, turn_evaluatorRejection := None,
                               sourceSessionId := Some (result_session data sid)\<rparr>) w)
                 else if js_get data ''kind'' = JStr ''refine'' then
                   updateTurn aid
                     (\<lambda>t. t\<lparr>isRegenerating := False, recovery := None, turn_refinePrompt := Some data,
                            turn_result := None, turn_sql := Some [], turn_evaluatorRejection := None\<rparr>) w
                 else w)
              else w))
      | Inl err \<Rightarrow>
          if \<not> isCurrentSessionContext sid version w then (False, regenerate_finally aid w)
          else if isTerminalAttemptError err then
            (if filled sid then (True, w)
             else (False, regenerate_finally aid
                     (updateTurn aid (\<lambda>t. t\<lparr>isRegenerating := False, recovery := Some RegenerateTerminal\<rparr>) w)))
          else (False, regenerate_finally aid
                  (updateTurn aid (\<lambda>t. t\<lparr>isRegenerating := False, recovery := Some RegenerateFailed\<rparr>) w)))"

definition handleRegenerate_terminal :: "string \<Rightarrow> string option \<Rightarrow> nat \<Rightarrow> workspace \<Rightarrow> workspace" where
  "handleRegenerate_terminal aid sid version w =
     regenerate_finally aid
       (if \<not> isCurrentSessionContext sid version w then w
        else updateTurn aid (\<lambda>t. t\<lparr>isRegenerating := False, recovery := Some RegenerateTerminal\<rparr>) w)"

section \<open>Connection retry\<close>

definition handleConnectionRetry_start ::
    "AttemptSummary list \<Rightarrow> UserConnectionResponse list \<Rightarrow> string \<Rightarrow> workspace \<Rightarrow>
     (ConversationTurn \<times> string option \<times> nat) option \<times> workspace" where
  "handleConnectionRetry_start as connections tid w =
     (if tid \<in> pendingConnectionRetryIds w then (None, w)
      else
        (case find_first (\<lambda>t. turn_id t = tid) (allTurns as connections w) of
           None \<Rightarrow> (None, w)
         | Some turn \<Rightarrow>
             if \<not> filled (immutableConnectionId turn) \<or> turn_question turn = [] then (None, w)
             else
               (let sid = (case sourceSessionId turn of Some s \<Rightarrow> s | None \<Rightarrow> None);
                    version = snapshot_version sid w
                in if \<not> isCurrentRetryContext sid version None w then (None, w)
                   else (Some (turn, sid, version),
                         updateTurn tid (\<lambda>t. t\<lparr>isConnectionRetrying := True\<rparr>)
                           (w\<lparr>pendingConnectionRetryIds := insert tid (pendingConnectionRetryIds w),
                              pendingSubmit := (if sid = None then True else pendingSubmit w)\<rparr>)))))"

definition retry_finally :: "string \<Rightarrow> workspace \<Rightarrow> workspace" where
  "retry_finally tid w = w\<lparr>pendingConnectionRetryIds := pendingConnectionRetryIds w - {tid}\<rparr>"

definition object_or_empty :: "jsval \<Rightarrow> jsval" where
  "object_or_empty v = (if truthy v \<and> typeof_object v then v else plain [])"

definition retry_failure :: "string \<Rightarrow> ConversationTurn \<Rightarrow> jsval \<Rightarrow> workspace \<Rightarrow> workspace" where
  "retry_failure tid originalTurn err w =
     (let apiError = object_or_empty err;
          code = getApiErrorCode err;
          messageKey = js_nullish (js_get apiError ''message_key'')
                         (js_get (object_or_empty (js_get apiError ''detail'')) ''message_key'')
      in if code = JStr ''quota_exceeded'' \<or> messageKey = JStr ''error.quota_exceeded''
         then updateTurn tid
                (\<lambda>t. t\<lparr>isConnectionRetrying := False, connectionError := None,
                       quotaExceeded := Some (js_nullish (js_get apiError ''reset_at'')
                         (js_get (object_or_empty (js_get apiError ''detail'')) ''reset_at''))\<rparr>) w
         else if code = JStr ''hostile_input_blocked'' \<or> messageKey = JStr ''error.hostile_input_blocked''
         then updateTurn tid
                (\<lambda>t. t\<lparr>turn_question := [], isConnectionRetrying := False, connectionError := None,
                       hostileInputBlocked := True\<rparr>) w
         else updateTurn tid
                (\<lambda>t. t\<lparr>isConnectionRetrying := False,
                       connectionError := (case mapApiErrorToConnectionErrorKind apiError of
                                             Some k \<Rightarrow> Some k | None \<Rightarrow> connectionError originalTurn)\<rparr>) w)"

definition handleConnectionRetry_settle ::
    "string \<Rightarrow> ConversationTurn \<Rightarrow> string option \<Rightarrow> nat \<Rightarrow> jsval outcome \<Rightarrow> workspace \<Rightarrow> workspace" where
  "handleConnectionRetry_settle tid originalTurn sid version response w =
     retry_finally tid
       (case response of
          Inr data \<Rightarrow>
            if \<not> has_kind data then
              (if isCurrentRetryContext sid version None w
               then updateTurn tid (\<lambda>t. t\<lparr>isConnectionRetrying := False\<rparr>) w else w)
            else if js_get data ''kind'' = JStr ''result'' then
              (if \<not> isCurrentRetryContext sid version (js_str (js_get data ''session_id'')) w then w
               else invalidateWorkspaceHistory (result_session data sid)
                      (updateTurn tid
                         (\<lambda>t. t\<lparr>isConnectionRetrying := False, connectionError := None,
                                turn_result := Some data, turn_sql := js_str (js_get data ''generated_sql''),
                                attemptId := js_str (js_get data ''attempt_id''),
                                savedQueryId := js_str (js_get data ''accepted_query_id''),
                                turn_refinePrompt := None, turn_evaluatorRejection := None,
                                sourceSessionId := Some (result_session data sid)\<rparr>) w))
            else if js_get data ''kind'' = JStr ''refine'' then
              (if \<not> isCurrentRetryContext sid version None w then w
               else updateTurn tid
                      (\<lambda>t. t\<lparr>isConnectionRetrying := False, connectionError := None,
                             turn_refinePrompt := Some data\<rparr>) w)
            else w
        | Inl err \<Rightarrow>
            if \<not> isCurrentRetryContext sid version None w then w else retry_failure tid originalTurn err w)"

section \<open>Submit\<close>

definition turn_name :: "nat \<Rightarrow> string" where
  "turn_name now = ''turn-'' @ nat_to_string now"

definition no_database_rejection :: jsval where
  "no_database_rejection =
     plain [(''message_key'', JStr ''query.error.noDatabaseSelected''),
       (''violations'', JArr [plain [(''rule'', JStr ''connection_required''),
          (''message_key'', JStr ''query.error.noDatabaseSelectedMessage'')]])]"

text \<open>
  The start of \<open>handleSubmit\<close> at time \<open>now\<close>: whether a question is sent, with the turn that waits for it.
\<close>

definition handleSubmit_start ::
    "nat \<Rightarrow> string \<Rightarrow> string option \<Rightarrow> UserConnectionResponse list \<Rightarrow> workspace \<Rightarrow> string option \<times> workspace" where
  "handleSubmit_start now question selectedConnectionId connections w =
     (if \<not> filled selectedConnectionId
      then (None, w\<lparr>localTurns := localTurns w @
              [(new_turn (turn_name now) question)\<lparr>turn_evaluatorRejection := Some no_database_rejection\<rparr>]\<rparr>)
      else
        (let meta = getConnectionMeta selectedConnectionId connections
         in (Some (turn_name now),
             w\<lparr>pendingSubmit := (if ws_activeSessionId w = None then True else pendingSubmit w),
               localTurns := localTurns w @
                 [(new_turn (turn_name now) [])\<lparr>turn_isLoading := True, connectionName := fst meta,
                    databaseType := snd meta, sourceSessionId := Some (ws_activeSessionId w),
                    immutableConnectionId := selectedConnectionId\<rparr>]\<rparr>)))"

definition map_turn :: "string \<Rightarrow> (ConversationTurn \<Rightarrow> ConversationTurn) \<Rightarrow> workspace \<Rightarrow> workspace" where
  "map_turn tid f w = w\<lparr>localTurns := map (\<lambda>t. if turn_id t = tid then f t else t) (localTurns w)\<rparr>"

definition drop_turn :: "string \<Rightarrow> workspace \<Rightarrow> workspace" where
  "drop_turn tid w = w\<lparr>localTurns := filter (\<lambda>t. turn_id t \<noteq> tid) (localTurns w)\<rparr>"

definition submit_success ::
    "string \<Rightarrow> string \<Rightarrow> string option \<Rightarrow> jsval \<Rightarrow> workspace \<Rightarrow> workspace" where
  "submit_success tid question sid data w =
     (let w1 = (if filled sid then w\<lparr>ws_invalidated := ws_invalidated w @ [[''sessions'', the sid]]\<rparr> else w)
      in if has_kind data \<and> js_get data ''kind'' = JStr ''result''
         then map_turn tid
                (\<lambda>t. t\<lparr>turn_question := question, turn_isLoading := False, turn_result := Some data,
                       turn_sql := js_str (js_get data ''generated_sql''),
                       attemptId := js_str (js_get data ''attempt_id''),
                       savedQueryId := js_str (js_get data ''accepted_query_id''),
                       sourceSessionId := Some (result_session data sid)\<rparr>) w1
         else if has_kind data \<and> js_get data ''kind'' = JStr ''refine''
         then map_turn tid
                (\<lambda>t. t\<lparr>turn_question := question, turn_isLoading := False, turn_refinePrompt := Some data\<rparr>) w1
         else map_turn tid (\<lambda>t. t\<lparr>turn_question := question, turn_isLoading := False\<rparr>) w1)"

definition submit_failure :: "string \<Rightarrow> string \<Rightarrow> jsval \<Rightarrow> workspace \<Rightarrow> workspace" where
  "submit_failure tid question err w =
     (if isSessionDeletionError err \<or> isRequestAbortedError err then drop_turn tid w
      else
        (let apiErr = object_or_empty err;
             messageKey = js_or (js_get apiErr ''message_key'') (js_get (js_get apiErr ''detail'') ''message_key'');
             errCode = js_or (js_get apiErr ''error'') (js_get (js_get apiErr ''detail'') ''error'')
         in if messageKey = JStr ''error.hostile_input_blocked'' \<or> errCode = JStr ''hostile_input_blocked''
            then map_turn tid
                   (\<lambda>t. t\<lparr>turn_question := [], turn_isLoading := False, hostileInputBlocked := True\<rparr>) w
            else if messageKey = JStr ''error.quota_exceeded'' \<or> errCode = JStr ''quota_exceeded''
            then map_turn tid
                   (\<lambda>t. t\<lparr>turn_question := question, turn_isLoading := False,
                          quotaExceeded := Some (js_or (js_get apiErr ''reset_at'')
                            (js_get (js_get apiErr ''detail'') ''reset_at''))\<rparr>) w
            else if messageKey = JStr ''error.service_unavailable'' \<or> errCode = JStr ''service_unavailable''
            then (drop_turn tid w)\<lparr>ws_alert := Some ''error.service_unavailable''\<rparr>
            else if js_has apiErr ''violations''
            then map_turn tid
                   (\<lambda>t. t\<lparr>turn_question := question, turn_isLoading := False,
                          turn_evaluatorRejection := Some apiErr\<rparr>) w
            else if js_has apiErr ''kind'' \<and> js_get apiErr ''kind'' = JStr ''refine''
            then map_turn tid
                   (\<lambda>t. t\<lparr>turn_question := question, turn_isLoading := False, turn_refinePrompt := Some apiErr\<rparr>) w
            else if errCode = JStr ''concurrent''
            then (drop_turn tid w)\<lparr>ws_alert := Some ''query.error.concurrent''\<rparr>
            else if errCode = JStr ''llm_unavailable'' \<or> errCode = JStr ''llmUnavailable''
            then (drop_turn tid w)\<lparr>ws_alert := Some ''query.error.llmUnavailable''\<rparr>
            else (case mapApiErrorToConnectionErrorKind apiErr of
                    Some k \<Rightarrow> map_turn tid
                        (\<lambda>t. t\<lparr>turn_question := question, turn_isLoading := False, connectionError := Some k\<rparr>) w
                  | None \<Rightarrow> map_turn tid (\<lambda>t. t\<lparr>turn_question := question, turn_isLoading := False\<rparr>) w)))"

definition handleSubmit_settle ::
    "string \<Rightarrow> string \<Rightarrow> string option \<Rightarrow> jsval outcome \<Rightarrow> workspace \<Rightarrow> workspace" where
  "handleSubmit_settle tid question sid response w =
     (case response of
        Inr data \<Rightarrow> submit_success tid question sid data w
      | Inl err \<Rightarrow> submit_failure tid question err w)"

section \<open>The page\<close>

text \<open>What a turn shows: the question bubble and the one card below it.\<close>

datatype turn_card =
    LoadingCard | ConnectionErrorCard ConnectionErrorKind | RejectionCard "(string \<times> jsval) list"
  | QuotaCard jsval | HostileCard | RefineCard | ResponseCard string

definition shown_question :: "ConversationTurn \<Rightarrow> string option" where
  "shown_question t = (if \<not> hostileInputBlocked t \<and> turn_question t \<noteq> [] then Some (turn_question t) else None)"

definition shown_card :: "ConversationTurn \<Rightarrow> turn_card" where
  "shown_card t =
     (if turn_isLoading t then LoadingCard
      else case connectionError t of
        Some k \<Rightarrow> ConnectionErrorCard k
      | None \<Rightarrow>
          (case turn_evaluatorRejection t of
             Some r \<Rightarrow> RejectionCard (mapEvaluatorRejection r)
           | None \<Rightarrow>
               (case quotaExceeded t of
                  Some r \<Rightarrow> QuotaCard r
                | None \<Rightarrow>
                    if hostileInputBlocked t then HostileCard
                    else if turn_refinePrompt t \<noteq> None then RefineCard
                    else ResponseCard (case turn_sql t of Some q \<Rightarrow> q | None \<Rightarrow> []))))"

section \<open>Lemmas\<close>

lemma with_recovery_frame [turn_simps]:
  "savedQueryId (with_recovery w t) = savedQueryId t" "turn_id (with_recovery w t) = turn_id t"
  "attemptId (with_recovery w t) = attemptId t"
  by (simp_all add: with_recovery_def split: option.splits)

lemma buildHistoryTurn_frame [turn_simps]:
  "savedQueryId (buildHistoryTurn a c) = Some (attempt_id a)" "turn_id (buildHistoryTurn a c) = attempt_id a"
  "attemptId (buildHistoryTurn a c) = None"
  by (simp_all add: buildHistoryTurn_def Let_def new_turn_def split: option.splits)

definition saved_ids :: "ConversationTurn list \<Rightarrow> string list" where
  "saved_ids ts = map (\<lambda>t. the (savedQueryId t)) (filter (\<lambda>t. filled (savedQueryId t)) ts)"

lemma saved_ids_append: "saved_ids (xs @ ys) = saved_ids xs @ saved_ids ys"
  by (simp add: saved_ids_def)

lemma saved_ids_recovery: "saved_ids (map (with_recovery w) ts) = saved_ids ts"
  by (induction ts) (simp_all add: saved_ids_def turn_simps)

lemma saved_ids_history:
  "[] \<notin> attempt_id ` set as \<Longrightarrow> saved_ids (map (\<lambda>a. buildHistoryTurn a c) as) = map attempt_id as"
  by (induction as) (auto simp: saved_ids_def filled_def turn_simps)

lemma saved_ids_all:
  "[] \<notin> attempt_id ` set as \<Longrightarrow>
   saved_ids (allTurns as c w) =
     map attempt_id (rev (historyAttempts as w)) @ saved_ids (dedupedLocalTurns as w)"
  by (subst saved_ids_history [symmetric, of _ c])
    (auto simp: allTurns_def saved_ids_recovery saved_ids_append historyAttempts_def simp del: map_map)

lemma saved_ids_deduped:
  "saved_ids (dedupedLocalTurns as w) =
     filter (\<lambda>i. i \<notin> attempt_id ` set (historyAttempts as w) \<and> i \<notin> deletedSavedIds w) (saved_ids (localTurns w))"
  by (simp add: saved_ids_def dedupedLocalTurns_def Let_def filter_map comp_def)
    (rule arg_cong [of _ _ "map _"], rule filter_cong, auto)

lemma local_active_in_saved: "localSavedIdsWithActiveAttempt w \<subseteq> set (saved_ids (localTurns w)) - deletedSavedIds w"
  by (auto simp: localSavedIdsWithActiveAttempt_def saved_ids_def)

lemma map_turn_localTurns:
  "localTurns (map_turn tid f w) = map (\<lambda>t. if turn_id t = tid then f t else t) (localTurns w)"
  "ws_activeSessionId (map_turn tid f w) = ws_activeSessionId w"
  "pendingSubmit (map_turn tid f w) = pendingSubmit w" "prevSessionId (map_turn tid f w) = prevSessionId w"
  "renderedSessionId (map_turn tid f w) = renderedSessionId w"
  by (simp_all add: map_turn_def)

lemma drop_turn_localTurns:
  "localTurns (drop_turn tid w) = filter (\<lambda>t. turn_id t \<noteq> tid) (localTurns w)"
  "ws_activeSessionId (drop_turn tid w) = ws_activeSessionId w"
  "pendingSubmit (drop_turn tid w) = pendingSubmit w" "prevSessionId (drop_turn tid w) = prevSessionId w"
  "renderedSessionId (drop_turn tid w) = renderedSessionId w"
  by (simp_all add: drop_turn_def)

text \<open>Every settlement of a submission either patches the waiting turn, to a state that no longer
  waits and keeps its id, or removes it.\<close>

definition settled_by :: "string \<Rightarrow> workspace \<Rightarrow> workspace \<Rightarrow> bool" where
  "settled_by tid w w' \<longleftrightarrow>
     (\<exists>f. (\<forall>t. \<not> turn_isLoading (f t) \<and> turn_id (f t) = turn_id t) \<and>
        localTurns w' = map (\<lambda>t. if turn_id t = tid then f t else t) (localTurns w)) \<or>
     localTurns w' = filter (\<lambda>t. turn_id t \<noteq> tid) (localTurns w)"

lemma settled_by_others:
  assumes "settled_by tid w w'"
  shows "(\<forall>t \<in> set (localTurns w'). turn_id t = tid \<longrightarrow> \<not> turn_isLoading t) \<and>
    filter (\<lambda>t. turn_id t \<noteq> tid) (localTurns w') = filter (\<lambda>t. turn_id t \<noteq> tid) (localTurns w)"
proof -
  have patched: "filter (\<lambda>t. turn_id t \<noteq> tid) (map (\<lambda>t. if turn_id t = tid then f t else t) ts) =
      filter (\<lambda>t. turn_id t \<noteq> tid) ts" if "\<forall>t. turn_id (f t) = turn_id t" for f :: "ConversationTurn \<Rightarrow> ConversationTurn" and ts
    using that by (induction ts) simp_all
  from assms show ?thesis
    unfolding settled_by_def
  proof (elim disjE exE conjE)
    fix f :: "ConversationTurn \<Rightarrow> ConversationTurn"
    assume f: "\<forall>t. \<not> turn_isLoading (f t) \<and> turn_id (f t) = turn_id t"
      and eq: "localTurns w' = map (\<lambda>t. if turn_id t = tid then f t else t) (localTurns w)"
    show ?thesis unfolding eq using f patched [of f] by auto
  qed simp
qed

lemma settled_by_map_turn:
  "(\<And>t. \<not> turn_isLoading (f t) \<and> turn_id (f t) = turn_id t) \<Longrightarrow> localTurns w1 = localTurns w \<Longrightarrow>
   settled_by tid w (map_turn tid f w1)"
  unfolding settled_by_def by (rule disjI1, rule exI [of _ f]) (simp add: map_turn_localTurns)

lemma settled_by_drop_turn:
  "settled_by tid w (drop_turn tid w)" "settled_by tid w ((drop_turn tid w)\<lparr>ws_alert := a\<rparr>)"
  by (simp_all add: settled_by_def drop_turn_localTurns)

lemma settled_by_if:
  "(b \<Longrightarrow> settled_by tid w x) \<Longrightarrow> (\<not> b \<Longrightarrow> settled_by tid w y) \<Longrightarrow> settled_by tid w (if b then x else y)"
  by simp

lemma settled_by_option:
  "settled_by tid w x \<Longrightarrow> (\<And>k. settled_by tid w (f k)) \<Longrightarrow>
   settled_by tid w (case k of None \<Rightarrow> x | Some k \<Rightarrow> f k)"
  by (cases k) simp_all

lemma submit_settled: "settled_by tid w (handleSubmit_settle tid q sid r w)"
proof (cases r)
  case (Inr d)
  show ?thesis
    unfolding Inr handleSubmit_settle_def sum.case submit_success_def Let_def
    by (intro settled_by_if settled_by_map_turn) simp_all
next
  case (Inl e)
  show ?thesis
    unfolding Inl handleSubmit_settle_def sum.case submit_failure_def Let_def
    by (intro settled_by_if settled_by_option settled_by_drop_turn settled_by_map_turn) simp_all
qed

lemma shown_not_deleted:
  assumes "find_first (\<lambda>t. savedQueryId t = Some sid) (allTurns as c w) = Some turn" and "sid \<noteq> []"
  shows "sid \<notin> deletedSavedIds w \<and> savedQueryId turn = Some sid"
  using find_first_Some [OF assms(1)] assms(2)
  by (auto simp: allTurns_def turn_simps historyAttempts_def dedupedLocalTurns_def Let_def filled_def)

lemma find_index_Some: "find_index p xs = Some i \<Longrightarrow> list_ex p xs"
  by (induction xs arbitrary: i) (auto split: if_splits)

lemma allTurns_frame:
  "localTurns w' = localTurns w \<Longrightarrow> deletedSavedIds w' = deletedSavedIds w \<Longrightarrow>
   savedTurnRecoveries w' = savedTurnRecoveries w \<Longrightarrow> allTurns as c w' = allTurns as c w"
proof -
  assume a: "localTurns w' = localTurns w" "deletedSavedIds w' = deletedSavedIds w"
    "savedTurnRecoveries w' = savedTurnRecoveries w"
  have "historyAttempts as w' = historyAttempts as w"
    by (simp add: historyAttempts_def localSavedIdsWithActiveAttempt_def a)
  moreover have "with_recovery w' = with_recovery w" by (rule ext) (simp add: with_recovery_def a)
  ultimately show ?thesis by (simp add: allTurns_def dedupedLocalTurns_def a)
qed

definition delete_restored ::
    "AttemptSummary list \<Rightarrow> UserConnectionResponse list \<Rightarrow> string \<Rightarrow> TurnRecoveryKind \<Rightarrow> workspace \<Rightarrow> workspace \<Rightarrow> bool" where
  "delete_restored as c sid k w w' \<longleftrightarrow>
     allTurns as c (w'\<lparr>savedTurnRecoveries := savedTurnRecoveries w\<rparr>) = allTurns as c w \<and>
     savedTurnRecoveries w' = (savedTurnRecoveries w)(sid \<mapsto> k) \<and> sid \<notin> pendingDeleteIds w'"

definition delete_hidden :: "string \<Rightarrow> workspace \<Rightarrow> bool" where
  "delete_hidden sid w \<longleftrightarrow>
     sid \<in> deletedSavedIds w \<and> [''history''] \<in> set (ws_invalidated w) \<and> sid \<notin> pendingDeleteIds w"

lemma restore_restores:
  assumes "savedQueryId turn = Some sid" and "sid \<notin> deletedSavedIds w"
  shows "delete_restored as c sid k w
    (delete_finally sid
      (restoreDeletedTurn
        \<lparr>snap_turn = turn, localIndex = find_index (\<lambda>t. savedQueryId t = Some sid) (localTurns w),
         wasDeleted = sid \<in> deletedSavedIds w, snap_sessionId = sess\<rparr> k
        (w\<lparr>pendingDeleteIds := insert sid (pendingDeleteIds w),
           savedTurnRecoveries := (savedTurnRecoveries w)(sid := None),
           deletedSavedIds := insert sid (deletedSavedIds w)\<rparr>)))"
    (is "delete_restored _ _ _ _ _ ?w2")
proof -
  have frame: "localTurns ?w2 = localTurns w" "deletedSavedIds ?w2 = deletedSavedIds w"
    "savedTurnRecoveries ?w2 = (savedTurnRecoveries w)(sid \<mapsto> k)" "sid \<notin> pendingDeleteIds ?w2"
    using assms find_index_Some [of "\<lambda>t. savedQueryId t = Some sid" "localTurns w"]
    by (auto simp: restoreDeletedTurn_def Let_def delete_finally_def split: option.splits)
  have "allTurns as c (?w2\<lparr>savedTurnRecoveries := savedTurnRecoveries w\<rparr>) = allTurns as c w"
    by (rule allTurns_frame) (simp_all add: frame(1,2))
  with frame show ?thesis by (simp add: delete_restored_def)
qed

section \<open>Sample states\<close>

definition sample_attempt :: AttemptSummary where
  "sample_attempt =
     \<lparr>attempt_id = ''a'', attempt_accepted_at = ''t'', database_connection_id = None,
      database_connection_name = None, database_type = None, feedback = None, generated_sql = ''select 1'',
      question_text = ''one'', result_columns = None, result_row_count = None, result_rows = None, saved = True\<rparr>"

definition sample_local :: ConversationTurn where
  "sample_local = (new_turn ''turn-1'' ''one'')\<lparr>savedQueryId := Some ''a'', attemptId := Some ''x''\<rparr>"

definition sample_workspace :: workspace where
  "sample_workspace = (init_workspace (Some ''s''))\<lparr>localTurns := [sample_local]\<rparr>"

definition sample_timeout :: jsval where
  "sample_timeout = plain [(''error'', JStr ''timeout'')]"

section \<open>Properties\<close>

text \<open>
  C13. Every saved query is shown exactly once: when the attempts of the session have different ids, and
  so have the saved local turns, the conversation shows each query that is saved in the session or
  locally and has not been deleted in exactly one turn, and no deleted one.
\<close>

theorem saved_queries_shown_once:
  assumes "distinct (map attempt_id as)" and "[] \<notin> attempt_id ` set as"
    and "distinct (saved_ids (localTurns w))"
  shows "distinct (saved_ids (allTurns as c w)) \<and>
    set (saved_ids (allTurns as c w)) =
      (attempt_id ` set as \<union> set (saved_ids (localTurns w))) - deletedSavedIds w"
proof
  have hist: "attempt_id ` set (historyAttempts as w) \<subseteq> attempt_id ` set as - deletedSavedIds w"
    by (auto simp: historyAttempts_def)
  have "distinct (map attempt_id (rev (historyAttempts as w)))"
    using assms(1) by (simp add: historyAttempts_def rev_map [symmetric] distinct_map_filter)
  then show "distinct (saved_ids (allTurns as c w))"
    using assms(3) by (auto simp: saved_ids_all [OF assms(2)] saved_ids_deduped)
  have "i \<in> attempt_id ` set (historyAttempts as w) \<or> i \<in> set (saved_ids (localTurns w))"
    if "i \<in> attempt_id ` set as" "i \<notin> deletedSavedIds w" for i
    using that local_active_in_saved [of w] by (auto simp: historyAttempts_def)
  then show "set (saved_ids (allTurns as c w)) =
      (attempt_id ` set as \<union> set (saved_ids (localTurns w))) - deletedSavedIds w"
    using hist by (auto simp: saved_ids_all [OF assms(2)] saved_ids_deduped)
qed

theorem saved_queries_shown_once_witness:
  "set (saved_ids (allTurns [sample_attempt] [] sample_workspace)) = {''a''}"
  using saved_queries_shown_once [of "[sample_attempt]" sample_workspace "[]"]
  by (simp add: sample_attempt_def sample_workspace_def sample_local_def init_workspace_def saved_ids_def
      new_turn_def filled_def)

text \<open>
  C14. Deleting a saved turn is undone exactly when the entry may still exist: the turn disappears at
  once; if the server refuses the deletion, or its outcome is unknown and the entry is found or cannot
  be read back, the conversation is as it was with a recovery notice on that turn; if the deletion
  succeeds or the entry is not found it stays hidden and the history is refetched. In every case the
  id is released for a further delete.
\<close>

theorem delete_is_undone_exactly_on_failure:
  assumes "handleDelete_start True as c sid w = (Inr (Some (snapshot, version)), w1)" and "sid \<noteq> []"
    and "isCurrentSessionContext (ws_activeSessionId w) version w1"
  shows "sid \<in> deletedSavedIds w1 \<and>
    delete_hidden sid (snd (handleDelete_settle sid snapshot version (Inr ()) w1)) \<and>
    (\<forall>err. let w2 = snd (handleDelete_settle sid snapshot version (Inl err) w1)
           in if getApiErrorCode err = JStr ''not_found'' then delete_hidden sid w2
              else if isDefiniteServerFailure err then delete_restored as c sid DeleteFailed w w2
              else fst (handleDelete_settle sid snapshot version (Inl err) w1) \<and> w2 = w1) \<and>
    delete_restored as c sid DeleteFailed w (handleDelete_reconcile sid snapshot version (Inr ()) w1) \<and>
    (\<forall>err. let w2 = handleDelete_reconcile sid snapshot version (Inl err) w1
           in if getApiErrorCode err = JStr ''not_found'' then delete_hidden sid w2
              else delete_restored as c sid DeleteUncertain w w2)"
proof -
  from assms(1) obtain turn where turn: "find_first (\<lambda>t. savedQueryId t = Some sid) (allTurns as c w) = Some turn"
    and snap: "snapshot = \<lparr>snap_turn = turn, localIndex = find_index (\<lambda>t. savedQueryId t = Some sid) (localTurns w),
        wasDeleted = sid \<in> deletedSavedIds w, snap_sessionId = ws_activeSessionId w\<rparr>"
    and w1: "w1 = w\<lparr>pendingDeleteIds := insert sid (pendingDeleteIds w),
        savedTurnRecoveries := (savedTurnRecoveries w)(sid := None),
        deletedSavedIds := insert sid (deletedSavedIds w)\<rparr>"
    by (auto simp: handleDelete_start_def requirePermission_def Let_def split: option.splits if_splits)
  have restored: "delete_restored as c sid k w (delete_finally sid (restoreDeletedTurn snapshot k w1))" for k
    unfolding snap w1 using shown_not_deleted [OF turn assms(2)] by (intro restore_restores) simp_all
  have hidden: "delete_hidden sid (delete_finally sid (invalidateWorkspaceHistory (snap_sessionId snapshot) w1))"
    by (simp add: delete_hidden_def delete_finally_def invalidateWorkspaceHistory_def w1)
  have ctx: "isCurrentSessionContext (snap_sessionId snapshot) version w1"
    using assms(3) by (simp add: snap)
  show ?thesis
    using restored hidden ctx
    by (simp add: handleDelete_settle_def handleDelete_reconcile_def Let_def) (simp add: w1)
qed

lemma sample_delete_start:
  "handleDelete_start True [sample_attempt] [] ''a'' sample_workspace =
     (Inr (Some (\<lparr>snap_turn = sample_local, localIndex = Some 0, wasDeleted = False, snap_sessionId = Some ''s''\<rparr>, 0)),
      sample_workspace\<lparr>pendingDeleteIds := {''a''}, savedTurnRecoveries := Map.empty, deletedSavedIds := {''a''}\<rparr>)"
  by (simp add: handleDelete_start_def requirePermission_def allTurns_def historyAttempts_def with_recovery_def
      localSavedIdsWithActiveAttempt_def dedupedLocalTurns_def sample_workspace_def sample_local_def
      sample_attempt_def init_workspace_def new_turn_def filled_def snapshot_version_def lifecycle_simps
      empty_lifecycle_def)

theorem delete_is_undone_exactly_on_failure_witness:
  "''a'' \<in> deletedSavedIds (sample_workspace\<lparr>pendingDeleteIds := {''a''}, savedTurnRecoveries := Map.empty,
     deletedSavedIds := {''a''}\<rparr>)"
  by (rule delete_is_undone_exactly_on_failure [OF sample_delete_start, THEN conjunct1])
    (simp_all add: sample_workspace_def init_workspace_def isCurrentSessionContext_def filled_def lifecycle_simps
      empty_lifecycle_def)

text \<open>
  A submission never leaves a spinner behind and touches only its own turn: whatever the outcome, no
  turn with its id is loading afterwards and every other turn is unchanged; and the text of a question
  that was blocked as hostile is kept nowhere in its turn and not shown.
\<close>

lemma submission_settles_its_turn:
  "(\<forall>t \<in> set (localTurns (handleSubmit_settle tid question sid response w)). turn_id t = tid \<longrightarrow> \<not> turn_isLoading t) \<and>
   filter (\<lambda>t. turn_id t \<noteq> tid) (localTurns (handleSubmit_settle tid question sid response w)) =
     filter (\<lambda>t. turn_id t \<noteq> tid) (localTurns w) \<and>
   (\<forall>err. response = Inl err \<longrightarrow> js_get err ''error'' = JStr ''hostile_input_blocked'' \<longrightarrow>
      \<not> isSessionDeletionError err \<longrightarrow> \<not> isRequestAbortedError err \<longrightarrow>
      (\<forall>t \<in> set (localTurns (handleSubmit_settle tid question sid response w)). turn_id t = tid \<longrightarrow>
         turn_question t = [] \<and> shown_question t = None))"
proof (intro conjI allI impI)
  let ?w' = "handleSubmit_settle tid question sid response w"
  note others = settled_by_others [OF submit_settled [of tid w question sid response]]
  show "\<forall>t \<in> set (localTurns ?w'). turn_id t = tid \<longrightarrow> \<not> turn_isLoading t" by (rule conjunct1 [OF others])
  show "filter (\<lambda>t. turn_id t \<noteq> tid) (localTurns ?w') = filter (\<lambda>t. turn_id t \<noteq> tid) (localTurns w)"
    by (rule conjunct2 [OF others])
  fix err
  assume a: "response = Inl err" "js_get err ''error'' = JStr ''hostile_input_blocked''"
    "\<not> isSessionDeletionError err" "\<not> isRequestAbortedError err"
  then have "truthy err \<and> typeof_object err" by (cases err) auto
  with a have "?w' = map_turn tid
      (\<lambda>t. t\<lparr>turn_question := [], turn_isLoading := False, hostileInputBlocked := True\<rparr>) w"
    by (simp add: handleSubmit_settle_def submit_failure_def object_or_empty_def Let_def js_simps)
  then show "\<forall>t \<in> set (localTurns ?w'). turn_id t = tid \<longrightarrow> turn_question t = [] \<and> shown_question t = None"
    by (auto simp: map_turn_localTurns shown_question_def)
qed

text \<open>
  Answers that arrive after the user left the session, or after the session was deleted, change
  nothing on the screen: a regeneration, its terminal notice, a deletion and its reconciliation all leave
  the turns, the hidden ids, the notices and the invalidated queries as they are.
\<close>

lemma left_session_answers_ignored:
  assumes "\<not> isCurrentSessionContext sid version w" and "snap_sessionId snapshot = sid"
    and "w' \<in> {snd (handleRegenerate_settle aid sid version answer w), handleRegenerate_terminal aid sid version w,
      snd (handleDelete_settle qid snapshot version deleted w), handleDelete_reconcile qid snapshot version deleted w}"
  shows "allTurns as c w' = allTurns as c w \<and> localTurns w' = localTurns w \<and> deletedSavedIds w' = deletedSavedIds w \<and>
    savedTurnRecoveries w' = savedTurnRecoveries w \<and> ws_invalidated w' = ws_invalidated w"
proof -
  have ctx: "isCurrentSessionContext (snap_sessionId snapshot) version w = False"
      "isCurrentSessionContext sid version w = False"
    using assms(1,2) by simp_all
  have "snd (handleRegenerate_settle aid sid version answer w) = regenerate_finally aid w"
    by (cases answer) (simp_all only: handleRegenerate_settle_def ctx sum.case simp_thms if_True snd_conv)
  moreover have "handleRegenerate_terminal aid sid version w = regenerate_finally aid w"
    by (simp only: handleRegenerate_terminal_def ctx simp_thms if_True)
  moreover have "snd (handleDelete_settle qid snapshot version deleted w) = delete_finally qid w"
    by (cases deleted) (simp_all only: handleDelete_settle_def ctx Let_def sum.case simp_thms if_True snd_conv)
  moreover have "handleDelete_reconcile qid snapshot version deleted w = delete_finally qid w"
    by (simp only: handleDelete_reconcile_def ctx Let_def simp_thms if_True)
  ultimately have "w' = regenerate_finally aid w \<or> w' = delete_finally qid w"
    using assms(3) by (simp only: insert_iff empty_iff) blast
  then have frame: "localTurns w' = localTurns w" "deletedSavedIds w' = deletedSavedIds w"
    "savedTurnRecoveries w' = savedTurnRecoveries w" "ws_invalidated w' = ws_invalidated w"
    by (auto simp: regenerate_finally_def delete_finally_def)
  show ?thesis using frame allTurns_frame [OF frame(1-3), of as c] by (intro conjI)
qed

text \<open>
  The turn of a first question survives the creation of its session. A question asked without a
  session raises the pending-submit flag; when its answer makes a session active (\<open>useQuerySubmit\<close> sets
  it without navigating), the page adopts that session and keeps its turns. The flag is lowered by
  that, so the next change of session drops the turns, the hidden ids and the notices.
\<close>

lemma first_question_keeps_its_turn:
  assumes "ws_activeSessionId w = None" and "renderedSessionId w = None" and "prevSessionId w = None"
    and "filled con" and "sid' \<noteq> Some sid"
  shows "let w1 = snd (handleSubmit_start now question con connections w);
             w2 = session_switch_effect (w1\<lparr>ws_activeSessionId := Some sid\<rparr>);
             w3 = session_switch_effect (w2\<lparr>ws_activeSessionId := sid'\<rparr>)
         in localTurns w2 = localTurns w1 \<and> renderedSessionId w2 = Some sid \<and>
            localTurns w3 = [] \<and> deletedSavedIds w3 = {} \<and> savedTurnRecoveries w3 = Map.empty \<and>
            renderedSessionId w3 = sid'"
  using assms by (auto simp: handleSubmit_start_def session_switch_effect_def Let_def)

end
