(* ===== verification/Sidebar.thy ===== *)
theory Sidebar
  imports Sessions Ui_Store
begin

text \<open>
  The sidebar with its undo toasts (\<open>frontend/src/components/sidebar/Sidebar.tsx\<close> and
  \<open>UndoToast.tsx\<close>). Deleting a session opens a toast that counts down, may be paused by the pointer or
  the focus, and starts the deletion when its timer fires; the button of the toast undoes it. A toast
  is a record of its state variables, refs and timers. Time is what \<open>Date.now()\<close> returned at an event; timers
  fire as events of the environment. The sidebar holds the toasts, the UI store, the deletion lifecycle
  and the requests, and the delete mutation runs the handlers of the session hooks. The query library
  calls the callbacks given to \<open>mutate\<close> only while the toast is mounted, those of the hook always.
\<close>

section \<open>The undo toast\<close>

record UndoToastItem =
  toast_id :: string
  toast_sessionId :: string
  toast_message :: string

definition UNDO_DURATION_MS :: int where
  "UNDO_DURATION_MS = 5000"

text \<open>The pending timeout is its delay, the running interval the \<open>base\<close> and \<open>startTime\<close> it closes over.\<close>

record undo_toast =
  toast_item :: UndoToastItem
  remainingMs :: int
  paused :: bool
  deleteStarted :: bool
  timerRef :: "int option"
  intervalRef :: "(int \<times> int) option"
  remainingRef :: int
  expiredRef :: bool

definition countdown_effect :: "int \<Rightarrow> undo_toast \<Rightarrow> undo_toast" where
  "countdown_effect now t =
     (if paused t \<or> expiredRef t then t
      else
        (let base = remainingRef t
         in if base \<le> 0 then t
            else t\<lparr>intervalRef := Some (base, now), timerRef := Some base\<rparr>))"

definition countdown_cleanup :: "undo_toast \<Rightarrow> undo_toast" where
  "countdown_cleanup t = t\<lparr>timerRef := None, intervalRef := None\<rparr>"

definition mount_toast :: "int \<Rightarrow> UndoToastItem \<Rightarrow> undo_toast" where
  "mount_toast now item =
     countdown_effect now
       \<lparr>toast_item = item, remainingMs = UNDO_DURATION_MS, paused = False, deleteStarted = False,
        timerRef = None, intervalRef = None, remainingRef = UNDO_DURATION_MS, expiredRef = False\<rparr>"

definition interval_tick :: "int \<Rightarrow> undo_toast \<Rightarrow> undo_toast" where
  "interval_tick now t =
     (case intervalRef t of
        None \<Rightarrow> t
      | Some (base, startTime) \<Rightarrow>
          (let remaining = max 0 (base - (now - startTime))
           in t\<lparr>remainingRef := remaining, remainingMs := remaining,
                intervalRef := (if remaining \<le> 0 then None else intervalRef t)\<rparr>))"

text \<open>Setting \<open>paused\<close> to the value it has renders nothing; a change runs the cleanup and the effect.\<close>

definition setPaused :: "int \<Rightarrow> bool \<Rightarrow> undo_toast \<Rightarrow> undo_toast" where
  "setPaused now p t =
     (if paused t = p then t else countdown_effect now (countdown_cleanup (t\<lparr>paused := p\<rparr>)))"

definition pauseCountdown :: "int \<Rightarrow> undo_toast \<Rightarrow> undo_toast" where
  "pauseCountdown now = setPaused now True"

definition resumeCountdown :: "int \<Rightarrow> undo_toast \<Rightarrow> undo_toast" where
  "resumeCountdown now = setPaused now False"

text \<open>What a toast asks of the sidebar.\<close>

datatype toast_effect = StartDeletion UndoToastItem | Undo UndoToastItem

definition fireDeletion :: "undo_toast \<Rightarrow> undo_toast \<times> toast_effect list" where
  "fireDeletion t =
     (if expiredRef t then (t, [])
      else (t\<lparr>expiredRef := True, deleteStarted := True\<rparr>, [StartDeletion (toast_item t)]))"

definition toast_timer_fires :: "undo_toast \<Rightarrow> undo_toast \<times> toast_effect list" where
  "toast_timer_fires t =
     (case timerRef t of None \<Rightarrow> (t, []) | Some _ \<Rightarrow> fireDeletion (t\<lparr>timerRef := None\<rparr>))"

definition toast_handleUndo :: "undo_toast \<Rightarrow> undo_toast \<times> toast_effect list" where
  "toast_handleUndo t =
     (if expiredRef t then (t, []) else (t\<lparr>expiredRef := True\<rparr>, [Undo (toast_item t)]))"

definition undo_click :: "undo_toast \<Rightarrow> undo_toast \<times> toast_effect list" where
  "undo_click t = (if deleteStarted t then (t, []) else toast_handleUndo t)"

text \<open>The width of the progress bar in thousandths of a percent: \<open>remainingMs / 5000 * 100\<close>.\<close>

definition progress_millipercent :: "undo_toast \<Rightarrow> int" where
  "progress_millipercent t = (remainingMs t * 100000) div UNDO_DURATION_MS"

datatype toast_event =
    Tick int
  | PointerEnters int
  | PointerLeaves int
  | ToastTimer
  | UndoClick

fun toast_step :: "toast_event \<Rightarrow> undo_toast \<Rightarrow> undo_toast \<times> toast_effect list" where
  "toast_step (Tick now) t = (interval_tick now t, [])"
| "toast_step (PointerEnters now) t = (pauseCountdown now t, [])"
| "toast_step (PointerLeaves now) t = (resumeCountdown now t, [])"
| "toast_step ToastTimer t = toast_timer_fires t"
| "toast_step UndoClick t = undo_click t"

fun toast_run :: "toast_event list \<Rightarrow> undo_toast \<Rightarrow> undo_toast \<times> toast_effect list" where
  "toast_run [] t = (t, [])"
| "toast_run (e # es) t =
     (let (t1, out1) = toast_step e t; (t2, out2) = toast_run es t1 in (t2, out1 @ out2))"

section \<open>The session groups\<close>

text \<open>
  \<open>date\<close> is \<open>new Date(s)\<close> in milliseconds, \<open>None\<close> for an invalid date, which compares false with
  everything; \<open>today\<close> is the local midnight of now.
\<close>

fun group_sessions ::
    "(string \<Rightarrow> int option) \<Rightarrow> int \<Rightarrow> SessionSummary list \<Rightarrow>
     SessionSummary list \<times> SessionSummary list \<times> SessionSummary list \<Rightarrow>
     SessionSummary list \<times> SessionSummary list \<times> SessionSummary list" where
  "group_sessions date today [] acc = acc"
| "group_sessions date today (session # sessions) (todayGroup, previous7Group, olderGroup) =
     (let activity = date (summary_last_activity_at session);
          since = (\<lambda>t. case activity of Some a \<Rightarrow> t \<le> a | None \<Rightarrow> False)
      in group_sessions date today sessions
           (if since today then (todayGroup @ [session], previous7Group, olderGroup)
            else if since (today - 7 * 24 * 60 * 60 * 1000)
            then (todayGroup, previous7Group @ [session], olderGroup)
            else (todayGroup, previous7Group, olderGroup @ [session])))"

definition groupSessionsByDate ::
    "(string \<Rightarrow> int option) \<Rightarrow> int \<Rightarrow> SessionSummary list \<Rightarrow>
     SessionSummary list \<times> SessionSummary list \<times> SessionSummary list" where
  "groupSessionsByDate date today sessions = group_sessions date today sessions ([], [], [])"

section \<open>The sidebar\<close>

text \<open>A delete request in flight: its toast, session, what to restore, and the cached detail it removed.\<close>

record delete_call =
  call_toast :: string
  call_sessionId :: string
  restoreActiveSession :: bool
  call_context :: "SessionDetail InfiniteData option"

record 'l sidebar =
  toasts :: "undo_toast list"
  side_ui :: UIState
  side_lifecycle :: "'l deletion_lifecycle"
  navigations :: "string list"
  delete_calls :: "delete_call list"
  side_requests :: "session_request list"
  cache_commands :: "cache_command list"

definition init_sidebar :: "UIState \<Rightarrow> 'l deletion_lifecycle \<Rightarrow> 'l sidebar" where
  "init_sidebar ui l =
     \<lparr>toasts = [], side_ui = ui, side_lifecycle = l, navigations = [], delete_calls = [],
      side_requests = [], cache_commands = []\<rparr>"

definition side_navigate :: "string \<Rightarrow> 'l sidebar \<Rightarrow> 'l sidebar" where
  "side_navigate target s = s\<lparr>navigations := navigations s @ [target]\<rparr>"

definition side_setActive :: "string option \<Rightarrow> 'l sidebar \<Rightarrow> 'l sidebar" where
  "side_setActive i s = side_navigate ''/'' (s\<lparr>side_ui := setActiveSessionId i (side_ui s)\<rparr>)"

definition handleNewChat :: "'l sidebar \<Rightarrow> 'l sidebar" where
  "handleNewChat s = side_setActive None s"

definition handleSessionClick :: "string \<Rightarrow> 'l sidebar \<Rightarrow> 'l sidebar" where
  "handleSessionClick sid s = side_setActive (Some sid) s"

definition deletingSessionIds :: "'l sidebar \<Rightarrow> string set" where
  "deletingSessionIds s = set (map (\<lambda>t. toast_sessionId (toast_item t)) (toasts s))"

definition visible_sessions :: "SessionListResponse option \<Rightarrow> 'l sidebar \<Rightarrow> SessionSummary list" where
  "visible_sessions data s =
     filter (\<lambda>x. summary_id x \<notin> deletingSessionIds s) (case data of Some d \<Rightarrow> list_items d | None \<Rightarrow> [])"

definition handleDeleteSession :: "nat \<Rightarrow> string \<Rightarrow> 'l sidebar \<Rightarrow> 'l sidebar" where
  "handleDeleteSession now sid s =
     (if list_ex (\<lambda>t. toast_sessionId (toast_item t) = sid) (toasts s) then s
      else s\<lparr>toasts := toasts s @
               [mount_toast (int now)
                  \<lparr>toast_id = sid @ ''-'' @ nat_to_string now, toast_sessionId = sid,
                   toast_message = ''sidebar.deleteConfirm''\<rparr>]\<rparr>)"

definition drop_toast :: "string \<Rightarrow> 'l sidebar \<Rightarrow> 'l sidebar" where
  "drop_toast i s = s\<lparr>toasts := filter (\<lambda>t. toast_id (toast_item t) \<noteq> i) (toasts s)\<rparr>"

definition handleUndo :: "string \<Rightarrow> 'l sidebar \<Rightarrow> 'l sidebar" where
  "handleUndo toastId s = drop_toast toastId s"

definition handleToastExpired :: "string \<Rightarrow> 'l sidebar \<Rightarrow> 'l sidebar" where
  "handleToastExpired toastId s = drop_toast toastId s"

definition handleDeleteStarted :: "string \<Rightarrow> 'l sidebar \<Rightarrow> bool \<times> 'l sidebar" where
  "handleDeleteStarted sid s =
     (let wasActive = ui_activeSessionId (side_ui s) = Some sid
      in (wasActive, if wasActive then side_setActive None s else s))"

definition handleDeleteFailed :: "string \<Rightarrow> bool \<Rightarrow> 'l sidebar \<Rightarrow> 'l sidebar" where
  "handleDeleteFailed sid restore s =
     (if restore \<and> ui_activeSessionId (side_ui s) = None then side_setActive (Some sid) s else s)"

definition toast_mounted :: "string \<Rightarrow> 'l sidebar \<Rightarrow> bool" where
  "toast_mounted i s = list_ex (\<lambda>t. toast_id (toast_item t) = i) (toasts s)"

text \<open>The settlement of a deletion: the callbacks of the hook, then those of the mounted toast.\<close>

definition delete_succeeds ::
    "SessionListResponse InfiniteData option \<Rightarrow> delete_call \<Rightarrow> 'l sidebar \<Rightarrow> 'l sidebar" where
  "delete_succeeds cachedList c s =
     (let s1 = s\<lparr>cache_commands := cache_commands s @ deleteSession_onSuccess (call_sessionId c) cachedList\<rparr>
      in if toast_mounted (call_toast c) s1 then handleToastExpired (call_toast c) s1 else s1)"

definition delete_fails ::
    "SessionDetail InfiniteData option option \<Rightarrow> delete_call \<Rightarrow> 'l sidebar \<Rightarrow> 'l sidebar" where
  "delete_fails context c s =
     (let (cmds, l) = deleteSession_onError (call_sessionId c) context (side_lifecycle s);
          s1 = s\<lparr>cache_commands := cache_commands s @ cmds, side_lifecycle := l\<rparr>
      in if toast_mounted (call_toast c) s1
         then
           (let s2 = s1\<lparr>side_lifecycle := rollbackSessionDeletion (call_sessionId c) (side_lifecycle s1)\<rparr>;
                s3 = handleDeleteFailed (call_sessionId c) (restoreActiveSession c) s2
            in handleToastExpired (call_toast c) s3)
         else s1)"

text \<open>\<open>deleteMutationRef.current.mutate\<close>: \<open>onMutate\<close>, the mutation function, and a failure of either.\<close>

definition delete_mutate ::
    "bool \<Rightarrow> SessionDetail InfiniteData option \<Rightarrow> UndoToastItem \<Rightarrow> bool \<Rightarrow> 'l sidebar \<Rightarrow> 'l sidebar" where
  "delete_mutate canSubmitQuery cachedDetail item restore s =
     (let sid = toast_sessionId item;
          c = (\<lambda>d. \<lparr>call_toast = toast_id item, call_sessionId = sid, restoreActiveSession = restore,
                  call_context = d\<rparr>);
          (m, l) = deleteSession_onMutate canSubmitQuery sid cachedDetail (side_lifecycle s);
          s1 = s\<lparr>side_lifecycle := l\<rparr>
      in case m of
           Inl _ \<Rightarrow> delete_fails None (c None) s1
         | Inr (previousDetail, cmds) \<Rightarrow>
             (let s2 = s1\<lparr>cache_commands := cache_commands s1 @ cmds\<rparr>
              in case deleteSession_mutationFn canSubmitQuery sid of
                   Inl _ \<Rightarrow> delete_fails (Some previousDetail) (c previousDetail) s2
                 | Inr req \<Rightarrow> s2\<lparr>side_requests := side_requests s2 @ [req],
                                  delete_calls := delete_calls s2 @ [c previousDetail]\<rparr>))"

text \<open>The part of \<open>fireDeletion\<close> that reaches beyond the toast.\<close>

definition start_deletion ::
    "bool \<Rightarrow> SessionDetail InfiniteData option \<Rightarrow> UndoToastItem \<Rightarrow> 'l sidebar \<Rightarrow> 'l sidebar" where
  "start_deletion canSubmitQuery cachedDetail item s =
     (let sid = toast_sessionId item;
          s1 = s\<lparr>side_lifecycle := fst (beginSessionDeletion sid (side_lifecycle s))\<rparr>;
          (restore, s2) = handleDeleteStarted sid s1
      in delete_mutate canSubmitQuery cachedDetail item restore s2)"

fun apply_effects ::
    "bool \<Rightarrow> SessionDetail InfiniteData option \<Rightarrow> toast_effect list \<Rightarrow> 'l sidebar \<Rightarrow> 'l sidebar" where
  "apply_effects can d [] s = s"
| "apply_effects can d (StartDeletion item # effs) s = apply_effects can d effs (start_deletion can d item s)"
| "apply_effects can d (Undo item # effs) s = apply_effects can d effs (handleUndo (toast_id item) s)"

text \<open>An event of the toast with the given id, and what it asks of the sidebar.\<close>

definition on_toast ::
    "bool \<Rightarrow> SessionDetail InfiniteData option \<Rightarrow> string \<Rightarrow> toast_event \<Rightarrow> 'l sidebar \<Rightarrow> 'l sidebar" where
  "on_toast can d i e s =
     apply_effects can d
       (concat (map (\<lambda>t. if toast_id (toast_item t) = i then snd (toast_step e t) else []) (toasts s)))
       (s\<lparr>toasts := map (\<lambda>t. if toast_id (toast_item t) = i then fst (toast_step e t) else t) (toasts s)\<rparr>)"

text \<open>
  A settlement names the request by its place among those in flight. When the sidebar unmounts, the
  cleanup of its toasts clears their timers.
\<close>

datatype sidebar_event =
    NewChat
  | SessionClick string
  | DeleteClick nat string
  | OnToast bool "SessionDetail InfiniteData option" string toast_event
  | DeleteSucceeds nat "SessionListResponse InfiniteData option"
  | DeleteFails nat
  | SidebarUnmounts

definition settled_call :: "nat \<Rightarrow> 'l sidebar \<Rightarrow> 'l sidebar" where
  "settled_call n s = s\<lparr>delete_calls := take n (delete_calls s) @ drop (Suc n) (delete_calls s)\<rparr>"

fun sidebar_step :: "sidebar_event \<Rightarrow> 'l sidebar \<Rightarrow> 'l sidebar" where
  "sidebar_step NewChat s = handleNewChat s"
| "sidebar_step (SessionClick sid) s = handleSessionClick sid s"
| "sidebar_step (DeleteClick now sid) s = handleDeleteSession now sid s"
| "sidebar_step (OnToast can d i e) s = on_toast can d i e s"
| "sidebar_step (DeleteSucceeds n l) s =
     (if n < length (delete_calls s) then delete_succeeds l (delete_calls s ! n) (settled_call n s) else s)"
| "sidebar_step (DeleteFails n) s =
     (if n < length (delete_calls s)
      then (let c = delete_calls s ! n in delete_fails (Some (call_context c)) c (settled_call n s))
      else s)"
| "sidebar_step SidebarUnmounts s = s\<lparr>toasts := []\<rparr>"

section \<open>Lemmas: one toast\<close>

lemmas toast_defs = countdown_effect_def countdown_cleanup_def interval_tick_def setPaused_def
  pauseCountdown_def resumeCountdown_def fireDeletion_def toast_timer_fires_def toast_handleUndo_def
  undo_click_def

lemma toast_run_append:
  "toast_run (es @ fs) t =
     (fst (toast_run fs (fst (toast_run es t))),
      snd (toast_run es t) @ snd (toast_run fs (fst (toast_run es t))))"
  by (induction es arbitrary: t) (simp_all add: case_prod_beta Let_def)

lemma toast_run_snoc:
  "toast_run (es @ [e]) t =
     (fst (toast_step e (fst (toast_run es t))),
      snd (toast_run es t) @ snd (toast_step e (fst (toast_run es t))))"
  by (simp add: toast_run_append case_prod_beta)

lemma toast_step_item [simp]: "toast_item (fst (toast_step e t)) = toast_item t"
  by (cases e) (auto simp: toast_defs Let_def split: option.splits)

lemma toast_run_item [simp]: "toast_item (fst (toast_run es t)) = toast_item t"
  by (induction es arbitrary: t) (simp_all add: case_prod_beta Let_def)

lemma mount_toast_item [simp]: "toast_item (mount_toast now item) = item"
  by (simp add: mount_toast_def countdown_effect_def Let_def)

text \<open>The invariant of a mounted toast, whatever the clock does.\<close>

definition toast_inv :: "undo_toast \<Rightarrow> bool" where
  "toast_inv t =
     (0 \<le> remainingRef t \<and> (intervalRef t \<noteq> None \<longrightarrow> timerRef t \<noteq> None \<or> expiredRef t) \<and>
      (deleteStarted t \<longrightarrow> expiredRef t) \<and>
      (\<not> paused t \<and> \<not> expiredRef t \<and> 0 < remainingRef t \<longrightarrow> timerRef t \<noteq> None))"

lemma toast_inv_mount: "toast_inv (mount_toast now item)"
  by (simp add: toast_inv_def mount_toast_def countdown_effect_def UNDO_DURATION_MS_def Let_def)

lemma toast_inv_step: "toast_inv t \<Longrightarrow> toast_inv (fst (toast_step e t))"
  by (cases e) (auto simp: toast_inv_def toast_defs Let_def split: option.splits)

lemma toast_inv_run: "toast_inv t \<Longrightarrow> toast_inv (fst (toast_run es t))"
  by (induction es arbitrary: t) (simp_all add: case_prod_beta Let_def toast_inv_step)

lemma toast_step_outputs:
  "toast_inv t \<Longrightarrow> toast_step e t = (t', out) \<Longrightarrow>
     (expiredRef t \<longrightarrow> out = [] \<and> expiredRef t' \<and> deleteStarted t' = deleteStarted t) \<and>
     (\<not> expiredRef t \<longrightarrow>
        (out = [] \<and> \<not> expiredRef t' \<and> \<not> deleteStarted t') \<or>
        (out = [StartDeletion (toast_item t)] \<and> expiredRef t' \<and> deleteStarted t') \<or>
        (out = [Undo (toast_item t)] \<and> expiredRef t' \<and> \<not> deleteStarted t'))"
  by (cases e) (auto simp: toast_inv_def toast_defs Let_def split: option.splits if_splits)

text \<open>A toast with nothing left and no timer never starts its deletion.\<close>

definition toast_stuck :: "undo_toast \<Rightarrow> bool" where
  "toast_stuck t = (timerRef t = None \<and> intervalRef t = None \<and> remainingRef t \<le> 0)"

lemma toast_stuck_step:
  "toast_stuck t \<Longrightarrow> toast_stuck (fst (toast_step e t)) \<and> StartDeletion i \<notin> set (snd (toast_step e t))"
  by (cases e) (auto simp: toast_stuck_def toast_defs Let_def split: option.splits)

lemma toast_stuck_run: "toast_stuck t \<Longrightarrow> StartDeletion i \<notin> set (snd (toast_run es t))"
  by (induction es arbitrary: t) (auto simp: case_prod_beta Let_def dest: toast_stuck_step)

text \<open>The clock readings of a run, and the invariant under a clock that does not go back.\<close>

fun clock_of :: "toast_event \<Rightarrow> int list" where
  "clock_of (Tick now) = [now]"
| "clock_of (PointerEnters now) = [now]"
| "clock_of (PointerLeaves now) = [now]"
| "clock_of ToastTimer = []"
| "clock_of UndoClick = []"

definition toast_bounds :: "int \<Rightarrow> undo_toast \<Rightarrow> bool" where
  "toast_bounds now t =
     (0 \<le> remainingRef t \<and> remainingRef t \<le> UNDO_DURATION_MS \<and>
      0 \<le> remainingMs t \<and> remainingMs t \<le> UNDO_DURATION_MS \<and>
      (\<forall>d \<in> set_option (timerRef t). 0 < d \<and> d \<le> UNDO_DURATION_MS) \<and>
      (\<forall>(b, s) \<in> set_option (intervalRef t). b \<le> UNDO_DURATION_MS \<and> s \<le> now))"

lemma toast_bounds_later: "toast_bounds now t \<Longrightarrow> now \<le> now' \<Longrightarrow> toast_bounds now' t"
  by (fastforce simp: toast_bounds_def)

lemma toast_bounds_step:
  assumes "toast_bounds now t" and "\<forall>c \<in> set (clock_of e). now \<le> c"
  shows "toast_bounds (last (now # clock_of e)) (fst (toast_step e t))"
  using assms
  by (cases e) (auto simp: toast_bounds_def toast_defs UNDO_DURATION_MS_def Let_def split: option.splits)

lemma toast_bounds_run:
  "toast_bounds now t \<Longrightarrow> sorted (now # concat (map clock_of es)) \<Longrightarrow>
     \<exists>now'. toast_bounds now' (fst (toast_run es t))"
proof (induction es arbitrary: now t)
  case (Cons e es)
  let ?now = "last (now # clock_of e)"
  have "toast_bounds ?now (fst (toast_step e t))"
    using Cons.prems by (intro toast_bounds_step) auto
  moreover have "sorted (?now # concat (map clock_of es))"
    using Cons.prems(2) by (cases e) (auto simp: sorted_append)
  ultimately show ?case using Cons.IH by (simp add: case_prod_beta Let_def)
qed auto

section \<open>Lemmas: the sidebar\<close>

definition toast_session :: "undo_toast \<Rightarrow> string" where
  "toast_session t = toast_sessionId (toast_item t)"

definition sidebar_run :: "sidebar_event list \<Rightarrow> 'l sidebar \<Rightarrow> 'l sidebar" where
  "sidebar_run es s = fold sidebar_step es s"

text \<open>Counting requests, clicks and undecided toasts of a session.\<close>

definition sent_deletes :: "string \<Rightarrow> 'l sidebar \<Rightarrow> nat" where
  "sent_deletes sid s = length (filter (\<lambda>r. r = DeleteSession sid) (side_requests s))"

definition undecided :: "string \<Rightarrow> undo_toast list \<Rightarrow> nat" where
  "undecided sid ts = length (filter (\<lambda>t. toast_session t = sid \<and> \<not> expiredRef t) ts)"

definition starts_of :: "string \<Rightarrow> toast_effect list \<Rightarrow> nat" where
  "starts_of sid effs =
     length (filter (\<lambda>e. case e of StartDeletion item \<Rightarrow> toast_sessionId item = sid | Undo _ \<Rightarrow> False) effs)"

fun is_delete_click :: "string \<Rightarrow> sidebar_event \<Rightarrow> bool" where
  "is_delete_click sid (DeleteClick now x) = (x = sid)"
| "is_delete_click sid _ = False"

definition delete_clicks :: "string \<Rightarrow> sidebar_event list \<Rightarrow> nat" where
  "delete_clicks sid es = length (filter (is_delete_click sid) es)"

lemmas side_defs = side_navigate_def side_setActive_def handleNewChat_def handleSessionClick_def
  drop_toast_def handleUndo_def handleToastExpired_def handleDeleteStarted_def handleDeleteFailed_def
  delete_succeeds_def delete_fails_def settled_call_def

lemma undecided_simps [simp]:
  "undecided sid [] = 0"
  "undecided sid (t # ts) = (if toast_session t = sid \<and> \<not> expiredRef t then 1 else 0) + undecided sid ts"
  "undecided sid (ts @ us) = undecided sid ts + undecided sid us"
  by (simp_all add: undecided_def)

lemma undecided_filter: "undecided sid (filter P ts) \<le> undecided sid ts"
  by (induction ts) auto

lemma starts_of_simps [simp]:
  "starts_of sid [] = 0"
  "starts_of sid (StartDeletion item # es) = (if toast_sessionId item = sid then 1 else 0) + starts_of sid es"
  "starts_of sid (Undo item # es) = starts_of sid es"
  "starts_of sid (es @ fs) = starts_of sid es + starts_of sid fs"
  by (simp_all add: starts_of_def)

text \<open>Handlers only ever drop toasts, and only a started deletion makes a request.\<close>

lemma delete_fails_toasts: "\<exists>P. toasts (delete_fails x c s) = filter P (toasts s)"
  by (cases "toast_mounted (call_toast c) s")
     (auto simp: side_defs Let_def deleteSession_onError_def toast_mounted_def intro: filter_True [symmetric])

lemma delete_fails_requests [simp]: "side_requests (delete_fails x c s) = side_requests s"
  by (simp add: side_defs Let_def deleteSession_onError_def)

lemma delete_succeeds_toasts: "\<exists>P. toasts (delete_succeeds l c s) = filter P (toasts s)"
  by (cases "toast_mounted (call_toast c) s")
     (auto simp: side_defs Let_def toast_mounted_def intro: filter_True [symmetric])

lemma delete_succeeds_requests [simp]: "side_requests (delete_succeeds l c s) = side_requests s"
  by (simp add: side_defs Let_def)

lemma handleDeleteStarted_frame:
  "toasts (snd (handleDeleteStarted sid s)) = toasts s"
  "side_requests (snd (handleDeleteStarted sid s)) = side_requests s"
  by (simp_all add: side_defs Let_def)

lemma delete_mutate_frame:
  "(\<exists>P. toasts (delete_mutate can d item r s) = filter P (toasts s)) \<and>
   side_requests (delete_mutate can d item r s) \<in>
     {side_requests s, side_requests s @ [DeleteSession (toast_sessionId item)]}"
proof -
  let ?l = "side_lifecycle s"
  have keep: "\<exists>P. toasts (delete_fails x c (s\<lparr>side_lifecycle := l, cache_commands := cc\<rparr>)) = filter P (toasts s)"
    for x c l cc using delete_fails_toasts [of x c "s\<lparr>side_lifecycle := l, cache_commands := cc\<rparr>"] by simp
  have keep': "\<exists>P. toasts (delete_fails x c (s\<lparr>side_lifecycle := l\<rparr>)) = filter P (toasts s)"
    for x c l using delete_fails_toasts [of x c "s\<lparr>side_lifecycle := l\<rparr>"] by simp
  have same: "\<exists>P. toasts s = filter P (toasts s)" by (rule exI [of _ "\<lambda>_. True"]) simp
  show ?thesis
    using keep keep' same delete_fails_toasts [of _ _ s]
    by (auto simp: delete_mutate_def Let_def deleteSession_onMutate_def deleteSession_mutationFn_def
        split: sum.splits)
qed

lemma start_deletion_frame:
  "\<exists>P. toasts (start_deletion can d item s) = filter P (toasts s)"
  "side_requests (start_deletion can d item s) \<in>
     {side_requests s, side_requests s @ [DeleteSession (toast_sessionId item)]}"
proof -
  let ?s = "snd (handleDeleteStarted (toast_sessionId item)
    (s\<lparr>side_lifecycle := fst (beginSessionDeletion (toast_sessionId item) (side_lifecycle s))\<rparr>))"
  have eq: "start_deletion can d item s = delete_mutate can d item r ?s"
    if "r = fst (handleDeleteStarted (toast_sessionId item)
      (s\<lparr>side_lifecycle := fst (beginSessionDeletion (toast_sessionId item) (side_lifecycle s))\<rparr>))" for r
    using that by (simp add: start_deletion_def Let_def case_prod_beta)
  show "\<exists>P. toasts (start_deletion can d item s) = filter P (toasts s)"
    using delete_mutate_frame [of can d item _ ?s] eq [OF refl] by (simp add: handleDeleteStarted_frame)
  show "side_requests (start_deletion can d item s) \<in>
     {side_requests s, side_requests s @ [DeleteSession (toast_sessionId item)]}"
    using delete_mutate_frame [of can d item _ ?s] eq [OF refl] by (simp add: handleDeleteStarted_frame)
qed

lemma apply_effects_toasts: "\<exists>P. toasts (apply_effects can d effs s) = filter P (toasts s)"
proof (induction can d effs s rule: apply_effects.induct)
  case (1 can d s)
  show ?case by (rule exI [of _ "\<lambda>_. True"]) simp
next
  case (2 can d item effs s)
  then show ?case using start_deletion_frame(1) [of can d item s] by (auto simp: filter_filter)
next
  case (3 can d item effs s)
  then show ?case by (auto simp: side_defs filter_filter)
qed

lemma apply_effects_sent:
  "sent_deletes sid (apply_effects can d effs s) \<le> sent_deletes sid s + starts_of sid effs"
proof (induction can d effs s rule: apply_effects.induct)
  case (2 can d item effs s)
  have "sent_deletes sid (start_deletion can d item s)
      \<le> sent_deletes sid s + (if toast_sessionId item = sid then 1 else 0)"
    using start_deletion_frame(2) [of can d item s] by (auto simp: sent_deletes_def)
  with 2 show ?case by simp
qed (simp_all add: sent_deletes_def side_defs)

lemma toast_step_starts:
  "undecided sid [fst (toast_step e t)] + starts_of sid (snd (toast_step e t)) \<le> undecided sid [t]"
  by (cases e) (auto simp: toast_defs toast_session_def Let_def split: option.splits)

lemma toasts_step_starts:
  "undecided sid (map (\<lambda>t. if Q t then fst (toast_step e t) else t) ts) +
     starts_of sid (concat (map (\<lambda>t. if Q t then snd (toast_step e t) else []) ts)) \<le> undecided sid ts"
proof (induction ts)
  case (Cons t ts)
  with toast_step_starts [of sid e t] show ?case by auto
qed simp

lemma mount_undecided: "undecided sid [mount_toast now item] = (if toast_sessionId item = sid then 1 else 0)"
  by (simp add: mount_toast_def countdown_effect_def UNDO_DURATION_MS_def toast_session_def Let_def)

text \<open>Every event pays for the requests it sends with an undecided toast, every toast with a click.\<close>

definition delete_budget :: "string \<Rightarrow> 'l sidebar \<Rightarrow> nat" where
  "delete_budget sid s = sent_deletes sid s + undecided sid (toasts s)"

lemma sidebar_step_budget:
  "delete_budget sid (sidebar_step e s) \<le> delete_budget sid s + (if is_delete_click sid e then 1 else 0)"
proof (cases e)
  case (OnToast can d i te)
  let ?m = "map (\<lambda>t. if toast_id (toast_item t) = i then fst (toast_step te t) else t) (toasts s)"
  let ?o = "concat (map (\<lambda>t. if toast_id (toast_item t) = i then snd (toast_step te t) else []) (toasts s))"
  obtain P where "toasts (apply_effects can d ?o (s\<lparr>toasts := ?m\<rparr>)) = filter P ?m"
    using apply_effects_toasts [of can d ?o "s\<lparr>toasts := ?m\<rparr>"] by auto
  then have "undecided sid (toasts (on_toast can d i te s)) \<le> undecided sid ?m"
    by (simp add: on_toast_def undecided_filter)
  moreover have "sent_deletes sid (on_toast can d i te s) \<le> sent_deletes sid s + starts_of sid ?o"
    using apply_effects_sent [of sid can d ?o "s\<lparr>toasts := ?m\<rparr>"] by (simp add: on_toast_def sent_deletes_def)
  moreover have "undecided sid ?m + starts_of sid ?o \<le> undecided sid (toasts s)"
    by (rule toasts_step_starts)
  ultimately show ?thesis using OnToast by (simp add: delete_budget_def)
next
  case (DeleteClick now x)
  then show ?thesis
    using mount_undecided [of sid "int now"]
    by (auto simp: delete_budget_def sent_deletes_def handleDeleteSession_def)
next
  case (DeleteSucceeds n l)
  then show ?thesis
    using delete_succeeds_toasts [of l "delete_calls s ! n" "settled_call n s"]
    by (auto simp: delete_budget_def sent_deletes_def settled_call_def undecided_filter)
next
  case (DeleteFails n)
  then show ?thesis
    using delete_fails_toasts [of "Some (call_context (delete_calls s ! n))" "delete_calls s ! n" "settled_call n s"]
    by (auto simp: delete_budget_def sent_deletes_def settled_call_def undecided_filter Let_def)
qed (simp_all add: delete_budget_def sent_deletes_def side_defs)

lemma sidebar_run_budget:
  "delete_budget sid (sidebar_run es s) \<le> delete_budget sid s + delete_clicks sid es"
proof (induction es arbitrary: s)
  case (Cons e es)
  have "delete_budget sid (sidebar_run es (sidebar_step e s))
      \<le> delete_budget sid (sidebar_step e s) + delete_clicks sid es"
    by (rule Cons.IH)
  with sidebar_step_budget [of sid e s] show ?case
    by (auto simp: sidebar_run_def delete_clicks_def)
qed (simp add: sidebar_run_def delete_clicks_def)

text \<open>The toasts of a sidebar: one per session, with the id \<open>handleDeleteSession\<close> gives it.\<close>

definition sidebar_inv :: "'l sidebar \<Rightarrow> bool" where
  "sidebar_inv s =
     ((\<forall>t \<in> set (toasts s). toast_inv t \<and>
        (\<exists>n. toast_id (toast_item t) = toast_session t @ ''-'' @ nat_to_string n)) \<and>
      distinct (map toast_session (toasts s)))"

lemma nat_to_string_no_dash: "CHR ''-'' \<notin> set (nat_to_string n)"
  using nat_to_string_digits [of n] by auto

lemma toast_id_session:
  "a @ ''-'' @ nat_to_string m = b @ ''-'' @ nat_to_string n \<Longrightarrow> a = b"
  using last_sep_unique [of "CHR ''-''" "nat_to_string m" "nat_to_string n" a b] nat_to_string_no_dash
  by simp

lemma sidebar_inv_filter:
  "sidebar_inv s \<Longrightarrow> toasts s' = filter P (toasts s) \<Longrightarrow> sidebar_inv s'"
  by (auto simp: sidebar_inv_def distinct_map_filter)

lemma toast_session_step [simp]: "toast_session (fst (toast_step e t)) = toast_session t"
  by (simp add: toast_session_def)

lemma sidebar_inv_map:
  "sidebar_inv s \<Longrightarrow>
     sidebar_inv (s\<lparr>toasts := map (\<lambda>t. if Q t then fst (toast_step e t) else t) (toasts s)\<rparr>)"
  by (auto simp: sidebar_inv_def toast_inv_step o_def if_distrib [of toast_session] cong: if_cong)

lemma sidebar_inv_step: "sidebar_inv s \<Longrightarrow> sidebar_inv (sidebar_step e s)"
proof (cases e)
  case (OnToast can d i te)
  assume inv: "sidebar_inv s"
  let ?s = "s\<lparr>toasts := map (\<lambda>t. if toast_id (toast_item t) = i then fst (toast_step te t) else t) (toasts s)\<rparr>"
  let ?o = "concat (map (\<lambda>t. if toast_id (toast_item t) = i then snd (toast_step te t) else []) (toasts s))"
  obtain P where P: "toasts (apply_effects can d ?o ?s) = filter P (toasts ?s)"
    using apply_effects_toasts [of can d ?o ?s] by blast
  have "sidebar_inv (apply_effects can d ?o ?s)"
    by (rule sidebar_inv_filter [OF _ P]) (rule sidebar_inv_map [OF inv])
  then show ?thesis using OnToast by (simp add: on_toast_def)
next
  case (DeleteClick now x)
  assume "sidebar_inv s"
  then show ?thesis
    using DeleteClick toast_inv_mount
    by (auto simp: handleDeleteSession_def sidebar_inv_def toast_session_def list_ex_iff)
next
  case (DeleteSucceeds n l)
  assume "sidebar_inv s"
  then show ?thesis
    using DeleteSucceeds sidebar_inv_filter [of s] delete_succeeds_toasts [of l "delete_calls s ! n" "settled_call n s"]
    by (auto simp: settled_call_def)
next
  case (DeleteFails n)
  assume "sidebar_inv s"
  then show ?thesis
    using DeleteFails sidebar_inv_filter [of s]
      delete_fails_toasts [of "Some (call_context (delete_calls s ! n))" "delete_calls s ! n" "settled_call n s"]
    by (auto simp: settled_call_def Let_def)
qed (simp_all add: sidebar_inv_def side_defs)

lemma sidebar_inv_run: "sidebar_inv s \<Longrightarrow> sidebar_inv (sidebar_run es s)"
  by (induction es arbitrary: s) (simp_all add: sidebar_run_def sidebar_inv_step)

lemma sidebar_inv_init: "sidebar_inv (init_sidebar ui l)"
  by (simp add: sidebar_inv_def init_sidebar_def)

lemma filter_map_others:
  "(\<And>x. P (f x) = P x) \<Longrightarrow> filter (\<lambda>x. \<not> P x) (map (\<lambda>x. if P x then f x else x) xs) = filter (\<lambda>x. \<not> P x) xs"
  by (induction xs) auto

text \<open>The undo button of an undecided toast drops exactly that toast and sends nothing.\<close>

lemma undo_click_drops:
  assumes inv: "sidebar_inv s" and t: "t \<in> set (toasts s)" and fresh: "\<not> expiredRef t"
  shows "side_requests (on_toast can d (toast_id (toast_item t)) UndoClick s) = side_requests s \<and>
    toasts (on_toast can d (toast_id (toast_item t)) UndoClick s) =
      filter (\<lambda>u. toast_session u \<noteq> toast_session t) (toasts s)"
proof -
  let ?i = "toast_id (toast_item t)"
  have same: "toast_id (toast_item u) = ?i \<longleftrightarrow> u = t" if "u \<in> set (toasts s)" for u
  proof
    assume "toast_id (toast_item u) = ?i"
    then have "toast_session u = toast_session t"
      using inv t that toast_id_session unfolding sidebar_inv_def by metis
    then show "u = t" using inv t that by (auto simp: sidebar_inv_def distinct_map inj_on_def)
  qed simp
  have d: "distinct (toasts s)" using inv by (simp add: sidebar_inv_def distinct_map)
  have u: "undo_click t = (t\<lparr>expiredRef := True\<rparr>, [Undo (toast_item t)])"
    using inv t fresh by (auto simp: undo_click_def toast_handleUndo_def sidebar_inv_def toast_inv_def)
  have outs: "concat (map (\<lambda>v. if toast_id (toast_item v) = ?i then snd (undo_click v) else []) (toasts s)) =
      [Undo (toast_item t)]"
  proof -
    from t obtain xs ys where s: "toasts s = xs @ t # ys" by (meson split_list)
    have "toast_id (toast_item v) \<noteq> ?i" if "v \<in> set xs \<union> set ys" for v
      using same [of v] that d s by auto
    then have "concat (map (\<lambda>v. if toast_id (toast_item v) = ?i then snd (undo_click v) else []) zs) = []"
      if "set zs \<subseteq> set xs \<union> set ys" for zs using that by auto
    then have "concat (map (\<lambda>v. if toast_id (toast_item v) = ?i then snd (undo_click v) else []) xs) = []"
        "concat (map (\<lambda>v. if toast_id (toast_item v) = ?i then snd (undo_click v) else []) ys) = []" by blast+
    then show ?thesis using u by (simp add: s del: concat_eq_Nil_conv)
  qed
  have sess: "toast_id (toast_item v) = ?i \<longleftrightarrow> toast_session v = toast_session t" if "v \<in> set (toasts s)" for v
    using same [OF that] inv t that by (auto simp: sidebar_inv_def distinct_map inj_on_def)
  have "filter (\<lambda>v. toast_id (toast_item v) \<noteq> ?i)
      (map (\<lambda>v. if toast_id (toast_item v) = ?i then fst (undo_click v) else v) (toasts s)) =
      filter (\<lambda>v. toast_session v \<noteq> toast_session t) (toasts s)"
    using filter_map_others [of "\<lambda>v. toast_id (toast_item v) = ?i" "\<lambda>v. fst (undo_click v)" "toasts s"]
      toast_step_item [of UndoClick] sess by (auto intro: filter_cong)
  with outs show ?thesis unfolding on_toast_def toast_step.simps by (simp add: side_defs)
qed

section \<open>Properties\<close>

definition sample_item :: UndoToastItem where
  "sample_item = \<lparr>toast_id = ''a-0'', toast_sessionId = ''a'', toast_message = ''sidebar.deleteConfirm''\<rparr>"

definition open_toast :: "unit sidebar" where
  "open_toast = sidebar_run [DeleteClick 0 ''a''] (init_sidebar init_ui empty_lifecycle)"

text \<open>
  C16. Undo means undo. When the user presses the button of a toast whose deletion has not started, in
  any state the sidebar can reach, the session is listed again and no deletion of it is requested by
  anything that follows, timers and unmounts included, until the user asks for its deletion anew.
\<close>

theorem undone_session_is_not_deleted:
  assumes "s = sidebar_run es (init_sidebar ui l)" and "t \<in> set (toasts s)" and "\<not> expiredRef t"
    and "delete_clicks (toast_session t) es' = 0"
    and "s' = sidebar_run (OnToast can d (toast_id (toast_item t)) UndoClick # es') s"
  shows "sent_deletes (toast_session t) s' \<le> sent_deletes (toast_session t) s \<and>
    toast_session t \<notin> deletingSessionIds (on_toast can d (toast_id (toast_item t)) UndoClick s)"
proof -
  let ?u = "on_toast can d (toast_id (toast_item t)) UndoClick s"
  have inv: "sidebar_inv s" using assms(1) sidebar_inv_run sidebar_inv_init by metis
  note drops = undo_click_drops [OF inv assms(2,3), of can d]
  then have "delete_budget (toast_session t) ?u = sent_deletes (toast_session t) s"
    by (simp add: delete_budget_def sent_deletes_def undecided_def filter_empty_conv)
  moreover have "s' = sidebar_run es' ?u" using assms(5) by (simp add: sidebar_run_def)
  ultimately have "delete_budget (toast_session t) s' \<le> sent_deletes (toast_session t) s"
    using sidebar_run_budget [of "toast_session t" es' ?u] assms(4) by simp
  moreover have "toast_session t \<notin> deletingSessionIds ?u"
    using drops by (auto simp: deletingSessionIds_def toast_session_def)
  ultimately show ?thesis by (simp add: delete_budget_def)
qed

theorem undone_session_is_not_deleted_witness:
  "sent_deletes ''a'' (sidebar_run [OnToast True None ''a-0'' UndoClick, OnToast True None ''a-0'' ToastTimer]
     open_toast) \<le> 0 \<and> ''a'' \<notin> deletingSessionIds (on_toast True None ''a-0'' UndoClick open_toast)"
proof -
  have t: "toasts open_toast = [mount_toast 0 sample_item]"
    by (simp add: open_toast_def sidebar_run_def handleDeleteSession_def init_sidebar_def sample_item_def
        nat_to_string.simps char_of_def bit_simps)
  have f: "\<not> expiredRef (mount_toast 0 sample_item)"
    by (simp add: mount_toast_def countdown_effect_def UNDO_DURATION_MS_def Let_def)
  have i: "toast_session (mount_toast 0 sample_item) = ''a''" "toast_id (toast_item (mount_toast 0 sample_item)) = ''a-0''"
    by (simp_all add: toast_session_def sample_item_def)
  have z: "sent_deletes ''a'' open_toast = 0"
    by (simp add: open_toast_def sidebar_run_def handleDeleteSession_def init_sidebar_def sent_deletes_def)
  show ?thesis
    using undone_session_is_not_deleted [where t = "mount_toast 0 sample_item" and s = open_toast and can = True
        and d = None and es' = "[OnToast True None ''a-0'' ToastTimer]", OF open_toast_def _ f _ refl]
    by (simp add: t i(1) z delete_clicks_def) (simp add: sample_item_def)
qed

text \<open>
  Deletions are asked for: in every run the number of delete requests sent for a session, plus the
  toasts of it that are still undecided, is at most the number of times the user asked for its deletion
  before, however the timers, pauses, undos, settlements and unmounts are interleaved.
\<close>

lemma delete_requests_follow_clicks:
  "sent_deletes sid (sidebar_run es (init_sidebar ui l)) +
     undecided sid (toasts (sidebar_run es (init_sidebar ui l))) \<le> delete_clicks sid es"
  using sidebar_run_budget [of sid es "init_sidebar ui l"]
  by (simp add: delete_budget_def init_sidebar_def sent_deletes_def)

text \<open>
  With a clock that does not go back, the countdown stays within its window through every pause
  and resumption: the remaining time is between 0 and 5000 ms, so is the delay of the pending timer, which
  is positive, and the progress bar is between 0 and 100 percent wide.
\<close>

lemma countdown_within_bounds:
  assumes "sorted (now # concat (map clock_of es))"
  shows "0 \<le> remainingMs (fst (toast_run es (mount_toast now item))) \<and>
    remainingMs (fst (toast_run es (mount_toast now item))) \<le> UNDO_DURATION_MS \<and>
    (\<forall>d \<in> set_option (timerRef (fst (toast_run es (mount_toast now item)))). 0 < d \<and> d \<le> UNDO_DURATION_MS) \<and>
    0 \<le> progress_millipercent (fst (toast_run es (mount_toast now item))) \<and>
    progress_millipercent (fst (toast_run es (mount_toast now item))) \<le> 100000"
proof -
  have "toast_bounds now (mount_toast now item)"
    by (simp add: toast_bounds_def mount_toast_def countdown_effect_def UNDO_DURATION_MS_def Let_def)
  then obtain n where "toast_bounds n (fst (toast_run es (mount_toast now item)))"
    using toast_bounds_run assms by blast
  then show ?thesis by (simp add: toast_bounds_def progress_millipercent_def UNDO_DURATION_MS_def)
qed

text \<open>
  C17. A toast that is neither decided nor paused has its timer pending, and the timer starts the
  deletion, with one exception: once a tick has counted the time down to zero, a pause before the timer
  fires clears the timer, the resumption starts none, and the deletion is never requested while the
  session stays hidden. Such a run exists.
\<close>

theorem toast_fires_unless_paused_at_zero:
  "(let t = fst (toast_run es (mount_toast now item))
    in expiredRef t \<or> paused t \<or>
       (timerRef t \<noteq> None \<and> snd (toast_step ToastTimer t) = [StartDeletion item]) \<or>
       (remainingRef t = 0 \<and> (\<forall>es'. StartDeletion item \<notin> set (snd (toast_run es' t))))) \<and>
   (let t = fst (toast_run [Tick 5000, PointerEnters 5000, PointerLeaves 5000] (mount_toast 0 item))
    in \<not> expiredRef t \<and> \<not> paused t \<and> (\<forall>es'. StartDeletion item \<notin> set (snd (toast_run es' t))))"
proof -
  let ?t = "fst (toast_run es (mount_toast now item))"
  have inv: "toast_inv ?t" by (intro toast_inv_run toast_inv_mount)
  have fire: "snd (toast_step ToastTimer ?t) = [StartDeletion item]"
    if "\<not> expiredRef ?t" "timerRef ?t \<noteq> None"
    using that by (auto simp: toast_timer_fires_def fireDeletion_def)
  have "toast_stuck ?t \<and> remainingRef ?t = 0"
    if "\<not> expiredRef ?t" "\<not> paused ?t" "timerRef ?t = None"
    using that inv by (cases "intervalRef ?t") (auto simp: toast_inv_def toast_stuck_def)
  then have stuck: "remainingRef ?t = 0 \<and> (\<forall>es'. StartDeletion item \<notin> set (snd (toast_run es' ?t)))"
    if "\<not> expiredRef ?t" "\<not> paused ?t" "timerRef ?t = None"
    using that toast_stuck_run by blast
  let ?u = "fst (toast_run [Tick 5000, PointerEnters 5000, PointerLeaves 5000] (mount_toast 0 item))"
  have "toast_stuck ?u \<and> \<not> expiredRef ?u \<and> \<not> paused ?u"
    by (simp add: toast_stuck_def mount_toast_def toast_defs UNDO_DURATION_MS_def Let_def)
  then have "\<not> expiredRef ?u \<and> \<not> paused ?u \<and> (\<forall>es'. StartDeletion item \<notin> set (snd (toast_run es' ?u)))"
    using toast_stuck_run by blast
  with fire stuck show ?thesis unfolding Let_def by blast
qed

end
