(* ===== verification/Connection_Selection.thy ===== *)
theory Connection_Selection
  imports Permissions
begin

text \<open>
  The connection selection hook of \<open>frontend/src/hooks/useConnectionSelection.ts\<close>. The state holds the
  selection, the three refs and the props of the last render. A render with new props runs the sync and
  the auto-select effect, whose change of the selection renders again and runs the PATCH effect; a
  selection by the user runs the PATCH effect. The auto-select effect is run after every render: had it
  run before with the same dependencies, its guard would fail now. An absent id is \<open>None\<close>.
\<close>

section \<open>State and effects\<close>

record connection_selection =
  sel_connection :: "string option"
  userSelectedRef :: bool
  skipNextPatchRef :: bool
  prevSelectedRef :: "string option"
  sel_sessionId :: "string option"
  initialConnectionId :: "string option"
  sel_available :: "string list"
  patch_requests :: "(string \<times> string) list"

definition truthy_id :: "string option \<Rightarrow> bool" where
  "truthy_id i = (case i of None \<Rightarrow> False | Some s \<Rightarrow> s \<noteq> [])"

text \<open>The mutation: without a session it resolves at once, otherwise it needs the permission.\<close>

definition patch_mutationFn :: "bool \<Rightarrow> string option \<Rightarrow> string \<Rightarrow> (string \<times> string) option outcome" where
  "patch_mutationFn canSubmitQuery sid connectionId =
     (if \<not> truthy_id sid then Inr None
      else (case requirePermission canSubmitQuery QUERY_SUBMIT of
              Inl e \<Rightarrow> Inl e
            | Inr _ \<Rightarrow> Inr (Some (the sid, connectionId))))"

definition mutate_selection :: "bool \<Rightarrow> string \<Rightarrow> connection_selection \<Rightarrow> connection_selection" where
  "mutate_selection can connectionId s =
     (case patch_mutationFn can (sel_sessionId s) connectionId of
        Inr (Some r) \<Rightarrow> s\<lparr>patch_requests := patch_requests s @ [r]\<rparr>
      | _ \<Rightarrow> s)"

definition sync_effect :: "connection_selection \<Rightarrow> connection_selection" where
  "sync_effect s =
     (if \<not> userSelectedRef s \<and> initialConnectionId s \<noteq> None
      then (if sel_connection s = initialConnectionId s then s
            else s\<lparr>skipNextPatchRef := True, sel_connection := initialConnectionId s\<rparr>)
      else s)"

definition autoselect_effect :: "connection_selection \<Rightarrow> connection_selection" where
  "autoselect_effect s =
     (if \<not> userSelectedRef s \<and> sel_connection s = None \<and> initialConnectionId s = None \<and>
         length (sel_available s) = 1
      then s\<lparr>skipNextPatchRef := True, sel_connection := Some (hd (sel_available s))\<rparr>
      else s)"

definition patch_effect :: "bool \<Rightarrow> connection_selection \<Rightarrow> connection_selection" where
  "patch_effect can s =
     (if prevSelectedRef s \<noteq> sel_connection s
      then
        (let s1 = s\<lparr>prevSelectedRef := sel_connection s\<rparr>
         in if truthy_id (sel_sessionId s1) \<and> truthy_id (sel_connection s1)
            then (if skipNextPatchRef s1 then s1\<lparr>skipNextPatchRef := False\<rparr>
                  else mutate_selection can (the (sel_connection s1)) s1)
            else s1)
      else s)"

text \<open>A render with changed props: \<open>initialConnectionId\<close> alone makes the sync effect run.\<close>

definition sel_props ::
    "bool \<Rightarrow> string option \<Rightarrow> string option \<Rightarrow> string list \<Rightarrow> connection_selection \<Rightarrow> connection_selection" where
  "sel_props can sid initial available s =
     (let s1 = s\<lparr>sel_sessionId := sid, initialConnectionId := initial, sel_available := available\<rparr>;
          s2 = (if initial \<noteq> initialConnectionId s then sync_effect s1 else s1);
          s3 = autoselect_effect s2
      in patch_effect can s3)"

definition mount_selection :: "bool \<Rightarrow> string option \<Rightarrow> string option \<Rightarrow> string list \<Rightarrow> connection_selection" where
  "mount_selection can sid initial available =
     patch_effect can (autoselect_effect (sync_effect
       \<lparr>sel_connection = initial, userSelectedRef = False, skipNextPatchRef = False,
        prevSelectedRef = initial, sel_sessionId = sid, initialConnectionId = initial,
        sel_available = available, patch_requests = []\<rparr>))"

definition setSelectedConnectionId :: "bool \<Rightarrow> string option \<Rightarrow> connection_selection \<Rightarrow> connection_selection" where
  "setSelectedConnectionId can i s =
     (let s1 = s\<lparr>userSelectedRef := True\<rparr>
      in patch_effect can (if sel_connection s1 = i then s1 else s1\<lparr>sel_connection := i\<rparr>))"

datatype selection_event =
    SelProps bool "string option" "string option" "string list"
  | UserSelects bool "string option"

fun selection_step :: "selection_event \<Rightarrow> connection_selection \<Rightarrow> connection_selection" where
  "selection_step (SelProps can sid i av) s = sel_props can sid i av s"
| "selection_step (UserSelects can i) s = setSelectedConnectionId can i s"

definition selection_run :: "selection_event list \<Rightarrow> connection_selection \<Rightarrow> connection_selection" where
  "selection_run es s = fold selection_step es s"

section \<open>Lemmas\<close>

lemmas selection_defs = sync_effect_def autoselect_effect_def patch_effect_def sel_props_def
  setSelectedConnectionId_def mutate_selection_def patch_mutationFn_def Let_def

lemma truthy_id_Some: "truthy_id i \<Longrightarrow> i = Some (the i)"
  by (cases i) (simp_all add: truthy_id_def)

text \<open>
  Between events the PATCH effect has seen the selection. A change that the props make is marked, and
  the mark is what keeps it from being sent.
\<close>

definition selection_inv :: "connection_selection \<Rightarrow> bool" where
  "selection_inv s = (prevSelectedRef s = sel_connection s)"

lemma patch_effect_seen [simp]: "selection_inv (patch_effect can s)"
  by (auto simp: selection_inv_def selection_defs split: sum.splits option.splits)

lemma selection_inv_step: "selection_inv (selection_step e s)"
  by (cases e) (simp_all add: sel_props_def setSelectedConnectionId_def Let_def)

lemma selection_inv_run: "selection_inv s \<Longrightarrow> selection_inv (selection_run es s)"
  by (induction es rule: rev_induct) (simp_all add: selection_run_def selection_inv_step)

lemma props_send_nothing:
  assumes "selection_inv s"
  shows "patch_requests (sel_props can sid i av s) = patch_requests s"
  using assms
  by (auto simp: selection_inv_def selection_defs split: sum.splits option.splits)

lemma user_choice_survives_props:
  "userSelectedRef s \<Longrightarrow> sel_connection (sel_props can sid i av s) = sel_connection s \<and>
     userSelectedRef (sel_props can sid i av s)"
  by (auto simp: selection_defs split: sum.splits option.splits)

lemma user_selects_send:
  assumes "selection_inv s"
  shows "patch_requests (setSelectedConnectionId can i s) =
    patch_requests s @
      (if can \<and> i \<noteq> sel_connection s \<and> truthy_id i \<and> truthy_id (sel_sessionId s) \<and> \<not> skipNextPatchRef s
       then [(the (sel_sessionId s), the i)] else [])"
  using assms
  by (auto simp: selection_inv_def selection_defs requirePermission_def)

lemma setSelectedConnectionId_frame [simp]:
  "sel_connection (setSelectedConnectionId can i s) = i"
  "userSelectedRef (setSelectedConnectionId can i s)"
  "sel_sessionId (setSelectedConnectionId can i s) = sel_sessionId s"
  by (auto simp: selection_defs split: sum.splits option.splits)

lemma effects_session [simp]:
  "sel_sessionId (sync_effect s) = sel_sessionId s"
  "sel_sessionId (autoselect_effect s) = sel_sessionId s"
  "sel_sessionId (patch_effect can s) = sel_sessionId s"
  by (auto simp: selection_defs split: sum.splits option.splits)

lemma sel_props_session [simp]: "sel_sessionId (sel_props can sid i av s) = sid"
  by (simp add: sel_props_def Let_def)

text \<open>The connection the user chose last in a run, if any.\<close>

fun last_choice :: "selection_event list \<Rightarrow> string option option" where
  "last_choice [] = None"
| "last_choice (UserSelects can i # es) = (case last_choice es of None \<Rightarrow> Some i | Some c \<Rightarrow> Some c)"
| "last_choice (SelProps can sid i av # es) = last_choice es"

lemma last_choice_snoc:
  "last_choice (es @ [e]) = (case e of UserSelects can i \<Rightarrow> Some i | SelProps can sid i av \<Rightarrow> last_choice es)"
  by (induction es rule: last_choice.induct) (auto split: option.splits selection_event.splits)

lemma last_choice_kept:
  "last_choice es = Some c \<Longrightarrow>
     sel_connection (selection_run es s) = c \<and> userSelectedRef (selection_run es s)"
proof (induction es rule: rev_induct)
  case (snoc e es)
  then show ?case
    using user_choice_survives_props
    by (cases e) (auto simp: last_choice_snoc selection_run_def)
qed simp

text \<open>Props of a page that always has a session and only connections with a non-empty id.\<close>

fun in_session :: "selection_event \<Rightarrow> bool" where
  "in_session (SelProps can sid i av) = (truthy_id sid \<and> i \<noteq> Some [] \<and> [] \<notin> set av)"
| "in_session (UserSelects can i) = True"

lemma effects_unmark:
  assumes "selection_inv s" and "\<not> skipNextPatchRef s" and "truthy_id sid" and "i \<noteq> Some []" and "[] \<notin> set av"
  shows "\<not> skipNextPatchRef (sel_props can sid i av s)"
proof (cases av)
  case Nil
  with assms show ?thesis
    by (auto simp: selection_inv_def selection_defs truthy_id_def split: sum.splits option.splits)
next
  case (Cons a as)
  with assms show ?thesis
    by (auto simp: selection_inv_def selection_defs truthy_id_def split: sum.splits option.splits)
qed

lemma mount_unmark:
  assumes "truthy_id sid" and "i \<noteq> Some []" and "[] \<notin> set av"
  shows "\<not> skipNextPatchRef (mount_selection can sid i av)"
  using assms
  by (cases av)
     (auto simp: mount_selection_def selection_defs truthy_id_def split: sum.splits option.splits)

lemma user_selects_unmark: "\<not> skipNextPatchRef s \<Longrightarrow> \<not> skipNextPatchRef (setSelectedConnectionId can i s)"
  by (auto simp: selection_defs split: sum.splits option.splits)

lemma unmarked_run:
  "selection_inv s \<Longrightarrow> \<not> skipNextPatchRef s \<Longrightarrow> list_all in_session es \<Longrightarrow>
     \<not> skipNextPatchRef (selection_run es s)"
proof (induction es rule: rev_induct)
  case (snoc e es)
  then show ?case
    using selection_inv_run [of s es] effects_unmark user_selects_unmark
    by (cases e) (auto simp: selection_run_def)
qed (simp add: selection_run_def)

lemma mount_inv: "selection_inv (mount_selection can sid i av)"
  by (simp add: mount_selection_def)

section \<open>Properties\<close>

text \<open>
  The selection is the user's. Once the user has chosen a connection no later props replace it;
  and a PATCH is sent only by an event in which the user, holding the submit permission, picks another
  connection while a session is open, for exactly that session and connection. Selections made by the
  props or by the single-connection rule are never sent.
\<close>

lemma only_user_choices_are_saved:
  "let s = selection_run es (mount_selection can0 sid0 i0 av0);
       s' = selection_step e s
   in (last_choice es = None \<or> sel_connection s = the (last_choice es)) \<and>
      (patch_requests s' = patch_requests s \<or>
       (\<exists>sid c. e = UserSelects True (Some c) \<and> sel_sessionId s = Some sid \<and> sel_connection s \<noteq> Some c \<and>
          sel_connection s' = Some c \<and> patch_requests s' = patch_requests s @ [(sid, c)]))"
proof -
  let ?s = "selection_run es (mount_selection can0 sid0 i0 av0)"
  have inv: "selection_inv ?s" by (intro selection_inv_run mount_inv)
  have "patch_requests (selection_step e ?s) = patch_requests ?s \<or>
       (\<exists>sid c. e = UserSelects True (Some c) \<and> sel_sessionId ?s = Some sid \<and> sel_connection ?s \<noteq> Some c \<and>
          sel_connection (selection_step e ?s) = Some c \<and>
          patch_requests (selection_step e ?s) = patch_requests ?s @ [(sid, c)])"
    using user_selects_send [OF inv] props_send_nothing [OF inv]
    by (cases e) (auto simp: truthy_id_def split: option.splits)
  moreover have "last_choice es = None \<or> sel_connection ?s = the (last_choice es)"
    using last_choice_kept by (cases "last_choice es") auto
  ultimately show ?thesis by (simp add: Let_def)
qed

text \<open>
  C18. While the hook is mounted with an open session, every change the user makes is sent. Mounted
  without a session it is not so: the single connection is selected and the mark that suppresses its
  PATCH outlives the moment, because no session is there to clear it; after the session is created the
  user's first change of connection is swallowed and the server keeps the old one, whatever the session and
  the two connections are.
\<close>

theorem user_choice_saved_or_swallowed:
  "(truthy_id sid0 \<longrightarrow> i0 \<noteq> Some [] \<longrightarrow> [] \<notin> set av0 \<longrightarrow> list_all in_session es \<longrightarrow> c \<noteq> [] \<longrightarrow>
     (let s = selection_run es (mount_selection can0 sid0 i0 av0)
      in truthy_id (sel_sessionId s) \<longrightarrow> sel_connection s \<noteq> Some c \<longrightarrow>
         patch_requests (setSelectedConnectionId True (Some c) s) =
           patch_requests s @ [(the (sel_sessionId s), c)])) \<and>
   (s1 \<noteq> [] \<and> a \<noteq> [] \<and> b \<noteq> [] \<and> a \<noteq> b \<longrightarrow>
     (let s = selection_run [SelProps True (Some s1) None [a, b], UserSelects True (Some b)]
                (mount_selection True None None [a])
      in sel_connection s = Some b \<and> sel_sessionId s = Some s1 \<and> patch_requests s = []))"
proof -
  let ?s = "selection_run es (mount_selection can0 sid0 i0 av0)"
  have "patch_requests (setSelectedConnectionId True (Some c) ?s) = patch_requests ?s @ [(the (sel_sessionId ?s), c)]"
    if "truthy_id sid0" "i0 \<noteq> Some []" "[] \<notin> set av0" "list_all in_session es" "c \<noteq> []"
      "truthy_id (sel_sessionId ?s)" "sel_connection ?s \<noteq> Some c"
  proof -
    have "selection_inv ?s" by (intro selection_inv_run mount_inv)
    moreover have "\<not> skipNextPatchRef ?s" using that by (intro unmarked_run mount_inv mount_unmark) auto
    ultimately show ?thesis
      using that user_selects_send [of ?s True "Some c"] by (auto simp: truthy_id_def)
  qed
  moreover have "s1 \<noteq> [] \<and> a \<noteq> [] \<and> b \<noteq> [] \<and> a \<noteq> b \<longrightarrow>
     (let s = selection_run [SelProps True (Some s1) None [a, b], UserSelects True (Some b)]
                (mount_selection True None None [a])
      in sel_connection s = Some b \<and> sel_sessionId s = Some s1 \<and> patch_requests s = [])"
    by (simp add: selection_run_def mount_selection_def selection_defs truthy_id_def requirePermission_def)
  ultimately show ?thesis by (simp add: Let_def)
qed

theorem user_choice_saved_or_swallowed_witness:
  "patch_requests (setSelectedConnectionId True (Some ''b'') (mount_selection True (Some ''s1'') None [''a''])) =
     patch_requests (mount_selection True (Some ''s1'') None [''a'']) @ [(''s1'', ''b'')]"
  using user_choice_saved_or_swallowed [of "Some ''s1''" None "[''a'']" "[]" "''b''" True "''s1''" "''a''" "''b''"]
  by (simp add: selection_run_def mount_selection_def selection_defs truthy_id_def requirePermission_def)

end
