(* ===== verification/Json_Canonical.thy ===== *)
theory Json_Canonical
  imports Js_Prelude "HOL-Library.Multiset" "HOL-Library.List_Lexorder" "HOL-Library.Char_ord"
begin

text \<open>
  The order-insensitive comparison of \<open>frontend/src/hooks/useAdminRoles.ts\<close>: \<open>canonicalize\<close> sorts
  arrays by the JSON text of their elements and objects by their keys, and \<open>sameValue\<close> compares the JSON
  texts of the results. \<open>JSON.stringify\<close> is modelled on the values that occur, except for the text of a
  number, which is an argument; so is the order of \<open>localeCompare\<close>, which depends on the locale. The
  reference definition is \<open>perm_equal\<close>: equality up to the order of array elements and of object keys,
  at every depth.
\<close>

section \<open>JSON text\<close>

definition hex_digit :: "nat \<Rightarrow> char" where
  "hex_digit n = (if n < 10 then char_of (48 + n) else char_of (87 + n))"

definition json_escape :: "char \<Rightarrow> string" where
  "json_escape c =
     (if c = CHR 0x22 \<or> c = CHR 0x5C then [CHR 0x5C, c]
      else if c = CHR 0x08 then [CHR 0x5C, CHR ''b'']
      else if c = CHR 0x09 then [CHR 0x5C, CHR ''t'']
      else if c = CHR 0x0A then [CHR 0x5C, CHR ''n'']
      else if c = CHR 0x0C then [CHR 0x5C, CHR ''f'']
      else if c = CHR 0x0D then [CHR 0x5C, CHR ''r'']
      else if of_char c < (32 :: nat)
      then [CHR 0x5C, CHR ''u'', CHR ''0'', CHR ''0'', hex_digit (of_char c div 16), hex_digit (of_char c mod 16)]
      else [c])"

definition json_quote :: "string \<Rightarrow> string" where
  "json_quote s = CHR 0x22 # concat (map json_escape s) @ [CHR 0x22]"

text \<open>
  \<open>JSON.stringify\<close>. An absent value is dropped from an object, is \<open>null\<close> in an array and has no text
  at the top; the text given to it there is the text of no JSON value.
\<close>

fun json_text :: "(rat \<Rightarrow> string) \<Rightarrow> jsval \<Rightarrow> string" where
  "json_text num JUndefined = ''undefined''"
| "json_text num JNull = ''null''"
| "json_text num (JBool b) = (if b then ''true'' else ''false'')"
| "json_text num (JNum n) = (case n of Fin r \<Rightarrow> num r | _ \<Rightarrow> ''null'')"
| "json_text num (JStr s) = json_quote s"
| "json_text num (JArr xs) =
     ''['' @ join_with '','' (map (\<lambda>x. if x = JUndefined then ''null'' else json_text num x) xs) @ '']''"
| "json_text num (JObj c fs) =
     ''{'' @ join_with '','' (map (\<lambda>f. json_quote (fst f) @ '':'' @ json_text num (snd f))
                              (filter (\<lambda>f. snd f \<noteq> JUndefined) fs)) @ ''}''"

section \<open>Canonical form\<close>

text \<open>\<open>xs.sort(compare)\<close>, stable, for \<open>le a b\<close> standing for \<open>compare(a, b) <= 0\<close>.\<close>

fun insort_by :: "('a \<Rightarrow> 'a \<Rightarrow> bool) \<Rightarrow> 'a \<Rightarrow> 'a list \<Rightarrow> 'a list" where
  "insort_by le x [] = [x]"
| "insort_by le x (y # ys) = (if le x y then x # y # ys else y # insort_by le x ys)"

fun sort_by :: "('a \<Rightarrow> 'a \<Rightarrow> bool) \<Rightarrow> 'a list \<Rightarrow> 'a list" where
  "sort_by le [] = []"
| "sort_by le (x # xs) = insort_by le x (sort_by le xs)"

lemma mset_insort_by [simp]: "mset (insort_by le x ys) = add_mset x (mset ys)"
  by (induction ys) simp_all

lemma mset_sort_by [simp]: "mset (sort_by le xs) = mset xs"
  by (induction xs) simp_all

lemma set_sort_by [simp, termination_simp]: "set (sort_by le xs) = set xs"
  using mset_sort_by by (rule mset_eq_setD)

fun canonicalize :: "(rat \<Rightarrow> string) \<Rightarrow> (string \<Rightarrow> string \<Rightarrow> bool) \<Rightarrow> jsval \<Rightarrow> jsval" where
  "canonicalize num le (JArr xs) =
     JArr (sort_by (\<lambda>l r. le (json_text num l) (json_text num r)) (map (\<lambda>x. canonicalize num le x) xs))"
| "canonicalize num le (JObj c fs) =
     plain (map (\<lambda>f. (fst f, canonicalize num le (snd f))) (sort_by (\<lambda>l r. le (fst l) (fst r)) fs))"
| "canonicalize num le v = v"

definition sameValue :: "(rat \<Rightarrow> string) \<Rightarrow> (string \<Rightarrow> string \<Rightarrow> bool) \<Rightarrow> jsval \<Rightarrow> jsval \<Rightarrow> bool" where
  "sameValue num le l r = (json_text num (canonicalize num le l) = json_text num (canonicalize num le r))"

text \<open>
  What is relied on: the texts of different numbers differ and use the characters of a number, and
  \<open>localeCompare\<close> is a total order (on strings it does not identify).
\<close>

definition number_chars :: string where
  "number_chars = ''0123456789+-.e''"

definition number_text :: "(rat \<Rightarrow> string) \<Rightarrow> bool" where
  "number_text num \<longleftrightarrow>
     inj num \<and> (\<forall>r. num r \<noteq> [] \<and> set (num r) \<subseteq> set number_chars)"

definition collation :: "(string \<Rightarrow> string \<Rightarrow> bool) \<Rightarrow> bool" where
  "collation le \<longleftrightarrow>
     (\<forall>a b. le a b \<or> le b a) \<and> (\<forall>a b c. le a b \<longrightarrow> le b c \<longrightarrow> le a c) \<and>
     (\<forall>a b. le a b \<longrightarrow> le b a \<longrightarrow> a = b)"

text \<open>Values that a JSON text can give.\<close>

fun json_value :: "jsval \<Rightarrow> bool" where
  "json_value JUndefined = False"
| "json_value JNull = True"
| "json_value (JBool b) = True"
| "json_value (JNum n) = (case n of Fin r \<Rightarrow> True | _ \<Rightarrow> False)"
| "json_value (JStr s) = True"
| "json_value (JArr xs) = list_all (\<lambda>x. json_value x) xs"
| "json_value (JObj c fs) =
     (c = PlainObject \<and> distinct (map fst fs) \<and> list_all (\<lambda>f. json_value (snd f)) fs)"

text \<open>Equality up to the order of array elements and of object keys.\<close>

inductive perm_equal :: "jsval \<Rightarrow> jsval \<Rightarrow> bool" where
  atom: "perm_equal v v"
| array: "list_all2 perm_equal xs zs \<Longrightarrow> mset zs = mset ys \<Longrightarrow> perm_equal (JArr xs) (JArr ys)"
| object: "list_all2 (\<lambda>f g. fst f = fst g \<and> perm_equal (snd f) (snd g)) fs hs \<Longrightarrow> mset hs = mset gs \<Longrightarrow>
    perm_equal (JObj c fs) (JObj c gs)"

section \<open>JSON text determines the value\<close>

text \<open>Reading one escaped character back.\<close>

definition json_unescape :: "string \<Rightarrow> char option" where
  "json_unescape s =
     (if s = [] then None
      else if hd s \<noteq> CHR 0x5C then Some (hd s)
      else if s ! 1 = CHR ''b'' then Some (char_of (8 :: nat))
      else if s ! 1 = CHR ''t'' then Some (char_of (9 :: nat))
      else if s ! 1 = CHR ''n'' then Some (char_of (10 :: nat))
      else if s ! 1 = CHR ''f'' then Some (char_of (12 :: nat))
      else if s ! 1 = CHR ''r'' then Some (char_of (13 :: nat))
      else if s ! 1 = CHR ''u''
      then Some (char_of ((of_char (s ! 4) - 48) * 16 +
             (if of_char (s ! 5) < (58 :: nat) then of_char (s ! 5) - 48 else of_char (s ! 5) - (87 :: nat))))
      else Some (s ! 1))"

lemma json_unescape_escape: "json_unescape (json_escape c @ r) = Some c"
proof (cases "of_char c < (32 :: nat)")
  case True
  define n where "n = (of_char c :: nat)"
  have c: "c = char_of n" by (simp add: n_def)
  have "n < 32" using True by (simp add: n_def)
  then have "n \<in> {0, 1, 2, 3, 4, 5, 6, 7, 8, 9, 10, 11, 12, 13, 14, 15, 16, 17, 18, 19, 20, 21, 22, 23, 24, 25,
      26, 27, 28, 29, 30, 31}" by (simp, arith)
  then show ?thesis unfolding c
    by (elim insertE; simp add: json_escape_def json_unescape_def hex_digit_def nth_Cons' char_of_def bit_simps
        numeral_2_eq_2 [symmetric])
next
  case False
  then show ?thesis
    by (auto simp: json_escape_def json_unescape_def)
qed

lemma json_escape_prefix: "json_escape c @ x = json_escape d @ y \<Longrightarrow> c = d"
  using json_unescape_escape [of c x] json_unescape_escape [of d y] by simp

lemma json_escape_not_quote: "json_escape c @ x \<noteq> CHR 0x22 # y"
  by (auto simp: json_escape_def)

lemma escaped_unique:
  "concat (map json_escape s) @ CHR 0x22 # x = concat (map json_escape t) @ CHR 0x22 # y \<Longrightarrow> s = t \<and> x = y"
proof (induction s arbitrary: t)
  case Nil
  show ?case
  proof (cases t)
    case (Cons d t')
    have "CHR 0x22 # x = json_escape d @ concat (map json_escape t') @ CHR 0x22 # y"
      using Nil Cons by simp
    then show ?thesis using json_escape_not_quote by metis
  qed (use Nil in simp)
next
  case (Cons c s)
  show ?case
  proof (cases t)
    case Nil
    have "json_escape c @ concat (map json_escape s) @ CHR 0x22 # x = CHR 0x22 # y"
      using Cons.prems Nil by simp
    then show ?thesis using json_escape_not_quote by metis
  next
    case (Cons d t')
    then have e: "json_escape c @ concat (map json_escape s) @ CHR 0x22 # x =
        json_escape d @ concat (map json_escape t') @ CHR 0x22 # y" using Cons.prems by simp
    then have "c = d" by (rule json_escape_prefix)
    with e Cons.IH [of t'] Cons show ?thesis by simp
  qed
qed

lemma json_quote_unique: "json_quote s @ x = json_quote t @ y \<Longrightarrow> s = t \<and> x = y"
  using escaped_unique [of s x t y] by (simp add: json_quote_def)

text \<open>What may follow a value inside a text.\<close>

definition delimited :: "string \<Rightarrow> bool" where
  "delimited r = (r = [] \<or> hd r \<in> set '',]}'')"

lemma delimited_number:
  "delimited z \<Longrightarrow> takeWhile (\<lambda>c. c \<in> set number_chars) z = [] \<and> dropWhile (\<lambda>c. c \<in> set number_chars) z = z"
  by (cases z) (auto simp: delimited_def number_chars_def)

lemma number_split:
  assumes "number_text num" and "delimited z"
  shows "takeWhile (\<lambda>c. c \<in> set number_chars) (num r @ z) = num r \<and>
    dropWhile (\<lambda>c. c \<in> set number_chars) (num r @ z) = z"
proof -
  have "\<forall>c \<in> set (num r). c \<in> set number_chars" using assms(1) unfolding number_text_def by blast
  then show ?thesis using delimited_number [OF assms(2)] by (simp add: takeWhile_append2 dropWhile_append2)
qed

lemma number_unique:
  assumes "number_text num" and "num a @ x = num b @ y" and "delimited x" and "delimited y"
  shows "a = b \<and> x = y"
proof -
  have "num a = num b \<and> x = y"
    using number_split [OF assms(1,3), of a] number_split [OF assms(1,4), of b] assms(2) by metis
  then show ?thesis using assms(1) unfolding number_text_def by (auto dest: injD)
qed

text \<open>Comma-separated items up to a closing bracket.\<close>

definition item_rest :: "('a \<Rightarrow> string) \<Rightarrow> 'a list \<Rightarrow> string \<Rightarrow> string" where
  "item_rest f as z = (if as = [] then z else CHR '','' # join_with '','' (map f as) @ z)"

lemma join_item: "join_with '','' (map f (a # as)) @ z = f a @ item_rest f as z"
  by (cases as) (simp_all add: item_rest_def)

lemma items_unique:
  assumes "\<And>a b x y. a \<in> set xs \<Longrightarrow> b \<in> set ys \<Longrightarrow> delimited x \<Longrightarrow> delimited y \<Longrightarrow> f a @ x = f b @ y \<Longrightarrow>
      a = b \<and> x = y"
    and "\<And>a r z. a \<in> set xs \<union> set ys \<Longrightarrow> f a @ r \<noteq> d # z"
    and "d = CHR '']'' \<or> d = CHR ''}''"
    and "join_with '','' (map f xs) @ d # x = join_with '','' (map f ys) @ d # y"
  shows "xs = ys \<and> x = y"
  using assms
proof (induction xs arbitrary: ys)
  case Nil
  show ?case
  proof (cases ys)
    case (Cons b bs)
    have "f b @ item_rest f bs (d # y) = d # x" using Nil.prems(4) Cons join_item [of f b bs] by simp
    then show ?thesis using Nil.prems(2) [of b] Cons by simp
  qed (use Nil in simp)
next
  case (Cons a as)
  show ?case
  proof (cases ys)
    case Nil
    have "f a @ item_rest f as (d # x) = d # y" using Cons.prems(4) Nil join_item [of f a as] by simp
    then show ?thesis using Cons.prems(2) [of a] by simp
  next
    case (Cons b bs)
    have del: "delimited (item_rest f cs (d # z))" for cs z
      using Cons.prems(3) by (auto simp: delimited_def item_rest_def)
    have eq: "f a @ item_rest f as (d # x) = f b @ item_rest f bs (d # y)"
      using Cons.prems(4) Cons join_item [of f a as] join_item [of f b bs] by simp
    then have ab: "a = b" and rest: "item_rest f as (d # x) = item_rest f bs (d # y)"
      using Cons.prems(1) [of a b, OF _ _ del del eq] Cons by simp_all
    show ?thesis
    proof (cases "as = [] \<or> bs = []")
      case True
      then show ?thesis using rest ab Cons Cons.prems(3) by (auto simp: item_rest_def split: if_splits)
    next
      case False
      then have "join_with '','' (map f as) @ d # x = join_with '','' (map f bs) @ d # y"
        using rest by (simp add: item_rest_def)
      then have "as = bs \<and> x = y"
        using Cons.prems(1,2) Cons by (intro Cons.IH Cons.prems(3)) auto
      then show ?thesis using ab Cons by simp
    qed
  qed
qed

text \<open>The first character tells the kind of a value.\<close>

fun value_kind :: "jsval \<Rightarrow> nat" where
  "value_kind JNull = 0"
| "value_kind (JBool b) = (if b then 1 else 2)"
| "value_kind (JStr s) = 3"
| "value_kind (JArr xs) = 4"
| "value_kind (JObj c fs) = 5"
| "value_kind (JNum n) = 6"
| "value_kind JUndefined = 7"

definition char_kind :: "char \<Rightarrow> nat" where
  "char_kind c =
     (if c = CHR ''n'' then 0 else if c = CHR ''t'' then 1 else if c = CHR ''f'' then 2
      else if c = CHR 0x22 then 3 else if c = CHR ''['' then 4 else if c = CHR ''{'' then 5 else 6)"

lemma number_kind: "c \<in> set number_chars \<Longrightarrow> char_kind c = 6"
  by (auto simp: number_chars_def char_kind_def)

lemma json_text_kind:
  assumes "number_text num" and "json_value v"
  obtains c r where "json_text num v = c # r" and "char_kind c = value_kind v"
proof (cases v)
  case (JNum n)
  with assms obtain r where r: "n = Fin r" by (cases n) auto
  moreover obtain c s where "num r = c # s" using assms(1) by (cases "num r") (auto simp: number_text_def)
  moreover from this have "c \<in> set number_chars" using assms(1) unfolding number_text_def
    by (metis list.set_intros(1) subset_iff)
  ultimately show ?thesis using that JNum number_kind by simp
next
  case (JBool b)
  then show ?thesis using that by (cases b) (auto simp: char_kind_def)
qed (use assms that in \<open>auto simp: char_kind_def json_quote_def\<close>)

lemma json_text_not_closing:
  assumes "number_text num" and "json_value v" and "d = CHR '']'' \<or> d = CHR ''}''"
  shows "json_text num v @ r \<noteq> d # z"
proof
  assume a: "json_text num v @ r = d # z"
  obtain c s where c: "json_text num v = c # s" "char_kind c = value_kind v"
    using json_text_kind [OF assms(1,2)] by blast
  have "value_kind v = 6" using a c assms(3) by (auto simp: char_kind_def)
  then obtain q where "v = JNum (Fin q)" using assms(2) by (cases v) (auto split: jsnum.splits if_splits)
  then have "d \<in> set number_chars" using a assms(1) unfolding number_text_def
    by (cases "num q") (auto, metis list.set_intros(1) subset_iff)
  then show False using assms(3) by (auto simp: number_chars_def)
qed

definition field_text :: "(rat \<Rightarrow> string) \<Rightarrow> string \<times> jsval \<Rightarrow> string" where
  "field_text num f = json_quote (fst f) @ '':'' @ json_text num (snd f)"

lemma json_value_defined: "json_value v \<Longrightarrow> v \<noteq> JUndefined"
  by auto

lemma json_text_JArr:
  assumes "json_value (JArr xs)"
  shows "json_text num (JArr xs) = CHR ''['' # join_with '','' (map (json_text num) xs) @ [CHR '']'']"
proof -
  have "map (\<lambda>x. if x = JUndefined then ''null'' else json_text num x) xs = map (json_text num) xs"
    using assms by (auto simp: list_all_iff)
  then show ?thesis unfolding json_text.simps by (simp only: append_Cons append_Nil)
qed

lemma json_text_JObj:
  assumes "json_value (JObj c fs)"
  shows "json_text num (JObj c fs) = CHR ''{'' # join_with '','' (map (field_text num) fs) @ [CHR ''}'']"
proof -
  have "filter (\<lambda>f. snd f \<noteq> JUndefined) fs = fs" using assms by (auto simp: list_all_iff filter_id_conv)
  then show ?thesis by (simp add: field_text_def [abs_def])
qed

lemma json_text_same_kind:
  assumes "number_text num" and "json_value v" and "json_value w" and "json_text num v @ x = json_text num w @ y"
  shows "value_kind w = value_kind v"
proof -
  obtain c r where c: "json_text num v = c # r" "char_kind c = value_kind v"
    using json_text_kind [OF assms(1,2)] by blast
  obtain d s where d: "json_text num w = d # s" "char_kind d = value_kind w"
    using json_text_kind [OF assms(1,3)] by blast
  from c(1) d(1) assms(4) have "c = d" by simp
  then show ?thesis using c(2) d(2) by simp
qed

lemma json_text_prefix:
  assumes num: "number_text num"
  shows "json_value v \<Longrightarrow> json_value w \<Longrightarrow> delimited x \<Longrightarrow> delimited y \<Longrightarrow>
    json_text num v @ x = json_text num w @ y \<Longrightarrow> v = w \<and> x = y"
proof (induction v arbitrary: w x y)
  case (JNum n)
  have "value_kind w = 6" using json_text_same_kind [OF num JNum.prems(1,2,5)] by simp
  then obtain r q where "n = Fin r" "w = JNum (Fin q)"
    using JNum.prems(1,2) by (cases w; cases n) (auto split: jsnum.splits if_splits)
  then show ?case using JNum.prems number_unique [OF num] by fastforce
next
  case (JArr xs)
  have "value_kind w = 4" using json_text_same_kind [OF num JArr.prems(1,2,5)] by simp
  then obtain ys where w: "w = JArr ys" by (cases w) (auto split: if_splits)
  have "xs = ys \<and> x = y"
  proof (rule items_unique [where f = "json_text num" and d = "CHR '']''"])
    show "a = b \<and> x' = y'" if "a \<in> set xs" "b \<in> set ys" "delimited x'" "delimited y'"
        "json_text num a @ x' = json_text num b @ y'" for a b x' y'
      using JArr.IH that JArr.prems(1,2) w by (auto simp: list_all_iff)
    show "json_text num a @ r \<noteq> CHR '']'' # z" if "a \<in> set xs \<union> set ys" for a r z
      using json_text_not_closing [OF num] that JArr.prems(1,2) w by (auto simp: list_all_iff)
    show "join_with '','' (map (json_text num) xs) @ CHR '']'' # x = join_with '','' (map (json_text num) ys) @ CHR '']'' # y"
      using JArr.prems(5) json_text_JArr JArr.prems(1,2) w by (simp del: json_text.simps json_value.simps)
  qed simp
  then show ?case using w by simp
next
  case (JObj c fs)
  have "value_kind w = 5" using json_text_same_kind [OF num JObj.prems(1,2,5)] by simp
  then obtain c' gs where w: "w = JObj c' gs" by (cases w) (auto split: if_splits)
  have "fs = gs \<and> x = y"
  proof (rule items_unique [where f = "field_text num" and d = "CHR ''}''"])
    show "a = b \<and> x' = y'" if ab: "a \<in> set fs" "b \<in> set gs" and "delimited x'" "delimited y'"
        and e: "field_text num a @ x' = field_text num b @ y'" for a b x' y'
    proof -
      have "json_quote (fst a) @ CHR '':'' # json_text num (snd a) @ x' = json_quote (fst b) @ CHR '':'' # json_text num (snd b) @ y'"
        using e by (simp add: field_text_def)
      then have "fst a = fst b \<and> CHR '':'' # json_text num (snd a) @ x' = CHR '':'' # json_text num (snd b) @ y'"
        by (rule json_quote_unique)
      then have k: "fst a = fst b" and "json_text num (snd a) @ x' = json_text num (snd b) @ y'"
        by simp_all
      moreover have "snd a \<in> Basic_BNFs.snds a" by (simp add: snds.intros)
      ultimately have "snd a = snd b \<and> x' = y'"
        using JObj.IH [OF ab(1)] that JObj.prems(1,2) w by (auto simp: list_all_iff)
      with k show ?thesis by (simp add: prod_eq_iff)
    qed
    show "field_text num a @ r \<noteq> CHR ''}'' # z" for a r z by (simp add: field_text_def json_quote_def)
    show "join_with '','' (map (field_text num) fs) @ CHR ''}'' # x = join_with '','' (map (field_text num) gs) @ CHR ''}'' # y"
      using JObj.prems(5) json_text_JObj JObj.prems(1,2) w by (simp del: json_text.simps json_value.simps)
  qed simp
  moreover have "c = c'" using JObj.prems(1,2) w by simp
  ultimately show ?case using w by simp
next
  case (JStr s)
  have "value_kind w = 3" using json_text_same_kind [OF num JStr.prems(1,2,5)] by simp
  then obtain t where w: "w = JStr t" by (cases w) (auto split: if_splits)
  then have "json_quote s @ x = json_quote t @ y" using JStr.prems(5) by simp
  then have "s = t \<and> x = y" by (rule json_quote_unique)
  then show ?case using w by simp
next
  case JNull
  have "value_kind w = 0" using json_text_same_kind [OF num JNull.prems(1,2,5)] by simp
  then show ?case using JNull by (cases w) (auto split: if_splits)
next
  case (JBool b)
  have "value_kind w = (if b then 1 else 2)"
    using json_text_same_kind [OF num JBool.prems(1,2,5)] by simp
  then show ?case using JBool by (cases w) (auto split: if_splits)
qed simp

lemma json_text_inj:
  "number_text num \<Longrightarrow> json_value v \<Longrightarrow> json_value w \<Longrightarrow> json_text num v = json_text num w \<longleftrightarrow> v = w"
  using json_text_prefix [of num v w "[]" "[]"] by (auto simp: delimited_def)

section \<open>Sorting\<close>

lemma sorted_insort_by:
  assumes "\<And>a b. le a b \<or> le b a" and "\<And>a b c. le a b \<Longrightarrow> le b c \<Longrightarrow> le a c"
  shows "sorted_wrt le ys \<Longrightarrow> sorted_wrt le (insort_by le x ys)"
proof (induction ys)
  case (Cons y ys)
  have "set (insort_by le x ys) = insert x (set ys)"
    using mset_insort_by [of le x ys] by (metis set_mset_add_mset_insert set_mset_mset)
  with Cons assms show ?case by (auto intro: assms(2))
qed simp

lemma sorted_sort_by:
  assumes "\<And>a b. le a b \<or> le b a" and "\<And>a b c. le a b \<Longrightarrow> le b c \<Longrightarrow> le a c"
  shows "sorted_wrt le (sort_by le xs)"
  by (induction xs) (simp_all add: sorted_insort_by [OF assms])

lemma sorted_unique:
  "sorted_wrt le xs \<Longrightarrow> sorted_wrt le ys \<Longrightarrow> mset xs = mset ys \<Longrightarrow>
   (\<And>a b. a \<in> set xs \<Longrightarrow> b \<in> set xs \<Longrightarrow> le a b \<Longrightarrow> le b a \<Longrightarrow> a = b) \<Longrightarrow> xs = ys"
proof (induction xs arbitrary: ys)
  case (Cons x xs)
  then obtain y zs where ys: "ys = y # zs" by (cases ys) auto
  have sets: "set ys = set (x # xs)" using Cons.prems(3) by (metis set_mset_mset)
  have "x = y"
  proof (rule ccontr)
    assume ne: "x \<noteq> y"
    then have in_rest: "x \<in> set zs" "y \<in> set xs" using sets ys by auto
    then have "le y x" "le x y" using Cons.prems(1,2) ys by auto
    with ne Cons.prems(4) [of x y] in_rest show False by auto
  qed
  moreover from this have "xs = zs" using Cons ys by (intro Cons.IH) auto
  ultimately show ?case using ys by simp
qed simp

lemma sort_by_cong:
  assumes "\<And>a b. le a b \<or> le b a" and "\<And>a b c. le a b \<Longrightarrow> le b c \<Longrightarrow> le a c"
    and "\<And>a b. a \<in> set xs \<Longrightarrow> b \<in> set xs \<Longrightarrow> le a b \<Longrightarrow> le b a \<Longrightarrow> a = b"
  shows "sort_by le xs = sort_by le ys \<longleftrightarrow> mset xs = mset ys"
proof
  assume "sort_by le xs = sort_by le ys"
  then show "mset xs = mset ys" by (metis mset_sort_by)
next
  assume eq: "mset xs = mset ys"
  have "sorted_wrt le (sort_by le xs)" and "sorted_wrt le (sort_by le ys)"
    by (rule sorted_sort_by [OF assms(1,2)]; assumption)+
  then show "sort_by le xs = sort_by le ys"
    by (rule sorted_unique) (simp_all add: eq assms(3))
qed

lemma mset_map_eq_perm:
  "mset (map f xs) = mset (map g ys) \<Longrightarrow> \<exists>zs. mset zs = mset ys \<and> map f xs = map g zs"
proof (induction xs arbitrary: ys)
  case (Cons x xs)
  then have "f x \<in> set (map g ys)" by (metis list.set_intros(1) list.simps(9) mset_eq_setD)
  then obtain y where y: "y \<in> set ys" "f x = g y" by auto
  then have "mset (map f xs) = mset (map g (remove1 y ys))"
    using Cons.prems by (simp add: image_mset_Diff) (metis add_mset_remove_trivial)
  then obtain zs where "mset zs = mset (remove1 y ys)" "map f xs = map g zs" using Cons.IH by blast
  then show ?case using y by (intro exI [of _ "y # zs"]) simp
qed simp

section \<open>The canonical form\<close>

lemma canonical_json_value: "json_value v \<Longrightarrow> json_value (canonicalize num le v)"
proof (induction v)
  case (JArr xs)
  then show ?case by (auto simp: list_all_iff)
next
  case (JObj c fs)
  have "distinct (map fst (sort_by (\<lambda>l r. le (fst l) (fst r)) fs))"
    using JObj.prems by (metis json_value.simps(7) mset_map mset_sort_by mset_eq_imp_distinct_iff)
  with JObj show ?case by (auto simp: list_all_iff o_def snds.simps)
qed simp_all

inductive_simps perm_equal_JArr: "perm_equal (JArr xs) w"
inductive_simps perm_equal_JObj: "perm_equal (JObj c fs) w"
inductive_simps perm_equal_atom:
  "perm_equal JNull w" "perm_equal JUndefined w" "perm_equal (JBool b) w" "perm_equal (JNum n) w" "perm_equal (JStr s) w"

lemma perm_equal_arrays:
  "perm_equal (JArr us) (JArr vs) \<longleftrightarrow> (\<exists>zs. list_all2 perm_equal us zs \<and> mset zs = mset vs)"
  by (auto simp: perm_equal_JArr intro: list_all2_refl perm_equal.atom)

lemma sort_by_map:
  assumes "\<And>a b. leb (g a) (g b) = lea a b"
  shows "map g (sort_by lea xs) = sort_by leb (map g xs)"
proof (induction xs)
  case (Cons x xs)
  have "map g (insort_by lea x ys) = insort_by leb (g x) (map g ys)" for ys
    by (induction ys) (simp_all add: assms)
  with Cons show ?case by simp
qed simp

text \<open>The step from multisets of canonical items to a permutation of related items.\<close>

lemma mset_map_related:
  assumes "\<And>a b. a \<in> set xs \<Longrightarrow> b \<in> set ys \<Longrightarrow> f a = f b \<longleftrightarrow> R a b"
  shows "mset (map f xs) = mset (map f ys) \<longleftrightarrow> (\<exists>zs. list_all2 R xs zs \<and> mset zs = mset ys)"
proof
  assume "mset (map f xs) = mset (map f ys)"
  then obtain zs where zs: "mset zs = mset ys" "map f xs = map f zs" using mset_map_eq_perm by metis
  then have "set zs = set ys" by (metis mset_eq_setD)
  then have "f a = f b \<longleftrightarrow> R a b" if "a \<in> set xs" "b \<in> set zs" for a b using assms that by simp
  with zs(2) have "list_all2 R xs zs"
    by (auto simp: list_all2_conv_all_nth list_eq_iff_nth_eq)
  with zs show "\<exists>zs. list_all2 R xs zs \<and> mset zs = mset ys" by blast
next
  assume "\<exists>zs. list_all2 R xs zs \<and> mset zs = mset ys"
  then obtain zs where zs: "list_all2 R xs zs" "mset zs = mset ys" by blast
  then have "set zs = set ys" by (metis mset_eq_setD)
  then have "f a = f b \<longleftrightarrow> R a b" if "a \<in> set xs" "b \<in> set zs" for a b using assms that by simp
  with zs(1) have "map f xs = map f zs"
    by (auto simp: list_all2_conv_all_nth list_eq_iff_nth_eq)
  with zs(2) show "mset (map f xs) = mset (map f ys)" by simp
qed

lemma canonical_eq_iff:
  assumes num: "number_text num" and le: "collation le"
  shows "json_value v \<Longrightarrow> json_value w \<Longrightarrow> canonicalize num le v = canonicalize num le w \<longleftrightarrow> perm_equal v w"
proof (induction v arbitrary: w)
  case (JArr xs)
  let ?c = "canonicalize num le" and ?le = "\<lambda>l r. le (json_text num l) (json_text num r)"
  show ?case
  proof (cases w)
    case (JArr ys)
    have vals: "\<forall>x \<in> set (map ?c xs). json_value x" using JArr.prems canonical_json_value by (auto simp: list_all_iff)
    have "?c (JArr xs) = ?c w \<longleftrightarrow> sort_by ?le (map ?c xs) = sort_by ?le (map ?c ys)" using JArr by simp
    also have "\<dots> \<longleftrightarrow> mset (map ?c xs) = mset (map ?c ys)"
    proof (rule sort_by_cong)
      fix a b assume "a \<in> set (map ?c xs)" "b \<in> set (map ?c xs)" "?le a b" "?le b a"
      then show "a = b" using vals le json_text_inj [OF num] unfolding collation_def by metis
    qed (use le in \<open>auto simp: collation_def\<close>)
    also have "\<dots> \<longleftrightarrow> (\<exists>zs. list_all2 perm_equal xs zs \<and> mset zs = mset ys)"
      using JArr.IH JArr.prems JArr by (intro mset_map_related) (auto simp: list_all_iff)
    also have "\<dots> \<longleftrightarrow> perm_equal (JArr xs) w"
      using JArr by (simp add: perm_equal_arrays)
    finally show ?thesis .
  qed (auto simp: perm_equal_JArr)
next
  case (JObj c fs)
  let ?c = "canonicalize num le" and ?le = "\<lambda>l r. le (fst l) (fst r)"
  let ?g = "\<lambda>f. (fst f, ?c (snd f))" and ?R = "\<lambda>f g. fst f = fst g \<and> perm_equal (snd f) (snd g)"
  show ?case
  proof (cases w)
    case (JObj d gs)
    have "c = d" using JObj.prems JObj by simp
    have dist: "distinct (map fst fs)" using JObj.prems by simp
    have "?c (JObj c fs) = ?c w \<longleftrightarrow> map ?g (sort_by ?le fs) = map ?g (sort_by ?le gs)" using JObj by simp
    also have "\<dots> \<longleftrightarrow> sort_by ?le (map ?g fs) = sort_by ?le (map ?g gs)"
      by (simp add: sort_by_map [where lea = ?le and leb = ?le and g = ?g])
    also have "\<dots> \<longleftrightarrow> mset (map ?g fs) = mset (map ?g gs)"
    proof (rule sort_by_cong)
      fix a b assume ab: "a \<in> set (map ?g fs)" "b \<in> set (map ?g fs)" "?le a b" "?le b a"
      then have "fst a = fst b" using le unfolding collation_def by blast
      then show "a = b" using ab(1,2) dist by (auto dest: eq_key_imp_eq_value)
    qed (use le in \<open>auto simp: collation_def\<close>)
    also have "\<dots> \<longleftrightarrow> (\<exists>hs. list_all2 ?R fs hs \<and> mset hs = mset gs)"
      using JObj.IH JObj.prems JObj by (intro mset_map_related) (auto simp: list_all_iff snds.simps)
    also have "\<dots> \<longleftrightarrow> perm_equal (JObj c fs) w"
      using JObj \<open>c = d\<close> by (auto simp: perm_equal_JObj intro!: list_all2_refl perm_equal.atom)
    finally show ?thesis .
  qed (auto simp: perm_equal_JObj)
qed (case_tac w; auto simp: perm_equal_atom)+

lemma sameValue_iff:
  assumes "number_text num" and "collation le" and "json_value v" and "json_value w"
  shows "sameValue num le v w \<longleftrightarrow> perm_equal v w"
  using assms json_text_inj [OF assms(1) canonical_json_value canonical_json_value] canonical_eq_iff
  by (simp add: sameValue_def)

section \<open>Properties\<close>

text \<open>
  C19. \<open>sameValue\<close> is equality up to order: for values a JSON text can give, whatever the texts of
  numbers and whatever the collation, as long as it is a total order, it holds exactly when the two values
  are equal up to the order of array elements (with multiplicities) and of object keys, at every depth.
\<close>

theorem sameValue_iff_perm_equal:
  assumes "number_text num" and "collation le" and "json_value v" and "json_value w"
  shows "sameValue num le v w \<longleftrightarrow> perm_equal v w"
  by (rule sameValue_iff [OF assms])

text \<open>The requirements can be met: a number text, and the code-unit order.\<close>

definition sample_number_text :: "rat \<Rightarrow> string" where
  "sample_number_text r =
     (case quotient_of r of (a, b) \<Rightarrow>
        (if a < 0 then ''-'' else ''+'') @ nat_to_string (nat \<bar>a\<bar>) @ ''e'' @ nat_to_string (nat b))"

lemma sample_number_text_ok: "number_text sample_number_text"
proof -
  have no_e: "CHR ''e'' \<notin> set (nat_to_string n)" for n using nat_to_string_digits [of n] by auto
  have "r = q" if eq: "sample_number_text r = sample_number_text q" for r q
  proof -
    obtain a b c d where q: "quotient_of r = (a, b)" "quotient_of q = (c, d)" by (metis surj_pair)
    have t: "nat_to_string (nat \<bar>a\<bar>) @ CHR ''e'' # nat_to_string (nat b) =
        nat_to_string (nat \<bar>c\<bar>) @ CHR ''e'' # nat_to_string (nat d)" and s: "a < 0 \<longleftrightarrow> c < 0"
      using eq q by (auto simp: sample_number_text_def split: if_splits)
    from first_sep_unique [OF no_e no_e t] have "nat \<bar>a\<bar> = nat \<bar>c\<bar> \<and> nat b = nat d" by simp
    moreover have "0 < b" "0 < d" using q quotient_of_denom_pos by blast+
    ultimately have "a = c \<and> b = d" using s by auto
    then show ?thesis using q quotient_of_inject by simp
  qed
  moreover have "set (sample_number_text r) \<subseteq> set number_chars" for r
  proof -
    have "set ''0123456789'' \<subseteq> set number_chars" by (simp add: number_chars_def)
    then have "set (nat_to_string n) \<subseteq> set number_chars" for n using nat_to_string_digits [of n] by (rule subset_trans [rotated])
    moreover have "{CHR ''-'', CHR ''+'', CHR ''e''} \<subseteq> set number_chars" by (simp add: number_chars_def)
    ultimately show ?thesis by (cases "quotient_of r") (simp add: sample_number_text_def)
  qed
  moreover have "sample_number_text r \<noteq> []" for r by (simp add: sample_number_text_def split: prod.split)
  ultimately show ?thesis unfolding number_text_def inj_def by blast
qed

lemma code_unit_order_ok: "collation (\<lambda>a b. a \<le> b)"
  by (auto simp: collation_def)

theorem sameValue_iff_perm_equal_witness:
  "sameValue sample_number_text (\<lambda>a b. a \<le> b)
     (JArr [JStr ''x'', plain [(''a'', JNull), (''b'', jint 1)]])
     (JArr [plain [(''b'', jint 1), (''a'', JNull)], JStr ''x'']) \<longleftrightarrow>
   perm_equal (JArr [JStr ''x'', plain [(''a'', JNull), (''b'', jint 1)]])
     (JArr [plain [(''b'', jint 1), (''a'', JNull)], JStr ''x''])"
  by (rule sameValue_iff_perm_equal [OF sample_number_text_ok code_unit_order_ok]) simp_all

end
