(* ===== verification/Admin_Roles.thy ===== *)
theory Admin_Roles
  imports Permissions Json_Canonical
begin

text \<open>
  The role administration hook of \<open>frontend/src/hooks/useAdminRoles.ts\<close>. Saving a role may fail without
  telling whether the server has stored it; the hook then reads the authoritative state and reconciles.
  A mutation takes the server's answers as arguments, the one to the save and those to the reads that
  follow a failure, and returns its outcome with the query cache it leaves. An optional and nullable
  field is \<open>None\<close> when absent, \<open>Some None\<close> when null.
\<close>

section \<open>Data\<close>

type_synonym 'a field = "'a option option"

record RoleGroupMappingSummary =
  mapping_id :: string
  sso_group_value :: string

record ConnectionPolicyItem =
  policy_id :: "string option"
  connection_id :: string
  allowed_tables :: "jsval list"
  column_masks :: "jsval list"
  row_filters :: "jsval list"

record ConnectionPolicyResponse =
  wire_policy_id :: string
  wire_connection_id :: string
  wire_allowed_tables :: "jsval list option"
  wire_column_masks :: "jsval list option"
  wire_row_filters :: "jsval list option"

text \<open>
  A role as the server sends it, from the list (with a count) or in detail (with the policies). The count may be absent
  (\<open>None\<close>) or \<open>null\<close> (\<open>Some None\<close>), which the normalisation tells apart.
\<close>

record RoleResponse =
  wire_id :: string
  wire_name :: string
  wire_description :: "string field"
  wire_priority :: int
  wire_permissions :: "string list option"
  wire_is_builtin :: "bool option"
  wire_group_mappings :: "RoleGroupMappingSummary list option"
  wire_policy_count :: "int field"
  wire_policies :: "ConnectionPolicyResponse list option"
  wire_created_at :: string
  wire_updated_at :: string

record Role =
  r_id :: string
  r_name :: string
  r_description :: "string field"
  r_priority :: int
  r_permissions :: "string list"
  r_is_builtin :: bool
  r_group_mappings :: "RoleGroupMappingSummary list"
  connection_policy_count :: int
  connection_policies :: "ConnectionPolicyItem list option"
  r_created_at :: string
  r_updated_at :: string

record RoleCreateData =
  c_name :: string
  c_description :: "string field"
  c_priority :: int
  c_permissions :: "string list"
  c_group_mappings :: "string list"
  c_connection_policies :: "ConnectionPolicyItem list option"

record RoleUpdateData =
  u_name :: "string field"
  u_description :: "string field"
  u_priority :: "int field"
  u_permissions :: "string list field"
  u_group_mappings :: "string list option"
  u_connection_policies :: "ConnectionPolicyItem list option"

datatype RoleSaveRecovery = Rejected | Uncertain

datatype role_error =
    RolePermissionError jsval
  | RoleSaveError RoleSaveRecovery jsval "Role option" bool

section \<open>Normalisation and comparison\<close>

definition normalizePolicy :: "ConnectionPolicyResponse \<Rightarrow> ConnectionPolicyItem" where
  "normalizePolicy p =
     \<lparr>policy_id = Some (wire_policy_id p), connection_id = wire_connection_id p,
      allowed_tables = (case wire_allowed_tables p of Some x \<Rightarrow> x | None \<Rightarrow> []),
      column_masks = (case wire_column_masks p of Some x \<Rightarrow> x | None \<Rightarrow> []),
      row_filters = (case wire_row_filters p of Some x \<Rightarrow> x | None \<Rightarrow> [])\<rparr>"

definition normalizeRole :: "RoleResponse \<Rightarrow> Role" where
  "normalizeRole role =
     (let connectionPolicies = map_option (map normalizePolicy) (wire_policies role)
      in \<lparr>r_id = wire_id role, r_name = wire_name role, r_description = wire_description role,
          r_priority = wire_priority role,
          r_permissions = (case wire_permissions role of Some ps \<Rightarrow> ps | None \<Rightarrow> []),
          r_is_builtin = (case wire_is_builtin role of Some b \<Rightarrow> b | None \<Rightarrow> False),
          r_group_mappings = (case wire_group_mappings role of Some gs \<Rightarrow> gs | None \<Rightarrow> []),
          connection_policy_count =
            (case wire_policy_count role of
               Some (Some n) \<Rightarrow> n
             | Some None \<Rightarrow> 0
             | None \<Rightarrow> (case connectionPolicies of Some ps \<Rightarrow> int (length ps) | None \<Rightarrow> 0)),
          connection_policies = connectionPolicies,
          r_created_at = wire_created_at role, r_updated_at = wire_updated_at role\<rparr>)"

definition isAmbiguousNetworkFailure :: "jsval \<Rightarrow> bool" where
  "isAmbiguousNetworkFailure err = (js_instanceof err TypeErrorClass \<or> js_instanceof err DOMExceptionClass)"

definition strings_json :: "string list \<Rightarrow> jsval" where
  "strings_json xs = JArr (map JStr xs)"

definition policy_json :: "ConnectionPolicyItem \<Rightarrow> jsval" where
  "policy_json p =
     plain [(''connection_id'', JStr (connection_id p)), (''allowed_tables'', JArr (allowed_tables p)),
            (''column_masks'', JArr (column_masks p)), (''row_filters'', JArr (row_filters p))]"

definition policies_json :: "ConnectionPolicyItem list \<Rightarrow> jsval" where
  "policies_json ps = JArr (map policy_json ps)"

text \<open>The comparison \<open>role[field] !== data[field]\<close> of a scalar that may be absent or null.\<close>

definition field_differs :: "'a field \<Rightarrow> 'a field \<Rightarrow> bool" where
  "field_differs d r = (d \<noteq> None \<and> r \<noteq> d)"

definition roleMatchesUpdate ::
    "(rat \<Rightarrow> string) \<Rightarrow> (string \<Rightarrow> string \<Rightarrow> bool) \<Rightarrow> Role \<Rightarrow> RoleUpdateData \<Rightarrow> bool" where
  "roleMatchesUpdate num le role d =
     (if field_differs (u_name d) (Some (Some (r_name role))) \<or>
         field_differs (u_description d) (r_description role) \<or>
         field_differs (u_priority d) (Some (Some (r_priority role)))
      then False
      else if (case u_permissions d of
                 None \<Rightarrow> False
               | Some ps \<Rightarrow> \<not> sameValue num le (strings_json (r_permissions role))
                                 (case ps of None \<Rightarrow> JNull | Some xs \<Rightarrow> strings_json xs))
      then False
      else if (case u_group_mappings d of
                 None \<Rightarrow> False
               | Some gs \<Rightarrow> \<not> sameValue num le (strings_json (map sso_group_value (r_group_mappings role)))
                                 (strings_json gs))
      then False
      else (case u_connection_policies d of
              None \<Rightarrow> True
            | Some ps \<Rightarrow>
                sameValue num le
                  (policies_json (case connection_policies role of Some qs \<Rightarrow> qs | None \<Rightarrow> []))
                  (policies_json ps)))"

definition roleCouldBeCreatedCandidate ::
    "(rat \<Rightarrow> string) \<Rightarrow> (string \<Rightarrow> string \<Rightarrow> bool) \<Rightarrow> Role \<Rightarrow> RoleCreateData \<Rightarrow> bool" where
  "roleCouldBeCreatedCandidate num le role d =
     (r_name role = c_name d \<and>
      r_description role = Some (case c_description d of None \<Rightarrow> None | Some x \<Rightarrow> x) \<and>
      r_priority role = c_priority d \<and>
      sameValue num le (strings_json (r_permissions role)) (strings_json (c_permissions d)) \<and>
      sameValue num le (strings_json (map sso_group_value (r_group_mappings role)))
        (strings_json (c_group_mappings d)))"

definition as_update :: "RoleCreateData \<Rightarrow> RoleUpdateData" where
  "as_update d =
     \<lparr>u_name = Some (Some (c_name d)), u_description = c_description d,
      u_priority = Some (Some (c_priority d)), u_permissions = Some (Some (c_permissions d)),
      u_group_mappings = Some (c_group_mappings d),
      u_connection_policies = Some (case c_connection_policies d of Some ps \<Rightarrow> ps | None \<Rightarrow> [])\<rparr>"

definition roleMatchesCreate ::
    "(rat \<Rightarrow> string) \<Rightarrow> (string \<Rightarrow> string \<Rightarrow> bool) \<Rightarrow> Role \<Rightarrow> RoleCreateData \<Rightarrow> bool" where
  "roleMatchesCreate num le role d = roleMatchesUpdate num le role (as_update d)"

section \<open>The query cache and the reads\<close>

record role_cache =
  adminRole :: "string \<rightharpoonup> Role"
  adminRoles :: "Role list option"
  stale_keys :: "string list"

definition fetchAuthoritativeRole :: "RoleResponse outcome \<Rightarrow> Role option" where
  "fetchAuthoritativeRole response = (case response of Inl _ \<Rightarrow> None | Inr r \<Rightarrow> Some (normalizeRole r))"

definition fetchAuthoritativeRoles :: "RoleResponse list outcome \<Rightarrow> Role list option" where
  "fetchAuthoritativeRoles response = (case response of Inl _ \<Rightarrow> None | Inr rs \<Rightarrow> Some (map normalizeRole rs))"

definition publishAuthoritativeRole :: "Role \<Rightarrow> role_cache \<Rightarrow> role_cache" where
  "publishAuthoritativeRole role q =
     q\<lparr>adminRole := (adminRole q)(r_id role \<mapsto> role),
       adminRoles := map_option (map (\<lambda>x. if r_id x = r_id role then role else x)) (adminRoles q)\<rparr>"

definition set_roles :: "Role list option \<Rightarrow> role_cache \<Rightarrow> role_cache" where
  "set_roles rs q = (case rs of None \<Rightarrow> q | Some _ \<Rightarrow> q\<lparr>adminRoles := rs\<rparr>)"

section \<open>The mutations\<close>

text \<open>
  The answers a creation sees: the list read before it, the answer to the request, the list read after
  a failure, and the details read of the candidates.
\<close>

record create_answers =
  list_before :: "RoleResponse list outcome"
  create_response :: "RoleResponse outcome"
  list_after :: "RoleResponse list outcome"
  detail_of :: "string \<Rightarrow> RoleResponse outcome"

definition committed_roles ::
    "(rat \<Rightarrow> string) \<Rightarrow> (string \<Rightarrow> string \<Rightarrow> bool) \<Rightarrow> RoleCreateData \<Rightarrow> Role list \<Rightarrow> Role list \<Rightarrow>
     (string \<Rightarrow> RoleResponse outcome) \<Rightarrow> Role list" where
  "committed_roles num le d rolesBeforeSave authoritativeRoles details =
     (let candidates = filter (\<lambda>role. r_id role \<notin> set (map r_id rolesBeforeSave) \<and>
                                     roleCouldBeCreatedCandidate num le role d) authoritativeRoles;
          candidateDetails = map (\<lambda>role. fetchAuthoritativeRole (details (r_id role))) candidates
      in filter (\<lambda>role. roleMatchesCreate num le role d)
           (concat (map (\<lambda>c. case c of None \<Rightarrow> [] | Some r \<Rightarrow> [r]) candidateDetails)))"

definition create_mutationFn ::
    "(rat \<Rightarrow> string) \<Rightarrow> (string \<Rightarrow> string \<Rightarrow> bool) \<Rightarrow> bool \<Rightarrow> RoleCreateData \<Rightarrow> create_answers \<Rightarrow> role_cache \<Rightarrow>
     (role_error + Role) \<times> role_cache" where
  "create_mutationFn num le canManageRoles d a q =
     (case requirePermission canManageRoles ADMIN_ROLES_MANAGE of
        Inl e \<Rightarrow> (Inl (RolePermissionError e), q)
      | Inr _ \<Rightarrow>
          (let rolesBeforeSave = fetchAuthoritativeRoles (list_before a);
               q1 = set_roles rolesBeforeSave q
           in case create_response a of
                Inr r \<Rightarrow> (Inr (normalizeRole r), q1)
              | Inl err \<Rightarrow>
                  (let authoritativeRoles = fetchAuthoritativeRoles (list_after a);
                       q2 = set_roles authoritativeRoles q1;
                       failure = Inl (RoleSaveError (if isAmbiguousNetworkFailure err then Uncertain else Rejected)
                                        err None (authoritativeRoles \<noteq> None))
                   in if isAmbiguousNetworkFailure err \<and> authoritativeRoles \<noteq> None \<and> rolesBeforeSave \<noteq> None
                      then (case committed_roles num le d (the rolesBeforeSave) (the authoritativeRoles) (detail_of a) of
                              [r] \<Rightarrow> (Inr r, q2)
                            | _ \<Rightarrow> (failure, q2))
                      else (failure, q2))))"

definition update_mutationFn ::
    "(rat \<Rightarrow> string) \<Rightarrow> (string \<Rightarrow> string \<Rightarrow> bool) \<Rightarrow> bool \<Rightarrow> RoleUpdateData \<Rightarrow> RoleResponse outcome \<Rightarrow>
     RoleResponse outcome \<Rightarrow> role_cache \<Rightarrow> (role_error + Role) \<times> role_cache" where
  "update_mutationFn num le canManageRoles d response refetched q =
     (case requirePermission canManageRoles ADMIN_ROLES_MANAGE of
        Inl e \<Rightarrow> (Inl (RolePermissionError e), q)
      | Inr _ \<Rightarrow>
          (case response of
             Inr r \<Rightarrow> (Inr (normalizeRole r), q)
           | Inl err \<Rightarrow>
               (let authoritativeRole = fetchAuthoritativeRole refetched;
                    q1 = (case authoritativeRole of None \<Rightarrow> q | Some r \<Rightarrow> publishAuthoritativeRole r q)
                in if isAmbiguousNetworkFailure err \<and>
                      (case authoritativeRole of None \<Rightarrow> False | Some r \<Rightarrow> roleMatchesUpdate num le r d)
                   then (Inr (the authoritativeRole), q1)
                   else (Inl (RoleSaveError (if isAmbiguousNetworkFailure err then Uncertain else Rejected)
                                err authoritativeRole (authoritativeRole \<noteq> None)), q1))))"

definition save_onSuccess :: "Role \<Rightarrow> role_cache \<Rightarrow> role_cache" where
  "save_onSuccess role q =
     q\<lparr>adminRole := (adminRole q)(r_id role \<mapsto> role),
       stale_keys := stale_keys q @ [''adminRoles'', ''adminGroupMappings'']\<rparr>"

datatype role_request =
    DeleteRole string
  | CreateGroupMapping string string
  | DeleteGroupMapping string
  | TestDraftRolePolicy jsval
  | GetRole string

definition role_request_gate :: "bool \<Rightarrow> role_request \<Rightarrow> role_request outcome" where
  "role_request_gate canManageRoles req =
     (case requirePermission canManageRoles ADMIN_ROLES_MANAGE of Inl e \<Rightarrow> Inl e | Inr _ \<Rightarrow> Inr req)"

definition deleteRole_mutationFn :: "bool \<Rightarrow> string \<Rightarrow> role_request outcome" where
  "deleteRole_mutationFn can i = role_request_gate can (DeleteRole i)"

definition createGroupMapping_mutationFn :: "bool \<Rightarrow> string \<Rightarrow> string \<Rightarrow> role_request outcome" where
  "createGroupMapping_mutationFn can grp i = role_request_gate can (CreateGroupMapping grp i)"

definition deleteGroupMapping_mutationFn :: "bool \<Rightarrow> string \<Rightarrow> role_request outcome" where
  "deleteGroupMapping_mutationFn can i = role_request_gate can (DeleteGroupMapping i)"

definition draftPolicy_mutationFn :: "bool \<Rightarrow> jsval \<Rightarrow> role_request outcome" where
  "draftPolicy_mutationFn can draft = role_request_gate can (TestDraftRolePolicy draft)"

definition deleteRole_onSuccess :: "role_cache \<Rightarrow> role_cache" where
  "deleteRole_onSuccess q = q\<lparr>stale_keys := stale_keys q @ [''adminRoles'']\<rparr>"

definition groupMapping_onSuccess :: "role_cache \<Rightarrow> role_cache" where
  "groupMapping_onSuccess q = q\<lparr>stale_keys := stale_keys q @ [''adminGroupMappings'', ''adminRoles'']\<rparr>"

definition adminRoles_enabled :: "bool \<Rightarrow> bool option \<Rightarrow> bool" where
  "adminRoles_enabled canManageRoles enabled = (canManageRoles \<and> enabled \<noteq> Some False)"

definition adminRole_enabled :: "bool \<Rightarrow> string option \<Rightarrow> bool" where
  "adminRole_enabled canManageRoles roleId =
     ((case roleId of None \<Rightarrow> False | Some s \<Rightarrow> s \<noteq> []) \<and> canManageRoles)"

definition adminRole_queryFn :: "string option \<Rightarrow> role_request outcome" where
  "adminRole_queryFn roleId =
     (case roleId of
        Some (c # s) \<Rightarrow> Inr (GetRole (c # s))
      | _ \<Rightarrow> Inl (new_error ErrorClass ''Error'' ''Role id is required''))"

section \<open>What a matching role is\<close>

text \<open>The specification of the comparison: every requested field holds, lists up to order.\<close>

definition requested_holds :: "Role \<Rightarrow> RoleUpdateData \<Rightarrow> bool" where
  "requested_holds role d \<longleftrightarrow>
     (u_name d = None \<or> u_name d = Some (Some (r_name role))) \<and>
     (u_description d = None \<or> u_description d = r_description role) \<and>
     (u_priority d = None \<or> u_priority d = Some (Some (r_priority role))) \<and>
     (\<forall>ps. u_permissions d = Some ps \<longrightarrow> (\<exists>xs. ps = Some xs \<and> mset xs = mset (r_permissions role))) \<and>
     (\<forall>gs. u_group_mappings d = Some gs \<longrightarrow> mset gs = mset (map sso_group_value (r_group_mappings role))) \<and>
     (\<forall>ps. u_connection_policies d = Some ps \<longrightarrow>
        perm_equal (policies_json (case connection_policies role of Some qs \<Rightarrow> qs | None \<Rightarrow> [])) (policies_json ps))"

definition json_policies :: "ConnectionPolicyItem list option \<Rightarrow> bool" where
  "json_policies ps = (case ps of None \<Rightarrow> True | Some qs \<Rightarrow> json_value (policies_json qs))"

lemma perm_equal_strings: "perm_equal (strings_json xs) (strings_json ys) \<longleftrightarrow> mset xs = mset ys"
proof -
  have "perm_equal (strings_json xs) (strings_json ys) \<longleftrightarrow>
      (\<exists>zs. list_all2 perm_equal (map JStr xs) zs \<and> mset zs = mset (map JStr ys))"
    by (simp add: strings_json_def perm_equal_arrays)
  also have "\<dots> \<longleftrightarrow> mset (map id (map JStr xs)) = mset (map id (map JStr ys))"
    by (rule mset_map_related [symmetric]) (auto simp: perm_equal_atom)
  also have "\<dots> \<longleftrightarrow> image_mset JStr (mset xs) = image_mset JStr (mset ys)" by simp
  also have "\<dots> \<longleftrightarrow> mset xs = mset ys" using multiset.inj_map [of JStr] by (auto dest: injD simp: inj_def)
  finally show ?thesis .
qed

lemma strings_json_value [simp]: "json_value (strings_json xs)"
  by (simp add: strings_json_def list_all_iff)

lemma perm_equal_strings_null: "\<not> perm_equal (strings_json xs) JNull"
  by (simp add: strings_json_def perm_equal_JArr)

lemma roleMatchesUpdate_iff:
  assumes num: "number_text num" and le: "collation le"
    and "json_policies (connection_policies role)" and "json_policies (u_connection_policies d)"
  shows "roleMatchesUpdate num le role d \<longleftrightarrow> requested_holds role d"
proof -
  note same = sameValue_iff [OF num le]
  have ps: "(case u_permissions d of None \<Rightarrow> False
      | Some ps \<Rightarrow> \<not> sameValue num le (strings_json (r_permissions role))
                       (case ps of None \<Rightarrow> JNull | Some xs \<Rightarrow> strings_json xs)) \<longleftrightarrow>
      \<not> (\<forall>ps. u_permissions d = Some ps \<longrightarrow> (\<exists>xs. ps = Some xs \<and> mset xs = mset (r_permissions role)))"
    by (auto simp: same perm_equal_strings perm_equal_strings_null split: option.splits)
  have gs: "(case u_group_mappings d of None \<Rightarrow> False
      | Some gs \<Rightarrow> \<not> sameValue num le (strings_json (map sso_group_value (r_group_mappings role))) (strings_json gs)) \<longleftrightarrow>
      \<not> (\<forall>gs. u_group_mappings d = Some gs \<longrightarrow> mset gs = mset (map sso_group_value (r_group_mappings role)))"
    by (auto simp: same perm_equal_strings split: option.splits)
  have "json_value (policies_json (case connection_policies role of Some qs \<Rightarrow> qs | None \<Rightarrow> []))"
    using assms(3) by (auto simp: json_policies_def policies_json_def split: option.splits)
  then have cs: "(case u_connection_policies d of None \<Rightarrow> True
      | Some ps \<Rightarrow> sameValue num le
            (policies_json (case connection_policies role of Some qs \<Rightarrow> qs | None \<Rightarrow> [])) (policies_json ps)) \<longleftrightarrow>
      (\<forall>ps. u_connection_policies d = Some ps \<longrightarrow>
        perm_equal (policies_json (case connection_policies role of Some qs \<Rightarrow> qs | None \<Rightarrow> [])) (policies_json ps))"
    using assms(4) by (simp add: same json_policies_def split: option.splits)
  show ?thesis
    unfolding roleMatchesUpdate_def ps gs cs requested_holds_def field_differs_def by auto
qed

lemma committed_rolesD:
  assumes "r \<in> set (committed_roles num le d before after details)"
  shows "\<exists>c w. c \<in> set after \<and> r_id c \<notin> r_id ` set before \<and> roleCouldBeCreatedCandidate num le c d \<and>
    details (r_id c) = Inr w \<and> r = normalizeRole w \<and> roleMatchesCreate num le r d"
  using assms
  by (auto simp: committed_roles_def fetchAuthoritativeRole_def Let_def split: sum.splits option.splits)
     (metis old.sum.exhaust)

lemma committed_rolesI:
  assumes "c \<in> set after" and "r_id c \<notin> r_id ` set before" and "roleCouldBeCreatedCandidate num le c d"
    and "details (r_id c) = Inr w" and "roleMatchesCreate num le (normalizeRole w) d"
  shows "normalizeRole w \<in> set (committed_roles num le d before after details)"
  using assms
  by (fastforce simp: committed_roles_def fetchAuthoritativeRole_def Let_def)

section \<open>Properties\<close>

definition sample_response :: RoleResponse where
  "sample_response =
     \<lparr>wire_id = ''r1'', wire_name = ''Analyst'', wire_description = Some None, wire_priority = 5,
      wire_permissions = Some [''a'', ''b''], wire_is_builtin = None, wire_group_mappings = None,
      wire_policy_count = None, wire_policies = Some [], wire_created_at = [], wire_updated_at = []\<rparr>"

definition sample_update :: RoleUpdateData where
  "sample_update =
     \<lparr>u_name = Some (Some ''Analyst''), u_description = None, u_priority = None,
      u_permissions = Some (Some [''b'', ''a'']), u_group_mappings = Some [], u_connection_policies = None\<rparr>"

definition network_failure :: jsval where
  "network_failure = new_error TypeErrorClass ''TypeError'' ''Failed to fetch''"

text \<open>
  Saving a change of a role reports the truth. The mutation fulfils only with the server's own
  answer, or, after a failure that leaves the outcome open, with the role read back from the server when
  that role has every requested value (lists up to order). Otherwise it reports the failure, as rejected
  exactly when the server answered, as uncertain when nobody knows and the role read back differs or could
  not be read; with it comes the role as the server has it, which has replaced the cached one.
\<close>

lemma update_confirmed_or_reported:
  assumes "number_text num" and "collation le" and "json_policies (u_connection_policies d)"
    and "\<And>w. refetched = Inr w \<Longrightarrow> json_policies (connection_policies (normalizeRole w))"
    and "update_mutationFn num le True d response refetched q = (result, q')"
  shows "case result of
      Inr r \<Rightarrow> (\<exists>w. response = Inr w \<and> r = normalizeRole w \<and> q' = q) \<or>
        (\<exists>err w. response = Inl err \<and> isAmbiguousNetworkFailure err \<and> refetched = Inr w \<and>
           r = normalizeRole w \<and> requested_holds r d \<and> adminRole q' (r_id r) = Some r)
    | Inl (RoleSaveError recovery err auth refreshed) \<Rightarrow>
        response = Inl err \<and> (recovery = Rejected \<longleftrightarrow> \<not> isAmbiguousNetworkFailure err) \<and>
        auth = fetchAuthoritativeRole refetched \<and> (refreshed \<longleftrightarrow> auth \<noteq> None) \<and>
        (\<forall>r. auth = Some r \<longrightarrow> adminRole q' (r_id r) = Some r \<and> (recovery = Uncertain \<longrightarrow> \<not> requested_holds r d))
    | Inl (RolePermissionError e) \<Rightarrow> False"
proof (cases response)
  case (Inr w)
  then show ?thesis using assms(5) by (auto simp: update_mutationFn_def requirePermission_def)
next
  case (Inl err)
  have match: "roleMatchesUpdate num le r d \<longleftrightarrow> requested_holds r d" if "fetchAuthoritativeRole refetched = Some r" for r
    using that assms(4) roleMatchesUpdate_iff [OF assms(1,2) _ assms(3)]
    by (auto simp: fetchAuthoritativeRole_def split: sum.splits)
  have read: "fetchAuthoritativeRole refetched = Some r \<longleftrightarrow> (\<exists>w. refetched = Inr w \<and> r = normalizeRole w)" for r
    by (auto simp: fetchAuthoritativeRole_def split: sum.splits)
  show ?thesis
  proof (cases "fetchAuthoritativeRole refetched")
    case None
    then show ?thesis using assms(5) Inl by (auto simp: update_mutationFn_def requirePermission_def Let_def)
  next
    case (Some r)
    with read obtain w where "refetched = Inr w" "r = normalizeRole w" by blast
    with Some match [OF Some] Inl assms(5) show ?thesis
      by (auto simp: update_mutationFn_def requirePermission_def publishAuthoritativeRole_def Let_def split: if_splits)
  qed
qed

text \<open>
  C20. A creation adopts no role but the one it made. After a failure that leaves the outcome open, the
  mutation fulfils only with a role that was not in the list before the save, appeared in the list after it,
  has every requested value, and is the only such role; if the server answered with an error, or one of
  the lists could not be read, it never fulfils.
\<close>

theorem create_adopts_only_its_role:
  assumes "number_text num" and "collation le" and "json_policies (c_connection_policies d)"
    and "\<And>i w. detail_of a i = Inr w \<Longrightarrow> json_policies (connection_policies (normalizeRole w))"
    and "create_response a = Inl err"
    and "create_mutationFn num le True d a q = (Inr r, q')"
  shows "isAmbiguousNetworkFailure err \<and>
    (\<exists>before after c. list_before a = Inr before \<and> list_after a = Inr after \<and>
       c \<in> set after \<and> wire_id c \<notin> wire_id ` set before \<and>
       (\<exists>w. detail_of a (wire_id c) = Inr w \<and> r = normalizeRole w) \<and> requested_holds r (as_update d) \<and>
       (\<forall>c' \<in> set after. \<forall>w. wire_id c' \<notin> wire_id ` set before \<longrightarrow>
          roleCouldBeCreatedCandidate num le (normalizeRole c') d \<longrightarrow> detail_of a (wire_id c') = Inr w \<longrightarrow>
          requested_holds (normalizeRole w) (as_update d) \<longrightarrow> normalizeRole w = r))"
proof -
  have amb: "isAmbiguousNetworkFailure err"
    and lists: "fetchAuthoritativeRoles (list_after a) \<noteq> None" "fetchAuthoritativeRoles (list_before a) \<noteq> None"
    using assms(5,6) by (auto simp: create_mutationFn_def requirePermission_def Let_def split: if_splits list.splits)
  from lists obtain before after where ba: "list_before a = Inr before" "list_after a = Inr after"
    by (auto simp: fetchAuthoritativeRoles_def split: sum.splits)
  let ?b = "map normalizeRole before" and ?a = "map normalizeRole after"
  have one: "committed_roles num le d ?b ?a (detail_of a) = [r]"
    using assms(5,6) amb ba
    by (auto simp: create_mutationFn_def requirePermission_def fetchAuthoritativeRoles_def Let_def split: list.splits)
  have ids: "r_id (normalizeRole x) = wire_id x" for x by (simp add: normalizeRole_def Let_def)
  have pol: "json_policies (u_connection_policies (as_update d))"
    using assms(3) by (auto simp: as_update_def json_policies_def policies_json_def split: option.splits)
  have match: "roleMatchesCreate num le (normalizeRole w) d \<longleftrightarrow> requested_holds (normalizeRole w) (as_update d)"
    if "detail_of a i = Inr w" for i w
    using roleMatchesUpdate_iff [OF assms(1,2) assms(4) [OF that] pol] by (simp add: roleMatchesCreate_def)
  have "r \<in> set (committed_roles num le d ?b ?a (detail_of a))" using one by simp
  then obtain c w where c: "c \<in> set after" "wire_id c \<notin> wire_id ` set before" "detail_of a (wire_id c) = Inr w"
      "r = normalizeRole w" "roleMatchesCreate num le r d"
    using committed_rolesD ids by (fastforce simp: image_image)
  have "normalizeRole w' = r" if "c' \<in> set after" "wire_id c' \<notin> wire_id ` set before"
      "roleCouldBeCreatedCandidate num le (normalizeRole c') d" "detail_of a (wire_id c') = Inr w'"
      "requested_holds (normalizeRole w') (as_update d)" for c' w'
    using committed_rolesI [of "normalizeRole c'" ?a ?b num le d "detail_of a" w'] that match [of _ w'] one ids
    by (auto simp: image_image)
  then show ?thesis using amb ba c match by blast
qed

definition sample_create :: RoleCreateData where
  "sample_create =
     \<lparr>c_name = ''Analyst'', c_description = None, c_priority = 5, c_permissions = [''b'', ''a''],
      c_group_mappings = [], c_connection_policies = None\<rparr>"

definition sample_answers :: create_answers where
  "sample_answers =
     \<lparr>list_before = Inr [], create_response = Inl network_failure, list_after = Inr [sample_response],
      detail_of = (\<lambda>_. Inr sample_response)\<rparr>"

lemma sample_creation:
  "create_mutationFn sample_number_text (\<lambda>a b. a \<le> b) True sample_create sample_answers
     \<lparr>adminRole = Map.empty, adminRoles = None, stale_keys = []\<rparr> =
   (Inr (normalizeRole sample_response),
    \<lparr>adminRole = Map.empty, adminRoles = Some [normalizeRole sample_response], stale_keys = []\<rparr>)"
proof -
  note ok = sample_number_text_ok code_unit_order_ok
  let ?r = "normalizeRole sample_response"
  have cand: "roleCouldBeCreatedCandidate sample_number_text (\<lambda>a b. a \<le> b) ?r sample_create"
    by (simp add: roleCouldBeCreatedCandidate_def sample_create_def normalizeRole_def sample_response_def
        sameValue_iff [OF ok] perm_equal_strings)
  have "requested_holds ?r (as_update sample_create)"
    by (simp add: requested_holds_def as_update_def sample_create_def normalizeRole_def sample_response_def
        perm_equal.atom)
  moreover have "json_policies (connection_policies ?r)" "json_policies (u_connection_policies (as_update sample_create))"
    by (simp_all add: json_policies_def normalizeRole_def sample_response_def as_update_def sample_create_def
        policies_json_def)
  ultimately have "roleMatchesCreate sample_number_text (\<lambda>a b. a \<le> b) ?r sample_create"
    using roleMatchesUpdate_iff [OF ok] by (simp add: roleMatchesCreate_def)
  with cand have "committed_roles sample_number_text (\<lambda>a b. a \<le> b) sample_create [] [?r] (\<lambda>_. Inr sample_response) = [?r]"
    by (simp add: committed_roles_def fetchAuthoritativeRole_def)
  then show ?thesis
    by (simp add: create_mutationFn_def sample_answers_def requirePermission_def fetchAuthoritativeRoles_def
        set_roles_def isAmbiguousNetworkFailure_def network_failure_def new_error_def)
qed

theorem create_adopts_only_its_role_witness:
  "\<exists>before after c. list_before sample_answers = Inr before \<and> list_after sample_answers = Inr after \<and>
     c \<in> set after \<and> wire_id c \<notin> wire_id ` set before \<and>
     requested_holds (normalizeRole sample_response) (as_update sample_create)"
proof -
  have pols: "json_policies (c_connection_policies sample_create)"
    "\<And>i w. detail_of sample_answers i = Inr w \<Longrightarrow> json_policies (connection_policies (normalizeRole w))"
    by (auto simp: json_policies_def sample_create_def sample_answers_def normalizeRole_def sample_response_def
        policies_json_def)
  have "create_response sample_answers = Inl network_failure" by (simp add: sample_answers_def)
  from create_adopts_only_its_role [OF sample_number_text_ok code_unit_order_ok pols(1) pols(2) this sample_creation]
  show ?thesis by fast
qed

end
