(* ===== verification/Audit_Download.thy ===== *)
theory Audit_Download
  imports Js_Prelude
begin

text \<open>
  Audit exports: \<open>frontend/src/api/auditDownload.ts\<close> and the export of \<open>frontend/src/api/audit.ts\<close>. The
  server's \<open>Content-Disposition\<close> is parsed into a file name only when it has the contractual shape;
  otherwise a local name of that shape is used. Strings are lists of UTF-16 code units as naturals, since
  the decoded names may hold any unit. The regular expressions are deterministic matchers: their character
  classes are disjoint from what follows them, so greedy matching never has to give anything back. Case
  mapping is ASCII, which is exact where the result is compared with the ASCII words of the sources.
\<close>

section \<open>Code units\<close>

type_synonym units = "nat list"

definition u :: "string \<Rightarrow> units" where
  "u s = map of_char s"

definition is_digit :: "nat \<Rightarrow> bool" where
  "is_digit c = (48 \<le> c \<and> c \<le> 57)"

definition lower :: "nat \<Rightarrow> nat" where
  "lower c = (if 65 \<le> c \<and> c \<le> 90 then c + 32 else c)"

definition upper :: "nat \<Rightarrow> nat" where
  "upper c = (if 97 \<le> c \<and> c \<le> 122 then c - 32 else c)"

text \<open>\<open>\s\<close> and what \<open>trim\<close> removes; what \<open>.\<close> does not match.\<close>

definition white_space :: "nat \<Rightarrow> bool" where
  "white_space c =
     (9 \<le> c \<and> c \<le> 13 \<or> c = 32 \<or> c = 160 \<or> c = 0x1680 \<or> 0x2000 \<le> c \<and> c \<le> 0x200A \<or>
      c = 0x2028 \<or> c = 0x2029 \<or> c = 0x202F \<or> c = 0x205F \<or> c = 0x3000 \<or> c = 0xFEFF)"

definition line_terminator :: "nat \<Rightarrow> bool" where
  "line_terminator c = (c = 10 \<or> c = 13 \<or> c = 0x2028 \<or> c = 0x2029)"

definition trim_units :: "units \<Rightarrow> units" where
  "trim_units s = rev (dropWhile white_space (rev (dropWhile white_space s)))"

section \<open>Percent decoding\<close>

definition hex_value :: "nat \<Rightarrow> nat option" where
  "hex_value c =
     (if is_digit c then Some (c - 48)
      else if 97 \<le> c \<and> c \<le> 102 then Some (c - 87)
      else if 65 \<le> c \<and> c \<le> 70 then Some (c - 55)
      else None)"

fun percent_byte :: "units \<Rightarrow> (nat \<times> units) option" where
  "percent_byte (p # a # b # r) =
     (if p = 37
      then (case (hex_value a, hex_value b) of (Some x, Some y) \<Rightarrow> Some (16 * x + y, r) | _ \<Rightarrow> None)
      else None)"
| "percent_byte _ = None"

text \<open>The continuation bytes \<open>10xxxxxx\<close> of a sequence, added to the bits read so far.\<close>

fun continuation :: "nat \<Rightarrow> nat \<Rightarrow> units \<Rightarrow> (nat \<times> units) option" where
  "continuation 0 v s = Some (v, s)"
| "continuation (Suc n) v s =
     (case percent_byte s of
        Some (b, r) \<Rightarrow> if 128 \<le> b \<and> b < 192 then continuation n (v * 64 + (b - 128)) r else None
      | None \<Rightarrow> None)"

definition utf16_encode :: "nat \<Rightarrow> units" where
  "utf16_encode v =
     (if v < 0x10000 then [v]
      else [0xD800 + (v - 0x10000) div 0x400, 0xDC00 + (v - 0x10000) mod 0x400])"

definition percent_char :: "units \<Rightarrow> (units \<times> units) option" where
  "percent_char s =
     (case percent_byte s of
        None \<Rightarrow> None
      | Some (b, r) \<Rightarrow>
          (if b < 128 then Some ([b], r)
           else
             (let (n, v, least) =
                (if 192 \<le> b \<and> b < 224 then (1, b - 192, 0x80)
                 else if 224 \<le> b \<and> b < 240 then (2, b - 224, 0x800)
                 else if 240 \<le> b \<and> b < 248 then (3, b - 240, 0x10000)
                 else (0, 0, 1))
              in if n = 0 then None
                 else (case continuation n v r of
                         None \<Rightarrow> None
                       | Some (w, r') \<Rightarrow>
                           (if w < least \<or> 0x10FFFF < w \<or> (0xD800 \<le> w \<and> w \<le> 0xDFFF) then None
                            else Some (utf16_encode w, r'))))))"

lemma percent_byte_shorter: "percent_byte s = Some (b, r) \<Longrightarrow> length r < length s"
  by (induction s rule: percent_byte.induct) (auto split: option.splits if_splits)

lemma continuation_shorter: "continuation n v s = Some (w, r) \<Longrightarrow> length r \<le> length s"
  by (induction n arbitrary: v s)
     (auto split: option.splits if_splits dest!: percent_byte_shorter, fastforce)

lemma percent_char_shorter: "percent_char s = Some (us, r) \<Longrightarrow> length r < length s"
  by (auto simp: percent_char_def Let_def split: option.splits if_splits
      dest!: percent_byte_shorter continuation_shorter)

function decodeURIComponent :: "units \<Rightarrow> units option" where
  "decodeURIComponent s =
     (case s of
        [] \<Rightarrow> Some []
      | c # r \<Rightarrow>
          (if c \<noteq> 37 then map_option (\<lambda>t. c # t) (decodeURIComponent r)
           else (case percent_char s of
                   None \<Rightarrow> None
                 | Some (us, r') \<Rightarrow> map_option (\<lambda>t. us @ t) (decodeURIComponent r'))))"
  by pat_completeness auto
termination
  by (relation "measure length") (auto dest: percent_char_shorter)

declare decodeURIComponent.simps [simp del]

section \<open>Accepting a file name\<close>

datatype AuditExportFormat = Csv | Json

definition format_name :: "AuditExportFormat \<Rightarrow> string" where
  "format_name f = (case f of Csv \<Rightarrow> ''csv'' | Json \<Rightarrow> ''json'')"

definition MAX_FILENAME_LENGTH :: nat where
  "MAX_FILENAME_LENGTH = 100"

definition EXPECTED_MEDIA_TYPES :: "AuditExportFormat \<Rightarrow> units" where
  "EXPECTED_MEDIA_TYPES f = (case f of Csv \<Rightarrow> u ''text/csv'' | Json \<Rightarrow> u ''application/json'')"

definition expectedAuditExportMediaType :: "AuditExportFormat \<Rightarrow> units" where
  "expectedAuditExportMediaType f = EXPECTED_MEDIA_TYPES f"

definition AuditDownloadError :: jsval where
  "AuditDownloadError =
     new_error AuditDownloadErrorClass ''AuditDownloadError'' ''audit_download_contract_violation''"

definition AUDIT_EXPORT_FILENAME_PATTERN :: "units \<Rightarrow> bool" where
  "AUDIT_EXPORT_FILENAME_PATTERN s =
     (starts_with s (u ''audit_export_'') \<and>
      (let r = drop 13 s
       in 8 \<le> length r \<and> list_all is_digit (take 8 r) \<and> starts_with (drop 8 r) (u ''T'') \<and>
          (let q = drop 9 r
           in 6 \<le> length q \<and> list_all is_digit (take 6 q) \<and>
              (drop 6 q = u ''Z.csv'' \<or> drop 6 q = u ''Z.json''))))"

definition hasForbiddenCharacters :: "units \<Rightarrow> bool" where
  "hasForbiddenCharacters s =
     (if list_ex (\<lambda>c. c \<le> 0x1F \<or> c = 0x7F) s then True
      else list_ex (\<lambda>c. c = 0xAD \<or> 0x600 \<le> c \<and> c \<le> 0x605 \<or> c = 0x61C \<or> c = 0x6DD \<or> c = 0x70F \<or> c = 0x8E2 \<or>
             c = 0x180E \<or> 0x200B \<le> c \<and> c \<le> 0x200F \<or> 0x202A \<le> c \<and> c \<le> 0x202E \<or>
             0x2060 \<le> c \<and> c \<le> 0x2064 \<or> 0x2066 \<le> c \<and> c \<le> 0x206F \<or> c = 0xFEFF \<or>
             0xFFF9 \<le> c \<and> c \<le> 0xFFFB) s)"

definition isAcceptableBasename :: "units \<Rightarrow> AuditExportFormat \<Rightarrow> bool" where
  "isAcceptableBasename name f =
     (if length name = 0 \<or> MAX_FILENAME_LENGTH < length name then False
      else if str_includes name [47] \<or> str_includes name [92] then False
      else if str_includes name [46, 46] then False
      else if hasForbiddenCharacters name then False
      else if \<not> AUDIT_EXPORT_FILENAME_PATTERN name then False
      else ends_with name (46 # u (format_name f)))"

section \<open>Parsing the header\<close>

text \<open>\<open>regex.exec(s)\<close>: the match at the first position that has one.\<close>

fun first_match :: "(units \<Rightarrow> 'm option) \<Rightarrow> units \<Rightarrow> 'm option" where
  "first_match m [] = m []"
| "first_match m (c # s) = (case m (c # s) of Some x \<Rightarrow> Some x | None \<Rightarrow> first_match m s)"

text \<open>\<open>filename\*=(?:([^']*)')([^']*)'([^;]*)\<close> at the start: the charset and the encoded value.\<close>

definition match_extended :: "units \<Rightarrow> (units \<times> units) option" where
  "match_extended s =
     (if starts_with (map lower s) (u ''filename*='')
      then
        (let r = drop 10 s;
             charset = takeWhile (\<lambda>c. c \<noteq> 39) r
         in case dropWhile (\<lambda>c. c \<noteq> 39) r of
              [] \<Rightarrow> None
            | _ # r1 \<Rightarrow>
                (case dropWhile (\<lambda>c. c \<noteq> 39) r1 of
                   [] \<Rightarrow> None
                 | _ # r2 \<Rightarrow> Some (charset, takeWhile (\<lambda>c. c \<noteq> 59) r2)))
      else None)"

text \<open>The quoted string up to its closing quote, with its escapes.\<close>

fun quoted_body :: "units \<Rightarrow> units option" where
  "quoted_body [] = None"
| "quoted_body (c # s) =
     (if c = 34 then Some []
      else if c = 92
      then (case s of
              [] \<Rightarrow> None
            | d # s' \<Rightarrow> if line_terminator d then None else map_option (\<lambda>b. c # d # b) (quoted_body s'))
      else map_option (\<lambda>b. c # b) (quoted_body s))"

fun unescape_quoted :: "units \<Rightarrow> units" where
  "unescape_quoted (c # d # s) =
     (if c = 92 \<and> \<not> line_terminator d then d # unescape_quoted s else c # unescape_quoted (d # s))"
| "unescape_quoted s = s"

datatype plain_match = QuotedValue units | TokenValue units

definition match_plain :: "units \<Rightarrow> plain_match option" where
  "match_plain s =
     (if starts_with (map lower s) (u ''filename='')
      then (case drop 9 s of
              [] \<Rightarrow> None
            | c # r \<Rightarrow>
                (if c = 34 then map_option QuotedValue (quoted_body r)
                 else (let token = takeWhile (\<lambda>d. d \<noteq> 34 \<and> d \<noteq> 59) (c # r)
                       in if token = [] then None else Some (TokenValue token))))
      else None)"

definition parseAuditExportFilename :: "units option \<Rightarrow> AuditExportFormat \<Rightarrow> units option" where
  "parseAuditExportFilename header f =
     (case header of
        None \<Rightarrow> None
      | Some disposition \<Rightarrow>
          (if disposition = [] then None
           else if list_ex (\<lambda>c. c = 13 \<or> c = 10 \<or> c = 0) disposition then None
           else
             (let trimmed = trim_units disposition
              in if \<not> starts_with (map lower trimmed) (u ''attachment'') then None
                 else
                   (let afterToken = drop 10 trimmed
                    in if afterToken \<noteq> [] \<and> \<not> (white_space (hd afterToken) \<or> hd afterToken = 59) then None
                       else
                         (let candidate =
                            (case first_match match_extended trimmed of
                               Some (charset, encodedValue) \<Rightarrow>
                                 (if map upper charset \<noteq> u ''UTF-8'' then None
                                  else decodeURIComponent encodedValue)
                             | None \<Rightarrow>
                                 (case first_match match_plain trimmed of
                                    Some (QuotedValue q) \<Rightarrow> Some (unescape_quoted q)
                                  | Some (TokenValue t) \<Rightarrow> Some (trim_units t)
                                  | None \<Rightarrow> None))
                          in case candidate of
                               None \<Rightarrow> None
                             | Some name \<Rightarrow> if \<not> isAcceptableBasename name f then None else Some name)))))"

section \<open>The local name and the export\<close>

record utc_time =
  getUTCFullYear :: nat
  getUTCMonth :: nat
  getUTCDate :: nat
  getUTCHours :: nat
  getUTCMinutes :: nat
  getUTCSeconds :: nat

definition padStart :: "nat \<Rightarrow> string \<Rightarrow> string" where
  "padStart n s = replicate (n - length s) CHR ''0'' @ s"

definition safeAuditExportFilename :: "utc_time \<Rightarrow> AuditExportFormat \<Rightarrow> units" where
  "safeAuditExportFilename now f =
     (let stamp = padStart 4 (nat_to_string (getUTCFullYear now)) @
                  padStart 2 (nat_to_string (getUTCMonth now + 1)) @
                  padStart 2 (nat_to_string (getUTCDate now)) @ ''T'' @
                  padStart 2 (nat_to_string (getUTCHours now)) @
                  padStart 2 (nat_to_string (getUTCMinutes now)) @
                  padStart 2 (nat_to_string (getUTCSeconds now)) @ ''Z''
      in u (''audit_export_'' @ stamp @ ''.'' @ format_name f))"

record 'b AuditDownload =
  blob :: 'b
  dl_filename :: units
  mediaType :: units

text \<open>The settlement of an export: the response body when it looks like a blob, and the two headers.\<close>

record 'b export_response =
  export_blob :: "'b option"
  content_type :: "units option"
  content_disposition :: "units option"

definition exportAuditEntries ::
    "utc_time \<Rightarrow> AuditExportFormat \<Rightarrow> 'b export_response outcome \<Rightarrow> 'b AuditDownload outcome" where
  "exportAuditEntries now f response =
     (case response of
        Inl e \<Rightarrow> Inl e
      | Inr r \<Rightarrow>
          (case export_blob r of
             None \<Rightarrow> Inl AuditDownloadError
           | Some b \<Rightarrow>
               (let contentType = (case content_type r of Some c \<Rightarrow> c | None \<Rightarrow> []);
                    actualMediaType = map lower (trim_units (hd (split_on 59 contentType)))
                in if actualMediaType \<noteq> expectedAuditExportMediaType f then Inl AuditDownloadError
                   else
                     (let serverFilename = parseAuditExportFilename (content_disposition r) f
                      in Inr \<lparr>blob = b,
                              dl_filename = (case serverFilename of Some n \<Rightarrow> n | None \<Rightarrow> safeAuditExportFilename now f),
                              mediaType = actualMediaType\<rparr>))))"

section \<open>The shape of accepted names\<close>

text \<open>The units of a contractual name: letters, digits, underscore and the dot.\<close>

definition name_unit :: "nat \<Rightarrow> bool" where
  "name_unit c = (c = 46 \<or> is_digit c \<or> c = 84 \<or> c = 90 \<or> c = 95 \<or> 97 \<le> c \<and> c \<le> 122)"

definition contract_name :: "AuditExportFormat \<Rightarrow> units \<Rightarrow> bool" where
  "contract_name f s \<longleftrightarrow>
     (\<exists>d e. length d = 8 \<and> length e = 6 \<and> list_all is_digit d \<and> list_all is_digit e \<and>
        s = u ''audit_export_'' @ d @ [84] @ e @ u (''Z.'' @ format_name f))"

lemma starts_withE: "starts_with s p \<Longrightarrow> s = p @ drop (length p) s"
  unfolding starts_with_def by (metis append_take_drop_id)

lemma ends_withE: "ends_with s p \<Longrightarrow> s = take (length s - length p) s @ p"
  unfolding ends_with_def by (metis append_take_drop_id)

lemma pattern_suffix:
  "AUDIT_EXPORT_FILENAME_PATTERN s \<longleftrightarrow> contract_name Csv s \<or> contract_name Json s"
proof
  assume p: "AUDIT_EXPORT_FILENAME_PATTERN s"
  define r where "r = drop 13 s"
  define q where "q = drop 9 r"
  have n: "length (u ''audit_export_'') = 13" by (simp add: u_def)
  have "starts_with s (u ''audit_export_'')" using p by (simp add: AUDIT_EXPORT_FILENAME_PATTERN_def)
  from starts_withE [OF this] have s: "s = u ''audit_export_'' @ r" unfolding n r_def .
  have l: "8 \<le> length r" "list_all is_digit (take 8 r)" "starts_with (drop 8 r) (u ''T'')" "6 \<le> length q"
      "list_all is_digit (take 6 q)" "drop 6 q = u ''Z.csv'' \<or> drop 6 q = u ''Z.json''"
    using p by (simp_all add: AUDIT_EXPORT_FILENAME_PATTERN_def r_def q_def Let_def)
  have "drop 8 r = [84] @ q" using starts_withE [OF l(3)] by (simp add: u_def q_def)
  then have s: "s = u ''audit_export_'' @ take 8 r @ [84] @ take 6 q @ drop 6 q"
    using s by (metis append_take_drop_id)
  have "contract_name f s" if "drop 6 q = u (''Z.'' @ format_name f)" for f
    unfolding contract_name_def
    by (rule exI [of _ "take 8 r"], rule exI [of _ "take 6 q"])
       (use l(1,2,4,5) s in \<open>simp only: that length_take, simp add: min_def\<close>)
  from this [of Csv] this [of Json] l(6) show "contract_name Csv s \<or> contract_name Json s"
    by (auto simp: format_name_def)
next
  assume "contract_name Csv s \<or> contract_name Json s"
  then show "AUDIT_EXPORT_FILENAME_PATTERN s"
    by (auto simp: contract_name_def AUDIT_EXPORT_FILENAME_PATTERN_def u_def starts_with_def format_name_def Let_def)
qed

lemma contract_name_ends: "contract_name f s \<Longrightarrow> ends_with s (46 # u (format_name g)) \<longleftrightarrow> f = g"
  by (cases f; cases g)
     (auto simp: contract_name_def ends_with_def u_def format_name_def)

lemma contract_name_units: "contract_name f s \<Longrightarrow> c \<in> set s \<Longrightarrow> name_unit c"
  by (cases f) (auto simp: contract_name_def name_unit_def list_all_iff u_def format_name_def)

lemma name_unit_plain_units:
  "name_unit c \<Longrightarrow> c \<notin> {0, 10, 13, 34, 37, 39, 42, 47, 59, 92} \<and> \<not> white_space c \<and> 32 < c \<and> c < 127"
  by (auto simp: name_unit_def is_digit_def white_space_def)

lemma contract_name_all: "contract_name f s \<Longrightarrow> list_all name_unit s"
  using contract_name_units by (simp add: list_all_iff)

lemma str_includes_iff: "str_includes s p \<longleftrightarrow> (\<exists>a b. s = a @ p @ b)"
proof (induction s)
  case (Cons c s)
  have "starts_with (c # s) p \<longleftrightarrow> (\<exists>b. c # s = p @ b)"
    unfolding starts_with_def by (metis append_eq_conv_conj append_take_drop_id)
  with Cons show ?case by (auto simp: Cons_eq_append_conv) 
qed auto

lemma digits_no_dot: "list_all is_digit d \<Longrightarrow> count_list d 46 = 0"
  by (auto simp: list_all_iff is_digit_def intro!: count_notin)

lemma contract_name_one_dot:
  assumes "contract_name f s"
  shows "count_list s 46 = 1"
proof -
  obtain d e where s: "s = u ''audit_export_'' @ d @ [84] @ e @ u (''Z.'' @ format_name f)"
      and "list_all is_digit d" "list_all is_digit e"
    using assms unfolding contract_name_def by blast
  then have "count_list d 46 = 0" "count_list e 46 = 0" by (simp_all only: digits_no_dot)
  moreover have "count_list (u (''Z.'' @ format_name f)) 46 = 1" by (cases f) (simp_all add: u_def format_name_def)
  moreover have "count_list (u ''audit_export_'') 46 = 0" by (simp add: u_def)
  ultimately show ?thesis unfolding s by (simp only: count_list_append) simp
qed

lemma printable_not_forbidden: "list_all name_unit s \<Longrightarrow> \<not> hasForbiddenCharacters s"
proof -
  assume "list_all name_unit s"
  then have "\<forall>c \<in> set s. 32 < c \<and> c < 127" using name_unit_plain_units by (auto simp: list_all_iff)
  then show ?thesis by (induction s) (auto simp: hasForbiddenCharacters_def)
qed

lemma acceptable_iff: "isAcceptableBasename s f \<longleftrightarrow> contract_name f s"
proof
  assume "isAcceptableBasename s f"
  then have p: "AUDIT_EXPORT_FILENAME_PATTERN s" and e: "ends_with s (46 # u (format_name f))"
    by (auto simp: isAcceptableBasename_def split: if_splits)
  from p obtain g where g: "contract_name g s" unfolding pattern_suffix by metis
  with e contract_name_ends [OF g, of f] show "contract_name f s" by simp
next
  assume c: "contract_name f s"
  have "\<not> str_includes s [46, 46]" using contract_name_one_dot [OF c] by (auto simp: str_includes_iff)
  moreover have "\<not> str_includes s [47] \<and> \<not> str_includes s [92]"
    using contract_name_all [OF c] name_unit_plain_units by (fastforce simp: str_includes_iff)
  moreover have "\<not> hasForbiddenCharacters s"
    using contract_name_all [OF c] by (rule printable_not_forbidden)
  moreover have "length s \<noteq> 0 \<and> length s \<le> MAX_FILENAME_LENGTH"
    using c by (cases f) (auto simp: contract_name_def u_def format_name_def MAX_FILENAME_LENGTH_def)
  moreover have "AUDIT_EXPORT_FILENAME_PATTERN s" using c by (cases f) (auto simp: pattern_suffix)
  ultimately show "isAcceptableBasename s f"
    using contract_name_ends [OF c, of f] by (simp add: isAcceptableBasename_def)
qed

section \<open>Printing and parsing\<close>

text \<open>The two header forms of RFC 6266 that a server sends for a name.\<close>

definition quoted_header :: "units \<Rightarrow> units" where
  "quoted_header name = u ''attachment; filename='' @ [34] @ name @ [34]"

definition extended_header :: "units \<Rightarrow> units" where
  "extended_header name = u ''attachment; filename*=UTF-8'' @ [39, 39] @ name"

lemma name_unit_plain:
  assumes "list_all name_unit s"
  shows "quoted_body (s @ [34]) = Some s" and "unescape_quoted s = s" and "decodeURIComponent s = Some s"
    and "takeWhile (\<lambda>c. c \<noteq> 59) s = s"
proof -
  show "quoted_body (s @ [34]) = Some s"
    using assms by (induction s) (auto dest: name_unit_plain_units)
  show "unescape_quoted s = s"
    using assms by (induction s rule: unescape_quoted.induct) (auto dest: name_unit_plain_units)
  show "decodeURIComponent s = Some s"
    using assms
  proof (induction s)
    case (Cons c s)
    then have "c \<noteq> 37" by (auto dest: name_unit_plain_units)
    with Cons show ?case by (subst decodeURIComponent.simps) simp
  qed (simp add: decodeURIComponent.simps)
  show "takeWhile (\<lambda>c. c \<noteq> 59) s = s"
    using assms by (auto simp: takeWhile_eq_all_conv list_all_iff dest: name_unit_plain_units)
qed

lemma lower_star: "lower c = 42 \<longleftrightarrow> c = 42"
  by (auto simp: lower_def)

lemma no_star_no_extended: "42 \<notin> set s \<Longrightarrow> first_match match_extended s = None"
proof -
  have none: "match_extended s = None" if "42 \<notin> set s" for s
  proof -
    have "42 \<in> set (u ''filename*='')" by (simp add: u_def)
    then have "42 \<in> set (map lower s)" if "starts_with (map lower s) (u ''filename*='')"
      using starts_withE [OF that] by (metis Un_iff set_append)
    moreover have "42 \<notin> set (map lower s)" using that lower_star by force
    ultimately show ?thesis by (auto simp: match_extended_def)
  qed
  then show "42 \<notin> set s \<Longrightarrow> first_match match_extended s = None" by (induction s) simp_all
qed

lemma trim_units_id:
  assumes "s \<noteq> []" and "\<not> white_space (hd s)" and "\<not> white_space (last s)"
  shows "trim_units s = s"
proof -
  have "dropWhile white_space s = s" using assms(1,2) by (cases s) simp_all
  moreover have "dropWhile white_space (rev s) = rev s" using assms(1,3) by (cases s rule: rev_cases) simp_all
  ultimately show ?thesis by (simp add: trim_units_def)
qed

lemma parse_quoted_header:
  assumes "list_all name_unit name"
  shows "parseAuditExportFilename (Some (quoted_header name)) f =
    (if isAcceptableBasename name f then Some name else None)"
proof -
  let ?h = "quoted_header name"
  have h: "?h = [97, 116, 116, 97, 99, 104, 109, 101, 110, 116, 59, 32, 102, 105, 108, 101, 110, 97, 109, 101, 61, 34] @ name @ [34]"
    by (simp add: quoted_header_def u_def)
  have trim: "trim_units ?h = ?h" by (rule trim_units_id) (simp_all add: h white_space_def)
  have ok: "\<not> list_ex (\<lambda>c. c = 13 \<or> c = 10 \<or> c = 0) ?h"
    using assms name_unit_plain_units by (fastforce simp: h list_ex_iff list_all_iff)
  have "42 \<notin> set ?h" using assms name_unit_plain_units by (fastforce simp: h list_all_iff)
  then have ext: "first_match match_extended ?h = None" by (rule no_star_no_extended)
  have pl: "first_match match_plain ?h = Some (QuotedValue name)"
    by (simp add: h match_plain_def starts_with_def u_def lower_def name_unit_plain [OF assms])
  have "starts_with (map lower ?h) (u ''attachment'')" by (simp add: h starts_with_def u_def lower_def)
  moreover have "?h \<noteq> [] \<and> drop 10 ?h \<noteq> [] \<and> hd (drop 10 ?h) = 59" by (simp add: h)
  ultimately show ?thesis
    using ok trim ext pl name_unit_plain(2) [OF assms]
    by (simp add: parseAuditExportFilename_def Let_def)
qed

lemma parse_extended_header:
  assumes "list_all name_unit name"
  shows "parseAuditExportFilename (Some (extended_header name)) f =
    (if isAcceptableBasename name f then Some name else None)"
proof -
  let ?h = "extended_header name"
  have h: "?h = [97, 116, 116, 97, 99, 104, 109, 101, 110, 116, 59, 32, 102, 105, 108, 101, 110, 97, 109, 101, 42, 61,
      85, 84, 70, 45, 56, 39, 39] @ name"
    by (simp add: extended_header_def u_def)
  have "\<not> white_space (last ?h)"
    using assms name_unit_plain_units by (auto simp: h list_all_iff white_space_def)
  then have trim: "trim_units ?h = ?h" by (intro trim_units_id) (simp_all add: h white_space_def)
  have ok: "\<not> list_ex (\<lambda>c. c = 13 \<or> c = 10 \<or> c = 0) ?h"
    using assms name_unit_plain_units by (fastforce simp: h list_ex_iff list_all_iff)
  have ext: "first_match match_extended ?h = Some (u ''UTF-8'', name)"
    by (simp add: h match_extended_def starts_with_def u_def lower_def name_unit_plain [OF assms])
  have "starts_with (map lower ?h) (u ''attachment'')" by (simp add: h starts_with_def u_def lower_def)
  moreover have "?h \<noteq> [] \<and> drop 10 ?h \<noteq> [] \<and> hd (drop 10 ?h) = 59" by (simp add: h)
  moreover have "map upper (u ''UTF-8'') = u ''UTF-8''" by (simp add: u_def upper_def)
  ultimately show ?thesis
    using ok trim ext name_unit_plain(3) [OF assms]
    by (simp add: parseAuditExportFilename_def Let_def)
qed

lemma parse_acceptable: "parseAuditExportFilename header f = Some name \<Longrightarrow> isAcceptableBasename name f"
  by (auto simp: parseAuditExportFilename_def Let_def split: option.splits if_splits)

text \<open>The local name of a date of four digits.\<close>

lemma nat_to_string_length: "n < 10 ^ k \<Longrightarrow> 0 < k \<Longrightarrow> length (nat_to_string n) \<le> k"
proof (induction n arbitrary: k rule: nat_to_string.induct)
  case (1 n)
  show ?case
  proof (cases "n < 10")
    case False
    obtain j where k: "k = Suc j" using 1(3) by (cases k) auto
    have "0 < j" using False 1(2) k by (cases j) auto
    moreover have "n div 10 < 10 ^ j" using 1(2) k by (simp add: less_mult_imp_div_less mult.commute)
    ultimately have "length (nat_to_string (n div 10)) \<le> j" using 1(1) False by simp
    then show ?thesis using False k by (subst nat_to_string.simps) simp
  qed (use 1(3) in \<open>subst nat_to_string.simps; simp\<close>)
qed

lemma padStart_number:
  assumes "n < 10 ^ k" and "0 < k"
  shows "length (u (padStart k (nat_to_string n))) = k \<and> list_all is_digit (u (padStart k (nat_to_string n)))"
proof -
  have "\<forall>c \<in> set (nat_to_string n). is_digit (of_char c)"
    using nat_to_string_digits [of n] by (auto simp: is_digit_def)
  then show ?thesis
    using nat_to_string_length [OF assms] by (auto simp: padStart_def u_def list_all_iff is_digit_def)
qed

definition calendar_time :: "utc_time \<Rightarrow> bool" where
  "calendar_time now =
     (getUTCFullYear now \<le> 9999 \<and> getUTCMonth now < 12 \<and> getUTCDate now \<le> 31 \<and>
      getUTCHours now < 24 \<and> getUTCMinutes now < 60 \<and> getUTCSeconds now < 60)"

lemma safe_name_contract:
  assumes "calendar_time now"
  shows "contract_name f (safeAuditExportFilename now f)"
proof -
  let ?y = "u (padStart 4 (nat_to_string (getUTCFullYear now)))"
    and ?p = "\<lambda>n. u (padStart 2 (nat_to_string n))"
  let ?d = "?y @ ?p (getUTCMonth now + 1) @ ?p (getUTCDate now)"
    and ?e = "?p (getUTCHours now) @ ?p (getUTCMinutes now) @ ?p (getUTCSeconds now)"
  have two: "length (?p n) = 2 \<and> list_all is_digit (?p n)" if "n < 100" for n
    using padStart_number [of n 2] that by simp
  have "length ?y = 4 \<and> list_all is_digit ?y" using padStart_number [of _ 4] assms by (simp add: calendar_time_def)
  then have "length ?d = 8 \<and> list_all is_digit ?d" "length ?e = 6 \<and> list_all is_digit ?e"
    using assms two by (simp_all add: calendar_time_def)
  moreover have "safeAuditExportFilename now f = u ''audit_export_'' @ ?d @ [84] @ ?e @ u (''Z.'' @ format_name f)"
    by (simp add: safeAuditExportFilename_def u_def Let_def)
  ultimately show ?thesis unfolding contract_name_def by blast
qed

section \<open>Properties\<close>

text \<open>
  C21. A file name survives the header: the parser returns a contractual name from both forms in which
  a server may send it, quoted and percent-encoded, and conversely every name it returns, from whatever
  header, is contractual for the requested format, so made of letters, digits, underscores and one dot.
\<close>

theorem filename_roundtrip:
  "(contract_name f name \<longrightarrow>
      parseAuditExportFilename (Some (quoted_header name)) f = Some name \<and>
      parseAuditExportFilename (Some (extended_header name)) f = Some name) \<and>
   (parseAuditExportFilename header f = Some name \<longrightarrow>
      contract_name f name \<and> list_all name_unit name \<and> count_list name 46 = 1)"
  using parse_quoted_header parse_extended_header acceptable_iff contract_name_all contract_name_one_dot parse_acceptable
  by metis

definition sample_name :: units where
  "sample_name = u ''audit_export_20260102T030405Z.csv''"

theorem filename_roundtrip_witness:
  "parseAuditExportFilename (Some (quoted_header sample_name)) Csv = Some sample_name \<and>
   list_all name_unit sample_name"
proof -
  have "contract_name Csv sample_name"
    unfolding contract_name_def sample_name_def
    by (rule exI [of _ "u ''20260102''"], rule exI [of _ "u ''030405''"]) (simp add: u_def format_name_def is_digit_def)
  then show ?thesis
    using filename_roundtrip [where f = Csv and name = sample_name and header = "Some (quoted_header sample_name)"]
    by blast
qed

text \<open>
  Nothing from outside reaches the file system: an export that fulfils has the media type of the
  requested format and a contractual file name, from the server or made up locally, whatever headers the
  response carries; a response of another media type, or without a body, ends in the download error.
\<close>

lemma exported_filename_is_safe:
  assumes "calendar_time now"
  shows "case exportAuditEntries now f response of
      Inr d \<Rightarrow> contract_name f (dl_filename d) \<and> mediaType d = expectedAuditExportMediaType f \<and>
        (\<exists>r. response = Inr r \<and> export_blob r = Some (blob d))
    | Inl e \<Rightarrow> response = Inl e \<or> e = AuditDownloadError"
  using safe_name_contract [OF assms, of f] parse_acceptable acceptable_iff
  by (auto simp: exportAuditEntries_def Let_def split: sum.splits option.splits if_splits)

definition sample_time :: utc_time where
  "sample_time =
     \<lparr>getUTCFullYear = 2026, getUTCMonth = 0, getUTCDate = 2, getUTCHours = 3, getUTCMinutes = 4, getUTCSeconds = 5\<rparr>"

end
