(* ===== verification/Sdk.thy ===== *)
theory Sdk
  imports Response_Manifest
begin

text \<open>
  The request functions of \<open>frontend/src/api/generated/sdk.gen.ts\<close>: for each its method, URL template,
  declared security and the content type it sets. The options of a call override nothing of these but the
  headers; they carry the path and query arguments and the body, which the client of
  \<open>Api_Client\<close> turns into a request.
\<close>

datatype sdk_security = NoSecurity | SessionCookie | AdminKey

record sdk_operation =
  sdk_name :: string
  sdk_method :: string
  sdk_url :: string
  sdk_security :: sdk_security
  sdk_content_type :: "string option"

definition sdk_acceptQuery :: sdk_operation where
  "sdk_acceptQuery =
     \<lparr>sdk_name = ''acceptQuery'', sdk_method = ''POST'',
      sdk_url = ''/api/v1/query/accept'', sdk_security = SessionCookie,
      sdk_content_type = Some ''application/json''\<rparr>"

definition sdk_createAdminConnection :: sdk_operation where
  "sdk_createAdminConnection =
     \<lparr>sdk_name = ''createAdminConnection'', sdk_method = ''POST'',
      sdk_url = ''/api/v1/admin/connections'', sdk_security = SessionCookie,
      sdk_content_type = Some ''application/json''\<rparr>"

definition sdk_createAuditFilterContext :: sdk_operation where
  "sdk_createAuditFilterContext =
     \<lparr>sdk_name = ''createAuditFilterContext'', sdk_method = ''POST'',
      sdk_url = ''/api/v1/admin/audit/filter-context'', sdk_security = SessionCookie,
      sdk_content_type = Some ''application/json''\<rparr>"

definition sdk_createGroupMapping :: sdk_operation where
  "sdk_createGroupMapping =
     \<lparr>sdk_name = ''createGroupMapping'', sdk_method = ''POST'',
      sdk_url = ''/api/v1/admin/sso/group-mappings'', sdk_security = SessionCookie,
      sdk_content_type = Some ''application/json''\<rparr>"

definition sdk_createRole :: sdk_operation where
  "sdk_createRole =
     \<lparr>sdk_name = ''createRole'', sdk_method = ''POST'',
      sdk_url = ''/api/v1/admin/roles'', sdk_security = SessionCookie,
      sdk_content_type = Some ''application/json''\<rparr>"

definition sdk_createSession :: sdk_operation where
  "sdk_createSession =
     \<lparr>sdk_name = ''createSession'', sdk_method = ''POST'',
      sdk_url = ''/api/v1/sessions'', sdk_security = SessionCookie,
      sdk_content_type = None\<rparr>"

definition sdk_createSsoProvider :: sdk_operation where
  "sdk_createSsoProvider =
     \<lparr>sdk_name = ''createSsoProvider'', sdk_method = ''POST'',
      sdk_url = ''/api/v1/admin/sso/providers'', sdk_security = SessionCookie,
      sdk_content_type = Some ''application/json''\<rparr>"

definition sdk_deleteAdminConnection :: sdk_operation where
  "sdk_deleteAdminConnection =
     \<lparr>sdk_name = ''deleteAdminConnection'', sdk_method = ''DELETE'',
      sdk_url = ''/api/v1/admin/connections/{connection_id}'', sdk_security = SessionCookie,
      sdk_content_type = None\<rparr>"

definition sdk_deleteGroupMapping :: sdk_operation where
  "sdk_deleteGroupMapping =
     \<lparr>sdk_name = ''deleteGroupMapping'', sdk_method = ''DELETE'',
      sdk_url = ''/api/v1/admin/sso/group-mappings/{mapping_id}'', sdk_security = SessionCookie,
      sdk_content_type = None\<rparr>"

definition sdk_deleteHistoryEntry :: sdk_operation where
  "sdk_deleteHistoryEntry =
     \<lparr>sdk_name = ''deleteHistoryEntry'', sdk_method = ''DELETE'',
      sdk_url = ''/api/v1/history/{query_id}'', sdk_security = SessionCookie,
      sdk_content_type = None\<rparr>"

definition sdk_deleteQuota :: sdk_operation where
  "sdk_deleteQuota =
     \<lparr>sdk_name = ''deleteQuota'', sdk_method = ''DELETE'',
      sdk_url = ''/api/v1/admin/quotas/{role_id}'', sdk_security = SessionCookie,
      sdk_content_type = None\<rparr>"

definition sdk_deleteRole :: sdk_operation where
  "sdk_deleteRole =
     \<lparr>sdk_name = ''deleteRole'', sdk_method = ''DELETE'',
      sdk_url = ''/api/v1/admin/roles/{role_id}'', sdk_security = SessionCookie,
      sdk_content_type = None\<rparr>"

definition sdk_deleteSession :: sdk_operation where
  "sdk_deleteSession =
     \<lparr>sdk_name = ''deleteSession'', sdk_method = ''DELETE'',
      sdk_url = ''/api/v1/sessions/{session_id}'', sdk_security = SessionCookie,
      sdk_content_type = None\<rparr>"

definition sdk_deleteSsoProvider :: sdk_operation where
  "sdk_deleteSsoProvider =
     \<lparr>sdk_name = ''deleteSsoProvider'', sdk_method = ''DELETE'',
      sdk_url = ''/api/v1/admin/sso/providers/{provider_id}'', sdk_security = SessionCookie,
      sdk_content_type = None\<rparr>"

definition sdk_disableAdminConnection :: sdk_operation where
  "sdk_disableAdminConnection =
     \<lparr>sdk_name = ''disableAdminConnection'', sdk_method = ''POST'',
      sdk_url = ''/api/v1/admin/connections/{connection_id}/disable'', sdk_security = SessionCookie,
      sdk_content_type = None\<rparr>"

definition sdk_enableAdminConnection :: sdk_operation where
  "sdk_enableAdminConnection =
     \<lparr>sdk_name = ''enableAdminConnection'', sdk_method = ''POST'',
      sdk_url = ''/api/v1/admin/connections/{connection_id}/enable'', sdk_security = SessionCookie,
      sdk_content_type = None\<rparr>"

definition sdk_exportAuditEntries :: sdk_operation where
  "sdk_exportAuditEntries =
     \<lparr>sdk_name = ''exportAuditEntries'', sdk_method = ''POST'',
      sdk_url = ''/api/v1/admin/audit/export'', sdk_security = SessionCookie,
      sdk_content_type = Some ''application/json''\<rparr>"

definition sdk_getAdminConnection :: sdk_operation where
  "sdk_getAdminConnection =
     \<lparr>sdk_name = ''getAdminConnection'', sdk_method = ''GET'',
      sdk_url = ''/api/v1/admin/connections/{connection_id}'', sdk_security = SessionCookie,
      sdk_content_type = None\<rparr>"

definition sdk_getAdminConnectionSchema :: sdk_operation where
  "sdk_getAdminConnectionSchema =
     \<lparr>sdk_name = ''getAdminConnectionSchema'', sdk_method = ''GET'',
      sdk_url = ''/api/v1/admin/connections/{connection_id}/schema'', sdk_security = SessionCookie,
      sdk_content_type = None\<rparr>"

definition sdk_getAdminSettings :: sdk_operation where
  "sdk_getAdminSettings =
     \<lparr>sdk_name = ''getAdminSettings'', sdk_method = ''GET'',
      sdk_url = ''/api/v1/admin/settings'', sdk_security = SessionCookie,
      sdk_content_type = None\<rparr>"

definition sdk_getAuditRetention :: sdk_operation where
  "sdk_getAuditRetention =
     \<lparr>sdk_name = ''getAuditRetention'', sdk_method = ''GET'',
      sdk_url = ''/api/v1/admin/audit/retention'', sdk_security = SessionCookie,
      sdk_content_type = None\<rparr>"

definition sdk_getAuditStatus :: sdk_operation where
  "sdk_getAuditStatus =
     \<lparr>sdk_name = ''getAuditStatus'', sdk_method = ''GET'',
      sdk_url = ''/api/v1/admin/audit/status'', sdk_security = SessionCookie,
      sdk_content_type = None\<rparr>"

definition sdk_getDetectionConfig :: sdk_operation where
  "sdk_getDetectionConfig =
     \<lparr>sdk_name = ''getDetectionConfig'', sdk_method = ''GET'',
      sdk_url = ''/api/v1/admin/detection/config'', sdk_security = SessionCookie,
      sdk_content_type = None\<rparr>"

definition sdk_getHealth :: sdk_operation where
  "sdk_getHealth =
     \<lparr>sdk_name = ''getHealth'', sdk_method = ''GET'',
      sdk_url = ''/health'', sdk_security = NoSecurity,
      sdk_content_type = None\<rparr>"

definition sdk_getHistoryEntry :: sdk_operation where
  "sdk_getHistoryEntry =
     \<lparr>sdk_name = ''getHistoryEntry'', sdk_method = ''GET'',
      sdk_url = ''/api/v1/history/{query_id}'', sdk_security = SessionCookie,
      sdk_content_type = None\<rparr>"

definition sdk_getMe :: sdk_operation where
  "sdk_getMe =
     \<lparr>sdk_name = ''getMe'', sdk_method = ''GET'',
      sdk_url = ''/api/v1/auth/me'', sdk_security = SessionCookie,
      sdk_content_type = None\<rparr>"

definition sdk_getQueryLimits :: sdk_operation where
  "sdk_getQueryLimits =
     \<lparr>sdk_name = ''getQueryLimits'', sdk_method = ''GET'',
      sdk_url = ''/api/v1/query/limits'', sdk_security = SessionCookie,
      sdk_content_type = None\<rparr>"

definition sdk_getQuota :: sdk_operation where
  "sdk_getQuota =
     \<lparr>sdk_name = ''getQuota'', sdk_method = ''GET'',
      sdk_url = ''/api/v1/admin/quotas/{role_id}'', sdk_security = SessionCookie,
      sdk_content_type = None\<rparr>"

definition sdk_getQuotaStatus :: sdk_operation where
  "sdk_getQuotaStatus =
     \<lparr>sdk_name = ''getQuotaStatus'', sdk_method = ''GET'',
      sdk_url = ''/api/v1/admin/quotas/status'', sdk_security = SessionCookie,
      sdk_content_type = None\<rparr>"

definition sdk_getReadiness :: sdk_operation where
  "sdk_getReadiness =
     \<lparr>sdk_name = ''getReadiness'', sdk_method = ''GET'',
      sdk_url = ''/ready'', sdk_security = NoSecurity,
      sdk_content_type = None\<rparr>"

definition sdk_getRole :: sdk_operation where
  "sdk_getRole =
     \<lparr>sdk_name = ''getRole'', sdk_method = ''GET'',
      sdk_url = ''/api/v1/admin/roles/{role_id}'', sdk_security = SessionCookie,
      sdk_content_type = None\<rparr>"

definition sdk_getSession :: sdk_operation where
  "sdk_getSession =
     \<lparr>sdk_name = ''getSession'', sdk_method = ''GET'',
      sdk_url = ''/api/v1/sessions/{session_id}'', sdk_security = SessionCookie,
      sdk_content_type = None\<rparr>"

definition sdk_getSessions :: sdk_operation where
  "sdk_getSessions =
     \<lparr>sdk_name = ''getSessions'', sdk_method = ''GET'',
      sdk_url = ''/api/v1/sessions'', sdk_security = SessionCookie,
      sdk_content_type = None\<rparr>"

definition sdk_listAdminConnections :: sdk_operation where
  "sdk_listAdminConnections =
     \<lparr>sdk_name = ''listAdminConnections'', sdk_method = ''GET'',
      sdk_url = ''/api/v1/admin/connections'', sdk_security = SessionCookie,
      sdk_content_type = None\<rparr>"

definition sdk_listAdminSsoProviders :: sdk_operation where
  "sdk_listAdminSsoProviders =
     \<lparr>sdk_name = ''listAdminSsoProviders'', sdk_method = ''GET'',
      sdk_url = ''/api/v1/admin/sso/providers'', sdk_security = SessionCookie,
      sdk_content_type = None\<rparr>"

definition sdk_listGroupMappings :: sdk_operation where
  "sdk_listGroupMappings =
     \<lparr>sdk_name = ''listGroupMappings'', sdk_method = ''GET'',
      sdk_url = ''/api/v1/admin/sso/group-mappings'', sdk_security = SessionCookie,
      sdk_content_type = None\<rparr>"

definition sdk_listHistory :: sdk_operation where
  "sdk_listHistory =
     \<lparr>sdk_name = ''listHistory'', sdk_method = ''GET'',
      sdk_url = ''/api/v1/history'', sdk_security = SessionCookie,
      sdk_content_type = None\<rparr>"

definition sdk_listQuotas :: sdk_operation where
  "sdk_listQuotas =
     \<lparr>sdk_name = ''listQuotas'', sdk_method = ''GET'',
      sdk_url = ''/api/v1/admin/quotas'', sdk_security = SessionCookie,
      sdk_content_type = None\<rparr>"

definition sdk_listRoles :: sdk_operation where
  "sdk_listRoles =
     \<lparr>sdk_name = ''listRoles'', sdk_method = ''GET'',
      sdk_url = ''/api/v1/admin/roles'', sdk_security = SessionCookie,
      sdk_content_type = None\<rparr>"

definition sdk_listSsoProviders :: sdk_operation where
  "sdk_listSsoProviders =
     \<lparr>sdk_name = ''listSsoProviders'', sdk_method = ''GET'',
      sdk_url = ''/api/v1/auth/sso/providers'', sdk_security = NoSecurity,
      sdk_content_type = None\<rparr>"

definition sdk_listUserConnections :: sdk_operation where
  "sdk_listUserConnections =
     \<lparr>sdk_name = ''listUserConnections'', sdk_method = ''GET'',
      sdk_url = ''/api/v1/connections'', sdk_security = SessionCookie,
      sdk_content_type = None\<rparr>"

definition sdk_oidcCallback :: sdk_operation where
  "sdk_oidcCallback =
     \<lparr>sdk_name = ''oidcCallback'', sdk_method = ''GET'',
      sdk_url = ''/api/v1/auth/sso/oidc/callback'', sdk_security = NoSecurity,
      sdk_content_type = None\<rparr>"

definition sdk_oidcLogin :: sdk_operation where
  "sdk_oidcLogin =
     \<lparr>sdk_name = ''oidcLogin'', sdk_method = ''GET'',
      sdk_url = ''/api/v1/auth/sso/oidc/login'', sdk_security = NoSecurity,
      sdk_content_type = None\<rparr>"

definition sdk_refreshAdminConnectionSchema :: sdk_operation where
  "sdk_refreshAdminConnectionSchema =
     \<lparr>sdk_name = ''refreshAdminConnectionSchema'', sdk_method = ''POST'',
      sdk_url = ''/api/v1/admin/connections/{connection_id}/refresh-schema'', sdk_security = SessionCookie,
      sdk_content_type = None\<rparr>"

definition sdk_refreshSchema :: sdk_operation where
  "sdk_refreshSchema =
     \<lparr>sdk_name = ''refreshSchema'', sdk_method = ''POST'',
      sdk_url = ''/api/v1/admin/refresh-schema'', sdk_security = AdminKey,
      sdk_content_type = None\<rparr>"

definition sdk_regenerateQuery :: sdk_operation where
  "sdk_regenerateQuery =
     \<lparr>sdk_name = ''regenerateQuery'', sdk_method = ''POST'',
      sdk_url = ''/api/v1/query/regenerate'', sdk_security = SessionCookie,
      sdk_content_type = Some ''application/json''\<rparr>"

definition sdk_rejectQuery :: sdk_operation where
  "sdk_rejectQuery =
     \<lparr>sdk_name = ''rejectQuery'', sdk_method = ''POST'',
      sdk_url = ''/api/v1/query/reject'', sdk_security = SessionCookie,
      sdk_content_type = Some ''application/json''\<rparr>"

definition sdk_samlCallback :: sdk_operation where
  "sdk_samlCallback =
     \<lparr>sdk_name = ''samlCallback'', sdk_method = ''POST'',
      sdk_url = ''/api/v1/auth/sso/saml/callback'', sdk_security = NoSecurity,
      sdk_content_type = Some ''application/x-www-form-urlencoded''\<rparr>"

definition sdk_samlLogin :: sdk_operation where
  "sdk_samlLogin =
     \<lparr>sdk_name = ''samlLogin'', sdk_method = ''GET'',
      sdk_url = ''/api/v1/auth/sso/saml/login'', sdk_security = NoSecurity,
      sdk_content_type = None\<rparr>"

definition sdk_searchAuditEntries :: sdk_operation where
  "sdk_searchAuditEntries =
     \<lparr>sdk_name = ''searchAuditEntries'', sdk_method = ''GET'',
      sdk_url = ''/api/v1/admin/audit/entries'', sdk_security = SessionCookie,
      sdk_content_type = None\<rparr>"

definition sdk_signIn :: sdk_operation where
  "sdk_signIn =
     \<lparr>sdk_name = ''signIn'', sdk_method = ''POST'',
      sdk_url = ''/api/v1/auth/sign-in'', sdk_security = NoSecurity,
      sdk_content_type = Some ''application/json''\<rparr>"

definition sdk_signOut :: sdk_operation where
  "sdk_signOut =
     \<lparr>sdk_name = ''signOut'', sdk_method = ''POST'',
      sdk_url = ''/api/v1/auth/sign-out'', sdk_security = SessionCookie,
      sdk_content_type = None\<rparr>"

definition sdk_submitQuestion :: sdk_operation where
  "sdk_submitQuestion =
     \<lparr>sdk_name = ''submitQuestion'', sdk_method = ''POST'',
      sdk_url = ''/api/v1/query/submit'', sdk_security = SessionCookie,
      sdk_content_type = Some ''application/json''\<rparr>"

definition sdk_testAdminConnection :: sdk_operation where
  "sdk_testAdminConnection =
     \<lparr>sdk_name = ''testAdminConnection'', sdk_method = ''POST'',
      sdk_url = ''/api/v1/admin/connections/{connection_id}/test'', sdk_security = SessionCookie,
      sdk_content_type = None\<rparr>"

definition sdk_testDraftRolePolicy :: sdk_operation where
  "sdk_testDraftRolePolicy =
     \<lparr>sdk_name = ''testDraftRolePolicy'', sdk_method = ''POST'',
      sdk_url = ''/api/v1/admin/roles/test-policy'', sdk_security = SessionCookie,
      sdk_content_type = Some ''application/json''\<rparr>"

definition sdk_testRolePolicy :: sdk_operation where
  "sdk_testRolePolicy =
     \<lparr>sdk_name = ''testRolePolicy'', sdk_method = ''POST'',
      sdk_url = ''/api/v1/admin/roles/{role_id}/test-policy'', sdk_security = SessionCookie,
      sdk_content_type = Some ''application/json''\<rparr>"

definition sdk_updateAdminConnection :: sdk_operation where
  "sdk_updateAdminConnection =
     \<lparr>sdk_name = ''updateAdminConnection'', sdk_method = ''PUT'',
      sdk_url = ''/api/v1/admin/connections/{connection_id}'', sdk_security = SessionCookie,
      sdk_content_type = Some ''application/json''\<rparr>"

definition sdk_updateAdminSettings :: sdk_operation where
  "sdk_updateAdminSettings =
     \<lparr>sdk_name = ''updateAdminSettings'', sdk_method = ''PATCH'',
      sdk_url = ''/api/v1/admin/settings'', sdk_security = SessionCookie,
      sdk_content_type = Some ''application/json''\<rparr>"

definition sdk_updateDetectionConfig :: sdk_operation where
  "sdk_updateDetectionConfig =
     \<lparr>sdk_name = ''updateDetectionConfig'', sdk_method = ''PUT'',
      sdk_url = ''/api/v1/admin/detection/config'', sdk_security = SessionCookie,
      sdk_content_type = Some ''application/json''\<rparr>"

definition sdk_updateFeedback :: sdk_operation where
  "sdk_updateFeedback =
     \<lparr>sdk_name = ''updateFeedback'', sdk_method = ''PATCH'',
      sdk_url = ''/api/v1/feedback/{attempt_id}'', sdk_security = SessionCookie,
      sdk_content_type = Some ''application/json''\<rparr>"

definition sdk_updateRole :: sdk_operation where
  "sdk_updateRole =
     \<lparr>sdk_name = ''updateRole'', sdk_method = ''PUT'',
      sdk_url = ''/api/v1/admin/roles/{role_id}'', sdk_security = SessionCookie,
      sdk_content_type = Some ''application/json''\<rparr>"

definition sdk_updateSessionConnection :: sdk_operation where
  "sdk_updateSessionConnection =
     \<lparr>sdk_name = ''updateSessionConnection'', sdk_method = ''PATCH'',
      sdk_url = ''/api/v1/sessions/{session_id}/connection'', sdk_security = SessionCookie,
      sdk_content_type = Some ''application/json''\<rparr>"

definition sdk_updateSsoProvider :: sdk_operation where
  "sdk_updateSsoProvider =
     \<lparr>sdk_name = ''updateSsoProvider'', sdk_method = ''PUT'',
      sdk_url = ''/api/v1/admin/sso/providers/{provider_id}'', sdk_security = SessionCookie,
      sdk_content_type = Some ''application/json''\<rparr>"

definition sdk_upsertQuota :: sdk_operation where
  "sdk_upsertQuota =
     \<lparr>sdk_name = ''upsertQuota'', sdk_method = ''PUT'',
      sdk_url = ''/api/v1/admin/quotas/{role_id}'', sdk_security = SessionCookie,
      sdk_content_type = Some ''application/json''\<rparr>"

definition sdk_verifyAuditChain :: sdk_operation where
  "sdk_verifyAuditChain =
     \<lparr>sdk_name = ''verifyAuditChain'', sdk_method = ''POST'',
      sdk_url = ''/api/v1/admin/audit/verify'', sdk_security = SessionCookie,
      sdk_content_type = None\<rparr>"

text \<open>All of them, in the order of the response manifest.\<close>

definition sdk_operations :: "sdk_operation list" where
  "sdk_operations =
     [sdk_acceptQuery, sdk_createAdminConnection, sdk_createAuditFilterContext,
      sdk_createGroupMapping, sdk_createRole, sdk_createSession, sdk_createSsoProvider,
      sdk_deleteAdminConnection, sdk_deleteGroupMapping, sdk_deleteHistoryEntry, sdk_deleteQuota,
      sdk_deleteRole, sdk_deleteSession, sdk_deleteSsoProvider, sdk_disableAdminConnection,
      sdk_enableAdminConnection, sdk_exportAuditEntries, sdk_getAdminConnection,
      sdk_getAdminConnectionSchema, sdk_getAdminSettings, sdk_getAuditRetention,
      sdk_getAuditStatus, sdk_getDetectionConfig, sdk_getHealth, sdk_getHistoryEntry, sdk_getMe,
      sdk_getQueryLimits, sdk_getQuota, sdk_getQuotaStatus, sdk_getReadiness, sdk_getRole,
      sdk_getSession, sdk_getSessions, sdk_listAdminConnections, sdk_listAdminSsoProviders,
      sdk_listGroupMappings, sdk_listHistory, sdk_listQuotas, sdk_listRoles,
      sdk_listSsoProviders, sdk_listUserConnections, sdk_oidcCallback, sdk_oidcLogin,
      sdk_refreshAdminConnectionSchema, sdk_refreshSchema, sdk_regenerateQuery, sdk_rejectQuery,
      sdk_samlCallback, sdk_samlLogin, sdk_searchAuditEntries, sdk_signIn, sdk_signOut,
      sdk_submitQuestion, sdk_testAdminConnection, sdk_testDraftRolePolicy, sdk_testRolePolicy,
      sdk_updateAdminConnection, sdk_updateAdminSettings, sdk_updateDetectionConfig,
      sdk_updateFeedback, sdk_updateRole, sdk_updateSessionConnection, sdk_updateSsoProvider,
      sdk_upsertQuota, sdk_verifyAuditChain]"

lemmas sdk_operation_defs =
  sdk_acceptQuery_def sdk_createAdminConnection_def sdk_createAuditFilterContext_def
  sdk_createGroupMapping_def sdk_createRole_def sdk_createSession_def sdk_createSsoProvider_def
  sdk_deleteAdminConnection_def sdk_deleteGroupMapping_def sdk_deleteHistoryEntry_def
  sdk_deleteQuota_def sdk_deleteRole_def sdk_deleteSession_def sdk_deleteSsoProvider_def
  sdk_disableAdminConnection_def sdk_enableAdminConnection_def sdk_exportAuditEntries_def
  sdk_getAdminConnection_def sdk_getAdminConnectionSchema_def sdk_getAdminSettings_def
  sdk_getAuditRetention_def sdk_getAuditStatus_def sdk_getDetectionConfig_def sdk_getHealth_def
  sdk_getHistoryEntry_def sdk_getMe_def sdk_getQueryLimits_def sdk_getQuota_def
  sdk_getQuotaStatus_def sdk_getReadiness_def sdk_getRole_def sdk_getSession_def
  sdk_getSessions_def sdk_listAdminConnections_def sdk_listAdminSsoProviders_def
  sdk_listGroupMappings_def sdk_listHistory_def sdk_listQuotas_def sdk_listRoles_def
  sdk_listSsoProviders_def sdk_listUserConnections_def sdk_oidcCallback_def sdk_oidcLogin_def
  sdk_refreshAdminConnectionSchema_def sdk_refreshSchema_def sdk_regenerateQuery_def
  sdk_rejectQuery_def sdk_samlCallback_def sdk_samlLogin_def sdk_searchAuditEntries_def
  sdk_signIn_def sdk_signOut_def sdk_submitQuestion_def sdk_testAdminConnection_def
  sdk_testDraftRolePolicy_def sdk_testRolePolicy_def sdk_updateAdminConnection_def
  sdk_updateAdminSettings_def sdk_updateDetectionConfig_def sdk_updateFeedback_def
  sdk_updateRole_def sdk_updateSessionConnection_def sdk_updateSsoProvider_def
  sdk_upsertQuota_def sdk_verifyAuditChain_def

lemmas manifest_operation_defs =
  op_acceptQuery_def op_createAdminConnection_def op_createAuditFilterContext_def
  op_createGroupMapping_def op_createRole_def op_createSession_def op_createSsoProvider_def
  op_deleteAdminConnection_def op_deleteGroupMapping_def op_deleteHistoryEntry_def
  op_deleteQuota_def op_deleteRole_def op_deleteSession_def op_deleteSsoProvider_def
  op_disableAdminConnection_def op_enableAdminConnection_def op_exportAuditEntries_def
  op_getAdminConnection_def op_getAdminConnectionSchema_def op_getAdminSettings_def
  op_getAuditRetention_def op_getAuditStatus_def op_getDetectionConfig_def op_getHealth_def
  op_getHistoryEntry_def op_getMe_def op_getQueryLimits_def op_getQuota_def
  op_getQuotaStatus_def op_getReadiness_def op_getRole_def op_getSession_def op_getSessions_def
  op_listAdminConnections_def op_listAdminSsoProviders_def op_listGroupMappings_def
  op_listHistory_def op_listQuotas_def op_listRoles_def op_listSsoProviders_def
  op_listUserConnections_def op_oidcCallback_def op_oidcLogin_def
  op_refreshAdminConnectionSchema_def op_refreshSchema_def op_regenerateQuery_def
  op_rejectQuery_def op_samlCallback_def op_samlLogin_def op_searchAuditEntries_def
  op_signIn_def op_signOut_def op_submitQuestion_def op_testAdminConnection_def
  op_testDraftRolePolicy_def op_testRolePolicy_def op_updateAdminConnection_def
  op_updateAdminSettings_def op_updateDetectionConfig_def op_updateFeedback_def
  op_updateRole_def op_updateSessionConnection_def op_updateSsoProvider_def op_upsertQuota_def
  op_verifyAuditChain_def

text \<open>The functions and the manifest agree on names, methods and paths.\<close>

lemma sdk_matches_manifest:
  "map (\<lambda>mop. (operationId mop, op_method mop, op_path mop)) responseOperationManifest =
   map (\<lambda>op. (sdk_name op, sdk_method op, sdk_url op)) sdk_operations"
  by (simp only: responseOperationManifest_def sdk_operations_def list.map manifest_operation_defs
      sdk_operation_defs ManifestOperation.simps sdk_operation.simps)

end
