(* ===== verification/Api_Client.thy ===== *)
theory Api_Client
  imports Sdk Response_Validation
begin

text \<open>
  The request side of the generated client: parameter serialization
  (\<open>frontend/src/api/generated/core/pathSerializer.gen.ts\<close>), URL building (\<open>core/utils.gen.ts\<close>), query
  strings and content-type inference (\<open>client/utils.gen.ts\<close>). The text of a number is an argument. The
  property follows a request from its function in the SDK through the URL to the contract the response
  boundary validates the answer with.
\<close>

section \<open>Encoding\<close>

definition hex_upper :: "nat \<Rightarrow> char" where
  "hex_upper n = (if n < 10 then char_of (48 + n) else char_of (55 + n))"

definition percent :: "nat \<Rightarrow> string" where
  "percent b = [CHR ''%'', hex_upper (b div 16), hex_upper (b mod 16)]"

definition unreserved :: "char \<Rightarrow> bool" where
  "unreserved c =
     (let n = of_char c :: nat
      in 48 \<le> n \<and> n \<le> 57 \<or> 65 \<le> n \<and> n \<le> 90 \<or> 97 \<le> n \<and> n \<le> 122 \<or>
         c \<in> set ''-_.!~*()'' \<or> c = CHR 0x27)"

definition encode_char :: "char \<Rightarrow> string" where
  "encode_char c =
     (let n = of_char c
      in if unreserved c then [c]
         else if n < 128 then percent n
         else percent (192 + n div 64) @ percent (128 + n mod 64))"

definition encodeURIComponent :: "string \<Rightarrow> string" where
  "encodeURIComponent s = concat (map encode_char s)"

text \<open>\<open>String(v)\<close>.\<close>

fun prim_text :: "(jsnum \<Rightarrow> string) \<Rightarrow> jsval \<Rightarrow> string" where
  "prim_text num JUndefined = ''undefined''"
| "prim_text num JNull = ''null''"
| "prim_text num (JBool b) = (if b then ''true'' else ''false'')"
| "prim_text num (JNum n) = num n"
| "prim_text num (JStr s) = s"
| "prim_text num (JArr xs) =
     join_with '','' (map (\<lambda>x. if nullish x then [] else prim_text num x) xs)"
| "prim_text num (JObj c fs) = ''[object Object]''"

text \<open>An element of a joined list: \<open>join\<close> writes nothing for an absent value, \<open>encodeURIComponent\<close> its name.\<close>

definition encode_param :: "(jsnum \<Rightarrow> string) \<Rightarrow> bool \<Rightarrow> jsval \<Rightarrow> string" where
  "encode_param num allowReserved v =
     (if allowReserved then (if nullish v then [] else prim_text num v) else encodeURIComponent (prim_text num v))"

section \<open>Parameter serialization\<close>

datatype param_style = Form | SpaceDelimited | PipeDelimited | Label | MatrixStyle | Simple | DeepObject

definition separatorArrayExplode :: "param_style \<Rightarrow> string" where
  "separatorArrayExplode style =
     (case style of Label \<Rightarrow> ''.'' | MatrixStyle \<Rightarrow> '';'' | Simple \<Rightarrow> '','' | _ \<Rightarrow> ''&'')"

definition separatorArrayNoExplode :: "param_style \<Rightarrow> string" where
  "separatorArrayNoExplode style =
     (case style of Form \<Rightarrow> '','' | PipeDelimited \<Rightarrow> ''|'' | SpaceDelimited \<Rightarrow> ''%20'' | _ \<Rightarrow> '','')"

definition separatorObjectExplode :: "param_style \<Rightarrow> string" where
  "separatorObjectExplode style =
     (case style of Label \<Rightarrow> ''.'' | MatrixStyle \<Rightarrow> '';'' | Simple \<Rightarrow> '','' | _ \<Rightarrow> ''&'')"

text \<open>The message of the error has an apostrophe outside the modelled units; it stands here without it.\<close>

definition nested_error :: jsval where
  "nested_error =
     new_error ErrorClass ''Error''
       (''Deeply-nested arrays/objects arent supported. Provide your own `querySerializer()` '' @ ''to handle these.'')"

definition serializePrimitiveParam :: "(jsnum \<Rightarrow> string) \<Rightarrow> bool \<Rightarrow> string \<Rightarrow> jsval \<Rightarrow> string outcome" where
  "serializePrimitiveParam num allowReserved name v =
     (if nullish v then Inr []
      else if typeof_object v then Inl nested_error
      else Inr (name @ ''='' @ encode_param num allowReserved v))"

fun all_outcomes :: "'a outcome list \<Rightarrow> 'a list outcome" where
  "all_outcomes [] = Inr []"
| "all_outcomes (r # rs) =
     (case r of Inl e \<Rightarrow> Inl e
      | Inr x \<Rightarrow> (case all_outcomes rs of Inl e \<Rightarrow> Inl e | Inr xs \<Rightarrow> Inr (x # xs)))"

definition serializeArrayParam ::
    "(jsnum \<Rightarrow> string) \<Rightarrow> bool \<Rightarrow> bool \<Rightarrow> string \<Rightarrow> param_style \<Rightarrow> jsval list \<Rightarrow> string outcome" where
  "serializeArrayParam num allowReserved explode name style vs =
     (if \<not> explode
      then
        (let joinedValues = join_with (separatorArrayNoExplode style) (map (encode_param num allowReserved) vs)
         in Inr (case style of
                   Label \<Rightarrow> ''.'' @ joinedValues
                 | MatrixStyle \<Rightarrow> '';'' @ name @ ''='' @ joinedValues
                 | Simple \<Rightarrow> joinedValues
                 | _ \<Rightarrow> name @ ''='' @ joinedValues))
      else
        (let separator = separatorArrayExplode style;
             values = all_outcomes (map (\<lambda>v. if style = Label \<or> style = Simple
                                            then Inr (encode_param num allowReserved v)
                                            else serializePrimitiveParam num allowReserved name v) vs)
         in case values of
              Inl e \<Rightarrow> Inl e
            | Inr ws \<Rightarrow>
                Inr (if style = Label \<or> style = MatrixStyle then separator @ join_with separator ws
                     else join_with separator ws)))"

definition serializeObjectParam ::
    "(jsnum \<Rightarrow> string) \<Rightarrow> bool \<Rightarrow> bool \<Rightarrow> string \<Rightarrow> param_style \<Rightarrow> (string \<times> jsval) list \<Rightarrow> string outcome" where
  "serializeObjectParam num allowReserved explode name style fs =
     (if style \<noteq> DeepObject \<and> \<not> explode
      then
        (let joinedValues = join_with '','' (concat (map (\<lambda>(key, v). [key, encode_param num allowReserved v]) fs))
         in Inr (case style of
                   Form \<Rightarrow> name @ ''='' @ joinedValues
                 | Label \<Rightarrow> ''.'' @ joinedValues
                 | MatrixStyle \<Rightarrow> '';'' @ name @ ''='' @ joinedValues
                 | _ \<Rightarrow> joinedValues))
      else
        (let separator = separatorObjectExplode style;
             values = all_outcomes (map (\<lambda>(key, v). serializePrimitiveParam num allowReserved
                        (if style = DeepObject then name @ ''['' @ key @ '']'' else key) v) fs)
         in case values of
              Inl e \<Rightarrow> Inl e
            | Inr ws \<Rightarrow>
                Inr (if style = Label \<or> style = MatrixStyle then separator @ join_with separator ws
                     else join_with separator ws)))"

section \<open>URLs\<close>

text \<open>The names the matches of \<open>PATH_PARAM_RE\<close> enclose, in order: the scan holds what follows the last brace.\<close>

fun path_params :: "string option \<Rightarrow> string \<Rightarrow> string list" where
  "path_params acc [] = []"
| "path_params None (c # s) = path_params (if c = CHR ''{'' then Some [] else None) s"
| "path_params (Some b) (c # s) =
     (if c = CHR ''{'' then path_params (Some []) s
      else if c = CHR ''}'' then (if b = [] then path_params None s else b # path_params None s)
      else path_params (Some (b @ [c])) s)"

fun replace_first :: "string \<Rightarrow> string \<Rightarrow> string \<Rightarrow> string" where
  "replace_first pat rep [] = (if pat = [] then rep else [])"
| "replace_first pat rep (c # s) =
     (if starts_with (c # s) pat then rep @ drop (length pat) (c # s) else c # replace_first pat rep s)"

text \<open>One match: its name gives the explode flag, the style and the argument; \<open>url.replace(match, text)\<close>.\<close>

definition serialize_path_param :: "(jsnum \<Rightarrow> string) \<Rightarrow> jsval \<Rightarrow> string \<Rightarrow> string \<Rightarrow> string outcome" where
  "serialize_path_param num args raw url =
     (let explode = ends_with raw ''*'';
          name1 = (if explode then butlast raw else raw);
          style = (if starts_with name1 ''.'' then Label else if starts_with name1 '';'' then MatrixStyle else Simple);
          name = (if style = Simple then name1 else tl name1);
          v = js_get args name;
          put = (\<lambda>r. case r of Inl e \<Rightarrow> Inl e | Inr text \<Rightarrow> Inr (replace_first (''{'' @ raw @ ''}'') text url))
      in if nullish v then Inr url
         else case v of
                JArr xs \<Rightarrow> put (serializeArrayParam num False explode name style xs)
              | JObj c fs \<Rightarrow> put (serializeObjectParam num False explode name style fs)
              | _ \<Rightarrow>
                  (if style = MatrixStyle
                   then put (case serializePrimitiveParam num False name v of
                               Inl e \<Rightarrow> Inl e | Inr text \<Rightarrow> Inr ('';'' @ text))
                   else put (Inr (encodeURIComponent
                               (if style = Label then ''.'' @ prim_text num v else prim_text num v)))))"

fun serialize_path_params :: "(jsnum \<Rightarrow> string) \<Rightarrow> jsval \<Rightarrow> string list \<Rightarrow> string \<Rightarrow> string outcome" where
  "serialize_path_params num args [] url = Inr url"
| "serialize_path_params num args (m # ms) url =
     (case serialize_path_param num args m url of
        Inl e \<Rightarrow> Inl e
      | Inr url' \<Rightarrow> serialize_path_params num args ms url')"

definition defaultPathSerializer :: "(jsnum \<Rightarrow> string) \<Rightarrow> jsval \<Rightarrow> string \<Rightarrow> string outcome" where
  "defaultPathSerializer num args url = serialize_path_params num args (path_params None url) url"

text \<open>The query serializer of the client: exploded forms and deep objects, empty results dropped.\<close>

definition query_entry :: "(jsnum \<Rightarrow> string) \<Rightarrow> string \<times> jsval \<Rightarrow> string list outcome" where
  "query_entry num f =
     (let name = fst f; v = snd f;
          pushed = (\<lambda>r. case r of Inl e \<Rightarrow> Inl e | Inr text \<Rightarrow> Inr (if text = [] then [] else [text]))
      in if nullish v then Inr []
         else case v of
                JArr xs \<Rightarrow> pushed (serializeArrayParam num False True name Form xs)
              | JObj c fs \<Rightarrow> pushed (serializeObjectParam num False True name DeepObject fs)
              | _ \<Rightarrow> pushed (serializePrimitiveParam num False name v))"

definition querySerializer :: "(jsnum \<Rightarrow> string) \<Rightarrow> jsval \<Rightarrow> string outcome" where
  "querySerializer num query =
     (case query of
        JObj c fs \<Rightarrow>
          (case all_outcomes (map (query_entry num) fs) of
             Inl e \<Rightarrow> Inl e
           | Inr parts \<Rightarrow> Inr (join_with ''&'' (concat parts)))
      | _ \<Rightarrow> Inr [])"

definition getUrl ::
    "(jsnum \<Rightarrow> string) \<Rightarrow> string option \<Rightarrow> jsval \<Rightarrow> jsval \<Rightarrow> string \<Rightarrow> string outcome" where
  "getUrl num baseUrl args query template =
     (let pathUrl = (if starts_with template ''/'' then template else ''/'' @ template);
          url = (case baseUrl of None \<Rightarrow> [] | Some b \<Rightarrow> b) @ pathUrl
      in case (if truthy args then defaultPathSerializer num args url else Inr url) of
           Inl e \<Rightarrow> Inl e
         | Inr url1 \<Rightarrow>
             (case (if truthy query then querySerializer num query else Inr []) of
                Inl e \<Rightarrow> Inl e
              | Inr search \<Rightarrow>
                  (let search1 = (if starts_with search ''?'' then tl search else search)
                   in Inr (if search1 = [] then url1 else url1 @ ''?'' @ search1))))"

definition getValidRequestBody :: "jsval \<Rightarrow> bool \<Rightarrow> jsval option \<Rightarrow> jsval" where
  "getValidRequestBody body hasSerializer serializedBody =
     (let hasBody = body \<noteq> JUndefined
      in if hasBody \<and> hasSerializer
         then (case serializedBody of
                 Some b \<Rightarrow> if b \<noteq> JUndefined \<and> b \<noteq> JStr [] then b else JNull
               | None \<Rightarrow> if body \<noteq> JStr [] then body else JNull)
         else if hasBody then body else JUndefined)"

text \<open>\<open>None\<close> is the absent result, for which the caller takes \<open>json\<close>.\<close>

datatype parse_as = AsStream | AsJson | AsFormData | AsBlob | AsText

definition getParseAs :: "string option \<Rightarrow> parse_as option" where
  "getParseAs content_type =
     (case content_type of
        None \<Rightarrow> Some AsStream
      | Some header \<Rightarrow>
          (if header = [] then Some AsStream
           else
             (let cleanContent = js_trim (hd (split_on (CHR '';'') header))
              in if cleanContent = [] then None
                 else if starts_with cleanContent ''application/json'' \<or> ends_with cleanContent ''+json'' then Some AsJson
                 else if cleanContent = ''multipart/form-data'' then Some AsFormData
                 else if list_ex (starts_with cleanContent) [''application/'', ''audio/'', ''image/'', ''video/'']
                 then Some AsBlob
                 else if starts_with cleanContent ''text/'' then Some AsText
                 else None)))"

text \<open>The pathname of the URL a request is made with: no query, and dot segments removed.\<close>

fun remove_dot_segments :: "string list \<Rightarrow> string list \<Rightarrow> string list" where
  "remove_dot_segments out [] = out"
| "remove_dot_segments out (s # ss) =
     (if s = ''..'' then remove_dot_segments (butlast out @ (if ss = [] then [[]] else [])) ss
      else if s = ''.'' then remove_dot_segments (out @ (if ss = [] then [[]] else [])) ss
      else remove_dot_segments (out @ [s]) ss)"

definition url_pathname :: "string \<Rightarrow> string" where
  "url_pathname url =
     join_with ''/'' (remove_dot_segments [] (split_on (CHR ''/'') (takeWhile (\<lambda>c. c \<noteq> CHR ''?'') url)))"

definition sdk_request :: "(jsnum \<Rightarrow> string) \<Rightarrow> sdk_operation \<Rightarrow> jsval \<Rightarrow> jsval \<Rightarrow> http_request outcome" where
  "sdk_request num op args query =
     (case getUrl num None args query (sdk_url op) of
        Inl e \<Rightarrow> Inl e
      | Inr url \<Rightarrow> Inr \<lparr>req_method = sdk_method op, req_pathname = url_pathname url\<rparr>)"

section \<open>Filling a template\<close>

definition braceless :: "string \<Rightarrow> bool" where
  "braceless s = (CHR ''{'' \<notin> set s \<and> CHR ''}'' \<notin> set s)"

lemma path_params_skip: "braceless s \<Longrightarrow> path_params None (s @ r) = path_params None r"
  by (induction s) (auto simp: braceless_def)

lemma path_params_none: "braceless s \<Longrightarrow> path_params None s = []"
  using path_params_skip [of s "[]"] by simp

lemma path_params_name:
  "braceless n \<Longrightarrow> b @ n \<noteq> [] \<Longrightarrow> path_params (Some b) (n @ CHR ''}'' # r) = (b @ n) # path_params None r"
  by (induction n arbitrary: b) (auto simp: braceless_def)

lemma replace_first_at:
  assumes "CHR ''{'' \<notin> set pre"
  shows "replace_first (CHR ''{'' # q) rep (pre @ CHR ''{'' # q @ post) = pre @ rep @ post"
  using assms
proof (induction pre)
  case Nil
  then show ?case by (simp add: starts_with_def)
next
  case (Cons c pre)
  then have "c \<noteq> CHR ''{''" by auto
  with Cons show ?case by (simp add: starts_with_def)
qed

lemma fill_one_param:
  assumes "braceless pre" "braceless n" "braceless post" "n \<noteq> []"
    and "\<not> ends_with n ''*''" "\<not> starts_with n ''.''" "\<not> starts_with n '';''"
    and "js_get args n = JStr v"
  shows "defaultPathSerializer num args (pre @ CHR ''{'' # n @ CHR ''}'' # post) =
    Inr (pre @ encodeURIComponent v @ post)"
proof -
  have "path_params None (pre @ CHR ''{'' # n @ CHR ''}'' # post) = [n]"
    using assms(1-4) by (simp add: path_params_skip path_params_name path_params_none)
  moreover have "serialize_path_param num args n (pre @ CHR ''{'' # n @ CHR ''}'' # post) =
      Inr (pre @ encodeURIComponent v @ post)"
    using assms(1,5-8) replace_first_at [of pre "n @ ''}''" "encodeURIComponent v" post]
    by (simp add: serialize_path_param_def braceless_def)
  ultimately show ?thesis by (simp add: defaultPathSerializer_def)
qed

lemma fill_no_param: "braceless url \<Longrightarrow> defaultPathSerializer num args url = Inr url"
  by (simp add: defaultPathSerializer_def path_params_none)

section \<open>What encoding leaves\<close>

lemma hex_upper_unreserved: "n < 16 \<Longrightarrow> unreserved (hex_upper n)"
proof -
  assume "n < 16"
  then have "n \<in> {0, 1, 2, 3, 4, 5, 6, 7, 8, 9, 10, 11, 12, 13, 14, 15}" by (simp, arith)
  then show ?thesis by (elim insertE; simp add: unreserved_def hex_upper_def)
qed

lemma encode_char_chars:
  assumes "d \<in> set (encode_char c)"
  shows "unreserved d \<or> d = CHR ''%''"
proof -
  have n: "of_char c < (256 :: nat)" by simp
  have p: "unreserved d \<or> d = CHR ''%''" if "d \<in> set (percent b)" "b < 256" for b
    using that hex_upper_unreserved [of "b div 16"] hex_upper_unreserved [of "b mod 16"]
    by (auto simp: percent_def)
  have "of_char c < (4096 :: nat)" by (rule less_le_trans [OF n]) simp
  then have "of_char c div 64 < (64 :: nat)" by (simp add: div_less_iff_less_mult)
  then show ?thesis
    using assms n p [of "of_char c"] p [of "192 + of_char c div 64"] p [of "128 + of_char c mod 64"]
    by (auto simp: encode_char_def Let_def split: if_splits)
qed

lemma encoded_chars: "d \<in> set (encodeURIComponent s) \<Longrightarrow> d \<notin> {CHR ''/'', CHR ''?'', CHR ''{'', CHR ''}''}"
proof -
  assume "d \<in> set (encodeURIComponent s)"
  then have "unreserved d \<or> d = CHR ''%''" using encode_char_chars by (auto simp: encodeURIComponent_def)
  then show ?thesis by (auto simp: unreserved_def)
qed

section \<open>Segments\<close>

definition is_param :: "string \<Rightarrow> bool" where
  "is_param s = (starts_with s ''{'' \<and> ends_with s ''}'')"

definition segments :: "string \<Rightarrow> string list" where
  "segments s = split_on (CHR ''/'') s"

definition fill_segment :: "string \<Rightarrow> string \<Rightarrow> string" where
  "fill_segment e s = (if is_param s then e else s)"

lemma split_on_append: "split_on d (a @ d # b) = split_on d a @ split_on d b"
  by (induction a) (auto split: list.splits)

text \<open>A template whose parameter, if it has one, is a whole segment.\<close>

definition good_template :: "string \<Rightarrow> bool" where
  "good_template url =
     (starts_with url ''/'' \<and> CHR ''?'' \<notin> set url \<and>
      list_all (\<lambda>s. s \<noteq> ''.'' \<and> s \<noteq> ''..'') (segments url) \<and>
      (let pre = takeWhile (\<lambda>c. c \<noteq> CHR ''{'') url; r = dropWhile (\<lambda>c. c \<noteq> CHR ''{'') url
       in list_all (\<lambda>s. \<not> is_param s) (segments pre) \<and> braceless pre \<and>
          (r \<noteq> [] \<longrightarrow>
             (let n = takeWhile (\<lambda>c. c \<noteq> CHR ''}'') (tl r); q = dropWhile (\<lambda>c. c \<noteq> CHR ''}'') (tl r)
              in q \<noteq> [] \<and> pre \<noteq> [] \<and> last pre = CHR ''/'' \<and> n \<noteq> [] \<and> braceless n \<and> CHR ''/'' \<notin> set n \<and>
                 \<not> ends_with n ''*'' \<and> \<not> starts_with n ''.'' \<and> \<not> starts_with n '';'' \<and>
                 (tl q = [] \<or> hd (tl q) = CHR ''/'' \<and> braceless (tl q) \<and>
                    list_all (\<lambda>s. \<not> is_param s) (segments (tl (tl q))))))))"

definition param_name :: "string \<Rightarrow> string option" where
  "param_name url =
     (case dropWhile (\<lambda>c. c \<noteq> CHR ''{'') url of
        [] \<Rightarrow> None
      | c # r \<Rightarrow> Some (takeWhile (\<lambda>c. c \<noteq> CHR ''}'') r))"

lemma good_template_cases:
  assumes "good_template url"
  obtains
    (none) "param_name url = None" "braceless url" "list_all (\<lambda>s. \<not> is_param s) (segments url)"
  | (one) pre n post where "param_name url = Some n" "url = pre @ CHR ''/'' # CHR ''{'' # n @ CHR ''}'' # post"
      "braceless pre" "braceless n" "braceless post" "n \<noteq> []" "CHR ''/'' \<notin> set n"
      "\<not> ends_with n ''*''" "\<not> starts_with n ''.''" "\<not> starts_with n '';''"
      "post = [] \<or> (\<exists>q. post = CHR ''/'' # q \<and> list_all (\<lambda>s. \<not> is_param s) (segments q))"
      "list_all (\<lambda>s. \<not> is_param s) (segments pre)"
proof (cases "dropWhile (\<lambda>c. c \<noteq> CHR ''{'') url")
  case Nil
  then have tw: "takeWhile (\<lambda>c. c \<noteq> CHR ''{'') url = url" by (metis append.right_neutral takeWhile_dropWhile_id)
  have "braceless url" "list_all (\<lambda>s. \<not> is_param s) (segments url)"
    using assms unfolding good_template_def Let_def tw by blast+
  moreover have "param_name url = None" unfolding param_name_def Nil by simp
  ultimately show ?thesis using none by blast
next
  case (Cons c r)
  have c: "c = CHR ''{''"
    using Cons dropWhile_eq_Cons_conv [of "\<lambda>c. c \<noteq> CHR ''{''" url c r] by simp
  let ?pre = "takeWhile (\<lambda>c. c \<noteq> CHR ''{'') url"
  let ?n = "takeWhile (\<lambda>c. c \<noteq> CHR ''}'') r" and ?q = "dropWhile (\<lambda>c. c \<noteq> CHR ''}'') r"
  have g: "?q \<noteq> []" "?pre \<noteq> []" "last ?pre = CHR ''/''" "?n \<noteq> []" "braceless ?n" "CHR ''/'' \<notin> set ?n"
      "\<not> ends_with ?n ''*''" "\<not> starts_with ?n ''.''" "\<not> starts_with ?n '';''" "braceless ?pre"
      "list_all (\<lambda>s. \<not> is_param s) (segments ?pre)"
      "tl ?q = [] \<or> hd (tl ?q) = CHR ''/'' \<and> braceless (tl ?q) \<and>
         list_all (\<lambda>s. \<not> is_param s) (segments (tl (tl ?q)))"
    using assms Cons by (simp_all add: good_template_def Let_def)
  obtain d post where q: "?q = d # post" using g(1) by (cases ?q) auto
  then have d: "d = CHR ''}''"
    using dropWhile_eq_Cons_conv [of "\<lambda>c. c \<noteq> CHR ''}''" r d post] by simp
  have pre: "?pre = butlast ?pre @ [CHR ''/'']" using g(2,3) by (metis append_butlast_last_id)
  have "url = ?pre @ c # r" using Cons by (metis takeWhile_dropWhile_id)
  also have "r = ?n @ d # post" using q by (metis takeWhile_dropWhile_id)
  finally have url: "url = butlast ?pre @ CHR ''/'' # CHR ''{'' # ?n @ CHR ''}'' # post"
    using pre c d by (metis append.assoc append_Cons append_Nil)
  have "braceless (butlast ?pre)" using g(10) by (auto simp: braceless_def dest: in_set_butlastD)
  moreover have "list_all (\<lambda>s. \<not> is_param s) (segments (butlast ?pre))"
    using g(11) pre unfolding segments_def by (metis list_all_append split_on_append)
  moreover have "post = [] \<or> (\<exists>q. post = CHR ''/'' # q \<and> list_all (\<lambda>s. \<not> is_param s) (segments q))" "braceless post"
    using g(12) q by (cases post; auto simp: braceless_def)+
  ultimately show ?thesis
    using g url Cons by (intro one [of "?n" "butlast ?pre" post]) (simp_all add: param_name_def)
qed

lemma all_good_templates: "list_all (\<lambda>op. good_template (sdk_url op)) sdk_operations"
  by code_simp

text \<open>The arguments a template takes: an object that has a string for its parameter.\<close>

definition args_for :: "string \<Rightarrow> string \<Rightarrow> jsval \<Rightarrow> bool" where
  "args_for url v args = (case param_name url of None \<Rightarrow> True | Some n \<Rightarrow> js_get args n = JStr v)"

lemma filled_template:
  assumes good: "good_template url" and args: "args_for url v args"
  shows "\<exists>filled. (if truthy args then defaultPathSerializer num args url else Inr url) = Inr filled \<and>
    segments filled = map (fill_segment (encodeURIComponent v)) (segments url) \<and>
    CHR ''?'' \<notin> set filled"
  using good
proof (cases rule: good_template_cases)
  case none
  have "map (fill_segment (encodeURIComponent v)) (segments url) = segments url"
    using none(3) by (auto simp: list_all_iff fill_segment_def intro: map_idI)
  then show ?thesis using good fill_no_param [OF none(2)] by (auto simp: good_template_def)
next
  case (one pre n post)
  have get: "js_get args n = JStr v" using args one(1) by (simp add: args_for_def)
  then have tr: "truthy args" by (cases args) auto
  let ?e = "encodeURIComponent v" and ?slash = "CHR ''/''"
  have e: "?slash \<notin> set ?e" "CHR ''?'' \<notin> set ?e" using encoded_chars by blast+
  have fill: "defaultPathSerializer num args url = Inr ((pre @ [?slash]) @ ?e @ post)"
    unfolding one(2) using fill_one_param [of "pre @ [?slash]" n post args v num] one get by (simp add: braceless_def)
  have param: "?slash \<notin> set (CHR ''{'' # n @ ''}'')" using one(7) by simp
  have pm: "is_param (CHR ''{'' # n @ ''}'')" by (simp add: is_param_def starts_with_def ends_with_def)
  have tail: "split_on ?slash (w @ post) = w # (if post = [] then [] else segments (tl post))"
    if "?slash \<notin> set w" for w
    using that one(11) by (auto simp: split_on_free split_on_sep segments_def)
  have seg: "segments url = segments pre @ (CHR ''{'' # n @ ''}'') # (if post = [] then [] else segments (tl post))"
    using tail [OF param] by (simp add: one(2) segments_def split_on_append)
  have seg': "segments ((pre @ [?slash]) @ ?e @ post) =
      segments pre @ ?e # (if post = [] then [] else segments (tl post))"
    using tail [OF e(1)] by (simp add: segments_def split_on_append)
  have lits: "map (fill_segment ?e) ss = ss" if "list_all (\<lambda>s. \<not> is_param s) ss" for ss
    using that by (auto simp: list_all_iff fill_segment_def intro: map_idI)
  have "segments ((pre @ [?slash]) @ ?e @ post) = map (fill_segment ?e) (segments url)"
    unfolding seg seg' using one(11,12) pm lits by (auto simp: fill_segment_def)
  moreover have "CHR ''?'' \<notin> set ((pre @ [?slash]) @ ?e @ post)"
    using good e(2) one(2) by (auto simp: good_template_def)
  ultimately show ?thesis using fill tr by simp
qed

lemma no_dots: "list_all (\<lambda>s. s \<noteq> ''.'' \<and> s \<noteq> ''..'') ss \<Longrightarrow> remove_dot_segments out ss = out @ ss"
  by (induction ss arbitrary: out) auto

lemma pathname_filled:
  assumes "CHR ''?'' \<notin> set filled" and "list_all (\<lambda>s. s \<noteq> ''.'' \<and> s \<noteq> ''..'') (segments filled)"
  shows "url_pathname filled = filled" and "url_pathname (filled @ ''?'' @ search) = filled"
proof -
  have tw: "takeWhile (\<lambda>c. c \<noteq> CHR ''?'') filled = filled"
    using assms(1) by (auto simp: takeWhile_eq_all_conv)
  have "takeWhile (\<lambda>c. c \<noteq> CHR ''?'') (filled @ ''?'' @ search) = filled"
    using assms(1) by (subst takeWhile_append2) auto
  with tw show "url_pathname filled = filled" "url_pathname (filled @ ''?'' @ search) = filled"
    using no_dots [OF assms(2)] join_split_on [of "CHR ''/''" filled]
    by (simp_all only: url_pathname_def segments_def append_Nil)
qed

text \<open>Two templates that some path matches both of.\<close>

definition clash :: "string \<Rightarrow> string \<Rightarrow> bool" where
  "clash s t =
     (length (segments s) = length (segments t) \<and>
      list_all2 (\<lambda>a b. is_param a \<or> is_param b \<or> a = b) (segments s) (segments t))"

lemma pathMatches_filled:
  assumes "segments filled = map (fill_segment e) (segments url)"
  shows "pathMatches url filled" and "pathMatches t filled \<Longrightarrow> clash url t"
proof -
  show "pathMatches url filled"
    using assms by (auto simp: pathMatches_def segments_def fill_segment_def is_param_def list_all2_conv_all_nth)
  show "clash url t" if "pathMatches t filled"
    using that assms
    by (fastforce simp: pathMatches_def clash_def segments_def fill_segment_def is_param_def list_all2_conv_all_nth
        Let_def split: if_splits)
qed

section \<open>The SDK and the manifest\<close>

text \<open>
  The static check that no other operation takes a request, on the shapes of the operations: number of
  segments, method, name and segments.
\<close>

type_synonym op_shape = "nat \<times> string \<times> string list"

definition shape :: "sdk_operation \<Rightarrow> op_shape" where
  "shape op = (length (segments (sdk_url op)), sdk_name op, segments (sdk_url op))"

fun segments_clash :: "string list \<Rightarrow> string list \<Rightarrow> bool" where
  "segments_clash (a # as) (b # bs) =
     (if a = b then segments_clash as bs
      else if is_param a then segments_clash as bs
      else if is_param b then segments_clash as bs
      else False)"
| "segments_clash [] [] = True"
| "segments_clash _ _ = False"

fun unshadowed :: "op_shape \<Rightarrow> op_shape \<Rightarrow> bool" where
  "unshadowed (k, n, s) (k', n', s') =
     (if k \<noteq> k' then True
      else if n = n' then True
      else if segments_clash s s' then length (filter is_param s) < length (filter is_param s')
      else True)"

text \<open>The pairs of names of operations of a method where the second may take a request of the first.\<close>

fun shadowing :: "op_shape list \<Rightarrow> op_shape \<Rightarrow> (string \<times> string) list" where
  "shadowing [] a = []"
| "shadowing (b # bs) a =
     (if unshadowed a b then shadowing bs a else (fst (snd a), fst (snd b)) # shadowing bs a)"

fun shadows :: "op_shape list \<Rightarrow> op_shape list \<Rightarrow> (string \<times> string) list" where
  "shadows bs [] = []"
| "shadows bs (a # as) = shadowing bs a @ shadows bs as"

definition method_shapes :: "string \<Rightarrow> op_shape list" where
  "method_shapes m = map shape (filter (\<lambda>op. sdk_method op = m) sdk_operations)"

lemma shadows_get: "shadows (method_shapes ''GET'') (method_shapes ''GET'') = [(''getQuota'', ''getQuotaStatus'')]"
  by code_simp

lemma shadows_post: "shadows (method_shapes ''POST'') (method_shapes ''POST'') = []"
  by code_simp

lemma shadows_others:
  "shadows (method_shapes ''PUT'') (method_shapes ''PUT'') = []"
  "shadows (method_shapes ''PATCH'') (method_shapes ''PATCH'') = []"
  "shadows (method_shapes ''DELETE'') (method_shapes ''DELETE'') = []"
  by code_simp+

lemma sdk_methods:
  "list_all (\<lambda>op. sdk_method op \<in> set [''GET'', ''POST'', ''PUT'', ''PATCH'', ''DELETE'']) sdk_operations"
  by code_simp

lemma sdk_names_distinct: "distinct (map sdk_name sdk_operations)"
  by code_simp

lemma sdk_params_closed:
  "list_all (\<lambda>op. list_all (\<lambda>s. if starts_with s ''{'' then is_param s else True) (segments (sdk_url op))) sdk_operations"
  by code_simp

lemma shadowing_complete: "b \<in> set bs \<Longrightarrow> \<not> unshadowed a b \<Longrightarrow> (fst (snd a), fst (snd b)) \<in> set (shadowing bs a)"
  by (induction bs) auto

lemma shadows_complete:
  "a \<in> set as \<Longrightarrow> b \<in> set bs \<Longrightarrow> \<not> unshadowed a b \<Longrightarrow> (fst (snd a), fst (snd b)) \<in> set (shadows bs as)"
proof (induction as)
  case (Cons c as)
  then show ?case using shadowing_complete [of b bs c] by auto
qed simp

lemma segments_clash_iff:
  "segments_clash as bs \<longleftrightarrow> list_all2 (\<lambda>a b. is_param a \<or> is_param b \<or> a = b) as bs"
  by (induction as bs rule: segments_clash.induct) auto

lemma path_parameters_segments:
  assumes "op \<in> set sdk_operations"
  shows "path_parameters (sdk_url op) = length (filter is_param (segments (sdk_url op)))"
proof -
  have "\<forall>s \<in> set (segments (sdk_url op)). starts_with s ''{'' \<longleftrightarrow> is_param s"
    using sdk_params_closed assms unfolding list_all_iff is_param_def by meson
  then show ?thesis by (simp add: path_parameters_def segments_def cong: filter_cong)
qed

lemma only_getQuota_shadowed:
  assumes "op \<in> set sdk_operations" and "other \<in> set sdk_operations" and "sdk_method other = sdk_method op"
    and "clash (sdk_url op) (sdk_url other)" and "sdk_name other \<noteq> sdk_name op"
    and "path_parameters (sdk_url other) \<le> path_parameters (sdk_url op)"
  shows "sdk_name op = ''getQuota'' \<and> sdk_name other = ''getQuotaStatus''"
proof -
  have "\<not> unshadowed (shape op) (shape other)"
    using assms(4-6) path_parameters_segments [OF assms(1)] path_parameters_segments [OF assms(2)]
    by (auto simp: shape_def clash_def segments_clash_iff)
  moreover have "shape op \<in> set (method_shapes (sdk_method op))" "shape other \<in> set (method_shapes (sdk_method op))"
    using assms(1-3) by (auto simp: method_shapes_def)
  ultimately have "(sdk_name op, sdk_name other) \<in>
      set (shadows (method_shapes (sdk_method op)) (method_shapes (sdk_method op)))"
    using shadows_complete [of "shape op"] by (fastforce simp: shape_def)
  moreover have "sdk_method op \<in> set [''GET'', ''POST'', ''PUT'', ''PATCH'', ''DELETE'']"
    using sdk_methods assms(1) by (simp only: list_all_iff)
  ultimately show ?thesis using shadows_get shadows_post shadows_others by auto
qed

lemma sdk_unique: "a \<in> set sdk_operations \<Longrightarrow> b \<in> set sdk_operations \<Longrightarrow> sdk_name a = sdk_name b \<Longrightarrow> a = b"
  using sdk_names_distinct by (auto simp: distinct_map inj_on_def)

lemma sdk_of_manifest:
  "mop \<in> set responseOperationManifest \<Longrightarrow>
     \<exists>op \<in> set sdk_operations. sdk_name op = operationId mop \<and> sdk_method op = op_method mop \<and> sdk_url op = op_path mop"
  "op \<in> set sdk_operations \<Longrightarrow>
     \<exists>mop \<in> set responseOperationManifest. operationId mop = sdk_name op \<and> op_method mop = sdk_method op \<and> op_path mop = sdk_url op"
proof -
  have s: "(\<lambda>mop. (operationId mop, op_method mop, op_path mop)) ` set responseOperationManifest =
      (\<lambda>op. (sdk_name op, sdk_method op, sdk_url op)) ` set sdk_operations"
    using arg_cong [OF sdk_matches_manifest, of set] by (simp only: set_map)
  show "\<exists>op \<in> set sdk_operations. sdk_name op = operationId mop \<and> sdk_method op = op_method mop \<and> sdk_url op = op_path mop"
    if "mop \<in> set responseOperationManifest"
    using imageI [OF that, of "\<lambda>mop. (operationId mop, op_method mop, op_path mop)"] unfolding s by auto
  show "\<exists>mop \<in> set responseOperationManifest. operationId mop = sdk_name op \<and> op_method mop = sdk_method op \<and> op_path mop = sdk_url op"
    if "op \<in> set sdk_operations"
    using imageI [OF that, of "\<lambda>op. (sdk_name op, sdk_method op, sdk_url op)"] unfolding s [symmetric] by auto
qed

lemma requestOperation_least:
  assumes "mop \<in> set responseOperationManifest" "op_method mop = req_method req" "pathMatches (op_path mop) (req_pathname req)"
  shows "\<exists>x \<in> set responseOperationManifest. requestOperation req = Some x \<and> op_method x = req_method req \<and>
    pathMatches (op_path x) (req_pathname req) \<and> path_parameters (op_path x) \<le> path_parameters (op_path mop)"
proof -
  let ?k = "\<lambda>m. path_parameters (op_path m)"
  let ?f = "filter (\<lambda>m. op_method m = req_method req \<and> pathMatches (op_path m) (req_pathname req)) responseOperationManifest"
  have mem: "mop \<in> set (sort_key ?k ?f)" using assms by simp
  then obtain x xs where x: "sort_key ?k ?f = x # xs" by (cases "sort_key ?k ?f") auto
  have "sorted (map ?k (x # xs))" using sorted_sort_key [of ?k ?f] x by simp
  then have "?k x \<le> ?k mop" using mem x by auto
  moreover have "x \<in> set ?f" using x by (metis list.set_intros(1) set_sort)
  ultimately show ?thesis using x by (auto simp: requestOperation_def)
qed

section \<open>Properties\<close>

text \<open>
  C22. Every request gets the contract it was written for. For each function of the SDK, each
  argument of its path and each query string, the client builds a request, and the response boundary
  finds for it the operation of that very function in its manifest, with its method and its path. The
  encoded argument must not be a dot segment, which the URL parser would remove, and the one pair of
  operations that share paths is told apart by the argument: \<open>getQuota\<close> of a role named \<open>status\<close> is the
  path of \<open>getQuotaStatus\<close>.
\<close>

theorem sdk_request_reaches_its_contract:
  assumes "op \<in> set sdk_operations" and "args_for (sdk_url op) v args"
    and "querySerializer num query = Inr search"
    and "encodeURIComponent v \<noteq> ''.''" and "encodeURIComponent v \<noteq> ''..''"
    and "op = sdk_getQuota \<longrightarrow> encodeURIComponent v \<noteq> ''status''"
  shows "\<exists>req mop. sdk_request num op args query = Inr req \<and> requestOperation req = Some mop \<and>
    operationId mop = sdk_name op \<and> op_method mop = sdk_method op \<and> op_path mop = sdk_url op"
proof -
  let ?e = "encodeURIComponent v"
  have good: "good_template (sdk_url op)" using all_good_templates assms(1) by (simp add: list_all_iff)
  obtain filled where filled: "(if truthy args then defaultPathSerializer num args (sdk_url op) else Inr (sdk_url op)) = Inr filled"
      "segments filled = map (fill_segment ?e) (segments (sdk_url op))" "CHR ''?'' \<notin> set filled"
    using filled_template [OF good assms(2)] by blast
  have dots: "list_all (\<lambda>s. s \<noteq> ''.'' \<and> s \<noteq> ''..'') (segments filled)"
    using good assms(4,5) filled(2) by (auto simp: good_template_def fill_segment_def list_all_iff)
  let ?req = "\<lparr>req_method = sdk_method op, req_pathname = filled\<rparr>"
  have "starts_with (sdk_url op) ''/''" using good by (simp add: good_template_def)
  then have req: "sdk_request num op args query = Inr ?req"
    using filled(1) assms(3) pathname_filled [OF filled(3) dots]
    by (auto simp: sdk_request_def getUrl_def Let_def)
  obtain own where own: "own \<in> set responseOperationManifest" "operationId own = sdk_name op"
      "op_method own = sdk_method op" "op_path own = sdk_url op"
    using sdk_of_manifest(2) [OF assms(1)] by blast
  then obtain x where x: "x \<in> set responseOperationManifest" "requestOperation ?req = Some x"
      "op_method x = sdk_method op" "pathMatches (op_path x) filled"
      "path_parameters (op_path x) \<le> path_parameters (sdk_url op)"
    using requestOperation_least [of own ?req] pathMatches_filled(1) [OF filled(2)] by auto
  obtain other where other: "other \<in> set sdk_operations" "sdk_name other = operationId x"
      "sdk_method other = op_method x" "sdk_url other = op_path x"
    using sdk_of_manifest(1) [OF x(1)] by blast
  have "sdk_name other = sdk_name op"
  proof (rule ccontr)
    assume ne: "sdk_name other \<noteq> sdk_name op"
    have "clash (sdk_url op) (sdk_url other)" using pathMatches_filled(2) [OF filled(2)] x(4) other(4) by simp
    with ne have "sdk_name op = ''getQuota'' \<and> sdk_name other = ''getQuotaStatus''"
      using only_getQuota_shadowed [OF assms(1) other(1)] x(3,5) other(3,4) by simp
    then have ops: "op = sdk_getQuota" "other = sdk_getQuotaStatus"
      using sdk_unique [OF assms(1), of sdk_getQuota] sdk_unique [OF other(1), of sdk_getQuotaStatus]
      by (simp_all add: sdk_operations_def sdk_getQuota_def sdk_getQuotaStatus_def)
    have "segments filled = [[], ''api'', ''v1'', ''admin'', ''quotas'', ?e]"
      unfolding filled(2) ops by (simp add: segments_def sdk_getQuota_def fill_segment_def is_param_def starts_with_def ends_with_def)
    moreover have "pathMatches ''/api/v1/admin/quotas/status'' filled"
      using x(4) other(4) by (simp add: ops sdk_getQuotaStatus_def)
    ultimately have "?e = ''status''" by (simp add: pathMatches_def segments_def starts_with_def)
    then show False using assms(6) ops by simp
  qed
  then have "other = op" using sdk_unique other(1) assms(1) by blast
  then show ?thesis using req x(2) other by auto
qed

theorem sdk_request_reaches_its_contract_witness:
  "\<exists>req mop. sdk_request (\<lambda>_. []) sdk_getRole (plain [(''role_id'', JStr ''a/b'')]) JUndefined = Inr req \<and>
     requestOperation req = Some mop \<and> operationId mop = ''getRole''"
proof -
  have "sdk_getRole \<in> set sdk_operations" by (simp add: sdk_operations_def)
  moreover have "args_for (sdk_url sdk_getRole) ''a/b'' (plain [(''role_id'', JStr ''a/b'')])"
    by (simp add: args_for_def param_name_def sdk_getRole_def)
  moreover have "querySerializer (\<lambda>_. []) JUndefined = Inr []" by (simp add: querySerializer_def)
  moreover have "encodeURIComponent ''a/b'' = ''a%2Fb''" by code_simp
  moreover have "sdk_getRole \<noteq> sdk_getQuota" by (simp add: sdk_getRole_def sdk_getQuota_def)
  ultimately show ?thesis
    using sdk_request_reaches_its_contract [of sdk_getRole "''a/b''"] by (fastforce simp: sdk_getRole_def)
qed

end
