(* ===== verification/Single_Flight.thy ===== *)
theory Single_Flight
  imports Main
begin

text \<open>
  What the administration pages share: the induction over a run of events, and the contract of a component that
  keeps at most one request in flight. A component promises that it sends nothing while a request is in flight,
  that a request it sends is in flight from then on, and that only a settlement of its own kind ends this; the
  client lemma is that its requests never run ahead of the answers by more than one.
\<close>

lemma foldl_invariant:
  assumes "P s" and "\<And>q e. e \<in> set es \<Longrightarrow> P q \<Longrightarrow> P (f q e)"
  shows "P (foldl f s es)"
  using assms by (induction es arbitrary: s) auto

text \<open>
  The answers of a run: its settlements that found the component busy and left it idle. A settlement of another
  kind and one that settles nothing do not count.
\<close>

fun answered :: "('e \<Rightarrow> 's \<Rightarrow> 's) \<Rightarrow> ('s \<Rightarrow> bool) \<Rightarrow> ('e \<Rightarrow> bool) \<Rightarrow> 'e list \<Rightarrow> 's \<Rightarrow> nat" where
  "answered step busy settles [] s = 0"
| "answered step busy settles (e # es) s =
     of_bool (settles e \<and> busy s \<and> \<not> busy (step e s)) + answered step busy settles es (step e s)"

lemma answered_settlements: "answered step busy settles es s \<le> length (filter settles es)"
proof (induction es arbitrary: s)
  case (Cons e es)
  from Cons.IH [of "step e s"] show ?case by (auto simp: of_bool_def)
qed simp

locale single_flight =
  fixes step :: "'e \<Rightarrow> 's \<Rightarrow> 's"
    and inv :: "'s \<Rightarrow> bool"
    and busy :: "'s \<Rightarrow> bool"
    and requests :: "'s \<Rightarrow> nat"
    and settles :: "'e \<Rightarrow> bool"
  assumes inv_step: "inv s \<Longrightarrow> inv (step e s)"
    and busy_step: "inv s \<Longrightarrow> busy s \<Longrightarrow> \<not> settles e \<Longrightarrow> busy (step e s) \<and> requests (step e s) = requests s"
    and idle_step: "inv s \<Longrightarrow> \<not> busy s \<Longrightarrow> \<not> settles e \<Longrightarrow>
      requests (step e s) \<le> requests s + of_bool (busy (step e s))"
    and settle_step: "inv s \<Longrightarrow> settles e \<Longrightarrow> requests (step e s) = requests s"
begin

definition run_of :: "'e list \<Rightarrow> 's \<Rightarrow> 's" where
  "run_of es s = foldl (\<lambda>q e. step e q) s es"

lemma run_inv: "inv s \<Longrightarrow> inv (run_of es s)"
  unfolding run_of_def by (rule foldl_invariant) (simp_all add: inv_step)

lemma requests_follow_answers:
  "inv s \<Longrightarrow> requests (run_of es s) \<le> requests s + answered step busy settles es s + of_bool (\<not> busy s)"
proof (induction es arbitrary: s)
  case Nil
  show ?case by (simp add: run_of_def)
next
  case (Cons e es)
  let ?t = "step e s"
  have run: "run_of (e # es) s = run_of es ?t" by (simp add: run_of_def)
  have IH: "requests (run_of es ?t) \<le> requests ?t + answered step busy settles es ?t + of_bool (\<not> busy ?t)"
    using Cons.prems by (intro Cons.IH inv_step)
  show ?case
  proof (cases "settles e")
    case True
    then show ?thesis using IH settle_step [OF Cons.prems True]
      by (cases "busy s"; cases "busy ?t") (simp_all add: run)
  next
    case False
    then show ?thesis
      using IH busy_step [OF Cons.prems _ False] idle_step [OF Cons.prems _ False]
      by (cases "busy s"; cases "busy ?t") (auto simp: run)
  qed
qed

end

end
