(* ===== verification/Admin_Forms.thy ===== *)
theory Admin_Forms
  imports Response_Validation Request_Scope Single_Flight
begin

text \<open>
  What the administration pages share: the error key of a failed request (\<open>extractErrorKey\<close> of
  \<open>frontend/src/pages/AdminQuotasPage.tsx\<close> and, with the same text, of \<open>AdminDetectionPage.tsx\<close>), the message
  chosen from an allow-list, the list of toasts, and the banner of a query
  (\<open>frontend/src/components/common/ClientQueryState.tsx\<close>). A message is its translation key.
\<close>

section \<open>Error keys\<close>

definition nonempty_string :: "jsval \<Rightarrow> string option" where
  "nonempty_string v = (case v of JStr s \<Rightarrow> if s = [] then None else Some s | _ \<Rightarrow> None)"

definition dotted_detail :: "jsval \<Rightarrow> string option" where
  "dotted_detail v = (case v of JStr s \<Rightarrow> if starts_with s ''error.'' then Some s else None | _ \<Rightarrow> None)"

lemma size_js_get:
  assumes "js_get e k \<noteq> JUndefined"
  shows "size (js_get e k) < size e"
proof (cases e)
  case (JObj c fs)
  with assms obtain v where v: "map_of fs k = Some v" "js_get e k = v" by (cases "map_of fs k") auto
  then have "(k, v) \<in> set fs" by (simp add: map_of_SomeD)
  then have "size v < size_list (size_prod (\<lambda>_. 0) size) fs + 1" by (induction fs) auto
  with JObj v show ?thesis by simp
qed (use assms in auto)

lemma size_object_get:
  "typeof_object (js_get e k) \<Longrightarrow> size (js_get e k) < size e"
  by (rule size_js_get) auto

function extractErrorKey :: "jsval \<Rightarrow> string option" where
  "extractErrorKey e =
     (if \<not> truthy e \<or> \<not> typeof_object e then None
      else (case nonempty_string (js_get e ''message_key'') of
              Some k \<Rightarrow> Some k
            | None \<Rightarrow>
                (case nonempty_string (js_get e ''error'') of
                   Some k \<Rightarrow> Some k
                 | None \<Rightarrow>
                     (let d = js_get e ''detail'';
                          detailKey =
                            (if \<not> truthy d then None
                             else (case dotted_detail d of
                                     Some k \<Rightarrow> Some k
                                   | None \<Rightarrow> if typeof_object d then extractErrorKey d else None))
                      in case detailKey of
                           Some k \<Rightarrow> Some k
                         | None \<Rightarrow>
                             (let b = js_get e ''body''
                              in if truthy b \<and> typeof_object b then extractErrorKey b else None)))))"
  by pat_completeness auto
termination
  by (relation "measure size") (auto intro: size_object_get)

declare extractErrorKey.simps [simp del]

text \<open>The message of a failure: its key when that is on the page's list, and the page's own key otherwise.\<close>

definition error_message :: "string list \<Rightarrow> jsval \<Rightarrow> string \<Rightarrow> string" where
  "error_message allowed e fallbackKey =
     (case extractErrorKey e of
        Some k \<Rightarrow> if k \<in> set allowed then k else fallbackKey
      | None \<Rightarrow> fallbackKey)"

lemma error_message_listed: "error_message allowed e fallbackKey \<in> insert fallbackKey (set allowed)"
  by (auto simp: error_message_def split: option.splits)

section \<open>Toasts\<close>

datatype toast_type = ToastSuccess | ToastError

record Toast =
  toast_id :: nat
  toast_type :: toast_type
  toast_message :: string

text \<open>The identifiers, made of the time and a random number, are numbered here.\<close>

record toasts =
  toast_list :: "Toast list"
  toast_next :: nat

definition no_toasts :: toasts where
  "no_toasts = \<lparr>toast_list = [], toast_next = 0\<rparr>"

definition addToast :: "toast_type \<Rightarrow> string \<Rightarrow> toasts \<Rightarrow> toasts" where
  "addToast ty message ts =
     \<lparr>toast_list = toast_list ts @ [\<lparr>toast_id = toast_next ts, toast_type = ty, toast_message = message\<rparr>],
      toast_next = toast_next ts + 1\<rparr>"

definition removeToast :: "nat \<Rightarrow> toasts \<Rightarrow> toasts" where
  "removeToast i ts = ts\<lparr>toast_list := filter (\<lambda>toast. toast_id toast \<noteq> i) (toast_list ts)\<rparr>"

section \<open>The banner of a query\<close>

record query_state =
  qs_has_data :: bool
  qs_error :: jsval
  qs_isError :: bool
  qs_isFetching :: bool

datatype query_banner = NoBanner | ErrorBanner string | Refreshing | Partial

definition ClientQueryState ::
    "query_state \<Rightarrow> string \<Rightarrow> (jsval \<Rightarrow> string) option \<Rightarrow> bool \<Rightarrow> query_banner" where
  "ClientQueryState query fallbackErrorKey getOrdinaryErrorMessage isPartial =
     (if qs_isError query
      then
        (let isContractError = isClientContractError (qs_error query);
             isDeadline = isClientDeadlineError (qs_error query);
             messageKey =
               (if isContractError
                then (if qs_has_data query then ''clientContract.invalidRefresh'' else ''clientContract.invalidInitial'')
                else if isDeadline then ''clientContract.requestTimeout''
                else if qs_has_data query then ''clientContract.refreshError''
                else fallbackErrorKey)
         in ErrorBanner
              (case getOrdinaryErrorMessage of
                 Some f \<Rightarrow>
                   (if \<not> isContractError \<and> \<not> isDeadline \<and> \<not> qs_has_data query then f (qs_error query) else messageKey)
               | None \<Rightarrow> messageKey))
      else if qs_has_data query \<and> qs_isFetching query then Refreshing
      else if qs_has_data query \<and> isPartial then Partial
      else NoBanner)"

end
