(* ===== verification/Js_Number.thy ===== *)
theory Js_Number
  imports Js_Prelude "HOL-Library.Log_Nat"
begin

text \<open>
  Numbers and their texts: \<open>Number(s)\<close> as the form handlers call it
  (\<open>frontend/src/pages/AdminQuotasPage.tsx\<close>, \<open>frontend/src/detectionThresholds.ts\<close>), with the rounding of a
  decimal literal to the nearest double, \<open>Number.isSafeInteger\<close>, and what a
  \<open>type="number"\<close> input hands to its change handler. A number is a rational here, so \<open>-0\<close> is \<open>0\<close>; none of the
  comparisons and JSON texts of the sources tells them apart.
\<close>

section \<open>Rounding to a double\<close>

definition round_half_even :: "rat \<Rightarrow> int" where
  "round_half_even x =
     (let n = \<lfloor>x\<rfloor>; d = x - of_int n
      in if d < 1/2 then n else if 1/2 < d then n + 1 else if even n then n else n + 1)"

text \<open>The exponent of the binade of a positive rational.\<close>

definition binade :: "rat \<Rightarrow> int" where
  "binade a =
     (let (p, q) = quotient_of a; e = bitlen p - bitlen q
      in if a < 2 powi e then e - 1 else e)"

definition round_magnitude :: "rat \<Rightarrow> rat" where
  "round_magnitude a =
     (let e = max (binade a - 52) (-1074)
      in of_int (round_half_even (a / 2 powi e)) * 2 powi e)"

definition double_overflow :: rat where
  "double_overflow = 2 ^ 1024"

definition round_double :: "rat \<Rightarrow> jsnum" where
  "round_double x =
     (if x = 0 then Fin 0
      else
        (let v = round_magnitude \<bar>x\<bar>
         in if double_overflow \<le> v then (if 0 < x then PosInf else NegInf)
            else Fin (if 0 < x then v else - v)))"

section \<open>Literals\<close>

definition digit :: "char \<Rightarrow> bool" where
  "digit c = (c \<in> set ''0123456789'')"

text \<open>An optional sign and at least one digit, up to the end.\<close>

definition signed_digits :: "string \<Rightarrow> int option" where
  "signed_digits s =
     (let neg = starts_with s ''-'';
          ds = (if neg \<or> starts_with s ''+'' then tl s else s)
      in if ds \<noteq> [] \<and> list_all digit ds
         then Some (if neg then - int (digits_value ds) else int (digits_value ds)) else None)"

definition exponent_part :: "string \<Rightarrow> int option" where
  "exponent_part s =
     (case s of [] \<Rightarrow> Some 0
      | c # r \<Rightarrow> if c = CHR ''e'' \<or> c = CHR ''E'' then signed_digits r else None)"

text \<open>A decimal literal without a sign: digits, a fraction and an exponent.\<close>

definition decimal_literal :: "string \<Rightarrow> rat option" where
  "decimal_literal s =
     (let ip = takeWhile digit s;
          r = dropWhile digit s;
          dot = starts_with r ''.'';
          fp = (if dot then takeWhile digit (tl r) else []);
          r2 = (if dot then dropWhile digit (tl r) else r)
      in if ip = [] \<and> fp = [] then None
         else map_option (\<lambda>k. of_nat (digits_value (ip @ fp)) * 10 powi (k - int (length fp))) (exponent_part r2))"

definition signed_literal :: "(string \<Rightarrow> 'a option) \<Rightarrow> ('a \<Rightarrow> 'a) \<Rightarrow> string \<Rightarrow> 'a option" where
  "signed_literal lit neg s =
     (if starts_with s ''-'' then map_option neg (lit (tl s))
      else if starts_with s ''+'' then lit (tl s) else lit s)"

definition radix_digit :: "nat \<Rightarrow> char \<Rightarrow> nat option" where
  "radix_digit b c =
     (let n = of_char c :: nat;
          d = (if 48 \<le> n \<and> n \<le> 57 then n - 48
               else if 97 \<le> n \<and> n \<le> 122 then n - 87
               else if 65 \<le> n \<and> n \<le> 90 then n - 55 else b)
      in if d < b then Some d else None)"

fun radix_value :: "nat \<Rightarrow> nat \<Rightarrow> string \<Rightarrow> nat option" where
  "radix_value b acc [] = Some acc"
| "radix_value b acc (c # s) =
     (case radix_digit b c of None \<Rightarrow> None | Some d \<Rightarrow> radix_value b (acc * b + d) s)"

definition radix_literal :: "nat \<Rightarrow> string \<Rightarrow> jsnum" where
  "radix_literal b ds =
     (if ds = [] then NaN
      else case radix_value b 0 ds of None \<Rightarrow> NaN | Some n \<Rightarrow> round_double (of_nat n))"

text \<open>\<open>Number(s)\<close> for a string.\<close>

definition js_Number :: "string \<Rightarrow> jsnum" where
  "js_Number s =
     (let t = js_trim s; p = take 2 t
      in if t = [] then Fin 0
         else if p = ''0x'' \<or> p = ''0X'' then radix_literal 16 (drop 2 t)
         else if p = ''0o'' \<or> p = ''0O'' then radix_literal 8 (drop 2 t)
         else if p = ''0b'' \<or> p = ''0B'' then radix_literal 2 (drop 2 t)
         else if t = ''Infinity'' \<or> t = ''+Infinity'' then PosInf
         else if t = ''-Infinity'' then NegInf
         else (case signed_literal decimal_literal uminus t of
                 None \<Rightarrow> NaN | Some x \<Rightarrow> round_double x))"

definition MAX_SAFE_INTEGER :: int where
  "MAX_SAFE_INTEGER = 2 ^ 53 - 1"

definition isSafeInteger :: "jsnum \<Rightarrow> bool" where
  "isSafeInteger n =
     (case n of Fin r \<Rightarrow> r = of_int \<lfloor>r\<rfloor> \<and> \<bar>r\<bar> \<le> of_int MAX_SAFE_INTEGER | _ \<Rightarrow> False)"

text \<open>
  The value of a \<open>type="number"\<close> input: its text when that is a floating-point number in the sense of HTML
  (no leading plus, digits around the point), and the empty string otherwise.
\<close>

definition html_number :: "string \<Rightarrow> bool" where
  "html_number s =
     (let t = (if starts_with s ''-'' then tl s else s);
          ip = takeWhile digit t;
          r = dropWhile digit t;
          dot = starts_with r ''.'';
          fp = (if dot then takeWhile digit (tl r) else []);
          r2 = (if dot then dropWhile digit (tl r) else r)
      in (ip \<noteq> [] \<or> dot) \<and> (dot \<longrightarrow> fp \<noteq> []) \<and> exponent_part r2 \<noteq> None)"

definition number_input_value :: "string \<Rightarrow> string" where
  "number_input_value typed = (if html_number typed then typed else [])"

section \<open>Integers below \<open>2 ^ 53\<close> are exact\<close>

lemma round_half_even_of_int [simp]: "round_half_even (of_int n) = n"
  by (simp add: round_half_even_def)

lemma binade_of_int:
  assumes "0 < n" and "n < 2 ^ 53"
  shows "binade (of_int n) \<le> 52"
proof -
  have "bitlen n \<le> 53"
    using assms by (simp add: bitlen_le_iff_power)
  moreover have "bitlen (1 :: int) = 1" by (simp add: bitlen_def floorlog_def)
  ultimately show ?thesis by (simp add: binade_def quotient_of_int Let_def)
qed

lemma scaled_int:
  assumes "e \<le> 0"
  shows "(of_int n :: rat) / 2 powi e = of_int (n * 2 ^ nat (- e))"
  using assms by (simp add: power_int_def field_simps)

lemma round_magnitude_of_int:
  assumes "0 < n" and "n < 2 ^ 53"
  shows "round_magnitude (of_int n) = of_int n"
proof -
  define e where "e = max (binade (of_int n) - 52) (-1074)"
  have e: "e \<le> 0" using binade_of_int [OF assms] by (simp add: e_def)
  show ?thesis
    unfolding round_magnitude_def e_def [symmetric] Let_def scaled_int [OF e] round_half_even_of_int
    using e by (simp add: power_int_def field_simps)
qed

lemma below_overflow:
  assumes "n < 2 ^ 53"
  shows "of_int n < double_overflow"
proof -
  from assms have "of_int n < (2 ^ 53 :: rat)" by (metis of_int_less_iff of_int_numeral of_int_power)
  also have "\<dots> \<le> 2 ^ 1024" by (rule power_increasing) simp_all
  finally show ?thesis by (simp add: double_overflow_def)
qed

lemma round_double_of_int:
  assumes "\<bar>n\<bar> \<le> MAX_SAFE_INTEGER"
  shows "round_double (of_int n) = Fin (of_int n)"
proof (cases "n = 0")
  case False
  with assms have "0 < \<bar>n\<bar>" "\<bar>n\<bar> < 2 ^ 53" by (auto simp: MAX_SAFE_INTEGER_def)
  then have "round_magnitude \<bar>of_int n\<bar> = \<bar>of_int n\<bar>" "\<not> double_overflow \<le> \<bar>of_int n\<bar>"
    using round_magnitude_of_int [of "\<bar>n\<bar>"] below_overflow [of "\<bar>n\<bar>"] by simp_all
  with False show ?thesis by (simp add: round_double_def Let_def del: of_int_abs)
qed (simp add: round_double_def)

lemma isSafeInteger_iff:
  "isSafeInteger n \<longleftrightarrow> (\<exists>i. n = Fin (of_int i) \<and> \<bar>i\<bar> \<le> MAX_SAFE_INTEGER)"
proof
  assume "isSafeInteger n"
  then obtain r where r: "n = Fin r" "r = of_int \<lfloor>r\<rfloor>" "\<bar>r\<bar> \<le> of_int MAX_SAFE_INTEGER"
    by (auto simp: isSafeInteger_def split: jsnum.splits)
  have "(of_int \<bar>\<lfloor>r\<rfloor>\<bar> :: rat) \<le> of_int MAX_SAFE_INTEGER" using r(2,3) by (metis of_int_abs)
  then have "\<bar>\<lfloor>r\<rfloor>\<bar> \<le> MAX_SAFE_INTEGER" by (simp only: of_int_le_iff)
  with r show "\<exists>i. n = Fin (of_int i) \<and> \<bar>i\<bar> \<le> MAX_SAFE_INTEGER" by metis
next
  assume "\<exists>i. n = Fin (of_int i) \<and> \<bar>i\<bar> \<le> MAX_SAFE_INTEGER"
  then obtain i where i: "n = Fin (of_int i)" "\<bar>i\<bar> \<le> MAX_SAFE_INTEGER" by blast
  have "(of_int \<bar>i\<bar> :: rat) \<le> of_int MAX_SAFE_INTEGER" using i(2) by (simp only: of_int_le_iff)
  with i(1) show "isSafeInteger n" by (simp add: isSafeInteger_def)
qed

section \<open>Printed naturals are read back\<close>

lemma nat_to_string_all_digits [simp]: "list_all digit (nat_to_string n)"
  using nat_to_string_digits [of n] unfolding list_all_iff digit_def by blast

lemma takeWhile_digits:
  "list_all digit ds \<Longrightarrow> takeWhile digit (ds @ r) = ds @ takeWhile digit r"
  "list_all digit ds \<Longrightarrow> dropWhile digit (ds @ r) = dropWhile digit r"
  by (induction ds) auto

lemma digits_no_space: "list_all digit ds \<Longrightarrow> js_trim ds = ds"
proof -
  have "dropWhile latin1_space xs = xs" if "list_all digit xs" for xs
    using that by (cases xs) (auto simp: latin1_space_def digit_def)
  then show "list_all digit ds \<Longrightarrow> js_trim ds = ds" by (simp add: js_trim_def)
qed

lemma decimal_literal_digits:
  assumes "list_all digit ds" and "ds \<noteq> []"
  shows "decimal_literal ds = Some (of_nat (digits_value ds))"
proof -
  have tw: "takeWhile digit ds = ds" and dw: "dropWhile digit ds = []"
    using takeWhile_digits [OF assms(1), of "[]"] by simp_all
  show ?thesis
    unfolding decimal_literal_def tw dw using assms(2) by (simp add: exponent_part_def starts_with_def)
qed

lemma digits_differ:
  assumes "list_all digit ds" and "c \<in> set p" and "\<not> digit c"
  shows "take n ds \<noteq> p"
  using assms by (auto simp: list_all_iff dest: in_set_takeD)

lemma digits_no_prefix:
  assumes "list_all digit ds" and "c \<in> set p" and "\<not> digit c"
  shows "\<not> starts_with ds p" and "ds \<noteq> p"
  using digits_differ [OF assms] assms by (auto simp: starts_with_def list_all_iff)

lemma js_Number_digits:
  assumes "list_all digit ds" and "ds \<noteq> []"
  shows "js_Number ds = round_double (of_nat (digits_value ds))"
proof -
  have nodigit: "\<not> digit CHR ''x''" "\<not> digit CHR ''X''" "\<not> digit CHR ''o''" "\<not> digit CHR ''O''"
    "\<not> digit CHR ''b''" "\<not> digit CHR ''B''" "\<not> digit CHR ''I''" "\<not> digit CHR ''+''" "\<not> digit CHR ''-''"
    by (simp_all add: digit_def)
  have p: "take 2 ds \<noteq> [a, c]" if "\<not> digit c" for a c
    by (rule digits_differ [OF assms(1) _ that]) simp
  have inf: "ds \<noteq> p" if "CHR ''I'' \<in> set p" for p
    by (rule digits_no_prefix(2) [OF assms(1) that nodigit(7)])
  have sign: "\<not> starts_with ds [c]" if "\<not> digit c" for c
    by (rule digits_no_prefix(1) [OF assms(1) _ that]) simp
  have lit: "signed_literal decimal_literal uminus ds = Some (of_nat (digits_value ds))"
    using sign [OF nodigit(8)] sign [OF nodigit(9)] assms by (simp add: signed_literal_def decimal_literal_digits)
  show ?thesis
    unfolding js_Number_def digits_no_space [OF assms(1)] Let_def lit
    using nodigit(1-6) [THEN p]
      inf [of "''Infinity''"] inf [of "''+Infinity''"] inf [of "''-Infinity''"] assms(2) by simp
qed

lemma js_Number_nat:
  assumes "int n \<le> MAX_SAFE_INTEGER"
  shows "js_Number (nat_to_string n) = Fin (of_nat n)"
  using round_double_of_int [of "int n"] assms by (simp add: js_Number_digits digits_value_nat_to_string)

end
