(* ===== verification/Json_Parse.thy ===== *)
theory Json_Parse
  imports Json_Canonical Js_Number
begin

text \<open>
  \<open>JSON.parse\<close>, which \<open>frontend/src/hooks/useQuotaMutationRecovery.ts\<close> reads its storage with, as a
  recursive-descent reader over the text. \<open>None\<close> is the thrown \<open>SyntaxError\<close>. The fuel is the length of
  the text: every nested call has consumed a character, so more of it changes nothing
  (\<open>parse_value_fuel\<close>). Strings here hold the code units 0 to 255, so an escape for a greater unit has no
  value and is answered with \<open>None\<close>. The main lemma is the round trip with \<open>JSON.stringify\<close>.
\<close>

section \<open>Tokens\<close>

definition json_ws :: "char \<Rightarrow> bool" where
  "json_ws c = (c = CHR '' '' \<or> c = CHR 0x09 \<or> c = CHR 0x0A \<or> c = CHR 0x0D)"

definition skip_ws :: "string \<Rightarrow> string" where
  "skip_ws s = dropWhile json_ws s"

definition hex4 :: "string \<Rightarrow> nat option" where
  "hex4 s = (if length s = 4 then radix_value 16 0 s else None)"

definition simple_escape :: "char \<Rightarrow> char option" where
  "simple_escape c =
     (if c = CHR 0x22 \<or> c = CHR 0x5C \<or> c = CHR ''/'' then Some c
      else if c = CHR ''b'' then Some CHR 0x08
      else if c = CHR ''f'' then Some CHR 0x0C
      else if c = CHR ''n'' then Some CHR 0x0A
      else if c = CHR ''r'' then Some CHR 0x0D
      else if c = CHR ''t'' then Some CHR 0x09
      else None)"

text \<open>The rest of a string after its opening quote: its characters and what follows the closing one.\<close>

fun parse_string :: "string \<Rightarrow> (string \<times> string) option" where
  "parse_string [] = None"
| "parse_string (c # s) =
     (if c = CHR 0x22 then Some ([], s)
      else if of_char c < (32 :: nat) then None
      else if c \<noteq> CHR 0x5C then map_option (apfst ((#) c)) (parse_string s)
      else (case s of
              [] \<Rightarrow> None
            | e # r \<Rightarrow>
                (if e = CHR ''u''
                 then (case r of
                         h1 # h2 # h3 # h4 # r' \<Rightarrow>
                           (case hex4 [h1, h2, h3, h4] of
                              None \<Rightarrow> None
                            | Some n \<Rightarrow>
                                (if n < 256 then map_option (apfst ((#) (char_of n))) (parse_string r') else None))
                       | _ \<Rightarrow> None)
                 else (case simple_escape e of
                         None \<Rightarrow> None
                       | Some d \<Rightarrow> map_option (apfst ((#) d)) (parse_string r)))))"

definition number_char :: "char \<Rightarrow> bool" where
  "number_char c = (digit c \<or> c \<in> set ''+-.eE'')"

text \<open>
  The number grammar of JSON: no plus sign, no leading zeros, digits on both sides of a point. The
  longest run of number characters is taken, since what follows a number must be none of them.
\<close>

definition json_number :: "string \<Rightarrow> jsnum option" where
  "json_number s =
     (let t = (if starts_with s ''-'' then tl s else s);
          ip = takeWhile digit t;
          r = dropWhile digit t;
          fp = takeWhile digit (tl r)
      in if ip = [] \<or> (hd ip = CHR ''0'' \<and> length ip > 1) \<or> (starts_with r ''.'' \<and> fp = []) then None
         else map_option round_double (signed_literal decimal_literal uminus s))"

definition parse_number :: "string \<Rightarrow> (jsval \<times> string) option" where
  "parse_number s =
     (case json_number (takeWhile number_char s) of
        None \<Rightarrow> None
      | Some n \<Rightarrow> Some (JNum n, dropWhile number_char s))"

text \<open>A repeated key takes the last value and keeps its place.\<close>

fun put_field :: "(string \<times> jsval) list \<Rightarrow> string \<Rightarrow> jsval \<Rightarrow> (string \<times> jsval) list" where
  "put_field [] k v = [(k, v)]"
| "put_field (f # fs) k v = (if fst f = k then (k, v) # fs else f # put_field fs k v)"

definition literal :: "string \<Rightarrow> jsval \<Rightarrow> string \<Rightarrow> (jsval \<times> string) option" where
  "literal w v s = (if starts_with s w then Some (v, drop (length w) s) else None)"

definition parse_scalar :: "string \<Rightarrow> (jsval \<times> string) option" where
  "parse_scalar s =
     (case s of
        [] \<Rightarrow> None
      | c # r \<Rightarrow>
          (if c = CHR 0x22 then map_option (apfst JStr) (parse_string r)
           else if c = CHR ''t'' then literal ''true'' (JBool True) s
           else if c = CHR ''f'' then literal ''false'' (JBool False) s
           else if c = CHR ''n'' then literal ''null'' JNull s
           else parse_number s))"

definition next_token :: "string \<Rightarrow> (char \<times> string) option" where
  "next_token s = (case skip_ws s of [] \<Rightarrow> None | c # r \<Rightarrow> Some (c, r))"

text \<open>A quoted key and its colon.\<close>

definition parse_key :: "string \<Rightarrow> (string \<times> string) option" where
  "parse_key s =
     (case next_token s of
        None \<Rightarrow> None
      | Some (q, r) \<Rightarrow>
          (if q \<noteq> CHR 0x22 then None
           else (case parse_string r of
                   None \<Rightarrow> None
                 | Some (k, r1) \<Rightarrow>
                     (case next_token r1 of
                        None \<Rightarrow> None
                      | Some (c, r2) \<Rightarrow> if c = CHR '':'' then Some (k, r2) else None))))"

section \<open>Values\<close>

fun parse_value :: "nat \<Rightarrow> string \<Rightarrow> (jsval \<times> string) option"
  and parse_elems :: "nat \<Rightarrow> jsval list \<Rightarrow> string \<Rightarrow> (jsval \<times> string) option"
  and parse_fields :: "nat \<Rightarrow> (string \<times> jsval) list \<Rightarrow> string \<Rightarrow> (jsval \<times> string) option" where
  "parse_value 0 s = None"
| "parse_value (Suc n) s =
     (case next_token s of
        None \<Rightarrow> None
      | Some (c, r) \<Rightarrow>
          (if c = CHR ''{''
           then (case next_token r of
                   None \<Rightarrow> None
                 | Some (d, r') \<Rightarrow> if d = CHR ''}'' then Some (plain [], r') else parse_fields n [] r)
           else if c = CHR ''[''
           then (case next_token r of
                   None \<Rightarrow> None
                 | Some (d, r') \<Rightarrow> if d = CHR '']'' then Some (JArr [], r') else parse_elems n [] r)
           else parse_scalar (c # r)))"
| "parse_elems 0 acc s = None"
| "parse_elems (Suc n) acc s =
     (case parse_value n s of
        None \<Rightarrow> None
      | Some (v, r) \<Rightarrow>
          (case next_token r of
             None \<Rightarrow> None
           | Some (c, r') \<Rightarrow>
               (if c = CHR '','' then parse_elems n (acc @ [v]) r'
                else if c = CHR '']'' then Some (JArr (acc @ [v]), r') else None)))"
| "parse_fields 0 acc s = None"
| "parse_fields (Suc n) acc s =
     (case parse_key s of
        None \<Rightarrow> None
      | Some (k, r) \<Rightarrow>
          (case parse_value n r of
             None \<Rightarrow> None
           | Some (v, r1) \<Rightarrow>
               (case next_token r1 of
                  None \<Rightarrow> None
                | Some (c, r2) \<Rightarrow>
                    (if c = CHR '','' then parse_fields n (put_field acc k v) r2
                     else if c = CHR ''}'' then Some (plain (put_field acc k v), r2)
                     else None))))"

text \<open>One nested value costs at most two calls for each character of the text.\<close>

definition JSON_parse :: "string \<Rightarrow> jsval option" where
  "JSON_parse s =
     (case parse_value (2 * length s + 1) s of
        None \<Rightarrow> None
      | Some (v, r) \<Rightarrow> if next_token r = None then Some v else None)"

section \<open>The fuel is enough\<close>

lemma next_token_shorter: "next_token s = Some (c, r) \<Longrightarrow> length r < length s"
  using length_dropWhile_le [of json_ws s]
  by (auto simp: next_token_def skip_ws_def split: list.splits)

lemma parse_string_shorter: "parse_string s = Some (w, r) \<Longrightarrow> length r < length s"
  by (induction s arbitrary: w r rule: parse_string.induct)
     (fastforce split: if_splits list.splits option.splits)+

lemma json_number_Nil [simp]: "json_number [] = None"
  by (simp add: json_number_def starts_with_def)

lemma parse_number_shorter: "parse_number s = Some (v, r) \<Longrightarrow> length r < length s"
  by (cases s) (auto simp: parse_number_def length_dropWhile_le less_Suc_eq_le split: option.splits if_splits)

lemma literal_shorter: "literal w v s = Some (x, r) \<Longrightarrow> w \<noteq> [] \<Longrightarrow> length r < length s"
  by (cases s) (auto simp: literal_def starts_with_def split: if_splits)

lemma parse_scalar_shorter: "parse_scalar s = Some (v, r) \<Longrightarrow> length r < length s"
  by (auto simp: parse_scalar_def split: list.splits if_splits
      dest!: parse_string_shorter parse_number_shorter literal_shorter)

lemma parse_key_shorter: "parse_key s = Some (k, r) \<Longrightarrow> length r < length s"
  by (auto simp: parse_key_def split: option.splits if_splits dest!: parse_string_shorter next_token_shorter)

lemmas token_shorter = next_token_shorter parse_scalar_shorter parse_key_shorter

lemma parse_shorter:
  "parse_value n s = Some (v, r) \<Longrightarrow> length r < length s"
  "parse_elems n acc s = Some (v, r) \<Longrightarrow> length r < length s"
  "parse_fields n facc s = Some (v, r) \<Longrightarrow> length r < length s"
proof (induction n s and n acc s and n facc s arbitrary: v r and v r and v r
    rule: parse_value_parse_elems_parse_fields.induct)
  case (2 n s)
  then show ?case
    by (auto split: option.splits if_splits dest!: token_shorter) fastforce+
next
  case (4 n acc s)
  then show ?case
    by (auto split: if_splits option.splits dest!: token_shorter) fastforce+
next
  case (6 n facc s)
  then show ?case
    by (auto split: if_splits option.splits dest!: token_shorter) fastforce+
qed simp_all

text \<open>With the induction on the fuel, the hypotheses hold for all texts short enough.\<close>

lemma parse_fuel:
  "(2 * length s + 1 \<le> n \<longrightarrow> 2 * length s + 1 \<le> m \<longrightarrow> parse_value n s = parse_value m s) \<and>
   (2 * length s + 2 \<le> n \<longrightarrow> 2 * length s + 2 \<le> m \<longrightarrow> parse_elems n acc s = parse_elems m acc s) \<and>
   (2 * length s + 2 \<le> n \<longrightarrow> 2 * length s + 2 \<le> m \<longrightarrow> parse_fields n facc s = parse_fields m facc s)"
proof (induction n arbitrary: m s acc facc)
  case (Suc n)
  show ?case
  proof (cases m)
    case (Suc m')
    have V: "parse_value n t = parse_value m' t" if "2 * length t + 1 \<le> min n m'" for t
      using Suc.IH that by simp
    have E: "parse_elems n acc t = parse_elems m' acc t" if "2 * length t + 2 \<le> min n m'" for acc t
      using Suc.IH that by simp
    have F: "parse_fields n facc t = parse_fields m' facc t" if "2 * length t + 2 \<le> min n m'" for facc t
      using Suc.IH that by simp
    have "parse_value (Suc n) s = parse_value (Suc m') s" if "2 * length s \<le> min n m'"
    proof (cases "next_token s")
      case (Some x)
      obtain c r where "x = (c, r)" by (cases x)
      with Some that next_token_shorter [of s c r] E [of r "[]"] F [of r "[]"]
      show ?thesis by (simp split: option.splits)
    qed simp
    moreover have "parse_elems (Suc n) acc s = parse_elems (Suc m') acc s" if "2 * length s + 1 \<le> min n m'"
    proof (cases "parse_value m' s")
      case (Some x)
      obtain v r where x: "x = (v, r)" by (cases x)
      have "parse_elems n (acc @ [v]) r' = parse_elems m' (acc @ [v]) r'" if "next_token r = Some (c, r')" for c r'
        using E [of r' "acc @ [v]"] next_token_shorter [OF that] parse_shorter(1) [of m' s v r] Some x
          \<open>2 * length s + 1 \<le> min n m'\<close> by simp
      with Some x V [of s] that show ?thesis by (simp split: option.splits)
    qed (use V [of s] that in simp)
    moreover have "parse_fields (Suc n) facc s = parse_fields (Suc m') facc s" if "2 * length s + 1 \<le> min n m'"
    proof (cases "parse_key s")
      case (Some x)
      obtain k t where x: "x = (k, t)" by (cases x)
      have t: "length t < length s" using parse_key_shorter Some x by blast
      have "parse_fields n facc' r' = parse_fields m' facc' r'"
        if "parse_value m' t = Some (v, r)" "next_token r = Some (c, r')" for facc' v r c r'
        using F [of r' facc'] next_token_shorter [OF that(2)] parse_shorter(1) [OF that(1)] t
          \<open>2 * length s + 1 \<le> min n m'\<close> by simp
      with Some x V [of t] t that show ?thesis by (simp split: option.splits)
    qed simp
    ultimately show ?thesis using Suc by (simp del: parse_value.simps parse_elems.simps parse_fields.simps)
  qed simp
qed simp

lemma parse_mono:
  "(parse_value n s = Some x \<longrightarrow> parse_value (n + k) s = Some x) \<and>
   (parse_elems n acc s = Some x \<longrightarrow> parse_elems (n + k) acc s = Some x) \<and>
   (parse_fields n facc s = Some x \<longrightarrow> parse_fields (n + k) facc s = Some x)"
proof (induction n arbitrary: s acc facc x)
  case (Suc n)
  have V: "parse_value (n + k) t = parse_value n t" if "parse_value n t \<noteq> None" for t
    using Suc.IH that by auto
  have E: "parse_elems (n + k) acc t = parse_elems n acc t" if "parse_elems n acc t \<noteq> None" for acc t
    using Suc.IH that by auto
  have F: "parse_fields (n + k) facc t = parse_fields n facc t" if "parse_fields n facc t \<noteq> None" for facc t
    using Suc.IH that by auto
  show ?case
    by (intro conjI impI; auto simp: V E F split: option.split_asm if_split_asm)
qed simp

lemma JSON_parse_any_fuel:
  assumes "parse_value n s = Some (v, r)" and "next_token r = None"
  shows "JSON_parse s = Some v"
proof -
  have "parse_value (2 * length s + 1) s = parse_value (n + (2 * length s + 1)) s"
    using parse_fuel [of s "2 * length s + 1" "n + (2 * length s + 1)"] by simp
  also have "\<dots> = Some (v, r)" using parse_mono assms(1) by blast
  finally show ?thesis using assms(2) by (simp add: JSON_parse_def del: parse_value.simps)
qed

section \<open>Printing and reading back\<close>

lemma radix_hex_digit: "n < 16 \<Longrightarrow> radix_digit 16 (hex_digit n) = Some n"
  by (cases "n < 10") (simp_all add: radix_digit_def hex_digit_def Let_def)

lemma hex4_print:
  assumes "n < 32"
  shows "hex4 [CHR ''0'', CHR ''0'', hex_digit (n div 16), hex_digit (n mod 16)] = Some n"
proof -
  have "radix_digit 16 (hex_digit (n div 16)) = Some (n div 16)" "radix_digit 16 (hex_digit (n mod 16)) = Some (n mod 16)"
    using assms by (simp_all add: radix_hex_digit)
  moreover have "radix_digit 16 CHR ''0'' = Some 0" by (simp add: radix_digit_def)
  ultimately show ?thesis by (simp add: hex4_def)
qed

lemma parse_escape: "parse_string (json_escape c @ t) = map_option (apfst ((#) c)) (parse_string t)"
proof (cases "json_escape c = [c] \<or> c = CHR 0x22 \<or> c = CHR 0x5C \<or> c = CHR 0x08 \<or> c = CHR 0x09 \<or> c = CHR 0x0A \<or>
    c = CHR 0x0C \<or> c = CHR 0x0D")
  case True
  moreover have "of_char c \<ge> (32 :: nat) \<and> c \<noteq> CHR 0x22 \<and> c \<noteq> CHR 0x5C" if "json_escape c = [c]"
    using that by (simp add: json_escape_def not_less split: if_splits)
  ultimately show ?thesis
    by (elim disjE) (simp_all add: json_escape_def simple_escape_def)
next
  case False
  then have lt: "of_char c < (32 :: nat)" by (simp add: json_escape_def split: if_splits)
  with False have "json_escape c = [CHR 0x5C, CHR ''u'', CHR ''0'', CHR ''0'', hex_digit (of_char c div 16), hex_digit (of_char c mod 16)]"
    by (simp add: json_escape_def)
  with lt hex4_print [OF lt] show ?thesis by simp
qed

lemma parse_quoted: "parse_string (concat (map json_escape w) @ CHR 0x22 # t) = Some (w, t)"
  by (induction w) (simp_all add: parse_escape)

text \<open>What is relied on for the text of a number: it is a number of the JSON grammar that reads as itself.\<close>

definition prints_number :: "(rat \<Rightarrow> string) \<Rightarrow> rat \<Rightarrow> bool" where
  "prints_number num r = (json_number (num r) = Some (Fin r) \<and> list_all number_char (num r))"

fun prints_numbers :: "(rat \<Rightarrow> string) \<Rightarrow> jsval \<Rightarrow> bool" where
  "prints_numbers num (JNum n) = (case n of Fin r \<Rightarrow> prints_number num r | _ \<Rightarrow> True)"
| "prints_numbers num (JArr xs) = list_all (\<lambda>x. prints_numbers num x) xs"
| "prints_numbers num (JObj c fs) = list_all (\<lambda>f. prints_numbers num (snd f)) fs"
| "prints_numbers num v = True"

definition delimited :: "string \<Rightarrow> bool" where
  "delimited t = (t = [] \<or> hd t \<in> set '',]}'')"

lemma number_char_not: "number_char c \<Longrightarrow> c \<notin> set ''{[tfn]},'' \<and> c \<noteq> CHR 0x22 \<and> \<not> json_ws c"
  by (auto simp: number_char_def digit_def json_ws_def)

lemma parse_number_print:
  assumes "prints_number num r" and "delimited t"
  shows "parse_number (num r @ t) = Some (JNum (Fin r), t)"
proof -
  have "t \<noteq> [] \<Longrightarrow> \<not> number_char (hd t)"
    using assms(2) number_char_not [of "hd t"] by (auto simp: delimited_def)
  then have "takeWhile number_char (num r @ t) = num r" "dropWhile number_char (num r @ t) = t"
    using assms(1) by (cases t; simp add: prints_number_def list_all_iff takeWhile_append dropWhile_append)+
  with assms(1) show ?thesis by (simp add: parse_number_def prints_number_def)
qed

text \<open>The first character of a printed value.\<close>

lemma json_text_start:
  assumes "json_value v" and "prints_numbers num v"
  shows "\<exists>c t. json_text num v = c # t \<and> \<not> json_ws c \<and> c \<noteq> CHR '']''"
proof (cases v)
  case (JNum n)
  with assms obtain r where r: "n = Fin r" "prints_number num r" by (cases n) auto
  then obtain c t where "num r = c # t" "number_char c"
    by (cases "num r") (auto simp: prints_number_def)
  with JNum r number_char_not [of c] show ?thesis by auto
qed (use assms in \<open>auto simp: json_quote_def json_ws_def\<close>)

lemma next_token_Cons: "\<not> json_ws c \<Longrightarrow> next_token (c # t) = Some (c, t)"
  by (simp add: next_token_def skip_ws_def)

lemma next_token_text:
  assumes "json_value v" and "prints_numbers num v"
  obtains c t where "json_text num v = c # t" "next_token (json_text num v @ s) = Some (c, t @ s)" "c \<noteq> CHR '']''"
  using json_text_start [OF assms] by (metis append_Cons next_token_Cons)

lemma put_field_new: "k \<notin> fst ` set fs \<Longrightarrow> put_field fs k v = fs @ [(k, v)]"
  by (induction fs) auto

lemma parse_key_print: "parse_key (json_quote k @ '':'' @ t) = Some (k, t)"
  by (simp add: parse_key_def json_quote_def next_token_Cons json_ws_def parse_quoted)

definition reads_back :: "(rat \<Rightarrow> string) \<Rightarrow> jsval \<Rightarrow> bool" where
  "reads_back num v = (\<forall>t. delimited t \<longrightarrow> (\<exists>n. parse_value n (json_text num v @ t) = Some (v, t)))"

lemma reads_backE:
  assumes "reads_back num v" and "c \<in> set '',]}''"
  obtains n where "parse_value n (json_text num v @ c # t) = Some (v, c # t)"
proof -
  have "delimited (c # t)" unfolding delimited_def using assms(2) by simp
  then show ?thesis using assms(1) that unfolding reads_back_def by blast
qed

lemma parse_mono_le:
  "parse_value n s = Some x \<Longrightarrow> n \<le> m \<Longrightarrow> parse_value m s = Some x"
  "parse_elems n acc s = Some x \<Longrightarrow> n \<le> m \<Longrightarrow> parse_elems m acc s = Some x"
  "parse_fields n facc s = Some x \<Longrightarrow> n \<le> m \<Longrightarrow> parse_fields m facc s = Some x"
  using parse_mono le_Suc_ex by metis+

lemma parse_elems_step:
  assumes "parse_value n s = Some (v, CHR '','' # t)" and "parse_elems m (acc @ [v]) t = Some x"
  shows "parse_elems (Suc (max n m)) acc s = Some x"
  using parse_mono_le(1) [OF assms(1), of "max n m"] parse_mono_le(2) [OF assms(2), of "max n m"]
  by (simp add: next_token_Cons json_ws_def)

lemma parse_elems_print:
  assumes "xs \<noteq> []" and "\<forall>x \<in> set xs. reads_back num x"
  shows "\<exists>n. parse_elems n acc (join_with '','' (map (json_text num) xs) @ '']'' @ t) = Some (JArr (acc @ xs), t)"
  using assms
proof (induction xs arbitrary: acc)
  case (Cons x xs)
  show ?case
  proof (cases xs)
    case Nil
    obtain n where "parse_value n (json_text num x @ '']'' @ t) = Some (x, '']'' @ t)"
      using reads_backE [of num x "CHR '']''" t] Cons.prems by auto
    then have "parse_elems (Suc n) acc (json_text num x @ '']'' @ t) = Some (JArr (acc @ [x]), t)"
      by (simp add: next_token_Cons json_ws_def)
    then show ?thesis using Nil by (intro exI [of _ "Suc n"]) simp
  next
    case (Cons y ys)
    let ?t = "join_with '','' (map (json_text num) xs) @ '']'' @ t"
    obtain n where "parse_value n (json_text num x @ CHR '','' # ?t) = Some (x, CHR '','' # ?t)"
      using reads_backE [of num x "CHR '',''" ?t] Cons.prems by auto
    moreover obtain m where "parse_elems m (acc @ [x]) ?t = Some (JArr ((acc @ [x]) @ xs), t)"
      using Cons.IH [of "acc @ [x]"] Cons.prems Cons by auto
    ultimately have "parse_elems (Suc (max n m)) acc (json_text num x @ CHR '','' # ?t) = Some (JArr ((acc @ [x]) @ xs), t)"
      by (rule parse_elems_step)
    then show ?thesis using Cons by (intro exI [of _ "Suc (max n m)"]) simp
  qed
qed simp

lemma parse_fields_step:
  assumes "parse_value n s = Some (v, CHR '','' # t)" and "parse_fields m (put_field acc k v) t = Some x"
  shows "parse_fields (Suc (max n m)) acc (json_quote k @ '':'' @ s) = Some x"
  using parse_mono_le(1) [OF assms(1), of "max n m"] parse_mono_le(3) [OF assms(2), of "max n m"]
  unfolding parse_fields.simps parse_key_print by (simp add: next_token_Cons json_ws_def)

abbreviation field_text :: "(rat \<Rightarrow> string) \<Rightarrow> string \<times> jsval \<Rightarrow> string" where
  "field_text num f \<equiv> json_quote (fst f) @ '':'' @ json_text num (snd f)"

lemma parse_fields_print:
  assumes "fs \<noteq> []" and "\<forall>f \<in> set fs. reads_back num (snd f)" and "distinct (map fst (acc @ fs))"
  shows "\<exists>n. parse_fields n acc (join_with '','' (map (field_text num) fs) @ ''}'' @ t) = Some (plain (acc @ fs), t)"
  using assms
proof (induction fs arbitrary: acc)
  case (Cons f fs)
  have put: "put_field acc (fst f) (snd f) = acc @ [f]" using Cons.prems(3) by (simp add: put_field_new)
  show ?case
  proof (cases fs)
    case Nil
    obtain n where "parse_value n (json_text num (snd f) @ ''}'' @ t) = Some (snd f, ''}'' @ t)"
      using reads_backE [of num "snd f" "CHR ''}''" t] Cons.prems by auto
    then have "parse_fields (Suc n) acc (json_quote (fst f) @ '':'' @ json_text num (snd f) @ ''}'' @ t) =
        Some (plain (acc @ [f]), t)"
      unfolding parse_fields.simps parse_key_print using put by (simp add: next_token_Cons json_ws_def)
    then show ?thesis using Nil by (intro exI [of _ "Suc n"]) (simp del: parse_fields.simps)
  next
    case fs: (Cons g gs)
    let ?t = "join_with '','' (map (field_text num) fs) @ ''}'' @ t"
    obtain n where "parse_value n (json_text num (snd f) @ CHR '','' # ?t) = Some (snd f, CHR '','' # ?t)"
      using reads_backE [of num "snd f" "CHR '',''" ?t] Cons.prems by auto
    moreover obtain m where "parse_fields m (put_field acc (fst f) (snd f)) ?t = Some (plain ((acc @ [f]) @ fs), t)"
      using Cons.IH [of "acc @ [f]"] Cons.prems fs put by auto
    ultimately have "parse_fields (Suc (max n m)) acc (json_quote (fst f) @ '':'' @ json_text num (snd f) @ CHR '','' # ?t) =
        Some (plain ((acc @ [f]) @ fs), t)"
      by (rule parse_fields_step)
    then show ?thesis using fs by (intro exI [of _ "Suc (max n m)"]) (simp del: parse_fields.simps)
  qed
qed simp


lemma reads_back_array:
  assumes "\<forall>x \<in> set xs. reads_back num x \<and> json_value x \<and> prints_numbers num x"
  shows "reads_back num (JArr xs)"
proof (unfold reads_back_def, intro allI impI)
  fix t
  have printed: "json_text num (JArr xs) = ''['' @ join_with '','' (map (json_text num) xs) @ '']''"
    using assms by (fastforce intro!: arg_cong [of _ _ "join_with _"])
  show "\<exists>n. parse_value n (json_text num (JArr xs) @ t) = Some (JArr xs, t)"
  proof (cases xs)
    case Nil
    then show ?thesis
      by (intro exI [of _ "Suc 0"]) (simp add: next_token_Cons json_ws_def)
  next
    case (Cons x ys)
    let ?s = "join_with '','' (map (json_text num) xs) @ '']'' @ t"
    obtain n where n: "parse_elems n [] ?s = Some (JArr xs, t)"
      using parse_elems_print [of xs num "[]" t] assms Cons by auto
    obtain c u where "json_text num x = c # u" "\<not> json_ws c" "c \<noteq> CHR '']''"
      using json_text_start [of x num] assms Cons by auto
    then obtain r where "next_token ?s = Some (c, r)" "c \<noteq> CHR '']''"
      using Cons by (cases ys) (auto simp: next_token_Cons)
    with n have "parse_value (Suc n) (''['' @ ?s) = Some (JArr xs, t)"
      by (simp add: next_token_Cons json_ws_def)
    then show ?thesis unfolding printed by (intro exI [of _ "Suc n"]) (simp del: parse_value.simps)
  qed
qed

lemma reads_back_object:
  assumes "\<forall>f \<in> set fs. reads_back num (snd f) \<and> json_value (snd f)" and "distinct (map fst fs)"
  shows "reads_back num (plain fs)"
proof (unfold reads_back_def, intro allI impI)
  fix t
  have "filter (\<lambda>f. snd f \<noteq> JUndefined) fs = fs" using assms(1) by (intro filter_True) auto
  then have printed: "json_text num (plain fs) = ''{'' @ join_with '','' (map (field_text num) fs) @ ''}''" by simp
  show "\<exists>n. parse_value n (json_text num (plain fs) @ t) = Some (plain fs, t)"
  proof (cases fs)
    case Nil
    then show ?thesis
      by (intro exI [of _ "Suc 0"]) (simp add: next_token_Cons json_ws_def)
  next
    case (Cons f gs)
    let ?s = "join_with '','' (map (field_text num) fs) @ ''}'' @ t"
    obtain n where n: "parse_fields n [] ?s = Some (plain fs, t)"
      using parse_fields_print [of fs num "[]" t] assms Cons by auto
    obtain r where "next_token ?s = Some (CHR 0x22, r)"
      using Cons by (cases gs) (auto simp: next_token_Cons json_quote_def json_ws_def)
    with n have "parse_value (Suc n) (''{'' @ ?s) = Some (plain fs, t)"
      by (simp add: next_token_Cons json_ws_def)
    then show ?thesis unfolding printed by (intro exI [of _ "Suc n"]) (simp del: parse_value.simps)
  qed
qed

lemma reads_back_scalar:
  assumes "parse_scalar (json_text num v @ t) = Some (v, t)" and "json_text num v = c # u"
    and "\<not> json_ws c" and "c \<noteq> CHR ''{''" and "c \<noteq> CHR ''[''"
  shows "\<exists>n. parse_value n (json_text num v @ t) = Some (v, t)"
  using assms by (intro exI [of _ "Suc 0"]) (simp add: next_token_Cons)

lemma json_text_reads_back:
  "json_value v \<Longrightarrow> prints_numbers num v \<Longrightarrow> reads_back num v"
proof (induction v)
  case (JNum n)
  then obtain r where r: "n = Fin r" "prints_number num r" by (cases n) auto
  then obtain c u where cu: "num r = c # u" "number_char c"
    by (cases "num r") (auto simp: prints_number_def)
  show ?case unfolding reads_back_def
  proof (intro allI impI)
    fix t assume "delimited t"
    then have "parse_number (num r @ t) = Some (JNum n, t)" using parse_number_print r by blast
    with cu number_char_not [OF cu(2)] r(1) show "\<exists>n'. parse_value n' (json_text num (JNum n) @ t) = Some (JNum n, t)"
      by (intro reads_back_scalar [of _ _ _ c u]) (auto simp: parse_scalar_def)
  qed
next
  case (JArr xs)
  then show ?case by (intro reads_back_array) (auto simp: list_all_iff)
next
  case (JObj c fs)
  have "reads_back num (snd f) \<and> json_value (snd f)" if "f \<in> set fs" for f
  proof -
    have "json_value (snd f)" "prints_numbers num (snd f)" using JObj.prems that by (auto simp: list_all_iff)
    then show ?thesis using JObj.IH [of f "snd f"] that by (cases f) auto
  qed
  with JObj.prems show ?case by (auto intro: reads_back_object)
next
  case (JBool b)
  show ?case unfolding reads_back_def
    by (intro allI impI exI [of _ "Suc 0"])
       (cases b; simp add: next_token_Cons json_ws_def parse_scalar_def literal_def starts_with_def)
next
  case JNull
  show ?case unfolding reads_back_def
    by (intro allI impI exI [of _ "Suc 0"])
       (simp add: next_token_Cons json_ws_def parse_scalar_def literal_def starts_with_def)
next
  case (JStr s)
  show ?case unfolding reads_back_def
    by (intro allI impI exI [of _ "Suc 0"])
       (simp add: next_token_Cons json_ws_def parse_scalar_def json_quote_def parse_quoted)
qed simp

lemma JSON_parse_stringify:
  assumes "json_value v" and "prints_numbers num v"
  shows "JSON_parse (json_text num v) = Some v"
proof -
  obtain n where "parse_value n (json_text num v @ []) = Some (v, [])"
    using json_text_reads_back [OF assms] unfolding reads_back_def delimited_def by blast
  then show ?thesis by (intro JSON_parse_any_fuel [of n _ _ "[]"]) (simp_all add: next_token_def skip_ws_def)
qed

section \<open>Numbers below \<open>2 ^ 53\<close>\<close>

text \<open>\<open>Number.prototype.toString\<close> writes the naturals up to \<open>Number.MAX_SAFE_INTEGER\<close> in decimal.\<close>

definition decimal_printer :: "(rat \<Rightarrow> string) \<Rightarrow> bool" where
  "decimal_printer num \<longleftrightarrow> (\<forall>n. int n \<le> MAX_SAFE_INTEGER \<longrightarrow> num (of_nat n) = nat_to_string n)"

lemma nat_to_string_first: "0 < n \<Longrightarrow> hd (nat_to_string n) \<noteq> CHR ''0''"
proof (induction n rule: nat_to_string.induct)
  case (1 n)
  show ?case
  proof (cases "n < 10")
    case True
    then have c: "of_char (char_of (48 + n) :: char) = 48 + n" using digit_char by blast
    have "(char_of (48 + n) :: char) \<noteq> CHR ''0''"
    proof
      assume "(char_of (48 + n) :: char) = CHR ''0''"
      then have "48 + n = of_char CHR ''0''" using c by simp
      then show False using "1.prems" by simp
    qed
    with True show ?thesis by (simp add: nat_to_string.simps [of n])
  next
    case False
    with "1.IH" show ?thesis by (simp add: nat_to_string.simps [of n])
  qed
qed

lemma json_number_nat:
  assumes "int n \<le> MAX_SAFE_INTEGER"
  shows "json_number (nat_to_string n) = Some (Fin (of_nat n))"
proof -
  let ?ds = "nat_to_string n"
  have tw: "takeWhile digit ?ds = ?ds" and dw: "dropWhile digit ?ds = []"
    using takeWhile_digits [of ?ds "[]"] by simp_all
  have sign: "\<not> starts_with ?ds ''-''" "\<not> starts_with ?ds ''+''"
    using digits_no_prefix(1) [of ?ds "CHR ''-''" "''-''"] digits_no_prefix(1) [of ?ds "CHR ''+''" "''+''"]
    by (simp_all add: digit_def)
  have lead: "\<not> (hd ?ds = CHR ''0'' \<and> length ?ds > 1)"
  proof (cases "n = 0")
    case True
    then show ?thesis by (simp add: nat_to_string.simps)
  next
    case False
    then show ?thesis using nat_to_string_first [of n] by simp
  qed
  have lit: "signed_literal decimal_literal uminus ?ds = Some (of_nat n)"
    using sign by (simp add: signed_literal_def decimal_literal_digits digits_value_nat_to_string)
  have "round_double (of_nat n) = Fin (of_nat n)" using round_double_of_int [of "int n"] assms by simp
  then show ?thesis
    unfolding json_number_def Let_def if_not_P [OF sign(1)] tw dw using lead lit by (simp add: starts_with_def)
qed

lemma prints_number_nat:
  assumes "decimal_printer num" and "0 \<le> i" and "i \<le> MAX_SAFE_INTEGER"
  shows "prints_number num (of_int i)"
proof -
  have "num (of_int i) = nat_to_string (nat i)"
    using assms by (metis decimal_printer_def int_nat_eq of_int_of_nat_eq)
  moreover have "list_all number_char (nat_to_string (nat i))"
    using nat_to_string_all_digits by (auto simp: list_all_iff number_char_def)
  ultimately show ?thesis
    using json_number_nat [of "nat i"] assms(2,3) by (simp add: prints_number_def)
qed

end
