(* ===== verification/Quota_Admin.thy ===== *)
theory Quota_Admin
  imports Admin_Forms Json_Parse Sessions Permissions
begin

text \<open>
  Role quotas: \<open>frontend/src/api/quotas.ts\<close>, \<open>frontend/src/hooks/useAdminQuotas.ts\<close>, the recovery of a change
  whose synchronization is pending (\<open>frontend/src/hooks/useQuotaMutationRecovery.ts\<close>) and the page
  (\<open>frontend/src/pages/AdminQuotasPage.tsx\<close>). An operation is a JavaScript object, since one restored from the
  session storage is whatever object was found there. The JSON text of a number is the argument \<open>num\<close>. The
  page is a state machine over what its user, the server and the browser do; a request that is in flight when
  the page is left stays in flight, and its callbacks still reach the storage.
\<close>

section \<open>Quotas and their API\<close>

record CanonicalRoleQuotaConfig =
  c_role_id :: string
  c_role_name :: string
  c_daily_query_limit :: "int option option"
  c_daily_execution_limit :: "int option option"
  c_daily_export_limit :: "int option option"

record RoleQuotaConfig =
  quota_role_id :: string
  quota_role_name :: string
  daily_query_limit :: "int option"
  daily_execution_limit :: "int option"
  daily_export_limit :: "int option"

definition normalizeRoleQuota :: "CanonicalRoleQuotaConfig \<Rightarrow> RoleQuotaConfig" where
  "normalizeRoleQuota q =
     \<lparr>quota_role_id = c_role_id q, quota_role_name = c_role_name q,
      daily_query_limit = (case c_daily_query_limit q of Some l \<Rightarrow> l | None \<Rightarrow> None),
      daily_execution_limit = (case c_daily_execution_limit q of Some l \<Rightarrow> l | None \<Rightarrow> None),
      daily_export_limit = (case c_daily_export_limit q of Some l \<Rightarrow> l | None \<Rightarrow> None)\<rparr>"

definition isQuotaSynchronizationPending :: "jsval \<Rightarrow> bool" where
  "isQuotaSynchronizationPending e =
     (if \<not> truthy e \<or> \<not> typeof_object e then False
      else if js_get e ''error'' = JStr ''quota_sync_pending'' \<and>
              js_get e ''message_key'' = JStr ''error.quota_sync_pending'' \<and>
              js_get e ''mutation_applied'' = JBool True then True
      else False)"

record QuotaDimensionStatus =
  dim_limit :: "int option"
  dim_remaining :: "int option"
  dim_used :: int

record RoleQuotaStatus =
  status_role_id :: string
  status_role_name :: string
  dimensions :: "(string \<times> QuotaDimensionStatus) list"
  reset_at :: string

record QuotaStatusPage =
  status :: "RoleQuotaStatus list"
  status_total :: int
  status_next_cursor :: "string option"

definition flattenedQuotaStatus :: "QuotaStatusPage InfiniteData option \<Rightarrow> QuotaStatusPage option" where
  "flattenedQuotaStatus pages =
     (case pages of
        None \<Rightarrow> None
      | Some p \<Rightarrow>
          (if data_pages p = [] then None
           else Some \<lparr>status = snd (unique_groups status_role_id (map status (data_pages p)) ({}, [])),
                      status_total = status_total (hd (data_pages p)),
                      status_next_cursor = status_next_cursor (last (data_pages p))\<rparr>))"

section \<open>Recovery\<close>

definition limit_json :: "int option \<Rightarrow> jsval" where
  "limit_json l = (case l of None \<Rightarrow> JNull | Some i \<Rightarrow> jint i)"

definition upsert_operation :: "string \<Rightarrow> int option \<Rightarrow> int option \<Rightarrow> int option \<Rightarrow> jsval" where
  "upsert_operation roleId q e x =
     plain [(''kind'', JStr ''upsert''), (''roleId'', JStr roleId),
            (''data'', plain [(''daily_query_limit'', limit_json q), (''daily_execution_limit'', limit_json e),
                              (''daily_export_limit'', limit_json x)])]"

definition delete_operation :: "string \<Rightarrow> jsval" where
  "delete_operation roleId = plain [(''kind'', JStr ''delete''), (''roleId'', JStr roleId)]"

definition STORAGE_PREFIX :: string where
  "STORAGE_PREFIX = ''querycraft:quota-recovery:v1:''"

definition storageKey :: "string \<Rightarrow> string" where
  "storageKey userId = STORAGE_PREFIX @ userId"

definition isQuotaLimit :: "jsval \<Rightarrow> bool" where
  "isQuotaLimit v =
     (v = JNull \<or>
      (case v of JNum n \<Rightarrow> isSafeInteger n \<and> (case n of Fin r \<Rightarrow> 0 \<le> r | _ \<Rightarrow> False) | _ \<Rightarrow> False))"

definition isUpsertData :: "jsval \<Rightarrow> bool" where
  "isUpsertData v =
     (if \<not> truthy v \<or> \<not> typeof_object v then False
      else isQuotaLimit (js_get v ''daily_query_limit'') \<and> isQuotaLimit (js_get v ''daily_execution_limit'') \<and>
           isQuotaLimit (js_get v ''daily_export_limit''))"

definition isRecoveryOperation :: "jsval \<Rightarrow> bool" where
  "isRecoveryOperation v =
     (if \<not> truthy v \<or> \<not> typeof_object v then False
      else if \<not> typeof_string (js_get v ''roleId'') \<or> \<not> truthy (js_get v ''roleId'') then False
      else if js_get v ''kind'' = JStr ''delete'' then True
      else js_get v ''kind'' = JStr ''upsert'' \<and> isUpsertData (js_get v ''data''))"

text \<open>The session storage: its entries, and whether access to it throws.\<close>

record session_storage =
  entries :: "string \<rightharpoonup> string"
  blocked :: bool

definition readRecovery :: "session_storage \<Rightarrow> string option \<Rightarrow> jsval option" where
  "readRecovery s userId =
     (case userId of
        None \<Rightarrow> None
      | Some uid \<Rightarrow>
          (if uid = [] \<or> blocked s then None
           else (case entries s (storageKey uid) of
                   None \<Rightarrow> None
                 | Some raw \<Rightarrow>
                     (if raw = [] then None
                      else (case JSON_parse raw of
                              None \<Rightarrow> None
                            | Some stored \<Rightarrow>
                                (if js_get stored ''version'' = jint 1 \<and> isRecoveryOperation (js_get stored ''operation'')
                                 then Some (js_get stored ''operation'') else None)))))) "

definition writeRecovery :: "(rat \<Rightarrow> string) \<Rightarrow> string \<Rightarrow> jsval option \<Rightarrow> session_storage \<Rightarrow> session_storage" where
  "writeRecovery num userId operation s =
     (if blocked s then s
      else case operation of
             Some op \<Rightarrow>
               s\<lparr>entries := (entries s)(storageKey userId \<mapsto>
                   json_text num (plain [(''version'', jint 1), (''operation'', op)]))\<rparr>
           | None \<Rightarrow> s\<lparr>entries := (entries s)(storageKey userId := None)\<rparr>)"

text \<open>The hook: the memo of what was restored for the user of this render, and the state set by its callbacks.\<close>

record recovery_hook =
  hook_userId :: "string option"
  restoredOperation :: "jsval option"
  state_userId :: "string option"
  state_operation :: "jsval option"

definition mount_recovery :: "session_storage \<Rightarrow> string option \<Rightarrow> recovery_hook" where
  "mount_recovery s userId =
     (let restored = readRecovery s userId
      in \<lparr>hook_userId = userId, restoredOperation = restored, state_userId = userId, state_operation = restored\<rparr>)"

definition render_recovery :: "session_storage \<Rightarrow> string option \<Rightarrow> recovery_hook \<Rightarrow> recovery_hook" where
  "render_recovery s userId h =
     (if hook_userId h = userId then h
      else h\<lparr>hook_userId := userId, restoredOperation := readRecovery s userId\<rparr>)"

definition hook_operation :: "recovery_hook \<Rightarrow> jsval option" where
  "hook_operation h = (if state_userId h = hook_userId h then state_operation h else restoredOperation h)"

definition write_for :: "(rat \<Rightarrow> string) \<Rightarrow> string option \<Rightarrow> jsval option \<Rightarrow> session_storage \<Rightarrow> session_storage" where
  "write_for num userId op s =
     (case userId of Some uid \<Rightarrow> if uid = [] then s else writeRecovery num uid op s | None \<Rightarrow> s)"

definition set_recovery :: "jsval option \<Rightarrow> recovery_hook \<Rightarrow> recovery_hook" where
  "set_recovery op h = h\<lparr>state_userId := hook_userId h, state_operation := op\<rparr>"

section \<open>The page\<close>

definition QUOTA_ERROR_KEYS :: "string list" where
  "QUOTA_ERROR_KEYS =
     [''error.forbidden'', ''error.unauthorized'', ''error.notFound'', ''error.service_unavailable'',
      ''error.validation.invalidUUID'', ''error.validation.generic'']"

text \<open>\<open>None\<close> is the invalid text, \<open>Some None\<close> no limit.\<close>

definition parseQuotaLimit :: "string \<Rightarrow> int option option" where
  "parseQuotaLimit rawLimit =
     (if rawLimit = [] then Some None
      else
        (let limit = js_Number rawLimit
         in if \<not> isSafeInteger limit then None
            else case limit of
                   Fin r \<Rightarrow> if r < 0 then None else Some (Some \<lfloor>r\<rfloor>)
                 | _ \<Rightarrow> None))"

record quota_page =
  storage :: session_storage
  recovery :: recovery_hook
  mutationInFlight :: bool
  attemptedMutation :: "jsval option"
  editingQuota :: "RoleQuotaConfig option"
  queryLimit :: string
  executionLimit :: string
  exportLimit :: string
  validationError :: "string option"
  page_toasts :: toasts
  in_flight :: "jsval option"
  sent :: "jsval list"
  orphans :: "(string option \<times> jsval) list"

definition open_page :: "session_storage \<Rightarrow> string option \<Rightarrow> quota_page" where
  "open_page s userId =
     \<lparr>storage = s, recovery = mount_recovery s userId, mutationInFlight = False, attemptedMutation = None,
      editingQuota = None, queryLimit = [], executionLimit = [], exportLimit = [], validationError = None,
      page_toasts = no_toasts, in_flight = None, sent = [], orphans = []\<rparr>"

abbreviation recoveryOperation :: "quota_page \<Rightarrow> jsval option" where
  "recoveryOperation p \<equiv> hook_operation (recovery p)"

definition rememberRecovery :: "(rat \<Rightarrow> string) \<Rightarrow> jsval \<Rightarrow> quota_page \<Rightarrow> quota_page" where
  "rememberRecovery num op p =
     p\<lparr>storage := write_for num (hook_userId (recovery p)) (Some op) (storage p),
       recovery := set_recovery (Some op) (recovery p)\<rparr>"

definition clearRecovery :: "(rat \<Rightarrow> string) \<Rightarrow> quota_page \<Rightarrow> quota_page" where
  "clearRecovery num p =
     p\<lparr>storage := write_for num (hook_userId (recovery p)) None (storage p),
       recovery := set_recovery None (recovery p)\<rparr>"

definition toast :: "toast_type \<Rightarrow> string \<Rightarrow> quota_page \<Rightarrow> quota_page" where
  "toast ty message p = p\<lparr>page_toasts := addToast ty message (page_toasts p)\<rparr>"

definition close_editor :: "quota_page \<Rightarrow> quota_page" where
  "close_editor p = p\<lparr>editingQuota := None, validationError := None\<rparr>"

definition onUpsertSuccess :: "(rat \<Rightarrow> string) \<Rightarrow> quota_page \<Rightarrow> quota_page" where
  "onUpsertSuccess num p =
     close_editor (toast ToastSuccess ''common.saveSuccess''
       (clearRecovery num (p\<lparr>mutationInFlight := False, attemptedMutation := None\<rparr>)))"

definition onDeleteSuccess :: "(rat \<Rightarrow> string) \<Rightarrow> quota_page \<Rightarrow> quota_page" where
  "onDeleteSuccess num p =
     toast ToastSuccess ''admin.quotas.deleteSuccess''
       (clearRecovery num (p\<lparr>mutationInFlight := False, attemptedMutation := None\<rparr>))"

definition onUpsertError :: "(rat \<Rightarrow> string) \<Rightarrow> jsval \<Rightarrow> quota_page \<Rightarrow> quota_page" where
  "onUpsertError num e p =
     (let attempted = attemptedMutation p;
          p1 = p\<lparr>mutationInFlight := False, attemptedMutation := None\<rparr>
      in case attempted of
           Some op \<Rightarrow>
             (if isQuotaSynchronizationPending e then close_editor (rememberRecovery num op p1)
              else toast ToastError (error_message QUOTA_ERROR_KEYS e ''admin.settings.error'') p1)
         | None \<Rightarrow> toast ToastError (error_message QUOTA_ERROR_KEYS e ''admin.settings.error'') p1)"

definition onDeleteError :: "(rat \<Rightarrow> string) \<Rightarrow> jsval \<Rightarrow> quota_page \<Rightarrow> quota_page" where
  "onDeleteError num e p =
     (let attempted = attemptedMutation p;
          p1 = p\<lparr>mutationInFlight := False, attemptedMutation := None\<rparr>
      in case attempted of
           Some op \<Rightarrow>
             (if isQuotaSynchronizationPending e then rememberRecovery num op p1
              else toast ToastError (error_message QUOTA_ERROR_KEYS e ''admin.settings.error'') p1)
         | None \<Rightarrow> toast ToastError (error_message QUOTA_ERROR_KEYS e ''admin.settings.error'') p1)"

text \<open>
  A mutation function checks the permission and then sends its request; either way the mutation is pending
  until its callbacks have run.
\<close>

definition mutate_quota :: "bool \<Rightarrow> jsval \<Rightarrow> quota_page \<Rightarrow> quota_page" where
  "mutate_quota canManageQuotas op p =
     (let p1 = p\<lparr>in_flight := Some op\<rparr>
      in case requirePermission canManageQuotas ADMIN_QUOTAS_MANAGE of
           Inl e \<Rightarrow> p1
         | Inr u \<Rightarrow> p1\<lparr>sent := sent p @ [op]\<rparr>)"

definition runQuotaMutation :: "bool \<Rightarrow> jsval \<Rightarrow> quota_page \<Rightarrow> quota_page" where
  "runQuotaMutation canManageQuotas op p =
     (if mutationInFlight p then p
      else mutate_quota canManageQuotas op (p\<lparr>mutationInFlight := True, attemptedMutation := Some op\<rparr>))"

definition limit_text :: "(rat \<Rightarrow> string) \<Rightarrow> int option \<Rightarrow> string" where
  "limit_text num l = (case l of Some i \<Rightarrow> num (of_int i) | None \<Rightarrow> [])"

definition startQuotaEdit :: "(rat \<Rightarrow> string) \<Rightarrow> RoleQuotaConfig \<Rightarrow> quota_page \<Rightarrow> quota_page" where
  "startQuotaEdit num quota p =
     p\<lparr>editingQuota := Some quota,
       queryLimit := limit_text num (daily_query_limit quota),
       executionLimit := limit_text num (daily_execution_limit quota),
       exportLimit := limit_text num (daily_export_limit quota),
       validationError := None\<rparr>"

definition saveQuota :: "bool \<Rightarrow> quota_page \<Rightarrow> quota_page" where
  "saveQuota canManageQuotas p =
     (case editingQuota p of
        None \<Rightarrow> p
      | Some quota \<Rightarrow>
          (if recoveryOperation p \<noteq> None then p
           else (case (parseQuotaLimit (queryLimit p), parseQuotaLimit (executionLimit p), parseQuotaLimit (exportLimit p)) of
                   (Some q, Some e, Some x) \<Rightarrow>
                     runQuotaMutation canManageQuotas (upsert_operation (quota_role_id quota) q e x)
                       (p\<lparr>validationError := None\<rparr>)
                 | _ \<Rightarrow> p\<lparr>validationError := Some ''quota.validation.non_negative_integer''\<rparr>)))"

definition confirmQuotaDelete :: "bool \<Rightarrow> string \<Rightarrow> bool \<Rightarrow> quota_page \<Rightarrow> quota_page" where
  "confirmQuotaDelete canManageQuotas roleId confirmed p =
     (if recoveryOperation p = None \<and> confirmed
      then runQuotaMutation canManageQuotas (delete_operation roleId) p else p)"

definition retryQuotaMutation :: "bool \<Rightarrow> quota_page \<Rightarrow> quota_page" where
  "retryQuotaMutation canManageQuotas p =
     (case recoveryOperation p of Some op \<Rightarrow> runQuotaMutation canManageQuotas op p | None \<Rightarrow> p)"

definition mutationsDisabled :: "quota_page \<Rightarrow> bool" where
  "mutationsDisabled p = (recoveryOperation p \<noteq> None \<or> in_flight p \<noteq> None)"

section \<open>What can happen to it\<close>

datatype quota_event =
    StartEdit RoleQuotaConfig
  | CancelEdit
  | TypeQueryLimit string
  | TypeExecutionLimit string
  | TypeExportLimit string
  | SubmitForm
  | ClickDelete string bool
  | ClickRetry
  | MutationSucceeds
  | MutationFails jsval
  | ToastGone nat
  | UserChanges "string option"
  | Reopen "string option"
  | OrphanSucceeds nat
  | OrphanFails nat jsval

definition is_upsert :: "jsval \<Rightarrow> bool" where
  "is_upsert op = (js_get op ''kind'' = JStr ''upsert'')"

text \<open>The callbacks of a request whose page is gone: only their effect on the storage is left.\<close>

definition drop_orphan :: "nat \<Rightarrow> quota_page \<Rightarrow> quota_page" where
  "drop_orphan i p = p\<lparr>orphans := take i (orphans p) @ drop (Suc i) (orphans p)\<rparr>"

definition orphan_succeeds :: "(rat \<Rightarrow> string) \<Rightarrow> nat \<Rightarrow> quota_page \<Rightarrow> quota_page" where
  "orphan_succeeds num i p =
     (if i < length (orphans p)
      then (drop_orphan i p)\<lparr>storage := write_for num (fst (orphans p ! i)) None (storage p)\<rparr> else p)"

definition orphan_fails :: "(rat \<Rightarrow> string) \<Rightarrow> nat \<Rightarrow> jsval \<Rightarrow> quota_page \<Rightarrow> quota_page" where
  "orphan_fails num i e p =
     (if i < length (orphans p)
      then (drop_orphan i p)\<lparr>storage :=
             (if isQuotaSynchronizationPending e
              then write_for num (fst (orphans p ! i)) (Some (snd (orphans p ! i))) (storage p)
              else storage p)\<rparr>
      else p)"

text \<open>Leaving the page and opening it again, for the user of the moment.\<close>

definition reopen_page :: "string option \<Rightarrow> quota_page \<Rightarrow> quota_page" where
  "reopen_page userId p =
     (open_page (storage p) userId)\<lparr>sent := sent p,
        orphans := orphans p @ (case in_flight p of Some op \<Rightarrow> [(hook_userId (recovery p), op)] | None \<Rightarrow> [])\<rparr>"

fun quota_step :: "(rat \<Rightarrow> string) \<Rightarrow> bool \<Rightarrow> quota_event \<Rightarrow> quota_page \<Rightarrow> quota_page" where
  "quota_step num can (StartEdit q) p = (if mutationsDisabled p then p else startQuotaEdit num q p)"
| "quota_step num can CancelEdit p = close_editor p"
| "quota_step num can (TypeQueryLimit typed) p = p\<lparr>queryLimit := number_input_value typed, validationError := None\<rparr>"
| "quota_step num can (TypeExecutionLimit typed) p = p\<lparr>executionLimit := number_input_value typed, validationError := None\<rparr>"
| "quota_step num can (TypeExportLimit typed) p = p\<lparr>exportLimit := number_input_value typed, validationError := None\<rparr>"
| "quota_step num can SubmitForm p = (if mutationsDisabled p then p else saveQuota can p)"
| "quota_step num can (ClickDelete roleId confirmed) p =
     (if mutationsDisabled p then p else confirmQuotaDelete can roleId confirmed p)"
| "quota_step num can ClickRetry p = (if in_flight p \<noteq> None then p else retryQuotaMutation can p)"
| "quota_step num can MutationSucceeds p =
     (case in_flight p of
        None \<Rightarrow> p
      | Some op \<Rightarrow> (if is_upsert op then onUpsertSuccess num else onDeleteSuccess num) (p\<lparr>in_flight := None\<rparr>))"
| "quota_step num can (MutationFails e) p =
     (case in_flight p of
        None \<Rightarrow> p
      | Some op \<Rightarrow> (if is_upsert op then onUpsertError num e else onDeleteError num e) (p\<lparr>in_flight := None\<rparr>))"
| "quota_step num can (ToastGone i) p = p\<lparr>page_toasts := removeToast i (page_toasts p)\<rparr>"
| "quota_step num can (UserChanges userId) p = p\<lparr>recovery := render_recovery (storage p) userId (recovery p)\<rparr>"
| "quota_step num can (Reopen userId) p = reopen_page userId p"
| "quota_step num can (OrphanSucceeds i) p = orphan_succeeds num i p"
| "quota_step num can (OrphanFails i e) p = orphan_fails num i e p"

definition quota_run :: "(rat \<Rightarrow> string) \<Rightarrow> bool \<Rightarrow> quota_event list \<Rightarrow> quota_page \<Rightarrow> quota_page" where
  "quota_run num can es p = foldl (\<lambda>q e. quota_step num can e q) p es"

section \<open>What the page shows\<close>

definition merged_quotas :: "bool \<Rightarrow> (string \<times> string) list option \<Rightarrow> RoleQuotaConfig list \<Rightarrow> RoleQuotaConfig list" where
  "merged_quotas hasRolesPermission roles quotas =
     (case roles of
        Some rs \<Rightarrow>
          (if hasRolesPermission
           then map (\<lambda>(rid, name).
                  case find_first (\<lambda>item. quota_role_id item = rid) quotas of
                    Some q \<Rightarrow> q
                  | None \<Rightarrow> \<lparr>quota_role_id = rid, quota_role_name = name, daily_query_limit = None,
                            daily_execution_limit = None, daily_export_limit = None\<rparr>) rs
           else quotas)
      | None \<Rightarrow> quotas)"

definition is_configured :: "RoleQuotaConfig list \<Rightarrow> RoleQuotaConfig \<Rightarrow> bool" where
  "is_configured quotas quota = list_ex (\<lambda>configuredQuota. quota_role_id configuredQuota = quota_role_id quota) quotas"

datatype limit_cell = Uncapped | LimitValue int

definition QuotaLimitValue :: "int option \<Rightarrow> limit_cell" where
  "QuotaLimitValue limit = (case limit of None \<Rightarrow> Uncapped | Some i \<Rightarrow> LimitValue i)"

record quota_row =
  row_role :: string
  row_cells :: "limit_cell list"
  row_edit_disabled :: bool
  row_delete :: "bool option"

definition quota_rows :: "quota_page \<Rightarrow> RoleQuotaConfig list \<Rightarrow> RoleQuotaConfig list \<Rightarrow> quota_row list" where
  "quota_rows p quotas merged =
     map (\<lambda>quota. \<lparr>row_role = quota_role_name quota,
                   row_cells = [QuotaLimitValue (daily_query_limit quota), QuotaLimitValue (daily_execution_limit quota),
                                QuotaLimitValue (daily_export_limit quota)],
                   row_edit_disabled = mutationsDisabled p,
                   row_delete = (if is_configured quotas quota then Some (mutationsDisabled p) else None)\<rparr>) merged"

section \<open>Well-formed operations\<close>

lemma isQuotaLimit_json: "(\<forall>i. l = Some i \<longrightarrow> 0 \<le> i \<and> i \<le> MAX_SAFE_INTEGER) \<Longrightarrow> isQuotaLimit (limit_json l)"
  by (cases l) (auto simp: limit_json_def isQuotaLimit_def isSafeInteger_iff)

lemma parseQuotaLimit_range:
  assumes "parseQuotaLimit s = Some (Some i)"
  shows "0 \<le> i \<and> i \<le> MAX_SAFE_INTEGER"
  using assms
  by (auto simp: parseQuotaLimit_def isSafeInteger_iff Let_def split: if_splits jsnum.splits)

lemma upsert_well_formed:
  assumes "r \<noteq> []" and "parseQuotaLimit s1 = Some q" and "parseQuotaLimit s2 = Some e" and "parseQuotaLimit s3 = Some x"
  shows "isRecoveryOperation (upsert_operation r q e x)"
proof -
  have "isQuotaLimit (limit_json q)" "isQuotaLimit (limit_json e)" "isQuotaLimit (limit_json x)"
    using assms parseQuotaLimit_range by (auto intro!: isQuotaLimit_json)
  with assms(1) show ?thesis by (simp add: isRecoveryOperation_def upsert_operation_def isUpsertData_def)
qed

lemma delete_well_formed: "r \<noteq> [] \<Longrightarrow> isRecoveryOperation (delete_operation r)"
  by (simp add: isRecoveryOperation_def delete_operation_def)

lemma readRecovery_well_formed: "readRecovery s u = Some op \<Longrightarrow> isRecoveryOperation op"
  by (auto simp: readRecovery_def split: option.splits if_splits)

lemma operation_simps [simp]:
  "hook_operation (set_recovery op h) = op"
  "hook_operation (mount_recovery s u) = readRecovery s u"
  "hook_userId (set_recovery op h) = hook_userId h"
  "hook_userId (mount_recovery s u) = u"
  "hook_userId (render_recovery s u h) = u"
  by (auto simp: hook_operation_def set_recovery_def mount_recovery_def render_recovery_def Let_def)

abbreviation all_ops :: "(jsval \<Rightarrow> bool) \<Rightarrow> recovery_hook \<Rightarrow> bool" where
  "all_ops P h \<equiv> pred_option P (restoredOperation h) \<and> pred_option P (state_operation h)"

lemma all_ops_operation: "all_ops P h \<Longrightarrow> hook_operation h = Some op \<Longrightarrow> P op"
  by (auto simp: hook_operation_def split: if_splits)

text \<open>A predicate of operations that everything the page holds or has sent satisfies.\<close>

definition page_ops :: "(jsval \<Rightarrow> bool) \<Rightarrow> quota_page \<Rightarrow> bool" where
  "page_ops P p \<longleftrightarrow>
     all_ops P (recovery p) \<and> pred_option P (in_flight p) \<and>
     list_all P (sent p) \<and> list_all (P \<circ> snd) (orphans p) \<and>
     pred_option (\<lambda>q. quota_role_id q \<noteq> []) (editingQuota p) \<and>
     mutationInFlight p = (in_flight p \<noteq> None) \<and> attemptedMutation p = in_flight p"

definition storage_ops :: "(jsval \<Rightarrow> bool) \<Rightarrow> session_storage \<Rightarrow> bool" where
  "storage_ops P s \<longleftrightarrow> (\<forall>u op. readRecovery s u = Some op \<longrightarrow> P op)"

definition page_inv :: "(jsval \<Rightarrow> bool) \<Rightarrow> quota_page \<Rightarrow> bool" where
  "page_inv P p \<longleftrightarrow> page_ops P p \<and> storage_ops P (storage p)"

text \<open>Role identifiers come from the server, which sends no empty one.\<close>

fun event_ok :: "quota_event \<Rightarrow> bool" where
  "event_ok (StartEdit q) = (quota_role_id q \<noteq> [])"
| "event_ok (ClickDelete r confirmed) = (r \<noteq> [])"
| "event_ok e = True"

lemma storageKey_inject [simp]: "storageKey u = storageKey v \<longleftrightarrow> u = v"
  by (simp add: storageKey_def)

lemma readRecovery_None_user [simp]: "readRecovery s None = None"
  by (simp add: readRecovery_def)

lemma readRecovery_write_other:
  "u \<noteq> v \<Longrightarrow> readRecovery (write_for num u op s) v = readRecovery s v"
  by (cases u; cases v; cases op) (auto simp: write_for_def writeRecovery_def readRecovery_def)

lemma readRecovery_cleared:
  "readRecovery (write_for num u None s) u = None"
  by (auto simp: write_for_def writeRecovery_def readRecovery_def split: option.splits)

lemma storage_ops_clear: "storage_ops P s \<Longrightarrow> storage_ops P (write_for num u None s)"
  unfolding storage_ops_def by (metis readRecovery_write_other readRecovery_cleared option.distinct(1))

lemma list_all_drop_nth:
  "list_all Q xs \<Longrightarrow> list_all Q (take i xs @ drop (Suc i) xs)"
  by (auto simp: list_all_iff dest: in_set_takeD in_set_dropD)

lemmas page_defs =
  page_inv_def page_ops_def onUpsertSuccess_def onDeleteSuccess_def onUpsertError_def onDeleteError_def
  clearRecovery_def rememberRecovery_def toast_def close_editor_def Let_def

lemmas hook_defs = set_recovery_def mount_recovery_def render_recovery_def

text \<open>
  What a class of operations has to provide: it contains what the form and the delete button build, and the
  storage hands nothing else back after one of them was written.
\<close>

locale operation_type =
  fixes P :: "jsval \<Rightarrow> bool" and num :: "rat \<Rightarrow> string"
  assumes built_upsert: "\<lbrakk>r \<noteq> []; parseQuotaLimit s1 = Some q; parseQuotaLimit s2 = Some e; parseQuotaLimit s3 = Some x\<rbrakk>
      \<Longrightarrow> P (upsert_operation r q e x)"
    and built_delete: "r \<noteq> [] \<Longrightarrow> P (delete_operation r)"
    and written: "\<lbrakk>P op; storage_ops P s\<rbrakk> \<Longrightarrow> storage_ops P (write_for num u (Some op) s)"
begin

lemma inv_open: "storage_ops P s \<Longrightarrow> page_inv P (open_page s u)"
  by (auto simp: page_inv_def page_ops_def open_page_def mount_recovery_def storage_ops_def Let_def pred_option_def)

lemma inv_mutation:
  assumes "page_inv P p" and "P op"
  shows "page_inv P (runQuotaMutation can op p)"
  using assms
  by (auto simp: page_inv_def page_ops_def runQuotaMutation_def mutate_quota_def requirePermission_def Let_def)

lemma inv_save:
  assumes "page_inv P p"
  shows "page_inv P (saveQuota can p)"
proof -
  have p1: "page_inv P (p\<lparr>validationError := v\<rparr>)" for v using assms by (simp add: page_inv_def page_ops_def)
  show ?thesis
  proof (cases "editingQuota p")
    case (Some quota)
    then have "quota_role_id quota \<noteq> []" using assms by (simp add: page_inv_def page_ops_def)
    then show ?thesis
      using Some assms p1 by (auto simp: saveQuota_def intro!: inv_mutation built_upsert split: option.splits)
  qed (use assms in \<open>simp add: saveQuota_def\<close>)
qed

lemma inv_settled:
  assumes "page_inv P p" and "in_flight p = Some op"
  shows "page_inv P (onUpsertSuccess num (p\<lparr>in_flight := None\<rparr>))"
    and "page_inv P (onDeleteSuccess num (p\<lparr>in_flight := None\<rparr>))"
    and "page_inv P (onUpsertError num err (p\<lparr>in_flight := None\<rparr>))"
    and "page_inv P (onDeleteError num err (p\<lparr>in_flight := None\<rparr>))"
  using assms storage_ops_clear written [of op "storage p" "hook_userId (recovery p)"]
  by (auto simp: page_defs set_recovery_def split: option.splits)

lemma inv_orphans:
  assumes "page_inv P p"
  shows "page_inv P (orphan_succeeds num i p)" and "page_inv P (orphan_fails num i err p)"
proof -
  have "page_inv P (drop_orphan i p)"
    using assms list_all_drop_nth [of "P \<circ> snd" "orphans p" i] by (auto simp: page_inv_def page_ops_def drop_orphan_def)
  moreover have "i < length (orphans p) \<Longrightarrow> P (snd (orphans p ! i))"
    using assms by (simp add: page_inv_def page_ops_def list_all_length)
  ultimately show "page_inv P (orphan_succeeds num i p)" and "page_inv P (orphan_fails num i err p)"
    using assms storage_ops_clear written
    by (auto simp: orphan_succeeds_def orphan_fails_def page_inv_def page_ops_def drop_orphan_def)
qed

lemma inv_step:
  assumes "page_inv P p" and "event_ok ev"
  shows "page_inv P (quota_step num can ev p)"
proof (cases ev)
  case (ClickDelete r c)
  then show ?thesis using assms by (auto simp: confirmQuotaDelete_def intro!: inv_mutation built_delete)
next
  case ClickRetry
  have "P op" if "recoveryOperation p = Some op" for op
    using that assms all_ops_operation by (auto simp: page_inv_def page_ops_def)
  then show ?thesis
    using ClickRetry assms by (auto simp: retryQuotaMutation_def intro!: inv_mutation split: option.splits)
next
  case MutationSucceeds
  then show ?thesis using assms inv_settled [OF assms(1)] by (auto split: option.splits)
next
  case (MutationFails e)
  then show ?thesis using assms inv_settled [OF assms(1)] by (auto split: option.splits)
next
  case (UserChanges u)
  then show ?thesis
    using assms by (auto simp: page_inv_def page_ops_def render_recovery_def storage_ops_def pred_option_def)
next
  case (Reopen u)
  then show ?thesis
    using assms by (auto simp: page_inv_def page_ops_def reopen_page_def open_page_def mount_recovery_def storage_ops_def
        Let_def pred_option_def split: option.splits)
next
  case (StartEdit q)
  then show ?thesis using assms by (auto simp: page_inv_def page_ops_def startQuotaEdit_def)
next
  case SubmitForm
  then show ?thesis using assms inv_save by simp
next
  case (OrphanSucceeds i)
  then show ?thesis using assms inv_orphans by simp
next
  case (OrphanFails i e)
  then show ?thesis using assms inv_orphans by simp
qed (use assms in \<open>auto simp: page_inv_def page_ops_def close_editor_def\<close>)

lemma inv_run:
  assumes "page_inv P p" and "list_all event_ok es"
  shows "page_inv P (quota_run num can es p)"
  using assms by (induction es arbitrary: p) (auto simp: quota_run_def inv_step)

end

interpretation well_formed: operation_type isRecoveryOperation num for num
  by unfold_locales
     (auto simp: storage_ops_def readRecovery_well_formed intro: upsert_well_formed delete_well_formed)

section \<open>Operations the page builds survive the storage\<close>

definition limit_ok :: "int option \<Rightarrow> bool" where
  "limit_ok l = pred_option (\<lambda>i. 0 \<le> i \<and> i \<le> MAX_SAFE_INTEGER) l"

definition built :: "jsval \<Rightarrow> bool" where
  "built op \<longleftrightarrow>
     (\<exists>r q e x. r \<noteq> [] \<and> limit_ok q \<and> limit_ok e \<and> limit_ok x \<and> op = upsert_operation r q e x) \<or>
     (\<exists>r. r \<noteq> [] \<and> op = delete_operation r)"

lemma parsed_limit_ok: "parseQuotaLimit s = Some l \<Longrightarrow> limit_ok l"
  using parseQuotaLimit_range by (cases l) (auto simp: limit_ok_def)

lemma builtI:
  "r \<noteq> [] \<Longrightarrow> limit_ok q \<Longrightarrow> limit_ok e \<Longrightarrow> limit_ok x \<Longrightarrow> built (upsert_operation r q e x)"
  "r \<noteq> [] \<Longrightarrow> built (delete_operation r)"
  unfolding built_def by blast+

lemma limit_json_printed:
  "decimal_printer num \<Longrightarrow> limit_ok l \<Longrightarrow> json_value (limit_json l) \<and> prints_numbers num (limit_json l)"
  by (cases l) (auto simp: limit_json_def limit_ok_def prints_number_nat)

lemma built_printed:
  assumes "decimal_printer num" and "built op"
  shows "json_value op \<and> prints_numbers num op"
  using assms limit_json_printed [OF assms(1)]
  by (auto simp: built_def upsert_operation_def delete_operation_def)

lemma built_well_formed: "built op \<Longrightarrow> isRecoveryOperation op"
  by (auto simp: built_def isRecoveryOperation_def upsert_operation_def delete_operation_def isUpsertData_def limit_ok_def
      pred_option_def intro!: isQuotaLimit_json)

lemma readRecovery_written:
  assumes "decimal_printer num" and "built op" and "u \<noteq> []" and "\<not> blocked s"
  shows "readRecovery (write_for num (Some u) (Some op) s) (Some u) = Some op"
proof -
  let ?v = "plain [(''version'', jint 1), (''operation'', op)]"
  have "prints_number num (of_int 1)" using assms(1) by (rule prints_number_nat) (simp_all add: MAX_SAFE_INTEGER_def)
  then have "json_value ?v" "prints_numbers num ?v" using built_printed [OF assms(1,2)] by simp_all
  then have "JSON_parse (json_text num ?v) = Some ?v" by (rule JSON_parse_stringify)
  moreover have "json_text num ?v \<noteq> []" by simp
  ultimately show ?thesis
    using assms(3,4) built_well_formed [OF assms(2)]
    by (simp add: readRecovery_def write_for_def writeRecovery_def del: json_text.simps)
qed

lemma readRecovery_unwritable:
  "blocked s \<or> u = None \<or> u = Some [] \<Longrightarrow> readRecovery (write_for num u op s) u = None"
  by (auto simp: readRecovery_def write_for_def writeRecovery_def split: option.splits)

interpretation built: operation_type "\<lambda>op. decimal_printer num \<longrightarrow> built op" num for num
proof unfold_locales
  show "storage_ops (\<lambda>op. decimal_printer num \<longrightarrow> built op) (write_for num u (Some op) s)"
    if op: "decimal_printer num \<longrightarrow> built op" and s: "storage_ops (\<lambda>op. decimal_printer num \<longrightarrow> built op) s" for op s u
  proof (unfold storage_ops_def, intro allI impI)
    fix v op'
    assume r: "readRecovery (write_for num u (Some op) s) v = Some op'" and num: "decimal_printer num"
    show "built op'"
    proof (cases "u = v")
      case True
      with r have w: "\<not> blocked s" "u \<noteq> None" "u \<noteq> Some []"
        using readRecovery_unwritable [of s u num "Some op"] by force+
      then obtain u' where "u = Some u'" "u' \<noteq> []" by auto
      then show ?thesis using r True readRecovery_written [OF num, of op u' s] op num w by auto
    next
      case False
      then show ?thesis using r s num readRecovery_write_other [OF False] by (auto simp: storage_ops_def)
    qed
  qed
qed (auto intro: builtI parsed_limit_ok)

text \<open>
  The runs in which the page is never left while a request is in flight, and in which somebody is signed in:
  their states, by the rules of the state machine.
\<close>

fun calm_event :: "quota_event \<Rightarrow> quota_page \<Rightarrow> bool" where
  "calm_event (Reopen u) p = (in_flight p = None \<and> u \<noteq> None \<and> u \<noteq> Some [])"
| "calm_event (UserChanges u) p = (u \<noteq> None \<and> u \<noteq> Some [])"
| "calm_event ev p = event_ok ev"

inductive calm :: "(rat \<Rightarrow> string) \<Rightarrow> bool \<Rightarrow> session_storage \<Rightarrow> quota_page \<Rightarrow> bool" for num can s where
  calm_open: "u \<noteq> [] \<Longrightarrow> calm num can s (open_page s (Some u))"
| calm_step: "calm num can s p \<Longrightarrow> calm_event ev p \<Longrightarrow> calm num can s (quota_step num can ev p)"

text \<open>The state of the hook agrees with the storage, for the user of the moment and for the one it was set for.\<close>

definition in_step :: "quota_page \<Rightarrow> bool" where
  "in_step p \<longleftrightarrow>
     hook_userId (recovery p) \<noteq> None \<and> hook_userId (recovery p) \<noteq> Some [] \<and> \<not> blocked (storage p) \<and> orphans p = [] \<and>
     recoveryOperation p = readRecovery (storage p) (hook_userId (recovery p)) \<and>
     (state_userId (recovery p) \<noteq> hook_userId (recovery p) \<longrightarrow>
        state_operation (recovery p) = readRecovery (storage p) (state_userId (recovery p)))"

lemma in_step_cong:
  "storage p' = storage p \<Longrightarrow> recovery p' = recovery p \<Longrightarrow> orphans p' = orphans p \<Longrightarrow> in_step p' = in_step p"
  by (simp add: in_step_def)

lemma write_for_blocked [simp]: "blocked (write_for num u op s) = blocked s"
  by (auto simp: write_for_def writeRecovery_def split: option.splits)

lemma in_step_written:
  assumes "in_step p" and "decimal_printer num" and "pred_option built op"
  shows "in_step (p\<lparr>storage := write_for num (hook_userId (recovery p)) op (storage p),
                    recovery := set_recovery op (recovery p)\<rparr>)"
proof -
  from assms(1) obtain u where u: "hook_userId (recovery p) = Some u" "u \<noteq> []" "\<not> blocked (storage p)"
    by (auto simp: in_step_def)
  have "readRecovery (write_for num (Some u) op (storage p)) (Some u) = op"
    using assms(2,3) u readRecovery_cleared readRecovery_written [OF assms(2)] by (cases op) auto
  with assms(1) u show ?thesis by (simp add: in_step_def) (simp add: set_recovery_def)
qed

lemma in_step_settled:
  assumes "in_step p" and "decimal_printer num" and "page_inv (\<lambda>op. decimal_printer num \<longrightarrow> built op) p"
  shows "in_step (onUpsertSuccess num (p\<lparr>in_flight := None\<rparr>))"
    and "in_step (onDeleteSuccess num (p\<lparr>in_flight := None\<rparr>))"
    and "in_step (onUpsertError num e (p\<lparr>in_flight := None\<rparr>))"
    and "in_step (onDeleteError num e (p\<lparr>in_flight := None\<rparr>))"
proof -
  have built: "pred_option built (attemptedMutation p)"
    using assms(2,3) by (auto simp: page_inv_def page_ops_def)
  note w = in_step_written [OF assms(1,2)]
  have "in_step (p\<lparr>storage := write_for num (hook_userId (recovery p)) None (storage p),
      recovery := set_recovery None (recovery p)\<rparr>)" using w [of None] by simp
  then show "in_step (onUpsertSuccess num (p\<lparr>in_flight := None\<rparr>))" "in_step (onDeleteSuccess num (p\<lparr>in_flight := None\<rparr>))"
    by (simp_all add: in_step_def onUpsertSuccess_def onDeleteSuccess_def clearRecovery_def toast_def close_editor_def)
  have "in_step (p\<lparr>storage := write_for num (hook_userId (recovery p)) (Some op) (storage p),
      recovery := set_recovery (Some op) (recovery p)\<rparr>)" if "attemptedMutation p = Some op" for op
    using w [of "Some op"] built that by simp
  then show "in_step (onUpsertError num e (p\<lparr>in_flight := None\<rparr>))" "in_step (onDeleteError num e (p\<lparr>in_flight := None\<rparr>))"
    using assms(1)
    by (auto simp: in_step_def onUpsertError_def onDeleteError_def rememberRecovery_def toast_def close_editor_def Let_def
        split: option.splits)
qed

lemma run_mutation_keeps [simp]:
  "storage (runQuotaMutation can op p) = storage p" "recovery (runQuotaMutation can op p) = recovery p"
  "orphans (runQuotaMutation can op p) = orphans p"
  by (auto simp: runQuotaMutation_def mutate_quota_def Let_def split: sum.splits)

lemma in_step_keep:
  assumes "in_step p"
  shows "in_step (saveQuota can p)" and "in_step (confirmQuotaDelete can r c p)" and "in_step (retryQuotaMutation can p)"
    and "in_step (startQuotaEdit num q p)" and "in_step (close_editor p)"
  using assms
  by (auto simp: in_step_def saveQuota_def confirmQuotaDelete_def retryQuotaMutation_def startQuotaEdit_def close_editor_def
      split: option.splits)

lemma in_step_render:
  assumes "in_step p" and "u \<noteq> None" and "u \<noteq> Some []"
  shows "in_step (p\<lparr>recovery := render_recovery (storage p) u (recovery p)\<rparr>)"
  using assms by (auto simp: in_step_def render_recovery_def hook_operation_def split: if_splits)

lemma in_step_reopen:
  assumes "in_step p" and "u \<noteq> None" and "u \<noteq> Some []" and "in_flight p = None"
  shows "in_step (reopen_page u p)"
  using assms by (auto simp: in_step_def reopen_page_def open_page_def) (auto simp: mount_recovery_def Let_def)

lemma in_step_step:
  assumes "in_step p" and "decimal_printer num" and "page_inv (\<lambda>op. decimal_printer num \<longrightarrow> built op) p"
    and "calm_event ev p"
  shows "in_step (quota_step num can ev p)"
proof (cases ev)
  case (Reopen u)
  then show ?thesis using assms in_step_reopen by simp
next
  case (UserChanges u)
  then show ?thesis using assms in_step_render by simp
next
  case MutationSucceeds
  then show ?thesis using assms in_step_settled [OF assms(1-3)] by (auto split: option.splits)
next
  case (MutationFails e)
  then show ?thesis using assms in_step_settled [OF assms(1-3)] by (auto split: option.splits)
next
  case (OrphanSucceeds i)
  then show ?thesis using assms by (simp add: orphan_succeeds_def in_step_def)
next
  case (OrphanFails i e)
  then show ?thesis using assms by (simp add: orphan_fails_def in_step_def)
qed (use assms in_step_keep in_step_cong in \<open>auto simp: in_step_def\<close>)

lemma calm_event_ok: "calm_event ev p \<Longrightarrow> event_ok ev"
  by (cases ev) auto

lemma calm_inv:
  assumes "calm num can s p" and "decimal_printer num" and "\<not> blocked s" and "storage_ops built s"
  shows "page_inv (\<lambda>op. decimal_printer num \<longrightarrow> built op) p \<and> in_step p"
  using assms(1)
proof (induction rule: calm.induct)
  case (calm_open u)
  have "page_inv (\<lambda>op. decimal_printer num \<longrightarrow> built op) (open_page s (Some u))"
    using assms(4) by (intro built.inv_open) (auto simp: storage_ops_def)
  with calm_open assms(3) show ?case by (simp add: in_step_def open_page_def) (simp add: mount_recovery_def Let_def)
next
  case (calm_step p ev)
  then show ?case
    using built.inv_step [of num p ev can] calm_event_ok in_step_step [OF _ assms(2), of p ev can] by blast
qed

section \<open>Properties\<close>

lemma isQuotaLimit_cases:
  assumes "isQuotaLimit v"
  shows "v = JNull \<or> (\<exists>n. v = jint (int n) \<and> int n \<le> MAX_SAFE_INTEGER)"
proof (cases v)
  case (JNum m)
  with assms obtain i where i: "m = Fin (of_int i)" "\<bar>i\<bar> \<le> MAX_SAFE_INTEGER" "0 \<le> (of_int i :: rat)"
    by (auto simp: isQuotaLimit_def isSafeInteger_iff)
  then have "v = jint (int (nat i))" "int (nat i) \<le> MAX_SAFE_INTEGER" using JNum by simp_all
  then show ?thesis by blast
qed (use assms in \<open>auto simp: isQuotaLimit_def\<close>)

lemma isRecoveryOperation_cases:
  assumes "isRecoveryOperation op"
  shows "\<exists>r. r \<noteq> [] \<and> js_get op ''roleId'' = JStr r \<and>
    (js_get op ''kind'' = JStr ''delete'' \<or>
     js_get op ''kind'' = JStr ''upsert'' \<and>
     list_all (\<lambda>k. js_get (js_get op ''data'') k = JNull \<or>
         (\<exists>n. js_get (js_get op ''data'') k = jint (int n) \<and> int n \<le> MAX_SAFE_INTEGER))
       [''daily_query_limit'', ''daily_execution_limit'', ''daily_export_limit''])"
proof -
  from assms obtain r where "js_get op ''roleId'' = JStr r" "r \<noteq> []"
    by (cases "js_get op ''roleId''") (auto simp: isRecoveryOperation_def split: if_splits)
  moreover have "js_get op ''kind'' = JStr ''delete'' \<or> js_get op ''kind'' = JStr ''upsert'' \<and> isUpsertData (js_get op ''data'')"
    using assms by (auto simp: isRecoveryOperation_def split: if_splits)
  ultimately show ?thesis
    using isQuotaLimit_cases by (auto simp: isUpsertData_def split: if_splits)
qed

text \<open>
  C23. Whatever the session storage holds, whatever is typed and in whatever order things happen, every quota
  request the page sends names a role and is a deletion or an update whose three limits are absent or integers
  from zero to \<open>Number.MAX_SAFE_INTEGER\<close>.
\<close>

theorem quota_requests_are_well_formed:
  assumes "list_all event_ok es" and "op \<in> set (sent (quota_run num can es (open_page s u)))"
  shows "\<exists>r. r \<noteq> [] \<and> js_get op ''roleId'' = JStr r \<and>
    (js_get op ''kind'' = JStr ''delete'' \<or>
     js_get op ''kind'' = JStr ''upsert'' \<and>
     list_all (\<lambda>k. js_get (js_get op ''data'') k = JNull \<or>
         (\<exists>n. js_get (js_get op ''data'') k = jint (int n) \<and> int n \<le> MAX_SAFE_INTEGER))
       [''daily_query_limit'', ''daily_execution_limit'', ''daily_export_limit''])"
proof -
  have "page_inv isRecoveryOperation (quota_run num can es (open_page s u))"
    by (intro well_formed.inv_run well_formed.inv_open assms(1)) (auto simp: storage_ops_def readRecovery_well_formed)
  with assms(2) have "isRecoveryOperation op" by (auto simp: page_inv_def page_ops_def list_all_iff)
  then show ?thesis by (rule isRecoveryOperation_cases)
qed

definition sample_quota :: RoleQuotaConfig where
  "sample_quota = \<lparr>quota_role_id = ''r'', quota_role_name = ''analyst'', daily_query_limit = None,
     daily_execution_limit = None, daily_export_limit = None\<rparr>"

definition no_storage :: session_storage where
  "no_storage = \<lparr>entries = (\<lambda>_. None), blocked = False\<rparr>"

lemma readRecovery_no_storage [simp]: "readRecovery no_storage u = None"
  by (auto simp: readRecovery_def no_storage_def split: option.splits)

lemmas sample_run =
  quota_run_def open_page_def sample_quota_def mutationsDisabled_def startQuotaEdit_def saveQuota_def limit_text_def
  parseQuotaLimit_def runQuotaMutation_def mutate_quota_def requirePermission_def

theorem quota_requests_are_well_formed_witness:
  "\<exists>r. r \<noteq> [] \<and> js_get (upsert_operation ''r'' None None None) ''roleId'' = JStr r"
proof -
  have "list_all event_ok [StartEdit sample_quota, SubmitForm]" by (simp add: sample_quota_def)
  moreover have "upsert_operation ''r'' None None None \<in>
      set (sent (quota_run (\<lambda>_. []) True [StartEdit sample_quota, SubmitForm] (open_page no_storage (Some ''u''))))"
    by (simp add: sample_run)
  ultimately show ?thesis using quota_requests_are_well_formed by blast
qed

text \<open>
  A step of the page sends at most one request, only with the permission, never while one of its requests
  is in flight, and while a change is waiting for its synchronization nothing but that very change again.
\<close>

lemma pending_recovery_blocks_other_changes:
  assumes "list_all event_ok es" and "p = quota_run num can es (open_page s u)"
    and "sent (quota_step num can ev p) \<noteq> sent p"
  shows "\<exists>op. sent (quota_step num can ev p) = sent p @ [op] \<and> can \<and> in_flight p = None \<and>
    (recoveryOperation p = None \<or> recoveryOperation p = Some op)"
proof -
  have "page_inv isRecoveryOperation p"
    unfolding assms(2) by (intro well_formed.inv_run well_formed.inv_open assms(1)) (auto simp: storage_ops_def readRecovery_well_formed)
  then have busy: "mutationInFlight p = (in_flight p \<noteq> None)" by (simp add: page_inv_def page_ops_def)
  show ?thesis
  proof (cases ev)
    case (MutationSucceeds)
    then show ?thesis using assms(3)
      by (auto simp: onUpsertSuccess_def onDeleteSuccess_def clearRecovery_def toast_def close_editor_def
          split: option.splits if_splits)
  next
    case (MutationFails e)
    then show ?thesis using assms(3)
      by (auto simp: onUpsertError_def onDeleteError_def rememberRecovery_def toast_def close_editor_def Let_def
          split: option.splits if_splits)
  qed (use assms(3) busy in \<open>auto simp: startQuotaEdit_def close_editor_def saveQuota_def confirmQuotaDelete_def
      retryQuotaMutation_def runQuotaMutation_def mutate_quota_def requirePermission_def mutationsDisabled_def
      reopen_page_def open_page_def orphan_succeeds_def orphan_fails_def drop_orphan_def Let_def
      split: option.splits if_splits\<close>)
qed

text \<open>
  C24. In the calm runs, those in which somebody is signed in throughout and the page is never left while a request is
  in flight, over a session storage that can be written and that holds no recovery record but those the page
  itself writes: what the page takes for the pending change of its user is what the session storage holds for
  that user, through changes of the user and reloads; and a change the server applied without synchronizing it
  is held until then, also over a reload, exactly as it was sent. Leaving the page with a request in flight
  can break this, as the last property of this theory shows.
\<close>

theorem pending_change_survives_reload:
  assumes "calm num can s p" and "decimal_printer num" and "\<not> blocked s" and "storage_ops built s"
  shows "recoveryOperation p = readRecovery (storage p) (hook_userId (recovery p)) \<and>
    (\<forall>op e. in_flight p = Some op \<longrightarrow> isQuotaSynchronizationPending e \<longrightarrow>
       recoveryOperation (quota_step num can (MutationFails e) p) = Some op \<and>
       recoveryOperation (quota_step num can (Reopen (hook_userId (recovery p)))
         (quota_step num can (MutationFails e) p)) = Some op)"
proof -
  note inv = calm_inv [OF assms]
  have held: "recoveryOperation (quota_step num can (MutationFails e) p) = Some op \<and>
      recovery (quota_step num can (MutationFails e) p) = set_recovery (Some op) (recovery p)"
    if "in_flight p = Some op" "isQuotaSynchronizationPending e" for op e
    using that inv
    by (auto simp: page_inv_def page_ops_def onUpsertError_def onDeleteError_def rememberRecovery_def close_editor_def Let_def)
  moreover have "recoveryOperation (quota_step num can (Reopen (hook_userId (recovery p)))
      (quota_step num can (MutationFails e) p)) = Some op"
    if op: "in_flight p = Some op" "isQuotaSynchronizationPending e" for op e
  proof -
    let ?p = "quota_step num can (MutationFails e) p"
    have "in_step ?p" using inv assms(2) by (intro in_step_step) auto
    then have "readRecovery (storage ?p) (hook_userId (recovery p)) = Some op"
      using held [OF op] by (simp add: in_step_def)
    then show ?thesis by (simp add: reopen_page_def open_page_def del: quota_step.simps(10))
  qed
  ultimately show ?thesis using inv by (auto simp: in_step_def)
qed

definition decimal_num :: "rat \<Rightarrow> string" where
  "decimal_num r = nat_to_string (nat \<lfloor>r\<rfloor>)"

definition sync_pending :: jsval where
  "sync_pending = plain [(''error'', JStr ''quota_sync_pending''), (''message_key'', JStr ''error.quota_sync_pending''),
     (''mutation_applied'', JBool True)]"

lemma sync_pending_is_pending: "isQuotaSynchronizationPending sync_pending"
  by (simp add: isQuotaSynchronizationPending_def sync_pending_def)

theorem pending_change_survives_reload_witness:
  "recoveryOperation (quota_step decimal_num True (Reopen (Some ''u''))
     (quota_step decimal_num True (MutationFails sync_pending)
       (quota_run decimal_num True [StartEdit sample_quota, SubmitForm] (open_page no_storage (Some ''u''))))) =
   Some (upsert_operation ''r'' None None None)"
proof -
  let ?p = "quota_run decimal_num True [StartEdit sample_quota, SubmitForm] (open_page no_storage (Some ''u''))"
  have "calm decimal_num True no_storage (quota_step decimal_num True SubmitForm
      (quota_step decimal_num True (StartEdit sample_quota) (open_page no_storage (Some ''u''))))"
    by (intro calm.intros) (simp_all add: sample_quota_def)
  then have "calm decimal_num True no_storage ?p" by (simp add: quota_run_def)
  moreover have "decimal_printer decimal_num" by (simp add: decimal_printer_def decimal_num_def)
  moreover have "\<not> blocked no_storage" by (simp add: no_storage_def)
  moreover have "storage_ops built no_storage" by (simp add: storage_ops_def)
  ultimately have survives: "\<forall>op e. in_flight ?p = Some op \<longrightarrow> isQuotaSynchronizationPending e \<longrightarrow>
      recoveryOperation (quota_step decimal_num True (Reopen (hook_userId (recovery ?p)))
        (quota_step decimal_num True (MutationFails e) ?p)) = Some op"
    using pending_change_survives_reload by blast
  have p: "in_flight ?p = Some (upsert_operation ''r'' None None None)" "hook_userId (recovery ?p) = Some ''u''"
    by (simp_all add: sample_run)
  from survives [rule_format, OF p(1) sync_pending_is_pending] show ?thesis unfolding p(2) .
qed

text \<open>
  C25. Opening a quota and saving it unchanged sends its own limits; a limit field whose text is not a number, which
  the browser reports as empty, is saved as no limit at all.
\<close>

theorem saved_limits:
  assumes "\<not> mutationsDisabled p" and "\<not> mutationInFlight p"
  shows "(decimal_printer num \<and> limit_ok (daily_query_limit q) \<and> limit_ok (daily_execution_limit q) \<and>
       limit_ok (daily_export_limit q) \<longrightarrow>
     sent (quota_step num True SubmitForm (quota_step num True (StartEdit q) p)) =
       sent p @ [upsert_operation (quota_role_id q) (daily_query_limit q) (daily_execution_limit q) (daily_export_limit q)]) \<and>
   (editingQuota p = Some q \<and> \<not> html_number typed \<and> parseQuotaLimit (executionLimit p) = Some e \<and>
       parseQuotaLimit (exportLimit p) = Some x \<longrightarrow>
     sent (quota_step num True SubmitForm (quota_step num True (TypeQueryLimit typed) p)) =
       sent p @ [upsert_operation (quota_role_id q) None e x])"
proof -
  have parse: "parseQuotaLimit (limit_text num l) = Some l" if "decimal_printer num" "limit_ok l" for l
  proof (cases l)
    case (Some i)
    with that have i: "0 \<le> i" "i \<le> MAX_SAFE_INTEGER" by (auto simp: limit_ok_def)
    then have "num (of_int i) = nat_to_string (nat i)"
      using that(1) by (metis decimal_printer_def int_nat_eq of_int_of_nat_eq)
    moreover have "js_Number (nat_to_string (nat i)) = Fin (of_int i)" using js_Number_nat [of "nat i"] i by simp
    moreover have "isSafeInteger (Fin (of_int i))" using i by (auto simp: isSafeInteger_iff)
    ultimately show ?thesis using Some i by (simp add: limit_text_def parseQuotaLimit_def)
  qed (simp add: limit_text_def parseQuotaLimit_def)
  show ?thesis
    using assms parse
    by (auto simp: mutationsDisabled_def startQuotaEdit_def saveQuota_def runQuotaMutation_def mutate_quota_def
        requirePermission_def number_input_value_def parseQuotaLimit_def [of "[]"])
qed

theorem saved_limits_witness:
  "sent (quota_step decimal_num True SubmitForm (quota_step decimal_num True (StartEdit sample_quota)
     (open_page no_storage (Some ''u'')))) = [upsert_operation ''r'' None None None]"
proof -
  have "\<not> mutationsDisabled (open_page no_storage (Some ''u''))" "\<not> mutationInFlight (open_page no_storage (Some ''u''))"
    by (simp_all add: mutationsDisabled_def open_page_def)
  moreover have "decimal_printer decimal_num" by (simp add: decimal_printer_def decimal_num_def)
  moreover have "limit_ok None" by (simp add: limit_ok_def)
  ultimately show ?thesis
    using saved_limits [of "open_page no_storage (Some ''u'')" decimal_num sample_quota]
    by (simp add: sample_quota_def open_page_def del: quota_step.simps)
qed

text \<open>
  C26. The guard against concurrent changes belongs to one visit of the page. In every run in which a change the user
  made on an earlier visit is still in flight while another one is in flight on this visit: if this one is
  applied without synchronization, and the earlier one succeeds after that, the page goes on showing this one
  as pending but the storage has lost it, and a reload finds nothing to retry.
\<close>

theorem pending_change_can_be_lost:
  assumes "list_all event_ok es" and "p = quota_run num can es (open_page s v)"
    and "i < length (orphans p)" and "fst (orphans p ! i) = Some u"
    and "hook_userId (recovery p) = Some u" and "in_flight p = Some op"
    and "isQuotaSynchronizationPending e"
  shows "let q = quota_step num can (OrphanSucceeds i) (quota_step num can (MutationFails e) p)
    in recoveryOperation q = Some op \<and>
       recoveryOperation (quota_step num can (Reopen (Some u)) q) = None"
proof -
  let ?p = "quota_step num can (MutationFails e) p"
  have "page_inv isRecoveryOperation p"
    unfolding assms(2) by (intro well_formed.inv_run well_formed.inv_open assms(1))
      (auto simp: storage_ops_def readRecovery_well_formed)
  then have held: "recovery ?p = set_recovery (Some op) (recovery p)" "orphans ?p = orphans p"
    using assms(6,7)
    by (auto simp: page_inv_def page_ops_def onUpsertError_def onDeleteError_def rememberRecovery_def close_editor_def
        Let_def)
  then have "recoveryOperation ?p = Some op" using assms(5) by (simp add: set_recovery_def hook_operation_def)
  moreover have "quota_step num can (OrphanSucceeds i) ?p =
      (drop_orphan i ?p)\<lparr>storage := write_for num (Some u) None (storage ?p)\<rparr>"
    using held assms(3,4) by (simp add: orphan_succeeds_def del: quota_step.simps(10))
  ultimately show ?thesis
    by (simp add: Let_def drop_orphan_def reopen_page_def open_page_def readRecovery_cleared)
qed

theorem pending_change_can_be_lost_witness:
  "let q = quota_step decimal_num True (OrphanSucceeds 0) (quota_step decimal_num True (MutationFails sync_pending)
       (quota_run decimal_num True [StartEdit sample_quota, SubmitForm, Reopen (Some ''u''), ClickDelete ''r'' True]
          (open_page no_storage (Some ''u''))))
   in recoveryOperation q = Some (delete_operation ''r'') \<and>
      recoveryOperation (quota_step decimal_num True (Reopen (Some ''u'')) q) = None"
proof -
  let ?es = "[StartEdit sample_quota, SubmitForm, Reopen (Some ''u''), ClickDelete ''r'' True]"
  let ?p = "quota_run decimal_num True ?es (open_page no_storage (Some ''u''))"
  have ok: "list_all event_ok ?es" by (simp add: sample_quota_def)
  have p: "in_flight ?p = Some (delete_operation ''r'')" "hook_userId (recovery ?p) = Some ''u''"
    "orphans ?p = [(Some ''u'', upsert_operation ''r'' None None None)]"
    by (simp_all add: sample_run reopen_page_def confirmQuotaDelete_def)
  show ?thesis
    by (rule pending_change_can_be_lost [OF ok refl _ _ p(2,1) sync_pending_is_pending]) (simp_all add: p(3))
qed

end
