(* ===== verification/Detection_Admin.thy ===== *)
theory Detection_Admin
  imports Admin_Forms Js_Number Permissions
begin

text \<open>
  Detection thresholds: their validation (\<open>frontend/src/detectionThresholds.ts\<close>), the hook
  (\<open>frontend/src/hooks/useAdminDetection.ts\<close>) and the page (\<open>frontend/src/pages/AdminDetectionPage.tsx\<close>). The
  reference for a typed threshold is the decimal literal it spells, rounded to the nearest double; the page
  is a state machine, and the text of a number is the argument \<open>num\<close>.
\<close>

section \<open>Thresholds\<close>

definition strip_sign :: "string \<Rightarrow> string" where
  "strip_sign s = (if starts_with s ''+'' \<or> starts_with s ''-'' then tl s else s)"

definition exponent_suffix :: "string \<Rightarrow> bool" where
  "exponent_suffix s =
     (s = [] \<or> (hd s = CHR ''e'' \<or> hd s = CHR ''E'') \<and> strip_sign (tl s) \<noteq> [] \<and> list_all digit (strip_sign (tl s)))"

definition DECIMAL_PATTERN :: "string \<Rightarrow> bool" where
  "DECIMAL_PATTERN s =
     (let t = strip_sign s; ip = takeWhile digit t; r = dropWhile digit t
      in if ip \<noteq> []
         then exponent_suffix (if starts_with r ''.'' then dropWhile digit (tl r) else r)
         else starts_with r ''.'' \<and> takeWhile digit (tl r) \<noteq> [] \<and> exponent_suffix (dropWhile digit (tl r)))"

datatype ThresholdIssue = IssueInvalid | IssueRange | IssueOrder

datatype ThresholdValidation = ThresholdsOk rat rat | ThresholdsBad ThresholdIssue

definition parseThresholdValue :: "string \<Rightarrow> rat option" where
  "parseThresholdValue raw =
     (let trimmed = js_trim raw
      in if \<not> DECIMAL_PATTERN trimmed then None
         else case js_Number trimmed of Fin r \<Rightarrow> Some r | _ \<Rightarrow> None)"

definition validateThresholds :: "string \<Rightarrow> string \<Rightarrow> ThresholdValidation" where
  "validateThresholds blockRaw flagRaw =
     (case (parseThresholdValue blockRaw, parseThresholdValue flagRaw) of
        (Some block, Some flag) \<Rightarrow>
          (if block < 0 \<or> 1 < block \<or> flag < 0 \<or> 1 < flag then ThresholdsBad IssueRange
           else if block \<le> flag then ThresholdsBad IssueOrder
           else ThresholdsOk block flag)
      | _ \<Rightarrow> ThresholdsBad IssueInvalid)"

section \<open>The page\<close>

definition DETECTION_ERROR_KEYS :: "string list" where
  "DETECTION_ERROR_KEYS =
     [''error.forbidden'', ''error.unauthorized'', ''error.notFound'', ''error.validation.invalidUUID'']"

record DetectionConfig =
  block_confidence :: rat
  flag_confidence :: rat
  config_updated_at :: "string option"

record detection_page =
  blockVal :: string
  flagVal :: string
  detection_error :: "string option"
  detection_toasts :: toasts
  authoritative :: "DetectionConfig option"
  update_pending :: bool
  detection_sent :: "(rat \<times> rat) list"

definition open_detection :: detection_page where
  "open_detection =
     \<lparr>blockVal = ''0.8'', flagVal = ''0.5'', detection_error = None, detection_toasts = no_toasts,
      authoritative = None, update_pending = False, detection_sent = []\<rparr>"

definition show_config :: "(rat \<Rightarrow> string) \<Rightarrow> DetectionConfig \<Rightarrow> detection_page \<Rightarrow> detection_page" where
  "show_config num cfg p = p\<lparr>blockVal := num (block_confidence cfg), flagVal := num (flag_confidence cfg)\<rparr>"

text \<open>New data of the query; equal data keeps its identity, so the effect does not run again.\<close>

definition config_arrives :: "(rat \<Rightarrow> string) \<Rightarrow> DetectionConfig \<Rightarrow> detection_page \<Rightarrow> detection_page" where
  "config_arrives num cfg p =
     (if authoritative p = Some cfg then p else show_config num cfg (p\<lparr>authoritative := Some cfg\<rparr>))"

definition update_mutate :: "bool \<Rightarrow> rat \<Rightarrow> rat \<Rightarrow> detection_page \<Rightarrow> detection_page" where
  "update_mutate canManageSecurity block flag p =
     (let p1 = p\<lparr>update_pending := True\<rparr>
      in case requirePermission canManageSecurity ADMIN_SECURITY_MANAGE of
           Inl e \<Rightarrow> p1
         | Inr u \<Rightarrow> p1\<lparr>detection_sent := detection_sent p @ [(block, flag)]\<rparr>)"

definition handleSave :: "bool \<Rightarrow> detection_page \<Rightarrow> detection_page" where
  "handleSave canManageSecurity p =
     (if update_pending p then p
      else case validateThresholds (blockVal p) (flagVal p) of
             ThresholdsBad issue \<Rightarrow>
               p\<lparr>detection_error := Some (if issue = IssueOrder then ''detection.validation_error''
                                          else ''detection.validation_range'')\<rparr>
           | ThresholdsOk block flag \<Rightarrow>
               update_mutate canManageSecurity block flag (p\<lparr>detection_error := None\<rparr>))"

definition isDirty :: "detection_page \<Rightarrow> bool" where
  "isDirty p =
     (case (parseThresholdValue (blockVal p), parseThresholdValue (flagVal p)) of
        (Some blockNumber, Some flagNumber) \<Rightarrow>
          (case authoritative p of
             Some cfg \<Rightarrow> blockNumber \<noteq> block_confidence cfg \<or> flagNumber \<noteq> flag_confidence cfg
           | None \<Rightarrow> False)
      | _ \<Rightarrow> True)"

definition handleReset :: "(rat \<Rightarrow> string) \<Rightarrow> detection_page \<Rightarrow> detection_page" where
  "handleReset num p =
     (case authoritative p of
        None \<Rightarrow> p
      | Some cfg \<Rightarrow> if update_pending p then p else (show_config num cfg p)\<lparr>detection_error := None\<rparr>)"

definition onUpdateSuccess :: "detection_page \<Rightarrow> detection_page" where
  "onUpdateSuccess p =
     p\<lparr>detection_toasts := addToast ToastSuccess ''common.saveSuccess'' (detection_toasts p), detection_error := None\<rparr>"

definition onUpdateError :: "jsval \<Rightarrow> detection_page \<Rightarrow> detection_page" where
  "onUpdateError e p =
     p\<lparr>detection_toasts :=
         addToast ToastError (error_message DETECTION_ERROR_KEYS e ''detection.save_error'') (detection_toasts p)\<rparr>"

datatype detection_screen =
    DetectionLoading
  | DetectionDenied
  | DetectionFailed query_banner
  | DetectionForm query_banner

definition detection_view :: "bool \<Rightarrow> query_state \<Rightarrow> detection_screen" where
  "detection_view loading q =
     (if loading then DetectionLoading
      else if qs_isError q \<and> \<not> qs_has_data q
      then (let isForbidden = (extractErrorKey (qs_error q) = Some ''error.forbidden'' \<or>
                               js_get (qs_error q) ''status'' = jint 403)
            in if \<not> isForbidden then DetectionFailed (ClientQueryState q ''error.unknown.message'' None False)
               else DetectionDenied)
      else DetectionForm (ClientQueryState q ''error.unknown.message'' None False))"

datatype detection_event =
    ConfigArrives DetectionConfig
  | SlideBlock string
  | TypeBlock string
  | SlideFlag string
  | TypeFlag string
  | SaveClicked
  | ResetClicked
  | UpdateSucceeds
  | UpdateFails jsval
  | DetectionToastGone nat

fun detection_step :: "(rat \<Rightarrow> string) \<Rightarrow> bool \<Rightarrow> detection_event \<Rightarrow> detection_page \<Rightarrow> detection_page" where
  "detection_step num can (ConfigArrives cfg) p = config_arrives num cfg p"
| "detection_step num can (SlideBlock v) p = p\<lparr>blockVal := v\<rparr>"
| "detection_step num can (TypeBlock typed) p = p\<lparr>blockVal := number_input_value typed\<rparr>"
| "detection_step num can (SlideFlag v) p = p\<lparr>flagVal := v\<rparr>"
| "detection_step num can (TypeFlag typed) p = p\<lparr>flagVal := number_input_value typed\<rparr>"
| "detection_step num can SaveClicked p = handleSave can p"
| "detection_step num can ResetClicked p = (if isDirty p then handleReset num p else p)"
| "detection_step num can UpdateSucceeds p = (if update_pending p then onUpdateSuccess (p\<lparr>update_pending := False\<rparr>) else p)"
| "detection_step num can (UpdateFails e) p = (if update_pending p then onUpdateError e (p\<lparr>update_pending := False\<rparr>) else p)"
| "detection_step num can (DetectionToastGone i) p = p\<lparr>detection_toasts := removeToast i (detection_toasts p)\<rparr>"

definition detection_run :: "(rat \<Rightarrow> string) \<Rightarrow> bool \<Rightarrow> detection_event list \<Rightarrow> detection_page" where
  "detection_run num can es = foldl (\<lambda>p e. detection_step num can e p) open_detection es"

section \<open>The pattern is the grammar of decimal literals\<close>

definition threshold_literal :: "string \<Rightarrow> rat option" where
  "threshold_literal s = signed_literal decimal_literal uminus (js_trim s)"

lemma exponent_suffix_iff: "exponent_suffix s \<longleftrightarrow> exponent_part s \<noteq> None"
  by (cases s) (auto simp: exponent_suffix_def exponent_part_def signed_digits_def strip_sign_def Let_def)

lemma decimal_literal_iff:
  "decimal_literal t \<noteq> None \<longleftrightarrow>
     (let ip = takeWhile digit t; r = dropWhile digit t
      in if ip \<noteq> [] then exponent_suffix (if starts_with r ''.'' then dropWhile digit (tl r) else r)
         else starts_with r ''.'' \<and> takeWhile digit (tl r) \<noteq> [] \<and> exponent_suffix (dropWhile digit (tl r)))"
  unfolding decimal_literal_def Let_def exponent_suffix_iff by (auto split: if_splits)

lemma DECIMAL_PATTERN_iff: "DECIMAL_PATTERN s \<longleftrightarrow> signed_literal decimal_literal uminus s \<noteq> None"
proof -
  have "DECIMAL_PATTERN s \<longleftrightarrow> decimal_literal (strip_sign s) \<noteq> None"
    unfolding DECIMAL_PATTERN_def decimal_literal_iff Let_def ..
  then show ?thesis by (auto simp: signed_literal_def strip_sign_def starts_with_def)
qed

lemma js_trim_idem: "js_trim (js_trim s) = js_trim s"
proof -
  define t where "t = dropWhile latin1_space s"
  have "dropWhile latin1_space (rev (dropWhile latin1_space (rev t))) = rev (dropWhile latin1_space (rev t))"
  proof (cases "rev (dropWhile latin1_space (rev t))")
    case (Cons c r)
    then have "t \<noteq> []" "hd t = c"
      by (metis dropWhile.simps(1) list.distinct(1) rev.simps(1))
         (metis Cons append_Cons list.sel(1) rev_append rev_rev_ident takeWhile_dropWhile_id)
    then have "\<not> latin1_space c" unfolding t_def using hd_dropWhile by force
    with Cons show ?thesis by simp
  next
    case Nil
    then show ?thesis by (metis dropWhile.simps(1))
  qed
  then show ?thesis by (simp add: js_trim_def t_def [symmetric])
qed

lemma no_literal:
  "\<not> digit c \<Longrightarrow> c \<notin> set ''.eE'' \<Longrightarrow> signed_literal decimal_literal uminus (CHR ''0'' # c # r) = None"
  "signed_literal decimal_literal uminus [] = None"
  "signed_literal decimal_literal uminus ''Infinity'' = None"
  "signed_literal decimal_literal uminus ''+Infinity'' = None"
  "signed_literal decimal_literal uminus ''-Infinity'' = None"
  by (simp_all add: signed_literal_def decimal_literal_def starts_with_def digit_def exponent_part_def Let_def)

lemma take_2D: "take 2 t = [a, b] \<Longrightarrow> \<exists>r. t = a # b # r"
  by (cases t; cases "tl t") auto

lemma js_Number_literal:
  assumes "threshold_literal s = Some x"
  shows "js_Number (js_trim s) = round_double x"
proof -
  let ?t = "js_trim s"
  have lit: "signed_literal decimal_literal uminus ?t = Some x" using assms by (simp add: threshold_literal_def)
  have pre: "take 2 ?t \<noteq> [CHR ''0'', c]" if "\<not> digit c" "c \<notin> set ''.eE''" for c
    using that lit no_literal(1) take_2D by (metis option.distinct(1))
  have "take 2 ?t \<noteq> ''0x''" "take 2 ?t \<noteq> ''0X''" "take 2 ?t \<noteq> ''0o''" "take 2 ?t \<noteq> ''0O''"
    "take 2 ?t \<noteq> ''0b''" "take 2 ?t \<noteq> ''0B''"
    by (rule pre; simp add: digit_def)+
  moreover have "?t \<noteq> []" "?t \<noteq> ''Infinity''" "?t \<noteq> ''+Infinity''" "?t \<noteq> ''-Infinity''"
    using lit no_literal(2-5) by force+
  ultimately show ?thesis
    unfolding js_Number_def js_trim_idem Let_def lit by simp
qed

lemma parseThresholdValue_iff:
  "parseThresholdValue s = Some r \<longleftrightarrow> (\<exists>x. threshold_literal s = Some x \<and> round_double x = Fin r)"
proof (cases "threshold_literal s")
  case None
  then have "\<not> DECIMAL_PATTERN (js_trim s)" by (simp add: DECIMAL_PATTERN_iff threshold_literal_def)
  with None show ?thesis by (simp add: parseThresholdValue_def)
next
  case (Some x)
  then have "DECIMAL_PATTERN (js_trim s)" by (simp add: DECIMAL_PATTERN_iff threshold_literal_def)
  with Some show ?thesis
    by (auto simp: parseThresholdValue_def js_Number_literal [OF Some] split: jsnum.splits)
qed

lemma validateThresholds_Ok:
  "validateThresholds b f = ThresholdsOk block flag \<longleftrightarrow>
     parseThresholdValue b = Some block \<and> parseThresholdValue f = Some flag \<and> 0 \<le> flag \<and> flag < block \<and> block \<le> 1"
  by (auto simp: validateThresholds_def split: option.splits if_splits)

definition in_bounds :: "rat \<times> rat \<Rightarrow> bool" where
  "in_bounds r = (0 \<le> snd r \<and> snd r < fst r \<and> fst r \<le> 1)"

lemma detection_step_sent:
  "detection_sent (detection_step num can ev p) = detection_sent p \<or>
   (\<exists>r. detection_sent (detection_step num can ev p) = detection_sent p @ [r] \<and> in_bounds r \<and> can \<and>
      \<not> update_pending p \<and> update_pending (detection_step num can ev p) \<and>
      parseThresholdValue (blockVal p) = Some (fst r) \<and> parseThresholdValue (flagVal p) = Some (snd r))"
  by (cases ev)
     (auto simp: config_arrives_def show_config_def handleSave_def update_mutate_def requirePermission_def handleReset_def
        onUpdateSuccess_def onUpdateError_def in_bounds_def Let_def
        validateThresholds_Ok
        split: ThresholdValidation.splits option.splits)


section \<open>Properties\<close>

text \<open>
  C27. Every pair of thresholds the page sends lies in \<open>0 \<le> flag < block \<le> 1\<close> and is sent with the permission
  only; a step sends nothing while an update is pending, and what it sends are the nearest doubles of the
  decimal numbers that the two fields spell.
\<close>

theorem detection_requests_in_bounds:
  "list_all in_bounds (detection_sent (detection_run num can es)) \<and>
   (let p = detection_run num can es; p' = detection_run num can (es @ [ev])
    in detection_sent p' = detection_sent p \<or>
       (\<exists>block flag x y. detection_sent p' = detection_sent p @ [(block, flag)] \<and> can \<and> \<not> update_pending p \<and>
          threshold_literal (blockVal p) = Some x \<and> round_double x = Fin block \<and>
          threshold_literal (flagVal p) = Some y \<and> round_double y = Fin flag))"
proof -
  have "list_all in_bounds (detection_sent (detection_run num can es))"
  proof (induction es rule: rev_induct)
    case (snoc ev es)
    then show ?case
      using detection_step_sent [of num can ev "detection_run num can es"] by (auto simp: detection_run_def)
  qed (simp add: detection_run_def open_detection_def)
  moreover have "detection_sent p' = detection_sent p \<or>
      (\<exists>block flag x y. detection_sent p' = detection_sent p @ [(block, flag)] \<and> can \<and> \<not> update_pending p \<and>
          threshold_literal (blockVal p) = Some x \<and> round_double x = Fin block \<and>
          threshold_literal (flagVal p) = Some y \<and> round_double y = Fin flag)"
    if "p = detection_run num can es" "p' = detection_run num can (es @ [ev])" for p p'
    using detection_step_sent [of num can ev p] that
    by (auto simp: detection_run_def parseThresholdValue_iff)
  ultimately show ?thesis by (simp add: Let_def)
qed

section \<open>One update in flight\<close>

definition detection_settles :: "detection_event \<Rightarrow> bool" where
  "detection_settles e = (case e of UpdateSucceeds \<Rightarrow> True | UpdateFails err \<Rightarrow> True | _ \<Rightarrow> False)"

interpretation detection_flight: single_flight "detection_step num can" "\<lambda>p. True" update_pending
    "\<lambda>p. length (detection_sent p)" detection_settles for num can
proof
  fix p :: detection_page and e :: detection_event
  show "update_pending (detection_step num can e p) \<and>
      length (detection_sent (detection_step num can e p)) = length (detection_sent p)"
    if "update_pending p" and "\<not> detection_settles e"
    using that by (cases e) (simp_all add: detection_settles_def config_arrives_def show_config_def handleSave_def
        handleReset_def split: option.split)
  show "length (detection_sent (detection_step num can e p)) \<le>
      length (detection_sent p) + of_bool (update_pending (detection_step num can e p))"
    if "\<not> update_pending p" and "\<not> detection_settles e"
    using that by (cases e) (simp_all add: detection_settles_def config_arrives_def show_config_def handleSave_def
        handleReset_def update_mutate_def Let_def split: option.split ThresholdValidation.split sum.split)
  show "length (detection_sent (detection_step num can e p)) = length (detection_sent p)" if "detection_settles e"
    using that by (cases e) (simp_all add: detection_settles_def onUpdateSuccess_def onUpdateError_def)
qed simp

lemma detection_run_of: "detection_run num can es = detection_flight.run_of num can es open_detection"
  by (simp add: detection_run_def detection_flight.run_of_def)

end
