(* ===== verification/Audit_Page.thy ===== *)
theory Audit_Page
  imports Admin_Forms Audit_Download Permissions
begin

text \<open>
  The audit page: \<open>frontend/src/pages/AdminAuditPage.tsx\<close> with \<open>frontend/src/hooks/useAdminAudit.ts\<close>. The page keeps
  draft filters, the authority (a server-side filter context) its searches are requested with, the search
  query with its placeholder, a retained snapshot, the creation of filter contexts with their generations and
  request scopes, and one export with its scope. A scope that a running call still holds is the same object as
  the one in the page's ref, so the page keeps it once and remembers whether the ref still points to it.
\<close>

section \<open>Data\<close>

type_synonym field_name = string

record AuditFilterAuthority =
  auth_context :: "string option"
  auth_fields :: "field_name list"

definition UNFILTERED_AUTHORITY :: AuditFilterAuthority where
  "UNFILTERED_AUTHORITY = \<lparr>auth_context = None, auth_fields = []\<rparr>"

record AuditSearchResponse =
  audit_entries :: "jsval list"
  pag_page :: int
  pag_page_size :: int
  pag_total_entries :: int
  pag_total_pages :: int

record AuditSearchSnapshot =
  snap_context :: "string option"
  snap_fields :: "field_name list"
  snap_response :: AuditSearchResponse

record audit_search_params =
  param_filter_context :: "string option"
  param_page :: int
  param_page_size :: int

definition contextToSearchParams :: "string option \<Rightarrow> int \<Rightarrow> audit_search_params" where
  "contextToSearchParams filterContext page =
     \<lparr>param_filter_context = filterContext, param_page = page, param_page_size = 10\<rparr>"

definition APPLIED_FILTER_FIELD_LABELS :: "(field_name \<times> string) list" where
  "APPLIED_FILTER_FIELD_LABELS =
     [(''start_date'', ''audit.search.date_from''), (''end_date'', ''audit.search.date_to''),
      (''action_type'', ''audit.search.action_type''), (''actor_identity'', ''audit.search.actor''),
      (''outcome'', ''audit.search.outcome''), (''resource_type'', ''audit.search.resource_type'')]"

record audit_drafts =
  startDate :: string
  endDate :: string
  actionType :: string
  actorIdentity :: string
  draft_outcome :: string
  resourceType :: string

definition clearDraftFilters :: audit_drafts where
  "clearDraftFilters =
     \<lparr>startDate = [], endDate = [], actionType = [], actorIdentity = [], draft_outcome = ''all'', resourceType = []\<rparr>"

record AuditFilterContextRequest =
  f_start_date :: "string option"
  f_end_date :: "string option"
  f_action_type :: "string option"
  f_actor_identity :: "string option"
  f_outcome :: "string option"
  f_resource_type :: "string option"

definition or_undefined :: "string \<Rightarrow> string option" where
  "or_undefined s = (if s = [] then None else Some s)"

definition buildFiltersFromInputs :: "audit_drafts \<Rightarrow> AuditFilterContextRequest" where
  "buildFiltersFromInputs d =
     \<lparr>f_start_date = (if startDate d = [] then None else Some (startDate d @ ''T00:00:00Z'')),
      f_end_date = (if endDate d = [] then None else Some (endDate d @ ''T23:59:59Z'')),
      f_action_type = or_undefined (actionType d),
      f_actor_identity = or_undefined (actorIdentity d),
      f_outcome = (if draft_outcome d = ''all'' then None else Some (draft_outcome d)),
      f_resource_type = or_undefined (resourceType d)\<rparr>"

section \<open>State\<close>

datatype search_status = SearchPending | SearchSuccess | SearchError

text \<open>
  The search query: the data of the current key, the last data of any key, which is its placeholder while the
  current key is pending, and the authority a running fetch was started with.
\<close>

record search_query =
  search_status :: search_status
  search_data :: "AuditSearchSnapshot option"
  search_last :: "AuditSearchSnapshot option"
  search_fetch :: "AuditFilterAuthority option"

record context_call =
  call_generation :: nat
  call_ctx_scope :: request_scope

record export_call =
  export_format :: AuditExportFormat
  export_context_sent :: "string option"
  export_scope :: request_scope
  export_owned :: bool

record audit_page =
  mounted :: bool
  drafts :: audit_drafts
  current_page :: int
  requestedAuthority :: AuditFilterAuthority
  isCreatingContext :: bool
  retainedSnapshot :: "AuditSearchSnapshot option"
  search :: search_query
  searches_sent :: "audit_search_params list"
  context_generation :: nat
  context_ref :: "nat option"
  context_calls :: "context_call list"
  contexts_sent :: "AuditFilterContextRequest list"
  export_running :: "export_call option"
  isExporting :: "AuditExportFormat option"
  exports_sent :: "(AuditExportFormat \<times> string option) list"
  downloads :: "units list"
  audit_toasts :: toasts
  verify_pending :: bool
  verifications_sent :: nat
  status_invalidations :: nat

definition audit_toast :: "toast_type \<Rightarrow> string \<Rightarrow> audit_page \<Rightarrow> audit_page" where
  "audit_toast ty message p = p\<lparr>audit_toasts := addToast ty message (audit_toasts p)\<rparr>"

section \<open>Searching\<close>

definition search_result :: "search_query \<Rightarrow> AuditSearchSnapshot option" where
  "search_result q =
     (case search_data q of
        Some s \<Rightarrow> Some s
      | None \<Rightarrow> if search_status q = SearchPending then search_last q else None)"

definition snapshot :: "audit_page \<Rightarrow> AuditSearchSnapshot option" where
  "snapshot p = (case search_result (search p) of Some s \<Rightarrow> Some s | None \<Rightarrow> retainedSnapshot p)"

definition retainDisplayedSnapshot :: "audit_page \<Rightarrow> audit_page" where
  "retainDisplayedSnapshot p = p\<lparr>retainedSnapshot := snapshot p\<rparr>"

definition start_fetch :: "bool \<Rightarrow> audit_page \<Rightarrow> audit_page" where
  "start_fetch canVerifyAudit p =
     (if canVerifyAudit
      then p\<lparr>search := (search p)\<lparr>search_fetch := Some (requestedAuthority p),
                search_status := (if search_data (search p) = None then SearchPending else search_status (search p))\<rparr>,
             searches_sent := searches_sent p @
               [contextToSearchParams (auth_context (requestedAuthority p)) (current_page p)]\<rparr>
      else p)"

text \<open>A change of the key drops the data of the old one, which nothing keeps in the cache, and fetches.\<close>

definition set_key :: "bool \<Rightarrow> AuditFilterAuthority \<Rightarrow> int \<Rightarrow> audit_page \<Rightarrow> audit_page" where
  "set_key can a n p =
     (let p1 = p\<lparr>requestedAuthority := a, current_page := n\<rparr>
      in if auth_context a = auth_context (requestedAuthority p) \<and> n = current_page p then p1
         else start_fetch can (p1\<lparr>search := (search p)\<lparr>search_status := SearchPending, search_data := None, search_fetch := None\<rparr>\<rparr>))"

definition search_arrives :: "AuditSearchResponse \<Rightarrow> audit_page \<Rightarrow> audit_page" where
  "search_arrives response p =
     (case search_fetch (search p) of
        None \<Rightarrow> p
      | Some a \<Rightarrow>
          (let s = \<lparr>snap_context = auth_context a, snap_fields = auth_fields a, snap_response = response\<rparr>
           in p\<lparr>search := \<lparr>search_status = SearchSuccess, search_data = Some s, search_last = Some s, search_fetch = None\<rparr>\<rparr>))"

definition search_fails :: "audit_page \<Rightarrow> audit_page" where
  "search_fails p =
     (case search_fetch (search p) of
        None \<Rightarrow> p
      | Some a \<Rightarrow> p\<lparr>search := (search p)\<lparr>search_status := SearchError, search_fetch := None\<rparr>\<rparr>)"

definition mount_audit :: "bool \<Rightarrow> audit_page" where
  "mount_audit canVerifyAudit =
     start_fetch canVerifyAudit
       \<lparr>mounted = True, drafts = clearDraftFilters, current_page = 1, requestedAuthority = UNFILTERED_AUTHORITY,
        isCreatingContext = False, retainedSnapshot = None,
        search = \<lparr>search_status = SearchPending, search_data = None, search_last = None, search_fetch = None\<rparr>,
        searches_sent = [], context_generation = 0, context_ref = None, context_calls = [], contexts_sent = [],
        export_running = None, isExporting = None, exports_sent = [], downloads = [], audit_toasts = no_toasts,
        verify_pending = False, verifications_sent = 0, status_invalidations = 0\<rparr>"

definition handleSearchSubmit :: "bool \<Rightarrow> audit_page \<Rightarrow> audit_page" where
  "handleSearchSubmit can p =
     (if context_ref p \<noteq> None then p
      else
        (let p1 = set_key can (requestedAuthority p) 1 (retainDisplayedSnapshot p);
             requestGeneration = context_generation p + 1;
             scope = new_RequestScope NoParent (Some (Fin (of_int ORDINARY_REQUEST_TIMEOUT_MS)))
         in p1\<lparr>context_generation := requestGeneration,
               context_ref := Some requestGeneration,
               isCreatingContext := True,
               context_calls := context_calls p @ [\<lparr>call_generation = requestGeneration, call_ctx_scope = scope\<rparr>],
               contexts_sent := contexts_sent p @ [buildFiltersFromInputs (drafts p)],
               drafts := clearDraftFilters\<rparr>))"

definition find_call :: "nat \<Rightarrow> audit_page \<Rightarrow> context_call option" where
  "find_call g p = find_first (\<lambda>c. call_generation c = g) (context_calls p)"

definition context_finally :: "nat \<Rightarrow> audit_page \<Rightarrow> audit_page" where
  "context_finally g p =
     p\<lparr>context_calls := filter (\<lambda>c. call_generation c \<noteq> g) (context_calls p),
       context_ref := (if context_ref p = Some g then None else context_ref p),
       isCreatingContext := (if mounted p \<and> context_generation p = g then False else isCreatingContext p)\<rparr>"

definition context_arrives :: "bool \<Rightarrow> nat \<Rightarrow> AuditFilterAuthority \<Rightarrow> audit_page \<Rightarrow> audit_page" where
  "context_arrives can g a p =
     (case find_call g p of
        None \<Rightarrow> p
      | Some c \<Rightarrow>
          context_finally g
            (if \<not> mounted p \<or> aborted (call_ctx_scope c) \<or> context_generation p \<noteq> g then p
             else set_key can a (current_page p) p))"

definition context_fails :: "nat \<Rightarrow> jsval \<Rightarrow> audit_page \<Rightarrow> audit_page" where
  "context_fails g e p =
     (case find_call g p of
        None \<Rightarrow> p
      | Some c \<Rightarrow>
          context_finally g
            (if \<not> mounted p \<or> (isAbortFailure e \<and> scope_reason (call_ctx_scope c) \<noteq> Some Deadline) then p
             else audit_toast ToastError ''audit.search.context_error'' p))"

text \<open>What the page does to the scope its context ref points to.\<close>

definition map_context :: "(request_scope \<Rightarrow> request_scope) \<Rightarrow> nat \<Rightarrow> audit_page \<Rightarrow> audit_page" where
  "map_context f g p =
     p\<lparr>context_calls := map (\<lambda>c. if call_generation c = g then c\<lparr>call_ctx_scope := f (call_ctx_scope c)\<rparr> else c) (context_calls p)\<rparr>"

definition cancel_context :: "audit_page \<Rightarrow> audit_page" where
  "cancel_context p =
     (let p1 = p\<lparr>context_generation := context_generation p + 1\<rparr>;
          p2 = (case context_ref p of Some g \<Rightarrow> map_context (\<lambda>s. dispose (abort s)) g p1 | None \<Rightarrow> p1)
      in p2\<lparr>context_ref := None\<rparr>)"

definition handleReset_audit :: "bool \<Rightarrow> audit_page \<Rightarrow> audit_page" where
  "handleReset_audit can p =
     (let p1 = retainDisplayedSnapshot ((cancel_context p)\<lparr>isCreatingContext := False\<rparr>)
      in set_key can UNFILTERED_AUTHORITY 1 (p1\<lparr>drafts := clearDraftFilters\<rparr>))"

definition next_page :: "bool \<Rightarrow> audit_page \<Rightarrow> audit_page" where
  "next_page can p =
     (case snapshot p of
        None \<Rightarrow> p
      | Some s \<Rightarrow>
          (let total = pag_total_pages (snap_response s)
           in if total \<le> 1 \<or> current_page p = total then p
              else set_key can (requestedAuthority p) (min total (current_page p + 1)) (retainDisplayedSnapshot p)))"

definition prev_page :: "bool \<Rightarrow> audit_page \<Rightarrow> audit_page" where
  "prev_page can p =
     (case snapshot p of
        None \<Rightarrow> p
      | Some s \<Rightarrow>
          (if pag_total_pages (snap_response s) \<le> 1 \<or> current_page p = 1 then p
           else set_key can (requestedAuthority p) (max 1 (current_page p - 1)) (retainDisplayedSnapshot p)))"

section \<open>Exporting\<close>

definition exportFilterContext :: "audit_page \<Rightarrow> string option" where
  "exportFilterContext p =
     (case snapshot p of
        Some s \<Rightarrow> (case snap_context s of Some c \<Rightarrow> Some c | None \<Rightarrow> auth_context (requestedAuthority p))
      | None \<Rightarrow> auth_context (requestedAuthority p))"

definition appliedFilterEntries :: "audit_page \<Rightarrow> string list" where
  "appliedFilterEntries p =
     (let appliedFields = (case snapshot p of Some s \<Rightarrow> snap_fields s | None \<Rightarrow> [])
      in map snd (filter (\<lambda>(field, label). field \<in> set appliedFields) APPLIED_FILTER_FIELD_LABELS))"

definition hasUnappliedChanges :: "audit_page \<Rightarrow> bool" where
  "hasUnappliedChanges p =
     (snapshot p \<noteq> None \<and>
      (startDate (drafts p) \<noteq> [] \<or> endDate (drafts p) \<noteq> [] \<or> actionType (drafts p) \<noteq> [] \<or>
       actorIdentity (drafts p) \<noteq> [] \<or> draft_outcome (drafts p) \<noteq> ''all'' \<or> resourceType (drafts p) \<noteq> []))"

text \<open>\<open>Inl\<close>: the permission is missing and the handler throws.\<close>

definition handleExport :: "bool \<Rightarrow> AuditExportFormat \<Rightarrow> audit_page \<Rightarrow> audit_page outcome" where
  "handleExport canVerifyAudit format p =
     (case requirePermission canVerifyAudit ADMIN_AUDIT_VERIFY of
        Inl e \<Rightarrow> Inl e
      | Inr granted \<Rightarrow>
          Inr (if (case export_running p of Some c \<Rightarrow> export_owned c | None \<Rightarrow> False) then p
               else p\<lparr>isExporting := Some format,
                      export_running := Some \<lparr>export_format = format, export_context_sent = exportFilterContext p,
                        export_scope = new_RequestScope NoParent (Some (Fin (of_int AUDIT_EXPORT_TIMEOUT_MS))),
                        export_owned = True\<rparr>,
                      exports_sent := exports_sent p @ [(format, exportFilterContext p)]\<rparr>))"

definition cancelExport :: "audit_page \<Rightarrow> audit_page" where
  "cancelExport p =
     (case export_running p of
        Some c \<Rightarrow> if export_owned c then p\<lparr>export_running := Some (c\<lparr>export_scope := abort (export_scope c)\<rparr>)\<rparr> else p
      | None \<Rightarrow> p)"

definition export_error_toast :: "jsval \<Rightarrow> string" where
  "export_error_toast err =
     (let messageKey = js_or (js_get err ''message_key'') (js_get (js_get err ''detail'') ''message_key'');
          isQuotaExceeded =
            (messageKey = JStr ''error.quota_exceeded'' \<or> js_get err ''status'' = jint 429 \<or>
             js_get err ''status_code'' = jint 429 \<or> js_get (js_get err ''detail'') ''status'' = jint 429)
      in if messageKey = JStr ''error.export_limit_exceeded'' then ''audit.export.limit_exceeded''
         else if isQuotaExceeded then ''audit.export.quota_exceeded'' else ''error.unknown.message'')"

definition export_catch :: "request_scope \<Rightarrow> jsval \<Rightarrow> audit_page \<Rightarrow> audit_page" where
  "export_catch scope err p =
     (if \<not> mounted p \<or> isAbortFailure err
      then (if mounted p
            then audit_toast ToastError
                   (if isClientDeadlineError err \<or> scope_reason scope = Some Deadline
                    then ''audit.export.timeout'' else ''audit.export.canceled'') p
            else p)
      else if js_instanceof err AuditDownloadErrorClass \<or> js_get err ''name'' = JStr ''AuditDownloadError''
      then audit_toast ToastError ''audit.export.failed'' p
      else audit_toast ToastError (export_error_toast err) p)"

text \<open>The settlement of the running export, with what \<open>exportAuditEntries\<close> makes of the response.\<close>

definition export_settles :: "utc_time \<Rightarrow> unit export_response outcome \<Rightarrow> audit_page \<Rightarrow> audit_page" where
  "export_settles now response p =
     (case export_running p of
        None \<Rightarrow> p
      | Some c \<Rightarrow>
          (let p1 = (case exportAuditEntries now (export_format c) response of
                       Inr download \<Rightarrow>
                         (if aborted (export_scope c) \<or> \<not> mounted p then p
                          else p\<lparr>downloads := downloads p @ [dl_filename download]\<rparr>)
                     | Inl err \<Rightarrow> export_catch (export_scope c) err p)
           in p1\<lparr>export_running := None, isExporting := (if mounted p then None else isExporting p)\<rparr>))"

section \<open>The rest of the page\<close>

definition unmount_audit :: "audit_page \<Rightarrow> audit_page" where
  "unmount_audit p =
     (let p1 = p\<lparr>mounted := False,
                 export_running := (case export_running p of
                     Some c \<Rightarrow> Some (if export_owned c
                                    then c\<lparr>export_scope := dispose (abort (export_scope c)), export_owned := False\<rparr> else c)
                   | None \<Rightarrow> None)\<rparr>
      in (cancel_context p1)\<lparr>search := \<lparr>search_status = SearchPending, search_data = None, search_last = None, search_fetch = None\<rparr>\<rparr>)"

text \<open>The mutation of the hook; without the permission it fails and nothing is sent.\<close>

definition handleVerify :: "bool \<Rightarrow> audit_page \<Rightarrow> audit_page" where
  "handleVerify canVerifyAudit p =
     p\<lparr>verify_pending := True,
       verifications_sent := verifications_sent p + (if isl (requirePermission canVerifyAudit ADMIN_AUDIT_VERIFY) then 0 else 1)\<rparr>"

text \<open>
  The settlement of the mutation. The hook's own \<open>onSuccess\<close> runs in any case, the callbacks of the call to
  \<open>mutate\<close> only while the page is mounted.
\<close>

definition verify_settles :: "bool \<Rightarrow> bool outcome \<Rightarrow> audit_page \<Rightarrow> audit_page" where
  "verify_settles canVerifyAudit answer p =
     (let result = (case requirePermission canVerifyAudit ADMIN_AUDIT_VERIFY of Inl e \<Rightarrow> Inl e | Inr granted \<Rightarrow> answer);
          p1 = p\<lparr>verify_pending := False,
                 status_invalidations := status_invalidations p + (if isl result then 0 else 1)\<rparr>
      in if \<not> mounted p then p1
         else case result of
           Inr verified \<Rightarrow>
             (if verified then audit_toast ToastSuccess ''admin.audit.verifySuccess'' p1
              else audit_toast ToastError ''admin.audit.verifyFailed'' p1)
         | Inl e \<Rightarrow> audit_toast ToastError ''admin.audit.verifyFailed'' p1)"

datatype audit_event =
    EditDrafts audit_drafts
  | SubmitSearch
  | ContextArrives nat AuditFilterAuthority
  | ContextFails nat jsval
  | ContextDeadline nat
  | ResetFilters
  | NextPage
  | PrevPage
  | SearchArrives AuditSearchResponse
  | SearchFails
  | SearchRefetch
  | ClickExport AuditExportFormat
  | ClickCancel
  | ExportDeadline
  | ExportSettles utc_time "unit export_response outcome"
  | ClickVerify
  | VerifySettles "bool outcome"
  | AuditToastGone nat
  | UnmountAudit

fun audit_step :: "bool \<Rightarrow> audit_event \<Rightarrow> audit_page \<Rightarrow> audit_page" where
  "audit_step can (EditDrafts d) p = (if mounted p then p\<lparr>drafts := d\<rparr> else p)"
| "audit_step can SubmitSearch p = (if mounted p \<and> \<not> isCreatingContext p then handleSearchSubmit can p else p)"
| "audit_step can (ContextArrives g a) p = context_arrives can g a p"
| "audit_step can (ContextFails g e) p = context_fails g e p"
| "audit_step can (ContextDeadline g) p = map_context timer_fires g p"
| "audit_step can ResetFilters p = (if mounted p then handleReset_audit can p else p)"
| "audit_step can NextPage p = (if mounted p then next_page can p else p)"
| "audit_step can PrevPage p = (if mounted p then prev_page can p else p)"
| "audit_step can (SearchArrives r) p = search_arrives r p"
| "audit_step can SearchFails p = search_fails p"
| "audit_step can SearchRefetch p = (if mounted p then start_fetch can p else p)"
| "audit_step can (ClickExport format) p =
     (if mounted p \<and> isExporting p = None then (case handleExport can format p of Inr q \<Rightarrow> q | Inl e \<Rightarrow> p) else p)"
| "audit_step can ClickCancel p = (if mounted p then cancelExport p else p)"
| "audit_step can ExportDeadline p =
     p\<lparr>export_running := map_option (\<lambda>c. c\<lparr>export_scope := timer_fires (export_scope c)\<rparr>) (export_running p)\<rparr>"
| "audit_step can (ExportSettles now r) p = export_settles now r p"
| "audit_step can ClickVerify p = (if mounted p \<and> \<not> verify_pending p then handleVerify can p else p)"
| "audit_step can (VerifySettles answer) p = (if verify_pending p then verify_settles can answer p else p)"
| "audit_step can (AuditToastGone i) p = p\<lparr>audit_toasts := removeToast i (audit_toasts p)\<rparr>"
| "audit_step can UnmountAudit p = (if mounted p then unmount_audit p else p)"

definition audit_run :: "bool \<Rightarrow> audit_event list \<Rightarrow> audit_page \<Rightarrow> audit_page" where
  "audit_run can es p = foldl (\<lambda>q e. audit_step can e q) p es"

section \<open>Searches follow the requested authority\<close>

definition search_inv :: "audit_page \<Rightarrow> bool" where
  "search_inv p =
     (pred_option (\<lambda>s. snap_context s = auth_context (requestedAuthority p)) (search_data (search p)) \<and>
      pred_option (\<lambda>a. auth_context a = auth_context (requestedAuthority p)) (search_fetch (search p)) \<and>
      (search_data (search p) = None \<or> search_last (search p) = search_data (search p)))"

lemma search_inv_updates [simp]:
  "search_inv (p\<lparr>drafts := d\<rparr>) = search_inv p"
  "search_inv (p\<lparr>audit_toasts := ts\<rparr>) = search_inv p"
  "search_inv (p\<lparr>export_running := ex\<rparr>) = search_inv p"
  "search_inv (handleVerify can p) = search_inv p"
  by (simp_all add: search_inv_def handleVerify_def)

lemma search_inv_start_fetch: "search_inv p \<Longrightarrow> search_inv (start_fetch can p)"
  by (simp add: search_inv_def start_fetch_def)

lemma search_inv_set_key: "search_inv p \<Longrightarrow> search_inv (set_key can a n p)"
  by (simp add: search_inv_def set_key_def start_fetch_def Let_def)

lemma search_inv_arrives: "search_inv p \<Longrightarrow> search_inv (search_arrives r p)"
  by (cases "search_fetch (search p)") (simp_all add: search_inv_def search_arrives_def Let_def)

lemma search_inv_fails: "search_inv p \<Longrightarrow> search_inv (search_fails p)"
  by (simp add: search_inv_def search_fails_def split: option.splits)

lemmas search_inv_ops = search_inv_start_fetch search_inv_set_key search_inv_arrives search_inv_fails

text \<open>The operations that leave the search alone.\<close>

definition same_search :: "audit_page \<Rightarrow> audit_page \<Rightarrow> bool" where
  "same_search p q =
     (search q = search p \<and> requestedAuthority q = requestedAuthority p \<and> searches_sent q = searches_sent p)"

lemma same_search_inv: "same_search p q \<Longrightarrow> search_inv q = search_inv p"
  by (simp add: same_search_def search_inv_def)

lemma same_search_refl [simp]: "same_search p p"
  by (simp add: same_search_def)

lemma same_search_toast [simp]: "same_search p (audit_toast ty m p)"
  by (simp add: same_search_def audit_toast_def)

lemma same_search_finally: "same_search p (context_finally g q) = same_search p q"
  by (simp add: same_search_def context_finally_def)

lemma same_search_fails [simp]: "same_search p (context_fails g e p)"
  by (simp add: context_fails_def same_search_finally split: option.splits)

lemma same_search_cancel [simp]: "same_search p (cancel_context p)"
  by (simp add: same_search_def cancel_context_def map_context_def Let_def split: option.splits)

lemma same_search_map_context [simp]: "same_search p (map_context f g p)"
  by (simp add: same_search_def map_context_def)

lemma same_search_retain [simp]: "same_search p (retainDisplayedSnapshot p)"
  by (simp add: same_search_def retainDisplayedSnapshot_def)

lemma same_search_export_catch [simp]: "same_search p (export_catch scope err p)"
  by (simp add: export_catch_def)

lemma same_search_export_settles [simp]: "same_search p (export_settles now r p)"
  using same_search_export_catch [of p]
  by (simp add: export_settles_def same_search_def Let_def split: option.splits sum.splits)

lemma same_search_verify [simp]: "same_search p (verify_settles can answer p)"
  by (simp add: verify_settles_def same_search_def audit_toast_def Let_def split: sum.splits)

lemma same_search_click_export [simp]:
  "same_search p (case handleExport can format p of Inr q \<Rightarrow> q | Inl e \<Rightarrow> p)"
  by (simp add: handleExport_def same_search_def split: sum.splits)

lemma same_search_cancelExport [simp]: "same_search p (cancelExport p)"
  by (simp add: cancelExport_def same_search_def split: option.splits)

lemma search_inv_retain: "search_inv p \<Longrightarrow> search_inv (retainDisplayedSnapshot p)"
  using same_search_inv [OF same_search_retain] by blast

lemma search_inv_unmount: "search_inv (unmount_audit p)"
  by (simp add: search_inv_def unmount_audit_def Let_def)

lemma search_inv_submit: "search_inv p \<Longrightarrow> search_inv (handleSearchSubmit can p)"
  using search_inv_set_key [OF search_inv_retain, of p can "requestedAuthority p" 1]
  by (simp add: handleSearchSubmit_def Let_def search_inv_def)

lemma search_inv_reset: "search_inv p \<Longrightarrow> search_inv (handleReset_audit can p)"
  unfolding handleReset_audit_def Let_def
  by (rule search_inv_set_key)
    (simp add: search_inv_def retainDisplayedSnapshot_def same_search_cancel [unfolded same_search_def])

lemma search_inv_context: "search_inv p \<Longrightarrow> search_inv (context_arrives can g a p)"
  using search_inv_set_key [of p can a "current_page p"]
  by (simp add: context_arrives_def context_finally_def search_inv_def split: option.splits)

lemma search_inv_next: "search_inv p \<Longrightarrow> search_inv (next_page can p)"
  by (simp add: next_page_def Let_def search_inv_set_key search_inv_retain split: option.splits)

lemma search_inv_prev: "search_inv p \<Longrightarrow> search_inv (prev_page can p)"
  by (simp add: prev_page_def search_inv_set_key search_inv_retain split: option.splits)

lemma search_inv_step: "search_inv p \<Longrightarrow> search_inv (audit_step can e p)"
  by (cases e)
    (simp_all add: search_inv_ops search_inv_unmount search_inv_submit search_inv_reset search_inv_context
      search_inv_next search_inv_prev
      same_search_inv [OF same_search_fails] same_search_inv [OF same_search_map_context]
      same_search_inv [OF same_search_export_settles] same_search_inv [OF same_search_verify]
      same_search_inv [OF same_search_click_export] same_search_inv [OF same_search_cancelExport])

lemma audit_run_invariant:
  assumes "P p" and "\<And>q e. P q \<Longrightarrow> e \<in> set es \<Longrightarrow> P (audit_step can e q)"
  shows "P (audit_run can es p)"
  unfolding audit_run_def by (rule foldl_invariant) (use assms in blast)+

lemma search_inv_reachable: "search_inv (audit_run can es (mount_audit can))"
proof (rule audit_run_invariant)
  show "search_inv (mount_audit can)"
    by (simp add: mount_audit_def start_fetch_def search_inv_def)
qed (rule search_inv_step)

section \<open>Withdrawn filter contexts\<close>

definition contexts_bounded :: "audit_page \<Rightarrow> bool" where
  "contexts_bounded p = list_all (\<lambda>c. call_generation c \<le> context_generation p) (context_calls p)"

text \<open>
  Nothing that is still running may set the authority, which is the unfiltered one, and no search from the
  n-th on was filtered.
\<close>

definition withdrawn :: "nat \<Rightarrow> audit_page \<Rightarrow> bool" where
  "withdrawn n p =
     (list_all (\<lambda>c. call_generation c < context_generation p) (context_calls p) \<and>
      requestedAuthority p = UNFILTERED_AUTHORITY \<and> n \<le> length (searches_sent p) \<and>
      list_all (\<lambda>x. param_filter_context x = None) (drop n (searches_sent p)))"

definition same_contexts :: "audit_page \<Rightarrow> audit_page \<Rightarrow> bool" where
  "same_contexts p q =
     (context_calls q = context_calls p \<and> context_generation q = context_generation p)"

lemma same_contexts_refl [simp]: "same_contexts p p"
  by (simp add: same_contexts_def)

lemma same_contexts_bounded: "same_contexts p q \<Longrightarrow> contexts_bounded q = contexts_bounded p"
  by (simp add: same_contexts_def contexts_bounded_def)

lemma same_contexts_withdrawn: "same_contexts p q \<Longrightarrow> same_search p q \<Longrightarrow> withdrawn n q = withdrawn n p"
  by (simp add: same_contexts_def same_search_def withdrawn_def)

lemma same_contexts_ops [simp]:
  "same_contexts p (audit_toast ty m p)"
  "same_contexts p (start_fetch can p)"
  "same_contexts p (retainDisplayedSnapshot p)"
  "same_contexts p (search_arrives r p)"
  "same_contexts p (search_fails p)"
  "same_contexts p (export_catch scope err p)"
  "same_contexts p (cancelExport p)"
  "same_contexts p (handleVerify can p)"
  "same_contexts p (verify_settles can answer p)"
  "same_contexts p (case handleExport can format p of Inr q \<Rightarrow> q | Inl e \<Rightarrow> p)"
  by (simp_all add: same_contexts_def audit_toast_def start_fetch_def retainDisplayedSnapshot_def search_arrives_def
      search_fails_def export_catch_def cancelExport_def handleVerify_def verify_settles_def handleExport_def Let_def
      split: option.splits sum.splits)

lemma same_contexts_export_settles [simp]: "same_contexts p (export_settles now r p)"
  using same_contexts_ops(6) [of p]
  by (simp add: export_settles_def same_contexts_def Let_def split: option.splits sum.splits)

lemma same_contexts_set_key [simp]: "same_contexts p (set_key can a n p)"
  by (simp add: set_key_def start_fetch_def same_contexts_def Let_def)

lemma set_key_retained_contexts [simp]: "same_contexts p (set_key can a n (retainDisplayedSnapshot p))"
  by (simp add: set_key_def start_fetch_def retainDisplayedSnapshot_def same_contexts_def Let_def)

lemma same_contexts_pages [simp]:
  "same_contexts p (next_page can p)"
  "same_contexts p (prev_page can p)"
  by (simp_all add: next_page_def prev_page_def Let_def split: option.splits)

lemma same_search_handleVerify [simp]: "same_search p (handleVerify can p)"
  by (simp add: same_search_def handleVerify_def)

lemma find_call_SomeD: "find_call g p = Some c \<Longrightarrow> c \<in> set (context_calls p) \<and> call_generation c = g"
  unfolding find_call_def by (drule find_first_Some)

lemma map_context_generations:
  "map call_generation (context_calls (map_context f g p)) = map call_generation (context_calls p)"
  by (simp add: map_context_def)

lemma map_context_bounds [simp]:
  "list_all (\<lambda>c. call_generation c < m) (context_calls (map_context f g p)) = list_all (\<lambda>c. call_generation c < m) (context_calls p)"
  "list_all (\<lambda>c. call_generation c \<le> m) (context_calls (map_context f g p)) = list_all (\<lambda>c. call_generation c \<le> m) (context_calls p)"
  using arg_cong [OF map_context_generations, of "list_all (\<lambda>k. k < m)" f g p]
    arg_cong [OF map_context_generations, of "list_all (\<lambda>k. k \<le> m)" f g p]
  by (simp_all add: list.pred_map comp_def)

lemma map_context_generation [simp]: "context_generation (map_context f g p) = context_generation p"
  by (simp add: map_context_def)

lemma bounded_finally: "contexts_bounded p \<Longrightarrow> contexts_bounded (context_finally g p)"
  by (simp add: contexts_bounded_def context_finally_def list_all_iff)

lemma bounded_map_context: "contexts_bounded (map_context f g p) = contexts_bounded p"
  by (simp add: contexts_bounded_def)

lemma cancel_strict:
  "contexts_bounded p \<Longrightarrow>
   list_all (\<lambda>c. call_generation c < context_generation (cancel_context p)) (context_calls (cancel_context p))"
  by (simp add: contexts_bounded_def cancel_context_def Let_def less_Suc_eq_le split: option.splits)

lemma bounded_cancel: "contexts_bounded p \<Longrightarrow> contexts_bounded (cancel_context p)"
  using cancel_strict [of p] by (auto simp: contexts_bounded_def list_all_iff)

lemma bounded_unmount: "contexts_bounded p \<Longrightarrow> contexts_bounded (unmount_audit p)"
  unfolding unmount_audit_def Let_def
  using bounded_cancel by (simp add: contexts_bounded_def)

lemma reset_contexts: "same_contexts (cancel_context p) (handleReset_audit can p)"
  by (simp add: handleReset_audit_def same_contexts_def set_key_def start_fetch_def retainDisplayedSnapshot_def Let_def)

lemma bounded_submit: "contexts_bounded p \<Longrightarrow> contexts_bounded (handleSearchSubmit can p)"
  using set_key_retained_contexts [of p can "requestedAuthority p" 1]
  by (auto simp: handleSearchSubmit_def contexts_bounded_def same_contexts_def list_all_iff Let_def)

lemma bounded_arrives: "contexts_bounded p \<Longrightarrow> contexts_bounded (context_arrives can g a p)"
  using same_contexts_bounded [OF same_contexts_set_key [of p can a "current_page p"]]
  by (simp add: context_arrives_def bounded_finally split: option.splits)

lemma bounded_fails: "contexts_bounded p \<Longrightarrow> contexts_bounded (context_fails g e p)"
  using same_contexts_bounded [OF same_contexts_ops(1) [where p = p]]
  by (simp add: context_fails_def bounded_finally split: option.splits)

lemmas same_contexts_boundedI = same_contexts_ops [THEN same_contexts_bounded]
  same_contexts_pages [THEN same_contexts_bounded] same_contexts_export_settles [THEN same_contexts_bounded]

lemma bounded_updates [simp]:
  "contexts_bounded (p\<lparr>drafts := d\<rparr>) = contexts_bounded p"
  "contexts_bounded (p\<lparr>audit_toasts := ts\<rparr>) = contexts_bounded p"
  "contexts_bounded (p\<lparr>export_running := ex\<rparr>) = contexts_bounded p"
  by (simp_all add: contexts_bounded_def)

lemma bounded_step: "contexts_bounded p \<Longrightarrow> contexts_bounded (audit_step can e p)"
  by (cases e)
    (simp_all add: same_contexts_boundedI bounded_submit bounded_arrives bounded_fails bounded_map_context
      bounded_unmount same_contexts_bounded [OF reset_contexts] bounded_cancel)

lemma bounded_reachable: "contexts_bounded (audit_run can es (mount_audit can))"
proof (rule audit_run_invariant)
  show "contexts_bounded (mount_audit can)"
    by (simp add: mount_audit_def start_fetch_def contexts_bounded_def)
qed (rule bounded_step)

lemma withdrawn_start_fetch: "withdrawn n p \<Longrightarrow> withdrawn n (start_fetch can p)"
  by (simp add: withdrawn_def start_fetch_def UNFILTERED_AUTHORITY_def contextToSearchParams_def)

lemma withdrawn_set_key: "withdrawn n p \<Longrightarrow> withdrawn n (set_key can UNFILTERED_AUTHORITY k p)"
  unfolding set_key_def Let_def
  by (auto intro!: withdrawn_start_fetch) (simp_all add: withdrawn_def)

lemma withdrawn_reset:
  assumes "contexts_bounded p"
  shows "withdrawn (length (searches_sent p)) (handleReset_audit can p)"
proof -
  let ?q = "retainDisplayedSnapshot ((cancel_context p)\<lparr>isCreatingContext := False\<rparr>)\<lparr>drafts := clearDraftFilters\<rparr>"
  have sent: "searches_sent ?q = searches_sent p"
    using same_search_cancel [of p] by (simp add: retainDisplayedSnapshot_def same_search_def)
  have "withdrawn (length (searches_sent p)) (?q\<lparr>requestedAuthority := UNFILTERED_AUTHORITY\<rparr>)"
    using cancel_strict [OF assms] sent by (simp add: withdrawn_def retainDisplayedSnapshot_def)
  moreover have "withdrawn n (q\<lparr>requestedAuthority := UNFILTERED_AUTHORITY\<rparr>) \<Longrightarrow>
      withdrawn n (set_key can UNFILTERED_AUTHORITY k q)" for n q k
    unfolding set_key_def Let_def
    by (auto intro!: withdrawn_start_fetch) (simp_all add: withdrawn_def)
  ultimately show ?thesis unfolding handleReset_audit_def Let_def by blast
qed

lemma withdrawn_retained: "withdrawn n p \<Longrightarrow> withdrawn n (retainDisplayedSnapshot p)"
  by (simp add: withdrawn_def retainDisplayedSnapshot_def)

lemma withdrawn_authority: "withdrawn n p \<Longrightarrow> requestedAuthority p = UNFILTERED_AUTHORITY"
  by (simp add: withdrawn_def)

lemma withdrawn_pages:
  "withdrawn n p \<Longrightarrow> withdrawn n (next_page can p)"
  "withdrawn n p \<Longrightarrow> withdrawn n (prev_page can p)"
  by (simp_all add: next_page_def prev_page_def Let_def withdrawn_authority withdrawn_set_key withdrawn_retained
      split: option.splits)

lemma withdrawn_finally: "withdrawn n p \<Longrightarrow> withdrawn n (context_finally g p)"
  by (simp add: withdrawn_def context_finally_def list_all_iff)

lemma withdrawn_arrives: "withdrawn n p \<Longrightarrow> withdrawn n (context_arrives can g a p)"
proof (cases "find_call g p")
  case (Some c)
  moreover assume w: "withdrawn n p"
  ultimately have "context_generation p \<noteq> g"
    using find_call_SomeD [OF Some] by (auto simp: withdrawn_def list_all_iff)
  then show ?thesis using w Some by (simp add: context_arrives_def withdrawn_finally)
qed (simp add: context_arrives_def)

lemma withdrawn_fails: "withdrawn n p \<Longrightarrow> withdrawn n (context_fails g e p)"
  using same_contexts_withdrawn [OF same_contexts_ops(1) [where p = p] same_search_toast, of n]
  by (simp add: context_fails_def withdrawn_finally split: option.splits)

lemma withdrawn_map: "withdrawn n p \<Longrightarrow> withdrawn n (map_context f g p)"
  using same_search_map_context [of p f g] by (simp add: withdrawn_def same_search_def)

lemma withdrawn_updates [simp]:
  "withdrawn n (p\<lparr>drafts := d\<rparr>) = withdrawn n p"
  "withdrawn n (p\<lparr>audit_toasts := ts\<rparr>) = withdrawn n p"
  "withdrawn n (p\<lparr>export_running := ex\<rparr>) = withdrawn n p"
  "withdrawn n (p\<lparr>search := q\<rparr>) = withdrawn n p"
  by (simp_all add: withdrawn_def)

lemma withdrawn_bounded: "withdrawn n p \<Longrightarrow> contexts_bounded p"
  by (auto simp: withdrawn_def contexts_bounded_def list_all_iff intro: less_imp_le)

lemma withdrawn_cancel: "withdrawn n p \<Longrightarrow> withdrawn n (cancel_context p)"
  using same_search_cancel [of p] cancel_strict [OF withdrawn_bounded, of n p]
  by (simp add: withdrawn_def same_search_def)

lemma withdrawn_unmount: "withdrawn n p \<Longrightarrow> withdrawn n (unmount_audit p)"
  unfolding unmount_audit_def Let_def withdrawn_updates
  by (rule withdrawn_cancel) (simp add: withdrawn_def)

lemma withdrawn_again: "withdrawn n p \<Longrightarrow> withdrawn n (handleReset_audit can p)"
  unfolding handleReset_audit_def Let_def
  using withdrawn_cancel [of n p]
  by (intro withdrawn_set_key) (simp add: withdrawn_def retainDisplayedSnapshot_def)

lemma withdrawn_searches:
  "withdrawn n p \<Longrightarrow> withdrawn n (search_arrives r p)"
  "withdrawn n p \<Longrightarrow> withdrawn n (search_fails p)"
  by (simp_all add: withdrawn_def search_arrives_def search_fails_def Let_def split: option.splits)

lemma withdrawn_step: "withdrawn n p \<Longrightarrow> e \<noteq> SubmitSearch \<Longrightarrow> withdrawn n (audit_step can e p)"
  by (cases e)
    (simp_all add: withdrawn_start_fetch withdrawn_pages withdrawn_arrives withdrawn_fails withdrawn_map withdrawn_unmount
      withdrawn_again withdrawn_searches
      same_contexts_withdrawn [OF same_contexts_export_settles same_search_export_settles]
      same_contexts_withdrawn [OF same_contexts_ops(7) same_search_cancelExport]
      same_contexts_withdrawn [OF same_contexts_ops(8) same_search_handleVerify]
      same_contexts_withdrawn [OF same_contexts_ops(9) same_search_verify]
      same_contexts_withdrawn [OF same_contexts_ops(10) same_search_click_export])

lemma withdrawn_run:
  assumes "withdrawn n p" and "SubmitSearch \<notin> set es"
  shows "withdrawn n (audit_run can es p)"
proof (rule audit_run_invariant [where P = "withdrawn n", OF assms(1)])
  fix q e assume "withdrawn n q" and "e \<in> set es"
  moreover from this assms(2) have "e \<noteq> SubmitSearch" by auto
  ultimately show "withdrawn n (audit_step can e q)" by (simp add: withdrawn_step)
qed

section \<open>Exports and downloads\<close>

definition download_ok :: "audit_page \<Rightarrow> units \<Rightarrow> bool" where
  "download_ok p name \<longleftrightarrow> (\<exists>f ctx. (f, ctx) \<in> set (exports_sent p) \<and> contract_name f name)"

definition export_inv :: "bool \<Rightarrow> audit_page \<Rightarrow> bool" where
  "export_inv can p =
     (pred_option (\<lambda>c. scope_inv (export_scope c) \<and> (export_format c, export_context_sent c) \<in> set (exports_sent p) \<and>
        (mounted p \<longrightarrow> export_owned c)) (export_running p) \<and>
      (\<forall>name \<in> set (downloads p). download_ok p name) \<and>
      length (downloads p) + (if export_running p = None then 0 else 1) \<le> length (exports_sent p) \<and>
      (can \<or> exports_sent p = []))"

definition silenced :: "audit_page \<Rightarrow> bool" where
  "silenced p = pred_option (\<lambda>c. aborted (export_scope c)) (export_running p)"

definition same_exports :: "audit_page \<Rightarrow> audit_page \<Rightarrow> bool" where
  "same_exports p q =
     (mounted q = mounted p \<and> export_running q = export_running p \<and> exports_sent q = exports_sent p \<and>
      downloads q = downloads p)"

lemma same_exports_inv: "same_exports p q \<Longrightarrow> export_inv can q = export_inv can p"
  by (simp add: same_exports_def export_inv_def download_ok_def)

lemma same_exports_silenced: "same_exports p q \<Longrightarrow> silenced q = silenced p"
  by (simp add: same_exports_def silenced_def)

lemma same_exports_downloads: "same_exports p q \<Longrightarrow> downloads q = downloads p"
  by (simp add: same_exports_def)

lemma same_exports_trans: "same_exports p q \<Longrightarrow> same_exports q r \<Longrightarrow> same_exports p r"
  by (simp add: same_exports_def)

lemma same_exports_ops [simp]:
  "same_exports p p"
  "same_exports p (audit_toast ty m p)"
  "same_exports p (p\<lparr>drafts := d\<rparr>)"
  "same_exports p (p\<lparr>audit_toasts := ts\<rparr>)"
  "same_exports p (start_fetch can p)"
  "same_exports p (retainDisplayedSnapshot p)"
  "same_exports p (search_arrives r p)"
  "same_exports p (search_fails p)"
  "same_exports p (handleVerify can p)"
  "same_exports p (verify_settles can answer p)"
  "same_exports p (context_finally g p)"
  "same_exports p (map_context f g p)"
  "same_exports p (cancel_context p)"
  "same_exports p (export_catch scope err p)"
  by (simp_all add: same_exports_def audit_toast_def start_fetch_def retainDisplayedSnapshot_def search_arrives_def
      search_fails_def handleVerify_def verify_settles_def context_finally_def map_context_def cancel_context_def
      export_catch_def Let_def split: option.splits sum.splits)

lemma same_exports_set_key [simp]: "same_exports p (set_key can a n p)"
  by (simp add: set_key_def start_fetch_def same_exports_def Let_def)

lemma same_exports_more [simp]:
  "same_exports p (next_page can p)"
  "same_exports p (prev_page can p)"
  "same_exports p (handleSearchSubmit can p)"
  "same_exports p (context_arrives can g a p)"
  "same_exports p (context_fails g e p)"
  by (simp_all add: next_page_def prev_page_def handleSearchSubmit_def context_arrives_def context_fails_def
      set_key_def start_fetch_def retainDisplayedSnapshot_def context_finally_def audit_toast_def
      same_exports_def Let_def split: option.splits)

lemma same_exports_reset [simp]: "same_exports p (handleReset_audit can p)"
  using same_exports_ops(13) [of p]
  by (simp add: handleReset_audit_def set_key_def start_fetch_def retainDisplayedSnapshot_def same_exports_def Let_def)

text \<open>The events that neither start, end nor abort an export.\<close>

fun export_event :: "audit_event \<Rightarrow> bool" where
  "export_event (ClickExport f) = True"
| "export_event ClickCancel = True"
| "export_event ExportDeadline = True"
| "export_event (ExportSettles now r) = True"
| "export_event UnmountAudit = True"
| "export_event e = False"

lemma other_events_same: "\<not> export_event e \<Longrightarrow> same_exports p (audit_step can e p)"
  by (cases e) simp_all

lemma aborted_abort: "scope_inv s \<Longrightarrow> aborted (abort s)"
  by (simp add: scope_inv_def scope_simps)

lemma aborted_kept: "aborted s \<Longrightarrow> aborted (abort s) \<and> aborted (dispose s) \<and> aborted (timer_fires s)"
  by (simp add: scope_simps)

lemmas scope_inv_ops = scope_inv_step [where e = CallAbort, simplified] scope_inv_step [where e = CallDispose, simplified]
  scope_inv_step [where e = TimerFires, simplified]

lemma downloaded_name_contract:
  "calendar_time now \<Longrightarrow> exportAuditEntries now f response = Inr d \<Longrightarrow> contract_name f (dl_filename d)"
  using exported_filename_is_safe [where now = now and f = f and response = response] by simp

text \<open>The clock of every settled export shows a calendar time.\<close>

fun clock_ok :: "audit_event \<Rightarrow> bool" where
  "clock_ok (ExportSettles now r) = calendar_time now"
| "clock_ok e = True"

lemma export_inv_click:
  "export_inv can p \<Longrightarrow> mounted p \<Longrightarrow>
   export_inv can (case handleExport can format p of Inr q \<Rightarrow> q | Inl e \<Rightarrow> p)"
  by (cases "export_running p")
    (auto simp: export_inv_def handleExport_def requirePermission_def download_ok_def scope_inv_new)

lemma export_inv_cancel: "export_inv can p \<Longrightarrow> export_inv can (cancelExport p)"
  by (cases "export_running p") (auto simp: export_inv_def cancelExport_def download_ok_def scope_inv_ops)

lemma export_inv_deadline:
  "export_inv can p \<Longrightarrow>
   export_inv can (p\<lparr>export_running := map_option (\<lambda>c. c\<lparr>export_scope := timer_fires (export_scope c)\<rparr>) (export_running p)\<rparr>)"
  by (cases "export_running p") (simp_all add: export_inv_def download_ok_def scope_inv_ops)

lemma export_inv_unmount: "export_inv can p \<Longrightarrow> export_inv can (unmount_audit p)"
proof -
  let ?q = "p\<lparr>mounted := False,
    export_running := (case export_running p of
        Some c \<Rightarrow> Some (if export_owned c then c\<lparr>export_scope := dispose (abort (export_scope c)), export_owned := False\<rparr> else c)
      | None \<Rightarrow> None)\<rparr>"
  assume "export_inv can p"
  then have "export_inv can ?q"
    by (cases "export_running p") (simp_all add: export_inv_def download_ok_def scope_inv_ops)
  then have "export_inv can (cancel_context ?q)" using same_exports_inv [OF same_exports_ops(13)] by blast
  then show ?thesis by (simp add: unmount_audit_def Let_def export_inv_def download_ok_def)
qed

lemma export_inv_settles:
  assumes "export_inv can p" and "calendar_time now"
  shows "export_inv can (export_settles now r p)"
proof (cases "export_running p")
  case (Some c)
  show ?thesis
  proof (cases "exportAuditEntries now (export_format c) r")
    case (Inr d)
    with Some assms downloaded_name_contract [OF assms(2) Inr] show ?thesis
      by (auto simp: export_settles_def export_inv_def download_ok_def)
  next
    case (Inl err)
    with Some assms(1) same_exports_ops(14) [of p "export_scope c" err] show ?thesis
      by (auto simp: export_settles_def export_inv_def download_ok_def same_exports_def)
  qed
qed (simp add: export_settles_def assms)

lemma export_inv_step: "export_inv can p \<Longrightarrow> clock_ok e \<Longrightarrow> export_inv can (audit_step can e p)"
proof (cases "export_event e")
  case True
  assume "export_inv can p" and "clock_ok e"
  with True show ?thesis
    by (cases e)
      (simp_all add: export_inv_click export_inv_cancel export_inv_deadline export_inv_unmount export_inv_settles)
qed (simp add: same_exports_inv [OF other_events_same])

lemma export_inv_reachable: "list_all clock_ok es \<Longrightarrow> export_inv can (audit_run can es (mount_audit can))"
proof (rule audit_run_invariant)
  show "export_inv can (mount_audit can)"
    by (simp add: mount_audit_def start_fetch_def export_inv_def)
qed (simp add: export_inv_step list_all_iff)

lemma silenced_cancel: "export_inv can p \<Longrightarrow> mounted p \<Longrightarrow> silenced (cancelExport p)"
  by (cases "export_running p") (simp_all add: export_inv_def silenced_def cancelExport_def aborted_abort)

lemma unmount_exports:
  "export_running (unmount_audit p) = map_option (\<lambda>c. if export_owned c
     then c\<lparr>export_scope := dispose (abort (export_scope c)), export_owned := False\<rparr> else c) (export_running p)"
  "downloads (unmount_audit p) = downloads p"
  by (simp_all add: unmount_audit_def cancel_context_def map_context_def Let_def split: option.splits)

lemma silenced_unmount: "export_inv can p \<Longrightarrow> mounted p \<Longrightarrow> silenced (unmount_audit p)"
  by (cases "export_running p") (simp_all add: export_inv_def silenced_def unmount_exports aborted_abort aborted_kept)

lemma silenced_settles: "silenced p \<Longrightarrow> silenced (export_settles now r p) \<and> downloads (export_settles now r p) = downloads p"
  using same_exports_ops(14) [of p]
  by (auto simp: silenced_def export_settles_def same_exports_def split: option.splits sum.splits)

lemma silenced_step:
  assumes "silenced p" and "\<forall>f. e \<noteq> ClickExport f"
  shows "silenced (audit_step can e p) \<and> downloads (audit_step can e p) = downloads p"
proof (cases "export_event e")
  case True
  then show ?thesis
    using assms silenced_settles [OF assms(1)]
    by (cases e; cases "export_running p")
      (auto simp: silenced_def cancelExport_def unmount_exports aborted_kept)
qed (simp add: assms same_exports_silenced [OF other_events_same] same_exports_downloads [OF other_events_same])

lemma silenced_run:
  assumes "silenced p" and "\<forall>f. ClickExport f \<notin> set es"
  shows "downloads (audit_run can es p) = downloads p"
proof -
  have "silenced (audit_run can es p) \<and> downloads (audit_run can es p) = downloads p"
  proof (rule audit_run_invariant [where P = "\<lambda>q. silenced q \<and> downloads q = downloads p"])
    fix q e assume "silenced q \<and> downloads q = downloads p" and "e \<in> set es"
    moreover from this assms(2) have "\<forall>f. e \<noteq> ClickExport f" by auto
    ultimately show "silenced (audit_step can e q) \<and> downloads (audit_step can e q) = downloads p"
      using silenced_step [of q e can] by simp
  qed (simp add: assms(1))
  then show ?thesis ..
qed

section \<open>One export in flight\<close>

definition export_settlement :: "audit_event \<Rightarrow> bool" where
  "export_settlement e = (case e of ExportSettles now r \<Rightarrow> True | _ \<Rightarrow> False)"

definition owned_inv :: "audit_page \<Rightarrow> bool" where
  "owned_inv p = (mounted p \<longrightarrow> pred_option export_owned (export_running p))"

lemma unmount_mounted [simp]: "mounted (unmount_audit p) = False" "exports_sent (unmount_audit p) = exports_sent p"
  by (simp_all add: unmount_audit_def cancel_context_def map_context_def Let_def split: option.splits)

lemma same_exports_owned: "same_exports p q \<Longrightarrow> owned_inv q = owned_inv p"
  by (simp add: same_exports_def owned_inv_def)

lemma same_exports_flight:
  "same_exports p q \<Longrightarrow> (export_running q \<noteq> None) = (export_running p \<noteq> None) \<and> exports_sent q = exports_sent p"
  by (simp add: same_exports_def)

lemma export_settles_flight:
  "export_running (export_settles now r p) = None" "exports_sent (export_settles now r p) = exports_sent p"
  using same_exports_ops(14) [of p]
  by (simp_all add: export_settles_def same_exports_def Let_def split: option.splits sum.splits)

lemma owned_inv_step: "owned_inv p \<Longrightarrow> owned_inv (audit_step can e p)"
proof (cases "export_event e")
  case True
  assume "owned_inv p"
  with True show ?thesis
    by (cases e; cases "export_running p")
      (auto simp: owned_inv_def cancelExport_def handleExport_def export_settles_flight split: sum.splits)
qed (simp add: same_exports_owned [OF other_events_same])

lemma click_export_busy:
  "owned_inv p \<Longrightarrow> export_running p \<noteq> None \<Longrightarrow> audit_step can (ClickExport f) p = p"
  by (auto simp: owned_inv_def handleExport_def split: sum.split)

interpretation export_flight: single_flight "audit_step can" owned_inv "\<lambda>p. export_running p \<noteq> None"
    "\<lambda>p. length (exports_sent p)" export_settlement for can
proof
  fix p :: audit_page and e :: audit_event
  assume inv: "owned_inv p"
  then show "owned_inv (audit_step can e p)" by (rule owned_inv_step)
  show "export_running (audit_step can e p) \<noteq> None \<and> length (exports_sent (audit_step can e p)) = length (exports_sent p)"
    if busy: "export_running p \<noteq> None" and "\<not> export_settlement e"
  proof (cases "export_event e")
    case True
    with that click_export_busy [OF inv busy, of can] show ?thesis
      by (cases e) (auto simp: export_settlement_def cancelExport_def unmount_exports simp del: audit_step.simps(12)
          split: option.split)
  qed (use busy same_exports_flight [OF other_events_same [of e p can]] in simp)
  show "length (exports_sent (audit_step can e p)) \<le> length (exports_sent p) + of_bool (export_running (audit_step can e p) \<noteq> None)"
    if idle: "\<not> export_running p \<noteq> None" and "\<not> export_settlement e"
  proof (cases "export_event e")
    case True
    with that show ?thesis
      by (cases e) (auto simp: export_settlement_def cancelExport_def handleExport_def split: sum.splits)
  qed (use idle same_exports_flight [OF other_events_same [of e p can]] in simp)
  show "length (exports_sent (audit_step can e p)) = length (exports_sent p)" if "export_settlement e"
    using that by (cases e) (simp_all add: export_settlement_def export_settles_flight)
qed

lemma audit_run_of: "audit_run can es p = export_flight.run_of can es p"
  by (simp add: audit_run_def export_flight.run_of_def)

section \<open>Properties\<close>

definition applied_event :: "AuditFilterAuthority" where
  "applied_event = \<lparr>auth_context = Some ''ctx'', auth_fields = [''outcome'']\<rparr>"

definition sample_search :: AuditSearchResponse where
  "sample_search = \<lparr>audit_entries = [], pag_page = 1, pag_page_size = 10, pag_total_entries = 0, pag_total_pages = 0\<rparr>"

text \<open>The page once the filter context of a search just submitted has arrived, and once that search has failed.\<close>

definition filter_requested :: "bool \<Rightarrow> AuditFilterAuthority \<Rightarrow> audit_page \<Rightarrow> audit_page" where
  "filter_requested can a p =
     audit_step can (ContextArrives (context_generation p + 1) a) (audit_step can SubmitSearch p)"

lemma find_call_new:
  assumes "contexts_bounded p"
  shows "find_first (\<lambda>c. call_generation c = Suc (context_generation p))
      (context_calls p @ [\<lparr>call_generation = Suc (context_generation p), call_ctx_scope = sc\<rparr>]) =
    Some \<lparr>call_generation = Suc (context_generation p), call_ctx_scope = sc\<rparr>"
proof -
  have "find_first (\<lambda>c. call_generation c = Suc n) (cs @ [\<lparr>call_generation = Suc n, call_ctx_scope = sc\<rparr>]) =
      Some \<lparr>call_generation = Suc n, call_ctx_scope = sc\<rparr>" if "list_all (\<lambda>c. call_generation c \<le> n) cs" for n cs
    using that by (induction cs) auto
  with assms show ?thesis by (simp add: contexts_bounded_def)
qed

lemma set_key_other:
  "auth_context a \<noteq> auth_context (requestedAuthority p) \<Longrightarrow>
   set_key True a n p =
     p\<lparr>requestedAuthority := a, current_page := n,
       search := (search p)\<lparr>search_status := SearchPending, search_data := None, search_fetch := Some a\<rparr>,
       searches_sent := searches_sent p @ [contextToSearchParams (auth_context a) n]\<rparr>"
  by (simp add: set_key_def start_fetch_def Let_def)

lemma set_key_keeps [simp]:
  "search_last (search (set_key can a n p)) = search_last (search p)"
  "retainedSnapshot (set_key can a n p) = retainedSnapshot p"
  "mounted (set_key can a n p) = mounted p" "isExporting (set_key can a n p) = isExporting p"
  "export_running (set_key can a n p) = export_running p" "exports_sent (set_key can a n p) = exports_sent p"
  "requestedAuthority (set_key can a n p) = a"
  by (simp_all add: set_key_def start_fetch_def Let_def)

text \<open>What the page holds after that, when the unfiltered dataset was on display.\<close>

lemma filter_requested_state:
  assumes "contexts_bounded p" and "search_inv p" and "mounted p" and "context_ref p = None"
    and "\<not> isCreatingContext p" and "search_data (search p) = Some s" and "snap_context s = None"
    and "auth_context a = Some ctx"
  shows "requestedAuthority (filter_requested True a p) = a \<and>
    search (filter_requested True a p) =
      \<lparr>search_status = SearchPending, search_data = None, search_last = Some s, search_fetch = Some a\<rparr> \<and>
    retainedSnapshot (filter_requested True a p) = Some s \<and> mounted (filter_requested True a p) \<and>
    isExporting (filter_requested True a p) = isExporting p \<and>
    export_running (filter_requested True a p) = export_running p \<and>
    exports_sent (filter_requested True a p) = exports_sent p"
proof -
  let ?sc = "new_RequestScope NoParent (Some (Fin (of_int ORDINARY_REQUEST_TIMEOUT_MS)))"
  let ?p1 = "handleSearchSubmit True p"
  have key: "search_last (search p) = Some s" "auth_context (requestedAuthority p) = None"
    using assms(2,6,7) by (auto simp: search_inv_def)
  have p1: "context_generation ?p1 = Suc (context_generation p)" "mounted ?p1" "requestedAuthority ?p1 = requestedAuthority p"
    "search_last (search ?p1) = Some s" "retainedSnapshot ?p1 = Some s" "isExporting ?p1 = isExporting p"
    "export_running ?p1 = export_running p" "exports_sent ?p1 = exports_sent p"
    "context_calls ?p1 = context_calls p @ [\<lparr>call_generation = Suc (context_generation p), call_ctx_scope = ?sc\<rparr>]"
    using assms key
    by (simp_all add: handleSearchSubmit_def Let_def retainDisplayedSnapshot_def snapshot_def search_result_def)
  have "find_call (Suc (context_generation p)) ?p1 =
      Some \<lparr>call_generation = Suc (context_generation p), call_ctx_scope = ?sc\<rparr>"
    using find_call_new [OF assms(1)] by (simp add: find_call_def p1)
  moreover have "\<not> aborted ?sc" by code_simp
  ultimately have "context_arrives True (Suc (context_generation p)) a ?p1 =
      context_finally (Suc (context_generation p)) (set_key True a (current_page ?p1) ?p1)"
    using p1 by (simp add: context_arrives_def)
  moreover have "set_key True a (current_page ?p1) ?p1 =
      ?p1\<lparr>requestedAuthority := a, current_page := current_page ?p1,
         search := (search ?p1)\<lparr>search_status := SearchPending, search_data := None, search_fetch := Some a\<rparr>,
         searches_sent := searches_sent ?p1 @ [contextToSearchParams (auth_context a) (current_page ?p1)]\<rparr>"
    using key(2) assms(8) p1 by (intro set_key_other) simp
  ultimately show ?thesis
    using assms(3,5) p1 by (simp add: filter_requested_def context_finally_def)
qed

text \<open>
  C28. What an export asks for, in every run. While a dataset is displayed that has a filter context, or the
  search of the requested authority has an answer, it is the filter context of the displayed dataset.
  Otherwise, when the unfiltered dataset is displayed and the requested search has no answer, \<open>??\<close> takes the
  null context for a missing one and the export asks for the filter of the requested search, which is not the
  one displayed. That case is reached from every state that displays the answer of the unfiltered search and
  is idle, with the permission: a search is submitted and its filter context, \<open>ctx\<close>, arrives; both while that search is pending and
  after it has failed the unfiltered dataset stays on display and an export is sent with \<open>ctx\<close>.
\<close>

theorem export_names_displayed_dataset:
  assumes "p = audit_run can es (mount_audit can)" and "snapshot p = Some s"
  shows "exportFilterContext p =
      (if snap_context s \<noteq> None \<or> search_data (search p) \<noteq> None then snap_context s
       else auth_context (requestedAuthority p)) \<and>
    (can \<and> mounted p \<and> context_ref p = None \<and> \<not> isCreatingContext p \<and> isExporting p = None \<and> export_running p = None \<and>
     search_data (search p) = Some s \<and> snap_context s = None \<and> auth_context a = Some ctx \<longrightarrow>
       (let pending = filter_requested can a p; failed = audit_step can SearchFails pending
        in snapshot pending = Some s \<and>
           exports_sent (audit_step can (ClickExport format) pending) = exports_sent p @ [(format, Some ctx)] \<and>
           snapshot failed = Some s \<and>
           exports_sent (audit_step can (ClickExport format) failed) = exports_sent p @ [(format, Some ctx)]))"
proof (intro conjI impI)
  have inv: "search_inv p" using assms(1) search_inv_reachable by simp
  then show "exportFilterContext p =
      (if snap_context s \<noteq> None \<or> search_data (search p) \<noteq> None then snap_context s
       else auth_context (requestedAuthority p))"
    using assms(2)
    by (cases "search_data (search p)"; cases "snap_context s")
      (auto simp: search_inv_def exportFilterContext_def snapshot_def search_result_def split: option.splits)
  assume idle: "can \<and> mounted p \<and> context_ref p = None \<and> \<not> isCreatingContext p \<and> isExporting p = None \<and>
     export_running p = None \<and> search_data (search p) = Some s \<and> snap_context s = None \<and> auth_context a = Some ctx"
  let ?q = "filter_requested can a p"
  note q = filter_requested_state [OF bounded_reachable [of can es, folded assms(1)] inv, of s a ctx]
  from q idle show "let pending = ?q; failed = audit_step can SearchFails pending
        in snapshot pending = Some s \<and>
           exports_sent (audit_step can (ClickExport format) pending) = exports_sent p @ [(format, Some ctx)] \<and>
           snapshot failed = Some s \<and>
           exports_sent (audit_step can (ClickExport format) failed) = exports_sent p @ [(format, Some ctx)]"
    by (simp add: Let_def snapshot_def search_result_def search_fails_def handleExport_def requirePermission_def
        exportFilterContext_def)
qed

theorem export_names_displayed_dataset_witness:
  "exports_sent (audit_step True (ClickExport Csv) (audit_step True SearchFails
     (filter_requested True applied_event (audit_run True [SearchArrives sample_search] (mount_audit True))))) =
   [(Csv, Some ''ctx'')]"
proof -
  let ?p = "audit_run True [SearchArrives sample_search] (mount_audit True)"
  let ?s = "\<lparr>snap_context = None, snap_fields = [], snap_response = sample_search\<rparr>"
  have s: "snapshot ?p = Some ?s" by code_simp
  have "mounted ?p \<and> context_ref ?p = None \<and> \<not> isCreatingContext ?p \<and> isExporting ?p = None \<and> export_running ?p = None \<and>
      search_data (search ?p) = Some ?s \<and> snap_context ?s = None \<and> auth_context applied_event = Some ''ctx''"
    by code_simp
  moreover have "exports_sent ?p = []" by code_simp
  ultimately show ?thesis
    using export_names_displayed_dataset [OF refl s, of applied_event "''ctx''" Csv] by (simp add: Let_def del: audit_step.simps)
qed

text \<open>
  A reset withdraws the filters for good: after it no filter context that is still being created takes
  effect, however late and in whatever order the answers come, the requested authority stays the unfiltered
  one and every further search is sent without a filter context, until a search is submitted again.
\<close>

lemma reset_withdraws_filters:
  assumes "p = audit_run can es (mount_audit can)" and "mounted p" and "SubmitSearch \<notin> set fs"
    and "q = audit_run can fs (audit_step can ResetFilters p)"
  shows "requestedAuthority q = UNFILTERED_AUTHORITY \<and>
    list_all (\<lambda>x. param_filter_context x = None) (drop (length (searches_sent p)) (searches_sent q))"
proof -
  have "withdrawn (length (searches_sent p)) (audit_step can ResetFilters p)"
    using assms(1,2) bounded_reachable [of can es] by (simp add: withdrawn_reset)
  then have "withdrawn (length (searches_sent p)) (audit_run can fs (audit_step can ResetFilters p))"
    using assms(3) by (rule withdrawn_run)
  then show ?thesis using assms(4) by (simp add: withdrawn_def)
qed

text \<open>
  C29. Downloads. Exports are sent only with the permission, at most one file is saved per export that was
  sent, each with a contractual name for a format that was asked for, whatever the server names it; and once
  the export is cancelled or the page is left, no answer, early or late, saves anything until an export is
  started again.
\<close>

theorem no_download_after_cancel:
  assumes "p = audit_run can es (mount_audit can)" and "list_all clock_ok es" and "mounted p"
    and "e = ClickCancel \<or> e = UnmountAudit" and "\<forall>f. ClickExport f \<notin> set fs"
  shows "downloads (audit_run can fs (audit_step can e p)) = downloads p \<and>
    (exports_sent p = [] \<or> can) \<and> length (downloads p) \<le> length (exports_sent p) \<and>
    list_all (\<lambda>name. \<exists>f ctx. (f, ctx) \<in> set (exports_sent p) \<and> contract_name f name) (downloads p)"
proof -
  have inv: "export_inv can p" using export_inv_reachable [OF assms(2)] assms(1) by simp
  have quiet: "silenced (audit_step can e p) \<and> downloads (audit_step can e p) = downloads p"
    using inv assms(3,4) silenced_cancel [of can p] silenced_unmount [of can p]
    by (auto simp: unmount_exports cancelExport_def split: option.splits)
  then show ?thesis
    using silenced_run [of "audit_step can e p" fs can] assms(5) inv
    by (simp add: export_inv_def download_ok_def list_all_iff) linarith
qed

theorem no_download_after_cancel_witness:
  "downloads (audit_run True
     [ExportSettles sample_time (Inr \<lparr>export_blob = Some (), content_type = Some (u ''text/csv''), content_disposition = None\<rparr>)]
     (audit_step True ClickCancel (audit_run True [ClickExport Csv] (mount_audit True)))) = []"
proof -
  have "list_all clock_ok [ClickExport Csv]" and "mounted (audit_run True [ClickExport Csv] (mount_audit True))"
    and "downloads (audit_run True [ClickExport Csv] (mount_audit True)) = []" by code_simp+
  with no_download_after_cancel [OF refl this(1,2), where e = ClickCancel and fs =
    "[ExportSettles sample_time (Inr \<lparr>export_blob = Some (), content_type = Some (u ''text/csv''), content_disposition = None\<rparr>)]"]
  show ?thesis by simp
qed

end
