(* ===== verification/Policy_Editor.thy ===== *)
theory Policy_Editor
  imports Json_Parse Admin_Roles Admin_Forms
begin

text \<open>
  The editor of the connection policies of a role: \<open>frontend/src/components/admin/PolicyEditor.tsx\<close>, with the
  preview of a draft policy (\<open>RolePolicyPreview.tsx\<close>) and the editor of the group mappings
  (\<open>GroupMappingEditor.tsx\<close>). The editor changes the list of policies of its parent, one policy at a time, on a
  copy that only \<open>handleSaveActive\<close> hands back. The schema of the connection comes from the server, so the table
  and column names of the check boxes are arbitrary.
\<close>

section \<open>Data\<close>

record TableColumnPolicy =
  tc_table :: string
  tc_columns :: "string list"

record RowFilterPolicy =
  rf_table :: string
  rf_filter :: string

record policy_item =
  p_id :: "string option"
  p_connection_id :: string
  p_allowed_tables :: "TableColumnPolicy list"
  p_row_filters :: "RowFilterPolicy list"
  p_column_masks :: "TableColumnPolicy list"

definition remove_at :: "nat \<Rightarrow> 'a list \<Rightarrow> 'a list" where
  "remove_at i xs = take i xs @ drop (Suc i) xs"

fun findIndex :: "('a \<Rightarrow> bool) \<Rightarrow> 'a list \<Rightarrow> nat option" where
  "findIndex P [] = None"
| "findIndex P (x # xs) = (if P x then Some 0 else map_option Suc (findIndex P xs))"

section \<open>The JSON of a policy\<close>

definition table_json :: "TableColumnPolicy \<Rightarrow> jsval" where
  "table_json t = plain [(''table'', JStr (tc_table t)), (''columns'', JArr (map JStr (tc_columns t)))]"

definition filter_json :: "RowFilterPolicy \<Rightarrow> jsval" where
  "filter_json f = plain [(''table'', JStr (rf_table f)), (''filter'', JStr (rf_filter f))]"

definition item_json :: "policy_item \<Rightarrow> jsval" where
  "item_json p =
     plain ((case p_id p of Some i \<Rightarrow> [(''id'', JStr i)] | None \<Rightarrow> []) @
       [(''connection_id'', JStr (p_connection_id p)),
        (''allowed_tables'', JArr (map table_json (p_allowed_tables p))),
        (''row_filters'', JArr (map filter_json (p_row_filters p))),
        (''column_masks'', JArr (map table_json (p_column_masks p)))])"

definition read_string :: "jsval \<Rightarrow> string" where
  "read_string v = (case v of JStr s \<Rightarrow> s | _ \<Rightarrow> [])"

definition read_table :: "jsval \<Rightarrow> TableColumnPolicy" where
  "read_table v = \<lparr>tc_table = read_string (js_get v ''table''), tc_columns = map read_string (js_elems (js_get v ''columns''))\<rparr>"

definition read_filter :: "jsval \<Rightarrow> RowFilterPolicy" where
  "read_filter v = \<lparr>rf_table = read_string (js_get v ''table''), rf_filter = read_string (js_get v ''filter'')\<rparr>"

definition read_item :: "jsval \<Rightarrow> policy_item" where
  "read_item v =
     \<lparr>p_id = (case js_get v ''id'' of JStr i \<Rightarrow> Some i | _ \<Rightarrow> None),
      p_connection_id = read_string (js_get v ''connection_id''),
      p_allowed_tables = map read_table (js_elems (js_get v ''allowed_tables'')),
      p_row_filters = map read_filter (js_elems (js_get v ''row_filters'')),
      p_column_masks = map read_table (js_elems (js_get v ''column_masks''))\<rparr>"

text \<open>The printer of numbers, which no policy contains.\<close>

definition no_number :: "rat \<Rightarrow> string" where
  "no_number r = []"

definition json_copy :: "policy_item \<Rightarrow> policy_item option" where
  "json_copy p = map_option read_item (JSON_parse (json_text no_number (item_json p)))"

section \<open>The editor\<close>

record policy_editor =
  editingIndex :: "nat option"
  isAdding_policy :: bool
  activePolicy :: "policy_item option"
  alerts :: "string list"

definition fresh_editor :: policy_editor where
  "fresh_editor = \<lparr>editingIndex = None, isAdding_policy = False, activePolicy = None, alerts = []\<rparr>"

type_synonym editor_state = "policy_item list \<times> policy_editor"

definition filter_invalid :: "RowFilterPolicy \<Rightarrow> bool" where
  "filter_invalid rf = (rf_table rf = [] \<or> js_trim (rf_filter rf) = [])"

text \<open>The keys of the errors, \<open>filter-table-i\<close> and \<open>filter-val-i\<close>, are pairs of a kind and the index.\<close>

definition getValidationErrors :: "policy_item option \<Rightarrow> ((string \<times> nat) \<times> string) list" where
  "getValidationErrors active =
     (case active of
        None \<Rightarrow> []
      | Some p \<Rightarrow>
          concat (map (\<lambda>(idx, rf).
              if rf_table rf = [] then [((''filter-table-'', idx), ''admin.roles.form.invalidTableName'')]
              else if js_trim (rf_filter rf) = [] then [((''filter-val-'', idx), ''admin.roles.form.filterEmpty'')]
              else [])
            (zip [0..<length (p_row_filters p)] (p_row_filters p))))"

definition handleAddClick :: "policy_editor \<Rightarrow> policy_editor" where
  "handleAddClick ed =
     ed\<lparr>activePolicy := Some \<lparr>p_id = None, p_connection_id = [], p_allowed_tables = [], p_row_filters = [], p_column_masks = []\<rparr>,
        editingIndex := None, isAdding_policy := True\<rparr>"

definition handleEditClick :: "nat \<Rightarrow> policy_item list \<Rightarrow> policy_editor \<Rightarrow> policy_editor" where
  "handleEditClick index policies ed =
     ed\<lparr>activePolicy := json_copy (policies ! index), editingIndex := Some index, isAdding_policy := True\<rparr>"

definition handleDeleteClick :: "nat \<Rightarrow> policy_item list \<Rightarrow> policy_item list" where
  "handleDeleteClick index policies = remove_at index policies"

definition handleConnectionChange :: "string \<Rightarrow> policy_item \<Rightarrow> policy_item" where
  "handleConnectionChange conn p =
     p\<lparr>p_connection_id := conn, p_allowed_tables := [], p_row_filters := [], p_column_masks := []\<rparr>"

definition handleTableToggle :: "string \<Rightarrow> string list \<Rightarrow> policy_item \<Rightarrow> policy_item" where
  "handleTableToggle tableName allColumns p =
     (case findIndex (\<lambda>t. tc_table t = tableName) (p_allowed_tables p) of
        Some existingIndex \<Rightarrow>
          p\<lparr>p_allowed_tables := remove_at existingIndex (p_allowed_tables p),
            p_row_filters := filter (\<lambda>rf. rf_table rf \<noteq> tableName) (p_row_filters p),
            p_column_masks := filter (\<lambda>cm. tc_table cm \<noteq> tableName) (p_column_masks p)\<rparr>
      | None \<Rightarrow>
          p\<lparr>p_allowed_tables := p_allowed_tables p @ [\<lparr>tc_table = tableName, tc_columns = allColumns\<rparr>]\<rparr>)"

text \<open>The columns of the first entry of a table, none when there is no entry.\<close>

definition columns_in :: "string \<Rightarrow> TableColumnPolicy list \<Rightarrow> string list" where
  "columns_in name tables =
     (case find_first (\<lambda>t. tc_table t = name) tables of Some t \<Rightarrow> tc_columns t | None \<Rightarrow> [])"

definition toggle :: "string \<Rightarrow> string list \<Rightarrow> string list" where
  "toggle c cs = (if c \<in> set cs then filter (\<lambda>x. x \<noteq> c) cs else cs @ [c])"

definition handleColumnToggle :: "string \<Rightarrow> string \<Rightarrow> policy_item \<Rightarrow> policy_item" where
  "handleColumnToggle tableName columnName p =
     (let nextAllowed = map (\<lambda>t. if tc_table t \<noteq> tableName then t else t\<lparr>tc_columns := toggle columnName (tc_columns t)\<rparr>)
                          (p_allowed_tables p);
          still_allowed = (\<lambda>c. c \<in> set (columns_in tableName nextAllowed));
          nextMasks = filter (\<lambda>m. tc_columns m \<noteq> [])
                        (map (\<lambda>m. if tc_table m \<noteq> tableName then m else m\<lparr>tc_columns := filter still_allowed (tc_columns m)\<rparr>)
                          (p_column_masks p))
      in p\<lparr>p_allowed_tables := nextAllowed, p_column_masks := nextMasks\<rparr>)"

definition handleAddRowFilter :: "policy_item \<Rightarrow> policy_item" where
  "handleAddRowFilter p = p\<lparr>p_row_filters := p_row_filters p @ [\<lparr>rf_table = [], rf_filter = []\<rparr>]\<rparr>"

datatype filter_key = FilterTable | FilterText

definition handleUpdateRowFilter :: "nat \<Rightarrow> filter_key \<Rightarrow> string \<Rightarrow> policy_item \<Rightarrow> policy_item" where
  "handleUpdateRowFilter index key v p =
     (let rf = p_row_filters p ! index
      in p\<lparr>p_row_filters := (p_row_filters p)[index :=
             (case key of FilterTable \<Rightarrow> rf\<lparr>rf_table := v\<rparr> | FilterText \<Rightarrow> rf\<lparr>rf_filter := v\<rparr>)]\<rparr>)"

definition handleRemoveRowFilter :: "nat \<Rightarrow> policy_item \<Rightarrow> policy_item" where
  "handleRemoveRowFilter index p = p\<lparr>p_row_filters := remove_at index (p_row_filters p)\<rparr>"

definition handleAddColumnMask :: "policy_item \<Rightarrow> policy_item" where
  "handleAddColumnMask p = p\<lparr>p_column_masks := p_column_masks p @ [\<lparr>tc_table = [], tc_columns = []\<rparr>]\<rparr>"

definition handleUpdateColumnMaskTable :: "nat \<Rightarrow> string \<Rightarrow> policy_item \<Rightarrow> policy_item" where
  "handleUpdateColumnMaskTable index tableName p =
     p\<lparr>p_column_masks := (p_column_masks p)[index := \<lparr>tc_table = tableName, tc_columns = []\<rparr>]\<rparr>"

definition handleToggleColumnMask :: "nat \<Rightarrow> string \<Rightarrow> policy_item \<Rightarrow> policy_item" where
  "handleToggleColumnMask index columnName p =
     (let mask = p_column_masks p ! index
      in p\<lparr>p_column_masks := (p_column_masks p)[index := mask\<lparr>tc_columns := toggle columnName (tc_columns mask)\<rparr>]\<rparr>)"

definition handleRemoveColumnMask :: "nat \<Rightarrow> policy_item \<Rightarrow> policy_item" where
  "handleRemoveColumnMask index p = p\<lparr>p_column_masks := remove_at index (p_column_masks p)\<rparr>"

definition duplicate_policy :: "policy_item \<Rightarrow> nat option \<Rightarrow> policy_item list \<Rightarrow> bool" where
  "duplicate_policy active index policies =
     list_ex (\<lambda>(idx, p). p_connection_id p = p_connection_id active \<and> Some idx \<noteq> index)
       (zip [0..<length policies] policies)"

text \<open>The message of the first failed check.\<close>

definition save_alert :: "policy_item \<Rightarrow> nat option \<Rightarrow> policy_item list \<Rightarrow> string option" where
  "save_alert active index policies =
     (if p_connection_id active = [] then Some ''admin.roles.form.connectionRequired''
      else if duplicate_policy active index policies then Some ''admin.roles.form.duplicateConnectionPolicy''
      else if p_allowed_tables active = [] then Some ''admin.roles.form.noAllowedTables''
      else if list_ex (\<lambda>t. tc_columns t = []) (p_allowed_tables active) then Some ''admin.roles.form.noAllowedColumns''
      else if getValidationErrors (Some active) \<noteq> [] then Some ''admin.roles.form.validationError''
      else None)"

definition handleSaveActive :: "editor_state \<Rightarrow> editor_state" where
  "handleSaveActive s =
     (let policies = fst s; ed = snd s
      in case activePolicy ed of
           None \<Rightarrow> s
         | Some active \<Rightarrow>
             (case save_alert active (editingIndex ed) policies of
                Some message \<Rightarrow> (policies, ed\<lparr>alerts := alerts ed @ [message]\<rparr>)
              | None \<Rightarrow>
                  (let cleanedMasks = filter (\<lambda>cm. tc_table cm \<noteq> [] \<and> tc_columns cm \<noteq> []) (p_column_masks active);
                       policyToSave = active\<lparr>p_column_masks := cleanedMasks\<rparr>
                   in ((case editingIndex ed of
                          Some i \<Rightarrow> policies[i := policyToSave]
                        | None \<Rightarrow> policies @ [policyToSave]),
                       ed\<lparr>isAdding_policy := False, activePolicy := None\<rparr>))))"

definition handleCancelActive :: "policy_editor \<Rightarrow> policy_editor" where
  "handleCancelActive ed = ed\<lparr>isAdding_policy := False, activePolicy := None\<rparr>"

text \<open>The connections the selector offers, of those the client knows.\<close>

definition availableConnections :: "string list \<Rightarrow> policy_item \<Rightarrow> policy_item list \<Rightarrow> string list" where
  "availableConnections connections active policies =
     filter (\<lambda>c. c = p_connection_id active \<or> \<not> list_ex (\<lambda>p. p_connection_id p = c) policies) connections"

datatype editor_event =
    AddPolicy
  | EditPolicy nat
  | DeletePolicy nat
  | ChooseConnection string
  | ToggleTable string "string list"
  | ToggleColumn string string
  | AddRowFilter
  | UpdateRowFilter nat filter_key string
  | RemoveRowFilter nat
  | AddColumnMask
  | UpdateMaskTable nat string
  | ToggleMaskColumn nat string
  | RemoveColumnMask nat
  | SaveActive
  | CancelActive

definition tables_of :: "policy_item \<Rightarrow> string list" where
  "tables_of p = map tc_table (p_allowed_tables p)"

text \<open>
  What the controls of the open editor do to the active policy: the filter and mask selectors offer the allowed
  tables and the empty choice, the mask check boxes the allowed columns of the table of the mask.
\<close>

fun edit_active :: "editor_event \<Rightarrow> policy_item \<Rightarrow> policy_item" where
  "edit_active (ToggleTable name cols) p = handleTableToggle name cols p"
| "edit_active (ToggleColumn name col) p = (if name \<in> set (tables_of p) then handleColumnToggle name col p else p)"
| "edit_active AddRowFilter p = (if p_allowed_tables p \<noteq> [] then handleAddRowFilter p else p)"
| "edit_active (UpdateRowFilter i key v) p =
     (if i < length (p_row_filters p) \<and> (key = FilterTable \<longrightarrow> v = [] \<or> v \<in> set (tables_of p))
      then handleUpdateRowFilter i key v p else p)"
| "edit_active (RemoveRowFilter i) p = (if i < length (p_row_filters p) then handleRemoveRowFilter i p else p)"
| "edit_active AddColumnMask p = (if p_allowed_tables p \<noteq> [] then handleAddColumnMask p else p)"
| "edit_active (UpdateMaskTable i v) p =
     (if i < length (p_column_masks p) \<and> (v = [] \<or> v \<in> set (tables_of p)) then handleUpdateColumnMaskTable i v p else p)"
| "edit_active (ToggleMaskColumn i col) p =
     (if i < length (p_column_masks p) \<and> tc_table (p_column_masks p ! i) \<noteq> [] \<and>
         col \<in> set (columns_in (tc_table (p_column_masks p ! i)) (p_allowed_tables p))
      then handleToggleColumnMask i col p else p)"
| "edit_active (RemoveColumnMask i) p = (if i < length (p_column_masks p) then handleRemoveColumnMask i p else p)"
| "edit_active e p = p"

fun editor_step :: "string list \<Rightarrow> editor_event \<Rightarrow> editor_state \<Rightarrow> editor_state" where
  "editor_step conns e (policies, ed) =
     (if isAdding_policy ed \<and> activePolicy ed \<noteq> None
      then (case e of
              SaveActive \<Rightarrow> handleSaveActive (policies, ed)
            | CancelActive \<Rightarrow> (policies, handleCancelActive ed)
            | ChooseConnection c \<Rightarrow>
                (let active = the (activePolicy ed)
                 in if editingIndex ed = None \<and> (c = [] \<or> c \<in> set (availableConnections conns active policies))
                    then (policies, ed\<lparr>activePolicy := Some (handleConnectionChange c active)\<rparr>) else (policies, ed))
            | _ \<Rightarrow>
                (if p_connection_id (the (activePolicy ed)) \<noteq> []
                 then (policies, ed\<lparr>activePolicy := map_option (edit_active e) (activePolicy ed)\<rparr>) else (policies, ed)))
      else (case e of
              AddPolicy \<Rightarrow> (policies, handleAddClick ed)
            | EditPolicy i \<Rightarrow> (policies, if i < length policies then handleEditClick i policies ed else ed)
            | DeletePolicy i \<Rightarrow> (if i < length policies then handleDeleteClick i policies else policies, ed)
            | _ \<Rightarrow> (policies, ed)))"

definition editor_run :: "(string list \<times> editor_event) list \<Rightarrow> editor_state \<Rightarrow> editor_state" where
  "editor_run es s = foldl (\<lambda>q (conns, e). editor_step conns e q) s es"

section \<open>The copy that is edited\<close>

lemma read_written:
  "read_table (table_json t) = t"
  "read_filter (filter_json f) = f"
  by (simp_all add: read_table_def table_json_def read_filter_def filter_json_def read_string_def comp_def js_simps)

lemma read_item_written: "read_item (item_json p) = p"
  by (cases "p_id p")
    (simp_all add: read_item_def item_json_def read_string_def read_written comp_def js_simps)

lemma item_is_json: "json_value (item_json p) \<and> prints_numbers num (item_json p)"
  by (cases "p_id p")
    (simp_all add: item_json_def table_json_def filter_json_def list.pred_map list_all_iff js_simps)

lemma json_copy_id: "json_copy p = Some p"
  using item_is_json [of p no_number] by (simp add: json_copy_def JSON_parse_stringify read_item_written)

section \<open>Well-formed drafts and policies\<close>

definition mask_ok :: "TableColumnPolicy list \<Rightarrow> TableColumnPolicy \<Rightarrow> bool" where
  "mask_ok tables m \<longleftrightarrow> tc_table m \<in> tc_table ` set tables \<and> set (tc_columns m) \<subseteq> set (columns_in (tc_table m) tables)"

definition wf_draft :: "policy_item \<Rightarrow> bool" where
  "wf_draft p \<longleftrightarrow>
     distinct (tables_of p) \<and>
     list_all (\<lambda>rf. rf_table rf = [] \<or> rf_table rf \<in> set (tables_of p)) (p_row_filters p) \<and>
     list_all (\<lambda>m. tc_columns m = [] \<or> mask_ok (p_allowed_tables p) m) (p_column_masks p)"

definition wf_saved :: "policy_item \<Rightarrow> bool" where
  "wf_saved p \<longleftrightarrow>
     p_connection_id p \<noteq> [] \<and> p_allowed_tables p \<noteq> [] \<and> distinct (tables_of p) \<and>
     list_all (\<lambda>t. tc_columns t \<noteq> []) (p_allowed_tables p) \<and>
     list_all (\<lambda>rf. rf_table rf \<in> set (tables_of p) \<and> js_trim (rf_filter rf) \<noteq> []) (p_row_filters p) \<and>
     list_all (\<lambda>m. tc_columns m \<noteq> [] \<and> mask_ok (p_allowed_tables p) m) (p_column_masks p)"

lemma wf_saved_draft: "wf_saved p \<Longrightarrow> wf_draft p"
  by (auto simp: wf_saved_def wf_draft_def list_all_iff)

lemma findIndex_None: "findIndex P xs = None \<longleftrightarrow> (\<forall>x \<in> set xs. \<not> P x)"
  by (induction xs) auto

lemma remove_found:
  "distinct (map key xs) \<Longrightarrow> findIndex (\<lambda>x. key x = k) xs = Some i \<Longrightarrow> remove_at i xs = filter (\<lambda>x. key x \<noteq> k) xs"
proof (induction xs arbitrary: i)
  case (Cons x xs)
  show ?case
  proof (cases "key x = k")
    case True
    with Cons.prems have "i = 0" by simp
    moreover have "\<forall>y \<in> set xs. key y \<noteq> k" using Cons.prems(1) True by (metis distinct.simps(2) image_eqI list.simps(9) set_map)
    ultimately show ?thesis using True by (simp add: remove_at_def)
  next
    case False
    with Cons.prems obtain j where "findIndex (\<lambda>x. key x = k) xs = Some j" "i = Suc j" by auto
    with Cons False show ?thesis by (simp add: remove_at_def)
  qed
qed simp

lemma set_remove_at: "set (remove_at i xs) \<subseteq> set xs"
  using set_take_subset [of i xs] set_drop_subset [of "Suc i" xs] by (auto simp: remove_at_def)

lemma columns_in_found: "col \<in> set (columns_in name ts) \<Longrightarrow> name \<in> tc_table ` set ts"
  unfolding columns_in_def by (induction ts) (auto split: if_splits)

lemma columns_in_filter:
  "name \<noteq> gone \<Longrightarrow> columns_in name (filter (\<lambda>t. tc_table t \<noteq> gone) ts) = columns_in name ts"
  unfolding columns_in_def by (induction ts) auto

lemma columns_in_append:
  "name \<in> tc_table ` set ts \<Longrightarrow> columns_in name (ts @ us) = columns_in name ts"
  using find_first_None [of "\<lambda>t. tc_table t = name" ts]
  by (auto simp: columns_in_def find_first_append split: option.splits)

lemma mask_ok_append: "mask_ok ts m \<Longrightarrow> mask_ok (ts @ us) m"
  by (auto simp: mask_ok_def columns_in_append)

lemma mask_ok_filter: "mask_ok ts m \<Longrightarrow> tc_table m \<noteq> gone \<Longrightarrow> mask_ok (filter (\<lambda>t. tc_table t \<noteq> gone) ts) m"
  by (auto simp: mask_ok_def columns_in_filter)

lemma wf_table_toggle: "wf_draft p \<Longrightarrow> wf_draft (handleTableToggle name cols p)"
proof (cases "findIndex (\<lambda>t. tc_table t = name) (p_allowed_tables p)")
  case None
  moreover assume "wf_draft p"
  ultimately show ?thesis using findIndex_None [of "\<lambda>t. tc_table t = name" "p_allowed_tables p"]
    by (auto simp: wf_draft_def handleTableToggle_def tables_of_def list_all_iff mask_ok_append)
next
  case (Some i)
  moreover assume wf: "wf_draft p"
  ultimately have "remove_at i (p_allowed_tables p) = filter (\<lambda>t. tc_table t \<noteq> name) (p_allowed_tables p)"
    by (intro remove_found) (simp_all add: wf_draft_def tables_of_def)
  with wf Some show ?thesis
    by (auto simp: wf_draft_def handleTableToggle_def tables_of_def list_all_iff distinct_map_filter mask_ok_filter)
qed

lemma columns_in_toggle_other:
  "name \<noteq> t0 \<Longrightarrow> columns_in name (map (\<lambda>t. if tc_table t \<noteq> t0 then t else t\<lparr>tc_columns := f (tc_columns t)\<rparr>) ts) = columns_in name ts"
  unfolding columns_in_def by (induction ts) auto

lemma wf_column_toggle: "wf_draft p \<Longrightarrow> wf_draft (handleColumnToggle name col p)"
proof -
  define nx where "nx = map (\<lambda>t. if tc_table t \<noteq> name then t else t\<lparr>tc_columns := toggle col (tc_columns t)\<rparr>) (p_allowed_tables p)"
  define cut where "cut = (\<lambda>m :: TableColumnPolicy. if tc_table m \<noteq> name then m
      else m\<lparr>tc_columns := filter (\<lambda>c. c \<in> set (columns_in name nx)) (tc_columns m)\<rparr>)"
  have step: "handleColumnToggle name col p =
      p\<lparr>p_allowed_tables := nx, p_column_masks := filter (\<lambda>m. tc_columns m \<noteq> []) (map cut (p_column_masks p))\<rparr>"
    unfolding handleColumnToggle_def Let_def nx_def cut_def ..
  have names: "map tc_table nx = map tc_table (p_allowed_tables p)" by (simp add: nx_def)
  then have nameset: "tc_table ` set nx = tc_table ` set (p_allowed_tables p)" by (metis set_map)
  have other: "columns_in (tc_table m) nx = columns_in (tc_table m) (p_allowed_tables p)" if "tc_table m \<noteq> name" for m :: TableColumnPolicy
    unfolding nx_def using that by (rule columns_in_toggle_other)
  have masks: "tc_columns (cut m) = [] \<or> mask_ok nx (cut m)" if "tc_columns m = [] \<or> mask_ok (p_allowed_tables p) m" for m
    using that other [of m] nameset by (auto simp: mask_ok_def cut_def)
  assume wf: "wf_draft p"
  then have "\<forall>m \<in> set (p_column_masks p). tc_columns (cut m) = [] \<or> mask_ok nx (cut m)"
    using masks by (simp add: wf_draft_def list_all_iff)
  then show ?thesis
    unfolding step using wf names nameset by (auto simp: wf_draft_def tables_of_def list_all_iff)
qed

lemma toggle_subset: "set (toggle c cs) \<subseteq> insert c (set cs)"
  by (auto simp: toggle_def)

lemma wf_edit_active: "wf_draft p \<Longrightarrow> wf_draft (edit_active e p)"
proof (cases e)
  case (UpdateRowFilter i key v)
  moreover assume "wf_draft p"
  ultimately show ?thesis
    by (cases key) (auto simp: wf_draft_def handleUpdateRowFilter_def Let_def tables_of_def list_all_iff
        dest!: set_update_subset_insert [THEN subsetD] split: filter_key.splits)
next
  case (ToggleMaskColumn i col)
  let ?m = "p_column_masks p ! i"
  assume wf: "wf_draft p"
  show ?thesis
  proof (cases "i < length (p_column_masks p) \<and> tc_table ?m \<noteq> [] \<and> col \<in> set (columns_in (tc_table ?m) (p_allowed_tables p))")
    case True
    then have found: "tc_table ?m \<in> tc_table ` set (p_allowed_tables p)" using columns_in_found by blast
    from True wf have "tc_columns ?m = [] \<or> mask_ok (p_allowed_tables p) ?m"
      by (auto simp: wf_draft_def list_all_iff)
    with True found have "mask_ok (p_allowed_tables p) (?m\<lparr>tc_columns := toggle col (tc_columns ?m)\<rparr>)"
      using toggle_subset [of col "tc_columns ?m"] by (auto simp: mask_ok_def)
    with wf True ToggleMaskColumn show ?thesis
      by (auto simp: wf_draft_def handleToggleColumnMask_def Let_def tables_of_def list_all_iff
          dest!: set_update_subset_insert [THEN subsetD])
  qed (use wf ToggleMaskColumn in auto)
next
  case (UpdateMaskTable i v)
  moreover assume "wf_draft p"
  ultimately show ?thesis
    by (auto simp: wf_draft_def handleUpdateColumnMaskTable_def tables_of_def list_all_iff
        dest!: set_update_subset_insert [THEN subsetD])
next
  case (RemoveRowFilter i)
  moreover assume "wf_draft p"
  ultimately show ?thesis using set_remove_at [of i "p_row_filters p"]
    by (auto simp: wf_draft_def handleRemoveRowFilter_def tables_of_def list_all_iff)
next
  case (RemoveColumnMask i)
  moreover assume "wf_draft p"
  ultimately show ?thesis using set_remove_at [of i "p_column_masks p"]
    by (auto simp: wf_draft_def handleRemoveColumnMask_def tables_of_def list_all_iff)
qed (simp_all add: wf_table_toggle wf_column_toggle,
     simp_all add: wf_draft_def handleAddRowFilter_def handleAddColumnMask_def tables_of_def)

lemma edit_active_connection [simp]: "p_connection_id (edit_active e p) = p_connection_id p"
  by (cases e) (simp_all add: handleTableToggle_def handleColumnToggle_def handleAddRowFilter_def
      handleUpdateRowFilter_def handleRemoveRowFilter_def handleAddColumnMask_def handleUpdateColumnMaskTable_def
      handleToggleColumnMask_def handleRemoveColumnMask_def Let_def split: option.splits)

section \<open>The invariant of the editor\<close>

definition editor_inv :: "policy_item list \<Rightarrow> editor_state \<Rightarrow> bool" where
  "editor_inv ps0 s \<longleftrightarrow>
     distinct (map p_connection_id (fst s)) \<and>
     (\<forall>p \<in> set (fst s). wf_saved p \<or> p \<in> set ps0) \<and>
     (\<forall>a. isAdding_policy (snd s) \<longrightarrow> activePolicy (snd s) = Some a \<longrightarrow>
        wf_draft a \<and>
        (\<forall>i. editingIndex (snd s) = Some i \<longrightarrow> i < length (fst s) \<and> p_connection_id a = p_connection_id (fst s ! i)))"

lemma concat_map_Nil: "concat (map f xs) = [] \<longleftrightarrow> (\<forall>x \<in> set xs. f x = [])"
  by auto

lemma getValidationErrors_empty:
  "getValidationErrors (Some p) = [] \<longleftrightarrow> list_all (\<lambda>rf. rf_table rf \<noteq> [] \<and> js_trim (rf_filter rf) \<noteq> []) (p_row_filters p)"
  unfolding getValidationErrors_def option.case concat_map_Nil
  by (auto simp: list_all_length set_zip split: if_splits)

lemma saved_draft_wf:
  assumes "wf_draft a" and "save_alert a index policies = None"
  shows "wf_saved (a\<lparr>p_column_masks := filter (\<lambda>cm. tc_table cm \<noteq> [] \<and> tc_columns cm \<noteq> []) (p_column_masks a)\<rparr>)"
  using assms
  by (auto simp: wf_draft_def wf_saved_def save_alert_def tables_of_def list_all_iff list_ex_iff getValidationErrors_empty
      split: if_splits)

lemma not_duplicate:
  assumes "\<not> duplicate_policy a index policies" and "j < length policies" and "Some j \<noteq> index"
  shows "p_connection_id (policies ! j) \<noteq> p_connection_id a"
  using assms by (force simp: duplicate_policy_def list_ex_iff set_zip)

lemma save_keeps_distinct:
  assumes "distinct (map p_connection_id policies)" and "\<not> duplicate_policy a index policies"
    and "p_connection_id b = p_connection_id a"
  shows "distinct (map p_connection_id (case index of Some i \<Rightarrow> policies[i := b] | None \<Rightarrow> policies @ [b]))"
proof -
  have other: "p_connection_id (policies ! j) \<noteq> p_connection_id a" if "j < length policies" "Some j \<noteq> index" for j
    using not_duplicate [OF assms(2) that] .
  show ?thesis
  proof (cases index)
    case None
    then have "p_connection_id b \<notin> set (map p_connection_id policies)"
      using other assms(3) by (metis in_set_conv_nth length_map nth_map option.distinct(1))
    with None assms(1) show ?thesis by simp
  next
    case (Some i)
    then have "\<forall>j < length policies. j \<noteq> i \<longrightarrow> p_connection_id (policies ! j) \<noteq> p_connection_id b"
      using other assms(3) by simp
    with Some assms(1) show ?thesis
      by (cases "i < length policies") (auto simp: distinct_conv_nth nth_list_update)
  qed
qed

lemma editor_inv_save:
  assumes "editor_inv ps0 (policies, ed)" and "isAdding_policy ed"
  shows "editor_inv ps0 (handleSaveActive (policies, ed))"
proof (cases "activePolicy ed")
  case (Some a)
  show ?thesis
  proof (cases "save_alert a (editingIndex ed) policies")
    case None
    let ?b = "a\<lparr>p_column_masks := filter (\<lambda>cm. tc_table cm \<noteq> [] \<and> tc_columns cm \<noteq> []) (p_column_masks a)\<rparr>"
    let ?new = "case editingIndex ed of Some i \<Rightarrow> policies[i := ?b] | None \<Rightarrow> policies @ [?b]"
    have "wf_saved ?b" using assms Some None by (intro saved_draft_wf) (auto simp: editor_inv_def)
    then have "\<forall>p \<in> set ?new. wf_saved p \<or> p \<in> set ps0"
      using assms(1) by (auto simp: editor_inv_def split: option.splits dest!: set_update_subset_insert [THEN subsetD])
    moreover have "\<not> duplicate_policy a (editingIndex ed) policies" using None by (auto simp: save_alert_def split: if_splits)
    then have "distinct (map p_connection_id ?new)"
      using assms(1) by (intro save_keeps_distinct) (simp_all add: editor_inv_def)
    ultimately show ?thesis using Some None by (simp add: handleSaveActive_def editor_inv_def Let_def)
  qed (use assms Some in \<open>simp add: handleSaveActive_def editor_inv_def Let_def\<close>)
qed (use assms in \<open>simp add: handleSaveActive_def editor_inv_def\<close>)

lemma editor_inv_edit:
  assumes "editor_inv ps0 (policies, ed)" and "isAdding_policy ed" and "activePolicy ed = Some a"
  shows "editor_inv ps0 (policies, ed\<lparr>activePolicy := Some (edit_active e a)\<rparr>)"
  using assms wf_edit_active [of a e] by (simp add: editor_inv_def)

lemma editor_inv_connection:
  assumes "editor_inv ps0 (policies, ed)" and "editingIndex ed = None"
  shows "editor_inv ps0 (policies, ed\<lparr>activePolicy := Some (handleConnectionChange c a)\<rparr>)"
  using assms by (simp add: editor_inv_def handleConnectionChange_def wf_draft_def tables_of_def)

lemma editor_inv_cancel: "editor_inv ps0 (policies, ed) \<Longrightarrow> editor_inv ps0 (policies, handleCancelActive ed)"
  by (simp add: editor_inv_def handleCancelActive_def)

lemma editor_inv_add: "editor_inv ps0 (policies, ed) \<Longrightarrow> editor_inv ps0 (policies, handleAddClick ed)"
  by (simp add: editor_inv_def handleAddClick_def wf_draft_def tables_of_def)

lemma editor_inv_editing:
  assumes "editor_inv ps0 (policies, ed)" and "\<forall>p \<in> set ps0. wf_draft p" and "i < length policies"
  shows "editor_inv ps0 (policies, handleEditClick i policies ed)"
proof -
  have "wf_saved (policies ! i) \<or> policies ! i \<in> set ps0" using assms(1,3) by (simp add: editor_inv_def)
  then have "wf_draft (policies ! i)" using assms(2) wf_saved_draft by blast
  with assms show ?thesis by (simp add: editor_inv_def handleEditClick_def json_copy_id)
qed

lemma editor_inv_delete:
  assumes "editor_inv ps0 (policies, ed)" and "\<not> (isAdding_policy ed \<and> activePolicy ed \<noteq> None)"
  shows "editor_inv ps0 (handleDeleteClick i policies, ed)"
proof -
  have "distinct (map p_connection_id (remove_at i policies))"
    using assms(1) distinct_take [of "map p_connection_id policies" i] distinct_drop [of "map p_connection_id policies" "Suc i"]
      set_take_disj_set_drop_if_distinct [of "map p_connection_id policies" i "Suc i"]
    by (auto simp: editor_inv_def remove_at_def take_map drop_map)
  with assms set_remove_at [of i policies] show ?thesis by (auto simp: editor_inv_def handleDeleteClick_def)
qed

lemma editor_inv_step:
  assumes "editor_inv ps0 s" and "\<forall>p \<in> set ps0. wf_draft p"
  shows "editor_inv ps0 (editor_step conns e s)"
proof (cases s)
  case (Pair policies ed)
  with assms(1) have inv: "editor_inv ps0 (policies, ed)" by simp
  show ?thesis
  proof (cases "isAdding_policy ed \<and> activePolicy ed \<noteq> None")
    case True
    then obtain a where "activePolicy ed = Some a" by auto
    with True inv Pair show ?thesis
      by (cases e) (simp_all add: Let_def editor_inv_save editor_inv_cancel editor_inv_connection editor_inv_edit
          del: edit_active.simps)
  next
    case False
    then have open_form: "(isAdding_policy ed \<and> activePolicy ed \<noteq> None) = False" by simp
    show ?thesis
      unfolding Pair editor_step.simps open_form if_False
      using inv assms(2) editor_inv_delete [OF inv False]
      by (cases e) (simp_all add: editor_inv_add editor_inv_editing)
  qed
qed

lemma editor_inv_run:
  assumes "\<forall>p \<in> set ps0. wf_draft p" and "editor_inv ps0 s"
  shows "editor_inv ps0 (editor_run es s)"
  unfolding editor_run_def
  by (rule foldl_invariant) (auto simp: assms editor_inv_step simp del: editor_step.simps)

text \<open>
  C30. Every policy the editor hands back to the role form names a connection, allows at least one column of at
  least one table, filters allowed tables only and by a non-blank condition, and masks allowed columns only, and
  no two policies are for the same connection: whatever is edited, in whatever order, each policy of the list is
  such a policy or one the server sent, provided those the server sent refer to their own tables and columns.
\<close>

theorem edited_policies_well_formed:
  assumes "\<forall>p \<in> set ps0. wf_draft p" and "distinct (map p_connection_id ps0)"
    and "editor_run es (ps0, fresh_editor) = (policies, ed)"
  shows "distinct (map p_connection_id policies) \<and> (\<forall>p \<in> set policies. wf_saved p \<or> p \<in> set ps0)"
proof -
  have "editor_inv ps0 (ps0, fresh_editor)" using assms(2) by (simp add: editor_inv_def fresh_editor_def)
  from editor_inv_run [OF assms(1) this, of es] assms(3) show ?thesis by (simp add: editor_inv_def)
qed

definition sample_policy :: policy_item where
  "sample_policy =
     \<lparr>p_id = Some ''p1'', p_connection_id = ''c1'',
      p_allowed_tables = [\<lparr>tc_table = ''users'', tc_columns = [''id'', ''email'']\<rparr>],
      p_row_filters = [\<lparr>rf_table = ''users'', rf_filter = ''id = 1''\<rparr>],
      p_column_masks = [\<lparr>tc_table = ''users'', tc_columns = [''email'']\<rparr>]\<rparr>"

definition sample_edit :: "(string list \<times> editor_event) list" where
  "sample_edit = map (Pair [''c1'']) [EditPolicy 0, ToggleColumn ''users'' ''email'', SaveActive]"

theorem edited_policies_well_formed_witness:
  "list_all (\<lambda>p. wf_saved p \<or> p \<in> set [sample_policy]) (fst (editor_run sample_edit ([sample_policy], fresh_editor)))"
proof -
  have "\<forall>p \<in> set [sample_policy]. wf_draft p"
    by (simp add: sample_policy_def wf_draft_def mask_ok_def columns_in_def tables_of_def)
  moreover have "distinct (map p_connection_id [sample_policy])" by simp
  ultimately show ?thesis
    using edited_policies_well_formed [of "[sample_policy]" sample_edit] unfolding list_all_iff by (metis prod.collapse)
qed

end
