(* ===== verification/Policy_Preview.thy ===== *)
theory Policy_Preview
  imports Policy_Editor
begin

text \<open>
  The preview of a draft policy, \<open>frontend/src/components/admin/RolePolicyPreview.tsx\<close> with
  \<open>useDraftRolePolicyPreview\<close> of \<open>useAdminRoles.ts\<close>. The policy is a property the editor passes at every
  render, so a run pairs every event with the policy of that moment. The state keeps, next to the component's
  own, the request of the running mutation and a log of which request was answered by what.
\<close>

section \<open>Requests and failures\<close>

definition draftRequest :: "string \<Rightarrow> string \<Rightarrow> policy_item \<Rightarrow> jsval" where
  "draftRequest question sampleSql policy =
     plain [(''question'', JStr (js_trim question)),
            (''sample_sql'', if js_trim sampleSql = [] then JNull else JStr (js_trim sampleSql)),
            (''connection_policy'',
              plain [(''connection_id'', JStr (p_connection_id policy)),
                     (''allowed_tables'', JArr (map table_json (p_allowed_tables policy))),
                     (''row_filters'', JArr (map filter_json (p_row_filters policy))),
                     (''column_masks'', JArr (map table_json (p_column_masks policy)))])]"

definition requestFingerprint :: "jsval \<Rightarrow> string" where
  "requestFingerprint request = json_text no_number request"

definition errorStatus :: "jsval \<Rightarrow> jsnum option" where
  "errorStatus error =
     (if \<not> truthy error \<or> \<not> typeof_object error then None
      else case js_get error ''status'' of JNum n \<Rightarrow> Some n | _ \<Rightarrow> None)"

definition own_message_key :: "jsval \<Rightarrow> string option" where
  "own_message_key v = (case js_get v ''message_key'' of JStr k \<Rightarrow> Some k | _ \<Rightarrow> None)"

definition errorMessageKey :: "jsval \<Rightarrow> string option" where
  "errorMessageKey error =
     (if \<not> truthy error \<or> \<not> typeof_object error then None
      else case own_message_key error of
        Some k \<Rightarrow> Some k
      | None \<Rightarrow>
          (let body = js_get error ''body''; detail = js_get error ''detail'';
               of_body = (if truthy body \<and> typeof_object body then own_message_key body else None)
           in case of_body of
                Some k \<Rightarrow> Some k
              | None \<Rightarrow> if truthy detail \<and> typeof_object detail then own_message_key detail else None))"

datatype preview_state = PvEmpty | PvLoading | PvAllowed | PvBlocked | PvInvalid | PvRetry | PvPermissionDenied | PvStale

definition failureState :: "jsval \<Rightarrow> preview_state" where
  "failureState error =
     (let status = errorStatus error; messageKey = errorMessageKey error
      in if status = Some (Fin 401) \<or> status = Some (Fin 403) \<or> messageKey = Some ''error.unauthorized'' \<or>
            messageKey = Some ''error.forbidden''
         then PvPermissionDenied
         else if status = Some (Fin 422) \<or> messageKey = Some ''error.filterValidationFailed'' then PvInvalid
         else PvRetry)"

section \<open>The component\<close>

record PreviewRecord =
  pr_fingerprint :: string
  pr_response :: "jsval option"
  pr_state :: preview_state

record preview =
  pv_question :: string
  pv_sampleSql :: string
  pv_record :: "PreviewRecord option"
  pv_isSubmitting :: bool
  inFlightRef :: bool
  pv_running :: "(string \<times> jsval outcome) option"
  previews_sent :: "jsval list"
  previews_answered :: "(jsval \<times> jsval) list"

definition mount_preview :: preview where
  "mount_preview =
     \<lparr>pv_question = [], pv_sampleSql = [], pv_record = None, pv_isSubmitting = False, inFlightRef = False,
      pv_running = None, previews_sent = [], previews_answered = []\<rparr>"

definition preview_request :: "policy_item \<Rightarrow> preview \<Rightarrow> jsval" where
  "preview_request policy pv = draftRequest (pv_question pv) (pv_sampleSql pv) policy"

definition preview_display :: "policy_item \<Rightarrow> preview \<Rightarrow> preview_state" where
  "preview_display policy pv =
     (if pv_isSubmitting pv then PvLoading
      else case pv_record pv of
        None \<Rightarrow> PvEmpty
      | Some r \<Rightarrow> if pr_fingerprint r \<noteq> requestFingerprint (preview_request policy pv) then PvStale else pr_state r)"

definition displayed_response :: "policy_item \<Rightarrow> preview \<Rightarrow> jsval option" where
  "displayed_response policy pv =
     (if preview_display policy pv \<in> {PvAllowed, PvBlocked} then Option.bind (pv_record pv) pr_response else None)"

definition finishRequest :: "preview \<Rightarrow> preview" where
  "finishRequest pv = pv\<lparr>inFlightRef := False, pv_isSubmitting := False, pv_running := None\<rparr>"

text \<open>The running mutation is the fingerprint and the request, or the error its permission check throws.\<close>

definition runPreview :: "bool \<Rightarrow> policy_item \<Rightarrow> preview \<Rightarrow> preview" where
  "runPreview canManageRoles policy pv =
     (let request = preview_request policy pv
      in if \<not> truthy (js_get request ''question'') \<or> inFlightRef pv then pv
         else
           (let sent = (case requirePermission canManageRoles ADMIN_ROLES_MANAGE of Inl e \<Rightarrow> Inl e | Inr granted \<Rightarrow> Inr request)
            in pv\<lparr>inFlightRef := True, pv_isSubmitting := True,
                  pv_running := Some (requestFingerprint request, sent),
                  previews_sent := previews_sent pv @ (case sent of Inr r \<Rightarrow> [r] | Inl e \<Rightarrow> [])\<rparr>))"

definition preview_settles :: "jsval outcome \<Rightarrow> preview \<Rightarrow> preview" where
  "preview_settles answer pv =
     (case pv_running pv of
        None \<Rightarrow> pv
      | Some (fingerprint, sent) \<Rightarrow>
          (case (case sent of Inl e \<Rightarrow> Inl e | Inr request \<Rightarrow> map_sum id (Pair request) answer) of
             Inr (request, response) \<Rightarrow>
               finishRequest (pv\<lparr>previews_answered := previews_answered pv @ [(request, response)],
                 pv_record := Some \<lparr>pr_fingerprint = fingerprint, pr_response = Some response,
                   pr_state = (if truthy (js_get response ''would_be_allowed'') then PvAllowed else PvBlocked)\<rparr>\<rparr>)
           | Inl error \<Rightarrow>
               finishRequest (pv\<lparr>pv_record :=
                 Some \<lparr>pr_fingerprint = fingerprint, pr_response = None, pr_state = failureState error\<rparr>\<rparr>)))"

datatype preview_event =
    TypeQuestion string
  | TypeSql string
  | ClickPreview
  | ClickRetryPreview
  | PreviewSettles "jsval outcome"

fun preview_step :: "bool \<Rightarrow> policy_item \<Rightarrow> preview_event \<Rightarrow> preview \<Rightarrow> preview" where
  "preview_step can policy (TypeQuestion s) pv = pv\<lparr>pv_question := s\<rparr>"
| "preview_step can policy (TypeSql s) pv = pv\<lparr>pv_sampleSql := s\<rparr>"
| "preview_step can policy ClickPreview pv =
     (if js_trim (pv_question pv) = [] \<or> pv_isSubmitting pv then pv else runPreview can policy pv)"
| "preview_step can policy ClickRetryPreview pv =
     (if preview_display policy pv = PvRetry then runPreview can policy pv else pv)"
| "preview_step can policy (PreviewSettles answer) pv = preview_settles answer pv"

definition preview_run :: "bool \<Rightarrow> (policy_item \<times> preview_event) list \<Rightarrow> preview \<Rightarrow> preview" where
  "preview_run can es pv = foldl (\<lambda>q (policy, e). preview_step can policy e q) pv es"

section \<open>Fingerprints\<close>

lemma request_is_json: "json_value (draftRequest q s p) \<and> prints_numbers num (draftRequest q s p)"
  by (simp add: draftRequest_def table_json_def filter_json_def list.pred_map list_all_iff js_simps)

lemma fingerprint_injective:
  "requestFingerprint (draftRequest q s p) = requestFingerprint (draftRequest q' s' p') \<Longrightarrow>
   draftRequest q s p = draftRequest q' s' p'"
  unfolding requestFingerprint_def by (metis JSON_parse_stringify option.inject request_is_json)

section \<open>The invariant\<close>

definition is_draft :: "jsval \<Rightarrow> bool" where
  "is_draft r \<longleftrightarrow> (\<exists>q s p. r = draftRequest q s p)"

definition record_ok :: "(jsval \<times> jsval) list \<Rightarrow> PreviewRecord \<Rightarrow> bool" where
  "record_ok done_log r \<longleftrightarrow>
     pr_state r \<notin> {PvEmpty, PvLoading, PvStale} \<and>
     (pr_state r \<in> {PvAllowed, PvBlocked} \<longrightarrow>
        (\<exists>request response. (request, response) \<in> set done_log \<and> is_draft request \<and>
           pr_fingerprint r = requestFingerprint request \<and> pr_response r = Some response \<and>
           (pr_state r = PvAllowed \<longleftrightarrow> truthy (js_get response ''would_be_allowed''))))"

definition preview_inv :: "preview \<Rightarrow> bool" where
  "preview_inv pv \<longleftrightarrow>
     pv_isSubmitting pv = inFlightRef pv \<and> inFlightRef pv = (pv_running pv \<noteq> None) \<and>
     pred_option (\<lambda>(fingerprint, sent). pred_sum (\<lambda>e. True) (\<lambda>r. is_draft r \<and> r \<in> set (previews_sent pv) \<and> fingerprint = requestFingerprint r) sent)
       (pv_running pv) \<and>
     set (map fst (previews_answered pv)) \<subseteq> set (previews_sent pv) \<and>
     pred_option (record_ok (previews_answered pv)) (pv_record pv)"

lemma failureState_cases: "failureState e \<in> {PvPermissionDenied, PvInvalid, PvRetry}"
  by (simp add: failureState_def Let_def)

lemma preview_inv_run_preview: "preview_inv pv \<Longrightarrow> preview_inv (runPreview can policy pv)"
  by (auto simp: preview_inv_def runPreview_def is_draft_def preview_request_def Let_def split: sum.splits)

lemma preview_inv_settles: "preview_inv pv \<Longrightarrow> preview_inv (preview_settles answer pv)"
proof (cases "pv_running pv")
  case (Some run)
  obtain fp sent where run: "run = (fp, sent)" by (cases run)
  assume inv: "preview_inv pv"
  show ?thesis
  proof (cases sent)
    case (Inl e)
    with Some run inv failureState_cases [of e] show ?thesis
      by (auto simp: preview_settles_def preview_inv_def finishRequest_def record_ok_def)
  next
    case (Inr request)
    with Some run inv have "is_draft request" "request \<in> set (previews_sent pv)" "fp = requestFingerprint request"
      by (auto simp: preview_inv_def)
    with Some run inv Inr show ?thesis
    proof (cases answer)
      case (Inl e)
      with Some run inv Inr failureState_cases [of e] show ?thesis
        by (auto simp: preview_settles_def preview_inv_def finishRequest_def record_ok_def \<open>sent = Inr request\<close>)
    next
      case (Inr response)
      with Some run inv \<open>is_draft request\<close> \<open>request \<in> set (previews_sent pv)\<close> \<open>fp = requestFingerprint request\<close> show ?thesis
        by (auto simp: preview_settles_def preview_inv_def finishRequest_def record_ok_def \<open>sent = Inr request\<close>)
    qed
  qed
qed (simp add: preview_settles_def)

lemma preview_inv_step: "preview_inv pv \<Longrightarrow> preview_inv (preview_step can policy e pv)"
  by (cases e) (simp_all add: preview_inv_run_preview preview_inv_settles, simp_all add: preview_inv_def)

lemma preview_inv_mount: "preview_inv mount_preview"
  by (simp add: preview_inv_def mount_preview_def)

lemma preview_inv_reachable: "preview_inv (preview_run can es mount_preview)"
  unfolding preview_run_def by (rule foldl_invariant) (auto simp: preview_inv_mount preview_inv_step)

text \<open>
  C31. A verdict on a draft is a verdict on the draft on display: whenever the preview says allowed or blocked,
  however the question, the sample and the policy were edited since and before, the server has answered exactly
  the request that the inputs and the policy make up now, and the verdict and the details shown are those of
  that answer; in every other state no details are shown.
\<close>

theorem preview_verdict_is_current:
  assumes "pv = preview_run can es mount_preview"
  shows "(preview_display policy pv \<in> {PvAllowed, PvBlocked} \<longrightarrow>
      (\<exists>response. (preview_request policy pv, response) \<in> set (previews_answered pv) \<and>
         displayed_response policy pv = Some response \<and> preview_request policy pv \<in> set (previews_sent pv) \<and>
         (preview_display policy pv = PvAllowed \<longleftrightarrow> truthy (js_get response ''would_be_allowed'')))) \<and>
    (preview_display policy pv \<notin> {PvAllowed, PvBlocked} \<longrightarrow> displayed_response policy pv = None)"
proof (intro conjI impI)
  assume verdict: "preview_display policy pv \<in> {PvAllowed, PvBlocked}"
  have inv: "preview_inv pv" using assms preview_inv_reachable by simp
  from verdict obtain r where r: "pv_record pv = Some r" "pr_fingerprint r = requestFingerprint (preview_request policy pv)"
      "preview_display policy pv = pr_state r"
    by (auto simp: preview_display_def split: if_splits option.splits)
  with inv verdict obtain request response where a: "(request, response) \<in> set (previews_answered pv)" "is_draft request"
      "pr_fingerprint r = requestFingerprint request" "pr_response r = Some response"
      "pr_state r = PvAllowed \<longleftrightarrow> truthy (js_get response ''would_be_allowed'')"
    by (auto simp: preview_inv_def record_ok_def)
  from a(2,3) r(2) have "request = preview_request policy pv"
    by (auto simp: is_draft_def preview_request_def dest: fingerprint_injective)
  moreover from a(1) inv have "request \<in> set (previews_sent pv)" by (force simp: preview_inv_def)
  ultimately show "\<exists>response. (preview_request policy pv, response) \<in> set (previews_answered pv) \<and>
         displayed_response policy pv = Some response \<and> preview_request policy pv \<in> set (previews_sent pv) \<and>
         (preview_display policy pv = PvAllowed \<longleftrightarrow> truthy (js_get response ''would_be_allowed''))"
    using a r verdict by (auto simp: displayed_response_def)
qed (simp add: displayed_response_def)

definition sample_preview :: "(policy_item \<times> preview_event) list" where
  "sample_preview = map (Pair sample_policy)
     [TypeQuestion ''who'', ClickPreview, PreviewSettles (Inr (plain [(''would_be_allowed'', JBool True)]))]"

theorem preview_verdict_is_current_witness:
  "displayed_response sample_policy (preview_run True sample_preview mount_preview) =
     Some (plain [(''would_be_allowed'', JBool True)]) \<and>
   displayed_response (sample_policy\<lparr>p_column_masks := []\<rparr>) (preview_run True sample_preview mount_preview) = None"
proof
  let ?pv = "preview_run True sample_preview mount_preview"
  have "preview_display sample_policy ?pv = PvAllowed" by code_simp
  then have "\<exists>response. (preview_request sample_policy ?pv, response) \<in> set (previews_answered ?pv) \<and>
      displayed_response sample_policy ?pv = Some response"
    using preview_verdict_is_current [OF refl, of sample_policy True sample_preview] by auto
  moreover have "previews_answered ?pv = [(preview_request sample_policy ?pv, plain [(''would_be_allowed'', JBool True)])]"
    by code_simp
  ultimately show "displayed_response sample_policy ?pv = Some (plain [(''would_be_allowed'', JBool True)])" by simp
  have "preview_display (sample_policy\<lparr>p_column_masks := []\<rparr>) ?pv = PvStale" by code_simp
  then show "displayed_response (sample_policy\<lparr>p_column_masks := []\<rparr>) ?pv = None"
    by (simp add: displayed_response_def)
qed

section \<open>One preview in flight\<close>

definition preview_settlement :: "policy_item \<times> preview_event \<Rightarrow> bool" where
  "preview_settlement x = (case snd x of PreviewSettles answer \<Rightarrow> True | _ \<Rightarrow> False)"

interpretation preview_flight: single_flight "\<lambda>x. preview_step can (fst x) (snd x)" preview_inv inFlightRef
    "\<lambda>pv. length (previews_sent pv)" preview_settlement for can
proof
  fix pv :: preview and x :: "policy_item \<times> preview_event"
  obtain policy e where x: "x = (policy, e)" by (cases x)
  assume inv: "preview_inv pv"
  then show "preview_inv (preview_step can (fst x) (snd x) pv)" by (rule preview_inv_step)
  show "inFlightRef (preview_step can (fst x) (snd x) pv) \<and>
      length (previews_sent (preview_step can (fst x) (snd x) pv)) = length (previews_sent pv)"
    if "inFlightRef pv" and "\<not> preview_settlement x"
    using that by (cases e) (simp_all add: x preview_settlement_def runPreview_def)
  show "length (previews_sent (preview_step can (fst x) (snd x) pv)) \<le>
      length (previews_sent pv) + of_bool (inFlightRef (preview_step can (fst x) (snd x) pv))"
    if "\<not> inFlightRef pv" and "\<not> preview_settlement x"
    using that by (cases e) (simp_all add: x preview_settlement_def runPreview_def Let_def split: sum.split)
  show "length (previews_sent (preview_step can (fst x) (snd x) pv)) = length (previews_sent pv)"
    if "preview_settlement x"
    using that by (cases e) (simp_all add: x preview_settlement_def preview_settles_def finishRequest_def
        split: option.split sum.split prod.split)
qed

lemma preview_run_of: "preview_run can es pv = preview_flight.run_of can es pv"
  by (simp add: preview_run_def preview_flight.run_of_def case_prod_unfold)

end
