(* ===== verification/Roles_Page.thy ===== *)
theory Roles_Page
  imports Policy_Preview Js_Number
begin

text \<open>
  The role administration page, \<open>frontend/src/pages/AdminRolesPage.tsx\<close>, with the editor of the group mappings
  (\<open>components/admin/GroupMappingEditor.tsx\<close>) and the policy editor inside its form. The detail of a role comes
  from the query cache of \<open>useAdminRole\<close>, which the environment fills at any time; the effect that copies it into
  the form runs after every step. A save is logged with the detail the form was loaded from.
\<close>

section \<open>Errors\<close>

definition ALLOWED_ERROR_KEYS_roles :: "string list" where
  "ALLOWED_ERROR_KEYS_roles =
     [''error.validation.roleRequiredFields'', ''error.conflict.duplicateRoleName'',
      ''error.conflict.duplicateRolePriority'', ''error.conflict.duplicateGroupMapping'', ''error.forbidden'',
      ''error.unauthorized'', ''error.builtinRoleProtected'', ''error.filterValidationFailed'']"

function extractErrorKey_roles :: "jsval \<Rightarrow> string option" where
  "extractErrorKey_roles e =
     (if \<not> truthy e \<or> \<not> typeof_object e then None
      else (case nonempty_string (js_get e ''message_key'') of
              Some k \<Rightarrow> Some k
            | None \<Rightarrow>
                (case nonempty_string (js_get e ''error'') of
                   Some k \<Rightarrow> Some k
                 | None \<Rightarrow>
                     (let d = js_get e ''detail''; b = js_get e ''body''; se = js_get e ''serverError'';
                          detailKey =
                            (if \<not> truthy d then None
                             else (case dotted_detail d of
                                     Some k \<Rightarrow> Some k
                                   | None \<Rightarrow> if typeof_object d then extractErrorKey_roles d else None));
                          bodyKey = (if truthy b \<and> typeof_object b then extractErrorKey_roles b else None)
                      in case detailKey of
                           Some k \<Rightarrow> Some k
                         | None \<Rightarrow>
                             (case bodyKey of
                                Some k \<Rightarrow> Some k
                              | None \<Rightarrow> if truthy se then extractErrorKey_roles se else None)))))"
  by pat_completeness auto
termination
  by (relation "measure size") (auto intro: size_object_get size_js_get)

declare extractErrorKey_roles.simps [simp del]

definition getErrorMessage_roles :: "jsval \<Rightarrow> string \<Rightarrow> string" where
  "getErrorMessage_roles err fallbackKey =
     (case extractErrorKey_roles err of
        Some key \<Rightarrow> if key \<in> set ALLOWED_ERROR_KEYS_roles then key else fallbackKey
      | None \<Rightarrow> fallbackKey)"

definition isUncertainSave :: "jsval \<Rightarrow> bool" where
  "isUncertainSave error = (truthy error \<and> typeof_object error \<and> js_get error ''recovery'' = JStr ''uncertain'')"

definition wasAuthoritativeStateRefreshed :: "jsval \<Rightarrow> bool" where
  "wasAuthoritativeStateRefreshed error =
     (truthy error \<and> typeof_object error \<and> js_get error ''authoritativeStateRefreshed'' = JBool True)"

section \<open>State\<close>

datatype SaveFeedback = FeedbackPending | FeedbackFailed string | FeedbackUncertain bool

record role_form =
  f_name :: string
  f_description :: string
  f_priority :: "jsnum option"
  selectedPermissions :: "string list"
  mappedGroups :: "string list"
  newGroup :: string
  connectionPolicies :: "policy_item list"
  policyEditor :: policy_editor

text \<open>A save: the role it updates, if any, and the data it sends.\<close>

record role_save =
  s_id :: "string option"
  s_name :: string
  s_description :: "string option"
  s_priority :: jsnum
  s_permissions :: "string list"
  s_group_mappings :: "string list"
  s_connection_policies :: "policy_item list"

record roles_page =
  rp_toasts :: toasts
  rp_isAdding :: bool
  editingRole :: "Role option"
  rp_form :: role_form
  rp_validationError :: "string option"
  saveFeedback :: "SaveFeedback option"
  loadedDetail :: "Role option"
  saveInFlightRef :: bool
  lastAppliedDetailId :: "string option"
  detail_cache :: "string \<rightharpoonup> Role"
  rp_saving :: "role_save option"
  saves_sent :: "(role_save \<times> Role option) list"
  deletes_sent :: "string list"

definition resetForm :: role_form where
  "resetForm =
     \<lparr>f_name = [], f_description = [], f_priority = None, selectedPermissions = [], mappedGroups = [], newGroup = [],
      connectionPolicies = [], policyEditor = fresh_editor\<rparr>"

definition mount_roles :: "(string \<rightharpoonup> Role) \<Rightarrow> roles_page" where
  "mount_roles cache =
     \<lparr>rp_toasts = no_toasts, rp_isAdding = False, editingRole = None, rp_form = resetForm, rp_validationError = None,
      saveFeedback = None, loadedDetail = None, saveInFlightRef = False, lastAppliedDetailId = None,
      detail_cache = cache, rp_saving = None, saves_sent = [], deletes_sent = []\<rparr>"

definition roles_toast :: "toast_type \<Rightarrow> string \<Rightarrow> roles_page \<Rightarrow> roles_page" where
  "roles_toast ty message p = p\<lparr>rp_toasts := addToast ty message (rp_toasts p)\<rparr>"

section \<open>The detail of the edited role\<close>

definition read_policy :: "ConnectionPolicyItem \<Rightarrow> policy_item" where
  "read_policy c =
     \<lparr>p_id = policy_id c, p_connection_id = connection_id c,
      p_allowed_tables = map read_table (allowed_tables c),
      p_row_filters = map read_filter (row_filters c),
      p_column_masks = map read_table (column_masks c)\<rparr>"

definition role_policies :: "Role \<Rightarrow> policy_item list" where
  "role_policies r = (case connection_policies r of Some ps \<Rightarrow> map read_policy ps | None \<Rightarrow> [])"

definition form_of :: "Role \<Rightarrow> role_form" where
  "form_of detail =
     \<lparr>f_name = r_name detail,
      f_description = (case r_description detail of Some (Some s) \<Rightarrow> s | _ \<Rightarrow> []),
      f_priority = Some (Fin (of_int (r_priority detail))),
      selectedPermissions = r_permissions detail,
      mappedGroups = map sso_group_value (r_group_mappings detail),
      newGroup = [],
      connectionPolicies = role_policies detail,
      policyEditor = fresh_editor\<rparr>"

definition detail_effect :: "roles_page \<Rightarrow> roles_page" where
  "detail_effect p =
     (case editingRole p of
        None \<Rightarrow> p\<lparr>lastAppliedDetailId := None\<rparr>
      | Some editing \<Rightarrow>
          (case detail_cache p (r_id editing) of
             None \<Rightarrow> p
           | Some detail \<Rightarrow>
               if r_id detail \<noteq> r_id editing \<or> lastAppliedDetailId p = Some (r_id detail) then p
               else p\<lparr>lastAppliedDetailId := Some (r_id detail), loadedDetail := Some detail, rp_form := form_of detail\<rparr>))"

definition isDetailReady :: "roles_page \<Rightarrow> bool" where
  "isDetailReady p =
     (case editingRole p of
        None \<Rightarrow> True
      | Some editing \<Rightarrow> map_option r_id (loadedDetail p) = Some (r_id editing))"

definition form_open :: "roles_page \<Rightarrow> bool" where
  "form_open p = (rp_isAdding p \<or> editingRole p \<noteq> None)"

definition activeRole :: "roles_page \<Rightarrow> Role option" where
  "activeRole p = (case editingRole p of None \<Rightarrow> None | Some editing \<Rightarrow> loadedDetail p)"

text \<open>Whether the inputs for the name, the priority and the permissions are enabled.\<close>

definition identity_inputs :: "roles_page \<Rightarrow> bool" where
  "identity_inputs p =
     (form_open p \<and> isDetailReady p \<and> \<not> (case activeRole p of Some r \<Rightarrow> r_is_builtin r | None \<Rightarrow> False))"

definition isSaving :: "roles_page \<Rightarrow> bool" where
  "isSaving p = (saveFeedback p = Some FeedbackPending \<or> rp_saving p \<noteq> None)"

section \<open>Handlers\<close>

definition handleEdit :: "Role \<Rightarrow> roles_page \<Rightarrow> roles_page" where
  "handleEdit role p =
     p\<lparr>rp_form := resetForm, saveFeedback := None, saveInFlightRef := False, lastAppliedDetailId := None,
       loadedDetail := None, editingRole := Some role\<rparr>"

definition handleAdd :: "roles_page \<Rightarrow> roles_page" where
  "handleAdd p =
     p\<lparr>rp_form := resetForm, saveFeedback := None, saveInFlightRef := False, lastAppliedDetailId := None,
       loadedDetail := None, editingRole := None, rp_isAdding := True\<rparr>"

definition handleCancel :: "roles_page \<Rightarrow> roles_page" where
  "handleCancel p =
     p\<lparr>rp_isAdding := False, editingRole := None, rp_validationError := None, saveFeedback := None,
       saveInFlightRef := False, lastAppliedDetailId := None, loadedDetail := None, rp_form := resetForm\<rparr>"

definition priority_invalid :: "jsnum \<Rightarrow> bool" where
  "priority_invalid n = (case n of NaN \<Rightarrow> True | NegInf \<Rightarrow> True | PosInf \<Rightarrow> False | Fin r \<Rightarrow> r < 0)"

definition save_data :: "role_form \<Rightarrow> jsnum \<Rightarrow> string option \<Rightarrow> role_save" where
  "save_data f priorityVal i =
     \<lparr>s_id = i, s_name = f_name f,
      s_description = (if f_description f = [] then None else Some (f_description f)),
      s_priority = priorityVal, s_permissions = selectedPermissions f, s_group_mappings = mappedGroups f,
      s_connection_policies = connectionPolicies f\<rparr>"

definition handleSave_role :: "roles_page \<Rightarrow> roles_page" where
  "handleSave_role p =
     (if saveInFlightRef p then p
      else
        (let p1 = p\<lparr>rp_validationError := None\<rparr>
         in if (case editingRole p of Some editing \<Rightarrow> lastAppliedDetailId p \<noteq> Some (r_id editing) | None \<Rightarrow> False) then p1
            else (case f_priority (rp_form p) of
                    None \<Rightarrow> p1\<lparr>rp_validationError := Some ''error.validation.roleRequiredFields''\<rparr>
                  | Some priorityVal \<Rightarrow>
                      if js_trim (f_name (rp_form p)) = [] \<or> priority_invalid priorityVal
                      then p1\<lparr>rp_validationError := Some ''error.validation.roleRequiredFields''\<rparr>
                      else
                        (let s = save_data (rp_form p) priorityVal (map_option r_id (editingRole p))
                         in p1\<lparr>saveInFlightRef := True, saveFeedback := Some FeedbackPending, rp_saving := Some s,
                               saves_sent := saves_sent p @ [(s, activeRole p)]\<rparr>))))"

definition handleSaveError :: "jsval \<Rightarrow> string \<Rightarrow> roles_page \<Rightarrow> roles_page" where
  "handleSaveError error fallbackKey p =
     (let uncertain = isUncertainSave error;
          authoritativeStateRefreshed = wasAuthoritativeStateRefreshed error;
          message = (if uncertain
                     then (if authoritativeStateRefreshed then ''admin.roles.saveUncertain'' else ''admin.roles.saveUncertainNoRefresh'')
                     else getErrorMessage_roles error fallbackKey);
          p1 = p\<lparr>saveInFlightRef := False,
                 saveFeedback := Some (if uncertain then FeedbackUncertain authoritativeStateRefreshed else FeedbackFailed message)\<rparr>
      in if \<not> rp_isAdding p \<and> editingRole p = None then roles_toast ToastError message p1 else p1)"

definition save_settles :: "jsval option \<Rightarrow> roles_page \<Rightarrow> roles_page" where
  "save_settles failure p =
     (case rp_saving p of
        None \<Rightarrow> p
      | Some s \<Rightarrow>
          (let p1 = p\<lparr>rp_saving := None\<rparr>
           in case failure of
                None \<Rightarrow>
                  handleCancel (roles_toast ToastSuccess
                    (if s_id s = None then ''admin.roles.addSuccess'' else ''admin.roles.updateSuccess'')
                    (p1\<lparr>saveInFlightRef := False, saveFeedback := None\<rparr>))
              | Some err \<Rightarrow>
                  handleSaveError err (if s_id s = None then ''admin.roles.addError'' else ''admin.roles.updateError'') p1))"

definition handleDelete_role :: "bool \<Rightarrow> Role \<Rightarrow> roles_page \<Rightarrow> roles_page" where
  "handleDelete_role confirmed role p =
     (if r_is_builtin role then roles_toast ToastError ''error.builtinRoleProtected'' p
      else if confirmed then p\<lparr>deletes_sent := deletes_sent p @ [r_id role]\<rparr> else p)"

definition delete_settles :: "jsval option \<Rightarrow> roles_page \<Rightarrow> roles_page" where
  "delete_settles failure p =
     (case failure of
        None \<Rightarrow> roles_toast ToastSuccess ''admin.roles.deleteSuccess'' p
      | Some err \<Rightarrow> roles_toast ToastError (getErrorMessage_roles err ''admin.roles.deleteError'') p)"

definition handlePermissionToggle :: "string \<Rightarrow> role_form \<Rightarrow> role_form" where
  "handlePermissionToggle perm f = f\<lparr>selectedPermissions := toggle perm (selectedPermissions f)\<rparr>"

definition handleAdd_group :: "role_form \<Rightarrow> role_form" where
  "handleAdd_group f =
     (let trimmed = js_trim (newGroup f)
      in if trimmed \<noteq> [] \<and> trimmed \<notin> set (mappedGroups f)
         then f\<lparr>mappedGroups := mappedGroups f @ [trimmed], newGroup := []\<rparr> else f)"

definition handleRemove_group :: "string \<Rightarrow> role_form \<Rightarrow> role_form" where
  "handleRemove_group g f = f\<lparr>mappedGroups := filter (\<lambda>x. x \<noteq> g) (mappedGroups f)\<rparr>"

definition priority_input :: "string \<Rightarrow> jsnum option" where
  "priority_input typed = (let v = number_input_value typed in if v = [] then None else Some (js_Number v))"

section \<open>Events\<close>

datatype roles_event =
    ClickAddRole
  | ClickEditRole Role
  | DetailCached string Role
  | TypeName string
  | TypeDescription string
  | TypePriority string
  | TogglePermission string
  | TypeGroup string
  | AddGroup
  | RemoveGroup string
  | EditPolicies "string list" editor_event
  | SubmitRole
  | CancelRole
  | SaveSettles "jsval option"
  | ClickDeleteRole Role bool
  | DeleteSettles "jsval option"
  | RolesToastGone nat

definition map_form :: "(role_form \<Rightarrow> role_form) \<Rightarrow> roles_page \<Rightarrow> roles_page" where
  "map_form f p = p\<lparr>rp_form := f (rp_form p)\<rparr>"

definition policies_form :: "string list \<Rightarrow> editor_event \<Rightarrow> role_form \<Rightarrow> role_form" where
  "policies_form conns e f =
     (let s = editor_step conns e (connectionPolicies f, policyEditor f)
      in f\<lparr>connectionPolicies := fst s, policyEditor := snd s\<rparr>)"

fun roles_event_step :: "roles_event \<Rightarrow> roles_page \<Rightarrow> roles_page" where
  "roles_event_step ClickAddRole p = (if form_open p then p else handleAdd p)"
| "roles_event_step (ClickEditRole r) p = (if form_open p then p else handleEdit r p)"
| "roles_event_step (DetailCached i r) p = p\<lparr>detail_cache := (detail_cache p)(i \<mapsto> r)\<rparr>"
| "roles_event_step (TypeName s) p = (if identity_inputs p then map_form (\<lambda>f. f\<lparr>f_name := s\<rparr>) p else p)"
| "roles_event_step (TypeDescription s) p =
     (if form_open p \<and> isDetailReady p then map_form (\<lambda>f. f\<lparr>f_description := s\<rparr>) p else p)"
| "roles_event_step (TypePriority s) p = (if identity_inputs p then map_form (\<lambda>f. f\<lparr>f_priority := priority_input s\<rparr>) p else p)"
| "roles_event_step (TogglePermission x) p =
     (if identity_inputs p \<and> isKnownPermission x then map_form (handlePermissionToggle x) p else p)"
| "roles_event_step (TypeGroup s) p = (if form_open p \<and> isDetailReady p then map_form (\<lambda>f. f\<lparr>newGroup := s\<rparr>) p else p)"
| "roles_event_step AddGroup p = (if form_open p \<and> isDetailReady p then map_form handleAdd_group p else p)"
| "roles_event_step (RemoveGroup g) p = (if form_open p \<and> isDetailReady p then map_form (handleRemove_group g) p else p)"
| "roles_event_step (EditPolicies conns e) p = (if form_open p \<and> isDetailReady p then map_form (policies_form conns e) p else p)"
| "roles_event_step SubmitRole p = (if form_open p \<and> isDetailReady p \<and> \<not> isSaving p then handleSave_role p else p)"
| "roles_event_step CancelRole p = (if form_open p \<and> \<not> isSaving p then handleCancel p else p)"
| "roles_event_step (SaveSettles failure) p = save_settles failure p"
| "roles_event_step (ClickDeleteRole r confirmed) p = (if form_open p then p else handleDelete_role confirmed r p)"
| "roles_event_step (DeleteSettles failure) p = delete_settles failure p"
| "roles_event_step (RolesToastGone i) p = p\<lparr>rp_toasts := removeToast i (rp_toasts p)\<rparr>"

definition roles_step :: "roles_event \<Rightarrow> roles_page \<Rightarrow> roles_page" where
  "roles_step e p = detail_effect (roles_event_step e p)"

definition roles_run :: "roles_event list \<Rightarrow> roles_page \<Rightarrow> roles_page" where
  "roles_run es p = foldl (\<lambda>q e. roles_step e q) p es"

section \<open>The save in flight\<close>

definition saving_inv :: "roles_page \<Rightarrow> bool" where
  "saving_inv p \<longleftrightarrow>
     saveInFlightRef p = (rp_saving p \<noteq> None) \<and>
     (rp_saving p \<noteq> None \<longrightarrow> form_open p \<and> saveFeedback p = Some FeedbackPending) \<and>
     (saveFeedback p = Some FeedbackPending \<longrightarrow> rp_saving p \<noteq> None)"

lemma saving_inv_map_form [simp]: "saving_inv (map_form f p) = saving_inv p"
  by (simp add: saving_inv_def map_form_def form_open_def)

lemma saving_inv_toast [simp]: "saving_inv (roles_toast ty m p) = saving_inv p"
  by (simp add: saving_inv_def roles_toast_def form_open_def)

lemma saving_inv_effect [simp]: "saving_inv (detail_effect p) = saving_inv p"
  by (auto simp: saving_inv_def detail_effect_def form_open_def split: option.splits)

lemma saving_inv_save: "saving_inv p \<Longrightarrow> form_open p \<Longrightarrow> saving_inv (handleSave_role p)"
  by (auto simp: saving_inv_def handleSave_role_def form_open_def Let_def split: option.splits)

lemma saving_inv_settles: "saving_inv p \<Longrightarrow> saving_inv (save_settles failure p)"
  by (auto simp: saving_inv_def save_settles_def handleCancel_def handleSaveError_def roles_toast_def form_open_def Let_def
      split: option.splits)

lemma saving_inv_step: "saving_inv p \<Longrightarrow> saving_inv (roles_step e p)"
  unfolding roles_step_def saving_inv_effect
  by (cases e) (simp_all add: saving_inv_save saving_inv_settles delete_settles_def handleDelete_role_def split: option.split,
     auto simp: saving_inv_def form_open_def handleAdd_def handleEdit_def handleCancel_def isSaving_def)

lemma saving_inv_mount: "saving_inv (mount_roles cache)"
  by (simp add: mount_roles_def saving_inv_def form_open_def)

lemma saving_inv_reachable: "saving_inv (roles_run es (mount_roles cache))"
  unfolding roles_run_def by (rule foldl_invariant) (simp_all add: saving_inv_mount saving_inv_step)

lemma effect_keeps_log [simp]:
  "saves_sent (detail_effect p) = saves_sent p" "deletes_sent (detail_effect p) = deletes_sent p"
  "rp_saving (detail_effect p) = rp_saving p" "editingRole (detail_effect p) = editingRole p"
  "rp_isAdding (detail_effect p) = rp_isAdding p" "saveFeedback (detail_effect p) = saveFeedback p"
  by (simp_all add: detail_effect_def split: option.splits)

lemma log_step:
  "saves_sent (roles_step e p) = saves_sent p \<or>
   (e = SubmitRole \<and> \<not> isSaving p \<and> (\<exists>x. saves_sent (roles_step e p) = saves_sent p @ [x]))"
  by (cases e)
    (simp_all add: roles_step_def handleAdd_def handleEdit_def handleCancel_def map_form_def handleSave_role_def save_settles_def
      handleSaveError_def roles_toast_def handleDelete_role_def delete_settles_def Let_def split: option.splits)

lemma delete_log_step:
  "deletes_sent (roles_step e p) = deletes_sent p \<or>
   (\<exists>r. e = ClickDeleteRole r True \<and> \<not> r_is_builtin r \<and> deletes_sent (roles_step e p) = deletes_sent p @ [r_id r])"
  by (cases e)
    (simp_all add: roles_step_def handleAdd_def handleEdit_def handleCancel_def map_form_def handleSave_role_def save_settles_def
      handleSaveError_def roles_toast_def handleDelete_role_def delete_settles_def Let_def split: option.splits)

section \<open>What a form holds\<close>

definition base_permissions :: "Role option \<Rightarrow> string list" where
  "base_permissions src = (case src of Some d \<Rightarrow> r_permissions d | None \<Rightarrow> [])"

definition base_policies :: "Role option \<Rightarrow> policy_item list" where
  "base_policies src = (case src of Some d \<Rightarrow> role_policies d | None \<Rightarrow> [])"

definition builtin_src :: "Role option \<Rightarrow> bool" where
  "builtin_src src = (case src of Some d \<Rightarrow> r_is_builtin d | None \<Rightarrow> False)"

definition role_ok :: "Role \<Rightarrow> bool" where
  "role_ok d \<longleftrightarrow> list_all wf_draft (role_policies d) \<and> distinct (map p_connection_id (role_policies d))"

definition form_ok :: "Role option \<Rightarrow> role_form \<Rightarrow> bool" where
  "form_ok src f \<longleftrightarrow>
     set (selectedPermissions f) \<subseteq> set knownPermissions \<union> set (base_permissions src) \<and>
     editor_inv (base_policies src) (connectionPolicies f, policyEditor f) \<and>
     (builtin_src src \<longrightarrow> f_name f = r_name (the src) \<and> f_priority f = Some (Fin (of_int (r_priority (the src)))) \<and>
        selectedPermissions f = r_permissions (the src))"

lemma form_ok_reset: "form_ok None resetForm"
  by (simp add: form_ok_def resetForm_def base_permissions_def base_policies_def builtin_src_def editor_inv_def
      fresh_editor_def)

lemma form_ok_of: "role_ok d \<Longrightarrow> form_ok (Some d) (form_of d)"
  by (auto simp: form_ok_def form_of_def base_permissions_def base_policies_def builtin_src_def editor_inv_def
      fresh_editor_def role_ok_def)

lemma form_ok_updates [simp]:
  "form_ok src (f\<lparr>f_description := s\<rparr>) = form_ok src f"
  "form_ok src (f\<lparr>newGroup := s\<rparr>) = form_ok src f"
  "form_ok src (handleRemove_group g f) = form_ok src f"
  "form_ok src (handleAdd_group f) = form_ok src f"
  by (simp_all add: form_ok_def handleRemove_group_def handleAdd_group_def Let_def)

lemma form_ok_identity:
  assumes "form_ok src f" and "\<not> builtin_src src"
  shows "form_ok src (f\<lparr>f_name := s\<rparr>)" "form_ok src (f\<lparr>f_priority := n\<rparr>)"
    "isKnownPermission x \<Longrightarrow> form_ok src (handlePermissionToggle x f)"
  using assms toggle_subset [of x "selectedPermissions f"]
  by (auto simp: form_ok_def handlePermissionToggle_def isKnownPermission_def)

lemma form_ok_policies:
  assumes "form_ok src f" and "\<forall>q \<in> set (base_policies src). wf_draft q"
  shows "form_ok src (policies_form conns e f)"
  using assms editor_inv_step [of "base_policies src" "(connectionPolicies f, policyEditor f)" conns e]
  by (simp add: form_ok_def policies_form_def Let_def del: editor_step.simps)

section \<open>What a save sends\<close>

definition save_ok :: "role_save \<Rightarrow> Role option \<Rightarrow> bool" where
  "save_ok s src \<longleftrightarrow>
     s_id s = map_option r_id src \<and> js_trim (s_name s) \<noteq> [] \<and> \<not> priority_invalid (s_priority s) \<and>
     set (s_permissions s) \<subseteq> set knownPermissions \<union> set (base_permissions src) \<and>
     distinct (map p_connection_id (s_connection_policies s)) \<and>
     (\<forall>q \<in> set (s_connection_policies s). wf_saved q \<or> q \<in> set (base_policies src)) \<and>
     (builtin_src src \<longrightarrow> s_name s = r_name (the src) \<and> s_priority s = Fin (of_int (r_priority (the src))) \<and>
        s_permissions s = r_permissions (the src))"

definition detail_inv :: "Role option \<Rightarrow> Role option \<Rightarrow> string option \<Rightarrow> bool" where
  "detail_inv editing loaded lastId \<longleftrightarrow>
     (case editing of
        None \<Rightarrow> loaded = None
      | Some e \<Rightarrow> lastId = map_option r_id loaded \<and> (loaded = None \<or> map_option r_id loaded = Some (r_id e)))"

definition page_inv :: "roles_page \<Rightarrow> bool" where
  "page_inv p \<longleftrightarrow>
     (\<forall>i d. detail_cache p i = Some d \<longrightarrow> role_ok d) \<and>
     (\<forall>d. loadedDetail p = Some d \<longrightarrow> role_ok d) \<and>
     detail_inv (editingRole p) (loadedDetail p) (lastAppliedDetailId p) \<and>
     form_ok (loadedDetail p) (rp_form p) \<and>
     (\<forall>(s, src) \<in> set (saves_sent p). save_ok s src)"

lemma active_is_loaded: "page_inv p \<Longrightarrow> activeRole p = loadedDetail p"
  by (auto simp: page_inv_def detail_inv_def activeRole_def split: option.splits)

lemma page_inv_map_form:
  "page_inv p \<Longrightarrow> form_ok (loadedDetail p) (f (rp_form p)) \<Longrightarrow> page_inv (map_form f p)"
  by (simp add: page_inv_def map_form_def)

lemma page_inv_toast [simp]: "page_inv (roles_toast ty m p) = page_inv p"
  by (simp add: page_inv_def roles_toast_def)

lemma page_inv_closed:
  assumes "page_inv p" and "loadedDetail q = None" and "rp_form q = resetForm" and "lastAppliedDetailId q = None"
    and "detail_cache q = detail_cache p" and "saves_sent q = saves_sent p"
  shows "page_inv q"
  using assms form_ok_reset by (simp add: page_inv_def detail_inv_def split: option.splits)

lemma page_inv_effect: "page_inv p \<Longrightarrow> page_inv (detail_effect p)"
proof (cases "editingRole p")
  case (Some e)
  assume inv: "page_inv p"
  show ?thesis
  proof (cases "detail_cache p (r_id e)")
    case (Some d)
    with inv have "role_ok d" by (auto simp: page_inv_def)
    with inv Some \<open>editingRole p = Some e\<close> form_ok_of [of d] show ?thesis
      by (auto simp: detail_effect_def page_inv_def detail_inv_def)
  qed (use inv Some in \<open>simp add: detail_effect_def\<close>)
qed (auto simp: detail_effect_def page_inv_def detail_inv_def)

lemma page_inv_save:
  assumes "page_inv p"
  shows "page_inv (handleSave_role p)"
proof -
  have "save_ok (save_data (rp_form p) n (map_option r_id (editingRole p))) (activeRole p)"
    if "f_priority (rp_form p) = Some n" "js_trim (f_name (rp_form p)) \<noteq> []" "\<not> priority_invalid n"
      "\<not> (case editingRole p of Some e \<Rightarrow> lastAppliedDetailId p \<noteq> Some (r_id e) | None \<Rightarrow> False)" for n
    using that assms active_is_loaded [OF assms]
    by (auto simp: save_ok_def save_data_def page_inv_def detail_inv_def form_ok_def editor_inv_def split: option.splits)
  with assms show ?thesis
    by (auto simp: handleSave_role_def page_inv_def Let_def split: option.splits)
qed

lemma page_inv_settles: "page_inv p \<Longrightarrow> page_inv (save_settles failure p)"
proof (cases "rp_saving p"; cases failure)
  fix s err assume "page_inv p" and "rp_saving p = Some s" and "failure = Some err"
  then show ?thesis
    by (auto simp: save_settles_def handleSaveError_def Let_def) (simp_all add: page_inv_def)
next
  fix s assume inv: "page_inv p" and "rp_saving p = Some s" and "failure = None"
  then show ?thesis
    by - (rule page_inv_closed [OF inv], simp_all add: save_settles_def handleCancel_def roles_toast_def Let_def)
qed (simp_all add: save_settles_def)

lemma base_policies_ok: "page_inv p \<Longrightarrow> \<forall>q \<in> set (base_policies (loadedDetail p)). wf_draft q"
  by (cases "loadedDetail p") (simp_all add: page_inv_def base_policies_def role_ok_def list_all_iff)

lemma identity_inputs_src: "page_inv p \<Longrightarrow> identity_inputs p \<Longrightarrow> \<not> builtin_src (loadedDetail p)"
  using active_is_loaded [of p] by (simp add: identity_inputs_def builtin_src_def)

fun detail_ok :: "roles_event \<Rightarrow> bool" where
  "detail_ok (DetailCached i d) = role_ok d"
| "detail_ok e = True"

lemma page_inv_event: "page_inv p \<Longrightarrow> detail_ok e \<Longrightarrow> page_inv (roles_event_step e p)"
proof (cases e)
  case ClickAddRole
  assume "page_inv p"
  with ClickAddRole show ?thesis by (auto intro!: page_inv_closed [of p] simp: handleAdd_def)
next
  case (ClickEditRole r)
  assume "page_inv p"
  with ClickEditRole show ?thesis by (auto intro!: page_inv_closed [of p] simp: handleEdit_def)
next
  case CancelRole
  assume "page_inv p"
  with CancelRole show ?thesis by (auto intro!: page_inv_closed [of p] simp: handleCancel_def)
next
  case (DetailCached i d)
  assume "page_inv p" and "detail_ok e"
  with DetailCached show ?thesis by (simp add: page_inv_def)
next
  case (RolesToastGone i)
  assume "page_inv p"
  with RolesToastGone show ?thesis by (simp add: page_inv_def)
next
  case (ClickDeleteRole r c)
  assume "page_inv p"
  with ClickDeleteRole show ?thesis by (simp add: handleDelete_role_def) (simp add: page_inv_def)
qed (auto simp: page_inv_save page_inv_settles delete_settles_def split: option.split
      intro!: page_inv_map_form form_ok_identity form_ok_policies base_policies_ok dest: identity_inputs_src,
     simp_all add: page_inv_def)

lemma page_inv_step: "page_inv p \<Longrightarrow> detail_ok e \<Longrightarrow> page_inv (roles_step e p)"
  unfolding roles_step_def by (intro page_inv_effect page_inv_event)

lemma page_inv_mount: "\<forall>i d. cache i = Some d \<longrightarrow> role_ok d \<Longrightarrow> page_inv (mount_roles cache)"
  using form_ok_reset by (simp add: mount_roles_def page_inv_def detail_inv_def)

lemma page_inv_reachable:
  assumes "\<forall>i d. cache i = Some d \<longrightarrow> role_ok d" and "list_all detail_ok es"
  shows "page_inv (roles_run es (mount_roles cache))"
  unfolding roles_run_def
  by (rule foldl_invariant) (use assms in \<open>simp_all add: page_inv_mount page_inv_step list_all_iff\<close>)

section \<open>One save in flight\<close>

definition roles_settlement :: "roles_event \<Rightarrow> bool" where
  "roles_settlement e = (case e of SaveSettles failure \<Rightarrow> True | _ \<Rightarrow> False)"

lemma busy_saving:
  "rp_saving p \<noteq> None \<Longrightarrow> \<not> roles_settlement e \<Longrightarrow> saving_inv p \<Longrightarrow> rp_saving (roles_step e p) \<noteq> None"
  by (cases e)
    (simp_all add: roles_settlement_def roles_step_def saving_inv_def isSaving_def map_form_def handleDelete_role_def
      delete_settles_def roles_toast_def split: option.split)

lemma sent_saving:
  "saves_sent (roles_step SubmitRole p) \<noteq> saves_sent p \<Longrightarrow> rp_saving (roles_step SubmitRole p) \<noteq> None"
  by (auto simp: roles_step_def handleSave_role_def Let_def split: if_splits option.splits)

interpretation roles_flight: single_flight roles_step saving_inv "\<lambda>p. rp_saving p \<noteq> None"
    "\<lambda>p. length (saves_sent p)" roles_settlement
proof
  fix p :: roles_page and e :: roles_event
  assume inv: "saving_inv p"
  then show "saving_inv (roles_step e p)" by (rule saving_inv_step)
  show "rp_saving (roles_step e p) \<noteq> None \<and> length (saves_sent (roles_step e p)) = length (saves_sent p)"
    if "rp_saving p \<noteq> None" and "\<not> roles_settlement e"
    using busy_saving [OF that inv] log_step [of e p] that by (auto simp: isSaving_def)
  show "length (saves_sent (roles_step e p)) \<le> length (saves_sent p) + of_bool (rp_saving (roles_step e p) \<noteq> None)"
    if "\<not> rp_saving p \<noteq> None" and "\<not> roles_settlement e"
    using log_step [of e p] sent_saving [of p] by auto
  show "length (saves_sent (roles_step e p)) = length (saves_sent p)" if "roles_settlement e"
    using that log_step [of e p] by (auto simp: roles_settlement_def)
qed

lemma roles_run_of: "roles_run es p = roles_flight.run_of es p"
  by (simp add: roles_run_def roles_flight.run_of_def)

section \<open>Properties\<close>

text \<open>
  C32. What is saved is the role on display and nothing it may not change: every update names the role whose
  detail filled the form, every save has a name and a non-negative priority, grants only permissions of the
  catalogue or that the role already had, and carries at most one policy per connection, each of them
  well-formed or as the server sent it; for a built-in role the name, the priority and the permissions are those
  the server sent. The details the server sends are assumed to have policies that refer to their own tables and
  columns, one per connection.
\<close>

theorem role_saves_are_faithful:
  assumes "\<forall>i d. cache i = Some d \<longrightarrow> role_ok d" and "list_all detail_ok es"
  shows "list_all (\<lambda>(s, src). save_ok s src) (saves_sent (roles_run es (mount_roles cache)))"
  using page_inv_reachable [OF assms] by (auto simp: page_inv_def list_all_iff)

definition builtin_role :: Role where
  "builtin_role =
     \<lparr>r_id = ''r1'', r_name = ''admin'', r_description = None, r_priority = 1, r_permissions = [''query.execute''],
      r_is_builtin = True, r_group_mappings = [], connection_policy_count = 0, connection_policies = None,
      r_created_at = [], r_updated_at = []\<rparr>"

definition builtin_edit :: "roles_event list" where
  "builtin_edit =
     [DetailCached ''r1'' builtin_role, ClickEditRole builtin_role, TypeName ''root'', TypeDescription ''d'', SubmitRole]"

theorem role_saves_are_faithful_witness:
  "list_all (\<lambda>(s, src). save_ok s src) (saves_sent (roles_run builtin_edit (mount_roles Map.empty))) \<and>
   map (\<lambda>(s, src). (s_id s, s_name s, s_description s)) (saves_sent (roles_run builtin_edit (mount_roles Map.empty))) =
     [(Some ''r1'', ''admin'', Some ''d'')]"
proof
  have "role_ok builtin_role" by (simp add: role_ok_def role_policies_def builtin_role_def)
  then have "list_all detail_ok builtin_edit" by (simp add: builtin_edit_def)
  then show "list_all (\<lambda>(s, src). save_ok s src) (saves_sent (roles_run builtin_edit (mount_roles Map.empty)))"
    using role_saves_are_faithful [of Map.empty builtin_edit] by simp
  show "map (\<lambda>(s, src). (s_id s, s_name s, s_description s)) (saves_sent (roles_run builtin_edit (mount_roles Map.empty))) =
     [(Some ''r1'', ''admin'', Some ''d'')]" by code_simp
qed

text \<open>
  One save at a time, and no input is lost by a failure: a step sends at most one save, and none while one is
  in flight; a role is deleted only on confirmation and never a built-in one; while a save is in flight the form
  stays open, and when it fails, rejected or with an unknown outcome, the form keeps everything that was entered
  and says so.
\<close>

lemma role_saves_one_at_a_time:
  assumes "p = roles_run es (mount_roles cache)"
  shows "(saves_sent (roles_step e p) = saves_sent p \<or>
      (rp_saving p = None \<and> e = SubmitRole \<and> (\<exists>x. saves_sent (roles_step e p) = saves_sent p @ [x]))) \<and>
    (deletes_sent (roles_step e p) = deletes_sent p \<or>
      (\<exists>r. e = ClickDeleteRole r True \<and> \<not> r_is_builtin r \<and> deletes_sent (roles_step e p) = deletes_sent p @ [r_id r])) \<and>
    (rp_saving p \<noteq> None \<longrightarrow> form_open p \<and>
      (\<forall>err. form_open (roles_event_step (SaveSettles (Some err)) p) \<and>
         rp_form (roles_event_step (SaveSettles (Some err)) p) = rp_form p \<and>
         saveFeedback (roles_event_step (SaveSettles (Some err)) p) \<notin> {None, Some FeedbackPending}))"
proof (intro conjI impI allI)
  have inv: "saving_inv p" using assms saving_inv_reachable by simp
  show "saves_sent (roles_step e p) = saves_sent p \<or>
      (rp_saving p = None \<and> e = SubmitRole \<and> (\<exists>x. saves_sent (roles_step e p) = saves_sent p @ [x]))"
    using log_step [of e p] by (auto simp: isSaving_def)
  show "deletes_sent (roles_step e p) = deletes_sent p \<or>
      (\<exists>r. e = ClickDeleteRole r True \<and> \<not> r_is_builtin r \<and> deletes_sent (roles_step e p) = deletes_sent p @ [r_id r])"
    by (rule delete_log_step)
  assume "rp_saving p \<noteq> None"
  with inv show opened: "form_open p" by (simp add: saving_inv_def)
  fix err
  from \<open>rp_saving p \<noteq> None\<close> obtain s where s: "rp_saving p = Some s" by auto
  show "form_open (roles_event_step (SaveSettles (Some err)) p)"
    using s opened by (auto simp: save_settles_def handleSaveError_def roles_toast_def form_open_def Let_def)
  show "rp_form (roles_event_step (SaveSettles (Some err)) p) = rp_form p"
    using s by (simp add: save_settles_def handleSaveError_def roles_toast_def Let_def)
  show "saveFeedback (roles_event_step (SaveSettles (Some err)) p) \<notin> {None, Some FeedbackPending}"
    using s by (simp add: save_settles_def handleSaveError_def roles_toast_def Let_def)
qed

end
