(* ===== verification/Role_Saving.thy ===== *)
theory Role_Saving
  imports Roles_Page
begin

text \<open>
  Saving a role from the form to the server and back: the data the page hands to the mutation of
  \<open>frontend/src/hooks/useAdminRoles.ts\<close> (\<open>Admin_Roles\<close>), the error object the mutation rejects with, and what
  \<open>frontend/src/pages/AdminRolesPage.tsx\<close> (\<open>Roles_Page\<close>) shows of it.
\<close>

section \<open>From the form to the mutation and back\<close>

definition to_item :: "policy_item \<Rightarrow> ConnectionPolicyItem" where
  "to_item p =
     \<lparr>policy_id = p_id p, connection_id = p_connection_id p, allowed_tables = map table_json (p_allowed_tables p),
      column_masks = map table_json (p_column_masks p), row_filters = map filter_json (p_row_filters p)\<rparr>"

text \<open>The update of a form whose priority is the integer \<open>n\<close>; an empty description is absent from it.\<close>

definition update_data :: "role_save \<Rightarrow> int \<Rightarrow> RoleUpdateData" where
  "update_data s n =
     \<lparr>u_name = Some (Some (s_name s)), u_description = map_option Some (s_description s), u_priority = Some (Some n),
      u_permissions = Some (Some (s_permissions s)), u_group_mappings = Some (s_group_mappings s),
      u_connection_policies = Some (map to_item (s_connection_policies s))\<rparr>"

definition recovery_text :: "RoleSaveRecovery \<Rightarrow> string" where
  "recovery_text r = (case r of Rejected \<Rightarrow> ''rejected'' | Uncertain \<Rightarrow> ''uncertain'')"

text \<open>The value thrown; the authoritative role in it, which the page does not read, is given as a value.\<close>

definition role_error_value :: "jsval \<Rightarrow> role_error \<Rightarrow> jsval" where
  "role_error_value authoritativeRole e =
     (case e of
        RolePermissionError err \<Rightarrow> err
      | RoleSaveError recovery serverError auth refreshed \<Rightarrow>
          JObj RoleSaveErrorClass
            [(''message'', JStr (''role_save_'' @ recovery_text recovery)), (''name'', JStr ''RoleSaveError''),
             (''recovery'', JStr (recovery_text recovery)), (''serverError'', serverError),
             (''authoritativeRole'', authoritativeRole), (''authoritativeStateRefreshed'', JBool refreshed)])"

definition mutation_failure :: "jsval \<Rightarrow> role_error + Role \<Rightarrow> jsval option" where
  "mutation_failure authoritativeRole result =
     (case result of Inl e \<Rightarrow> Some (role_error_value authoritativeRole e) | Inr r \<Rightarrow> None)"

section \<open>What the page reads of the error\<close>

lemma role_error_reads:
  "isUncertainSave (role_error_value av (RoleSaveError recovery err auth refreshed)) \<longleftrightarrow> recovery = Uncertain"
  "wasAuthoritativeStateRefreshed (role_error_value av (RoleSaveError recovery err auth refreshed)) \<longleftrightarrow> refreshed"
  by (cases recovery; simp add: isUncertainSave_def wasAuthoritativeStateRefreshed_def role_error_value_def
      recovery_text_def js_simps)+

lemma extractErrorKey_falsy: "\<not> truthy e \<Longrightarrow> extractErrorKey_roles e = None"
  by (simp add: extractErrorKey_roles.simps)

lemma role_error_key:
  "extractErrorKey_roles (role_error_value av (RoleSaveError recovery err auth refreshed)) = extractErrorKey_roles err"
  by (subst extractErrorKey_roles.simps)
    (simp add: role_error_value_def nonempty_string_def js_simps extractErrorKey_falsy)

lemma role_error_message:
  "getErrorMessage_roles (role_error_value av (RoleSaveError recovery err auth refreshed)) k = getErrorMessage_roles err k"
  by (simp add: getErrorMessage_roles_def role_error_key)

lemma update_policies_json: "json_policies (u_connection_policies (update_data s n))"
  by (simp add: json_policies_def update_data_def policies_json_def policy_json_def to_item_def table_json_def
      filter_json_def list.pred_map list_all_iff js_simps)

lemma settled_success:
  "rp_saving p = Some s \<Longrightarrow> \<not> form_open (save_settles None p)"
  by (simp add: save_settles_def handleCancel_def form_open_def Let_def)

lemma settled_failure:
  assumes "rp_saving p = Some s" and "s_id s = Some i" and "form_open p"
    and "e = role_error_value av (RoleSaveError recovery err auth refreshed)"
  shows "form_open (save_settles (Some e) p)" "rp_form (save_settles (Some e) p) = rp_form p"
    "saveFeedback (save_settles (Some e) p) =
       Some (if recovery = Uncertain then FeedbackUncertain refreshed
             else FeedbackFailed (getErrorMessage_roles err ''admin.roles.updateError''))"
  using assms by (simp_all add: save_settles_def handleSaveError_def form_open_def roles_toast_def role_error_reads
      role_error_message Let_def)

section \<open>Properties\<close>

text \<open>
  C33. What the page says about a saved role is true. The form closes only when the server confirmed the update,
  or, after a failure that leaves the outcome open, when the role read back has every requested value. Otherwise
  it stays open with everything that was entered: with the server's own error (when it is one the page knows)
  exactly when the server answered, and with the notice of an uncertain outcome, which also says whether the
  current state could be read, exactly when nobody knows and the role read back is not as requested.
\<close>

theorem role_update_reported_truthfully:
  assumes "p = roles_run es (mount_roles cache)" and "rp_saving p = Some s" and "s_id s = Some i"
    and "s_priority s = Fin (of_int n)"
    and "number_text num" and "collation le"
    and "\<And>w. refetched = Inr w \<Longrightarrow> json_policies (connection_policies (normalizeRole w))"
    and "update_mutationFn num le True (update_data s n) response refetched q = (result, q')"
    and "p' = roles_event_step (SaveSettles (mutation_failure av result)) p"
  shows "if form_open p'
    then rp_form p' = rp_form p \<and>
      (\<exists>err. response = Inl err \<and>
         (if isAmbiguousNetworkFailure err
          then saveFeedback p' = Some (FeedbackUncertain (\<not> isl refetched)) \<and>
            (\<forall>w. refetched = Inr w \<longrightarrow> \<not> requested_holds (normalizeRole w) (update_data s n))
          else saveFeedback p' = Some (FeedbackFailed (getErrorMessage_roles err ''admin.roles.updateError''))))
    else (\<exists>w. response = Inr w) \<or>
      (\<exists>err w. response = Inl err \<and> isAmbiguousNetworkFailure err \<and> refetched = Inr w \<and>
         requested_holds (normalizeRole w) (update_data s n))"
proof (cases result)
  case (Inr r)
  then have "\<not> form_open p'" using assms(2,9) settled_success by (simp add: mutation_failure_def)
  moreover have "(\<exists>w. response = Inr w) \<or> (\<exists>err w. response = Inl err \<and> isAmbiguousNetworkFailure err \<and> refetched = Inr w \<and>
      requested_holds (normalizeRole w) (update_data s n))"
    using update_confirmed_or_reported [OF assms(5,6) update_policies_json assms(7,8)] Inr by auto
  ultimately show ?thesis by simp
next
  case (Inl e)
  note told = update_confirmed_or_reported [OF assms(5,6) update_policies_json assms(7,8)]
  then obtain recovery err auth refreshed where e: "e = RoleSaveError recovery err auth refreshed"
    and facts: "response = Inl err" "recovery = Rejected \<longleftrightarrow> \<not> isAmbiguousNetworkFailure err"
      "auth = fetchAuthoritativeRole refetched" "refreshed \<longleftrightarrow> auth \<noteq> None"
      "\<forall>r. auth = Some r \<longrightarrow> recovery = Uncertain \<longrightarrow> \<not> requested_holds r (update_data s n)"
    using Inl by (auto split: role_error.splits)
  have opened: "form_open p" using saving_inv_reachable [of es cache] assms(1,2) by (simp add: saving_inv_def)
  have p': "p' = save_settles (Some (role_error_value av (RoleSaveError recovery err auth refreshed))) p"
    using assms(9) Inl e by (simp add: mutation_failure_def)
  have "refreshed \<longleftrightarrow> \<not> isl refetched" using facts(3,4) by (cases refetched) (simp_all add: fetchAuthoritativeRole_def)
  moreover have "recovery = Uncertain \<longleftrightarrow> isAmbiguousNetworkFailure err" using facts(2) by (cases recovery) simp_all
  ultimately show ?thesis
    unfolding p' using settled_failure [OF assms(2,3) opened refl, of av recovery err auth refreshed] facts
    by (auto simp: fetchAuthoritativeRole_def)
qed

definition described_role :: Role where
  "described_role =
     \<lparr>r_id = ''r1'', r_name = ''Analyst'', r_description = Some (Some ''old''), r_priority = 5, r_permissions = [],
      r_is_builtin = False, r_group_mappings = [], connection_policy_count = 0, connection_policies = Some [],
      r_created_at = [], r_updated_at = []\<rparr>"

definition clear_description :: "roles_event list" where
  "clear_description = [DetailCached ''r1'' described_role, ClickEditRole described_role, TypeDescription [], SubmitRole]"

theorem role_update_reported_truthfully_witness:
  "saveFeedback (roles_event_step
     (SaveSettles (mutation_failure JUndefined
        (fst (update_mutationFn sample_number_text (\<lambda>a b. a \<le> b) True
           (update_data (the (rp_saving (roles_run clear_description (mount_roles Map.empty)))) 5)
           (Inl network_failure) (Inl network_failure) \<lparr>adminRole = Map.empty, adminRoles = None, stale_keys = []\<rparr>))))
     (roles_run clear_description (mount_roles Map.empty))) = Some (FeedbackUncertain False)"
proof -
  let ?p = "roles_run clear_description (mount_roles Map.empty)"
  let ?s = "the (rp_saving ?p)"
  let ?q = "\<lparr>adminRole = Map.empty, adminRoles = None, stale_keys = []\<rparr>"
  let ?m = "update_mutationFn sample_number_text (\<lambda>a b. a \<le> b) True (update_data ?s 5) (Inl network_failure) (Inl network_failure) ?q"
  have s: "rp_saving ?p = Some ?s" "s_id ?s = Some ''r1''" "s_priority ?s = Fin (of_int 5)" by code_simp+
  have amb: "isAmbiguousNetworkFailure network_failure"
    by (simp add: isAmbiguousNetworkFailure_def network_failure_def new_error_def)
  obtain res q' where m: "?m = (res, q')" by fastforce
  from role_update_reported_truthfully [OF refl s sample_number_text_ok code_unit_order_ok _ m refl, of JUndefined]
  show ?thesis using m amb by (simp split: if_splits)
qed

text \<open>
  The description of a role can be changed but not removed: clearing it in the form makes the save carry no
  description, the update holds of the role with any description, and when the server answers with the old one
  the page reports success and closes.
\<close>

lemma cleared_description_is_kept:
  "let p = roles_run clear_description (mount_roles Map.empty); s = the (rp_saving p)
   in map fst (saves_sent p) = [s] \<and> f_description (rp_form p) = [] \<and> u_description (update_data s 5) = None \<and>
      (\<forall>r d. requested_holds (r\<lparr>r_description := d\<rparr>) (update_data s 5) = requested_holds r (update_data s 5)) \<and>
      requested_holds described_role (update_data s 5) \<and>
      map toast_message (toast_list (rp_toasts (roles_step (SaveSettles None) p))) = [''admin.roles.updateSuccess'']"
proof -
  let ?p = "roles_run clear_description (mount_roles Map.empty)"
  let ?s = "the (rp_saving ?p)"
  have data: "update_data ?s 5 =
      \<lparr>u_name = Some (Some ''Analyst''), u_description = None, u_priority = Some (Some 5), u_permissions = Some (Some []),
       u_group_mappings = Some [], u_connection_policies = Some []\<rparr>" by code_simp
  have "map fst (saves_sent ?p) = [?s]" and "f_description (rp_form ?p) = []"
    and "map toast_message (toast_list (rp_toasts (roles_step (SaveSettles None) ?p))) = [''admin.roles.updateSuccess'']"
    by code_simp+
  moreover have "requested_holds described_role (update_data ?s 5)"
    by (simp add: data requested_holds_def described_role_def perm_equal.atom)
  ultimately show ?thesis unfolding Let_def data by (simp add: requested_holds_def)
qed

end
