(* ===== verification/Connection_Form.thy ===== *)
theory Connection_Form
  imports Admin_Forms Permissions Js_Number
begin

text \<open>
  Administration of the database connections, first part: the hook (\<open>frontend/src/hooks/useConnections.ts\<close>), the
  error keys (\<open>components/admin/connectionErrorMessages.ts\<close>) and the form (\<open>components/admin/ConnectionForm.tsx\<close>).
  A translated message is its key; a submitted payload is a record in which an absent property is \<open>None\<close>. The port of
  a connection is an integer, as the schema of the responses demands (\<open>schema_ConnectionResponse\<close>).
\<close>

section \<open>Connections\<close>

datatype DatabaseType = Postgresql | Mysql | Mssql

datatype HealthStatus = Untested | Healthy | Unhealthy

datatype LifecycleState = Active | Disabled

datatype SchemaIntrospectionStatus = IntrospectionNone | IntrospectionSuccess | IntrospectionFailed | IntrospectionStale

record ConnectionResponse =
  created_at :: string
  database_name :: string
  database_type :: DatabaseType
  display_name :: string
  health_error_category :: "string option"
  health_status :: HealthStatus
  conn_id :: string
  last_health_check_at :: "string option"
  lifecycle_state :: LifecycleState
  port :: int
  schema_introspection_status :: SchemaIntrospectionStatus
  schema_last_refreshed_at :: "string option"
  ssl_mode :: string
  updated_at :: string

record ConnectionView =
  view_id :: string
  view_display_name :: string
  view_database_type :: DatabaseType
  view_port :: int
  view_database_name :: string
  view_ssl_mode :: string
  view_lifecycle_state :: LifecycleState
  view_health_status :: HealthStatus
  view_last_health_check_at :: "string option"
  view_health_error_category :: "string option"
  view_schema_introspection_status :: SchemaIntrospectionStatus
  view_schema_last_refreshed_at :: "string option"
  view_created_at :: string
  view_updated_at :: string

definition normalizeConnection :: "ConnectionResponse \<Rightarrow> ConnectionView" where
  "normalizeConnection connection =
     \<lparr>view_id = conn_id connection, view_display_name = display_name connection,
      view_database_type = database_type connection, view_port = port connection,
      view_database_name = database_name connection, view_ssl_mode = ssl_mode connection,
      view_lifecycle_state = lifecycle_state connection, view_health_status = health_status connection,
      view_last_health_check_at = last_health_check_at connection,
      view_health_error_category = health_error_category connection,
      view_schema_introspection_status = schema_introspection_status connection,
      view_schema_last_refreshed_at = schema_last_refreshed_at connection,
      view_created_at = created_at connection, view_updated_at = updated_at connection\<rparr>"

definition normalizeConnectionList :: "ConnectionResponse list \<Rightarrow> ConnectionView list" where
  "normalizeConnectionList connections = map normalizeConnection connections"

record ConnectionCreate =
  c_display_name :: string
  c_database_type :: DatabaseType
  c_host :: string
  c_port :: jsnum
  c_database_name :: string
  c_username :: string
  c_password :: string
  c_ssl_mode :: "string option"

text \<open>In an update a property may be absent, and the SSL mode may be \<open>null\<close>.\<close>

record ConnectionUpdate =
  u_display_name :: string
  u_database_type :: DatabaseType
  u_port :: jsnum
  u_database_name :: string
  u_ssl_mode :: "string option"
  u_host :: "string option"
  u_username :: "string option"
  u_password :: "string option"

text \<open>What the form hands to \<open>onSubmit\<close>; the page passes it on to the mutation it chooses.\<close>

datatype payload = CreatePayload ConnectionCreate | UpdatePayload ConnectionUpdate

section \<open>Requests of the hook (useConnections.ts)\<close>

datatype connection_request =
    CreateRequest payload
  | UpdateRequest string payload
  | DeleteRequest string
  | TestRequest string
  | DisableRequest string
  | EnableRequest string
  | RefreshSchemaRequest string

text \<open>Every mutation first asks for the permission, and only then calls the server.\<close>

definition connection_mutationFn :: "bool \<Rightarrow> connection_request \<Rightarrow> connection_request outcome" where
  "connection_mutationFn canManageConnections request =
     (case requirePermission canManageConnections ADMIN_CONNECTIONS_MANAGE of
        Inl err \<Rightarrow> Inl err
      | Inr _ \<Rightarrow> Inr request)"

section \<open>Error keys (connectionErrorMessages.ts)\<close>

definition KNOWN_SAFE_KEYS :: "string list" where
  "KNOWN_SAFE_KEYS =
     [''error.connection_auth_failed'', ''error.connection_network_unreachable'', ''error.connection_timeout'',
      ''error.credential_config'', ''error.introspection_failed'', ''error.introspection_timeout'',
      ''error.connection_referenced_delete_blocked'', ''error.connection_already_active'',
      ''error.connection_already_disabled'', ''error.connection_not_found'', ''error.connection_disabled'',
      ''error.unknown.message'']"

definition mapCategoryToKey :: "string \<Rightarrow> string" where
  "mapCategoryToKey category =
     (if category = [] then ''error.unknown.message''
      else
        (let clean = js_trim (js_lower category)
         in if clean = ''auth_failed'' \<or> clean = ''connection_auth_failed'' then ''error.connection_auth_failed''
            else if clean = ''network_unreachable'' \<or> clean = ''connection_network_unreachable''
            then ''error.connection_network_unreachable''
            else if clean = ''timeout'' \<or> clean = ''connection_timeout'' then ''error.connection_timeout''
            else if clean = ''credential_config'' then ''error.credential_config''
            else if clean = ''introspection_failed'' then ''error.introspection_failed''
            else if clean = ''introspection_timeout'' then ''error.introspection_timeout''
            else if clean = ''connection_referenced_delete_blocked'' \<or> clean = ''referenced_delete_blocked''
            then ''error.connection_referenced_delete_blocked''
            else if clean = ''connection_already_active'' then ''error.connection_already_active''
            else if clean = ''connection_already_disabled'' then ''error.connection_already_disabled''
            else if clean = ''connection_not_found'' then ''error.connection_not_found''
            else if clean = ''connection_disabled'' then ''error.connection_disabled''
            else ''error.unknown.message''))"

definition getSafeMessageKey :: "string \<Rightarrow> string" where
  "getSafeMessageKey key = (if key \<noteq> [] \<and> key \<in> set KNOWN_SAFE_KEYS then key else ''error.unknown.message'')"

text \<open>\<open>typeof v === 'string'\<close>, with the string.\<close>

definition as_string :: "jsval \<Rightarrow> string option" where
  "as_string v = (case v of JStr s \<Rightarrow> Some s | _ \<Rightarrow> None)"

text \<open>The two properties tried first at every level: \<open>message_key\<close>, then \<open>error\<close>.\<close>

definition direct_key :: "jsval \<Rightarrow> string option" where
  "direct_key obj =
     (case as_string (js_get obj ''message_key'') of
        Some k \<Rightarrow> Some (getSafeMessageKey k)
      | None \<Rightarrow> map_option mapCategoryToKey (as_string (js_get obj ''error'')))"

text \<open>The property \<open>detail\<close>: a category, or an object with the two properties.\<close>

definition detail_key :: "jsval \<Rightarrow> string option" where
  "detail_key obj =
     (let detail = js_get obj ''detail''
      in case as_string detail of
           Some c \<Rightarrow> Some (mapCategoryToKey c)
         | None \<Rightarrow> if truthy detail \<and> typeof_object detail then direct_key detail else None)"

definition body_key :: "jsval \<Rightarrow> string option" where
  "body_key obj =
     (let body = js_get obj ''body''
      in if truthy body \<and> typeof_object body
         then (case direct_key body of Some k \<Rightarrow> Some k | None \<Rightarrow> detail_key body)
         else None)"

definition getSafeConnectionErrorKey :: "jsval \<Rightarrow> string" where
  "getSafeConnectionErrorKey error =
     (if \<not> truthy error then ''error.unknown.message''
      else case as_string error of
             Some category \<Rightarrow> mapCategoryToKey category
           | None \<Rightarrow>
               (case direct_key error of
                  Some k \<Rightarrow> k
                | None \<Rightarrow>
                    (case body_key error of
                       Some k \<Rightarrow> k
                     | None \<Rightarrow> (case detail_key error of Some k \<Rightarrow> k | None \<Rightarrow> ''error.unknown.message''))))"

lemma mapCategoryToKey_safe [simp]: "mapCategoryToKey c \<in> set KNOWN_SAFE_KEYS"
  by (simp add: mapCategoryToKey_def KNOWN_SAFE_KEYS_def Let_def)

lemma unknown_safe [simp]: "''error.unknown.message'' \<in> set KNOWN_SAFE_KEYS"
  by (simp add: KNOWN_SAFE_KEYS_def)

lemma getSafeMessageKey_safe [simp]: "getSafeMessageKey k \<in> set KNOWN_SAFE_KEYS"
  by (simp add: getSafeMessageKey_def)

lemma direct_key_safe: "direct_key obj = Some k \<Longrightarrow> k \<in> set KNOWN_SAFE_KEYS"
  by (auto simp: direct_key_def split: option.splits)

lemma detail_key_safe: "detail_key obj = Some k \<Longrightarrow> k \<in> set KNOWN_SAFE_KEYS"
  by (auto simp: detail_key_def Let_def direct_key_safe split: option.splits if_splits)

lemma body_key_safe: "body_key obj = Some k \<Longrightarrow> k \<in> set KNOWN_SAFE_KEYS"
  by (auto simp: body_key_def Let_def direct_key_safe detail_key_safe split: option.splits if_splits)

lemma error_key_safe [simp]: "getSafeConnectionErrorKey e \<in> set KNOWN_SAFE_KEYS"
  by (auto simp: getSafeConnectionErrorKey_def direct_key_safe detail_key_safe body_key_safe split: option.splits)

section \<open>\<open>parseInt(s, 10)\<close>\<close>

text \<open>Leading spaces, a sign, and the longest run of digits; what follows is ignored.\<close>

definition js_parseInt :: "string \<Rightarrow> jsnum" where
  "js_parseInt s =
     (let t = dropWhile latin1_space s;
          neg = starts_with t ''-'';
          ds = takeWhile digit (if neg \<or> starts_with t ''+'' then tl t else t)
      in if ds = [] then NaN
         else round_double (of_int (if neg then - int (digits_value ds) else int (digits_value ds))))"

definition integral :: "jsnum \<Rightarrow> bool" where
  "integral n = (case n of Fin r \<Rightarrow> r = of_int \<lfloor>r\<rfloor> | _ \<Rightarrow> True)"

lemma binade_of_big_int:
  assumes "2 ^ 53 \<le> n"
  shows "52 \<le> binade (of_int n)"
proof -
  have "0 < n" using assms by (rule less_le_trans [rotated]) simp
  then have "54 \<le> bitlen n"
    using assms bitlen_le_iff_power [of n 53] by force
  moreover have "bitlen (1 :: int) = 1" by (simp add: bitlen_def floorlog_def)
  ultimately show ?thesis by (simp add: binade_def quotient_of_int Let_def)
qed

lemma round_magnitude_integral:
  assumes "0 < n"
  shows "round_magnitude (of_int n) = of_int \<lfloor>round_magnitude (of_int n)\<rfloor>"
proof (cases "n < 2 ^ 53")
  case True
  with assms show ?thesis by (simp add: round_magnitude_of_int)
next
  case False
  define e where "e = max (binade (of_int n) - 52) (-1074)"
  have "0 \<le> e" using binade_of_big_int [of n] False by (simp add: e_def)
  then have "2 powi e = (of_int (2 ^ nat e) :: rat)" by (simp add: power_int_def)
  then show ?thesis
    unfolding round_magnitude_def e_def [symmetric] Let_def by (metis floor_of_int of_int_mult)
qed

lemma round_double_integral: "integral (round_double (of_int n))"
proof (cases "n = 0")
  case False
  then have "round_magnitude \<bar>of_int n\<bar> = of_int \<lfloor>round_magnitude \<bar>of_int n\<bar>\<rfloor>"
    using round_magnitude_integral [of "\<bar>n\<bar>"] by simp
  then obtain k where k: "round_magnitude \<bar>of_int n\<bar> = of_int k" by blast
  have "- (of_int k :: rat) = of_int (- k)" by simp
  with False k show ?thesis
    unfolding round_double_def integral_def Let_def k by (simp del: of_int_minus)
qed (simp add: round_double_def integral_def)

lemma js_parseInt_integral: "integral (js_parseInt s)"
  unfolding js_parseInt_def Let_def
  by (cases "takeWhile digit (if starts_with (dropWhile latin1_space s) ''-'' \<or> starts_with (dropWhile latin1_space s) ''+''
    then tl (dropWhile latin1_space s) else dropWhile latin1_space s) = []")
    (simp_all add: round_double_integral integral_def [of NaN] del: of_int_minus of_int_of_nat_eq)

lemma js_parseInt_nat:
  assumes "int n \<le> MAX_SAFE_INTEGER"
  shows "js_parseInt (nat_to_string n) = Fin (of_nat n)"
proof -
  let ?ds = "nat_to_string n"
  have all: "list_all digit ?ds" by simp
  have ne: "?ds \<noteq> []" by (subst nat_to_string.simps) simp
  have nosp: "dropWhile latin1_space ?ds = ?ds"
    using all by (cases ?ds) (auto simp: latin1_space_def digit_def)
  have sign: "\<not> starts_with ?ds [c]" if "\<not> digit c" for c
    by (rule digits_no_prefix(1) [OF all _ that]) simp
  have "takeWhile digit ?ds = ?ds" using takeWhile_digits(1) [OF all, of "[]"] by simp
  moreover have "\<not> digit CHR ''-''" "\<not> digit CHR ''+''" by (simp_all add: digit_def)
  ultimately show ?thesis
    unfolding js_parseInt_def Let_def nosp
    using ne sign round_double_of_int [of "int n"] assms
    by (simp add: digits_value_nat_to_string del: takeWhile_eq_all_conv)
qed

section \<open>The form (ConnectionForm.tsx)\<close>

datatype field = FDisplayName | FHost | FUsername | FDatabaseName | FPort | FPassword

record conn_form =
  initialValues :: "ConnectionView option"
  displayName :: string
  databaseType :: DatabaseType
  host :: string
  portValue :: jsnum
  databaseName :: string
  username :: string
  password :: string
  sslMode :: string
  errors :: "(field \<times> string) list"
  prevInitialValues :: "ConnectionView option"

definition isEdit :: "conn_form \<Rightarrow> bool" where
  "isEdit f = (initialValues f \<noteq> None)"

definition initial_text :: "(ConnectionView \<Rightarrow> string) \<Rightarrow> ConnectionView option \<Rightarrow> string" where
  "initial_text field_of iv = (case iv of Some v \<Rightarrow> field_of v | None \<Rightarrow> [])"

text \<open>The initial state of the hooks on mount.\<close>

definition mount_form :: "ConnectionView option \<Rightarrow> conn_form" where
  "mount_form iv =
     \<lparr>initialValues = iv, displayName = initial_text view_display_name iv,
      databaseType = (case iv of Some v \<Rightarrow> view_database_type v | None \<Rightarrow> Postgresql),
      host = [], portValue = Fin (of_int (case iv of Some v \<Rightarrow> view_port v | None \<Rightarrow> 5432)),
      databaseName = initial_text view_database_name iv, username = [], password = [],
      sslMode = initial_text view_ssl_mode iv, errors = [], prevInitialValues = iv\<rparr>"

text \<open>A render with new properties: the state is set back when the identifier of the connection changed.\<close>

definition render_form :: "ConnectionView option \<Rightarrow> conn_form \<Rightarrow> conn_form" where
  "render_form iv f =
     (if map_option view_id iv \<noteq> map_option view_id (prevInitialValues f)
      then f\<lparr>initialValues := iv, prevInitialValues := iv, displayName := initial_text view_display_name iv,
             databaseType := (case iv of Some v \<Rightarrow> view_database_type v | None \<Rightarrow> Postgresql),
             host := [], portValue := Fin (of_int (case iv of Some v \<Rightarrow> view_port v | None \<Rightarrow> 5432)),
             databaseName := initial_text view_database_name iv, username := [], password := [],
             sslMode := initial_text view_ssl_mode iv, errors := []\<rparr>
      else f\<lparr>initialValues := iv\<rparr>)"

definition default_port :: "DatabaseType \<Rightarrow> int" where
  "default_port ty = (case ty of Postgresql \<Rightarrow> 5432 | Mysql \<Rightarrow> 3306 | Mssql \<Rightarrow> 1433)"

definition handleDatabaseTypeChange :: "DatabaseType \<Rightarrow> conn_form \<Rightarrow> conn_form" where
  "handleDatabaseTypeChange nextType f =
     f\<lparr>databaseType := nextType, portValue := Fin (of_int (default_port nextType))\<rparr>"

definition port_invalid :: "jsnum \<Rightarrow> bool" where
  "port_invalid n = (case n of Fin r \<Rightarrow> r = 0 \<or> r < 1 \<or> r > 65535 | NaN \<Rightarrow> True | PosInf \<Rightarrow> True | NegInf \<Rightarrow> True)"

definition nextErrors :: "conn_form \<Rightarrow> (field \<times> string) list" where
  "nextErrors f =
     (if js_trim (displayName f) = [] then [(FDisplayName, ''admin.connections.form.required'')] else []) @
     (if \<not> isEdit f \<and> js_trim (host f) = [] then [(FHost, ''admin.connections.form.required'')] else []) @
     (if \<not> isEdit f \<and> js_trim (username f) = [] then [(FUsername, ''admin.connections.form.required'')] else []) @
     (if js_trim (databaseName f) = [] then [(FDatabaseName, ''admin.connections.form.required'')] else []) @
     (if port_invalid (portValue f) then [(FPort, ''admin.connections.form.invalidPort'')] else []) @
     (if \<not> isEdit f \<and> password f = [] then [(FPassword, ''admin.connections.form.required'')] else [])"

definition handleValidation :: "conn_form \<Rightarrow> bool \<times> conn_form" where
  "handleValidation f = (nextErrors f = [], f\<lparr>errors := nextErrors f\<rparr>)"

definition or_absent :: "string \<Rightarrow> string option" where
  "or_absent s = (if s = [] then None else Some s)"

definition updatePayload :: "conn_form \<Rightarrow> ConnectionUpdate" where
  "updatePayload f =
     \<lparr>u_display_name = displayName f, u_database_type = databaseType f, u_port = portValue f,
      u_database_name = databaseName f, u_ssl_mode = or_absent (sslMode f),
      u_host = (if js_trim (host f) = [] then None else Some (host f)),
      u_username = (if js_trim (username f) = [] then None else Some (username f)),
      u_password = or_absent (password f)\<rparr>"

definition createPayload :: "conn_form \<Rightarrow> ConnectionCreate" where
  "createPayload f =
     \<lparr>c_display_name = displayName f, c_database_type = databaseType f, c_host = host f, c_port = portValue f,
      c_database_name = databaseName f, c_username = username f, c_password = password f,
      c_ssl_mode = or_absent (sslMode f)\<rparr>"

text \<open>The form after a submission, and the data handed to \<open>onSubmit\<close>, if any.\<close>

definition handleSubmit_connection :: "conn_form \<Rightarrow> payload option \<times> conn_form" where
  "handleSubmit_connection f =
     (let (valid, f1) = handleValidation f
      in if \<not> valid then (None, f1)
         else if isEdit f then (Some (UpdatePayload (updatePayload f)), f1)
         else (Some (CreatePayload (createPayload f)), f1))"

datatype form_event =
    TypeDisplayName string
  | SelectDatabaseType DatabaseType
  | TypeHost string
  | TypePort string
  | TypeDatabaseName string
  | TypeUsername string
  | TypePassword string
  | TypeSslMode string

fun form_step :: "form_event \<Rightarrow> conn_form \<Rightarrow> conn_form" where
  "form_step (TypeDisplayName s) f = f\<lparr>displayName := s\<rparr>"
| "form_step (SelectDatabaseType ty) f = handleDatabaseTypeChange ty f"
| "form_step (TypeHost s) f = f\<lparr>host := s\<rparr>"
| "form_step (TypePort s) f = f\<lparr>portValue := js_parseInt (number_input_value s)\<rparr>"
| "form_step (TypeDatabaseName s) f = f\<lparr>databaseName := s\<rparr>"
| "form_step (TypeUsername s) f = f\<lparr>username := s\<rparr>"
| "form_step (TypePassword s) f = f\<lparr>password := s\<rparr>"
| "form_step (TypeSslMode s) f = f\<lparr>sslMode := s\<rparr>"

section \<open>What a form submits\<close>

definition port_ok :: "jsnum \<Rightarrow> bool" where
  "port_ok n = (case n of Fin r \<Rightarrow> r = of_int \<lfloor>r\<rfloor> \<and> 1 \<le> r \<and> r \<le> 65535 | _ \<Rightarrow> False)"

definition nonblank :: "string \<Rightarrow> bool" where
  "nonblank s = (js_trim s \<noteq> [])"

fun payload_ok :: "payload \<Rightarrow> bool" where
  "payload_ok (CreatePayload c) \<longleftrightarrow>
     port_ok (c_port c) \<and> nonblank (c_display_name c) \<and> nonblank (c_database_name c) \<and> nonblank (c_host c) \<and>
     nonblank (c_username c) \<and> c_password c \<noteq> [] \<and> c_ssl_mode c \<noteq> Some []"
| "payload_ok (UpdatePayload u) \<longleftrightarrow>
     port_ok (u_port u) \<and> nonblank (u_display_name u) \<and> nonblank (u_database_name u) \<and>
     pred_option nonblank (u_host u) \<and> pred_option nonblank (u_username u) \<and> u_password u \<noteq> Some [] \<and>
     u_ssl_mode u \<noteq> Some []"

lemma port_ok_iff: "integral n \<Longrightarrow> port_ok n \<longleftrightarrow> \<not> port_invalid n"
  by (auto simp: integral_def port_ok_def port_invalid_def split: jsnum.splits)

lemma nextErrors_Nil:
  "nextErrors f = [] \<longleftrightarrow>
     nonblank (displayName f) \<and> nonblank (databaseName f) \<and> \<not> port_invalid (portValue f) \<and>
     (isEdit f \<or> nonblank (host f) \<and> nonblank (username f) \<and> password f \<noteq> [])"
  by (auto simp: nextErrors_def nonblank_def)

lemma handleSubmit_cases:
  "handleSubmit_connection f =
     (if nextErrors f \<noteq> [] then None
      else if isEdit f then Some (UpdatePayload (updatePayload f)) else Some (CreatePayload (createPayload f)),
      f\<lparr>errors := nextErrors f\<rparr>)"
  by (simp add: handleSubmit_connection_def handleValidation_def)

lemma payload_ok_submit:
  assumes "fst (handleSubmit_connection f) = Some p" and "integral (portValue f)"
  shows "payload_ok p"
proof -
  from assms(1) have "nextErrors f = []" by (simp add: handleSubmit_cases split: if_splits)
  then have "payload_ok (if isEdit f then UpdatePayload (updatePayload f) else CreatePayload (createPayload f))"
    using assms(2)
    by (auto simp: nextErrors_Nil updatePayload_def createPayload_def or_absent_def port_ok_iff nonblank_def)
  with assms(1) show ?thesis by (simp add: handleSubmit_cases split: if_splits)
qed

lemma form_step_keeps [simp]:
  "initialValues (form_step e f) = initialValues f" "prevInitialValues (form_step e f) = prevInitialValues f"
  by (cases e; simp add: handleDatabaseTypeChange_def)+

lemma form_step_integral: "integral (portValue f) \<Longrightarrow> integral (portValue (form_step e f))"
  by (cases e) (simp_all add: js_parseInt_integral handleDatabaseTypeChange_def integral_def [of "Fin (of_int _)"])

lemma submit_keeps [simp]:
  "initialValues (snd (handleSubmit_connection f)) = initialValues f"
  "portValue (snd (handleSubmit_connection f)) = portValue f"
  by (simp_all add: handleSubmit_cases)

lemma submit_kind:
  "fst (handleSubmit_connection f) = Some (UpdatePayload u) \<Longrightarrow> isEdit f"
  "fst (handleSubmit_connection f) = Some (CreatePayload c) \<Longrightarrow> \<not> isEdit f"
  by (simp_all add: handleSubmit_cases split: if_splits)

text \<open>A refused submission shows what is wrong.\<close>

lemma refused_submission:
  "fst (handleSubmit_connection f) = None \<Longrightarrow> errors (snd (handleSubmit_connection f)) \<noteq> []"
  by (simp add: handleSubmit_cases split: if_splits)

text \<open>Rendering the form for another connection starts it afresh, so that no credential crosses over.\<close>

lemma render_other_connection:
  "map_option view_id iv \<noteq> map_option view_id (prevInitialValues f) \<Longrightarrow> render_form iv f = mount_form iv"
  by (cases f) (simp add: render_form_def mount_form_def)

section \<open>The credentials a form hands on\<close>

text \<open>
  The history of a form: what was last typed into the three credential fields, nothing at first. A payload
  \<open>carries\<close> a history when an update has a host, a user or a password exactly if one was typed, and then the
  one typed last, and a creation has those three as typed.
\<close>

record credentials =
  cr_host :: string
  cr_username :: string
  cr_password :: string

definition nothing_typed :: credentials where
  "nothing_typed = \<lparr>cr_host = [], cr_username = [], cr_password = []\<rparr>"

fun note_typed :: "form_event \<Rightarrow> credentials \<Rightarrow> credentials" where
  "note_typed (TypeHost s) k = k\<lparr>cr_host := s\<rparr>"
| "note_typed (TypeUsername s) k = k\<lparr>cr_username := s\<rparr>"
| "note_typed (TypePassword s) k = k\<lparr>cr_password := s\<rparr>"
| "note_typed _ k = k"

fun carries :: "credentials \<Rightarrow> payload \<Rightarrow> bool" where
  "carries k (UpdatePayload u) \<longleftrightarrow>
     u_host u = (if nonblank (cr_host k) then Some (cr_host k) else None) \<and>
     u_username u = (if nonblank (cr_username k) then Some (cr_username k) else None) \<and>
     u_password u = (if cr_password k = [] then None else Some (cr_password k))"
| "carries k (CreatePayload c) \<longleftrightarrow>
     c_host c = cr_host k \<and> c_username c = cr_username k \<and> c_password c = cr_password k"

definition holds_typed :: "credentials \<Rightarrow> conn_form \<Rightarrow> bool" where
  "holds_typed k f \<longleftrightarrow> host f = cr_host k \<and> username f = cr_username k \<and> password f = cr_password k"

lemma holds_typed_mount [simp]: "holds_typed nothing_typed (mount_form iv)"
  by (simp add: holds_typed_def nothing_typed_def mount_form_def)

lemma holds_typed_step: "holds_typed k f \<Longrightarrow> holds_typed (note_typed e k) (form_step e f)"
  by (cases e) (simp_all add: holds_typed_def handleDatabaseTypeChange_def)

lemma holds_typed_run: "holds_typed k f \<Longrightarrow> holds_typed (fold note_typed es k) (fold form_step es f)"
  by (induction es arbitrary: k f) (simp_all add: holds_typed_step)

lemma holds_typed_submit [simp]: "holds_typed k (snd (handleSubmit_connection f)) = holds_typed k f"
  by (simp add: handleSubmit_cases holds_typed_def)

lemma carries_submit: "holds_typed k f \<Longrightarrow> fst (handleSubmit_connection f) = Some d \<Longrightarrow> carries k d"
  by (auto simp: handleSubmit_cases holds_typed_def updatePayload_def createPayload_def or_absent_def nonblank_def
      split: if_splits)

text \<open>Whatever a form held before, after it is rendered for another connection only what is typed then counts.\<close>

lemma carries_after_render:
  assumes "map_option view_id iv \<noteq> map_option view_id (prevInitialValues f)"
    and "fst (handleSubmit_connection (fold form_step es (render_form iv f))) = Some d"
  shows "carries (fold note_typed es nothing_typed) d"
proof (rule carries_submit [OF _ assms(2)])
  show "holds_typed (fold note_typed es nothing_typed) (fold form_step es (render_form iv f))"
    unfolding render_other_connection [OF assms(1)] by (intro holds_typed_run holds_typed_mount)
qed

end
