(* ===== verification/Connection_Rows.thy ===== *)
theory Connection_Rows
  imports Connection_Form "HOL-Library.Sublist"
begin

text \<open>
  Administration of the database connections, second part: the controls in the row of one connection,
  \<open>components/admin/ConnectionTestButton.tsx\<close>, \<open>RefreshSchemaButton.tsx\<close> and \<open>ConnectionActions.tsx\<close>, from the mount
  of the row on. Each of the five mutations has an observer with a status; a request that was sent stays open until it
  is answered, whether or not an observer still follows it. The callbacks of a \<open>mutate\<close> call run only for the request
  the observer follows, and \<open>reset()\<close> makes an observer idle (TanStack Query, \<open>useMutation\<close>). The timers are events:
  one may fire whenever its effect has armed it.
\<close>

section \<open>State\<close>

datatype mutation_status = MutationIdle | MutationPending nat | MutationSuccess jsval | MutationError jsval

datatype row_operation = OpTest | OpRefreshSchema | OpDisable | OpEnable | OpDelete

record row_props =
  connectionId :: string
  lifecycleState :: LifecycleState
  row_disabled :: bool
  row_canManage :: bool

text \<open>\<open>row_outbox\<close> holds the calls of \<open>onSuccess\<close> and \<open>onError\<close>, \<open>row_sent\<close> every request of the row.\<close>

record conn_row =
  showConfirm :: bool
  row_status :: "row_operation \<Rightarrow> mutation_status"
  row_next :: nat
  row_open :: "(nat \<times> row_operation) list"
  row_sent :: "connection_request list"
  row_outbox :: "(toast_type \<times> string) list"

definition fresh_row :: conn_row where
  "fresh_row =
     \<lparr>showConfirm = False, row_status = (\<lambda>op. MutationIdle), row_next = 0, row_open = [], row_sent = [],
      row_outbox = []\<rparr>"

fun is_pending :: "mutation_status \<Rightarrow> bool" where
  "is_pending (MutationPending n) = True"
| "is_pending _ = False"

fun is_error :: "mutation_status \<Rightarrow> bool" where
  "is_error (MutationError err) = True"
| "is_error _ = False"

fun is_success :: "mutation_status \<Rightarrow> bool" where
  "is_success (MutationSuccess data) = True"
| "is_success _ = False"

fun row_request :: "row_operation \<Rightarrow> string \<Rightarrow> connection_request" where
  "row_request OpTest i = TestRequest i"
| "row_request OpRefreshSchema i = RefreshSchemaRequest i"
| "row_request OpDisable i = DisableRequest i"
| "row_request OpEnable i = EnableRequest i"
| "row_request OpDelete i = DeleteRequest i"

section \<open>Callbacks\<close>

definition hasCounts :: "jsval \<Rightarrow> bool" where
  "hasCounts data =
     ((case js_get data ''tables_count'' of JNum _ \<Rightarrow> True | _ \<Rightarrow> False) \<and>
      (case js_get data ''columns_count'' of JNum _ \<Rightarrow> True | _ \<Rightarrow> False))"

fun success_toast :: "row_operation \<Rightarrow> jsval \<Rightarrow> toast_type \<times> string" where
  "success_toast OpTest data =
     (if js_get data ''status'' = JStr ''unhealthy'' then (ToastError, getSafeConnectionErrorKey data)
      else (ToastSuccess, ''admin.connections.testSuccess''))"
| "success_toast OpRefreshSchema data =
     (ToastSuccess, if hasCounts data then ''admin.connections.refreshSchemaSuccess'' else ''admin.connections.schema.success'')"
| "success_toast OpDisable data = (ToastSuccess, ''admin.connections.disableSuccess'')"
| "success_toast OpEnable data = (ToastSuccess, ''admin.connections.enableSuccess'')"
| "success_toast OpDelete data = (ToastSuccess, ''admin.connections.deleteSuccess'')"

definition row_toast :: "toast_type \<times> string \<Rightarrow> conn_row \<Rightarrow> conn_row" where
  "row_toast t r = r\<lparr>row_outbox := row_outbox r @ [t]\<rparr>"

definition set_status :: "row_operation \<Rightarrow> mutation_status \<Rightarrow> conn_row \<Rightarrow> conn_row" where
  "set_status op st r = r\<lparr>row_status := (row_status r)(op := st)\<rparr>"

text \<open>The answer to request \<open>n\<close> of an operation, with the callbacks when its observer still follows it.\<close>

definition row_settles :: "row_operation \<Rightarrow> nat \<Rightarrow> jsval outcome \<Rightarrow> conn_row \<Rightarrow> conn_row" where
  "row_settles op n answer r =
     (let r1 = r\<lparr>row_open := filter (\<lambda>x. x \<noteq> (n, op)) (row_open r)\<rparr>
      in if row_status r op = MutationPending n
         then (case answer of
                 Inr data \<Rightarrow>
                   row_toast (success_toast op data)
                     (set_status op (MutationSuccess data) (if op = OpDelete then r1\<lparr>showConfirm := False\<rparr> else r1))
               | Inl err \<Rightarrow> row_toast (ToastError, getSafeConnectionErrorKey err) (set_status op (MutationError err) r1))
         else r1)"

text \<open>\<open>mutate\<close>: the observer follows a new request; without the permission the mutation fails before any request.\<close>

definition row_mutate :: "row_props \<Rightarrow> row_operation \<Rightarrow> conn_row \<Rightarrow> conn_row" where
  "row_mutate props op r =
     (let n = row_next r;
          r1 = set_status op (MutationPending n) (r\<lparr>row_next := n + 1\<rparr>)
      in case connection_mutationFn (row_canManage props) (row_request op (connectionId props)) of
           Inl err \<Rightarrow> row_settles op n (Inl err) r1
         | Inr request \<Rightarrow> r1\<lparr>row_open := row_open r @ [(n, op)], row_sent := row_sent r @ [request]\<rparr>)"

definition reset_mutation :: "row_operation \<Rightarrow> conn_row \<Rightarrow> conn_row" where
  "reset_mutation op r = set_status op MutationIdle r"

section \<open>The test button and the schema button\<close>

definition handleTest :: "row_props \<Rightarrow> conn_row \<Rightarrow> conn_row" where
  "handleTest props r =
     (if row_disabled props \<or> is_pending (row_status r OpTest) then r else row_mutate props OpTest r)"

definition handleRefresh_schema :: "row_props \<Rightarrow> conn_row \<Rightarrow> conn_row" where
  "handleRefresh_schema props r =
     (if row_disabled props \<or> is_pending (row_status r OpRefreshSchema) then r else row_mutate props OpRefreshSchema r)"

text \<open>The effect of either button arms its timer only once the mutation has settled.\<close>

definition probe_timer :: "row_operation \<Rightarrow> conn_row \<Rightarrow> conn_row" where
  "probe_timer op r =
     (if is_success (row_status r op) \<or> is_error (row_status r op) then reset_mutation op r else r)"

definition test_label :: "conn_row \<Rightarrow> string" where
  "test_label r =
     (case row_status r OpTest of
        MutationPending n \<Rightarrow> ''admin.connections.testing''
      | MutationSuccess data \<Rightarrow>
          (if js_get data ''status'' = JStr ''healthy'' then ''admin.connections.testSuccess''
           else if js_get data ''status'' = JStr ''unhealthy'' then getSafeConnectionErrorKey data
           else ''admin.connections.test'')
      | MutationError err \<Rightarrow> (if truthy err then getSafeConnectionErrorKey err else ''admin.connections.test'')
      | MutationIdle \<Rightarrow> ''admin.connections.test'')"

definition refresh_label :: "conn_row \<Rightarrow> string" where
  "refresh_label r =
     (case row_status r OpRefreshSchema of
        MutationPending n \<Rightarrow> ''admin.connections.refreshingSchema''
      | MutationSuccess data \<Rightarrow>
          (if hasCounts data then ''admin.connections.refreshSchemaSuccess'' else ''admin.connections.schema.success'')
      | MutationError err \<Rightarrow> (if truthy err then getSafeConnectionErrorKey err else ''admin.connections.refreshSchema'')
      | MutationIdle \<Rightarrow> ''admin.connections.refreshSchema'')"

section \<open>Disabling, enabling and deleting\<close>

definition isPending_actions :: "conn_row \<Rightarrow> bool" where
  "isPending_actions r =
     (is_pending (row_status r OpDisable) \<or> is_pending (row_status r OpEnable) \<or> is_pending (row_status r OpDelete))"

definition isActionDisabled :: "row_props \<Rightarrow> conn_row \<Rightarrow> bool" where
  "isActionDisabled props r = (row_disabled props \<or> isPending_actions r)"

definition displayConfirm :: "conn_row \<Rightarrow> bool" where
  "displayConfirm r = (showConfirm r \<or> is_pending (row_status r OpDelete))"

definition handleDisable :: "row_props \<Rightarrow> conn_row \<Rightarrow> conn_row" where
  "handleDisable props r = (if isActionDisabled props r then r else row_mutate props OpDisable r)"

definition handleEnable :: "row_props \<Rightarrow> conn_row \<Rightarrow> conn_row" where
  "handleEnable props r = (if isActionDisabled props r then r else row_mutate props OpEnable r)"

definition handleDeleteClick_connection :: "row_props \<Rightarrow> conn_row \<Rightarrow> conn_row" where
  "handleDeleteClick_connection props r = (if isActionDisabled props r then r else r\<lparr>showConfirm := True\<rparr>)"

definition handleCancelDelete :: "conn_row \<Rightarrow> conn_row" where
  "handleCancelDelete r = r\<lparr>showConfirm := False\<rparr>"

definition handleConfirmDelete :: "row_props \<Rightarrow> conn_row \<Rightarrow> conn_row" where
  "handleConfirmDelete props r = (if isActionDisabled props r then r else row_mutate props OpDelete r)"

datatype dialog_key = KeyEscape | KeyTab bool | KeyOther

text \<open>Of the keys only Escape changes the state; Tab moves the focus to the button computed by \<open>tab_target\<close>.\<close>

definition handleDialogKeyDown :: "row_props \<Rightarrow> dialog_key \<Rightarrow> conn_row \<Rightarrow> conn_row" where
  "handleDialogKeyDown props key r =
     (if key = KeyEscape \<and> \<not> isActionDisabled props r then r\<lparr>showConfirm := False\<rparr> else r)"

text \<open>\<open>%\<close> on integers: the sign of the dividend.\<close>

definition js_rem :: "int \<Rightarrow> int \<Rightarrow> int" where
  "js_rem a b = sgn a * (\<bar>a\<bar> mod \<bar>b\<bar>)"

text \<open>The index of the next button among \<open>n\<close>; the index of the focused one is \<open>-1\<close> when it is not among them.\<close>

definition tab_target :: "bool \<Rightarrow> int \<Rightarrow> int \<Rightarrow> int option" where
  "tab_target shiftKey index n =
     (if n = 0 then None else Some (if shiftKey then js_rem (index - 1 + n) n else js_rem (index + 1) n))"

definition activeError :: "conn_row \<Rightarrow> jsval option" where
  "activeError r =
     find_first truthy
       (concat (map (\<lambda>op. case row_status r op of MutationError err \<Rightarrow> [err] | _ \<Rightarrow> []) [OpDisable, OpEnable, OpDelete]))"

definition actions_message :: "conn_row \<Rightarrow> string option" where
  "actions_message r = map_option getSafeConnectionErrorKey (activeError r)"

text \<open>The timer of the effect: armed while any of the three mutations has failed, it sets back all three.\<close>

definition actions_timer :: "conn_row \<Rightarrow> conn_row" where
  "actions_timer r =
     (if is_error (row_status r OpDisable) \<or> is_error (row_status r OpEnable) \<or> is_error (row_status r OpDelete)
      then reset_mutation OpDelete (reset_mutation OpEnable (reset_mutation OpDisable r)) else r)"

section \<open>Events\<close>

datatype row_event =
    ClickTest
  | ClickRefreshSchema
  | ClickDisable
  | ClickEnable
  | ClickDelete
  | ClickCancelDelete
  | ClickConfirmDelete
  | PressKey dialog_key
  | RowSettles row_operation nat "jsval outcome"
  | TestTimer
  | RefreshTimer
  | ActionsTimer

text \<open>A click reaches its handler when the button is shown and enabled.\<close>

fun row_step :: "row_props \<Rightarrow> row_event \<Rightarrow> conn_row \<Rightarrow> conn_row" where
  "row_step props ClickTest r = handleTest props r"
| "row_step props ClickRefreshSchema r = handleRefresh_schema props r"
| "row_step props ClickDisable r =
     (if lifecycleState props = Active \<and> \<not> displayConfirm r then handleDisable props r else r)"
| "row_step props ClickEnable r =
     (if lifecycleState props \<noteq> Active \<and> \<not> displayConfirm r then handleEnable props r else r)"
| "row_step props ClickDelete r = (if \<not> displayConfirm r then handleDeleteClick_connection props r else r)"
| "row_step props ClickCancelDelete r =
     (if displayConfirm r \<and> \<not> isActionDisabled props r then handleCancelDelete r else r)"
| "row_step props ClickConfirmDelete r = (if displayConfirm r then handleConfirmDelete props r else r)"
| "row_step props (PressKey key) r = (if displayConfirm r then handleDialogKeyDown props key r else r)"
| "row_step props (RowSettles op n answer) r = row_settles op n answer r"
| "row_step props TestTimer r = probe_timer OpTest r"
| "row_step props RefreshTimer r = probe_timer OpRefreshSchema r"
| "row_step props ActionsTimer r = actions_timer r"

definition row_run :: "(row_props \<times> row_event) list \<Rightarrow> conn_row \<Rightarrow> conn_row" where
  "row_run es r = foldl (\<lambda>q x. row_step (fst x) (snd x) q) r es"

section \<open>Open requests and the observers that follow them\<close>

text \<open>For the operations of \<open>S\<close> the open requests are exactly those their observers follow.\<close>

definition tracked :: "row_operation set \<Rightarrow> conn_row \<Rightarrow> bool" where
  "tracked S r \<longleftrightarrow>
     distinct (row_open r) \<and> (\<forall>x \<in> set (row_open r). fst x < row_next r) \<and>
     (\<forall>op n. row_status r op = MutationPending n \<longrightarrow> (n, op) \<in> set (row_open r)) \<and>
     (\<forall>x \<in> set (row_open r). snd x \<in> S \<longrightarrow> row_status r (snd x) = MutationPending (fst x))"

lemma set_status_simps [simp]:
  "row_status (set_status op st r) = (row_status r)(op := st)" "row_open (set_status op st r) = row_open r"
  "row_next (set_status op st r) = row_next r" "row_sent (set_status op st r) = row_sent r"
  "showConfirm (set_status op st r) = showConfirm r" "row_outbox (set_status op st r) = row_outbox r"
  by (simp_all add: set_status_def)

lemma row_toast_simps [simp]:
  "row_status (row_toast t r) = row_status r" "row_open (row_toast t r) = row_open r"
  "row_next (row_toast t r) = row_next r" "row_sent (row_toast t r) = row_sent r"
  "showConfirm (row_toast t r) = showConfirm r" "row_outbox (row_toast t r) = row_outbox r @ [t]"
  by (simp_all add: row_toast_def)

lemma row_settles_simps [simp]:
  "row_open (row_settles op n answer r) = filter (\<lambda>x. x \<noteq> (n, op)) (row_open r)"
  "row_next (row_settles op n answer r) = row_next r" "row_sent (row_settles op n answer r) = row_sent r"
  "row_status (row_settles op n answer r) =
     (if row_status r op = MutationPending n
      then (row_status r)(op := (case answer of Inr data \<Rightarrow> MutationSuccess data | Inl err \<Rightarrow> MutationError err))
      else row_status r)"
  "showConfirm (row_settles op n answer r) =
     (showConfirm r \<and> \<not> (op = OpDelete \<and> row_status r op = MutationPending n \<and> (\<exists>d. answer = Inr d)))"
  by (auto simp: row_settles_def Let_def split: sum.splits)

lemma row_mutate_simps [simp]:
  "row_next (row_mutate props op r) = row_next r + 1"
  "showConfirm (row_mutate props op r) = showConfirm r"
  "row_status (row_mutate props op r) =
     (row_status r)(op := (if row_canManage props then MutationPending (row_next r)
                           else MutationError (PermissionRequiredError ADMIN_CONNECTIONS_MANAGE)))"
  "row_sent (row_mutate props op r) =
     row_sent r @ (if row_canManage props then [row_request op (connectionId props)] else [])"
  "row_open (row_mutate props op r) =
     (if row_canManage props then row_open r @ [(row_next r, op)]
      else filter (\<lambda>x. x \<noteq> (row_next r, op)) (row_open r))"
  by (simp_all add: row_mutate_def connection_mutationFn_def requirePermission_def Let_def)

lemma tracked_fresh: "tracked S fresh_row"
  by (simp add: tracked_def fresh_row_def)

lemma tracked_confirm [simp]: "tracked S (r\<lparr>showConfirm := b\<rparr>) = tracked S r"
  by (simp add: tracked_def)

lemma tracked_settles: "tracked S r \<Longrightarrow> tracked S (row_settles op n answer r)"
  unfolding tracked_def by (auto split: sum.splits if_splits)

lemma tracked_mutate:
  assumes "tracked S r" and "\<not> is_pending (row_status r op)"
  shows "tracked S (row_mutate props op r)"
proof -
  have fresh: "(row_next r, op') \<notin> set (row_open r)" for op' using assms(1) by (auto simp: tracked_def)
  have stale: "(n, op) \<in> set (row_open r) \<Longrightarrow> op \<notin> S" for n
    using assms by (force simp: tracked_def)
  have keep: "filter (\<lambda>x. x \<noteq> (row_next r, op)) (row_open r) = row_open r"
    using fresh by (auto intro!: filter_True)
  show ?thesis
    using assms(1) fresh stale unfolding tracked_def row_mutate_simps keep
    by (auto split: if_splits dest: less_SucI)
qed

lemma tracked_reset:
  "tracked S r \<Longrightarrow> op \<notin> S \<or> \<not> is_pending (row_status r op) \<Longrightarrow> tracked S (reset_mutation op r)"
  unfolding tracked_def reset_mutation_def by auto

lemma settled_not_pending: "is_success st \<or> is_error st \<Longrightarrow> \<not> is_pending st"
  by (cases st) auto

lemma trackedD: "tracked S r \<Longrightarrow> (n, op) \<in> set (row_open r) \<Longrightarrow> op \<in> S \<Longrightarrow> row_status r op = MutationPending n"
  unfolding tracked_def by (metis fst_conv snd_conv)

lemma tracked_timer: "tracked S r \<Longrightarrow> S \<subseteq> {OpTest, OpRefreshSchema} \<Longrightarrow> tracked S (actions_timer r)"
  by (auto simp: actions_timer_def intro!: tracked_reset)

lemmas row_handler_defs = handleTest_def handleRefresh_schema_def probe_timer_def handleDisable_def handleEnable_def
  handleDeleteClick_connection_def handleCancelDelete_def handleConfirmDelete_def handleDialogKeyDown_def isActionDisabled_def

lemma tracked_step:
  assumes "tracked S r" and "e \<noteq> ActionsTimer \<or> S \<subseteq> {OpTest, OpRefreshSchema}"
  shows "tracked S (row_step props e r)"
  using assms
  by (cases e)
    (simp_all add: row_handler_defs isPending_actions_def settled_not_pending tracked_mutate tracked_settles tracked_reset
      tracked_timer)

lemma tracked_run:
  assumes "list_all (\<lambda>x. snd x \<noteq> ActionsTimer) es \<or> S \<subseteq> {OpTest, OpRefreshSchema}"
  shows "tracked S (row_run es fresh_row)"
  unfolding row_run_def
proof (rule foldl_invariant)
  fix q x
  assume "x \<in> set es" and q: "tracked S q"
  with assms have "snd x \<noteq> ActionsTimer \<or> S \<subseteq> {OpTest, OpRefreshSchema}" by (auto simp: list_all_iff)
  with q show "tracked S (row_step (fst x) (snd x) q)" by (rule tracked_step)
qed (rule tracked_fresh)

lemma at_most_one:
  assumes "distinct xs" and "\<And>x y. x \<in> set xs \<Longrightarrow> y \<in> set xs \<Longrightarrow> x = y"
  shows "length xs \<le> 1"
proof -
  have "set xs \<subseteq> {hd xs}" using assms(2) by (cases xs) auto
  then have "card (set xs) \<le> 1" by (metis card.empty card.insert card_mono empty_iff finite.simps One_nat_def)
  with assms(1) show ?thesis by (simp add: distinct_card)
qed

definition open_of :: "(row_operation \<Rightarrow> bool) \<Rightarrow> conn_row \<Rightarrow> nat" where
  "open_of P r = length (filter (\<lambda>x. P (snd x)) (row_open r))"

lemma tracked_open_single:
  assumes tr: "tracked S r" and sub: "\<And>op. P op \<Longrightarrow> op \<in> S"
    and one: "\<And>a b. P a \<Longrightarrow> P b \<Longrightarrow> is_pending (row_status r a) \<Longrightarrow> is_pending (row_status r b) \<Longrightarrow> a = b"
  shows "open_of P r \<le> 1"
  unfolding open_of_def
proof (rule at_most_one)
  show "distinct (filter (\<lambda>x. P (snd x)) (row_open r))" using tr by (simp add: tracked_def)
next
  fix x y
  assume "x \<in> set (filter (\<lambda>x. P (snd x)) (row_open r))" "y \<in> set (filter (\<lambda>x. P (snd x)) (row_open r))"
  then have st: "row_status r (snd x) = MutationPending (fst x)" "row_status r (snd y) = MutationPending (fst y)"
    and "P (snd x)" "P (snd y)"
    using sub by (auto intro!: trackedD [OF tr])
  then have "snd x = snd y" by (intro one) simp_all
  with st show "x = y" by (simp add: prod_eq_iff)
qed

section \<open>One action at a time\<close>

definition is_action :: "row_operation \<Rightarrow> bool" where
  "is_action op = (op \<in> {OpDisable, OpEnable, OpDelete})"

definition one_action :: "conn_row \<Rightarrow> bool" where
  "one_action r \<longleftrightarrow>
     (\<forall>a b. is_action a \<longrightarrow> is_action b \<longrightarrow> is_pending (row_status r a) \<longrightarrow> is_pending (row_status r b) \<longrightarrow> a = b)"

lemma isPending_actions_iff: "isPending_actions r \<longleftrightarrow> (\<exists>a. is_action a \<and> is_pending (row_status r a))"
  by (auto simp: isPending_actions_def is_action_def)

lemma one_action_mono:
  "one_action r \<Longrightarrow> (\<And>a. is_pending (row_status q a) \<Longrightarrow> is_action a \<Longrightarrow> is_pending (row_status r a)) \<Longrightarrow> one_action q"
  unfolding one_action_def by blast

lemma one_action_mutate:
  "one_action r \<Longrightarrow> \<not> is_action op \<or> \<not> isPending_actions r \<Longrightarrow> one_action (row_mutate props op r)"
  unfolding one_action_def isPending_actions_iff by auto

lemma one_action_settles: "one_action r \<Longrightarrow> one_action (row_settles op n answer r)"
  by (erule one_action_mono) (auto split: sum.splits if_splits)

lemma one_action_reset: "one_action r \<Longrightarrow> one_action (reset_mutation op r)"
  by (erule one_action_mono) (auto simp: reset_mutation_def split: if_splits)

lemma one_action_confirm [simp]: "one_action (r\<lparr>showConfirm := b\<rparr>) = one_action r"
  by (simp add: one_action_def)

lemma one_action_step: "one_action r \<Longrightarrow> one_action (row_step props e r)"
  by (cases e)
    (simp_all add: row_handler_defs actions_timer_def is_action_def one_action_mutate one_action_settles one_action_reset)

lemma one_action_run: "one_action (row_run es fresh_row)"
  unfolding row_run_def
  by (rule foldl_invariant) (auto simp: one_action_step, simp add: one_action_def fresh_row_def)

lemma actions_open_single:
  assumes "tracked UNIV r" and "one_action r"
  shows "open_of is_action r \<le> 1"
  by (rule tracked_open_single [OF assms(1)]) (use assms(2) in \<open>auto simp: one_action_def\<close>)

section \<open>The buttons as single-flight components\<close>

fun is_request :: "row_operation \<Rightarrow> connection_request \<Rightarrow> bool" where
  "is_request OpTest (TestRequest i) = True"
| "is_request OpRefreshSchema (RefreshSchemaRequest i) = True"
| "is_request OpDisable (DisableRequest i) = True"
| "is_request OpEnable (EnableRequest i) = True"
| "is_request OpDelete (DeleteRequest i) = True"
| "is_request _ _ = False"

lemma is_request_row_request [simp]: "is_request op (row_request op' i) \<longleftrightarrow> op = op'"
  by (cases op; cases op') simp_all

definition requests_of :: "row_operation \<Rightarrow> conn_row \<Rightarrow> nat" where
  "requests_of op r = length (filter (is_request op) (row_sent r))"

text \<open>The settlements of one operation: those of the other buttons are no answers to it.\<close>

definition row_settlement :: "row_operation \<Rightarrow> row_props \<times> row_event \<Rightarrow> bool" where
  "row_settlement op x = (case snd x of RowSettles op' n answer \<Rightarrow> op' = op | _ \<Rightarrow> False)"

lemma requests_of_simps [simp]:
  "requests_of op (r\<lparr>showConfirm := b\<rparr>) = requests_of op r"
  "requests_of op (set_status op' st r) = requests_of op r"
  "requests_of op (row_settles op' n answer r) = requests_of op r"
  "requests_of op (row_mutate props op' r) = requests_of op r + of_bool (op = op' \<and> row_canManage props)"
  by (simp_all add: requests_of_def)

lemma probe_flight_laws:
  assumes "op = OpTest \<or> op = OpRefreshSchema"
  shows "is_pending (row_status r op) \<Longrightarrow> \<not> row_settlement op (props, e) \<Longrightarrow>
      is_pending (row_status (row_step props e r) op) \<and> requests_of op (row_step props e r) = requests_of op r"
    and "\<not> is_pending (row_status r op) \<Longrightarrow>
      requests_of op (row_step props e r) \<le> requests_of op r + of_bool (is_pending (row_status (row_step props e r) op))"
    and "row_settlement op (props, e) \<Longrightarrow> requests_of op (row_step props e r) = requests_of op r"
  using assms
  by (cases e; force simp: row_handler_defs actions_timer_def reset_mutation_def row_settlement_def settled_not_pending)+

lemma probe_flight:
  assumes "op = OpTest \<or> op = OpRefreshSchema"
  shows "single_flight (\<lambda>x. row_step (fst x) (snd x)) (\<lambda>r. True) (\<lambda>r. is_pending (row_status r op)) (requests_of op)
    (row_settlement op)"
proof
  fix r :: conn_row and x :: "row_props \<times> row_event"
  obtain props e where x: "x = (props, e)" by (cases x)
  note laws = probe_flight_laws [OF assms, where r = r and props = props and e = e]
  show "is_pending (row_status (row_step (fst x) (snd x) r) op) \<and>
      requests_of op (row_step (fst x) (snd x) r) = requests_of op r"
    if "is_pending (row_status r op)" and "\<not> row_settlement op x" using that laws(1) by (simp add: x)
  show "requests_of op (row_step (fst x) (snd x) r) \<le>
      requests_of op r + of_bool (is_pending (row_status (row_step (fst x) (snd x) r) op))"
    if "\<not> is_pending (row_status r op)" using that laws(2) by (simp add: x)
  show "requests_of op (row_step (fst x) (snd x) r) = requests_of op r"
    if "row_settlement op x" using that laws(3) by (simp add: x)
qed simp

interpretation test_flight: single_flight "\<lambda>x. row_step (fst x) (snd x)" "\<lambda>r. True"
    "\<lambda>r. is_pending (row_status r OpTest)" "requests_of OpTest" "row_settlement OpTest"
  by (rule probe_flight) simp

interpretation refresh_flight: single_flight "\<lambda>x. row_step (fst x) (snd x)" "\<lambda>r. True"
    "\<lambda>r. is_pending (row_status r OpRefreshSchema)" "requests_of OpRefreshSchema" "row_settlement OpRefreshSchema"
  by (rule probe_flight) simp

section \<open>What the row shows, and the confirmation of a deletion\<close>

lemma actions_message_safe: "pred_option (\<lambda>m. m \<in> set KNOWN_SAFE_KEYS) (actions_message r)"
  by (cases "activeError r") (simp_all add: actions_message_def)

text \<open>The focus stays among the buttons of the dialog.\<close>

lemma tab_target_range:
  assumes "-1 \<le> index" and "index < n" and "0 < n"
  shows "pred_option (\<lambda>k. 0 \<le> k \<and> k < n) (tab_target shiftKey index n)"
proof -
  have rem: "0 \<le> js_rem a n \<and> js_rem a n < n" if "0 \<le> a \<or> n = 1" for a
    using that assms(3) by (cases "a = 0") (auto simp: js_rem_def sgn_if)
  show ?thesis
    using assms rem [of "index - 1 + n"] rem [of "index + 1"] by (simp add: tab_target_def) linarith
qed

lemma confirm_step:
  "displayConfirm (row_step props e r) \<Longrightarrow> displayConfirm r \<or> e = ClickDelete"
  by (cases e)
    (auto simp: displayConfirm_def row_handler_defs isPending_actions_def actions_timer_def reset_mutation_def
      split: if_splits sum.splits)

lemma delete_sent_step:
  "DeleteRequest i \<in> set (row_sent (row_step props e r)) \<Longrightarrow>
   DeleteRequest i \<in> set (row_sent r) \<or> (e = ClickConfirmDelete \<and> displayConfirm r)"
  by (cases e)
    (auto simp: row_handler_defs isPending_actions_def actions_timer_def reset_mutation_def split: if_splits)

lemma row_run_snoc: "row_run (es @ [x]) r = row_step (fst x) (snd x) (row_run es r)"
  by (simp add: row_run_def)

lemma dialog_was_opened: "displayConfirm (row_run es fresh_row) \<Longrightarrow> ClickDelete \<in> set (map snd es)"
proof (induction es rule: rev_induct)
  case Nil
  then show ?case by (simp add: row_run_def fresh_row_def displayConfirm_def)
next
  case (snoc x es)
  then show ?case using confirm_step by (fastforce simp: row_run_snoc)
qed

lemma actions_one_at_a_time:
  assumes "list_all (\<lambda>x. snd x \<noteq> ActionsTimer) es"
  shows "open_of is_action (row_run es fresh_row) \<le> 1"
proof -
  from assms have "tracked UNIV (row_run es fresh_row)" by (intro tracked_run disjI1)
  then show ?thesis by (rule actions_open_single [OF _ one_action_run])
qed

text \<open>
  C36. While the row of a connection is shown, it has at most one test and at most one refresh of the schema under way,
  and, as long as the timer of the action errors has not fired, at most one of disabling, enabling and deleting. That
  timer sets back all three mutations, pending or not: when disabling has failed and a deletion is under way as it fires,
  the row forgets the deletion, the dialog is enabled again, and a second request to delete the same connection goes out
  beside the first.
\<close>

theorem row_requests_one_at_a_time:
  "open_of (\<lambda>op. op = OpTest) (row_run es fresh_row) \<le> 1 \<and>
   open_of (\<lambda>op. op = OpRefreshSchema) (row_run es fresh_row) \<le> 1 \<and>
   (list_all (\<lambda>x. snd x \<noteq> ActionsTimer) es \<longrightarrow> open_of is_action (row_run es fresh_row) \<le> 1) \<and>
   (let r = row_run
        (map (Pair \<lparr>connectionId = i, lifecycleState = Active, row_disabled = False, row_canManage = True\<rparr>)
          [ClickDisable, RowSettles OpDisable 0 (Inl err), ClickDelete, ClickConfirmDelete, ActionsTimer, ClickConfirmDelete])
        fresh_row
    in open_of (\<lambda>op. op = OpDelete) r = 2 \<and> row_sent r = [DisableRequest i, DeleteRequest i, DeleteRequest i])"
proof (intro conjI impI)
  have tr: "tracked {OpTest, OpRefreshSchema} (row_run es fresh_row)" by (rule tracked_run) simp
  show "open_of (\<lambda>op. op = OpTest) (row_run es fresh_row) \<le> 1"
    by (rule tracked_open_single [OF tr]) simp_all
  show "open_of (\<lambda>op. op = OpRefreshSchema) (row_run es fresh_row) \<le> 1"
    by (rule tracked_open_single [OF tr]) simp_all
qed (erule actions_one_at_a_time,
  simp add: row_run_def fresh_row_def row_handler_defs displayConfirm_def isPending_actions_def actions_timer_def
    reset_mutation_def open_of_def)

definition sample_props :: row_props where
  "sample_props = \<lparr>connectionId = ''c1'', lifecycleState = Active, row_disabled = False, row_canManage = True\<rparr>"

theorem row_requests_one_at_a_time_witness:
  "open_of is_action (row_run (map (Pair sample_props) [ClickTest, ClickDisable, ClickDisable, ClickDelete]) fresh_row) \<le> 1 \<and>
   row_sent (row_run (map (Pair sample_props) [ClickTest, ClickDisable, ClickDisable, ClickDelete]) fresh_row) =
     [TestRequest ''c1'', DisableRequest ''c1'']"
proof
  show "open_of is_action (row_run (map (Pair sample_props) [ClickTest, ClickDisable, ClickDisable, ClickDelete]) fresh_row) \<le> 1"
    using row_requests_one_at_a_time [where i = "''c1''" and err = JNull and es = "map (Pair sample_props) [ClickTest, ClickDisable, ClickDisable, ClickDelete]"]
    by simp
  show "row_sent (row_run (map (Pair sample_props) [ClickTest, ClickDisable, ClickDisable, ClickDelete]) fresh_row) =
     [TestRequest ''c1'', DisableRequest ''c1'']"
    by (simp add: row_run_def sample_props_def fresh_row_def row_handler_defs displayConfirm_def isPending_actions_def)
qed

text \<open>
  A connection is deleted only after its deletion was asked for and then confirmed in the dialog.
\<close>

lemma deletion_was_confirmed:
  assumes "DeleteRequest i \<in> set (row_sent (row_run es fresh_row))"
  shows "subseq [ClickDelete, ClickConfirmDelete] (map snd es)"
  using assms
proof (induction es rule: rev_induct)
  case Nil
  then show ?case by (simp add: row_run_def fresh_row_def)
next
  case (snoc x es)
  from snoc.prems consider "DeleteRequest i \<in> set (row_sent (row_run es fresh_row))"
    | "snd x = ClickConfirmDelete" "displayConfirm (row_run es fresh_row)"
    using delete_sent_step by (fastforce simp: row_run_snoc)
  then show ?case
  proof cases
    case 1
    then show ?thesis using snoc.IH by (simp add: subseq_rev_drop_many)
  next
    case 2
    then have "subseq [ClickDelete] (map snd es)" using dialog_was_opened by (simp add: subseq_singleton_left)
    with 2(1) have "subseq ([ClickDelete] @ [ClickConfirmDelete]) (map snd es @ [snd x])"
      by (intro list_emb_append_mono) simp_all
    then show ?thesis by simp
  qed
qed

lemma test_run_of: "test_flight.run_of es r = row_run es r"
  by (simp add: test_flight.run_of_def row_run_def)

lemma refresh_run_of: "refresh_flight.run_of es r = row_run es r"
  by (simp add: refresh_flight.run_of_def row_run_def)

end
