(* ===== verification/Connections_Page.thy ===== *)
theory Connections_Page
  imports Connection_Rows
begin

text \<open>
  Administration of the database connections, third part: \<open>frontend/src/pages/AdminConnectionsPage.tsx\<close>. The page shows
  a spinner, an error, the form for a new or an edited connection, or the table with a row of controls per connection;
  a form and a row keep their state only while they are shown. The toasts are drawn in the table view only. The list
  comes from the query of \<open>useConnections\<close>, which the environment starts and settles.
\<close>

section \<open>State\<close>

record connections_page =
  cp_canManage :: bool
  cp_query :: query_state
  cp_connections :: "ConnectionView list"
  cp_isAdding :: bool
  editingConnection :: "ConnectionView option"
  cp_toasts :: toasts
  cp_form :: conn_form
  cp_creating :: bool
  cp_updating :: bool
  cp_rows :: "string \<Rightarrow> conn_row"
  cp_saves :: "connection_request list"

definition mount_connections :: "bool \<Rightarrow> connections_page" where
  "mount_connections can =
     \<lparr>cp_canManage = can,
      cp_query = \<lparr>qs_has_data = False, qs_error = JNull, qs_isError = False, qs_isFetching = can\<rparr>,
      cp_connections = [], cp_isAdding = False, editingConnection = None, cp_toasts = no_toasts,
      cp_form = mount_form None, cp_creating = False, cp_updating = False, cp_rows = (\<lambda>i. fresh_row), cp_saves = []\<rparr>"

section \<open>The view\<close>

datatype connections_view =
    LoadingView
  | LoadErrorView query_banner
  | AddView conn_form bool
  | EditView conn_form bool
  | ListView query_banner "Toast list" "ConnectionView list"

definition isLoading_list :: "connections_page \<Rightarrow> bool" where
  "isLoading_list p = (qs_isFetching (cp_query p) \<and> \<not> qs_has_data (cp_query p) \<and> \<not> qs_isError (cp_query p))"

definition AdminConnectionsPage :: "connections_page \<Rightarrow> connections_view" where
  "AdminConnectionsPage p =
     (if isLoading_list p then LoadingView
      else if qs_isError (cp_query p) \<and> \<not> qs_has_data (cp_query p)
      then LoadErrorView (ClientQueryState (cp_query p) ''admin.connections.loadError'' None False)
      else if cp_isAdding p then AddView (cp_form p) (cp_creating p)
      else if editingConnection p \<noteq> None then EditView (cp_form p) (cp_updating p)
      else ListView (ClientQueryState (cp_query p) ''admin.connections.loadError'' None False)
             (toast_list (cp_toasts p)) (if qs_has_data (cp_query p) then cp_connections p else []))"

definition form_shown :: "connections_page \<Rightarrow> bool" where
  "form_shown p = (case AdminConnectionsPage p of AddView f b \<Rightarrow> True | EditView f b \<Rightarrow> True | _ \<Rightarrow> False)"

definition listed :: "connections_page \<Rightarrow> ConnectionView list" where
  "listed p = (case AdminConnectionsPage p of ListView banner ts cs \<Rightarrow> cs | _ \<Rightarrow> [])"

definition list_shown :: "connections_page \<Rightarrow> bool" where
  "list_shown p = (case AdminConnectionsPage p of ListView banner ts cs \<Rightarrow> True | _ \<Rightarrow> False)"

text \<open>What the page says to the user: toasts, banner, and messages at the fields of the form.\<close>

fun banner_messages :: "query_banner \<Rightarrow> string list" where
  "banner_messages (ErrorBanner m) = [m]"
| "banner_messages _ = []"

fun visible_messages :: "connections_view \<Rightarrow> string list" where
  "visible_messages LoadingView = []"
| "visible_messages (LoadErrorView banner) = banner_messages banner"
| "visible_messages (AddView f b) = map snd (errors f)"
| "visible_messages (EditView f b) = map snd (errors f)"
| "visible_messages (ListView banner ts cs) = banner_messages banner @ map toast_message ts"

text \<open>A form or a row that is not shown is unmounted, and starts afresh when it is shown again.\<close>

definition remount :: "connections_page \<Rightarrow> connections_page" where
  "remount p =
     p\<lparr>cp_form := (if form_shown p then cp_form p else mount_form (editingConnection p)),
       cp_rows := (\<lambda>i. if i \<in> set (map view_id (listed p)) then cp_rows p i else fresh_row)\<rparr>"

section \<open>Handlers\<close>

definition page_toast :: "toast_type \<Rightarrow> string \<Rightarrow> connections_page \<Rightarrow> connections_page" where
  "page_toast ty message p = p\<lparr>cp_toasts := addToast ty message (cp_toasts p)\<rparr>"

definition create_settles :: "jsval outcome \<Rightarrow> connections_page \<Rightarrow> connections_page" where
  "create_settles answer p =
     (if \<not> cp_creating p then p
      else case answer of
             Inr data \<Rightarrow> page_toast ToastSuccess ''admin.connections.addSuccess'' (p\<lparr>cp_creating := False, cp_isAdding := False\<rparr>)
           | Inl err \<Rightarrow> page_toast ToastError (getSafeConnectionErrorKey err) (p\<lparr>cp_creating := False\<rparr>))"

definition update_settles :: "jsval outcome \<Rightarrow> connections_page \<Rightarrow> connections_page" where
  "update_settles answer p =
     (if \<not> cp_updating p then p
      else case answer of
             Inr data \<Rightarrow>
               page_toast ToastSuccess ''admin.connections.updateSuccess'' (p\<lparr>cp_updating := False, editingConnection := None\<rparr>)
           | Inl err \<Rightarrow> page_toast ToastError (getSafeConnectionErrorKey err) (p\<lparr>cp_updating := False\<rparr>))"

definition onSubmit_add :: "payload \<Rightarrow> connections_page \<Rightarrow> connections_page" where
  "onSubmit_add data p =
     (case connection_mutationFn (cp_canManage p) (CreateRequest data) of
        Inl err \<Rightarrow> create_settles (Inl err) (p\<lparr>cp_creating := True\<rparr>)
      | Inr request \<Rightarrow> p\<lparr>cp_creating := True, cp_saves := cp_saves p @ [request]\<rparr>)"

definition onSubmit_edit :: "ConnectionView \<Rightarrow> payload \<Rightarrow> connections_page \<Rightarrow> connections_page" where
  "onSubmit_edit editing data p =
     (case connection_mutationFn (cp_canManage p) (UpdateRequest (view_id editing) data) of
        Inl err \<Rightarrow> update_settles (Inl err) (p\<lparr>cp_updating := True\<rparr>)
      | Inr request \<Rightarrow> p\<lparr>cp_updating := True, cp_saves := cp_saves p @ [request]\<rparr>)"

definition submit_form :: "connections_page \<Rightarrow> connections_page" where
  "submit_form p =
     (let (data, f) = handleSubmit_connection (cp_form p); p1 = p\<lparr>cp_form := f\<rparr>
      in case data of
           None \<Rightarrow> p1
         | Some d \<Rightarrow>
             if cp_isAdding p then onSubmit_add d p1
             else (case editingConnection p of Some editing \<Rightarrow> onSubmit_edit editing d p1 | None \<Rightarrow> p1))"

definition isSubmitting :: "connections_page \<Rightarrow> bool" where
  "isSubmitting p = (if cp_isAdding p then cp_creating p else cp_updating p)"

definition onCancel_form :: "connections_page \<Rightarrow> connections_page" where
  "onCancel_form p = (if cp_isAdding p then p\<lparr>cp_isAdding := False\<rparr> else p\<lparr>editingConnection := None\<rparr>)"

text \<open>An event of a row; the messages it hands up become toasts.\<close>

definition row_props_of :: "connections_page \<Rightarrow> ConnectionView \<Rightarrow> row_props" where
  "row_props_of p conn =
     \<lparr>connectionId = view_id conn, lifecycleState = view_lifecycle_state conn, row_disabled = False,
      row_canManage = cp_canManage p\<rparr>"

definition deliver :: "(toast_type \<times> string) list \<Rightarrow> connections_page \<Rightarrow> connections_page" where
  "deliver ms p = foldl (\<lambda>q m. page_toast (fst m) (snd m) q) p ms"

definition handle_row_event :: "string \<Rightarrow> row_event \<Rightarrow> connections_page \<Rightarrow> connections_page" where
  "handle_row_event i e p =
     (case find_first (\<lambda>c. view_id c = i) (listed p) of
        None \<Rightarrow> p
      | Some conn \<Rightarrow>
          (let r = row_step (row_props_of p conn) e (cp_rows p i)
           in deliver (row_outbox r) (p\<lparr>cp_rows := (cp_rows p)(i := r\<lparr>row_outbox := []\<rparr>)\<rparr>)))"

section \<open>Events\<close>

datatype connections_event =
    ClickAddConnection
  | ClickEditConnection ConnectionView
  | EditForm form_event
  | SubmitConnection
  | CancelConnection
  | CreateSettles "jsval outcome"
  | UpdateSettles "jsval outcome"
  | RowEvent string row_event
  | ListFetchStarts
  | ListSettles "ConnectionResponse list outcome"
  | ManageChanges bool
  | PageToastGone nat

definition list_fetch_starts :: "connections_page \<Rightarrow> connections_page" where
  "list_fetch_starts p =
     (if cp_canManage p
      then p\<lparr>cp_query := (cp_query p)\<lparr>qs_isFetching := True,
               qs_isError := qs_isError (cp_query p) \<and> qs_has_data (cp_query p)\<rparr>\<rparr>
      else p)"

definition list_settles :: "ConnectionResponse list outcome \<Rightarrow> connections_page \<Rightarrow> connections_page" where
  "list_settles answer p =
     (case answer of
        Inr data \<Rightarrow>
          p\<lparr>cp_connections := normalizeConnectionList data,
            cp_query := \<lparr>qs_has_data = True, qs_error = JNull, qs_isError = False, qs_isFetching = False\<rparr>\<rparr>
      | Inl err \<Rightarrow> p\<lparr>cp_query := (cp_query p)\<lparr>qs_error := err, qs_isError := True, qs_isFetching := False\<rparr>\<rparr>)"

fun connections_event_step :: "connections_event \<Rightarrow> connections_page \<Rightarrow> connections_page" where
  "connections_event_step ClickAddConnection p = (if list_shown p then p\<lparr>cp_isAdding := True, cp_form := mount_form None\<rparr> else p)"
| "connections_event_step (ClickEditConnection conn) p =
     (if conn \<in> set (listed p) then p\<lparr>editingConnection := Some conn, cp_form := mount_form (Some conn)\<rparr> else p)"
| "connections_event_step (EditForm e) p = (if form_shown p then p\<lparr>cp_form := form_step e (cp_form p)\<rparr> else p)"
| "connections_event_step SubmitConnection p = (if form_shown p \<and> \<not> isSubmitting p then submit_form p else p)"
| "connections_event_step CancelConnection p = (if form_shown p \<and> \<not> isSubmitting p then onCancel_form p else p)"
| "connections_event_step (CreateSettles answer) p = create_settles answer p"
| "connections_event_step (UpdateSettles answer) p = update_settles answer p"
| "connections_event_step (RowEvent i e) p = handle_row_event i e p"
| "connections_event_step ListFetchStarts p = list_fetch_starts p"
| "connections_event_step (ListSettles answer) p = list_settles answer p"
| "connections_event_step (ManageChanges can) p = p\<lparr>cp_canManage := can\<rparr>"
| "connections_event_step (PageToastGone i) p = p\<lparr>cp_toasts := removeToast i (cp_toasts p)\<rparr>"

definition connections_step :: "connections_event \<Rightarrow> connections_page \<Rightarrow> connections_page" where
  "connections_step e p = remount (connections_event_step e p)"

definition connections_run :: "connections_event list \<Rightarrow> connections_page \<Rightarrow> connections_page" where
  "connections_run es p = foldl (\<lambda>q e. connections_step e q) p es"

section \<open>Form and page stay in step\<close>

definition conn_page_inv :: "connections_page \<Rightarrow> bool" where
  "conn_page_inv p \<longleftrightarrow>
     (cp_isAdding p \<longrightarrow> editingConnection p = None) \<and> (cp_creating p \<longrightarrow> cp_isAdding p) \<and>
     (cp_updating p \<longrightarrow> editingConnection p \<noteq> None) \<and>
     initialValues (cp_form p) = editingConnection p \<and> integral (portValue (cp_form p)) \<and>
     (cp_creating p \<or> cp_updating p \<longrightarrow> errors (cp_form p) = [])"

lemma page_toast_simps [simp]:
  "cp_isAdding (page_toast ty m p) = cp_isAdding p" "editingConnection (page_toast ty m p) = editingConnection p"
  "cp_creating (page_toast ty m p) = cp_creating p" "cp_updating (page_toast ty m p) = cp_updating p"
  "cp_form (page_toast ty m p) = cp_form p" "cp_saves (page_toast ty m p) = cp_saves p"
  "cp_query (page_toast ty m p) = cp_query p" "cp_rows (page_toast ty m p) = cp_rows p"
  "cp_connections (page_toast ty m p) = cp_connections p"
  "cp_toasts (page_toast ty m p) = addToast ty m (cp_toasts p)"
  by (simp_all add: page_toast_def)

lemma deliver_simps [simp]:
  "cp_isAdding (deliver ms p) = cp_isAdding p" "editingConnection (deliver ms p) = editingConnection p"
  "cp_creating (deliver ms p) = cp_creating p" "cp_updating (deliver ms p) = cp_updating p"
  "cp_form (deliver ms p) = cp_form p" "cp_saves (deliver ms p) = cp_saves p"
  "cp_query (deliver ms p) = cp_query p" "cp_rows (deliver ms p) = cp_rows p"
  "cp_connections (deliver ms p) = cp_connections p"
  unfolding deliver_def by (induction ms arbitrary: p) simp_all

lemma mount_form_simps [simp]:
  "initialValues (mount_form iv) = iv" "integral (portValue (mount_form iv))" "errors (mount_form iv) = []"
  by (simp_all add: mount_form_def integral_def)

lemma form_step_errors [simp]: "errors (form_step e f) = errors f"
  by (cases e) (simp_all add: handleDatabaseTypeChange_def)

lemma conn_page_inv_toast [simp]: "conn_page_inv (page_toast ty m p) = conn_page_inv p"
  by (simp add: conn_page_inv_def)

lemma conn_page_inv_deliver [simp]: "conn_page_inv (deliver ms p) = conn_page_inv p"
  by (simp add: conn_page_inv_def)

lemma conn_page_inv_remount: "conn_page_inv p \<Longrightarrow> conn_page_inv (remount p)"
  by (simp add: conn_page_inv_def remount_def)

lemma shown_iff:
  "list_shown p \<Longrightarrow> \<not> cp_isAdding p \<and> editingConnection p = None"
  "form_shown p \<Longrightarrow> cp_isAdding p \<or> editingConnection p \<noteq> None"
  "c \<in> set (listed p) \<Longrightarrow> list_shown p"
  by (auto simp: list_shown_def form_shown_def listed_def AdminConnectionsPage_def split: if_splits)

lemma submit_errors:
  "fst (handleSubmit_connection f) = Some d \<Longrightarrow> errors (snd (handleSubmit_connection f)) = []"
  by (simp add: handleSubmit_cases split: if_splits)

lemma form_hidden: "\<not> cp_isAdding p \<Longrightarrow> editingConnection p = None \<Longrightarrow> \<not> form_shown p"
  by (auto simp: form_shown_def AdminConnectionsPage_def)

text \<open>Leaving the form: whatever it held is dropped by the remount.\<close>

lemma conn_page_inv_leave:
  assumes "\<not> cp_isAdding p" and "editingConnection p = None" and "\<not> cp_creating p" and "\<not> cp_updating p"
  shows "conn_page_inv (remount p)"
  using assms form_hidden [OF assms(1,2)] by (simp add: conn_page_inv_def remount_def)

lemma conn_page_inv_create_settles: "conn_page_inv p \<Longrightarrow> conn_page_inv (remount (create_settles answer p))"
proof (cases "cp_creating p \<and> (\<exists>data. answer = Inr data)")
  case True
  assume "conn_page_inv p"
  with True show ?thesis by (intro conn_page_inv_leave) (auto simp: create_settles_def conn_page_inv_def)
next
  case False
  assume "conn_page_inv p"
  with False show ?thesis by (intro conn_page_inv_remount) (auto simp: create_settles_def conn_page_inv_def split: sum.splits)
qed

lemma conn_page_inv_update_settles: "conn_page_inv p \<Longrightarrow> conn_page_inv (remount (update_settles answer p))"
proof (cases "cp_updating p \<and> (\<exists>data. answer = Inr data)")
  case True
  assume "conn_page_inv p"
  with True show ?thesis by (intro conn_page_inv_leave) (auto simp: update_settles_def conn_page_inv_def)
next
  case False
  assume "conn_page_inv p"
  with False show ?thesis by (intro conn_page_inv_remount) (auto simp: update_settles_def conn_page_inv_def split: sum.splits)
qed

lemma onSubmit_add_cases:
  "onSubmit_add d p =
     (if cp_canManage p then p\<lparr>cp_creating := True, cp_saves := cp_saves p @ [CreateRequest d]\<rparr>
      else page_toast ToastError (getSafeConnectionErrorKey (PermissionRequiredError ADMIN_CONNECTIONS_MANAGE))
             (p\<lparr>cp_creating := False\<rparr>))"
  by (simp add: onSubmit_add_def connection_mutationFn_def requirePermission_def create_settles_def)

lemma onSubmit_edit_cases:
  "onSubmit_edit c d p =
     (if cp_canManage p then p\<lparr>cp_updating := True, cp_saves := cp_saves p @ [UpdateRequest (view_id c) d]\<rparr>
      else page_toast ToastError (getSafeConnectionErrorKey (PermissionRequiredError ADMIN_CONNECTIONS_MANAGE))
             (p\<lparr>cp_updating := False\<rparr>))"
  by (simp add: onSubmit_edit_def connection_mutationFn_def requirePermission_def update_settles_def)

text \<open>The three outcomes of a submission.\<close>

lemma submit_form_cases:
  assumes "form_shown p"
  obtains (refused) "fst (handleSubmit_connection (cp_form p)) = None"
      "submit_form p = p\<lparr>cp_form := snd (handleSubmit_connection (cp_form p))\<rparr>"
    | (add) d where "fst (handleSubmit_connection (cp_form p)) = Some d" "cp_isAdding p"
      "submit_form p = onSubmit_add d (p\<lparr>cp_form := snd (handleSubmit_connection (cp_form p))\<rparr>)"
    | (edit) d c where "fst (handleSubmit_connection (cp_form p)) = Some d" "\<not> cp_isAdding p" "editingConnection p = Some c"
      "submit_form p = onSubmit_edit c d (p\<lparr>cp_form := snd (handleSubmit_connection (cp_form p))\<rparr>)"
  using shown_iff(2) [OF assms]
  by (cases "fst (handleSubmit_connection (cp_form p))"; cases "cp_isAdding p"; cases "editingConnection p")
    (auto simp: submit_form_def split_beta Let_def)

lemma conn_page_inv_submit:
  assumes "conn_page_inv p" and "form_shown p" and "\<not> isSubmitting p"
  shows "conn_page_inv (submit_form p)"
  using assms(2)
proof (cases rule: submit_form_cases)
  case refused
  with assms show ?thesis by (auto simp: conn_page_inv_def isSubmitting_def split: if_splits)
next
  case (add d)
  with assms submit_errors [OF add(1)] show ?thesis
    by (auto simp: conn_page_inv_def isSubmitting_def onSubmit_add_cases)
next
  case (edit d c)
  with assms submit_errors [OF edit(1)] show ?thesis
    by (auto simp: conn_page_inv_def isSubmitting_def onSubmit_edit_cases)
qed

lemma conn_page_inv_cancel: "conn_page_inv p \<Longrightarrow> \<not> isSubmitting p \<Longrightarrow> conn_page_inv (remount (onCancel_form p))"
  by (rule conn_page_inv_leave) (auto simp: conn_page_inv_def isSubmitting_def onCancel_form_def split: if_splits)

lemma conn_page_inv_step:
  assumes inv: "conn_page_inv p"
  shows "conn_page_inv (connections_step e p)"
  unfolding connections_step_def
proof (cases e)
  case ClickAddConnection
  with inv shown_iff(1) [of p] show "conn_page_inv (remount (connections_event_step e p))"
    by (intro conn_page_inv_remount) (auto simp: conn_page_inv_def)
next
  case (ClickEditConnection c)
  with inv shown_iff(1) [of p] shown_iff(3) [of c p] show "conn_page_inv (remount (connections_event_step e p))"
    by (intro conn_page_inv_remount) (auto simp: conn_page_inv_def)
next
  case (EditForm ev)
  with inv show "conn_page_inv (remount (connections_event_step e p))"
    by (intro conn_page_inv_remount) (simp add: conn_page_inv_def form_step_integral)
next
  case SubmitConnection
  with inv show "conn_page_inv (remount (connections_event_step e p))"
    by (intro conn_page_inv_remount) (simp add: conn_page_inv_submit)
next
  case CancelConnection
  with conn_page_inv_cancel [OF inv] conn_page_inv_remount [OF inv] show "conn_page_inv (remount (connections_event_step e p))" by simp
next
  case (RowEvent i ev)
  with inv show "conn_page_inv (remount (connections_event_step e p))"
    by (intro conn_page_inv_remount) (simp add: handle_row_event_def Let_def conn_page_inv_def split: option.splits)
next
  case (ListSettles answer)
  with inv show "conn_page_inv (remount (connections_event_step e p))"
    by (intro conn_page_inv_remount) (simp add: list_settles_def conn_page_inv_def split: sum.splits)
qed (use inv in \<open>simp_all add: conn_page_inv_create_settles conn_page_inv_update_settles\<close>,
  (intro conn_page_inv_remount; simp add: conn_page_inv_def list_fetch_starts_def)+)

lemma conn_page_inv_mount: "conn_page_inv (mount_connections can)"
  by (simp add: mount_connections_def conn_page_inv_def)

lemma conn_page_inv_reachable: "conn_page_inv (connections_run es (mount_connections can))"
  unfolding connections_run_def by (rule foldl_invariant) (simp_all add: conn_page_inv_mount conn_page_inv_step)

section \<open>What is saved\<close>

fun conn_save_ok :: "connection_request \<Rightarrow> bool" where
  "conn_save_ok (CreateRequest (CreatePayload c)) = payload_ok (CreatePayload c)"
| "conn_save_ok (UpdateRequest i (UpdatePayload u)) = payload_ok (UpdatePayload u)"
| "conn_save_ok _ = False"

definition saving :: "connections_page \<Rightarrow> bool" where
  "saving p = (cp_creating p \<or> cp_updating p)"

lemma remount_simps [simp]:
  "cp_saves (remount p) = cp_saves p" "cp_creating (remount p) = cp_creating p" "cp_updating (remount p) = cp_updating p"
  "cp_toasts (remount p) = cp_toasts p" "cp_query (remount p) = cp_query p" "cp_isAdding (remount p) = cp_isAdding p"
  "editingConnection (remount p) = editingConnection p" "cp_connections (remount p) = cp_connections p"
  "saving (remount p) = saving p"
  by (simp_all add: remount_def saving_def)

lemma conn_save_ok_add:
  assumes "conn_page_inv p" and "fst (handleSubmit_connection (cp_form p)) = Some d" and "cp_isAdding p"
  shows "conn_save_ok (CreateRequest d)"
proof -
  from assms have "\<not> isEdit (cp_form p)" by (simp add: conn_page_inv_def isEdit_def)
  with assms(2) obtain c where "d = CreatePayload c" by (auto simp: handleSubmit_cases split: if_splits)
  with payload_ok_submit [OF assms(2)] assms(1) show ?thesis by (simp add: conn_page_inv_def)
qed

lemma conn_save_ok_edit:
  assumes "conn_page_inv p" and "fst (handleSubmit_connection (cp_form p)) = Some d" and "editingConnection p = Some c"
  shows "conn_save_ok (UpdateRequest (view_id c) d)"
proof -
  from assms have "isEdit (cp_form p)" by (simp add: conn_page_inv_def isEdit_def)
  with assms(2) obtain u where "d = UpdatePayload u" by (auto simp: handleSubmit_cases split: if_splits)
  with payload_ok_submit [OF assms(2)] assms(1) show ?thesis by (simp add: conn_page_inv_def)
qed

lemma not_submitting: "conn_page_inv p \<Longrightarrow> form_shown p \<Longrightarrow> isSubmitting p = saving p"
  using shown_iff(2) [of p] by (auto simp: conn_page_inv_def isSubmitting_def saving_def)

lemma submit_form_saves:
  assumes "conn_page_inv p" and "form_shown p"
  shows "submit_form p = p\<lparr>cp_form := snd (handleSubmit_connection (cp_form p))\<rparr> \<or>
    cp_saves (submit_form p) = cp_saves p \<and> saving (submit_form p) \<le> saving p \<or>
    (\<exists>q. cp_saves (submit_form p) = cp_saves p @ [q] \<and> conn_save_ok q \<and> saving (submit_form p))"
  using assms(2)
proof (cases rule: submit_form_cases)
  case (add d)
  with conn_save_ok_add [OF assms(1) add(1)] show ?thesis by (simp add: onSubmit_add_cases saving_def)
next
  case (edit d c)
  with conn_save_ok_edit [OF assms(1) edit(1)] show ?thesis by (simp add: onSubmit_edit_cases saving_def)
qed simp

definition save_settlement :: "connections_event \<Rightarrow> bool" where
  "save_settlement e = (case e of CreateSettles answer \<Rightarrow> True | UpdateSettles answer \<Rightarrow> True | _ \<Rightarrow> False)"

text \<open>An event other than an accepted submission and a settlement leaves the saves alone.\<close>

lemma saves_other:
  assumes "\<not> save_settlement e" and "e \<noteq> SubmitConnection \<or> saving p" and "conn_page_inv p"
  shows "cp_saves (connections_step e p) = cp_saves p \<and> saving (connections_step e p) = saving p"
  using assms not_submitting [of p]
  by (cases e)
    (simp_all add: connections_step_def save_settlement_def saving_def onCancel_form_def handle_row_event_def Let_def
      list_fetch_starts_def list_settles_def split: option.split sum.split, blast)

lemma saves_settlement: "save_settlement e \<Longrightarrow> cp_saves (connections_step e p) = cp_saves p"
  by (cases e)
    (simp_all add: connections_step_def save_settlement_def create_settles_def update_settles_def split: sum.split)

lemma saves_submit:
  assumes "conn_page_inv p" and "\<not> saving p"
  shows "cp_saves (connections_step SubmitConnection p) = cp_saves p \<or>
    (\<exists>q. cp_saves (connections_step SubmitConnection p) = cp_saves p @ [q] \<and> conn_save_ok q \<and>
       saving (connections_step SubmitConnection p))"
  using submit_form_saves [OF assms(1)] not_submitting [OF assms(1)] assms(2)
  by (cases "form_shown p") (auto simp: connections_step_def)

lemma saves_step:
  assumes "conn_page_inv p"
  shows "cp_saves (connections_step e p) = cp_saves p \<or> (\<exists>q. cp_saves (connections_step e p) = cp_saves p @ [q] \<and> conn_save_ok q)"
  using saves_other [OF _ _ assms, of e] saves_settlement [of e p] saves_submit [OF assms]
  by (cases "save_settlement e"; cases "e = SubmitConnection \<and> \<not> saving p") auto

interpretation connections_flight: single_flight connections_step conn_page_inv saving "\<lambda>p. length (cp_saves p)" save_settlement
proof
  fix p :: connections_page and e :: connections_event
  assume inv: "conn_page_inv p"
  then show "conn_page_inv (connections_step e p)" by (rule conn_page_inv_step)
  show "saving (connections_step e p) \<and> length (cp_saves (connections_step e p)) = length (cp_saves p)"
    if "saving p" and "\<not> save_settlement e"
    using saves_other [OF that(2) _ inv] that(1) by simp
  show "length (cp_saves (connections_step e p)) \<le> length (cp_saves p) + of_bool (saving (connections_step e p))"
    if "\<not> saving p" and "\<not> save_settlement e"
    using saves_other [OF that(2) _ inv] saves_submit [OF inv that(1)] by (cases "e = SubmitConnection") auto
  show "length (cp_saves (connections_step e p)) = length (cp_saves p)" if "save_settlement e"
    using saves_settlement [OF that] by simp
qed

section \<open>What was typed\<close>

text \<open>
  The history of a run, as far as credentials go: what was typed since the form came on display, last text per
  field. A step taken while no form is shown leaves nothing of it.
\<close>

fun typed_since :: "connections_event list \<Rightarrow> connections_page \<Rightarrow> credentials \<Rightarrow> credentials" where
  "typed_since [] p k = k"
| "typed_since (e # es) p k =
     typed_since es (connections_step e p)
       (if \<not> form_shown p then nothing_typed else case e of EditForm x \<Rightarrow> note_typed x k | _ \<Rightarrow> k)"

definition typed_inv :: "credentials \<Rightarrow> connections_page \<Rightarrow> bool" where
  "typed_inv k p \<longleftrightarrow> holds_typed (if form_shown p then k else nothing_typed) (cp_form p)"

text \<open>Before the remount it is enough that the form agrees with the history.\<close>

lemma typed_inv_remount: "holds_typed k (cp_form p) \<Longrightarrow> typed_inv k (remount p)"
proof -
  assume "holds_typed k (cp_form p)"
  moreover have "form_shown (remount p) = form_shown p"
    by (simp add: form_shown_def AdminConnectionsPage_def isLoading_list_def)
  moreover have "cp_form (remount p) = (if form_shown p then cp_form p else mount_form (editingConnection p))"
    by (simp add: remount_def)
  ultimately show ?thesis by (simp add: typed_inv_def)
qed

lemma form_not_list: "form_shown p \<Longrightarrow> \<not> list_shown p \<and> c \<notin> set (listed p)"
  by (auto simp: form_shown_def list_shown_def listed_def split: connections_view.splits)

lemma settles_form [simp]:
  "cp_form (create_settles answer p) = cp_form p" "cp_form (update_settles answer p) = cp_form p"
  by (simp_all add: create_settles_def update_settles_def split: sum.split)

lemma submit_form_form: "form_shown p \<Longrightarrow> cp_form (submit_form p) = snd (handleSubmit_connection (cp_form p))"
proof (erule submit_form_cases)
  assume "submit_form p = p\<lparr>cp_form := snd (handleSubmit_connection (cp_form p))\<rparr>"
  then show ?thesis by simp
next
  fix d
  assume "submit_form p = onSubmit_add d (p\<lparr>cp_form := snd (handleSubmit_connection (cp_form p))\<rparr>)"
  then show ?thesis by (simp only: onSubmit_add_cases) simp
next
  fix d c
  assume "submit_form p = onSubmit_edit c d (p\<lparr>cp_form := snd (handleSubmit_connection (cp_form p))\<rparr>)"
  then show ?thesis by (simp only: onSubmit_edit_cases) simp
qed

lemma typed_inv_step:
  assumes "typed_inv k p"
  shows "typed_inv (if \<not> form_shown p then nothing_typed else case e of EditForm x \<Rightarrow> note_typed x k | _ \<Rightarrow> k)
    (connections_step e p)"
proof -
  let ?k = "if \<not> form_shown p then nothing_typed else case e of EditForm x \<Rightarrow> note_typed x k | _ \<Rightarrow> k"
  have k: "holds_typed (if form_shown p then k else nothing_typed) (cp_form p)"
    using assms by (simp add: typed_inv_def)
  have "holds_typed ?k (cp_form (connections_event_step e p))"
  proof (cases "form_shown p")
    case True
    with k form_not_list [OF True] show ?thesis
      by (cases e) (simp_all add: holds_typed_step submit_form_form onCancel_form_def handle_row_event_def Let_def
          list_fetch_starts_def list_settles_def split: option.split sum.split)
  next
    case False
    with k show ?thesis
      by (cases e) (simp_all add: handle_row_event_def Let_def list_fetch_starts_def list_settles_def
          split: option.split sum.split)
  qed
  then show ?thesis unfolding connections_step_def by (rule typed_inv_remount)
qed

lemma typed_inv_run: "typed_inv k p \<Longrightarrow> typed_inv (typed_since es p k) (connections_run es p)"
proof (induction es arbitrary: p k)
  case (Cons e es)
  from Cons.IH [OF typed_inv_step [OF Cons.prems, of e]] show ?case by (simp add: connections_run_def)
qed (simp add: connections_run_def)

lemma typed_inv_mount: "typed_inv nothing_typed (mount_connections can)"
  by (simp add: typed_inv_def mount_connections_def)

text \<open>A save belongs to the form on display and carries what was typed into it.\<close>

fun save_faithful :: "connections_page \<Rightarrow> credentials \<Rightarrow> connection_request \<Rightarrow> bool" where
  "save_faithful p k (CreateRequest d) \<longleftrightarrow> cp_isAdding p \<and> carries k d"
| "save_faithful p k (UpdateRequest i d) \<longleftrightarrow> map_option view_id (editingConnection p) = Some i \<and> carries k d"
| "save_faithful p k _ \<longleftrightarrow> False"

lemma submit_form_faithful:
  assumes "form_shown p" and "typed_inv k p" and "cp_saves (submit_form p) = cp_saves p @ [q]"
  shows "save_faithful p k q"
proof -
  have "holds_typed k (cp_form p)" using assms(1,2) by (simp add: typed_inv_def)
  note carries = carries_submit [OF this]
  from assms(1) show ?thesis
  proof (cases rule: submit_form_cases)
    case (add d)
    with assms(3) carries show ?thesis by (auto simp: onSubmit_add_cases split: if_splits)
  next
    case (edit d c)
    with assms(3) carries show ?thesis by (auto simp: onSubmit_edit_cases split: if_splits)
  qed (use assms(3) in simp)
qed

lemma save_step_faithful:
  assumes "conn_page_inv p" and "typed_inv k p" and "cp_saves (connections_step e p) = cp_saves p @ [q]"
  shows "form_shown p \<and> save_faithful p k q"
proof -
  have e: "e = SubmitConnection"
    using saves_other [OF _ _ assms(1), of e] saves_settlement [of e p] assms(3) by auto
  with assms(3) have shown: "form_shown p" by (auto simp: connections_step_def split: if_splits)
  moreover have "cp_saves (submit_form p) = cp_saves p @ [q]"
    using assms(3) e shown by (auto simp: connections_step_def split: if_splits)
  ultimately show ?thesis using submit_form_faithful [OF _ assms(2)] by blast
qed

text \<open>
  C34. Whatever is typed, and whichever connection is edited, every connection the page saves is well formed: its port is
  an integer between 1 and 65535 and its names are not blank. Every save comes from the form on display and goes to the
  connection that form edits. A new connection comes with the host, user and password typed into its form; an update
  carries a host, a user or a password exactly when a (non-blank) one was typed since the form came on display, and
  then the one typed last: nothing typed for another connection, and no blank, ever overwrites a stored credential.
  The same holds of the form by itself when it is rendered for another connection without being unmounted.
\<close>

theorem saved_connections_well_formed:
  "list_all conn_save_ok (cp_saves (connections_run es (mount_connections can))) \<and>
   (cp_saves (connections_step e (connections_run es (mount_connections can))) =
      cp_saves (connections_run es (mount_connections can)) @ [q] \<longrightarrow>
    form_shown (connections_run es (mount_connections can)) \<and>
    save_faithful (connections_run es (mount_connections can))
      (typed_since es (mount_connections can) nothing_typed) q) \<and>
   (map_option view_id iv \<noteq> map_option view_id (prevInitialValues f) \<and>
      fst (handleSubmit_connection (fold form_step fs (render_form iv f))) = Some d \<longrightarrow>
    carries (fold note_typed fs nothing_typed) d)"
proof (intro conjI impI)
  let ?p = "connections_run es (mount_connections can)"
  have "conn_page_inv p \<and> list_all conn_save_ok (cp_saves p)" if p: "p = ?p" for p
    unfolding p connections_run_def
  proof (rule foldl_invariant)
    show "conn_page_inv (mount_connections can) \<and> list_all conn_save_ok (cp_saves (mount_connections can))"
      by (simp add: conn_page_inv_mount) (simp add: mount_connections_def)
    show "conn_page_inv (connections_step e q) \<and> list_all conn_save_ok (cp_saves (connections_step e q))"
      if "conn_page_inv q \<and> list_all conn_save_ok (cp_saves q)" for q e
      using that conn_page_inv_step [of q e] saves_step [of q e] by auto
  qed
  then show "list_all conn_save_ok (cp_saves ?p)" by simp
  assume "cp_saves (connections_step e ?p) = cp_saves ?p @ [q]"
  from save_step_faithful [OF conn_page_inv_reachable typed_inv_run [OF typed_inv_mount] this]
  show "form_shown ?p" "save_faithful ?p (typed_since es (mount_connections can) nothing_typed) q" by simp_all
next
  assume "map_option view_id iv \<noteq> map_option view_id (prevInitialValues f) \<and>
      fst (handleSubmit_connection (fold form_step fs (render_form iv f))) = Some d"
  then show "carries (fold note_typed fs nothing_typed) d" using carries_after_render by blast
qed

text \<open>A password typed for one connection, the form left, and another connection saved.\<close>

definition sample_connection :: "string \<Rightarrow> ConnectionResponse" where
  "sample_connection i =
     \<lparr>created_at = ''t'', database_name = ''d'', database_type = Mysql, display_name = ''n'', health_error_category = None,
      health_status = Untested, conn_id = i, last_health_check_at = None, lifecycle_state = Active, port = 3306,
      schema_introspection_status = IntrospectionNone, schema_last_refreshed_at = None, ssl_mode = [], updated_at = ''t''\<rparr>"

definition sample_edit :: "connections_event list" where
  "sample_edit =
     [ListSettles (Inr [sample_connection ''c1'', sample_connection ''c2'']),
      ClickEditConnection (normalizeConnection (sample_connection ''c1'')), EditForm (TypePassword ''p''), CancelConnection,
      ClickEditConnection (normalizeConnection (sample_connection ''c2'')), EditForm (TypeHost ''h'')]"

theorem saved_connections_well_formed_witness:
  "\<exists>u. cp_saves (connections_step SubmitConnection (connections_run sample_edit (mount_connections True))) =
      [UpdateRequest ''c2'' (UpdatePayload u)] \<and> u_host u = Some ''h'' \<and> u_password u = None"
proof -
  let ?p = "connections_run sample_edit (mount_connections True)"
  let ?u = "\<lparr>u_display_name = ''n'', u_database_type = Mysql, u_port = Fin 3306, u_database_name = ''d'', u_ssl_mode = None,
      u_host = Some ''h'', u_username = None, u_password = None\<rparr>"
  have s: "cp_saves (connections_step SubmitConnection ?p) = cp_saves ?p @ [UpdateRequest ''c2'' (UpdatePayload ?u)]"
      "cp_saves ?p = []" "typed_since sample_edit (mount_connections True) nothing_typed =
        \<lparr>cr_host = ''h'', cr_username = [], cr_password = []\<rparr>"
    by code_simp+
  have "carries \<lparr>cr_host = ''h'', cr_username = [], cr_password = []\<rparr> (UpdatePayload ?u)"
    using saved_connections_well_formed [of sample_edit True SubmitConnection "UpdateRequest ''c2'' (UpdatePayload ?u)"] s
    by simp
  with s(1,2) show ?thesis by simp
qed

section \<open>What is shown\<close>

definition connection_messages :: "string list" where
  "connection_messages =
     [''admin.connections.addSuccess'', ''admin.connections.updateSuccess'', ''admin.connections.testSuccess'',
      ''admin.connections.refreshSchemaSuccess'', ''admin.connections.schema.success'', ''admin.connections.disableSuccess'',
      ''admin.connections.enableSuccess'', ''admin.connections.deleteSuccess'', ''admin.connections.form.required'',
      ''admin.connections.form.invalidPort'', ''admin.connections.loadError'', ''clientContract.invalidRefresh'',
      ''clientContract.invalidInitial'', ''clientContract.requestTimeout'', ''clientContract.refreshError'',
      ''admin.connections.test'', ''admin.connections.testing'', ''admin.connections.refreshSchema'',
      ''admin.connections.refreshingSchema'']"

definition known_message :: "string \<Rightarrow> bool" where
  "known_message m = (m \<in> set KNOWN_SAFE_KEYS \<or> m \<in> set connection_messages)"

lemma known_error [simp]: "known_message (getSafeConnectionErrorKey e)"
  by (simp add: known_message_def)

lemma known_success_toast [simp]: "known_message (snd (success_toast op data))"
  by (cases op) (simp_all add: known_message_def [of "_ # _"] connection_messages_def)

lemma known_nextErrors: "list_all (\<lambda>x. known_message (snd x)) (nextErrors f)"
  by (simp add: nextErrors_def known_message_def connection_messages_def)

lemma known_banner:
  "list_all known_message (banner_messages (ClientQueryState q ''admin.connections.loadError'' None b))"
  by (simp add: ClientQueryState_def known_message_def connection_messages_def Let_def)

definition outbox_known :: "conn_row \<Rightarrow> bool" where
  "outbox_known r = list_all (\<lambda>x. known_message (snd x)) (row_outbox r)"

lemma outbox_known_simps [simp]:
  "outbox_known (r\<lparr>showConfirm := b\<rparr>) = outbox_known r" "outbox_known (r\<lparr>row_next := n\<rparr>) = outbox_known r"
  "outbox_known (r\<lparr>row_open := os\<rparr>) = outbox_known r" "outbox_known (r\<lparr>row_open := os, row_sent := qs\<rparr>) = outbox_known r"
  "outbox_known (set_status op st r) = outbox_known r"
  "outbox_known (row_toast t r) = (outbox_known r \<and> known_message (snd t))"
  "outbox_known (reset_mutation op r) = outbox_known r"
  by (simp_all add: outbox_known_def reset_mutation_def)

lemma outbox_known_settles: "outbox_known r \<Longrightarrow> outbox_known (row_settles op n answer r)"
  by (cases "op = OpDelete")
    (simp_all add: row_settles_def Let_def known_success_toast [of OpDelete, simplified] split: sum.split)

lemma outbox_known_mutate: "outbox_known r \<Longrightarrow> outbox_known (row_mutate props op r)"
  by (simp add: row_mutate_def Let_def outbox_known_settles split: sum.split)

lemma outbox_known_step: "outbox_known r \<Longrightarrow> outbox_known (row_step props e r)"
  by (cases e) (simp_all add: row_handler_defs actions_timer_def outbox_known_mutate outbox_known_settles)

definition messages_inv :: "connections_page \<Rightarrow> bool" where
  "messages_inv p \<longleftrightarrow>
     list_all (\<lambda>t. known_message (toast_message t)) (toast_list (cp_toasts p)) \<and>
     list_all (\<lambda>x. known_message (snd x)) (errors (cp_form p)) \<and> (\<forall>i. row_outbox (cp_rows p i) = [])"

lemma messages_inv_toast: "known_message m \<Longrightarrow> messages_inv p \<Longrightarrow> messages_inv (page_toast ty m p)"
  by (simp add: messages_inv_def addToast_def)

lemma messages_inv_deliver:
  "list_all (\<lambda>x. known_message (snd x)) ms \<Longrightarrow> messages_inv p \<Longrightarrow> messages_inv (deliver ms p)"
  unfolding deliver_def by (rule foldl_invariant) (auto simp: list_all_iff messages_inv_toast)

lemma messages_inv_simps [simp]:
  "messages_inv (p\<lparr>cp_creating := b\<rparr>) = messages_inv p" "messages_inv (p\<lparr>cp_updating := b\<rparr>) = messages_inv p"
  "messages_inv (p\<lparr>cp_isAdding := b\<rparr>) = messages_inv p" "messages_inv (p\<lparr>editingConnection := c\<rparr>) = messages_inv p"
  "messages_inv (p\<lparr>cp_query := q\<rparr>) = messages_inv p" "messages_inv (p\<lparr>cp_connections := cs\<rparr>) = messages_inv p"
  "messages_inv (p\<lparr>cp_saves := qs\<rparr>) = messages_inv p" "messages_inv (p\<lparr>cp_canManage := b\<rparr>) = messages_inv p"
  by (simp_all add: messages_inv_def)

lemma messages_inv_form:
  "messages_inv p \<Longrightarrow> list_all (\<lambda>x. known_message (snd x)) (errors f) \<Longrightarrow> messages_inv (p\<lparr>cp_form := f\<rparr>)"
  by (simp add: messages_inv_def)

lemma messages_inv_remount: "messages_inv p \<Longrightarrow> messages_inv (remount p)"
  by (simp add: messages_inv_def remount_def fresh_row_def)

lemma messages_inv_submit:
  assumes "messages_inv p" and "form_shown p"
  shows "messages_inv (submit_form p)"
proof -
  have "messages_inv (p\<lparr>cp_form := snd (handleSubmit_connection (cp_form p))\<rparr>)"
    using assms(1) by (rule messages_inv_form) (simp add: handleSubmit_cases known_nextErrors)
  with assms(2) show ?thesis
    by (cases rule: submit_form_cases)
      (simp_all add: onSubmit_add_cases onSubmit_edit_cases messages_inv_toast)
qed

lemma messages_inv_row:
  assumes "messages_inv p"
  shows "messages_inv (handle_row_event i e p)"
proof -
  have "outbox_known (cp_rows p i)" using assms by (simp add: messages_inv_def outbox_known_def)
  then have "list_all (\<lambda>x. known_message (snd x)) (row_outbox (row_step props e (cp_rows p i)))" for props
    using outbox_known_step unfolding outbox_known_def by blast
  moreover have "messages_inv (p\<lparr>cp_rows := (cp_rows p)(i := r\<lparr>row_outbox := []\<rparr>)\<rparr>)" for r
    using assms by (simp add: messages_inv_def)
  ultimately show ?thesis using assms
    by (simp add: handle_row_event_def Let_def messages_inv_deliver split: option.split)
qed

lemma messages_inv_gone: "messages_inv p \<Longrightarrow> messages_inv (p\<lparr>cp_toasts := removeToast i (cp_toasts p)\<rparr>)"
  by (auto simp: messages_inv_def removeToast_def list_all_iff)

lemma messages_inv_form_step: "messages_inv p \<Longrightarrow> messages_inv (p\<lparr>cp_form := form_step e (cp_form p)\<rparr>)"
  by (simp add: messages_inv_def)

lemma messages_inv_event: "messages_inv p \<Longrightarrow> messages_inv (connections_event_step e p)"
proof (cases e)
  case (CreateSettles answer)
  assume "messages_inv p"
  with CreateSettles show ?thesis
    by (auto simp: create_settles_def known_message_def connection_messages_def intro!: messages_inv_toast split: sum.split)
next
  case (UpdateSettles answer)
  assume "messages_inv p"
  with UpdateSettles show ?thesis
    by (auto simp: update_settles_def known_message_def connection_messages_def intro!: messages_inv_toast split: sum.split)
next
  case (ListSettles answer)
  assume "messages_inv p"
  with ListSettles show ?thesis by (simp add: list_settles_def split: sum.split)
qed (simp_all add: messages_inv_submit messages_inv_row messages_inv_gone messages_inv_form_step messages_inv_form
    onCancel_form_def list_fetch_starts_def)

lemma messages_inv_reachable: "messages_inv (connections_run es (mount_connections can))"
  unfolding connections_run_def
proof (rule foldl_invariant)
  show "messages_inv (mount_connections can)" by (simp add: messages_inv_def mount_connections_def no_toasts_def fresh_row_def)
  show "messages_inv (connections_step e q)" if "messages_inv q" for q e
    unfolding connections_step_def using that by (intro messages_inv_remount messages_inv_event)
qed

lemma visible_known: "messages_inv p \<Longrightarrow> list_all known_message (visible_messages (AdminConnectionsPage p))"
  using known_banner
  by (simp add: AdminConnectionsPage_def messages_inv_def list.pred_map comp_def)

lemma known_labels: "known_message (test_label r)" "known_message (refresh_label r)"
  by (simp_all add: test_label_def refresh_label_def known_message_def connection_messages_def split: mutation_status.split)

text \<open>
  C35. Nothing of what a server or a network error carries reaches the screen: after any sequence of events, whatever the
  failures contain, every toast, banner and field message of the page and every error and label of a row is one of the
  application's own keys.
\<close>

theorem connection_messages_are_safe:
  "list_all known_message (visible_messages (AdminConnectionsPage (connections_run es (mount_connections can)))) \<and>
   pred_option (\<lambda>m. m \<in> set KNOWN_SAFE_KEYS) (actions_message (cp_rows (connections_run es (mount_connections can)) i)) \<and>
   list_all known_message
     [test_label (cp_rows (connections_run es (mount_connections can)) i),
      refresh_label (cp_rows (connections_run es (mount_connections can)) i)]"
  by (intro conjI visible_known messages_inv_reachable actions_message_safe) (simp add: known_labels)

section \<open>A failed save\<close>

lemma form_shown_iff:
  "form_shown p \<longleftrightarrow>
     \<not> isLoading_list p \<and> \<not> (qs_isError (cp_query p) \<and> \<not> qs_has_data (cp_query p)) \<and>
     (cp_isAdding p \<or> editingConnection p \<noteq> None)"
  by (simp add: form_shown_def AdminConnectionsPage_def)

lemma form_shown_messages:
  "form_shown p \<Longrightarrow> visible_messages (AdminConnectionsPage p) = map snd (errors (cp_form p))"
  unfolding form_shown_iff by (auto simp: AdminConnectionsPage_def)

text \<open>The failure of the save under way.\<close>

definition save_fails :: "jsval \<Rightarrow> connections_page \<Rightarrow> connections_event" where
  "save_fails err p = (if cp_creating p then CreateSettles (Inl err) else UpdateSettles (Inl err))"

lemma save_fails_step:
  assumes "conn_page_inv p" and "saving p" and "form_shown p"
  shows "connections_step (save_fails err p) p =
    remount (page_toast ToastError (getSafeConnectionErrorKey err) (p\<lparr>cp_creating := False, cp_updating := False\<rparr>))"
  using assms
  by (cases p) (auto simp: save_fails_def connections_step_def create_settles_def update_settles_def conn_page_inv_def saving_def)

text \<open>
  C37. When saving a connection fails, the page says nothing of it: the toast is put on the list, but the form is still
  open, where no toasts are drawn, and the form has no message of its own.
\<close>

theorem failed_save_is_not_shown:
  assumes "saving (connections_run es (mount_connections can))" and "form_shown (connections_run es (mount_connections can))"
  shows "let p = connections_run es (mount_connections can); q = connections_step (save_fails err p) p
         in form_shown q \<and> \<not> saving q \<and> visible_messages (AdminConnectionsPage q) = [] \<and>
            map toast_message (toast_list (cp_toasts q)) =
              map toast_message (toast_list (cp_toasts p)) @ [getSafeConnectionErrorKey err]"
proof -
  define p where "p = connections_run es (mount_connections can)"
  have inv: "conn_page_inv p" unfolding p_def by (rule conn_page_inv_reachable)
  have sv: "saving p" and sh: "form_shown p" using assms by (simp_all add: p_def)
  have er: "errors (cp_form p) = []" using inv sv by (auto simp: conn_page_inv_def saving_def)
  let ?q = "connections_step (save_fails err p) p"
  have q: "?q = remount (page_toast ToastError (getSafeConnectionErrorKey err) (p\<lparr>cp_creating := False, cp_updating := False\<rparr>))"
    by (rule save_fails_step [OF inv sv sh])
  have shq: "form_shown ?q" using sh unfolding q by (simp add: form_shown_iff isLoading_list_def)
  have "errors (cp_form ?q) = []" unfolding q remount_def using er by simp
  then have "visible_messages (AdminConnectionsPage ?q) = []" by (simp add: form_shown_messages [OF shq])
  moreover have "\<not> saving ?q" unfolding q by (simp add: saving_def)
  moreover have "map toast_message (toast_list (cp_toasts ?q)) =
      map toast_message (toast_list (cp_toasts p)) @ [getSafeConnectionErrorKey err]"
    unfolding q by (simp add: addToast_def)
  ultimately show ?thesis using shq unfolding p_def [symmetric] Let_def by blast
qed

definition sample_save :: "connections_event list" where
  "sample_save =
     [ListSettles (Inr []), ClickAddConnection, EditForm (TypeDisplayName ''db''), EditForm (TypeHost ''h''),
      EditForm (TypeDatabaseName ''d''), EditForm (TypeUsername ''u''), EditForm (TypePassword ''p''), SubmitConnection]"

lemma sample_save_state:
  "saving (connections_run sample_save (mount_connections True)) \<and> form_shown (connections_run sample_save (mount_connections True))"
  by code_simp

theorem failed_save_is_not_shown_witness:
  "let p = connections_run sample_save (mount_connections True); q = connections_step (save_fails (JStr ''timeout'') p) p
   in form_shown q \<and> \<not> saving q \<and> visible_messages (AdminConnectionsPage q) = [] \<and>
      map toast_message (toast_list (cp_toasts q)) =
        map toast_message (toast_list (cp_toasts p)) @ [getSafeConnectionErrorKey (JStr ''timeout'')]"
  using failed_save_is_not_shown [of sample_save True "JStr ''timeout''"] sample_save_state by blast

lemma connections_run_of: "connections_flight.run_of es p = connections_run es p"
  by (simp add: connections_flight.run_of_def connections_run_def)

end
