(* ===== verification/Sso_Admin.thy ===== *)
theory Sso_Admin
  imports Admin_Forms Permissions
begin

text \<open>
  Administration of the single sign-on providers: \<open>frontend/src/pages/AdminSsoPage.tsx\<close> over
  \<open>frontend/src/hooks/useAdminSso.ts\<close>. Texts are their UTF-8 bytes, which the page only compares and tests for
  emptiness; an absent or \<open>null\<close> property is \<open>None\<close>, and a provider has the properties the page reads. The validation the browser adds for its URL inputs only
  withholds submissions, and the events of a run may leave any out.
\<close>

section \<open>Providers and requests\<close>

record SsoProviderResponse =
  sp_id :: string
  sp_protocol :: string
  sp_display_name :: string
  sp_group_claim_name :: "string option"
  sp_issuer_url :: "string option"
  sp_client_id :: "string option"
  sp_client_secret_masked :: "string option"
  sp_scopes :: "string option"
  sp_redirect_uri :: "string option"
  sp_saml_entity_id :: "string option"
  sp_saml_metadata_url :: "string option"
  sp_saml_metadata_xml_masked :: "string option"
  sp_saml_certificate_masked :: "string option"

record SsoProviderUpdate =
  w_display_name :: string
  w_group_claim_name :: string
  w_issuer_url :: "string option"
  w_client_id :: "string option"
  w_client_secret :: "string option"
  w_scopes :: "string option"
  w_redirect_uri :: "string option"
  w_saml_entity_id :: "string option"
  w_saml_metadata_url :: "string option"
  w_saml_metadata_xml :: "string option"
  w_saml_certificate :: "string option"

record SsoProviderCreate = SsoProviderUpdate +
  w_protocol :: string

datatype sso_request =
    CreateProvider SsoProviderCreate
  | UpdateProvider string SsoProviderUpdate
  | DeleteProvider string

definition sso_mutationFn :: "bool \<Rightarrow> sso_request \<Rightarrow> sso_request outcome" where
  "sso_mutationFn canManageSso request =
     (case requirePermission canManageSso ADMIN_SSO_MANAGE of
        Inl err \<Rightarrow> Inl err
      | Inr _ \<Rightarrow> Inr request)"

text \<open>Eight black circles, the text in place of a stored secret.\<close>

definition MASK :: string where
  "MASK = concat (replicate 8 [char_of (226 :: nat), char_of (151 :: nat), char_of (143 :: nat)])"

definition ALLOWED_ERROR_KEYS_sso :: "string list" where
  "ALLOWED_ERROR_KEYS_sso =
     [''error.validation.oidcRequiredFields'', ''error.validation.samlRequiredFields'',
      ''error.conflict.duplicateProtocol'', ''error.forbidden'', ''error.unauthorized'']"

definition getErrorMessage_sso :: "jsval \<Rightarrow> string \<Rightarrow> string" where
  "getErrorMessage_sso err fallbackKey = error_message ALLOWED_ERROR_KEYS_sso err fallbackKey"

section \<open>State\<close>

record sso_form =
  o_displayName :: string
  o_issuerUrl :: string
  o_clientId :: string
  o_clientSecret :: string
  o_scopes :: string
  o_redirectUri :: string
  o_groupClaimName :: string
  o_samlEntityId :: string
  o_samlMetadataUrl :: string
  o_samlMetadataXml :: string
  o_samlCertificate :: string

record sso_page =
  so_canManage :: bool
  so_query :: query_state
  so_providers :: "SsoProviderResponse list"
  so_toasts :: toasts
  isAddingOidc :: bool
  isAddingSaml :: bool
  editingProvider :: "SsoProviderResponse option"
  so_form :: sso_form
  so_validationError :: "string option"
  so_creating :: bool
  so_updating :: bool
  so_deleting :: nat
  so_sent :: "sso_request list"

definition resetForm_sso :: sso_form where
  "resetForm_sso =
     \<lparr>o_displayName = [], o_issuerUrl = [], o_clientId = [], o_clientSecret = [], o_scopes = ''openid email profile'',
      o_redirectUri = [], o_groupClaimName = ''groups'', o_samlEntityId = [], o_samlMetadataUrl = [],
      o_samlMetadataXml = [], o_samlCertificate = []\<rparr>"

definition mount_sso :: "bool \<Rightarrow> sso_page" where
  "mount_sso can =
     \<lparr>so_canManage = can,
      so_query = \<lparr>qs_has_data = False, qs_error = JNull, qs_isError = False, qs_isFetching = can\<rparr>,
      so_providers = [], so_toasts = no_toasts, isAddingOidc = False, isAddingSaml = False, editingProvider = None,
      so_form = resetForm_sso, so_validationError = None, so_creating = False, so_updating = False, so_deleting = 0,
      so_sent = []\<rparr>"

section \<open>The view\<close>

datatype sso_view =
    SsoLoading
  | SsoLoadError query_banner
  | SsoForm bool "string option"
  | SsoList query_banner "Toast list" "SsoProviderResponse list"

definition isOidc :: "sso_page \<Rightarrow> bool" where
  "isOidc p =
     (isAddingOidc p \<or> (case editingProvider p of Some provider \<Rightarrow> sp_protocol provider = ''oidc'' | None \<Rightarrow> False))"

definition sso_form_open :: "sso_page \<Rightarrow> bool" where
  "sso_form_open p = (isAddingOidc p \<or> isAddingSaml p \<or> editingProvider p \<noteq> None)"

definition AdminSsoPage :: "sso_page \<Rightarrow> sso_view" where
  "AdminSsoPage p =
     (if qs_isFetching (so_query p) \<and> \<not> qs_has_data (so_query p) \<and> \<not> qs_isError (so_query p) then SsoLoading
      else if qs_isError (so_query p) \<and> \<not> qs_has_data (so_query p)
      then SsoLoadError (ClientQueryState (so_query p) ''admin.sso.loadError'' None False)
      else if sso_form_open p then SsoForm (isOidc p) (so_validationError p)
      else SsoList (ClientQueryState (so_query p) ''admin.sso.loadError'' None False) (toast_list (so_toasts p))
             (if qs_has_data (so_query p) then so_providers p else []))"

definition sso_form_shown :: "sso_page \<Rightarrow> bool" where
  "sso_form_shown p = (case AdminSsoPage p of SsoForm oidc err \<Rightarrow> True | _ \<Rightarrow> False)"

definition sso_list_shown :: "sso_page \<Rightarrow> bool" where
  "sso_list_shown p = (case AdminSsoPage p of SsoList banner ts ps \<Rightarrow> True | _ \<Rightarrow> False)"

definition sso_listed :: "sso_page \<Rightarrow> SsoProviderResponse list" where
  "sso_listed p = (case AdminSsoPage p of SsoList banner ts ps \<Rightarrow> ps | _ \<Rightarrow> [])"

section \<open>Handlers\<close>

definition sso_toast :: "toast_type \<Rightarrow> string \<Rightarrow> sso_page \<Rightarrow> sso_page" where
  "sso_toast ty message p = p\<lparr>so_toasts := addToast ty message (so_toasts p)\<rparr>"

text \<open>\<open>v || d\<close> for an optional text.\<close>

definition or_else :: "string option \<Rightarrow> string \<Rightarrow> string" where
  "or_else v d = (case v of Some s \<Rightarrow> if s = [] then d else s | None \<Rightarrow> d)"

text \<open>\<open>s || undefined\<close>.\<close>

definition sso_or_undefined :: "string \<Rightarrow> string option" where
  "sso_or_undefined s = (if s = [] then None else Some s)"

definition handleEdit_sso :: "SsoProviderResponse \<Rightarrow> sso_page \<Rightarrow> sso_page" where
  "handleEdit_sso provider p =
     (let f = (so_form p)\<lparr>o_displayName := sp_display_name provider,
                          o_groupClaimName := or_else (sp_group_claim_name provider) []\<rparr>
      in p\<lparr>editingProvider := Some provider, so_validationError := None,
           so_form :=
             (if sp_protocol provider = ''oidc''
              then f\<lparr>o_issuerUrl := or_else (sp_issuer_url provider) [], o_clientId := or_else (sp_client_id provider) [],
                     o_clientSecret := or_else (sp_client_secret_masked provider) MASK,
                     o_scopes := or_else (sp_scopes provider) ''openid email profile'',
                     o_redirectUri := or_else (sp_redirect_uri provider) []\<rparr>
              else f\<lparr>o_samlEntityId := or_else (sp_saml_entity_id provider) [],
                     o_samlMetadataUrl := or_else (sp_saml_metadata_url provider) [],
                     o_samlMetadataXml := or_else (sp_saml_metadata_xml_masked provider) MASK,
                     o_samlCertificate := or_else (sp_saml_certificate_masked provider) MASK\<rparr>)\<rparr>)"

definition handleCancel_sso :: "sso_page \<Rightarrow> sso_page" where
  "handleCancel_sso p =
     p\<lparr>isAddingOidc := False, isAddingSaml := False, editingProvider := None, so_validationError := None,
       so_form := resetForm_sso\<rparr>"

definition form_complete :: "bool \<Rightarrow> sso_form \<Rightarrow> bool" where
  "form_complete oidc f =
     (if oidc then o_displayName f \<noteq> [] \<and> o_issuerUrl f \<noteq> [] \<and> o_clientId f \<noteq> [] \<and> o_clientSecret f \<noteq> []
      else o_displayName f \<noteq> [] \<and> o_samlEntityId f \<noteq> [] \<and> (o_samlMetadataUrl f \<noteq> [] \<or> o_samlMetadataXml f \<noteq> []) \<and>
           o_samlCertificate f \<noteq> [])"

definition updateData :: "bool \<Rightarrow> sso_form \<Rightarrow> SsoProviderUpdate" where
  "updateData oidc f =
     (let u = \<lparr>w_display_name = o_displayName f, w_group_claim_name = o_groupClaimName f, w_issuer_url = None,
               w_client_id = None, w_client_secret = None, w_scopes = None, w_redirect_uri = None,
               w_saml_entity_id = None, w_saml_metadata_url = None, w_saml_metadata_xml = None, w_saml_certificate = None\<rparr>
      in if oidc
         then u\<lparr>w_issuer_url := Some (o_issuerUrl f), w_client_id := Some (o_clientId f),
                w_client_secret := (if o_clientSecret f \<noteq> MASK then Some (o_clientSecret f) else None),
                w_scopes := Some (o_scopes f), w_redirect_uri := sso_or_undefined (o_redirectUri f)\<rparr>
         else u\<lparr>w_saml_entity_id := Some (o_samlEntityId f), w_saml_metadata_url := sso_or_undefined (o_samlMetadataUrl f),
                w_saml_metadata_xml := (if o_samlMetadataXml f \<noteq> MASK then sso_or_undefined (o_samlMetadataXml f) else None),
                w_saml_certificate := (if o_samlCertificate f \<noteq> MASK then sso_or_undefined (o_samlCertificate f) else None)\<rparr>)"

definition createData :: "bool \<Rightarrow> sso_form \<Rightarrow> SsoProviderCreate" where
  "createData oidc f =
     (let c = \<lparr>w_display_name = o_displayName f, w_group_claim_name = o_groupClaimName f, w_issuer_url = None,
               w_client_id = None, w_client_secret = None, w_scopes = None, w_redirect_uri = None,
               w_saml_entity_id = None, w_saml_metadata_url = None, w_saml_metadata_xml = None, w_saml_certificate = None,
               w_protocol = (if oidc then ''oidc'' else ''saml'')\<rparr>
      in if oidc
         then c\<lparr>w_issuer_url := Some (o_issuerUrl f), w_client_id := Some (o_clientId f),
                w_client_secret := Some (o_clientSecret f), w_scopes := Some (o_scopes f),
                w_redirect_uri := sso_or_undefined (o_redirectUri f)\<rparr>
         else c\<lparr>w_saml_entity_id := Some (o_samlEntityId f), w_saml_metadata_url := sso_or_undefined (o_samlMetadataUrl f),
                w_saml_metadata_xml := sso_or_undefined (o_samlMetadataXml f),
                w_saml_certificate := sso_or_undefined (o_samlCertificate f)\<rparr>)"

text \<open>The callbacks that the page hands to the hook.\<close>

definition sso_create_settles :: "jsval outcome \<Rightarrow> sso_page \<Rightarrow> sso_page" where
  "sso_create_settles answer p =
     (if \<not> so_creating p then p
      else case answer of
             Inr data \<Rightarrow> handleCancel_sso (sso_toast ToastSuccess ''admin.sso.addSuccess'' (p\<lparr>so_creating := False\<rparr>))
           | Inl err \<Rightarrow> sso_toast ToastError (getErrorMessage_sso err ''admin.sso.addError'') (p\<lparr>so_creating := False\<rparr>))"

definition sso_update_settles :: "jsval outcome \<Rightarrow> sso_page \<Rightarrow> sso_page" where
  "sso_update_settles answer p =
     (if \<not> so_updating p then p
      else case answer of
             Inr data \<Rightarrow> handleCancel_sso (sso_toast ToastSuccess ''admin.sso.updateSuccess'' (p\<lparr>so_updating := False\<rparr>))
           | Inl err \<Rightarrow> sso_toast ToastError (getErrorMessage_sso err ''admin.sso.updateError'') (p\<lparr>so_updating := False\<rparr>))"

definition sso_delete_settles :: "jsval outcome \<Rightarrow> sso_page \<Rightarrow> sso_page" where
  "sso_delete_settles answer p =
     (if so_deleting p = 0 then p
      else case answer of
             Inr data \<Rightarrow> sso_toast ToastSuccess ''admin.sso.deleteSuccess'' (p\<lparr>so_deleting := so_deleting p - 1\<rparr>)
           | Inl err \<Rightarrow>
               sso_toast ToastError (getErrorMessage_sso err ''admin.sso.deleteError'') (p\<lparr>so_deleting := so_deleting p - 1\<rparr>))"

definition mutate_sso ::
    "sso_request \<Rightarrow> (sso_page \<Rightarrow> sso_page) \<Rightarrow> (jsval outcome \<Rightarrow> sso_page \<Rightarrow> sso_page) \<Rightarrow> sso_page \<Rightarrow> sso_page" where
  "mutate_sso request start settle p =
     (case sso_mutationFn (so_canManage p) request of
        Inl err \<Rightarrow> settle (Inl err) (start p)
      | Inr r \<Rightarrow> (start p)\<lparr>so_sent := so_sent p @ [r]\<rparr>)"

definition handleSave_sso :: "sso_page \<Rightarrow> sso_page" where
  "handleSave_sso p =
     (let p1 = p\<lparr>so_validationError := None\<rparr>; oidc = isOidc p
      in if \<not> form_complete oidc (so_form p)
         then p1\<lparr>so_validationError :=
                   Some (if oidc then ''error.validation.oidcRequiredFields'' else ''error.validation.samlRequiredFields'')\<rparr>
         else (case editingProvider p of
                 Some provider \<Rightarrow>
                   mutate_sso (UpdateProvider (sp_id provider) (updateData oidc (so_form p)))
                     (\<lambda>q. q\<lparr>so_updating := True\<rparr>) sso_update_settles p1
               | None \<Rightarrow>
                   mutate_sso (CreateProvider (createData oidc (so_form p)))
                     (\<lambda>q. q\<lparr>so_creating := True\<rparr>) sso_create_settles p1))"

definition handleDelete_sso :: "string \<Rightarrow> sso_page \<Rightarrow> sso_page" where
  "handleDelete_sso i p =
     mutate_sso (DeleteProvider i) (\<lambda>q. q\<lparr>so_deleting := so_deleting q + 1\<rparr>) sso_delete_settles p"

section \<open>Events\<close>

datatype sso_field =
    DisplayNameField | IssuerUrlField | ClientIdField | ClientSecretField | ScopesField | RedirectUriField
  | GroupClaimNameField | SamlEntityIdField | SamlMetadataUrlField | SamlMetadataXmlField | SamlCertificateField

fun type_field :: "sso_field \<Rightarrow> string \<Rightarrow> sso_form \<Rightarrow> sso_form" where
  "type_field DisplayNameField s f = f\<lparr>o_displayName := s\<rparr>"
| "type_field IssuerUrlField s f = f\<lparr>o_issuerUrl := s\<rparr>"
| "type_field ClientIdField s f = f\<lparr>o_clientId := s\<rparr>"
| "type_field ClientSecretField s f = f\<lparr>o_clientSecret := s\<rparr>"
| "type_field ScopesField s f = f\<lparr>o_scopes := s\<rparr>"
| "type_field RedirectUriField s f = f\<lparr>o_redirectUri := s\<rparr>"
| "type_field GroupClaimNameField s f = f\<lparr>o_groupClaimName := s\<rparr>"
| "type_field SamlEntityIdField s f = f\<lparr>o_samlEntityId := s\<rparr>"
| "type_field SamlMetadataUrlField s f = f\<lparr>o_samlMetadataUrl := s\<rparr>"
| "type_field SamlMetadataXmlField s f = f\<lparr>o_samlMetadataXml := s\<rparr>"
| "type_field SamlCertificateField s f = f\<lparr>o_samlCertificate := s\<rparr>"

text \<open>The inputs shown for both protocols, for OpenID Connect and for SAML.\<close>

definition field_shown :: "bool \<Rightarrow> sso_field \<Rightarrow> bool" where
  "field_shown oidc fld =
     (fld \<in> {DisplayNameField, GroupClaimNameField} \<or>
      (if oidc then fld \<in> {IssuerUrlField, ClientIdField, ClientSecretField, ScopesField, RedirectUriField}
       else fld \<in> {SamlEntityIdField, SamlMetadataUrlField, SamlMetadataXmlField, SamlCertificateField}))"

datatype sso_event =
    ClickAddOidc
  | ClickAddSaml
  | ClickEditProvider SsoProviderResponse
  | TypeField sso_field string
  | SubmitProvider
  | CancelProvider
  | ClickDeleteProvider SsoProviderResponse
  | SsoCreateSettles "jsval outcome"
  | SsoUpdateSettles "jsval outcome"
  | SsoDeleteSettles "jsval outcome"
  | ProvidersFetchStarts
  | ProvidersSettle "SsoProviderResponse list outcome"
  | SsoManageChanges bool
  | SsoToastGone nat

definition providers_settle :: "SsoProviderResponse list outcome \<Rightarrow> sso_page \<Rightarrow> sso_page" where
  "providers_settle answer p =
     (case answer of
        Inr data \<Rightarrow>
          p\<lparr>so_providers := data,
            so_query := \<lparr>qs_has_data = True, qs_error = JNull, qs_isError = False, qs_isFetching = False\<rparr>\<rparr>
      | Inl err \<Rightarrow> p\<lparr>so_query := (so_query p)\<lparr>qs_error := err, qs_isError := True, qs_isFetching := False\<rparr>\<rparr>)"

definition providers_fetch_starts :: "sso_page \<Rightarrow> sso_page" where
  "providers_fetch_starts p =
     (if so_canManage p
      then p\<lparr>so_query := (so_query p)\<lparr>qs_isFetching := True,
               qs_isError := qs_isError (so_query p) \<and> qs_has_data (so_query p)\<rparr>\<rparr>
      else p)"

fun sso_step :: "sso_event \<Rightarrow> sso_page \<Rightarrow> sso_page" where
  "sso_step ClickAddOidc p = (if sso_list_shown p then p\<lparr>isAddingOidc := True\<rparr> else p)"
| "sso_step ClickAddSaml p = (if sso_list_shown p then p\<lparr>isAddingSaml := True\<rparr> else p)"
| "sso_step (ClickEditProvider provider) p = (if provider \<in> set (sso_listed p) then handleEdit_sso provider p else p)"
| "sso_step (TypeField fld s) p =
     (if sso_form_shown p \<and> field_shown (isOidc p) fld then p\<lparr>so_form := type_field fld s (so_form p)\<rparr> else p)"
| "sso_step SubmitProvider p =
     (if sso_form_shown p \<and> \<not> so_creating p \<and> \<not> so_updating p then handleSave_sso p else p)"
| "sso_step CancelProvider p = (if sso_form_shown p then handleCancel_sso p else p)"
| "sso_step (ClickDeleteProvider provider) p =
     (if provider \<in> set (sso_listed p) then handleDelete_sso (sp_id provider) p else p)"
| "sso_step (SsoCreateSettles answer) p = sso_create_settles answer p"
| "sso_step (SsoUpdateSettles answer) p = sso_update_settles answer p"
| "sso_step (SsoDeleteSettles answer) p = sso_delete_settles answer p"
| "sso_step ProvidersFetchStarts p = providers_fetch_starts p"
| "sso_step (ProvidersSettle answer) p = providers_settle answer p"
| "sso_step (SsoManageChanges can) p = p\<lparr>so_canManage := can\<rparr>"
| "sso_step (SsoToastGone i) p = p\<lparr>so_toasts := removeToast i (so_toasts p)\<rparr>"

definition sso_run :: "sso_event list \<Rightarrow> sso_page \<Rightarrow> sso_page" where
  "sso_run es p = foldl (\<lambda>q e. sso_step e q) p es"

section \<open>A closed form is blank\<close>

definition sso_inv :: "sso_page \<Rightarrow> bool" where
  "sso_inv p \<longleftrightarrow>
     (\<not> sso_form_open p \<longrightarrow> so_form p = resetForm_sso \<and> so_validationError p = None) \<and>
     (editingProvider p \<noteq> None \<longrightarrow> \<not> isAddingOidc p \<and> \<not> isAddingSaml p) \<and> \<not> (so_creating p \<and> so_updating p)"

lemma sso_toast_simps [simp]:
  "so_form (sso_toast ty m p) = so_form p" "so_validationError (sso_toast ty m p) = so_validationError p"
  "isAddingOidc (sso_toast ty m p) = isAddingOidc p" "isAddingSaml (sso_toast ty m p) = isAddingSaml p"
  "editingProvider (sso_toast ty m p) = editingProvider p" "so_creating (sso_toast ty m p) = so_creating p"
  "so_updating (sso_toast ty m p) = so_updating p" "so_sent (sso_toast ty m p) = so_sent p"
  "so_providers (sso_toast ty m p) = so_providers p" "so_query (sso_toast ty m p) = so_query p"
  "sso_form_open (sso_toast ty m p) = sso_form_open p"
  by (simp_all add: sso_toast_def sso_form_open_def)

lemma sso_shown:
  "sso_list_shown p \<Longrightarrow> \<not> sso_form_open p"
  "sso_form_shown p \<Longrightarrow> sso_form_open p"
  "provider \<in> set (sso_listed p) \<Longrightarrow> sso_list_shown p \<and> provider \<in> set (so_providers p)"
  by (auto simp: sso_list_shown_def sso_form_shown_def sso_listed_def AdminSsoPage_def split: if_splits)

text \<open>What a mutation does, with and without the permission.\<close>

lemma mutate_sso_cases:
  "mutate_sso request start settle p =
     (if so_canManage p then (start p)\<lparr>so_sent := so_sent p @ [request]\<rparr>
      else settle (Inl (PermissionRequiredError ADMIN_SSO_MANAGE)) (start p))"
  by (simp add: mutate_sso_def sso_mutationFn_def requirePermission_def)

lemmas sso_handler_defs = handleCancel_sso_def sso_create_settles_def sso_update_settles_def sso_delete_settles_def
  handleDelete_sso_def mutate_sso_cases providers_settle_def providers_fetch_starts_def

text \<open>A submission either is refused, or fails for want of the permission, or sends one request.\<close>

lemma handleSave_sso_cases:
  obtains (refused) v where "\<not> form_complete (isOidc p) (so_form p)" "handleSave_sso p = p\<lparr>so_validationError := Some v\<rparr>"
    | (update) provider where "form_complete (isOidc p) (so_form p)" "editingProvider p = Some provider" "so_canManage p"
      "handleSave_sso p = p\<lparr>so_validationError := None, so_updating := True,
         so_sent := so_sent p @ [UpdateProvider (sp_id provider) (updateData (isOidc p) (so_form p))]\<rparr>"
    | (create) "form_complete (isOidc p) (so_form p)" "editingProvider p = None" "so_canManage p"
      "handleSave_sso p = p\<lparr>so_validationError := None, so_creating := True,
         so_sent := so_sent p @ [CreateProvider (createData (isOidc p) (so_form p))]\<rparr>"
    | (denied) m where "handleSave_sso p = sso_toast ToastError m (p\<lparr>so_validationError := None, so_updating := False\<rparr>) \<or>
        handleSave_sso p = sso_toast ToastError m (p\<lparr>so_validationError := None, so_creating := False\<rparr>)"
proof -
  consider "\<not> form_complete (isOidc p) (so_form p)" | "form_complete (isOidc p) (so_form p)" "so_canManage p"
    | "form_complete (isOidc p) (so_form p)" "\<not> so_canManage p" by blast
  then show ?thesis
  proof cases
    case 1
    then show ?thesis by (intro refused) (simp_all add: handleSave_sso_def Let_def)
  next
    case 2
    then show ?thesis
      by (cases "editingProvider p") (auto intro: update create simp: handleSave_sso_def mutate_sso_cases)
  next
    case 3
    then show ?thesis
      by (cases "editingProvider p")
        (auto intro!: denied simp: handleSave_sso_def mutate_sso_cases sso_update_settles_def sso_create_settles_def)
  qed
qed

lemma sso_inv_save:
  assumes "sso_inv p" and "sso_form_shown p" and "\<not> so_creating p" and "\<not> so_updating p"
  shows "sso_inv (handleSave_sso p)"
proof -
  have op: "sso_form_open p" using assms(2) by (rule sso_shown)
  show ?thesis
    by (cases p rule: handleSave_sso_cases)
      (use assms op in \<open>auto simp: sso_inv_def sso_form_open_def\<close>)
qed

lemma sso_inv_step: "sso_inv p \<Longrightarrow> sso_inv (sso_step e p)"
proof (cases e)
  case SubmitProvider
  assume "sso_inv p"
  with SubmitProvider show ?thesis by (simp add: sso_inv_save)
next
  case (ClickEditProvider provider)
  assume "sso_inv p"
  with ClickEditProvider sso_shown(1) [of p] sso_shown(3) [of provider p] show ?thesis
    by (auto simp: sso_inv_def sso_form_open_def handleEdit_sso_def Let_def)
next
  case (TypeField fld s)
  assume "sso_inv p"
  with TypeField sso_shown(2) [of p] show ?thesis by (auto simp: sso_inv_def sso_form_open_def)
next
  case ClickAddOidc
  assume "sso_inv p"
  with ClickAddOidc sso_shown(1) [of p] show ?thesis by (auto simp: sso_inv_def sso_form_open_def)
next
  case ClickAddSaml
  assume "sso_inv p"
  with ClickAddSaml sso_shown(1) [of p] show ?thesis by (auto simp: sso_inv_def sso_form_open_def)
qed (auto simp: sso_inv_def sso_form_open_def sso_handler_defs split: sum.splits)

lemma sso_inv_mount: "sso_inv (mount_sso can)"
  by (simp add: sso_inv_def mount_sso_def)

lemma sso_inv_reachable: "sso_inv (sso_run es (mount_sso can))"
  unfolding sso_run_def by (rule foldl_invariant) (simp_all add: sso_inv_mount sso_inv_step)

section \<open>One save at a time\<close>

definition sso_saving :: "sso_page \<Rightarrow> bool" where
  "sso_saving p = (so_creating p \<or> so_updating p)"

fun is_save :: "sso_request \<Rightarrow> bool" where
  "is_save (DeleteProvider i) = False"
| "is_save _ = True"

definition sso_saves :: "sso_page \<Rightarrow> nat" where
  "sso_saves p = length (filter is_save (so_sent p))"

definition sso_settlement :: "sso_event \<Rightarrow> bool" where
  "sso_settlement e = (case e of SsoCreateSettles answer \<Rightarrow> True | SsoUpdateSettles answer \<Rightarrow> True | _ \<Rightarrow> False)"

lemma saves_of_submission:
  assumes "\<not> sso_saving p"
  shows "sso_saves (handleSave_sso p) \<le> sso_saves p + of_bool (sso_saving (handleSave_sso p))"
  by (cases p rule: handleSave_sso_cases) (use assms in \<open>auto simp: sso_saves_def sso_saving_def\<close>)

lemma saves_of_others:
  assumes "\<not> sso_settlement e" and "e \<noteq> SubmitProvider \<or> sso_saving p"
  shows "sso_saving (sso_step e p) = sso_saving p \<and> sso_saves (sso_step e p) = sso_saves p"
  using assms
  by (cases e)
    (auto simp: sso_settlement_def sso_saving_def sso_saves_def handleEdit_sso_def sso_handler_defs Let_def split: sum.split)

interpretation sso_flight: single_flight sso_step "\<lambda>p. True" sso_saving sso_saves sso_settlement
proof
  fix p :: sso_page and e :: sso_event
  show "sso_saving (sso_step e p) \<and> sso_saves (sso_step e p) = sso_saves p"
    if "sso_saving p" and "\<not> sso_settlement e"
    using saves_of_others [OF that(2)] that(1) by simp
  show "sso_saves (sso_step e p) \<le> sso_saves p + of_bool (sso_saving (sso_step e p))"
    if "\<not> sso_saving p" and "\<not> sso_settlement e"
    using saves_of_others [OF that(2)] saves_of_submission [OF that(1)] by (cases "e = SubmitProvider") auto
  show "sso_saves (sso_step e p) = sso_saves p" if "sso_settlement e"
    using that
    by (cases e) (simp_all add: sso_settlement_def sso_saves_def sso_create_settles_def sso_update_settles_def
        handleCancel_sso_def split: sum.split)
qed simp

lemma sso_run_of: "sso_flight.run_of es p = sso_run es p"
  by (simp add: sso_flight.run_of_def sso_run_def)

section \<open>Stored secrets\<close>

text \<open>The server shows a stored secret as the mask, or not at all.\<close>

definition masked_ok :: "SsoProviderResponse \<Rightarrow> bool" where
  "masked_ok provider \<longleftrightarrow>
     list_all (\<lambda>m. m = None \<or> m = Some [] \<or> m = Some MASK)
       [sp_client_secret_masked provider, sp_saml_metadata_xml_masked provider, sp_saml_certificate_masked provider]"

text \<open>Events in which no secret is entered.\<close>

fun quiet :: "sso_event \<Rightarrow> bool" where
  "quiet (TypeField fld s) = (fld \<notin> {ClientSecretField, SamlMetadataXmlField, SamlCertificateField})"
| "quiet (ProvidersSettle (Inr ps)) = list_all masked_ok ps"
| "quiet _ = True"

fun carries_no_secret :: "sso_request \<Rightarrow> bool" where
  "carries_no_secret (UpdateProvider i u) =
     (w_client_secret u = None \<and> w_saml_metadata_xml u = None \<and> w_saml_certificate u = None)"
| "carries_no_secret (DeleteProvider i) = True"
| "carries_no_secret (CreateProvider c) = False"

definition secrets :: "sso_form \<Rightarrow> string list" where
  "secrets f = [o_clientSecret f, o_samlMetadataXml f, o_samlCertificate f]"

definition secret_inv :: "sso_page \<Rightarrow> bool" where
  "secret_inv p \<longleftrightarrow>
     list_all masked_ok (so_providers p) \<and> list_all (\<lambda>s. s = [] \<or> s = MASK) (secrets (so_form p)) \<and>
     (editingProvider p = None \<longrightarrow> list_all (\<lambda>s. s = []) (secrets (so_form p)))"

lemma MASK_nonempty [simp]: "MASK \<noteq> []"
  by (simp add: MASK_def)

lemma masked_fields:
  "masked_ok provider \<Longrightarrow>
     or_else (sp_client_secret_masked provider) MASK = MASK \<and> or_else (sp_saml_metadata_xml_masked provider) MASK = MASK \<and>
     or_else (sp_saml_certificate_masked provider) MASK = MASK"
  by (auto simp: masked_ok_def or_else_def)

lemma secrets_reset [simp]: "secrets resetForm_sso = [[], [], []]"
  by (simp add: secrets_def resetForm_sso_def)

lemma secrets_type_field: "quiet (TypeField fld s) \<Longrightarrow> secrets (type_field fld s f) = secrets f"
  by (cases fld) (simp_all add: secrets_def)

lemma secret_inv_simps [simp]:
  "secret_inv (sso_toast ty m p) = secret_inv p" "secret_inv (p\<lparr>so_validationError := v\<rparr>) = secret_inv p"
  "secret_inv (p\<lparr>so_creating := b\<rparr>) = secret_inv p" "secret_inv (p\<lparr>so_updating := b\<rparr>) = secret_inv p"
  "secret_inv (p\<lparr>so_deleting := n\<rparr>) = secret_inv p" "secret_inv (p\<lparr>so_sent := rs\<rparr>) = secret_inv p"
  "secret_inv (p\<lparr>so_query := q\<rparr>) = secret_inv p" "secret_inv (p\<lparr>so_canManage := b\<rparr>) = secret_inv p"
  "secret_inv (p\<lparr>isAddingOidc := b\<rparr>) = secret_inv p" "secret_inv (p\<lparr>isAddingSaml := b\<rparr>) = secret_inv p"
  "secret_inv (p\<lparr>so_toasts := ts\<rparr>) = secret_inv p"
  by (auto simp: secret_inv_def)

lemma cancel_keeps_log [simp]: "so_sent (handleCancel_sso p) = so_sent p"
  by (simp add: handleCancel_sso_def)

lemma secret_inv_cancel: "secret_inv p \<Longrightarrow> secret_inv (handleCancel_sso p)"
  by (simp add: secret_inv_def handleCancel_sso_def)

lemma secret_inv_edit:
  assumes "secret_inv p" and "editingProvider p = None" and "masked_ok provider"
  shows "secret_inv (handleEdit_sso provider p)"
  using assms masked_fields [OF assms(3)] by (simp add: secret_inv_def handleEdit_sso_def secrets_def Let_def)

lemma updateData_no_secret:
  "list_all (\<lambda>s. s = [] \<or> s = MASK) (secrets f) \<Longrightarrow> form_complete oidc f \<Longrightarrow>
   carries_no_secret (UpdateProvider i (updateData oidc f))"
  by (cases oidc) (auto simp: secrets_def updateData_def form_complete_def sso_or_undefined_def)

text \<open>With an untouched secret a new provider is incomplete, and the update of a stored one leaves the secret out.\<close>

lemma save_keeps_secrets:
  assumes "secret_inv p"
  shows "secret_inv (handleSave_sso p) \<and>
    (so_sent (handleSave_sso p) = so_sent p \<or>
     (\<exists>r. so_sent (handleSave_sso p) = so_sent p @ [r] \<and> carries_no_secret r))"
proof (cases p rule: handleSave_sso_cases)
  case (refused v)
  with assms show ?thesis by simp
next
  case (update provider)
  then have "carries_no_secret (UpdateProvider i (updateData (isOidc p) (so_form p)))" for i
    using assms by (intro updateData_no_secret) (simp_all add: secret_inv_def)
  with update assms show ?thesis by simp
next
  case create
  then have False
    using assms by (auto simp: secret_inv_def secrets_def form_complete_def split: if_splits)
  then show ?thesis ..
next
  case (denied m)
  with assms show ?thesis by auto
qed

definition sends_no_secret :: "sso_page \<Rightarrow> sso_page \<Rightarrow> bool" where
  "sends_no_secret p q \<longleftrightarrow> (\<exists>rs. so_sent q = so_sent p @ rs \<and> list_all carries_no_secret rs)"

lemma sends_same: "so_sent q = so_sent p \<Longrightarrow> sends_no_secret p q"
  by (simp add: sends_no_secret_def)

lemma sends_one: "so_sent q = so_sent p @ [r] \<Longrightarrow> carries_no_secret r \<Longrightarrow> sends_no_secret p q"
  by (simp add: sends_no_secret_def)

lemma sends_trans: "sends_no_secret p q \<Longrightarrow> sends_no_secret q r \<Longrightarrow> sends_no_secret p r"
  unfolding sends_no_secret_def by (elim exE conjE) (rule exI, auto)

lemma quiet_step:
  assumes "secret_inv p" and "quiet e"
  shows "secret_inv (sso_step e p) \<and> sends_no_secret p (sso_step e p)"
proof (cases e)
  case SubmitProvider
  with save_keeps_secrets [OF assms(1)] assms(1) show ?thesis
    by (auto intro: sends_same sends_one)
next
  case (ClickEditProvider provider)
  show ?thesis
  proof (cases "provider \<in> set (sso_listed p)")
    case True
    then have "editingProvider p = None" "masked_ok provider"
      using sso_shown(1) [of p] sso_shown(3) [OF True] assms(1)
      by (auto simp: sso_form_open_def secret_inv_def list_all_iff)
    with secret_inv_edit [OF assms(1)] True ClickEditProvider show ?thesis
      by (auto simp: handleEdit_sso_def Let_def intro: sends_same)
  qed (use ClickEditProvider assms in \<open>simp add: sends_same\<close>)
next
  case (TypeField fld s)
  with assms secrets_type_field [of fld s "so_form p"] show ?thesis
    by (auto simp: secret_inv_def intro: sends_same)
next
  case (ClickDeleteProvider provider)
  with assms show ?thesis
    by (auto simp: handleDelete_sso_def mutate_sso_cases sso_delete_settles_def intro: sends_same sends_one)
next
  case (ProvidersSettle answer)
  with assms show ?thesis
    by (cases answer) (auto simp: providers_settle_def secret_inv_def intro: sends_same)
qed (use assms in \<open>auto simp: sso_create_settles_def sso_update_settles_def sso_delete_settles_def providers_fetch_starts_def
      secret_inv_cancel intro!: sends_same split: sum.split\<close>)

lemma quiet_run:
  "secret_inv p \<Longrightarrow> list_all quiet es \<Longrightarrow> secret_inv (sso_run es p) \<and> sends_no_secret p (sso_run es p)"
proof (induction es rule: rev_induct)
  case Nil
  then show ?case by (simp add: sso_run_def sends_same)
next
  case (snoc e es)
  then have "secret_inv (sso_run es p)" "sends_no_secret p (sso_run es p)" "quiet e" by simp_all
  moreover have "sso_run (es @ [e]) p = sso_step e (sso_run es p)" by (simp add: sso_run_def)
  ultimately show ?case using quiet_step [of "sso_run es p" e] sends_trans by auto
qed

text \<open>
  C38. Stored secrets survive an edit: from any moment at which the page shows its list, as long as nobody types into a
  secret field, no request the page sends carries a client secret, a certificate or metadata, whatever provider is opened,
  edited otherwise and saved; and no provider is created without them.
\<close>

theorem stored_secrets_survive_edits:
  assumes "sso_list_shown (sso_run es (mount_sso can))" and "list_all masked_ok (so_providers (sso_run es (mount_sso can)))"
    and "list_all quiet fs"
  shows "\<exists>rs. so_sent (sso_run (es @ fs) (mount_sso can)) = so_sent (sso_run es (mount_sso can)) @ rs \<and>
    list_all carries_no_secret rs"
proof -
  let ?p = "sso_run es (mount_sso can)"
  have closed: "\<not> sso_form_open ?p" using assms(1) by (rule sso_shown)
  then have "so_form ?p = resetForm_sso" using sso_inv_reachable [of es can] by (simp add: sso_inv_def)
  with assms(2) have "secret_inv ?p" by (simp add: secret_inv_def)
  then have "sends_no_secret ?p (sso_run fs ?p)" using quiet_run [OF _ assms(3)] by blast
  then show ?thesis by (simp add: sends_no_secret_def sso_run_def)
qed

definition sample_provider :: SsoProviderResponse where
  "sample_provider =
     \<lparr>sp_id = ''p1'', sp_protocol = ''oidc'', sp_display_name = ''Corp'', sp_group_claim_name = Some ''groups'',
      sp_issuer_url = Some ''https://i'', sp_client_id = Some ''c'', sp_client_secret_masked = Some MASK,
      sp_scopes = Some ''openid'', sp_redirect_uri = None, sp_saml_entity_id = None, sp_saml_metadata_url = None,
      sp_saml_metadata_xml_masked = Some MASK, sp_saml_certificate_masked = Some MASK\<rparr>"

theorem stored_secrets_survive_edits_witness:
  "\<exists>rs. so_sent (sso_run ([ProvidersSettle (Inr [sample_provider])] @
        [ClickEditProvider sample_provider, TypeField DisplayNameField ''Corporate'', SubmitProvider]) (mount_sso True)) =
      so_sent (sso_run [ProvidersSettle (Inr [sample_provider])] (mount_sso True)) @ rs \<and>
    list_all carries_no_secret rs"
proof (rule stored_secrets_survive_edits)
  show "sso_list_shown (sso_run [ProvidersSettle (Inr [sample_provider])] (mount_sso True))" by code_simp
  show "list_all masked_ok (so_providers (sso_run [ProvidersSettle (Inr [sample_provider])] (mount_sso True)))" by code_simp
  show "list_all quiet [ClickEditProvider sample_provider, TypeField DisplayNameField ''Corporate'', SubmitProvider]"
    by code_simp
qed

section \<open>A late success\<close>

text \<open>
  The form can be left while its save is under way, and the success of that save closes whatever form is open by then:
  what was entered for another provider is discarded unsaved.
\<close>

lemma late_success_closes_form:
  assumes "so_updating p \<or> so_creating p"
  shows "\<not> sso_form_open (sso_step (SsoCreateSettles (Inr d)) (sso_step (SsoUpdateSettles (Inr d)) p)) \<and>
    so_form (sso_step (SsoCreateSettles (Inr d)) (sso_step (SsoUpdateSettles (Inr d)) p)) = resetForm_sso"
  using assms
  by (auto simp: sso_update_settles_def sso_create_settles_def handleCancel_sso_def sso_form_open_def)

definition other_provider :: SsoProviderResponse where
  "other_provider = sample_provider\<lparr>sp_id := ''p2'', sp_protocol := ''saml'', sp_saml_entity_id := Some ''e''\<rparr>"

definition late_run :: "sso_event list" where
  "late_run =
     [ProvidersSettle (Inr [sample_provider, other_provider]), ClickEditProvider sample_provider, SubmitProvider,
      CancelProvider, ClickEditProvider other_provider, TypeField DisplayNameField ''new name'']"

lemma late_success_reachable:
  "so_updating (sso_run late_run (mount_sso True)) \<and>
   map_option sp_id (editingProvider (sso_run late_run (mount_sso True))) = Some ''p2'' \<and>
   map (\<lambda>r. case r of UpdateProvider i u \<Rightarrow> i | _ \<Rightarrow> []) (so_sent (sso_run late_run (mount_sso True))) = [''p1'']"
  by code_simp

end
