(* ===== verification/Prompt_Input.thy ===== *)
theory Prompt_Input
  imports Js_Prelude Single_Flight "HOL-Library.Word"
begin

text \<open>
  The prompt of the workspace, \<open>frontend/src/components/chat/PromptInput.tsx\<close>. A text is its list of UTF-16 code
  units, as the browser has it; \<open>Array.from\<close> splits it into code points, a lone surrogate counting as one. The
  properties the workspace passes down may change at any time.
\<close>

section \<open>Texts\<close>

type_synonym js_text = "16 word list"

definition high_surrogate :: "16 word \<Rightarrow> bool" where
  "high_surrogate u = (0xD800 \<le> u \<and> u \<le> 0xDBFF)"

definition low_surrogate :: "16 word \<Rightarrow> bool" where
  "low_surrogate u = (0xDC00 \<le> u \<and> u \<le> 0xDFFF)"

fun array_from :: "js_text \<Rightarrow> js_text list" where
  "array_from [] = []"
| "array_from [u] = [[u]]"
| "array_from (u # v # t) =
     (if high_surrogate u \<and> low_surrogate v then [u, v] # array_from t else [u] # array_from (v # t))"

text \<open>\<open>s.codePointAt(0) ?? 0\<close>.\<close>

fun codePointAt0 :: "js_text \<Rightarrow> nat" where
  "codePointAt0 [] = 0"
| "codePointAt0 [u] = unat u"
| "codePointAt0 (u # v # t) =
     (if high_surrogate u \<and> low_surrogate v then (unat u - 0xD800) * 0x400 + (unat v - 0xDC00) + 0x10000 else unat u)"

definition countUnicodeCodePoints :: "js_text \<Rightarrow> nat" where
  "countUnicodeCodePoints t = length (array_from t)"

definition isPythonStripWhitespace :: "nat \<Rightarrow> bool" where
  "isPythonStripWhitespace codePoint =
     ((0x0009 \<le> codePoint \<and> codePoint \<le> 0x000d) \<or> (0x001c \<le> codePoint \<and> codePoint \<le> 0x0020) \<or> codePoint = 0x0085 \<or>
      codePoint = 0x00a0 \<or> codePoint = 0x1680 \<or> (0x2000 \<le> codePoint \<and> codePoint \<le> 0x200a) \<or> codePoint = 0x2028 \<or>
      codePoint = 0x2029 \<or> codePoint = 0x202f \<or> codePoint = 0x205f \<or> codePoint = 0x3000)"

text \<open>The two loops of \<open>canonicalizeQuestion\<close>, over the indices into the list of code points.\<close>

function advance_start :: "js_text list \<Rightarrow> nat \<Rightarrow> nat \<Rightarrow> nat" where
  "advance_start codePoints start stop =
     (if start < stop \<and> isPythonStripWhitespace (codePointAt0 (codePoints ! start))
      then advance_start codePoints (start + 1) stop else start)"
  by pat_completeness auto
termination
  by (relation "measure (\<lambda>(codePoints, start, stop). stop - start)") auto

function retreat_end :: "js_text list \<Rightarrow> nat \<Rightarrow> nat \<Rightarrow> nat" where
  "retreat_end codePoints start stop =
     (if start < stop \<and> isPythonStripWhitespace (codePointAt0 (codePoints ! (stop - 1)))
      then retreat_end codePoints start (stop - 1) else stop)"
  by pat_completeness auto
termination
  by (relation "measure (\<lambda>(codePoints, start, stop). stop)") auto

declare advance_start.simps [simp del] retreat_end.simps [simp del]

definition canonicalizeQuestion :: "js_text \<Rightarrow> js_text" where
  "canonicalizeQuestion t =
     (let codePoints = array_from t;
          start = advance_start codePoints 0 (length codePoints);
          stop = retreat_end codePoints start (length codePoints)
      in concat (take (stop - start) (drop start codePoints)))"

section \<open>The loops strip blanks at both ends\<close>

abbreviation blank :: "js_text \<Rightarrow> bool" where
  "blank c \<equiv> isPythonStripWhitespace (codePointAt0 c)"

definition strip :: "('a \<Rightarrow> bool) \<Rightarrow> 'a list \<Rightarrow> 'a list" where
  "strip P xs = rev (dropWhile P (rev (dropWhile P xs)))"

lemma advance_start_eq:
  "start \<le> length cps \<Longrightarrow> advance_start cps start (length cps) = start + length (takeWhile blank (drop start cps))"
proof (induction "length cps - start" arbitrary: start)
  case 0
  then show ?case by (subst advance_start.simps) simp
next
  case (Suc n)
  then have lt: "start < length cps" by simp
  then have "drop start cps = cps ! start # drop (start + 1) cps" by (simp add: Cons_nth_drop_Suc)
  with Suc lt show ?case by (subst advance_start.simps) simp
qed

lemma retreat_end_eq:
  "start \<le> stop \<Longrightarrow> stop \<le> length cps \<Longrightarrow>
   retreat_end cps start stop = stop - length (takeWhile blank (rev (take (stop - start) (drop start cps))))"
proof (induction "stop - start" arbitrary: stop)
  case 0
  then show ?case by (subst retreat_end.simps) simp
next
  case (Suc n)
  then have lt: "start < stop" by simp
  define m where "m = stop - 1 - start"
  have m: "stop - start = Suc m" "start + m = stop - 1" "m < length (drop start cps)"
    using lt Suc.prems by (simp_all add: m_def)
  have "take (Suc m) (drop start cps) = take m (drop start cps) @ [drop start cps ! m]"
    by (rule take_Suc_conv_app_nth [OF m(3)])
  moreover have "drop start cps ! m = cps ! (stop - 1)" using m(2,3) Suc.prems by simp
  ultimately have rv: "rev (take (stop - start) (drop start cps)) = cps ! (stop - 1) # rev (take (stop - 1 - start) (drop start cps))"
    unfolding m(1) m_def [symmetric] by simp
  have "retreat_end cps start (stop - 1) =
      stop - 1 - length (takeWhile blank (rev (take (stop - 1 - start) (drop start cps))))"
    using Suc lt by simp
  then show ?case unfolding rv using lt by (subst retreat_end.simps) simp
qed

lemma rev_dropWhile_rev: "rev (dropWhile P (rev ys)) = take (length ys - length (takeWhile P (rev ys))) ys"
  by (simp add: dropWhile_eq_drop rev_drop)

lemma canonical_code_points: "canonicalizeQuestion t = concat (strip blank (array_from t))"
proof -
  define cps where "cps = array_from t"
  define st where "st = length (takeWhile blank cps)"
  have a: "advance_start cps 0 (length cps) = st" by (simp add: advance_start_eq st_def)
  have le: "st \<le> length cps" by (simp add: st_def length_takeWhile_le)
  have d: "drop st cps = dropWhile blank cps" by (simp add: st_def dropWhile_eq_drop)
  have r: "retreat_end cps st (length cps) = length cps - length (takeWhile blank (rev (drop st cps)))"
    using le by (simp add: retreat_end_eq)
  have "take (length cps - length (takeWhile blank (rev (drop st cps))) - st) (drop st cps) =
      rev (dropWhile blank (rev (drop st cps)))"
    unfolding rev_dropWhile_rev length_drop by (simp only: diff_commute)
  then show ?thesis
    by (simp add: canonicalizeQuestion_def cps_def [symmetric] a r Let_def strip_def d)
qed

section \<open>Code points of a canonical text\<close>

lemma concat_array_from [simp]: "concat (array_from t) = t"
  by (induction t rule: array_from.induct) simp_all

lemma array_from_Nil [simp]: "array_from t = [] \<longleftrightarrow> t = []"
  by (induction t rule: array_from.induct) simp_all

lemma array_from_Cons: "\<exists>c cs. array_from (v # t) = (v # c) # cs"
  by (cases t) auto

lemma array_from_drop: "array_from (concat (drop n (array_from t))) = drop n (array_from t)"
proof (induction t arbitrary: n rule: array_from.induct)
  case (2 u)
  then show ?case by (cases n) simp_all
next
  case (3 u v t)
  then show ?case
    by (cases "high_surrogate u \<and> low_surrogate v"; cases n) (simp_all del: array_from.simps(3), simp_all)
qed simp

lemma array_from_take: "array_from (concat (take n (array_from t))) = take n (array_from t)"
proof (induction t arbitrary: n rule: array_from.induct)
  case (2 u)
  then show ?case by (cases n) simp_all
next
  case (3 u v t)
  show ?case
  proof (cases n)
    case (Suc m)
    show ?thesis
    proof (cases "high_surrogate u \<and> low_surrogate v")
      case True
      with 3(1) [OF True] Suc show ?thesis by simp
    next
      case False
      obtain c cs where head: "array_from (v # t) = (v # c) # cs" using array_from_Cons by blast
      have ih: "array_from (concat (take m (array_from (v # t)))) = take m (array_from (v # t))"
        by (rule 3(2) [OF False])
      show ?thesis
      proof (cases m)
        case 0
        with False Suc show ?thesis by simp
      next
        case (Suc k)
        with ih head have "array_from (v # c @ concat (take k cs)) = (v # c) # take k cs" by simp
        with False head Suc \<open>n = Suc m\<close> show ?thesis by auto
      qed
    qed
  qed simp
qed simp

lemma strip_as_slice: "\<exists>j k. strip P xs = take k (drop j xs)"
  unfolding strip_def rev_dropWhile_rev dropWhile_eq_drop [of P xs] by blast

lemma array_from_strip: "array_from (concat (strip P (array_from t))) = strip P (array_from t)"
proof -
  obtain j k where slice: "strip P (array_from t) = take k (drop j (array_from t))" using strip_as_slice by blast
  have "drop j (array_from t) = array_from (concat (drop j (array_from t)))" by (rule array_from_drop [symmetric])
  then show ?thesis unfolding slice by (metis array_from_take)
qed

lemma strip_ends:
  assumes "strip P xs \<noteq> []"
  shows "\<not> P (hd (strip P xs))" and "\<not> P (last (strip P xs))"
proof -
  let ?ys = "dropWhile P xs"
  have ne: "dropWhile P (rev ?ys) \<noteq> []" using assms by (simp add: strip_def)
  then show "\<not> P (last (strip P xs))" unfolding strip_def by (simp add: last_rev hd_dropWhile)
  obtain k where take: "strip P xs = take k ?ys" unfolding strip_def rev_dropWhile_rev by blast
  with assms have "?ys \<noteq> []" and "0 < k" by auto
  then have "hd (strip P xs) = hd ?ys" unfolding take by simp
  with \<open>?ys \<noteq> []\<close> show "\<not> P (hd (strip P xs))" using hd_dropWhile [of P xs] by simp
qed

lemma strip_idem [simp]: "strip P (strip P xs) = strip P xs"
proof (cases "strip P xs = []")
  case False
  note ends = strip_ends [OF False]
  have "dropWhile P ys = ys" if "ys \<noteq> []" "\<not> P (hd ys)" for ys :: "'a list" using that by (cases ys) auto
  then have "dropWhile P (strip P xs) = strip P xs" "dropWhile P (rev (strip P xs)) = rev (strip P xs)"
    using False ends by (simp_all add: hd_rev)
  then show ?thesis by (simp add: strip_def [of P "strip P xs"])
qed (simp add: strip_def [of P "[]"])

lemma canonical_idem: "canonicalizeQuestion (canonicalizeQuestion t) = canonicalizeQuestion t"
  by (simp add: canonical_code_points array_from_strip)

section \<open>The component\<close>

datatype QuestionLimitState = LimitLoading | LimitError | LimitReady nat

record prompt_props =
  pp_disabled :: bool
  pp_connections :: "string list"
  selectedConnectionId :: "string option"
  initialText :: js_text
  questionLimit :: QuestionLimitState

text \<open>\<open>pi_sent\<close> is the log of the calls of \<open>onSubmit\<close>, each with the properties of its moment.\<close>

record prompt_input =
  pi_props :: prompt_props
  pi_text :: js_text
  isLocallySubmitting :: bool
  submissionInFlightRef :: bool
  pi_sent :: "(js_text \<times> prompt_props) list"

definition mount_prompt :: "prompt_props \<Rightarrow> prompt_input" where
  "mount_prompt props =
     \<lparr>pi_props = props, pi_text = initialText props, isLocallySubmitting = False, submissionInFlightRef = False, pi_sent = []\<rparr>"

text \<open>New properties; the effect takes over a new initial text that is not empty.\<close>

definition render_prompt :: "prompt_props \<Rightarrow> prompt_input \<Rightarrow> prompt_input" where
  "render_prompt props p =
     (let p1 = p\<lparr>pi_props := props\<rparr>
      in if initialText props \<noteq> initialText (pi_props p) \<and> initialText props \<noteq> [] then p1\<lparr>pi_text := initialText props\<rparr> else p1)"

definition questionLength :: "prompt_input \<Rightarrow> nat" where
  "questionLength p = countUnicodeCodePoints (canonicalizeQuestion (pi_text p))"

definition isOverLimit :: "prompt_input \<Rightarrow> bool" where
  "isOverLimit p = (case questionLimit (pi_props p) of LimitReady m \<Rightarrow> questionLength p > m | _ \<Rightarrow> False)"

definition has_selection :: "prompt_props \<Rightarrow> bool" where
  "has_selection props = (case selectedConnectionId props of Some i \<Rightarrow> i \<noteq> [] | None \<Rightarrow> False)"

definition isPromptDisabled :: "prompt_input \<Rightarrow> bool" where
  "isPromptDisabled p =
     (pp_connections (pi_props p) = [] \<or> \<not> has_selection (pi_props p) \<or> pp_disabled (pi_props p) \<or>
      (case questionLimit (pi_props p) of LimitReady m \<Rightarrow> False | _ \<Rightarrow> True) \<or> isLocallySubmitting p)"

definition canSubmitPrompt :: "prompt_input \<Rightarrow> bool" where
  "canSubmitPrompt p = (canonicalizeQuestion (pi_text p) \<noteq> [] \<and> \<not> isPromptDisabled p \<and> \<not> isOverLimit p)"

definition submitPrompt :: "prompt_input \<Rightarrow> prompt_input" where
  "submitPrompt p =
     (if \<not> canSubmitPrompt p \<or> submissionInFlightRef p then p
      else p\<lparr>submissionInFlightRef := True, isLocallySubmitting := True, pi_text := [],
             pi_sent := pi_sent p @ [(canonicalizeQuestion (pi_text p), pi_props p)]\<rparr>)"

text \<open>The \<open>finally\<close> block, whatever became of the awaited call.\<close>

definition prompt_settles :: "prompt_input \<Rightarrow> prompt_input" where
  "prompt_settles p = p\<lparr>submissionInFlightRef := False, isLocallySubmitting := False\<rparr>"

definition submitOnEnter :: "bool \<Rightarrow> bool \<Rightarrow> prompt_input \<Rightarrow> prompt_input" where
  "submitOnEnter shiftKey isComposing p = (if \<not> shiftKey \<and> \<not> isComposing then submitPrompt p else p)"

definition getPromptPlaceholder :: "prompt_input \<Rightarrow> string" where
  "getPromptPlaceholder p =
     (if pp_connections (pi_props p) = [] then ''query.input.placeholderNoConnections''
      else if \<not> has_selection (pi_props p) then ''query.input.placeholderNoSelection''
      else ''query.input.placeholder'')"

datatype prompt_event =
    TypePrompt js_text
  | PressEnter bool bool
  | ClickSend
  | PromptSettles
  | PromptRenders prompt_props

fun prompt_step :: "prompt_event \<Rightarrow> prompt_input \<Rightarrow> prompt_input" where
  "prompt_step (TypePrompt t) p = (if isPromptDisabled p then p else p\<lparr>pi_text := t\<rparr>)"
| "prompt_step (PressEnter shiftKey isComposing) p = (if isPromptDisabled p then p else submitOnEnter shiftKey isComposing p)"
| "prompt_step ClickSend p = (if canSubmitPrompt p then submitPrompt p else p)"
| "prompt_step PromptSettles p = (if submissionInFlightRef p then prompt_settles p else p)"
| "prompt_step (PromptRenders props) p = render_prompt props p"

definition prompt_run :: "prompt_event list \<Rightarrow> prompt_input \<Rightarrow> prompt_input" where
  "prompt_run es p = foldl (\<lambda>q e. prompt_step e q) p es"

section \<open>What is asked\<close>

text \<open>
  A well-formed question: blank neither at its start nor at its end, not empty, no longer in code points than the
  limit of its moment, and asked of a selected connection while the prompt was enabled.
\<close>

definition question_ok :: "js_text \<times> prompt_props \<Rightarrow> bool" where
  "question_ok x =
     (let cps = array_from (fst x); props = snd x
      in cps \<noteq> [] \<and> \<not> blank (hd cps) \<and> \<not> blank (last cps) \<and>
         (case questionLimit props of LimitReady m \<Rightarrow> length cps \<le> m | _ \<Rightarrow> False) \<and>
         has_selection props \<and> pp_connections props \<noteq> [] \<and> \<not> pp_disabled props)"

lemma canonical_array: "array_from (canonicalizeQuestion t) = strip blank (array_from t)"
  by (simp add: canonical_code_points array_from_strip)

lemma question_ok_submit:
  assumes "canSubmitPrompt p"
  shows "question_ok (canonicalizeQuestion (pi_text p), pi_props p)"
proof -
  have ne: "strip blank (array_from (pi_text p)) \<noteq> []"
    using assms canonical_array [of "pi_text p"] by (auto simp: canSubmitPrompt_def)
  with strip_ends [OF ne] assms show ?thesis
    by (simp add: question_ok_def canonical_array canSubmitPrompt_def isPromptDisabled_def isOverLimit_def questionLength_def
        countUnicodeCodePoints_def Let_def split: QuestionLimitState.splits)
qed

definition prompt_settlement :: "prompt_event \<Rightarrow> bool" where
  "prompt_settlement e = (e = PromptSettles)"

lemma submit_log:
  "pi_sent (submitPrompt p) = pi_sent p \<and> submissionInFlightRef (submitPrompt p) = submissionInFlightRef p \<or>
   (\<exists>x. pi_sent (submitPrompt p) = pi_sent p @ [x] \<and> question_ok x \<and> \<not> submissionInFlightRef p \<and>
      submissionInFlightRef (submitPrompt p))"
  using question_ok_submit [of p] by (auto simp: submitPrompt_def)

lemma prompt_log:
  "pi_sent (prompt_step e p) = pi_sent p \<and>
     (submissionInFlightRef (prompt_step e p) = submissionInFlightRef p \<or> prompt_settlement e) \<or>
   (\<exists>x. pi_sent (prompt_step e p) = pi_sent p @ [x] \<and> question_ok x \<and> \<not> submissionInFlightRef p \<and>
      submissionInFlightRef (prompt_step e p) \<and> \<not> prompt_settlement e)"
  using submit_log [of p]
  by (cases e) (auto simp: prompt_settlement_def submitOnEnter_def prompt_settles_def render_prompt_def Let_def)

interpretation prompt_flight: single_flight prompt_step "\<lambda>p. True" submissionInFlightRef "\<lambda>p. length (pi_sent p)"
    prompt_settlement
proof
  fix p :: prompt_input and e :: prompt_event
  show "submissionInFlightRef (prompt_step e p) \<and> length (pi_sent (prompt_step e p)) = length (pi_sent p)"
    if "submissionInFlightRef p" and "\<not> prompt_settlement e"
    using that prompt_log [of e p] by auto
  show "length (pi_sent (prompt_step e p)) \<le> length (pi_sent p) + of_bool (submissionInFlightRef (prompt_step e p))"
    if "\<not> submissionInFlightRef p" and "\<not> prompt_settlement e"
    using that prompt_log [of e p] by auto
  show "length (pi_sent (prompt_step e p)) = length (pi_sent p)" if "prompt_settlement e"
    using that prompt_log [of e p] by auto
qed simp

lemma prompt_run_of: "prompt_flight.run_of es p = prompt_run es p"
  by (simp add: prompt_flight.run_of_def prompt_run_def)

lemma questions_ok: "list_all question_ok (pi_sent (prompt_run es (mount_prompt props)))"
  unfolding prompt_run_def
proof (rule foldl_invariant)
  show "list_all question_ok (pi_sent (mount_prompt props))" by (simp add: mount_prompt_def)
  show "list_all question_ok (pi_sent (prompt_step e q))" if "list_all question_ok (pi_sent q)" for q e
    using that prompt_log [of e q] by auto
qed

text \<open>
  C39. The question that is sent is the text without the blanks around it: the two index loops compute the strip of its
  code points, the count is that of the stripped text, and stripping again changes nothing. In every run each question
  sent is such a text, not empty, at most as long as the limit of that moment, and asked of a selected connection.
\<close>

theorem questions_sent_are_canonical:
  "canonicalizeQuestion t = concat (strip blank (array_from t)) \<and>
   countUnicodeCodePoints (canonicalizeQuestion t) = length (strip blank (array_from t)) \<and>
   canonicalizeQuestion (canonicalizeQuestion t) = canonicalizeQuestion t \<and>
   list_all question_ok (pi_sent (prompt_run es (mount_prompt props)))"
  by (simp add: canonical_idem canonical_array countUnicodeCodePoints_def questions_ok) (rule canonical_code_points)

end
