(* ===== verification/Database_Selector.thy ===== *)
theory Database_Selector
  imports Js_Prelude Single_Flight
begin

text \<open>
  The list box in which a database is chosen, \<open>frontend/src/components/chat/DatabaseSelector.tsx\<close>. The lower-casing of
  the locale is a parameter, and so is the clock of the type-ahead. Focus follows the active option and has no state of
  its own; the connections and the selected one come from outside and may change at any time.
\<close>

section \<open>State\<close>

record UserConnection =
  uc_id :: string
  uc_display_name :: string
  uc_database_type :: string

record selector_props =
  sel_connections :: "UserConnection list"
  selectedId :: "string option"

text \<open>\<open>sl_selected\<close> is the log of the calls of \<open>onSelect\<close>, each with the properties of its moment.\<close>

record selector =
  sl_props :: selector_props
  sl_open :: bool
  requestedFocusedId :: "string option"
  typeahead_text :: string
  typeahead_time :: int
  autoSelectedRef :: "string option"
  sl_selected :: "(string \<times> selector_props) list"

definition TYPEAHEAD_RESET_MS :: int where
  "TYPEAHEAD_RESET_MS = 500"

definition ids_of :: "UserConnection list \<Rightarrow> string list" where
  "ids_of cs = map uc_id cs"

text \<open>\<open>connections.find((c) => c.id === selectedId)?.id ?? connections[0]?.id ?? null\<close>.\<close>

definition default_option :: "selector_props \<Rightarrow> string option" where
  "default_option props =
     (case find_first (\<lambda>c. Some (uc_id c) = selectedId props) (sel_connections props) of
        Some c \<Rightarrow> Some (uc_id c)
      | None \<Rightarrow> (case sel_connections props of [] \<Rightarrow> None | c # cs \<Rightarrow> Some (uc_id c)))"

definition activeId :: "selector \<Rightarrow> string option" where
  "activeId s =
     (case requestedFocusedId s of
        Some i \<Rightarrow> if i \<noteq> [] \<and> i \<in> set (ids_of (sel_connections (sl_props s))) then Some i else default_option (sl_props s)
      | None \<Rightarrow> default_option (sl_props s))"

definition no_selected_id :: "selector_props \<Rightarrow> bool" where
  "no_selected_id props = (selectedId props = None \<or> selectedId props = Some [])"

text \<open>The effect that selects a single connection, once.\<close>

definition autoselect :: "selector \<Rightarrow> selector" where
  "autoselect s =
     (case sel_connections (sl_props s) of
        [c] \<Rightarrow>
          (if no_selected_id (sl_props s) \<and> autoSelectedRef s \<noteq> Some (uc_id c)
           then s\<lparr>autoSelectedRef := Some (uc_id c), sl_selected := sl_selected s @ [(uc_id c, sl_props s)]\<rparr> else s)
      | _ \<Rightarrow> s)"

definition mount_selector :: "selector_props \<Rightarrow> selector" where
  "mount_selector props =
     autoselect
       \<lparr>sl_props = props, sl_open = False, requestedFocusedId = None, typeahead_text = [], typeahead_time = 0,
        autoSelectedRef = None, sl_selected = []\<rparr>"

section \<open>Handlers\<close>

definition openListbox :: "selector \<Rightarrow> selector" where
  "openListbox s = s\<lparr>requestedFocusedId := default_option (sl_props s), sl_open := True\<rparr>"

definition handleSelect :: "string \<Rightarrow> selector \<Rightarrow> selector" where
  "handleSelect i s = s\<lparr>sl_selected := sl_selected s @ [(i, sl_props s)], sl_open := False\<rparr>"

definition closeListbox :: "selector \<Rightarrow> selector" where
  "closeListbox s = s\<lparr>sl_open := False, typeahead_text := [], typeahead_time := 0\<rparr>"

definition moveActive :: "int \<Rightarrow> selector \<Rightarrow> selector" where
  "moveActive nextIndex s =
     (let cs = sel_connections (sl_props s)
      in if cs = [] then s
         else s\<lparr>requestedFocusedId := Some (uc_id (cs ! nat (min (max nextIndex 0) (int (length cs) - 1))))\<rparr>)"

text \<open>\<open>connections.findIndex((c) => c.id === activeId)\<close>, which is \<open>-1\<close> when there is none.\<close>

fun index_from :: "('a \<Rightarrow> bool) \<Rightarrow> int \<Rightarrow> 'a list \<Rightarrow> int" where
  "index_from P n [] = -1"
| "index_from P n (x # xs) = (if P x then n else index_from P (n + 1) xs)"

definition currentIndex :: "selector \<Rightarrow> int" where
  "currentIndex s = index_from (\<lambda>c. Some (uc_id c) = activeId s) 0 (sel_connections (sl_props s))"

text \<open>The inner loop of the type-ahead: the steps \<open>step, step + 1, \<dots>\<close> up to the number of options.\<close>

fun search_steps :: "(string \<Rightarrow> string) \<Rightarrow> UserConnection list \<Rightarrow> int \<Rightarrow> string \<Rightarrow> nat \<Rightarrow> nat \<Rightarrow> UserConnection option" where
  "search_steps lower cs current candidate step 0 = None"
| "search_steps lower cs current candidate step (Suc left) =
     (let c = cs ! nat ((current + int step) mod int (length cs))
      in if starts_with (lower (uc_display_name c)) candidate then Some c
         else search_steps lower cs current candidate (step + 1) left)"

fun search_queries :: "(string \<Rightarrow> string) \<Rightarrow> UserConnection list \<Rightarrow> int \<Rightarrow> string list \<Rightarrow> UserConnection option" where
  "search_queries lower cs current [] = None"
| "search_queries lower cs current (q # qs) =
     (case search_steps lower cs current q 1 (length cs) of
        Some c \<Rightarrow> Some c
      | None \<Rightarrow> search_queries lower cs current qs)"

definition handleTypeahead :: "(string \<Rightarrow> string) \<Rightarrow> int \<Rightarrow> string \<Rightarrow> selector \<Rightarrow> selector" where
  "handleTypeahead lower now key s =
     (let cs = sel_connections (sl_props s)
      in if cs = [] then s
         else
           (let buffer = (if now - typeahead_time s \<le> TYPEAHEAD_RESET_MS then typeahead_text s @ key else key);
                s1 = s\<lparr>typeahead_text := buffer, typeahead_time := now\<rparr>;
                query = lower buffer;
                queries = (if query = lower key then [query] else [query, lower key])
            in case search_queries lower cs (currentIndex s) queries of
                 Some c \<Rightarrow> s1\<lparr>requestedFocusedId := Some (uc_id c)\<rparr>
               | None \<Rightarrow> s1))"

datatype list_key =
    ArrowDown | ArrowUp | HomeKey | EndKey | EnterKey | SpaceKey | EscapeKey | TabKey | CharKey string bool

text \<open>\<open>CharKey key modified\<close> is any other key; \<open>modified\<close> says that Alt, Ctrl or Meta is held.\<close>

fun handleListKeyDown :: "(string \<Rightarrow> string) \<Rightarrow> int \<Rightarrow> list_key \<Rightarrow> selector \<Rightarrow> selector" where
  "handleListKeyDown lower now ArrowDown s = moveActive (if currentIndex s < 0 then 0 else currentIndex s + 1) s"
| "handleListKeyDown lower now ArrowUp s = moveActive (if currentIndex s < 0 then 0 else currentIndex s - 1) s"
| "handleListKeyDown lower now HomeKey s = moveActive 0 s"
| "handleListKeyDown lower now EndKey s = moveActive (int (length (sel_connections (sl_props s))) - 1) s"
| "handleListKeyDown lower now EnterKey s =
     (case activeId s of Some i \<Rightarrow> if i \<noteq> [] then handleSelect i s else s | None \<Rightarrow> s)"
| "handleListKeyDown lower now SpaceKey s =
     (case activeId s of Some i \<Rightarrow> if i \<noteq> [] then handleSelect i s else s | None \<Rightarrow> s)"
| "handleListKeyDown lower now EscapeKey s = closeListbox s"
| "handleListKeyDown lower now TabKey s = closeListbox s"
| "handleListKeyDown lower now (CharKey key modified) s =
     (if length key = 1 \<and> \<not> modified then handleTypeahead lower now key s else s)"

definition handleTriggerKeyDown :: "list_key \<Rightarrow> selector \<Rightarrow> selector" where
  "handleTriggerKeyDown key s =
     (if \<not> sl_open s then (if key = ArrowDown \<or> key = ArrowUp then openListbox s else s)
      else if key = EscapeKey then closeListbox s else s)"

section \<open>Events\<close>

datatype selector_event =
    ClickTrigger
  | TriggerKey list_key
  | ListKey int list_key
  | ClickOption string
  | ClickOutside
  | SelectorRenders selector_props

text \<open>The trigger and the list exist only when there are connections, the list only while it is open.\<close>

fun selector_event_step :: "(string \<Rightarrow> string) \<Rightarrow> selector_event \<Rightarrow> selector \<Rightarrow> selector" where
  "selector_event_step lower ClickTrigger s =
     (if sel_connections (sl_props s) = [] then s else if sl_open s then s\<lparr>sl_open := False\<rparr> else openListbox s)"
| "selector_event_step lower (TriggerKey key) s =
     (if sel_connections (sl_props s) = [] then s else handleTriggerKeyDown key s)"
| "selector_event_step lower (ListKey now key) s =
     (if sel_connections (sl_props s) = [] \<or> \<not> sl_open s then s else handleListKeyDown lower now key s)"
| "selector_event_step lower (ClickOption i) s =
     (if sl_open s \<and> i \<in> set (ids_of (sel_connections (sl_props s))) then handleSelect i s else s)"
| "selector_event_step lower ClickOutside s = (if sl_open s then s\<lparr>sl_open := False\<rparr> else s)"
| "selector_event_step lower (SelectorRenders props) s = s\<lparr>sl_props := props\<rparr>"

definition selector_step :: "(string \<Rightarrow> string) \<Rightarrow> selector_event \<Rightarrow> selector \<Rightarrow> selector" where
  "selector_step lower e s = autoselect (selector_event_step lower e s)"

definition selector_run :: "(string \<Rightarrow> string) \<Rightarrow> selector_event list \<Rightarrow> selector \<Rightarrow> selector" where
  "selector_run lower es s = foldl (\<lambda>q e. selector_step lower e q) s es"

section \<open>The type-ahead searches all options, starting after the active one\<close>

lemma search_steps_Some:
  assumes "search_steps lower cs current q step left = Some c" and "cs \<noteq> []"
  shows "c \<in> set cs \<and> starts_with (lower (uc_display_name c)) q"
  using assms
proof (induction left arbitrary: step)
  case (Suc left)
  have "nat ((current + int step) mod int (length cs)) < length cs"
    using assms(2) by (simp add: nat_less_iff)
  with Suc show ?case by (auto simp: Let_def split: if_splits)
qed simp

lemma search_steps_None:
  "search_steps lower cs current q step left = None \<Longrightarrow> k < left \<Longrightarrow>
   \<not> starts_with (lower (uc_display_name (cs ! nat ((current + int (step + k)) mod int (length cs))))) q"
proof (induction left arbitrary: step k)
  case (Suc left)
  then have rest: "search_steps lower cs current q (step + 1) left = None"
    and here: "\<not> starts_with (lower (uc_display_name (cs ! nat ((current + int step) mod int (length cs))))) q"
    by (auto simp: Let_def split: if_splits)
  show ?case
  proof (cases k)
    case 0
    with here show ?thesis by simp
  next
    case (Suc m)
    with Suc.IH [OF rest, of m] Suc.prems(2) show ?thesis by simp
  qed
qed simp

text \<open>The steps reach every option.\<close>

lemma steps_reach:
  assumes "i < length cs"
  obtains k where "k < length cs" "nat ((current + int (1 + k)) mod int (length cs)) = i"
proof -
  let ?n = "int (length cs)"
  let ?k = "nat ((int i - current - 1) mod ?n)"
  have n: "0 < ?n" using assms by (cases cs) auto
  then have "0 \<le> (int i - current - 1) mod ?n" and lt: "(int i - current - 1) mod ?n < ?n" by simp_all
  then have k: "int ?k = (int i - current - 1) mod ?n" by simp
  have "(current + int (1 + ?k)) mod ?n = (current + 1 + (int i - current - 1)) mod ?n"
    using k by (metis ab_semigroup_add_class.add_ac(1) mod_add_right_eq of_nat_1 of_nat_add)
  also have "\<dots> = int i" using assms by simp
  finally have "nat ((current + int (1 + ?k)) mod ?n) = i" by simp
  moreover have "int ?k < ?n" using k lt by linarith
  then have "?k < length cs" by (simp only: of_nat_less_iff)
  ultimately show ?thesis by (rule that [rotated])
qed

lemma search_steps_complete:
  assumes "search_steps lower cs current q 1 (length cs) = None" and "c \<in> set cs"
  shows "\<not> starts_with (lower (uc_display_name c)) q"
proof -
  from assms(2) obtain i where i: "i < length cs" "c = cs ! i" by (auto simp: in_set_conv_nth)
  obtain k where "k < length cs" "nat ((current + int (1 + k)) mod int (length cs)) = i"
    using steps_reach [OF i(1), of current] .
  with search_steps_None [OF assms(1)] i(2) show ?thesis by metis
qed

lemma search_queries_Some:
  "search_queries lower cs current qs = Some c \<Longrightarrow> cs \<noteq> [] \<Longrightarrow>
   c \<in> set cs \<and> list_ex (starts_with (lower (uc_display_name c))) qs"
  by (induction qs) (auto split: option.splits dest: search_steps_Some)

lemma search_queries_None:
  "search_queries lower cs current qs = None \<Longrightarrow> c \<in> set cs \<Longrightarrow>
   list_all (\<lambda>q. \<not> starts_with (lower (uc_display_name c)) q) qs"
  by (induction qs) (auto split: option.splits dest: search_steps_complete [unfolded One_nat_def])

text \<open>A typed character moves to an option that starts with it or with the buffer, whenever one starts with it.\<close>

lemma typeahead_finds:
  assumes "c \<in> set (sel_connections (sl_props s))" and "starts_with (lower (uc_display_name c)) (lower key)"
  shows "\<exists>d \<in> set (sel_connections (sl_props s)).
    requestedFocusedId (handleTypeahead lower now key s) = Some (uc_id d) \<and>
    (starts_with (lower (uc_display_name d)) (lower (typeahead_text (handleTypeahead lower now key s))) \<or>
     starts_with (lower (uc_display_name d)) (lower key))"
proof -
  let ?cs = "sel_connections (sl_props s)"
  define buffer where "buffer = (if now - typeahead_time s \<le> TYPEAHEAD_RESET_MS then typeahead_text s @ key else key)"
  define qs where "qs = (if lower buffer = lower key then [lower buffer] else [lower buffer, lower key])"
  have ne: "?cs \<noteq> []" using assms(1) by auto
  have h: "handleTypeahead lower now key s =
      (case search_queries lower ?cs (currentIndex s) qs of
         Some d \<Rightarrow> s\<lparr>typeahead_text := buffer, typeahead_time := now, requestedFocusedId := Some (uc_id d)\<rparr>
       | None \<Rightarrow> s\<lparr>typeahead_text := buffer, typeahead_time := now\<rparr>)"
    using ne by (simp add: handleTypeahead_def Let_def buffer_def [symmetric] qs_def [symmetric])
  show ?thesis
  proof (cases "search_queries lower ?cs (currentIndex s) qs")
    case None
    with search_queries_None [OF None assms(1)] assms(2) show ?thesis by (auto simp: qs_def split: if_splits)
  next
    case (Some d)
    with search_queries_Some [OF Some ne] show ?thesis unfolding h by (auto simp: qs_def split: if_splits)
  qed
qed

section \<open>Only listed connections are selected\<close>

lemma default_option_listed:
  "pred_option (\<lambda>i. i \<in> set (ids_of (sel_connections props))) (default_option props)"
  "default_option props = None \<longleftrightarrow> sel_connections props = []"
  by (auto simp: default_option_def ids_of_def split: option.splits list.splits dest!: find_first_Some)

lemma activeId_listed:
  "pred_option (\<lambda>i. i \<in> set (ids_of (sel_connections (sl_props s)))) (activeId s)"
  "activeId s = None \<longleftrightarrow> sel_connections (sl_props s) = []"
  using default_option_listed [of "sl_props s"]
  by (auto simp: activeId_def ids_of_def split: option.splits)

definition selections_ok :: "selector \<Rightarrow> bool" where
  "selections_ok s = list_all (\<lambda>x. fst x \<in> set (ids_of (sel_connections (snd x)))) (sl_selected s)"

lemma selections_ok_simps [simp]:
  "selections_ok (s\<lparr>sl_open := b\<rparr>) = selections_ok s" "selections_ok (s\<lparr>requestedFocusedId := r\<rparr>) = selections_ok s"
  "selections_ok (openListbox s) = selections_ok s" "selections_ok (closeListbox s) = selections_ok s"
  "selections_ok (moveActive n s) = selections_ok s" "selections_ok (handleTypeahead lower now key s) = selections_ok s"
  "selections_ok (s\<lparr>sl_props := props\<rparr>) = selections_ok s" "selections_ok (handleTriggerKeyDown k s) = selections_ok s"
  by (simp_all add: selections_ok_def openListbox_def closeListbox_def moveActive_def handleTypeahead_def handleTriggerKeyDown_def
      Let_def split: option.split)

lemma selections_ok_select:
  "selections_ok s \<Longrightarrow> i \<in> set (ids_of (sel_connections (sl_props s))) \<Longrightarrow> selections_ok (handleSelect i s)"
  by (simp add: selections_ok_def handleSelect_def)

lemma selections_ok_autoselect: "selections_ok s \<Longrightarrow> selections_ok (autoselect s)"
  by (auto simp: autoselect_def selections_ok_def ids_of_def split: list.splits)

lemma selections_ok_list_key: "selections_ok s \<Longrightarrow> selections_ok (handleListKeyDown lower now key s)"
  using activeId_listed(1) [of s]
  by (cases key) (auto simp: selections_ok_select split: option.splits)

lemma selections_ok_step: "selections_ok s \<Longrightarrow> selections_ok (selector_step lower e s)"
  unfolding selector_step_def
  by (rule selections_ok_autoselect, cases e) (simp_all add: selections_ok_select selections_ok_list_key)

lemma selections_ok_run: "selections_ok (selector_run lower es (mount_selector props))"
  unfolding selector_run_def
proof (rule foldl_invariant)
  show "selections_ok (mount_selector props)"
    unfolding mount_selector_def by (rule selections_ok_autoselect) (simp add: selections_ok_def)
qed (rule selections_ok_step)

text \<open>
  However the list box is used, and whenever the connections change under it, a connection is selected only if it is
  listed at that moment, and the active option is a listed one as long as there is any.
\<close>

lemma only_listed_databases_selected:
  "list_all (\<lambda>x. fst x \<in> set (ids_of (sel_connections (snd x)))) (sl_selected (selector_run lower es (mount_selector props))) \<and>
   pred_option (\<lambda>i. i \<in> set (ids_of (sel_connections (sl_props (selector_run lower es (mount_selector props))))))
     (activeId (selector_run lower es (mount_selector props))) \<and>
   (activeId (selector_run lower es (mount_selector props)) = None) =
     (sel_connections (sl_props (selector_run lower es (mount_selector props))) = [])"
  using selections_ok_run [of lower es props] activeId_listed by (simp add: selections_ok_def)

end
