(* ===== verification/Spec2Isabelle.thy ===== *)
theory Spec2Isabelle
  imports Permissions Request_Scope Session_Deletion Query_Submit Response_Stripping Sessions
    Identity_Boundary Workspace Sidebar Connection_Selection Admin_Roles Audit_Download Api_Client
    Quota_Admin Detection_Admin Audit_Page Role_Saving Connections_Page Sso_Admin
    Prompt_Input Database_Selector
begin

text \<open>
  A verification development of the QueryCraft web client, the TypeScript program under \<open>src/frontend/src\<close>.
  QueryCraft turns questions into SQL; its server decides what a user may see, and the client asks, shows,
  caches and administers. What the client can get wrong is what this development is about: accepting an answer
  that is not what the contract declares, showing one user's data to another, showing the answer of a deleted
  session, losing or repeating a change, saving something other than what is on the screen.

  \<^bold>\<open>How the program is put together.\<close> Every request goes through the generated client (\<open>api/generated\<close>: an SDK
  function per operation, URL and parameter serialization) and every answer through the response boundary
  (\<open>api/responseValidation.ts\<close>), which matches the request with an operation of the shipped manifest, validates
  the body and strips what the schema does not declare. A request belongs to a scope (\<open>api/requestScope.ts\<close>)
  with one abort reason. \<open>providers/QueryProvider.tsx\<close> keeps one query client per identity and reacts to the
  session and permission events of \<open>auth/\<close>; the route guards of \<open>App.tsx\<close> show a page only with its permission.
  Inside, the workspace (\<open>pages/WorkspacePage.tsx\<close> over \<open>hooks/useQuerySubmit.ts\<close>), the sidebar with its undo
  toasts, and the administration pages keep their own state over the query cache. The deletion lifecycle
  (\<open>sessionDeletionLifecycle.ts\<close>) is the module state through which the hooks learn that a session is going away.

  \<^bold>\<open>How it is modelled.\<close> A component's state is a record with the fields of its state hooks, refs and module
  variables, next to logs of what it sent; an operation, effect or callback is a function on that record; what
  the user, the server, the clock and the browser may do are the constructors of an event type, and a run is any
  list of events from the mounted state, so that a property of all runs covers every interleaving. A handler is
  guarded by the code's own conditions and by the condition under which the page offers its control. An awaited
  call is split into the part before and the part after the await. Values that come from outside are \<open>jsval\<close>s,
  thrown errors \<open>Inl\<close> of a sum, absent optional values \<open>None\<close>. A translated message stands for its key. The
  query library is modelled as far as the code relies on it (keys, placeholder data, cache writes and
  invalidations); a mutation is the request it sends and its later settlement.

  \<^bold>\<open>The theories.\<close>

  \<^item> \<open>Js_Prelude\<close>: JavaScript values, truthiness, property reads, strings, errors and their
  classes, ordered maps without duplicates. \<open>Js_Number\<close>: \<open>Number(s)\<close> with rounding to doubles, safe integers, the
  value of a number input. \<open>Json_Canonical\<close>: \<open>JSON.stringify\<close> and the order-insensitive comparison of
  \<open>useAdminRoles.ts\<close>. \<open>Json_Parse\<close>: \<open>JSON.parse\<close> and that it inverts \<open>JSON.stringify\<close>. \<open>Single_Flight\<close>: induction
  over runs and the contract of a component with one request in flight. \<open>Admin_Forms\<close>: error keys, toasts, the
  banner of a query.
  \<^item> \<open>Response_Manifest\<close> is the shipped manifest; \<open>Response_Validation\<close> the boundary that interprets it;
  \<open>Response_Stripping\<close> the specification of stripping and the proof that nothing undeclared passes where a schema
  declares properties (and that the entries of maps do pass), that an answer always comes out, and that accepted
  results are rectangular.
  \<^item> \<open>Sdk\<close> and \<open>Api_Client\<close>: the request functions and the URL they build; that the boundary matches every request
  with its own operation.
  \<^item> \<open>Request_Scope\<close>: one reason, one notification, nothing left behind. \<open>Session_Deletion\<close>: a version snapshot
  detects exactly the deletions after it, until an identity reset forgets them. \<open>Query_Submit\<close>: one operation at a time, silent after cancellation or
  deletion, always released. \<open>Sessions\<close>: list and detail hooks, deletion from the cached pages. \<open>Sidebar\<close>: the undo
  toasts, their countdown and what they delete. \<open>Workspace\<close>: the turns of a conversation. \<open>Prompt_Input\<close>: the
  question as it is stripped, counted and sent. \<open>Database_Selector\<close>: the list box with its keys and type-ahead.
  \<^item> \<open>Permissions\<close>: the catalogue, the guards, the expiry and permission signals. \<open>Ui_Store\<close>: the UI store.
  \<open>Identity_Boundary\<close>: one client per identity, nobody after an expiry.
  \<^item> \<open>Connection_Selection\<close>: which selections are sent. \<open>Audit_Download\<close>: the file name of an export;
  \<open>Audit_Page\<close>: filters, searches and exports. \<open>Quota_Admin\<close>: quotas with the recovery kept in the session storage.
  \<open>Detection_Admin\<close>: the detection thresholds. \<open>Admin_Roles\<close>: saving a role over an unreliable network;
  \<open>Policy_Editor\<close>, \<open>Policy_Preview\<close>, \<open>Roles_Page\<close>: the policies of a role, the preview of a draft, the role form;
  \<open>Role_Saving\<close>: the form and the mutation together, from the button to the message. \<open>Connection_Form\<close>: the
  connections an administrator sees, the error keys and the form; \<open>Connection_Rows\<close>: testing, refreshing, disabling,
  enabling and deleting a connection; \<open>Connections_Page\<close>: the page around them, and that a
  save carries the credentials typed into its form and no others. \<open>Sso_Admin\<close>: the single sign-on
  providers and what happens to their stored secrets.

  \<^bold>\<open>Interfaces.\<close> \<open>owned_scope\<close> (\<open>Request_Scope\<close>) is what the query hook relies on of a scope, interpreted on
  \<open>RequestScope\<close>; \<open>deletion_tracker\<close> (\<open>Session_Deletion\<close>) is what readers rely on of the lifecycle, interpreted on
  its module state for every operation but the identity reset; \<open>operation_type\<close> (\<open>Quota_Admin\<close>) carries a type of recovery operations through every step of
  the page, interpreted for the well-formed operations and for those the page itself built; \<open>single_flight\<close> is
  interpreted for the detection page, the policy preview, the role page, the audit exports, the connection page,
  the test and refresh buttons of its rows, the page of the sign-on providers, and the
  prompt.

  \<^bold>\<open>Bounds and fuel.\<close> The sanitizer has fuel \<open>2 * size body + 3\<close>, which suffices on the shipped manifest for every
  body and is proved to; the JSON reader has fuel twice the length of the text plus one, which suffices for every
  text. All other recursion is structural or has a measure. Strings are lists of characters up to 255, code units
  where a decoder or a count of code points needs more (\<open>Audit_Download\<close>, \<open>Prompt_Input\<close>).

  \<^bold>\<open>Not modelled.\<close> The Python server and its database adapters: the client is specified against any server. Markup,
  styles, translations and focus management: no state of their own. The fetch pipeline, server-sent events and the
  key serializer of the generated client runtime, and the generated TypeScript types and JSON schemas beyond those
  the manifest and the pages use: type-level or unused at run time. The history pages, the settings page, the sign-in
  form, the paging of the result table and the feedback cards: display of one query or a form around one request, left
  out. The components of PROJECT.json list them with their files.
\<close>

text \<open>
  C40. The administration pages and the prompt never let their requests run ahead of the answers: however the user clicks and in
  whatever order the answers come, the threshold updates, role saves, policy previews, audit exports, connection and
  provider saves, connection tests, schema refreshes and questions that were sent are, kind by kind, at most one more than the
  requests of that same kind that were answered. An answer is a settlement of that kind that found such a request in flight
  and ended it (\<open>answered\<close>).
\<close>

theorem requests_never_outrun_answers:
  "length (detection_sent (detection_run num can ds)) \<le>
     answered (detection_step num can) update_pending detection_settles ds open_detection + 1 \<and>
   length (saves_sent (roles_run rs (mount_roles cache))) \<le>
     answered roles_step (\<lambda>p. rp_saving p \<noteq> None) roles_settlement rs (mount_roles cache) + 1 \<and>
   length (previews_sent (preview_run can ps mount_preview)) \<le>
     answered (\<lambda>x. preview_step can (fst x) (snd x)) inFlightRef preview_settlement ps mount_preview + 1 \<and>
   length (exports_sent (audit_run can es (mount_audit can))) \<le>
     answered (audit_step can) (\<lambda>p. export_running p \<noteq> None) export_settlement es (mount_audit can) + 1 \<and>
   length (cp_saves (connections_run cs (mount_connections can))) \<le>
     answered connections_step saving save_settlement cs (mount_connections can) + 1 \<and>
   requests_of OpTest (row_run ts fresh_row) \<le>
     answered (\<lambda>x. row_step (fst x) (snd x)) (\<lambda>r. is_pending (row_status r OpTest)) (row_settlement OpTest) ts fresh_row + 1 \<and>
   requests_of OpRefreshSchema (row_run ts fresh_row) \<le>
     answered (\<lambda>x. row_step (fst x) (snd x)) (\<lambda>r. is_pending (row_status r OpRefreshSchema))
       (row_settlement OpRefreshSchema) ts fresh_row + 1 \<and>
   sso_saves (sso_run ss (mount_sso can)) \<le> answered sso_step sso_saving sso_settlement ss (mount_sso can) + 1 \<and>
   length (pi_sent (prompt_run qs (mount_prompt props))) \<le>
     answered prompt_step submissionInFlightRef prompt_settlement qs (mount_prompt props) + 1"
proof (intro conjI)
  show "length (detection_sent (detection_run num can ds)) \<le>
     answered (detection_step num can) update_pending detection_settles ds open_detection + 1"
    using detection_flight.requests_follow_answers [where num = num and can = can and s = open_detection and es = ds]
    by (simp add: detection_run_of open_detection_def)
  show "length (saves_sent (roles_run rs (mount_roles cache))) \<le>
     answered roles_step (\<lambda>p. rp_saving p \<noteq> None) roles_settlement rs (mount_roles cache) + 1"
    using roles_flight.requests_follow_answers [OF saving_inv_mount, where es = rs]
    by (simp add: roles_run_of mount_roles_def)
  show "length (previews_sent (preview_run can ps mount_preview)) \<le>
     answered (\<lambda>x. preview_step can (fst x) (snd x)) inFlightRef preview_settlement ps mount_preview + 1"
    using preview_flight.requests_follow_answers [OF preview_inv_mount, where can = can and es = ps]
    by (simp add: preview_run_of mount_preview_def)
  have "owned_inv (mount_audit can)" and "export_running (mount_audit can) = None" and "exports_sent (mount_audit can) = []"
    by (simp_all add: owned_inv_def mount_audit_def start_fetch_def)
  then show "length (exports_sent (audit_run can es (mount_audit can))) \<le>
     answered (audit_step can) (\<lambda>p. export_running p \<noteq> None) export_settlement es (mount_audit can) + 1"
    using export_flight.requests_follow_answers [where s = "mount_audit can" and can = can and es = es] by (simp add: audit_run_of)
  show "length (cp_saves (connections_run cs (mount_connections can))) \<le>
     answered connections_step saving save_settlement cs (mount_connections can) + 1"
    using connections_flight.requests_follow_answers [OF conn_page_inv_mount, where es = cs]
    by (simp add: connections_run_of mount_connections_def saving_def)
  show "requests_of OpTest (row_run ts fresh_row) \<le>
     answered (\<lambda>x. row_step (fst x) (snd x)) (\<lambda>r. is_pending (row_status r OpTest)) (row_settlement OpTest) ts fresh_row + 1"
    using test_flight.requests_follow_answers [where s = fresh_row and es = ts]
    by (simp add: test_run_of fresh_row_def requests_of_def)
  show "requests_of OpRefreshSchema (row_run ts fresh_row) \<le>
     answered (\<lambda>x. row_step (fst x) (snd x)) (\<lambda>r. is_pending (row_status r OpRefreshSchema))
       (row_settlement OpRefreshSchema) ts fresh_row + 1"
    using refresh_flight.requests_follow_answers [where s = fresh_row and es = ts]
    by (simp add: refresh_run_of fresh_row_def requests_of_def)
  show "sso_saves (sso_run ss (mount_sso can)) \<le> answered sso_step sso_saving sso_settlement ss (mount_sso can) + 1"
    using sso_flight.requests_follow_answers [where s = "mount_sso can" and es = ss]
    by (simp add: sso_run_of mount_sso_def sso_saving_def sso_saves_def)
  show "length (pi_sent (prompt_run qs (mount_prompt props))) \<le>
     answered prompt_step submissionInFlightRef prompt_settlement qs (mount_prompt props) + 1"
    using prompt_flight.requests_follow_answers [where s = "mount_prompt props" and es = qs]
    by (simp add: prompt_run_of mount_prompt_def)
qed

end
